(* ===== verification/Prelude.thy ===== *)
theory Prelude
  imports Complex_Main "HOL-Library.Word" "HOL-Library.Multiset" "HOL-Library.Sublist"
    "HOL-Library.List_Lexorder" "HOL-Library.Char_ord"
begin

text \<open>
  The vocabulary the components share: JavaScript numbers with \<open>NaN\<close> and the infinities,
  results that carry a thrown error on the left, the string operations the sources call
  (\<open>split\<close>, \<open>join\<close>, \<open>toLowerCase\<close>, \<open>includes\<close>), the stable \<open>Array.prototype.sort\<close> with the
  contract of its comparator as a locale, and the lemma collections the component proofs use.
\<close>

named_theorems result_simps "equations of the result combinators"
named_theorems num_simps "comparisons and tests of JavaScript numbers"

section \<open>Results: a value, or the error that was thrown\<close>

definition bindE :: "'e + 'a \<Rightarrow> ('a \<Rightarrow> 'e + 'b) \<Rightarrow> 'e + 'b" where
  "bindE r f = (case r of Inl e \<Rightarrow> Inl e | Inr a \<Rightarrow> f a)"

definition guardE :: "bool \<Rightarrow> 'e \<Rightarrow> 'e + unit" where
  "guardE ok e = (if ok then Inr () else Inl e)"

lemma bindE_Inl [simp, result_simps]: "bindE (Inl e) f = Inl e"
  by (simp add: bindE_def)

lemma bindE_Inr [simp, result_simps]: "bindE (Inr a) f = f a"
  by (simp add: bindE_def)

lemma guardE_True [simp, result_simps]: "guardE True e = Inr ()"
  by (simp add: guardE_def)

lemma guardE_False [simp, result_simps]: "guardE False e = Inl e"
  by (simp add: guardE_def)

lemma bindE_eq_Inr: "bindE r f = Inr b \<longleftrightarrow> (\<exists>a. r = Inr a \<and> f a = Inr b)"
  by (cases r) auto

lemma bindE_eq_Inl: "bindE r f = Inl e \<longleftrightarrow> r = Inl e \<or> (\<exists>a. r = Inr a \<and> f a = Inl e)"
  by (cases r) auto

lemma guardE_eq_Inr: "guardE ok e = Inr u \<longleftrightarrow> ok"
  by (simp add: guardE_def)

lemma guardE_eq_Inl: "guardE ok e = Inl e' \<longleftrightarrow> \<not> ok \<and> e' = e"
  by (auto simp: guardE_def)

lemmas result_elims = bindE_eq_Inr bindE_eq_Inl guardE_eq_Inr guardE_eq_Inl

text \<open>\<open>Array.prototype.map\<close> with a callback that may throw: the first error wins.\<close>

fun mapE :: "('a \<Rightarrow> 'e + 'b) \<Rightarrow> 'a list \<Rightarrow> 'e + 'b list" where
  "mapE f [] = Inr []"
| "mapE f (x # xs) = bindE (f x) (\<lambda>y. bindE (mapE f xs) (\<lambda>ys. Inr (y # ys)))"

lemma mapE_eq_Inr: "mapE f xs = Inr ys \<longleftrightarrow> list_all2 (\<lambda>x y. f x = Inr y) xs ys"
  by (induction xs arbitrary: ys) (auto simp: bindE_eq_Inr list_all2_Cons1)

text \<open>A loop that threads a state and stops at the first error.\<close>

fun foldE :: "('s \<Rightarrow> 'b \<Rightarrow> 'e + 's) \<Rightarrow> 's \<Rightarrow> 'b list \<Rightarrow> 'e + 's" where
  "foldE f s [] = Inr s"
| "foldE f s (x # xs) = bindE (f s x) (\<lambda>s'. foldE f s' xs)"

lemma foldE_append: "foldE f s (xs @ ys) = bindE (foldE f s xs) (\<lambda>s'. foldE f s' ys)"
  by (induction xs arbitrary: s) (auto simp: bindE_def split: sum.splits)

lemma foldE_total: "(\<And>s x. f s x = Inr (g s x)) \<Longrightarrow> foldE f s xs = Inr (foldl g s xs)"
  by (induction xs arbitrary: s) auto

lemma foldE_invariant:
  assumes "foldE f s xs = Inr s'" and "P s" and "\<And>s x s'. P s \<Longrightarrow> f s x = Inr s' \<Longrightarrow> P s'"
  shows "P s'"
  using assms(1,2) by (induction xs arbitrary: s) (auto simp: bindE_eq_Inr dest: assms(3))

section \<open>Effects: a state threaded through, and an error that keeps it\<close>

text \<open>An \<open>async\<close> function that reaches outside: it returns the state it leaves behind whether it throws
  or not. \<open>catchS\<close> is \<open>try\<close>/\<open>catch\<close>.\<close>

type_synonym ('s, 'e, 'a) effect = "'s \<Rightarrow> 's \<times> ('e + 'a)"

definition retS :: "'a \<Rightarrow> ('s, 'e, 'a) effect" where
  "retS a = (\<lambda>s. (s, Inr a))"

definition failS :: "'e \<Rightarrow> ('s, 'e, 'a) effect" where
  "failS e = (\<lambda>s. (s, Inl e))"

definition pureS :: "'e + 'a \<Rightarrow> ('s, 'e, 'a) effect" where
  "pureS r = (\<lambda>s. (s, r))"

definition thenS :: "('s, 'e, 'a) effect \<Rightarrow> ('a \<Rightarrow> ('s, 'e, 'b) effect) \<Rightarrow> ('s, 'e, 'b) effect" where
  "thenS m f = (\<lambda>s. case m s of (s', Inl e) \<Rightarrow> (s', Inl e) | (s', Inr a) \<Rightarrow> f a s')"

definition catchS :: "('s, 'e, 'a) effect \<Rightarrow> ('e \<Rightarrow> ('s, 'f, 'a) effect) \<Rightarrow> ('s, 'f, 'a) effect" where
  "catchS m h = (\<lambda>s. case m s of (s', Inl e) \<Rightarrow> h e s' | (s', Inr a) \<Rightarrow> (s', Inr a))"

lemma effect_apply [simp, result_simps]:
  "retS a s = (s, Inr a)" "failS e s = (s, Inl e)" "pureS r s = (s, r)"
  by (simp_all add: retS_def failS_def pureS_def)

lemma thenS_Inr: "thenS m f s = (t, Inr b) \<longleftrightarrow> (\<exists>s' a. m s = (s', Inr a) \<and> f a s' = (t, Inr b))"
  by (auto simp: thenS_def split: prod.splits sum.splits)

lemma thenS_Inl: "thenS m f s = (t, Inl e) \<longleftrightarrow> m s = (t, Inl e) \<or> (\<exists>s' a. m s = (s', Inr a) \<and> f a s' = (t, Inl e))"
  by (auto simp: thenS_def split: prod.splits sum.splits)

lemma catchS_Inr: "catchS m h s = (t, Inr a) \<longleftrightarrow> m s = (t, Inr a) \<or> (\<exists>s' e. m s = (s', Inl e) \<and> h e s' = (t, Inr a))"
  by (auto simp: catchS_def split: prod.splits sum.splits)

lemma catchS_Inl: "catchS m h s = (t, Inl f) \<longleftrightarrow> (\<exists>s' e. m s = (s', Inl e) \<and> h e s' = (t, Inl f))"
  by (auto simp: catchS_def split: prod.splits sum.splits)

lemmas effect_elims = thenS_Inr thenS_Inl catchS_Inr catchS_Inl

text \<open>A relation between the state before and after, kept by every step, is kept by their sequence.\<close>

definition keeps :: "('s \<Rightarrow> 's \<Rightarrow> bool) \<Rightarrow> ('s, 'e, 'a) effect \<Rightarrow> bool" where
  "keeps R m = (\<forall>s. R s (fst (m s)))"

lemma keeps_intros:
  assumes "\<And>s. R s s" and "\<And>a b c. R a b \<Longrightarrow> R b c \<Longrightarrow> R a c"
  shows "keeps R (retS a)" "keeps R (failS e)" "keeps R (pureS r)"
    "keeps R m \<Longrightarrow> (\<And>a. keeps R (f a)) \<Longrightarrow> keeps R (thenS m f)"
    "keeps R m \<Longrightarrow> (\<And>e. keeps R (h e)) \<Longrightarrow> keeps R (catchS m h)"
  using assms unfolding keeps_def thenS_def catchS_def
  by (auto split: prod.splits sum.splits) (metis fst_conv)+

section \<open>Numbers\<close>

text \<open>
  A JavaScript number is a finite value, an infinity or \<open>NaN\<close>. Every comparison with \<open>NaN\<close> is
  false, which the guards of the sources depend on. Finite values are exact: the sources
  count, add and compare quantities far below \<open>2^53\<close>, where IEEE doubles are exact too.
\<close>

datatype number = Num rat | PosInf | NegInf | NaN

fun num_lt :: "number \<Rightarrow> number \<Rightarrow> bool" where
  "num_lt (Num a) (Num b) = (a < b)"
| "num_lt (Num _) PosInf = True"
| "num_lt NegInf (Num _) = True"
| "num_lt NegInf PosInf = True"
| "num_lt _ _ = False"

fun num_le :: "number \<Rightarrow> number \<Rightarrow> bool" where
  "num_le (Num a) (Num b) = (a \<le> b)"
| "num_le (Num _) PosInf = True"
| "num_le NegInf (Num _) = True"
| "num_le NegInf PosInf = True"
| "num_le NegInf NegInf = True"
| "num_le PosInf PosInf = True"
| "num_le _ _ = False"

fun is_finite :: "number \<Rightarrow> bool" where
  "is_finite (Num _) = True"
| "is_finite _ = False"

fun is_integer :: "number \<Rightarrow> bool" where
  "is_integer (Num a) = (of_int \<lfloor>a\<rfloor> = a)"
| "is_integer _ = False"

definition max_safe_integer :: int where
  "max_safe_integer = 9007199254740991"

fun is_safe_integer :: "number \<Rightarrow> bool" where
  "is_safe_integer (Num a) = (of_int \<lfloor>a\<rfloor> = a \<and> \<bar>a\<bar> \<le> of_int max_safe_integer)"
| "is_safe_integer _ = False"

text \<open>The strict equality \<open>===\<close>: \<open>NaN\<close> equals nothing, not even itself.\<close>

definition num_eq :: "number \<Rightarrow> number \<Rightarrow> bool" where
  "num_eq a b = (a = b \<and> a \<noteq> NaN)"

definition num_of_int :: "int \<Rightarrow> number" where
  "num_of_int i = Num (of_int i)"

fun num_neg :: "number \<Rightarrow> number" where
  "num_neg (Num a) = Num (- a)"
| "num_neg PosInf = NegInf"
| "num_neg NegInf = PosInf"
| "num_neg NaN = NaN"

fun num_add :: "number \<Rightarrow> number \<Rightarrow> number" where
  "num_add (Num a) (Num b) = Num (a + b)"
| "num_add (Num _) b = b"
| "num_add a (Num _) = a"
| "num_add PosInf PosInf = PosInf"
| "num_add NegInf NegInf = NegInf"
| "num_add _ _ = NaN"

definition num_sub :: "number \<Rightarrow> number \<Rightarrow> number" where
  "num_sub a b = num_add a (num_neg b)"

lemma num_sub_num_of_int [simp, num_simps]:
  "num_sub (num_of_int i) (num_of_int j) = num_of_int (i - j)"
  by (simp add: num_sub_def num_of_int_def)

lemma num_of_int_le [simp, num_simps]: "num_le (num_of_int i) (num_of_int j) \<longleftrightarrow> i \<le> j"
  by (simp add: num_of_int_def)

lemma num_of_int_lt [simp, num_simps]: "num_lt (num_of_int i) (num_of_int j) \<longleftrightarrow> i < j"
  by (simp add: num_of_int_def)

lemma num_of_int_eq [simp, num_simps]: "num_of_int i = num_of_int j \<longleftrightarrow> i = j"
  by (simp add: num_of_int_def)

lemma num_eq_num_of_int [simp, num_simps]: "num_eq (num_of_int i) (num_of_int j) \<longleftrightarrow> i = j"
  by (simp add: num_eq_def num_of_int_def)

lemma num_eq_Num [simp, num_simps]: "num_eq (Num a) (Num b) \<longleftrightarrow> a = b"
  by (simp add: num_eq_def)

lemma is_finite_num_of_int [simp, num_simps]: "is_finite (num_of_int i)"
  by (simp add: num_of_int_def)

lemma is_integer_num_of_int [simp, num_simps]: "is_integer (num_of_int i)"
  by (simp add: num_of_int_def)

lemma is_safe_integer_num_of_int [simp, num_simps]:
  "is_safe_integer (num_of_int i) \<longleftrightarrow> \<bar>i\<bar> \<le> max_safe_integer"
proof -
  have "\<bar>rat_of_int i\<bar> \<le> of_int max_safe_integer \<longleftrightarrow> of_int \<bar>i\<bar> \<le> rat_of_int max_safe_integer"
    by simp
  then show ?thesis
    by (simp only: num_of_int_def is_safe_integer.simps floor_of_int of_int_le_iff) simp
qed

lemma is_integerE: "is_integer n \<Longrightarrow> (\<And>i. n = num_of_int i \<Longrightarrow> P) \<Longrightarrow> P"
  unfolding num_of_int_def by (cases n) (simp_all, metis)

lemma is_safe_integerE:
  "is_safe_integer n \<Longrightarrow> (\<And>i. n = num_of_int i \<Longrightarrow> \<bar>i\<bar> \<le> max_safe_integer \<Longrightarrow> P) \<Longrightarrow> P"
proof (cases n)
  case (Num a)
  assume s: "is_safe_integer n" and k: "\<And>i. n = num_of_int i \<Longrightarrow> \<bar>i\<bar> \<le> max_safe_integer \<Longrightarrow> P"
  from s Num have "of_int \<lfloor>a\<rfloor> = a" by (simp only: is_safe_integer.simps)
  with Num have "n = num_of_int \<lfloor>a\<rfloor>" by (simp only: num_of_int_def)
  with s k show P by (metis is_safe_integer_num_of_int)
qed simp_all

lemma not_num_lt_iff_le: "is_finite a \<Longrightarrow> is_finite b \<Longrightarrow> \<not> num_lt a b \<longleftrightarrow> num_le b a"
  by (cases a; cases b) auto

lemma num_lt_NaN [simp]: "\<not> num_lt NaN a" "\<not> num_lt a NaN" "\<not> num_le NaN a" "\<not> num_le a NaN"
  by (cases a; simp)+

lemma num_le_trans: "num_le a b \<Longrightarrow> num_le b c \<Longrightarrow> num_le a c"
  by (cases a; cases b; cases c) auto

lemma num_lt_le_trans: "num_lt a b \<Longrightarrow> num_le b c \<Longrightarrow> num_lt a c"
  by (cases a; cases b; cases c) auto

lemma num_le_not_lt: "num_le a b \<Longrightarrow> \<not> num_lt b a"
  by (cases a; cases b) auto

section \<open>Strings\<close>

text \<open>A string is its list of code units; the identifiers the sources handle are ASCII.\<close>

definition char_lower :: "char \<Rightarrow> char" where
  "char_lower c = (let n = (of_char c :: nat) in if 65 \<le> n \<and> n \<le> 90 then char_of (n + 32) else c)"

definition to_lower :: "string \<Rightarrow> string" where
  "to_lower s = map char_lower s"

text \<open>\<open>s.split(c)\<close> for a one-character separator: one part more than there are separators.\<close>

fun split_on :: "char \<Rightarrow> string \<Rightarrow> string list" where
  "split_on c [] = [[]]"
| "split_on c (x # xs) =
     (if x = c then [] # split_on c xs
      else (case split_on c xs of [] \<Rightarrow> [[x]] | w # ws \<Rightarrow> (x # w) # ws))"

fun join_with :: "string \<Rightarrow> string list \<Rightarrow> string" where
  "join_with sep [] = []"
| "join_with sep [w] = w"
| "join_with sep (w # ws) = w @ sep @ join_with sep ws"

definition str_includes :: "string \<Rightarrow> string \<Rightarrow> bool" where
  "str_includes s t = list_ex (prefix t) (suffixes s)"

definition starts_with :: "string \<Rightarrow> string \<Rightarrow> bool" where
  "starts_with s t = prefix t s"

definition ends_with :: "string \<Rightarrow> string \<Rightarrow> bool" where
  "ends_with s t = suffix t s"

text \<open>\<open>s.replace(/\.$/, "")\<close>\<close>

definition drop_trailing_dot :: "string \<Rightarrow> string" where
  "drop_trailing_dot s = (if s \<noteq> [] \<and> last s = CHR ''.'' then butlast s else s)"

lemma split_on_nonempty [simp]: "split_on c s \<noteq> []"
  by (induction s) (auto split: list.splits)

lemma split_on_no_sep: "w \<in> set (split_on c s) \<Longrightarrow> c \<notin> set w"
  by (induction s arbitrary: w) (auto split: list.splits if_splits)

lemma join_with_Cons: "ws \<noteq> [] \<Longrightarrow> join_with sep (w # ws) = w @ sep @ join_with sep ws"
  by (cases ws) auto

lemma join_split_on: "join_with [c] (split_on c s) = s"
proof (induction s)
  case Nil
  show ?case by simp
next
  case (Cons x xs)
  obtain w ws where ws: "split_on c xs = w # ws" by (cases "split_on c xs") auto
  show ?case
  proof (cases "x = c")
    case True
    then show ?thesis using Cons.IH by (simp add: join_with_Cons)
  next
    case False
    then show ?thesis using Cons.IH ws by (cases ws) auto
  qed
qed

lemma split_on_append_sep: "c \<notin> set w \<Longrightarrow> split_on c (w @ c # s) = w # split_on c s"
  by (induction w) auto

lemma split_on_no_occurrence: "c \<notin> set w \<Longrightarrow> split_on c w = [w]"
  by (induction w) auto

lemma split_on_join: "ws \<noteq> [] \<Longrightarrow> \<forall>w \<in> set ws. c \<notin> set w \<Longrightarrow> split_on c (join_with [c] ws) = ws"
proof (induction ws)
  case (Cons w ws)
  then show ?case
    by (cases ws) (auto simp: split_on_no_occurrence split_on_append_sep)
qed simp

lemma of_char_lt_256 [simp]: "(of_char c :: nat) < 256"
  by simp

lemma char_lower_idem [simp]: "char_lower (char_lower c) = char_lower c"
  by (simp add: char_lower_def Let_def)

lemma to_lower_idem [simp]: "to_lower (to_lower s) = to_lower s"
  by (simp add: to_lower_def)

lemma to_lower_append [simp]: "to_lower (s @ t) = to_lower s @ to_lower t"
  by (simp add: to_lower_def)

lemma length_to_lower [simp]: "length (to_lower s) = length s"
  by (simp add: to_lower_def)

lemma to_lower_Nil_iff [simp]: "to_lower s = [] \<longleftrightarrow> s = []"
  by (simp add: to_lower_def)

lemma char_lower_dot [simp]: "char_lower c = CHR ''.'' \<longleftrightarrow> c = CHR ''.''"
proof -
  have "(of_char (CHR ''.'') :: nat) = 46" by simp
  moreover have "of_char (char_lower c) = (46 :: nat) \<Longrightarrow> of_char c = (46 :: nat)"
    by (auto simp: char_lower_def Let_def split: if_splits)
  moreover have "char_lower (CHR ''.'') = CHR ''.''" by (simp add: char_lower_def)
  ultimately show ?thesis by (metis char_of_char)
qed

lemma normal_name_dot: "s = [] \<or> last s \<noteq> CHR ''.'' \<Longrightarrow> drop_trailing_dot (to_lower (s @ ''.'')) = drop_trailing_dot (to_lower s)"
  by (auto simp: drop_trailing_dot_def to_lower_def last_map)

lemma str_includes_iff: "str_includes s t \<longleftrightarrow> (\<exists>u v. s = u @ t @ v)"
  unfolding str_includes_def list_ex_iff set_suffixes_eq prefix_def suffix_def by blast

section \<open>Stable sorting\<close>

text \<open>
  \<open>Array.prototype.sort\<close> is stable; as an insertion from the right it is the same function on
  every comparator that orders its arguments.
\<close>

fun insert_by :: "('a \<Rightarrow> 'a \<Rightarrow> int) \<Rightarrow> 'a \<Rightarrow> 'a list \<Rightarrow> 'a list" where
  "insert_by cmp x [] = [x]"
| "insert_by cmp x (y # ys) = (if cmp x y \<le> 0 then x # y # ys else y # insert_by cmp x ys)"

fun js_sort :: "('a \<Rightarrow> 'a \<Rightarrow> int) \<Rightarrow> 'a list \<Rightarrow> 'a list" where
  "js_sort cmp [] = []"
| "js_sort cmp (x # xs) = insert_by cmp x (js_sort cmp xs)"

lemma mset_insert_by [simp]: "mset (insert_by cmp x ys) = add_mset x (mset ys)"
  by (induction ys) auto

lemma mset_js_sort [simp]: "mset (js_sort cmp xs) = mset xs"
  by (induction xs) auto

lemma set_js_sort [simp]: "set (js_sort cmp xs) = set xs"
  by (metis mset_js_sort set_mset_mset)

lemma length_js_sort [simp]: "length (js_sort cmp xs) = length xs"
  by (metis mset_js_sort size_mset)

lemma js_sort_Nil_iff [simp]: "js_sort cmp xs = [] \<longleftrightarrow> xs = []"
  by (metis length_0_conv length_js_sort)

text \<open>What \<open>sort\<close> asks of its comparator, and what it gives for it.\<close>

locale js_comparator =
  fixes cmp :: "'a \<Rightarrow> 'a \<Rightarrow> int"
  assumes cmp_total: "cmp a b \<le> 0 \<or> cmp b a \<le> 0"
    and cmp_trans: "cmp a b \<le> 0 \<Longrightarrow> cmp b c \<le> 0 \<Longrightarrow> cmp a c \<le> 0"
begin

lemma sorted_insert_by:
  "sorted_wrt (\<lambda>a b. cmp a b \<le> 0) ys \<Longrightarrow> sorted_wrt (\<lambda>a b. cmp a b \<le> 0) (insert_by cmp x ys)"
proof (induction ys)
  case (Cons y ys)
  have set: "set (insert_by cmp x ys) = insert x (set ys)"
    by (metis mset_insert_by set_mset_add_mset_insert set_mset_mset)
  show ?case
  proof (cases "cmp x y \<le> 0")
    case True
    with Cons.prems show ?thesis by (auto intro: cmp_trans)
  next
    case False
    with cmp_total have "cmp y x \<le> 0" by blast
    with False Cons set show ?thesis by auto
  qed
qed simp

lemma sorted_js_sort: "sorted_wrt (\<lambda>a b. cmp a b \<le> 0) (js_sort cmp xs)"
  by (induction xs) (auto intro: sorted_insert_by)

lemma hd_js_sort_least: "x \<in> set xs \<Longrightarrow> cmp (hd (js_sort cmp xs)) x \<le> 0"
proof -
  assume x: "x \<in> set xs"
  have refl: "cmp a a \<le> 0" for a using cmp_total by blast
  obtain y ys where ys: "js_sort cmp xs = y # ys" using x by (cases "js_sort cmp xs") auto
  with x have "x \<in> set (y # ys)" by (metis set_js_sort)
  with sorted_js_sort [of xs] ys refl show ?thesis by auto
qed

end

text \<open>What is sorted by an order that tells its elements apart is determined by its elements.\<close>

lemma sorted_wrt_unique:
  assumes "sorted_wrt R xs" "sorted_wrt R ys" "mset xs = mset ys"
    and "\<And>a b. a \<in> set xs \<Longrightarrow> b \<in> set xs \<Longrightarrow> R a b \<Longrightarrow> R b a \<Longrightarrow> a = b"
  shows "xs = ys"
  using assms
proof (induction xs arbitrary: ys)
  case (Cons x xs)
  obtain y ys' where ys: "ys = y # ys'" using Cons.prems(3) by (cases ys) auto
  have sets: "set ys = set (x # xs)" using Cons.prems(3) by (metis mset_eq_setD)
  have "x = y"
  proof (rule ccontr)
    assume neq: "x \<noteq> y"
    then have "x \<in> set ys'" "y \<in> set xs" using sets ys by auto
    then have "R x y" "R y x" using Cons.prems(1,2) ys by auto
    with Cons.prems(4) \<open>y \<in> set xs\<close> neq show False by auto
  qed
  moreover have "xs = ys'"
    by (rule Cons.IH) (use Cons.prems ys \<open>x = y\<close> in auto)
  ultimately show ?case using ys by simp
qed simp

lemma js_sort_unique:
  assumes "js_comparator cmp" and "mset xs = mset ys"
    and "\<And>a b. a \<in> set xs \<Longrightarrow> b \<in> set xs \<Longrightarrow> cmp a b \<le> 0 \<Longrightarrow> cmp b a \<le> 0 \<Longrightarrow> a = b"
  shows "js_sort cmp xs = js_sort cmp ys"
proof (rule sorted_wrt_unique)
  show "sorted_wrt (\<lambda>a b. cmp a b \<le> 0) (js_sort cmp xs)" "sorted_wrt (\<lambda>a b. cmp a b \<le> 0) (js_sort cmp ys)"
    using js_comparator.sorted_js_sort [OF assms(1)] by blast+
qed (use assms(2,3) in auto)

text \<open>Sorting without a comparator compares code units.\<close>

definition code_unit_compare :: "string \<Rightarrow> string \<Rightarrow> int" where
  "code_unit_compare a b = (if a < b then - 1 else if a = b then 0 else 1)"

interpretation code_units: js_comparator code_unit_compare
  by unfold_locales (auto simp: code_unit_compare_def split: if_splits)

lemma code_unit_compare_le: "code_unit_compare a b \<le> 0 \<longleftrightarrow> a \<le> b"
  by (auto simp: code_unit_compare_def)

lemma sort_ids_unique:
  "mset xs = mset ys \<Longrightarrow> js_sort code_unit_compare xs = js_sort code_unit_compare ys"
proof -
  assume m: "mset xs = mset ys"
  have s: "sorted (js_sort code_unit_compare zs)" for zs
    using code_units.sorted_js_sort [of zs] by (simp add: code_unit_compare_le)
  have "js_sort code_unit_compare zs = sort zs" for zs
    by (rule properties_for_sort [symmetric]) (simp_all add: s)
  then show ?thesis using m by (metis (full_types) properties_for_sort s mset_js_sort)
qed

section \<open>Lists\<close>

text \<open>A \<open>Set\<close> keeps the order of first insertion.\<close>

definition js_set :: "'a list \<Rightarrow> 'a list" where
  "js_set xs = rev (remdups (rev xs))"

lemma set_js_set [simp]: "set (js_set xs) = set xs"
  by (simp add: js_set_def)

lemma distinct_js_set [simp]: "distinct (js_set xs)"
  by (simp add: js_set_def)

lemma in_map_filter: "y \<in> set (List.map_filter f xs) \<longleftrightarrow> (\<exists>x \<in> set xs. f x = Some y)"
  by (induction xs) (auto simp: List.map_filter_simps split: option.splits)

lemma mapE_member: "mapE f xs = Inr ys \<Longrightarrow> y \<in> set ys \<Longrightarrow> \<exists>x \<in> set xs. f x = Inr y"
  by (induction xs arbitrary: ys) (auto simp: bindE_eq_Inr)

lemma distinct_map_eq: "distinct (map f xs) \<Longrightarrow> x \<in> set xs \<Longrightarrow> y \<in> set xs \<Longrightarrow> f x = f y \<Longrightarrow> x = y"
  by (auto simp: distinct_map inj_on_def)

end
