(* ===== verification/Contracts_Core.thy ===== *)
theory Contracts_Core
  imports Prelude
begin

text \<open>
  The data the packages exchange (\<open>packages/contracts/src\<close>): health states and observations,
  consensus policies and probe outcomes, and the inputs and results of pool strategies.
\<close>

section \<open>Health (\<open>health.ts\<close>)\<close>

datatype HealthState = Unknown | Healthy | Degraded | Unhealthy | Recovering

record HealthObservation =
  ho_state :: HealthState
  ho_consecutiveSuccesses :: int
  ho_consecutiveFailures :: int

section \<open>Consensus (\<open>probe-policy.ts\<close>, \<open>probes.ts\<close>)\<close>

datatype ConsensusMode = AnyMode | MajorityMode | AllMode | AtLeastMode | SpecifiedMode

record ConsensusPolicy =
  cp_mode :: ConsensusMode
  cp_minimumValid :: number
  cp_failureVotes :: "number option"
  cp_specifiedProbeId :: "string option"

datatype ProbeOutcome = SuccessOutcome | FailureOutcome | UnavailableOutcome

section \<open>Pools (\<open>pools.ts\<close>)\<close>

datatype PoolStrategy = PrimaryBackup | HealthySet | AssignmentPool

datatype SelectionMode = RandomMode | OrderedMode | RoundRobinMode | LeastAssignedMode

datatype RecoveryMode = AutomaticRecovery | KeepCurrent | ManualRecovery | DelayedRecovery

datatype EndpointLifecycle = Enabled | Disabled | Maintenance | Draining

datatype Family = V4 | V6

record StrategyEndpoint =
  se_id :: string
  se_priority :: int
  se_lifecycle :: EndpointLifecycle
  se_healthState :: HealthState
  se_activeBindingCount :: int
  se_addressFamilies :: "Family list option"

record StrategyBinding =
  sb_id :: string
  sb_originalEndpointId :: "string option"
  sb_currentEndpointIds :: "string list"
  sb_endpointHealthStates :: "(string \<rightharpoonup> HealthState) option"
  sb_requiredAddressFamily :: "Family option"

datatype Trigger = FailureTrigger | RecoveryTrigger | RebalanceTrigger | ConfigurationTrigger | RepairTrigger

record StrategyContext =
  sc_eventId :: string
  sc_trigger :: Trigger
  sc_strategy :: PoolStrategy
  sc_selectionMode :: SelectionMode
  sc_recoveryMode :: RecoveryMode
  sc_endpoints :: "StrategyEndpoint list"
  sc_bindings :: "StrategyBinding list"
  sc_roundRobinCursor :: "string option"
  sc_roundRobinCursors :: "(string \<rightharpoonup> string) option"

datatype DecisionReason = FailureReason | RecoveryReason | RebalanceReason | NoHealthyEndpoint

record BindingDecision =
  bd_bindingId :: string
  bd_previousEndpointIds :: "string list"
  bd_desiredEndpointIds :: "string list"
  bd_reason :: DecisionReason

record StrategyDecision =
  sd_eventId :: string
  sd_decisions :: "BindingDecision list"
  sd_nextRoundRobinCursor :: "string option"
  sd_nextRoundRobinCursors :: "(string \<rightharpoonup> string) option"
  sd_noHealthyEndpoints :: bool

end
