(* ===== verification/Strategy.thy ===== *)
theory Strategy
  imports Contracts_Core
begin

unbundle bit_operations_syntax

text \<open>
  Pool strategies (\<open>packages/automation/src/strategy.ts\<close>): which endpoints each binding of a pool is
  published on. The evaluation works on a copy of the endpoints whose assignment counts it
  updates as it goes; the candidate lists alias that copy, so they are modelled as lists of
  positions in it. \<open>localeCompare\<close> is collation data of the runtime: it is a parameter, and where its
  order matters the theorems ask it to be a comparator.
\<close>

section \<open>Eligibility\<close>

definition isHealthyEnough :: "HealthState \<Rightarrow> bool" where
  "isHealthyEnough state \<longleftrightarrow> state = Healthy \<or> state = Degraded"

definition isAvailable :: "StrategyEndpoint \<Rightarrow> bool" where
  "isAvailable endpoint \<longleftrightarrow> se_lifecycle endpoint = Enabled \<and> isHealthyEnough (se_healthState endpoint)"

definition supportsFamily :: "StrategyBinding \<Rightarrow> StrategyEndpoint \<Rightarrow> bool" where
  "supportsFamily binding endpoint =
     (case sb_requiredAddressFamily binding of
        None \<Rightarrow> True
      | Some f \<Rightarrow> (case se_addressFamilies endpoint of None \<Rightarrow> False | Some fs \<Rightarrow> f \<in> set fs))"

definition availablePositions :: "StrategyEndpoint list \<Rightarrow> nat list" where
  "availablePositions w = filter (\<lambda>i. isAvailable (w ! i)) [0..<length w]"

definition healthyForBinding :: "StrategyBinding \<Rightarrow> nat list \<Rightarrow> StrategyEndpoint list \<Rightarrow> nat list" where
  "healthyForBinding binding fallback w =
     (case sb_endpointHealthStates binding of
        None \<Rightarrow> filter (\<lambda>i. supportsFamily binding (w ! i)) fallback
      | Some states \<Rightarrow>
          filter (\<lambda>i. se_lifecycle (w ! i) = Enabled
                    \<and> isHealthyEnough (case states (se_id (w ! i)) of Some h \<Rightarrow> h | None \<Rightarrow> Unknown)
                    \<and> supportsFamily binding (w ! i)) [0..<length w])"

section \<open>Selection\<close>

definition stableHash :: "string \<Rightarrow> nat" where
  "stableHash value =
     unat (foldl (\<lambda>hash c. (hash XOR of_nat (of_char c)) * 16777619) (2166136261 :: 32 word) value)"

fun familyText :: "Family option \<Rightarrow> string" where
  "familyText None = ''any''"
| "familyText (Some V4) = ''4''"
| "familyText (Some V6) = ''6''"

definition roundRobinCursorKey :: "StrategyBinding \<Rightarrow> StrategyEndpoint list \<Rightarrow> nat list \<Rightarrow> string" where
  "roundRobinCursorKey binding w candidates =
     (let candidateIds = js_sort code_unit_compare (map (\<lambda>i. se_id (w ! i)) candidates)
      in join_with '':'' (familyText (sb_requiredAddressFamily binding) # candidateIds))"

definition byPriority :: "(string \<Rightarrow> string \<Rightarrow> int) \<Rightarrow> StrategyEndpoint \<Rightarrow> StrategyEndpoint \<Rightarrow> int" where
  "byPriority lc a b =
     (let d = se_priority a - se_priority b in if d \<noteq> 0 then d else lc (se_id a) (se_id b))"

definition byAssignments :: "(string \<Rightarrow> string \<Rightarrow> int) \<Rightarrow> StrategyEndpoint \<Rightarrow> StrategyEndpoint \<Rightarrow> int" where
  "byAssignments lc a b =
     (let d = se_activeBindingCount a - se_activeBindingCount b in if d \<noteq> 0 then d else byPriority lc a b)"

definition ordered_candidates :: "(string \<Rightarrow> string \<Rightarrow> int) \<Rightarrow> StrategyEndpoint list \<Rightarrow> nat list \<Rightarrow> nat list" where
  "ordered_candidates lc w candidates = js_sort (\<lambda>i j. byPriority lc (w ! i) (w ! j)) candidates"

fun index_from :: "nat \<Rightarrow> ('a \<Rightarrow> bool) \<Rightarrow> 'a list \<Rightarrow> int" where
  "index_from k P [] = - 1"
| "index_from k P (x # xs) = (if P x then int k else index_from (Suc k) P xs)"

definition selectEndpoint ::
  "(string \<Rightarrow> string \<Rightarrow> int) \<Rightarrow> StrategyEndpoint list \<Rightarrow> nat list \<Rightarrow> SelectionMode \<Rightarrow> string \<Rightarrow> StrategyBinding
    \<Rightarrow> string option \<Rightarrow> nat option" where
  "selectEndpoint lc w candidates mode eventId binding cursor =
     (if candidates = [] then None
      else let ordered = ordered_candidates lc w candidates in
        case mode of
          OrderedMode \<Rightarrow> Some (hd ordered)
        | LeastAssignedMode \<Rightarrow> Some (hd (js_sort (\<lambda>i j. byAssignments lc (w ! i) (w ! j)) ordered))
        | RandomMode \<Rightarrow> Some (ordered ! (stableHash (eventId @ '':'' @ sb_id binding) mod length ordered))
        | RoundRobinMode \<Rightarrow>
            let cursorIndex = (case cursor of
                  Some c \<Rightarrow> if c \<noteq> [] then index_from 0 (\<lambda>i. se_id (w ! i) = c) ordered else - 1
                | None \<Rightarrow> - 1)
            in Some (ordered ! nat ((cursorIndex + 1) mod int (length ordered))))"

section \<open>One binding, one assignment\<close>

text \<open>\<open>new Map(working.map(e => [e.id, e])).get(id)\<close>: a later endpoint with the same id replaces an earlier one.\<close>

definition workingById :: "StrategyEndpoint list \<Rightarrow> string \<Rightarrow> nat option" where
  "workingById w k = (let is = filter (\<lambda>i. se_id (w ! i) = k) [0..<length w]
     in if is = [] then None else Some (last is))"

definition updateCount :: "(int \<Rightarrow> int) \<Rightarrow> StrategyEndpoint list \<Rightarrow> nat \<Rightarrow> StrategyEndpoint list" where
  "updateCount f w i = w[i := (w ! i)\<lparr>se_activeBindingCount := f (se_activeBindingCount (w ! i))\<rparr>]"

fun adjustCurrent :: "(int \<Rightarrow> int) \<Rightarrow> StrategyEndpoint list \<Rightarrow> string list \<Rightarrow> StrategyEndpoint list" where
  "adjustCurrent f w [] = w"
| "adjustCurrent f w (k # ks) =
     adjustCurrent f (case workingById w k of None \<Rightarrow> w | Some i \<Rightarrow> updateCount f w i) ks"

fun first_some :: "('a \<Rightarrow> 'b option) \<Rightarrow> 'a list \<Rightarrow> 'b option" where
  "first_some f [] = None"
| "first_some f (x # xs) = (case f x of None \<Rightarrow> first_some f xs | Some y \<Rightarrow> Some y)"

definition findById :: "StrategyEndpoint list \<Rightarrow> nat list \<Rightarrow> string \<Rightarrow> nat option" where
  "findById w candidates k = find (\<lambda>i. se_id (w ! i) = k) candidates"

record strategy_state =
  ss_working :: "StrategyEndpoint list"
  ss_decisions :: "BindingDecision list"
  ss_cursors :: "string \<rightharpoonup> string"
  ss_noHealthy :: bool

definition recoversOriginal :: "StrategyContext \<Rightarrow> StrategyEndpoint list \<Rightarrow> nat list \<Rightarrow> StrategyBinding \<Rightarrow> bool" where
  "recoversOriginal context w bindingHealthy binding \<longleftrightarrow>
     sc_trigger context = RecoveryTrigger
     \<and> (sc_recoveryMode context = AutomaticRecovery \<or> sc_recoveryMode context = DelayedRecovery)
     \<and> (case sb_originalEndpointId binding of None \<Rightarrow> False
        | Some original \<Rightarrow> list_ex (\<lambda>i. se_id (w ! i) = original) bindingHealthy
            \<and> original \<notin> set (sb_currentEndpointIds binding))"

definition assignBinding ::
  "(string \<Rightarrow> string \<Rightarrow> int) \<Rightarrow> StrategyContext \<Rightarrow> nat list \<Rightarrow> strategy_state \<Rightarrow> StrategyBinding \<Rightarrow> strategy_state" where
  "assignBinding lc context healthy st binding =
     (let w = ss_working st;
          bindingHealthy = healthyForBinding binding healthy w;
          cursorKey = roundRobinCursorKey binding w bindingHealthy;
          currentHealthy = list_ex (\<lambda>k. list_ex (\<lambda>i. se_id (w ! i) = k) bindingHealthy) (sb_currentEndpointIds binding);
          recoverOriginal = recoversOriginal context w bindingHealthy binding;
          repairing = (sc_trigger context = RepairTrigger);
          rebalancing = (sc_trigger context = RebalanceTrigger \<or> sc_trigger context = ConfigurationTrigger \<or> repairing)
      in if \<not> (rebalancing \<or> \<not> currentHealthy \<or> recoverOriginal) then st
         else
           let w1 = adjustCurrent (\<lambda>c. max 0 (c - 1)) w (sb_currentEndpointIds binding);
               selected =
                 (if recoverOriginal then Option.bind (sb_originalEndpointId binding) (findById w1 bindingHealthy)
                  else if repairing \<and> currentHealthy
                  then first_some (findById w1 bindingHealthy) (sb_currentEndpointIds binding)
                  else selectEndpoint lc w1 bindingHealthy (sc_selectionMode context) (sc_eventId context) binding
                    (case ss_cursors st cursorKey of Some c \<Rightarrow> Some c | None \<Rightarrow> sc_roundRobinCursor context))
           in case selected of
             None \<Rightarrow> st\<lparr>ss_working := adjustCurrent (\<lambda>c. c + 1) w1 (sb_currentEndpointIds binding),
                        ss_noHealthy := True,
                        ss_decisions := ss_decisions st @
                          [\<lparr>bd_bindingId = sb_id binding, bd_previousEndpointIds = sb_currentEndpointIds binding,
                            bd_desiredEndpointIds = sb_currentEndpointIds binding, bd_reason = NoHealthyEndpoint\<rparr>]\<rparr>
           | Some i \<Rightarrow>
               let chosen = se_id (w1 ! i);
                   st1 = st\<lparr>ss_working := updateCount (\<lambda>c. c + 1) w1 i,
                            ss_cursors := (if sc_selectionMode context = RoundRobinMode
                                           then (ss_cursors st)(cursorKey \<mapsto> chosen) else ss_cursors st)\<rparr>
               in if \<not> repairing \<and> sc_trigger context \<noteq> ConfigurationTrigger \<and> sb_currentEndpointIds binding = [chosen]
                  then st1
                  else st1\<lparr>ss_decisions := ss_decisions st1 @
                    [\<lparr>bd_bindingId = sb_id binding, bd_previousEndpointIds = sb_currentEndpointIds binding,
                      bd_desiredEndpointIds = [chosen],
                      bd_reason = (if recoverOriginal then RecoveryReason
                                   else if rebalancing then RebalanceReason else FailureReason)\<rparr>]\<rparr>)"

section \<open>Healthy sets\<close>

definition healthySetStep ::
  "StrategyContext \<Rightarrow> nat list \<Rightarrow> bool \<times> BindingDecision list \<Rightarrow> StrategyBinding \<Rightarrow> bool \<times> BindingDecision list" where
  "healthySetStep context healthy acc binding =
     (let w = sc_endpoints context;
          available = healthyForBinding binding healthy w;
          preserveCurrentOnRecovery = (sc_trigger context = RecoveryTrigger
            \<and> (sc_recoveryMode context = KeepCurrent \<or> sc_recoveryMode context = ManualRecovery));
          availableCurrent = filter (\<lambda>i. se_id (w ! i) \<in> set (sb_currentEndpointIds binding)) available;
          desired = js_sort code_unit_compare (map (\<lambda>i. se_id (w ! i))
            (if preserveCurrentOnRecovery \<and> availableCurrent \<noteq> [] then availableCurrent else available));
          current = js_sort code_unit_compare (sb_currentEndpointIds binding);
          configuring = (sc_trigger context = ConfigurationTrigger \<or> sc_trigger context = RepairTrigger);
          noHealthy = (fst acc \<or> desired = [])
      in if desired = [] then
           (noHealthy, snd acc @ [\<lparr>bd_bindingId = sb_id binding, bd_previousEndpointIds = current,
              bd_desiredEndpointIds = current, bd_reason = NoHealthyEndpoint\<rparr>])
         else if \<not> configuring \<and> current = desired then (noHealthy, snd acc)
         else (noHealthy, snd acc @ [\<lparr>bd_bindingId = sb_id binding, bd_previousEndpointIds = current,
                bd_desiredEndpointIds = desired,
                bd_reason = (if configuring then RebalanceReason
                             else if length current < length desired then RecoveryReason else FailureReason)\<rparr>]))"

definition evaluateHealthySet :: "StrategyContext \<Rightarrow> nat list \<Rightarrow> StrategyDecision" where
  "evaluateHealthySet context healthy =
     (let r = foldl (healthySetStep context healthy) (False, []) (sc_bindings context)
      in \<lparr>sd_eventId = sc_eventId context, sd_decisions = snd r, sd_nextRoundRobinCursor = None,
          sd_nextRoundRobinCursors = None, sd_noHealthyEndpoints = fst r\<rparr>)"

definition evaluateStrategy :: "(string \<Rightarrow> string \<Rightarrow> int) \<Rightarrow> StrategyContext \<Rightarrow> StrategyDecision" where
  "evaluateStrategy lc context =
     (let working = sc_endpoints context;
          healthy = availablePositions working
      in if sc_strategy context = HealthySet then evaluateHealthySet context healthy
         else
           let st = foldl (assignBinding lc context healthy)
                      \<lparr>ss_working = working, ss_decisions = [],
                       ss_cursors = (case sc_roundRobinCursors context of Some m \<Rightarrow> m | None \<Rightarrow> Map.empty),
                       ss_noHealthy = False\<rparr> (sc_bindings context)
           in \<lparr>sd_eventId = sc_eventId context, sd_decisions = ss_decisions st, sd_nextRoundRobinCursor = None,
               sd_nextRoundRobinCursors =
                 (if sc_selectionMode context = RoundRobinMode then Some (ss_cursors st) else None),
               sd_noHealthyEndpoints = ss_noHealthy st\<rparr>)"

section \<open>The working copy changes in its counts only\<close>

definition forget :: "StrategyEndpoint list \<Rightarrow> StrategyEndpoint list" where
  "forget w = map (\<lambda>e. e\<lparr>se_activeBindingCount := 0\<rparr>) w"

lemma forget_updateCount [simp]: "forget (updateCount f w i) = forget w"
proof (cases "i < length w")
  case True
  then have "map (\<lambda>e. e\<lparr>se_activeBindingCount := 0\<rparr>) w ! i
    = (w ! i)\<lparr>se_activeBindingCount := f (se_activeBindingCount (w ! i)), se_activeBindingCount := 0\<rparr>"
    by simp
  then show ?thesis
    by (simp only: forget_def updateCount_def map_update) (metis list_update_id)
next
  case False
  then show ?thesis by (simp add: updateCount_def list_update_beyond)
qed

lemma forget_adjustCurrent [simp]: "forget (adjustCurrent f w ks) = forget w"
  by (induction ks arbitrary: w) (auto split: option.splits)

lemma forget_length: "forget w = forget w' \<Longrightarrow> length w = length w'"
  unfolding forget_def by (metis length_map)

lemma forget_nth:
  assumes "forget w = forget w'" and "i < length w"
  shows "se_id (w ! i) = se_id (w' ! i)" "se_lifecycle (w ! i) = se_lifecycle (w' ! i)"
    "se_healthState (w ! i) = se_healthState (w' ! i)" "se_addressFamilies (w ! i) = se_addressFamilies (w' ! i)"
proof -
  have eq: "(w ! i)\<lparr>se_activeBindingCount := 0\<rparr> = (w' ! i)\<lparr>se_activeBindingCount := 0\<rparr>"
    using assms forget_length [OF assms(1)] unfolding forget_def by (metis nth_map)
  show "se_id (w ! i) = se_id (w' ! i)" "se_lifecycle (w ! i) = se_lifecycle (w' ! i)"
    "se_healthState (w ! i) = se_healthState (w' ! i)" "se_addressFamilies (w ! i) = se_addressFamilies (w' ! i)"
    using arg_cong [OF eq, of se_id] arg_cong [OF eq, of se_lifecycle]
      arg_cong [OF eq, of se_healthState] arg_cong [OF eq, of se_addressFamilies] by simp_all
qed

section \<open>Candidates are the eligible endpoints\<close>

definition effectiveHealth :: "StrategyBinding \<Rightarrow> StrategyEndpoint \<Rightarrow> HealthState" where
  "effectiveHealth b e = (case sb_endpointHealthStates b of None \<Rightarrow> se_healthState e
     | Some states \<Rightarrow> (case states (se_id e) of Some h \<Rightarrow> h | None \<Rightarrow> Unknown))"

definition eligible :: "StrategyBinding \<Rightarrow> StrategyEndpoint \<Rightarrow> bool" where
  "eligible b e \<longleftrightarrow> se_lifecycle e = Enabled \<and> isHealthyEnough (effectiveHealth b e) \<and> supportsFamily b e"

definition eligible_id :: "StrategyEndpoint list \<Rightarrow> StrategyBinding \<Rightarrow> string \<Rightarrow> bool" where
  "eligible_id es b k \<longleftrightarrow> list_ex (\<lambda>e. se_id e = k \<and> eligible b e) es"

lemma healthyForBinding_eq:
  assumes "forget w = forget es"
  shows "healthyForBinding b (availablePositions es) w = filter (\<lambda>i. eligible b (es ! i)) [0..<length es]"
proof -
  note nth = forget_nth [OF assms, simplified forget_length [OF assms]]
  show ?thesis
    unfolding healthyForBinding_def availablePositions_def filter_filter
    by (cases "sb_endpointHealthStates b")
       (auto simp: forget_length [OF assms] eligible_def effectiveHealth_def isAvailable_def
          supportsFamily_def nth intro!: filter_cong split: option.splits)
qed

lemma candidate_eligible:
  assumes "forget w = forget es" "i \<in> set (healthyForBinding b (availablePositions es) w)"
  shows "i < length w" "eligible b (es ! i)" "eligible_id es b (se_id (w ! i))"
proof -
  show i: "i < length w" and e: "eligible b (es ! i)"
    using assms(2) forget_length [OF assms(1)] by (auto simp: healthyForBinding_eq [OF assms(1)])
  then show "eligible_id es b (se_id (w ! i))"
    using forget_nth(1) [OF assms(1) i] forget_length [OF assms(1)]
    by (auto simp: eligible_id_def list_ex_iff intro!: bexI [of _ "es ! i"])
qed

lemma eligible_id_candidate:
  assumes "forget w = forget es"
  shows "eligible_id es b k \<longleftrightarrow> list_ex (\<lambda>i. se_id (w ! i) = k) (healthyForBinding b (availablePositions es) w)"
proof -
  have "eligible_id es b k \<longleftrightarrow> (\<exists>i < length es. se_id (es ! i) = k \<and> eligible b (es ! i))"
    by (fastforce simp: eligible_id_def list_ex_iff in_set_conv_nth)
  also have "\<dots> \<longleftrightarrow> list_ex (\<lambda>i. se_id (w ! i) = k) (filter (\<lambda>i. eligible b (es ! i)) [0..<length es])"
    using forget_nth(1) [OF assms] forget_length [OF assms] by (auto simp: list_ex_iff)
  finally show ?thesis by (simp add: healthyForBinding_eq [OF assms])
qed

section \<open>Selection stays inside the candidates\<close>

lemma selectEndpoint_None_iff: "selectEndpoint lc w cs m ev b cur = None \<longleftrightarrow> cs = []"
  by (cases m) (auto simp: selectEndpoint_def Let_def)

lemma selectEndpoint_in:
  assumes "selectEndpoint lc w cs m ev b cur = Some i"
  shows "i \<in> set cs"
proof -
  let ?o = "ordered_candidates lc w cs"
  have ne: "cs \<noteq> []" using assms by (auto simp: selectEndpoint_def)
  have o: "set ?o = set cs" "?o \<noteq> []" "0 < length ?o"
    using ne by (auto simp: ordered_candidates_def)
  have s: "set (js_sort f ?o) = set cs" "js_sort f ?o \<noteq> []" for f
    using o by auto
  have hd: "hd (js_sort f ?o) \<in> set cs" for f
    using s(1) hd_in_set [OF s(2)] by simp
  have nth: "?o ! (k mod length ?o) \<in> set cs" for k
    using o by (metis mod_less_divisor nth_mem)
  have nth': "?o ! nat (k mod int (length ?o)) \<in> set cs" for k
  proof -
    have "nat (k mod int (length ?o)) < length ?o" using o(3) by (simp add: nat_less_iff)
    then show ?thesis using o(1) nth_mem by blast
  qed
  show ?thesis
    using assms ne
  proof (cases m)
    case OrderedMode
    then show ?thesis using assms ne o(1) hd_in_set [OF o(2)] by (auto simp: selectEndpoint_def Let_def)
  next
    case LeastAssignedMode
    then show ?thesis using assms ne hd by (auto simp: selectEndpoint_def Let_def)
  next
    case RandomMode
    then show ?thesis using assms ne nth by (auto simp: selectEndpoint_def Let_def)
  next
    case RoundRobinMode
    then show ?thesis using assms ne nth' by (auto simp: selectEndpoint_def Let_def)
  qed
qed

lemma findById_Some: "findById w cs k = Some i \<Longrightarrow> i \<in> set cs \<and> se_id (w ! i) = k"
  by (auto simp: findById_def find_Some_iff intro: nth_mem)

lemma findById_None_iff: "findById w cs k = None \<longleftrightarrow> \<not> list_ex (\<lambda>i. se_id (w ! i) = k) cs"
  by (auto simp: findById_def find_None_iff list_ex_iff)

lemma first_some_Some: "first_some f xs = Some y \<Longrightarrow> \<exists>x \<in> set xs. f x = Some y"
  by (induction xs) (auto split: option.splits)

lemma first_some_None_iff: "first_some f xs = None \<longleftrightarrow> (\<forall>x \<in> set xs. f x = None)"
  by (induction xs) (auto split: option.splits)

section \<open>What a decision is justified by\<close>

definition justified :: "StrategyContext \<Rightarrow> StrategyBinding \<Rightarrow> BindingDecision \<Rightarrow> bool" where
  "justified context b d \<longleftrightarrow> bd_bindingId d = sb_id b
     \<and> mset (bd_previousEndpointIds d) = mset (sb_currentEndpointIds b)
     \<and> (if bd_reason d = NoHealthyEndpoint
        then bd_desiredEndpointIds d = bd_previousEndpointIds d \<and> \<not> list_ex (eligible b) (sc_endpoints context)
        else bd_desiredEndpointIds d \<noteq> []
          \<and> list_all (eligible_id (sc_endpoints context) b) (bd_desiredEndpointIds d))"

definition displaced :: "StrategyContext \<Rightarrow> StrategyBinding \<Rightarrow> bool" where
  "displaced context b \<longleftrightarrow> \<not> list_ex (eligible_id (sc_endpoints context) b) (sb_currentEndpointIds b)"

lemma no_candidates_iff:
  assumes "forget w = forget es"
  shows "healthyForBinding b (availablePositions es) w = [] \<longleftrightarrow> \<not> list_ex (eligible b) es"
  unfolding healthyForBinding_eq [OF assms] filter_empty_conv list_ex_length
  by auto

lemma eligible_id_exists: "eligible_id es b k \<Longrightarrow> list_ex (eligible b) es"
  by (auto simp: eligible_id_def list_ex_iff)

text \<open>The choice of one binding, given its candidates: none only without candidates, and a candidate otherwise.\<close>

lemma selected_candidate:
  fixes cs :: "nat list"
  assumes sel: "selected = (if recover then Option.bind (sb_originalEndpointId b) (findById w cs)
      else if keep then first_some (findById w cs) ks
      else selectEndpoint lc w cs m ev b cur)"
    and rec: "recover \<Longrightarrow> \<exists>k. sb_originalEndpointId b = Some k \<and> list_ex (\<lambda>i. se_id (w ! i) = k) cs"
    and keep: "keep \<Longrightarrow> list_ex (\<lambda>k. list_ex (\<lambda>i. se_id (w ! i) = k) cs) ks"
  shows "selected = None \<Longrightarrow> cs = []" "selected = Some i \<Longrightarrow> i \<in> set cs"
proof -
  show "cs = []" if "selected = None"
  proof (cases recover)
    case True
    with that sel rec [OF True] have False by (auto simp: findById_None_iff)
    then show ?thesis ..
  next
    case nr: False
    show ?thesis
    proof (cases keep)
      case True
      with that sel nr keep [OF True] have False
        by (auto simp: first_some_None_iff findById_None_iff list_ex_iff)
      then show ?thesis ..
    next
      case False
      with that sel nr show ?thesis by (simp add: selectEndpoint_None_iff)
    qed
  qed
  show "i \<in> set cs" if "selected = Some i"
    using that sel rec
    by (cases recover; cases keep)
       (auto dest!: findById_Some first_some_Some selectEndpoint_in)
qed

lemma assignBinding_cases:
  assumes st'_def: "st' = assignBinding lc context (availablePositions (sc_endpoints context)) st b"
    and w: "forget (ss_working st) = forget (sc_endpoints context)"
  shows "forget (ss_working st') = forget (sc_endpoints context)" (is ?frame)
    and "ss_decisions st' = ss_decisions st \<and> ss_noHealthy st' = ss_noHealthy st \<or>
      (\<exists>d. ss_decisions st' = ss_decisions st @ [d] \<and> justified context b d
         \<and> ss_noHealthy st' = (ss_noHealthy st \<or> bd_reason d = NoHealthyEndpoint)
         \<and> (bd_reason d = FailureReason \<longrightarrow> displaced context b)
         \<and> (sc_trigger context = FailureTrigger \<longrightarrow> bd_reason d = FailureReason \<or> bd_reason d = NoHealthyEndpoint))"
      (is ?step)
proof -
  let ?es = "sc_endpoints context"
  let ?h = "availablePositions ?es"
  let ?bh = "healthyForBinding b ?h (ss_working st)"
  let ?ch = "list_ex (\<lambda>k. list_ex (\<lambda>i. se_id (ss_working st ! i) = k) ?bh) (sb_currentEndpointIds b)"
  let ?ro = "recoversOriginal context (ss_working st) ?bh b"
  let ?rp = "sc_trigger context = RepairTrigger"
  let ?rb = "sc_trigger context = RebalanceTrigger \<or> sc_trigger context = ConfigurationTrigger \<or> ?rp"
  let ?w1 = "adjustCurrent (\<lambda>c. max 0 (c - 1)) (ss_working st) (sb_currentEndpointIds b)"
  have w1: "forget ?w1 = forget ?es" using w by simp
  have bh1: "healthyForBinding b ?h ?w1 = ?bh"
    by (simp add: healthyForBinding_eq [OF w] healthyForBinding_eq [OF w1])
  have ids: "list_ex (\<lambda>i. se_id (ss_working st ! i) = k) ?bh \<longleftrightarrow> list_ex (\<lambda>i. se_id (?w1 ! i) = k) ?bh" for k
    using eligible_id_candidate [OF w, of b k] eligible_id_candidate [OF w1, of b k] bh1 by simp
  have ch: "?ch \<longleftrightarrow> \<not> displaced context b"
    by (simp add: displaced_def eligible_id_candidate [OF w, symmetric])
  have "?frame \<and> ?step"
  proof (cases "?rb \<or> \<not> ?ch \<or> ?ro")
    case False
    then have "st' = st" unfolding st'_def assignBinding_def Let_def by simp
    then show ?thesis using w by simp
  next
    case go: True
    define sel where "sel = (if ?ro then Option.bind (sb_originalEndpointId b) (findById ?w1 ?bh)
       else if ?rp \<and> ?ch then first_some (findById ?w1 ?bh) (sb_currentEndpointIds b)
       else selectEndpoint lc ?w1 ?bh (sc_selectionMode context) (sc_eventId context) b
         (case ss_cursors st (roundRobinCursorKey b (ss_working st) ?bh) of
            Some c \<Rightarrow> Some c | None \<Rightarrow> sc_roundRobinCursor context))"
    have rec: "\<exists>k. sb_originalEndpointId b = Some k \<and> list_ex (\<lambda>i. se_id (?w1 ! i) = k) ?bh" if ?ro
      using that ids by (auto simp: recoversOriginal_def split: option.splits)
    have keep: "list_ex (\<lambda>k. list_ex (\<lambda>i. se_id (?w1 ! i) = k) ?bh) (sb_currentEndpointIds b)" if "?rp \<and> ?ch"
      using that ids by simp
    note cand = selected_candidate [OF sel_def rec keep]
    show ?thesis
    proof (cases sel)
      case None
      with cand(1) have none: "\<not> list_ex (eligible b) ?es" using no_candidates_iff [OF w] by blast
      then have disp: "displaced context b"
        by (auto simp: displaced_def list_ex_iff dest: eligible_id_exists)
      from go None have st': "st' = st\<lparr>ss_working := adjustCurrent (\<lambda>c. c + 1) ?w1 (sb_currentEndpointIds b),
          ss_noHealthy := True, ss_decisions := ss_decisions st @
            [\<lparr>bd_bindingId = sb_id b, bd_previousEndpointIds = sb_currentEndpointIds b,
              bd_desiredEndpointIds = sb_currentEndpointIds b, bd_reason = NoHealthyEndpoint\<rparr>]\<rparr>"
        unfolding st'_def assignBinding_def Let_def sel_def by simp
      show ?thesis using w none by (simp add: st' justified_def)
    next
      case (Some i)
      with cand(2) have i: "i \<in> set (healthyForBinding b ?h ?w1)" by (simp add: bh1)
      have el: "eligible_id ?es b (se_id (?w1 ! i))" using candidate_eligible(3) [OF w1 i] .
      have st': "st' = (let st1 = st\<lparr>ss_working := updateCount (\<lambda>c. c + 1) ?w1 i,
            ss_cursors := (if sc_selectionMode context = RoundRobinMode
              then (ss_cursors st)(roundRobinCursorKey b (ss_working st) ?bh \<mapsto> se_id (?w1 ! i)) else ss_cursors st)\<rparr>
          in if \<not> ?rp \<and> sc_trigger context \<noteq> ConfigurationTrigger \<and> sb_currentEndpointIds b = [se_id (?w1 ! i)] then st1
             else st1\<lparr>ss_decisions := ss_decisions st1 @ [\<lparr>bd_bindingId = sb_id b,
               bd_previousEndpointIds = sb_currentEndpointIds b, bd_desiredEndpointIds = [se_id (?w1 ! i)],
               bd_reason = (if ?ro then RecoveryReason else if ?rb then RebalanceReason else FailureReason)\<rparr>]\<rparr>)"
        using go Some unfolding st'_def assignBinding_def Let_def sel_def by simp
      have "\<not> ?ro \<Longrightarrow> \<not> ?rb \<Longrightarrow> displaced context b" using go ch by blast
      moreover have "sc_trigger context = FailureTrigger \<Longrightarrow> \<not> ?ro" by (simp add: recoversOriginal_def)
      ultimately show ?thesis using w el by (auto simp: st' Let_def justified_def)
    qed
  qed
  then show ?frame and ?step by blast+
qed

lemma assign_run:
  assumes "forget (ss_working st) = forget (sc_endpoints context)"
    and "ss_noHealthy st = list_ex (\<lambda>d. bd_reason d = NoHealthyEndpoint) (ss_decisions st)"
  defines "P \<equiv> \<lambda>d bs. \<exists>b \<in> set bs. justified context b d
      \<and> (bd_reason d = FailureReason \<longrightarrow> displaced context b)
      \<and> (sc_trigger context = FailureTrigger \<longrightarrow> displaced context b)"
  shows "ss_noHealthy (foldl (assignBinding lc context (availablePositions (sc_endpoints context))) st bs)
      = list_ex (\<lambda>d. bd_reason d = NoHealthyEndpoint)
          (ss_decisions (foldl (assignBinding lc context (availablePositions (sc_endpoints context))) st bs))
    \<and> (\<exists>ds. ss_decisions (foldl (assignBinding lc context (availablePositions (sc_endpoints context))) st bs)
          = ss_decisions st @ ds \<and> (\<forall>d \<in> set ds. P d bs))"
  using assms(1,2)
proof (induction bs arbitrary: st)
  case (Cons b bs)
  let ?st = "assignBinding lc context (availablePositions (sc_endpoints context)) st b"
  note step = assignBinding_cases [OF refl Cons.prems(1), of lc b]
  have nh: "ss_noHealthy ?st = list_ex (\<lambda>d. bd_reason d = NoHealthyEndpoint) (ss_decisions ?st)"
    using step(2) Cons.prems(2) by auto
  from Cons.IH [OF step(1) nh] obtain ds where
    ds: "ss_decisions (foldl (assignBinding lc context (availablePositions (sc_endpoints context))) st (b # bs))
        = ss_decisions ?st @ ds" "\<forall>d \<in> set ds. P d bs" by auto
  have first: "\<exists>d0. ss_decisions ?st = ss_decisions st @ d0 \<and> (\<forall>d \<in> set d0. P d [b])"
  proof (cases "ss_decisions ?st = ss_decisions st")
    case False
    then obtain d where d: "ss_decisions ?st = ss_decisions st @ [d]" "justified context b d"
      "bd_reason d = FailureReason \<longrightarrow> displaced context b"
      "sc_trigger context = FailureTrigger \<longrightarrow> bd_reason d = FailureReason \<or> bd_reason d = NoHealthyEndpoint"
      using step(2) by blast
    moreover have "bd_reason d = NoHealthyEndpoint \<Longrightarrow> displaced context b"
      using d(2) by (auto simp: justified_def displaced_def list_ex_iff dest: eligible_id_exists)
    ultimately show ?thesis unfolding P_def by (intro exI [of _ "[d]"]) auto
  qed simp
  then obtain d0 where d0: "ss_decisions ?st = ss_decisions st @ d0" "\<forall>d \<in> set d0. P d [b]" by blast
  have "\<forall>d \<in> set (d0 @ ds). P d (b # bs)" using d0(2) ds(2) unfolding P_def by auto
  with ds(1) d0(1) Cons.IH [OF step(1) nh] show ?case by (auto simp del: foldl_Cons) auto
qed simp

section \<open>Healthy sets\<close>

lemma healthySetStep_cases:
  assumes "r = healthySetStep context (availablePositions (sc_endpoints context)) acc b"
  shows "r = acc \<or> (\<exists>d. snd r = snd acc @ [d] \<and> justified context b d
      \<and> fst r = (fst acc \<or> bd_reason d = NoHealthyEndpoint))"
proof -
  let ?es = "sc_endpoints context"
  let ?av = "healthyForBinding b (availablePositions ?es) ?es"
  have el: "i \<in> set ?av \<Longrightarrow> eligible_id ?es b (se_id (?es ! i))" for i
    by (rule candidate_eligible(3) [OF refl])
  have none: "?av = [] \<longleftrightarrow> \<not> list_ex (eligible b) ?es" by (rule no_candidates_iff [OF refl])
  define chosen where "chosen = (if (sc_trigger context = RecoveryTrigger
      \<and> (sc_recoveryMode context = KeepCurrent \<or> sc_recoveryMode context = ManualRecovery))
      \<and> filter (\<lambda>i. se_id (?es ! i) \<in> set (sb_currentEndpointIds b)) ?av \<noteq> []
    then filter (\<lambda>i. se_id (?es ! i) \<in> set (sb_currentEndpointIds b)) ?av else ?av)"
  define desired where "desired = js_sort code_unit_compare (map (\<lambda>i. se_id (?es ! i)) chosen)"
  define current where "current = js_sort code_unit_compare (sb_currentEndpointIds b)"
  define cfg where "cfg = (sc_trigger context = ConfigurationTrigger \<or> sc_trigger context = RepairTrigger)"
  have r: "r = (if desired = [] then
           (fst acc \<or> desired = [], snd acc @ [\<lparr>bd_bindingId = sb_id b, bd_previousEndpointIds = current,
              bd_desiredEndpointIds = current, bd_reason = NoHealthyEndpoint\<rparr>])
         else if \<not> cfg \<and> current = desired then (fst acc \<or> desired = [], snd acc)
         else (fst acc \<or> desired = [], snd acc @ [\<lparr>bd_bindingId = sb_id b, bd_previousEndpointIds = current,
                bd_desiredEndpointIds = desired,
                bd_reason = (if cfg then RebalanceReason
                             else if length current < length desired then RecoveryReason else FailureReason)\<rparr>]))"
    unfolding assms healthySetStep_def Let_def desired_def current_def cfg_def chosen_def by (rule refl)
  have chosen: "chosen = [] \<longleftrightarrow> ?av = []" "set chosen \<subseteq> set ?av" by (auto simp: chosen_def)
  have d: "desired = [] \<longleftrightarrow> \<not> list_ex (eligible b) ?es" "list_all (eligible_id ?es b) desired"
    "mset current = mset (sb_currentEndpointIds b)"
    using none chosen el by (auto simp: desired_def current_def list_all_iff)
  show ?thesis
    unfolding r using d by (auto simp: justified_def prod_eq_iff)
qed

lemma healthy_set_run:
  assumes "fst acc = list_ex (\<lambda>d. bd_reason d = NoHealthyEndpoint) (snd acc)"
  shows "(let r = foldl (healthySetStep context (availablePositions (sc_endpoints context))) acc bs in
     fst r = list_ex (\<lambda>d. bd_reason d = NoHealthyEndpoint) (snd r)
     \<and> (\<exists>ds. snd r = snd acc @ ds \<and> (\<forall>d \<in> set ds. \<exists>b \<in> set bs. justified context b d)))"
  using assms
proof (induction bs arbitrary: acc)
  case (Cons b bs)
  let ?acc = "healthySetStep context (availablePositions (sc_endpoints context)) acc b"
  note step = healthySetStep_cases [OF refl, of "context" acc b]
  have "fst ?acc = list_ex (\<lambda>d. bd_reason d = NoHealthyEndpoint) (snd ?acc)" using step Cons.prems by auto
  from Cons.IH [OF this] step show ?case by (auto simp: Let_def)
qed (simp add: Let_def)

section \<open>What an evaluation guarantees\<close>

lemma evaluation_justified:
  "list_all (\<lambda>d. list_ex (\<lambda>b. justified context b d) (sc_bindings context)) (sd_decisions (evaluateStrategy lc context))
   \<and> sd_noHealthyEndpoints (evaluateStrategy lc context)
      = list_ex (\<lambda>d. bd_reason d = NoHealthyEndpoint) (sd_decisions (evaluateStrategy lc context))"
proof (cases "sc_strategy context = HealthySet")
  case True
  from healthy_set_run [of "(False, [])" "context" "sc_bindings context"] show ?thesis
    by (auto simp: evaluateStrategy_def True evaluateHealthySet_def Let_def list_all_iff list_ex_iff)
next
  case False
  from assign_run [of "\<lparr>ss_working = sc_endpoints context, ss_decisions = [],
      ss_cursors = (case sc_roundRobinCursors context of Some m \<Rightarrow> m | None \<Rightarrow> Map.empty), ss_noHealthy = False\<rparr>"
      "context" lc "sc_bindings context"] False
  show ?thesis
    by (auto simp: evaluateStrategy_def Let_def list_all_iff list_ex_iff)
qed


text \<open>Failover does not flap: on a failure event of an assigning strategy, a binding that still has an
  eligible endpoint among its current ones gets no decision at all.\<close>

theorem failover_leaves_healthy_bindings:
  assumes "sc_strategy context \<noteq> HealthySet" and "sc_trigger context = FailureTrigger"
  shows "list_all (\<lambda>d. list_ex (\<lambda>b. justified context b d \<and> displaced context b) (sc_bindings context))
    (sd_decisions (evaluateStrategy lc context))"
  using assign_run [of "\<lparr>ss_working = sc_endpoints context, ss_decisions = [],
      ss_cursors = (case sc_roundRobinCursors context of Some m \<Rightarrow> m | None \<Rightarrow> Map.empty), ss_noHealthy = False\<rparr>"
      "context" lc "sc_bindings context"] assms
  by (auto simp: evaluateStrategy_def Let_def list_all_iff list_ex_iff)

definition sample_endpoint :: "string \<Rightarrow> int \<Rightarrow> HealthState \<Rightarrow> int \<Rightarrow> StrategyEndpoint" where
  "sample_endpoint k p h n = \<lparr>se_id = k, se_priority = p, se_lifecycle = Enabled, se_healthState = h,
     se_activeBindingCount = n, se_addressFamilies = Some [V4]\<rparr>"

definition sample_binding :: "string \<Rightarrow> string list \<Rightarrow> StrategyBinding" where
  "sample_binding k cur = \<lparr>sb_id = k, sb_originalEndpointId = None, sb_currentEndpointIds = cur,
     sb_endpointHealthStates = None, sb_requiredAddressFamily = Some V4\<rparr>"

definition sample_context :: "Trigger \<Rightarrow> SelectionMode \<Rightarrow> StrategyContext" where
  "sample_context t m = \<lparr>sc_eventId = ''e1'', sc_trigger = t, sc_strategy = AssignmentPool, sc_selectionMode = m,
     sc_recoveryMode = ManualRecovery,
     sc_endpoints = [sample_endpoint ''a'' 1 Healthy 1, sample_endpoint ''b'' 2 Unhealthy 1, sample_endpoint ''c'' 3 Healthy 0],
     sc_bindings = [sample_binding ''x'' [''a''], sample_binding ''y'' [''b'']],
     sc_roundRobinCursor = None, sc_roundRobinCursors = None\<rparr>"

theorem failover_leaves_healthy_bindings_witness:
  "list_all (\<lambda>d. list_ex (\<lambda>b. justified (sample_context FailureTrigger OrderedMode) b d
       \<and> displaced (sample_context FailureTrigger OrderedMode) b) (sc_bindings (sample_context FailureTrigger OrderedMode)))
    (sd_decisions (evaluateStrategy code_unit_compare (sample_context FailureTrigger OrderedMode)))
   \<and> sc_strategy (sample_context FailureTrigger OrderedMode) \<noteq> HealthySet"
  using failover_leaves_healthy_bindings [of "sample_context FailureTrigger OrderedMode" code_unit_compare]
  by (simp add: sample_context_def)

section \<open>Least assigned\<close>

lemma byPriority_comparator:
  assumes "js_comparator lc"
  shows "js_comparator (byPriority lc)"
proof -
  have total: "lc a b \<le> 0 \<or> lc b a \<le> 0" and trans: "lc a b \<le> 0 \<Longrightarrow> lc b c \<le> 0 \<Longrightarrow> lc a c \<le> 0" for a b c
    using assms by (auto simp: js_comparator_def)
  show ?thesis
    by unfold_locales
       (use total in \<open>force simp: byPriority_def Let_def\<close>,
        auto simp: byPriority_def Let_def split: if_splits intro: trans)
qed

lemma byAssignments_comparator: "js_comparator lc \<Longrightarrow> js_comparator (byAssignments lc)"
proof -
  assume "js_comparator lc"
  then have p: "js_comparator (byPriority lc)" by (rule byPriority_comparator)
  then have total: "byPriority lc a b \<le> 0 \<or> byPriority lc b a \<le> 0"
    and trans: "byPriority lc a b \<le> 0 \<Longrightarrow> byPriority lc b c \<le> 0 \<Longrightarrow> byPriority lc a c \<le> 0" for a b c
    by (auto simp: js_comparator_def)
  show ?thesis
    by unfold_locales
       (use total in \<open>force simp: byAssignments_def Let_def\<close>,
        auto simp: byAssignments_def Let_def split: if_splits intro: trans)
qed

lemma comparator_image: "js_comparator c \<Longrightarrow> js_comparator (\<lambda>i j. c (g i) (g j))"
  by (auto simp: js_comparator_def)

text \<open>The least-assigned mode balances: the endpoint it selects has the fewest working assignments of
  all candidates, and among those with as few it has the best priority.\<close>

theorem least_assigned_is_least:
  assumes "js_comparator lc"
    and sel: "selectEndpoint lc w cs LeastAssignedMode ev b cur = Some i"
    and j: "j \<in> set cs"
  shows "se_activeBindingCount (w ! i) < se_activeBindingCount (w ! j) \<or>
    (se_activeBindingCount (w ! i) = se_activeBindingCount (w ! j) \<and> se_priority (w ! i) \<le> se_priority (w ! j))"
proof -
  let ?cmp = "\<lambda>i j. byAssignments lc (w ! i) (w ! j)"
  have i: "i = hd (js_sort ?cmp (ordered_candidates lc w cs))"
    using sel by (auto simp: selectEndpoint_def Let_def split: if_splits)
  have "j \<in> set (ordered_candidates lc w cs)" using j by (simp add: ordered_candidates_def)
  from js_comparator.hd_js_sort_least [OF comparator_image [OF byAssignments_comparator [OF assms(1)]] this]
  have "?cmp i j \<le> 0" by (simp add: i)
  then show ?thesis by (auto simp: byAssignments_def byPriority_def Let_def split: if_splits)
qed

theorem least_assigned_is_least_witness:
  "se_activeBindingCount (sample_endpoint ''c'' 3 Healthy 0) < 1 \<and> js_comparator code_unit_compare"
proof -
  let ?w = "[sample_endpoint ''a'' 1 Healthy 1, sample_endpoint ''b'' 2 Healthy 1, sample_endpoint ''c'' 3 Healthy 0]"
  have sel: "selectEndpoint code_unit_compare ?w [0, 1, 2] LeastAssignedMode ''e'' (sample_binding ''x'' []) None = Some 2"
    by (simp add: selectEndpoint_def ordered_candidates_def byPriority_def byAssignments_def sample_endpoint_def
        numeral_2_eq_2 Let_def)
  from least_assigned_is_least [OF code_units.js_comparator_axioms sel, of 0] code_units.js_comparator_axioms
  show ?thesis by (simp add: sample_endpoint_def numeral_2_eq_2)
qed

section \<open>Round robin\<close>

text \<open>Selecting again and again, each time from the cursor the last selection left.\<close>

fun roundRobinRun ::
  "(string \<Rightarrow> string \<Rightarrow> int) \<Rightarrow> StrategyEndpoint list \<Rightarrow> nat list \<Rightarrow> string \<Rightarrow> StrategyBinding
    \<Rightarrow> string option \<Rightarrow> nat \<Rightarrow> string list" where
  "roundRobinRun lc w cs ev b cursor 0 = []"
| "roundRobinRun lc w cs ev b cursor (Suc n) =
     (case selectEndpoint lc w cs RoundRobinMode ev b cursor of
        None \<Rightarrow> []
      | Some i \<Rightarrow> se_id (w ! i) # roundRobinRun lc w cs ev b (Some (se_id (w ! i))) n)"

lemma index_from_notin: "\<not> list_ex P xs \<Longrightarrow> index_from k P xs = - 1"
  by (induction xs arbitrary: k) auto

lemma index_from_nth:
  assumes "distinct ids" "i < length ids" "ids = map f xs"
  shows "index_from k (\<lambda>x. f x = ids ! i) xs = int (k + i)"
  using assms
proof (induction xs arbitrary: i ids k)
  case (Cons x xs)
  show ?case
  proof (cases i)
    case (Suc m)
    with Cons.prems have m: "m < length xs" by simp
    then have "f (xs ! m) \<in> f ` set xs" by simp
    then have "f x \<noteq> f (xs ! m)" using Cons.prems by auto
    then show ?thesis
      using Cons.IH [of "map f xs" m "Suc k"] Cons.prems Suc m by simp
  qed (use Cons.prems in simp)
qed simp

lemma selectEndpoint_rr_after:
  assumes ids: "distinct (map (\<lambda>i. se_id (w ! i)) cs)" "[] \<notin> set (map (\<lambda>i. se_id (w ! i)) cs)"
    and p: "p < length cs" and cs: "cs \<noteq> []"
    and ordered_def: "ordered = ordered_candidates lc w cs"
  shows "selectEndpoint lc w cs RoundRobinMode ev b (Some (se_id (w ! (ordered ! p))))
    = Some (ordered ! (Suc p mod length cs))"
proof -
  have len: "length ordered = length cs" and m: "mset ordered = mset cs"
    by (simp_all add: ordered_def ordered_candidates_def)
  then have m': "mset (map (\<lambda>i. se_id (w ! i)) ordered) = mset (map (\<lambda>i. se_id (w ! i)) cs)" by simp
  have d: "distinct (map (\<lambda>i. se_id (w ! i)) ordered)" "[] \<notin> set (map (\<lambda>i. se_id (w ! i)) ordered)"
    using ids mset_eq_imp_distinct_iff [OF m'] mset_eq_setD [OF m'] by simp_all
  have "index_from 0 (\<lambda>i. se_id (w ! i) = se_id (w ! (ordered ! p))) ordered = int p"
    using index_from_nth [OF d(1), of p "\<lambda>i. se_id (w ! i)" ordered 0] p len by simp
  moreover have "se_id (w ! (ordered ! p)) \<noteq> []"
    using d(2) p len by (metis image_eqI length_map list.set_map nth_mem)
  moreover have "nat ((int p + 1) mod int (length cs)) = Suc p mod length cs"
    by (metis Suc_eq_plus1 nat_int of_nat_1 of_nat_add of_nat_mod)
  ultimately show ?thesis
    using cs len by (simp add: selectEndpoint_def Let_def ordered_def [symmetric])
qed

lemma roundRobinRun_after:
  assumes ids: "distinct (map (\<lambda>i. se_id (w ! i)) cs)" "[] \<notin> set (map (\<lambda>i. se_id (w ! i)) cs)"
    and cs: "cs \<noteq> []" and ordered_def: "ordered = ordered_candidates lc w cs"
  shows "p < length cs \<Longrightarrow> roundRobinRun lc w cs ev b (Some (se_id (w ! (ordered ! p)))) n
    = map (\<lambda>k. se_id (w ! (ordered ! ((p + k) mod length cs)))) [1..<Suc n]"
proof (induction n arbitrary: p)
  case (Suc n)
  let ?q = "Suc p mod length cs"
  have q: "?q < length cs" using cs by simp
  have shift: "(?q + k) mod length cs = (p + Suc k) mod length cs" for k
    by (metis add_Suc_right add_Suc mod_add_left_eq)
  have up: "map g [Suc 0..<Suc (Suc n)] = g (Suc 0) # map (\<lambda>k. g (Suc k)) [Suc 0..<Suc n]" for g :: "nat \<Rightarrow> string"
    by (simp add: upt_conv_Cons comp_def map_Suc_upt [symmetric] del: upt_Suc map_Suc_upt)
  show ?case
    using selectEndpoint_rr_after [OF ids Suc.prems cs ordered_def, of ev b] Suc.IH [OF q]
    by (simp add: up shift del: upt_Suc)
qed simp

text \<open>Round robin is fair: starting from any cursor, as many selections as there are candidates visit
  every candidate exactly once.\<close>

theorem round_robin_fair:
  assumes ids: "distinct (map (\<lambda>i. se_id (w ! i)) cs)" "[] \<notin> set (map (\<lambda>i. se_id (w ! i)) cs)"
    and cs: "cs \<noteq> []"
  shows "mset (roundRobinRun lc w cs ev b cursor (length cs)) = mset (map (\<lambda>i. se_id (w ! i)) cs)"
proof -
  let ?o = "ordered_candidates lc w cs"
  let ?f = "\<lambda>i. se_id (w ! i)"
  have len: "length ?o = length cs" and m: "mset ?o = mset cs" by (simp_all add: ordered_candidates_def)
  obtain q where q: "q < length cs" and first: "selectEndpoint lc w cs RoundRobinMode ev b cursor = Some (?o ! q)"
  proof -
    define c where "c = (case cursor of Some c \<Rightarrow> if c \<noteq> [] then index_from 0 (\<lambda>i. se_id (w ! i) = c) ?o else - 1 | None \<Rightarrow> - 1)"
    have "selectEndpoint lc w cs RoundRobinMode ev b cursor = Some (?o ! nat ((c + 1) mod int (length ?o)))"
      using cs by (simp add: selectEndpoint_def Let_def c_def)
    moreover have "nat ((c + 1) mod int (length ?o)) < length cs"
      using cs len by (simp add: nat_less_iff)
    ultimately show thesis using that by blast
  qed
  obtain n where n: "length cs = Suc n" using cs by (cases cs) auto
  have "roundRobinRun lc w cs ev b cursor (length cs)
      = ?f (?o ! q) # map (\<lambda>k. ?f (?o ! ((q + k) mod length cs))) [1..<length cs]"
    using first roundRobinRun_after [OF ids cs refl q, of lc ev b n] by (simp add: n del: upt_Suc)
  also have "\<dots> = map (\<lambda>k. ?f (?o ! ((q + k) mod length cs))) [0..<length cs]"
    using q cs by (simp add: upt_conv_Cons)
  also have "\<dots> = rotate q (map ?f ?o)"
    using cs by (intro nth_equalityI [where xs = "map h ks" for h ks]) (simp_all add: nth_rotate len)
  finally have "mset (roundRobinRun lc w cs ev b cursor (length cs)) = mset (rotate q (map ?f ?o))" by simp
  also have "\<dots> = mset (map ?f ?o)"
    by (metis append_take_drop_id mset_append rotate_drop_take union_commute)
  also have "\<dots> = mset (map ?f cs)" using m by simp
  finally show ?thesis .
qed

theorem round_robin_fair_witness:
  "mset (roundRobinRun code_unit_compare
      [sample_endpoint ''a'' 1 Healthy 0, sample_endpoint ''b'' 2 Healthy 0, sample_endpoint ''c'' 3 Healthy 0]
      [2, 0, 1] ''e'' (sample_binding ''x'' []) (Some ''b'') 3) = mset [''c'', ''a'', ''b'']"
proof -
  let ?w = "[sample_endpoint ''a'' 1 Healthy 0, sample_endpoint ''b'' 2 Healthy 0, sample_endpoint ''c'' 3 Healthy 0]"
  have "distinct (map (\<lambda>i. se_id (?w ! i)) [2, 0, 1])" "[] \<notin> set (map (\<lambda>i. se_id (?w ! i)) [2, 0, 1])"
    by (simp_all add: sample_endpoint_def numeral_2_eq_2)
  from round_robin_fair [OF this, of code_unit_compare "''e''" "sample_binding ''x'' []" "Some ''b''"]
  show ?thesis by (simp add: sample_endpoint_def numeral_2_eq_2 numeral_3_eq_3)
qed

end
