(* ===== verification/Health_State.thy ===== *)
theory Health_State
  imports Contracts_Core
begin

text \<open>
  The health state machine (\<open>packages/automation/src/health-state.ts\<close>): one check result moves an
  observation, with hysteresis given by the two thresholds. The lemmas show that the two streak
  counters are what their names say, and that the five states implement a three-valued
  hysteresis automaton.
\<close>

record HealthThresholds =
  ht_failureThreshold :: number
  ht_successThreshold :: number

datatype HealthError = FailureThresholdInvalid | SuccessThresholdInvalid

definition validateThresholds :: "HealthThresholds \<Rightarrow> HealthError + unit" where
  "validateThresholds t =
     (if \<not> is_integer (ht_failureThreshold t) \<or> num_lt (ht_failureThreshold t) (num_of_int 1)
      then Inl FailureThresholdInvalid
      else if \<not> is_integer (ht_successThreshold t) \<or> num_lt (ht_successThreshold t) (num_of_int 1)
      then Inl SuccessThresholdInvalid
      else Inr ())"

definition observation :: "HealthState \<Rightarrow> int \<Rightarrow> int \<Rightarrow> HealthObservation" where
  "observation s cs cf = \<lparr>ho_state = s, ho_consecutiveSuccesses = cs, ho_consecutiveFailures = cf\<rparr>"

definition applyHealthResult ::
  "HealthObservation \<Rightarrow> bool \<Rightarrow> HealthThresholds \<Rightarrow> HealthError + HealthObservation" where
  "applyHealthResult current success thresholds =
     bindE (validateThresholds thresholds) (\<lambda>_.
       if success then
         let consecutiveSuccesses = ho_consecutiveSuccesses current + 1;
             becomesHealthy = num_le (ht_successThreshold thresholds) (num_of_int consecutiveSuccesses)
         in if ho_state current = Healthy then Inr (observation Healthy consecutiveSuccesses 0)
            else if ho_state current = Unhealthy \<or> ho_state current = Recovering
            then Inr (observation (if becomesHealthy then Healthy else Recovering) consecutiveSuccesses 0)
            else Inr (observation (if becomesHealthy then Healthy else ho_state current) consecutiveSuccesses 0)
       else
         let consecutiveFailures = ho_consecutiveFailures current + 1;
             becomesUnhealthy = num_le (ht_failureThreshold thresholds) (num_of_int consecutiveFailures)
         in if ho_state current = Unhealthy then Inr (observation Unhealthy 0 consecutiveFailures)
            else if ho_state current = Recovering then Inr (observation Unhealthy 0 consecutiveFailures)
            else if ho_state current = Healthy \<or> ho_state current = Degraded
            then Inr (observation (if becomesUnhealthy then Unhealthy else Degraded) 0 consecutiveFailures)
            else Inr (observation (if becomesUnhealthy then Unhealthy else Unknown) 0 consecutiveFailures))"

section \<open>Thresholds\<close>

lemma observation_sel [simp]:
  "ho_state (observation s a b) = s" "ho_consecutiveSuccesses (observation s a b) = a"
  "ho_consecutiveFailures (observation s a b) = b"
  by (simp_all add: observation_def)

definition thresholds_of :: "int \<Rightarrow> int \<Rightarrow> HealthThresholds" where
  "thresholds_of f s = \<lparr>ht_failureThreshold = num_of_int f, ht_successThreshold = num_of_int s\<rparr>"

lemma validateThresholds_iff:
  "validateThresholds t = Inr () \<longleftrightarrow> (\<exists>f s. 1 \<le> f \<and> 1 \<le> s \<and> t = thresholds_of f s)"
proof
  assume "validateThresholds t = Inr ()"
  then have "is_integer (ht_failureThreshold t)" "\<not> num_lt (ht_failureThreshold t) (num_of_int 1)"
    "is_integer (ht_successThreshold t)" "\<not> num_lt (ht_successThreshold t) (num_of_int 1)"
    by (auto simp: validateThresholds_def split: if_splits)
  then obtain f s where "ht_failureThreshold t = num_of_int f" "1 \<le> f"
    "ht_successThreshold t = num_of_int s" "1 \<le> s"
    by (fastforce elim: is_integerE)
  then show "\<exists>f s. 1 \<le> f \<and> 1 \<le> s \<and> t = thresholds_of f s"
    by (intro exI [of _ f] exI [of _ s]) (cases t, simp add: thresholds_of_def)
next
  assume "\<exists>f s. 1 \<le> f \<and> 1 \<le> s \<and> t = thresholds_of f s"
  then show "validateThresholds t = Inr ()"
    by (auto simp: validateThresholds_def thresholds_of_def)
qed

lemma validate_thresholds_of [simp]:
  "1 \<le> f \<Longrightarrow> 1 \<le> s \<Longrightarrow> validateThresholds (thresholds_of f s) = Inr ()"
  by (auto simp: validateThresholds_iff)

lemma thresholds_of_sel [simp]:
  "ht_failureThreshold (thresholds_of f s) = num_of_int f"
  "ht_successThreshold (thresholds_of f s) = num_of_int s"
  by (simp_all add: thresholds_of_def)

lemma applyHealthResult_defined:
  "(\<exists>o'. applyHealthResult obs b t = Inr o') \<longleftrightarrow> validateThresholds t = Inr ()"
  by (auto simp: applyHealthResult_def bindE_def Let_def split: sum.splits)

lemma applyHealthResult_Inr_thresholds:
  assumes "applyHealthResult obs b t = Inr o'"
  obtains f s where "1 \<le> f" "1 \<le> s" "t = thresholds_of f s"
  using assms applyHealthResult_defined [of obs b t] validateThresholds_iff [of t] by blast

section \<open>A machine that counts streaks: the contract of a health machine\<close>

text \<open>
  What the callers of a health machine rely on: a result the machine has already taken is ignored,
  and for every other result the two counters record the length of the current streak.
  \<open>accepted\<close> is the list of results the machine took.
\<close>

primrec accepted :: "('s \<Rightarrow> 'r \<Rightarrow> 's) \<Rightarrow> ('s \<Rightarrow> 'r \<Rightarrow> bool) \<Rightarrow> 's \<Rightarrow> 'r list \<Rightarrow> 'r list" where
  "accepted step fresh s [] = []"
| "accepted step fresh s (r # rs) =
     (if fresh s r then r # accepted step fresh (step s r) rs else accepted step fresh s rs)"

locale health_machine =
  fixes step :: "'s \<Rightarrow> 'r \<Rightarrow> 's"
    and fresh :: "'s \<Rightarrow> 'r \<Rightarrow> bool"
    and good :: "'r \<Rightarrow> bool"
    and bad :: "'r \<Rightarrow> bool"
    and succ :: "'s \<Rightarrow> int"
    and fail :: "'s \<Rightarrow> int"
  assumes stale_step: "\<not> fresh s r \<Longrightarrow> step s r = s"
    and succ_step: "fresh s r \<Longrightarrow> succ (step s r) = (if good r then succ s + 1 else 0)"
    and fail_step: "fresh s r \<Longrightarrow> fail (step s r) = (if bad r then fail s + 1 else 0)"
begin

lemma run_accepted: "foldl step s (accepted step fresh s rs) = foldl step s rs"
  by (induction rs arbitrary: s) (auto simp: stale_step)

lemma accepted_snoc:
  "accepted step fresh s (rs @ [r]) =
     accepted step fresh s rs @ (if fresh (foldl step s rs) r then [r] else [])"
  by (induction rs arbitrary: s) (auto simp: stale_step)

lemma succ_run:
  "succ s = 0 \<Longrightarrow>
   succ (foldl step s rs) = int (length (takeWhile good (rev (accepted step fresh s rs))))"
proof (induction rs rule: rev_induct)
  case (snoc r rs)
  then show ?case by (auto simp: accepted_snoc succ_step stale_step)
qed simp

lemma fail_run:
  "fail s = 0 \<Longrightarrow>
   fail (foldl step s rs) = int (length (takeWhile bad (rev (accepted step fresh s rs))))"
proof (induction rs rule: rev_induct)
  case (snoc r rs)
  then show ?case by (auto simp: accepted_snoc fail_step stale_step)
qed simp

end

text \<open>The code's step, for thresholds it accepts.\<close>

definition health_step :: "int \<Rightarrow> int \<Rightarrow> HealthObservation \<Rightarrow> bool \<Rightarrow> HealthObservation" where
  "health_step f s obs b = (case applyHealthResult obs b (thresholds_of (max 1 f) (max 1 s)) of
     Inr o' \<Rightarrow> o' | Inl _ \<Rightarrow> obs)"

lemma applyHealthResult_health_step:
  "1 \<le> f \<Longrightarrow> 1 \<le> s \<Longrightarrow> applyHealthResult obs b (thresholds_of f s) = Inr (health_step f s obs b)"
  by (auto simp: health_step_def applyHealthResult_def Let_def max_def)

lemma health_step_simps:
  "health_step f s obs True = observation
     (if max 1 s \<le> ho_consecutiveSuccesses obs + 1 then Healthy
      else if ho_state obs = Unhealthy then Recovering else ho_state obs)
     (ho_consecutiveSuccesses obs + 1) 0"
  "health_step f s obs False = observation
     (if ho_state obs = Unhealthy \<or> ho_state obs = Recovering \<or> max 1 f \<le> ho_consecutiveFailures obs + 1 then Unhealthy
      else if ho_state obs = Unknown then Unknown else Degraded)
     0 (ho_consecutiveFailures obs + 1)"
  by (cases "ho_state obs"; auto simp: health_step_def applyHealthResult_def Let_def)+

lemma health_step_counters [simp]:
  "ho_consecutiveSuccesses (health_step f s obs b) = (if b then ho_consecutiveSuccesses obs + 1 else 0)"
  "ho_consecutiveFailures (health_step f s obs b) = (if b then 0 else ho_consecutiveFailures obs + 1)"
  by (cases b; simp add: health_step_simps)+

interpretation health: health_machine "health_step f s" "\<lambda>_ _. True" "\<lambda>b. b" "\<lambda>b. \<not> b"
    ho_consecutiveSuccesses ho_consecutiveFailures for f s
  by unfold_locales simp_all

section \<open>The hysteresis automaton the states implement\<close>

datatype verdict = Undecided | Up | Down

fun verdict_of :: "HealthState \<Rightarrow> verdict" where
  "verdict_of Unknown = Undecided"
| "verdict_of Healthy = Up"
| "verdict_of Degraded = Up"
| "verdict_of Unhealthy = Down"
| "verdict_of Recovering = Down"

text \<open>Streaks of results, then the verdict they force: that is all there is to the machine.\<close>

definition hysteresis :: "int \<Rightarrow> int \<Rightarrow> verdict \<times> int \<times> int \<Rightarrow> bool \<Rightarrow> verdict \<times> int \<times> int" where
  "hysteresis f s = (\<lambda>(v, cs, cf) b.
     if b then (if s \<le> cs + 1 then Up else v, cs + 1, 0)
     else (if f \<le> cf + 1 then Down else v, 0, cf + 1))"

definition abs_observation :: "HealthObservation \<Rightarrow> verdict \<times> int \<times> int" where
  "abs_observation obs = (verdict_of (ho_state obs), ho_consecutiveSuccesses obs, ho_consecutiveFailures obs)"

lemma health_step_hysteresis:
  "1 \<le> f \<Longrightarrow> 1 \<le> s \<Longrightarrow>
   abs_observation (health_step f s obs b) = hysteresis f s (abs_observation obs) b"
  by (cases b; cases "ho_state obs") (auto simp: health_step_simps abs_observation_def hysteresis_def)

lemma health_run_hysteresis:
  "1 \<le> f \<Longrightarrow> 1 \<le> s \<Longrightarrow>
   abs_observation (foldl (health_step f s) obs bs) = foldl (hysteresis f s) (abs_observation obs) bs"
  by (induction bs arbitrary: obs) (auto simp: health_step_hysteresis)

section \<open>Runs of the code's own step\<close>

definition fresh_observation :: HealthObservation where
  "fresh_observation = observation Unknown 0 0"

definition run_checks :: "HealthThresholds \<Rightarrow> bool list \<Rightarrow> HealthError + HealthObservation" where
  "run_checks t bs = foldE (\<lambda>obs b. applyHealthResult obs b t) fresh_observation bs"

lemma run_checks_health_step:
  "1 \<le> f \<Longrightarrow> 1 \<le> s \<Longrightarrow>
   run_checks (thresholds_of f s) bs = Inr (foldl (health_step f s) fresh_observation bs)"
  by (simp add: run_checks_def foldE_total applyHealthResult_health_step)

definition trailing :: "bool \<Rightarrow> bool list \<Rightarrow> int" where
  "trailing b bs = int (length (takeWhile (\<lambda>x. x = b) (rev bs)))"

lemma accepted_all [simp]: "accepted step (\<lambda>_ _. True) s rs = rs"
  by (induction rs arbitrary: s) auto

lemma trailing_counters:
  "ho_consecutiveSuccesses (foldl (health_step f s) fresh_observation bs) = trailing True bs"
  "ho_consecutiveFailures (foldl (health_step f s) fresh_observation bs) = trailing False bs"
  using health.succ_run [of fresh_observation f s bs] health.fail_run [of fresh_observation f s bs]
  by (simp_all add: fresh_observation_def trailing_def)


text \<open>A node changes verdict only on evidence: from a fresh observation, whatever results came
  in, the verdict turns up only when the last successThreshold results all succeeded (and the state is
  then healthy), and turns down only when the last failureThreshold results all failed (unhealthy).\<close>

theorem verdict_change_needs_streak:
  assumes run: "run_checks t bs = Inr o1" and step: "applyHealthResult o1 b t = Inr o2"
    and change: "verdict_of (ho_state o2) \<noteq> verdict_of (ho_state o1)"
  shows "if b then ho_state o2 = Healthy \<and> num_le (ht_successThreshold t) (num_of_int (trailing True (bs @ [b])))
         else ho_state o2 = Unhealthy \<and> num_le (ht_failureThreshold t) (num_of_int (trailing False (bs @ [b])))"
proof -
  from step obtain f s where t: "1 \<le> f" "1 \<le> s" "t = thresholds_of f s"
    by (rule applyHealthResult_Inr_thresholds)
  from run t have o1: "o1 = foldl (health_step f s) fresh_observation bs"
    by (simp add: run_checks_health_step)
  from step t have o2: "o2 = health_step f s o1 b"
    by (simp add: applyHealthResult_health_step)
  with o1 have o2': "o2 = foldl (health_step f s) fresh_observation (bs @ [b])" by simp
  have counters: "ho_consecutiveSuccesses o2 = trailing True (bs @ [b])"
    "ho_consecutiveFailures o2 = trailing False (bs @ [b])"
    unfolding o2' by (rule trailing_counters)+
  show ?thesis
    using change t unfolding counters [symmetric] o2
    by (cases b; cases "ho_state o1") (auto simp: health_step_simps split: if_splits)
qed

theorem verdict_change_needs_streak_witness:
  "ho_state (observation Healthy 2 0) = Healthy \<and>
   num_le (ht_successThreshold (thresholds_of 3 2)) (num_of_int (trailing True ([False, False, False, True] @ [True])))"
proof -
  have run: "run_checks (thresholds_of 3 2) [False, False, False, True] = Inr (observation Recovering 1 0)"
    by (simp add: run_checks_health_step fresh_observation_def health_step_simps)
  have step: "applyHealthResult (observation Recovering 1 0) True (thresholds_of 3 2) = Inr (observation Healthy 2 0)"
    by (simp add: applyHealthResult_health_step health_step_simps)
  show ?thesis
    using verdict_change_needs_streak [OF run step] by simp
qed

end
