(* ===== verification/Probe_Consensus.thy ===== *)
theory Probe_Consensus
  imports Health_State
begin

text \<open>
  Probe rounds (\<open>packages/automation/src/probe-consensus.ts\<close>): the outcomes of a group's probes are
  voted into one decision, and a decision moves the observation of its target once per round.
  The lemmas show that a decision is final under late reports, that contradictory decisions
  cannot be reached from one set of reports, and that a repeated round changes nothing.
\<close>

datatype RoundDecision = RoundSuccess | RoundFailure | RoundUnknown

record RoundHealthObservation = HealthObservation +
  rh_lastRoundId :: "string option"

datatype ConsensusError =
    MembersNotUnique | MinimumValidOutOfRange | FailureVotesOutOfRange | SpecifiedNotMember
  | SpecifiedHasNoThreshold | RoundIdEmpty | ThresholdError HealthError

type_synonym outcomes = "string \<rightharpoonup> ProbeOutcome"

definition validateConsensusInput :: "string list \<Rightarrow> ConsensusPolicy \<Rightarrow> ConsensusError + int" where
  "validateConsensusInput memberIds policy =
     (let memberCount = int (card (set memberIds)) in
      if memberCount = 0 \<or> memberCount \<noteq> int (length memberIds) then Inl MembersNotUnique
      else if \<not> is_integer (cp_minimumValid policy) \<or> num_lt (cp_minimumValid policy) (num_of_int 1)
        \<or> num_lt (num_of_int memberCount) (cp_minimumValid policy) then Inl MinimumValidOutOfRange
      else if cp_mode policy = AtLeastMode \<and>
        (case cp_failureVotes policy of None \<Rightarrow> True
         | Some v \<Rightarrow> \<not> is_integer v \<or> num_lt v (num_of_int 1) \<or> num_lt (num_of_int memberCount) v)
        then Inl FailureVotesOutOfRange
      else if cp_mode policy = SpecifiedMode \<and>
        (case cp_specifiedProbeId policy of None \<Rightarrow> True
         | Some p \<Rightarrow> p = [] \<or> p \<notin> set memberIds)
        then Inl SpecifiedNotMember
      else Inr memberCount)"

definition requiredFailureVotes :: "ConsensusPolicy \<Rightarrow> int \<Rightarrow> ConsensusError + number" where
  "requiredFailureVotes policy memberCount =
     (case cp_mode policy of
        AnyMode \<Rightarrow> Inr (num_of_int 1)
      | MajorityMode \<Rightarrow> Inr (num_of_int (memberCount div 2 + 1))
      | AllMode \<Rightarrow> Inr (num_of_int memberCount)
      | AtLeastMode \<Rightarrow> Inr (case cp_failureVotes policy of Some v \<Rightarrow> v | None \<Rightarrow> NaN)
      | SpecifiedMode \<Rightarrow> Inl SpecifiedHasNoThreshold)"

definition counted :: "ProbeOutcome option \<Rightarrow> bool" where
  "counted outcome \<longleftrightarrow> outcome = Some SuccessOutcome \<or> outcome = Some FailureOutcome"

definition evaluateProbeRound :: "string list \<Rightarrow> outcomes \<Rightarrow> ConsensusPolicy \<Rightarrow> ConsensusError + RoundDecision" where
  "evaluateProbeRound memberIds outcomes policy =
     bindE (validateConsensusInput memberIds policy) (\<lambda>memberCount.
       let memberOutcomes = map outcomes memberIds;
           validCount = int (length (filter counted memberOutcomes))
       in if num_lt (num_of_int validCount) (cp_minimumValid policy) then Inr RoundUnknown
          else if cp_mode policy = SpecifiedMode then
            Inr (case Option.bind (cp_specifiedProbeId policy) outcomes of
                   Some SuccessOutcome \<Rightarrow> RoundSuccess
                 | Some FailureOutcome \<Rightarrow> RoundFailure
                 | _ \<Rightarrow> RoundUnknown)
          else
            let failures = int (length (filter (\<lambda>outcome. outcome = Some FailureOutcome) memberOutcomes));
                successes = int (length (filter (\<lambda>outcome. outcome = Some SuccessOutcome) memberOutcomes))
            in bindE (requiredFailureVotes policy memberCount) (\<lambda>failureVotes.
                 if num_le failureVotes (num_of_int failures) then Inr RoundFailure
                 else if num_lt (num_sub (num_of_int memberCount) failureVotes) (num_of_int successes)
                 then Inr RoundSuccess
                 else Inr RoundUnknown))"

definition as_round :: "HealthObservation \<Rightarrow> string option \<Rightarrow> RoundHealthObservation" where
  "as_round obs roundId = \<lparr>ho_state = ho_state obs,
     ho_consecutiveSuccesses = ho_consecutiveSuccesses obs,
     ho_consecutiveFailures = ho_consecutiveFailures obs, rh_lastRoundId = roundId\<rparr>"

definition health_of :: "RoundHealthObservation \<Rightarrow> HealthObservation" where
  "health_of r = observation (ho_state r) (ho_consecutiveSuccesses r) (ho_consecutiveFailures r)"

definition advanceRoundHealth ::
  "RoundHealthObservation \<Rightarrow> string \<Rightarrow> RoundDecision \<Rightarrow> HealthThresholds \<Rightarrow> ConsensusError + RoundHealthObservation" where
  "advanceRoundHealth current roundId decision thresholds =
     (if roundId = [] then Inl RoundIdEmpty
      else if rh_lastRoundId current = Some roundId then Inr current
      else case validateThresholds thresholds of
        Inl e \<Rightarrow> Inl (ThresholdError e)
      | Inr _ \<Rightarrow>
         (if decision = RoundUnknown then
            Inr (current\<lparr>ho_consecutiveSuccesses := 0, ho_consecutiveFailures := 0, rh_lastRoundId := Some roundId\<rparr>)
          else case applyHealthResult (health_of current) (decision = RoundSuccess) thresholds of
            Inl e \<Rightarrow> Inl (ThresholdError e)
          | Inr obs \<Rightarrow> Inr (as_round obs (Some roundId))))"

section \<open>Votes\<close>

definition votes :: "ProbeOutcome \<Rightarrow> string list \<Rightarrow> outcomes \<Rightarrow> int" where
  "votes v ms out = int (length (filter (\<lambda>m. out m = Some v) ms))"

lemma filter_outcomes:
  "int (length (filter ((\<lambda>o'. o' = Some v) \<circ> out) ms)) = votes v ms out"
  by (simp add: votes_def comp_def)

lemma counted_votes:
  "int (length (filter (counted \<circ> out) ms)) = votes SuccessOutcome ms out + votes FailureOutcome ms out"
  by (induction ms) (auto simp: counted_def votes_def)

lemma votes_bound: "votes SuccessOutcome ms out + votes FailureOutcome ms out \<le> int (length ms)"
  by (induction ms) (auto simp: votes_def)

lemma votes_nonneg: "0 \<le> votes v ms out"
  by (simp add: votes_def)

lemma votes_mono:
  "(\<And>m. out m = Some v \<Longrightarrow> out' m = Some v) \<Longrightarrow> votes v ms out \<le> votes v ms out'"
  by (induction ms) (auto simp: votes_def)

text \<open>The threshold of a validated policy, as an integer between one and the member count.\<close>

definition failure_votes :: "ConsensusPolicy \<Rightarrow> int \<Rightarrow> int" where
  "failure_votes p n = (case cp_mode p of AnyMode \<Rightarrow> 1 | MajorityMode \<Rightarrow> n div 2 + 1 | AllMode \<Rightarrow> n
     | AtLeastMode \<Rightarrow> (case cp_failureVotes p of Some (Num v) \<Rightarrow> \<lfloor>v\<rfloor> | _ \<Rightarrow> 0) | SpecifiedMode \<Rightarrow> 0)"

lemma validateConsensusInput_Inr:
  assumes "validateConsensusInput ms p = Inr n"
  shows "n = int (length ms)" "1 \<le> n" "distinct ms"
    "\<exists>k. cp_minimumValid p = num_of_int k \<and> 1 \<le> k \<and> k \<le> n"
    "cp_mode p = SpecifiedMode \<Longrightarrow> \<exists>q \<in> set ms. cp_specifiedProbeId p = Some q"
    "cp_mode p \<noteq> SpecifiedMode \<Longrightarrow>
       requiredFailureVotes p n = Inr (num_of_int (failure_votes p n)) \<and> 1 \<le> failure_votes p n \<and> failure_votes p n \<le> n"
proof -
  from assms have n: "n = int (card (set ms))" "n \<noteq> 0" "n = int (length ms)"
    by (auto simp: validateConsensusInput_def Let_def split: if_splits)
  then show len: "n = int (length ms)" and pos: "1 \<le> n" and "distinct ms"
    by (auto intro: card_distinct simp: Suc_le_eq card_gt_0_iff)
  from assms show "\<exists>k. cp_minimumValid p = num_of_int k \<and> 1 \<le> k \<and> k \<le> n"
    by (auto simp: validateConsensusInput_def Let_def split: if_splits elim!: is_integerE)
  from assms show "\<exists>q \<in> set ms. cp_specifiedProbeId p = Some q" if "cp_mode p = SpecifiedMode"
    using that by (auto simp: validateConsensusInput_def Let_def split: if_splits option.splits)
  show "requiredFailureVotes p n = Inr (num_of_int (failure_votes p n)) \<and> 1 \<le> failure_votes p n \<and> failure_votes p n \<le> n"
    if m: "cp_mode p \<noteq> SpecifiedMode"
  proof (cases "cp_mode p")
    case AtLeastMode
    with assms n(1) obtain v where "cp_failureVotes p = Some (num_of_int v)" "1 \<le> v" "v \<le> n"
      by (auto simp: validateConsensusInput_def Let_def split: if_splits option.splits elim!: is_integerE)
    with AtLeastMode show ?thesis by (simp add: requiredFailureVotes_def failure_votes_def num_of_int_def)
  qed (use m pos in \<open>auto simp: requiredFailureVotes_def failure_votes_def\<close>)
qed

text \<open>The decision of a validated round, in terms of the votes.\<close>

lemma evaluateProbeRound_votes:
  assumes v: "validateConsensusInput ms p = Inr n" and m: "cp_mode p \<noteq> SpecifiedMode"
  shows "evaluateProbeRound ms out p = Inr
    (if num_lt (num_of_int (votes SuccessOutcome ms out + votes FailureOutcome ms out)) (cp_minimumValid p) then RoundUnknown
     else if failure_votes p n \<le> votes FailureOutcome ms out then RoundFailure
     else if n - failure_votes p n < votes SuccessOutcome ms out then RoundSuccess else RoundUnknown)"
  using validateConsensusInput_Inr(6) [OF v m] m v
  by (simp add: evaluateProbeRound_def Let_def filter_outcomes counted_votes)

lemma evaluateProbeRound_specified:
  assumes v: "validateConsensusInput ms p = Inr n" and m: "cp_mode p = SpecifiedMode"
    and q: "cp_specifiedProbeId p = Some q"
  shows "evaluateProbeRound ms out p = Inr
    (if num_lt (num_of_int (votes SuccessOutcome ms out + votes FailureOutcome ms out)) (cp_minimumValid p) then RoundUnknown
     else (case out q of Some SuccessOutcome \<Rightarrow> RoundSuccess | Some FailureOutcome \<Rightarrow> RoundFailure | _ \<Rightarrow> RoundUnknown))"
  using m v q by (simp add: evaluateProbeRound_def Let_def counted_votes)

lemma evaluateProbeRound_Inr_valid:
  "evaluateProbeRound ms out p = Inr d \<Longrightarrow> \<exists>n. validateConsensusInput ms p = Inr n"
  by (auto simp: evaluateProbeRound_def bindE_eq_Inr)

section \<open>Decisions\<close>

text \<open>More reports of the same round: what was reported with a result stays as it was.\<close>

definition later_reports :: "string list \<Rightarrow> outcomes \<Rightarrow> outcomes \<Rightarrow> bool" where
  "later_reports ms out out' \<longleftrightarrow> list_all (\<lambda>m. counted (out m) \<longrightarrow> out' m = out m) ms"

lemma later_votes: "later_reports ms out out' \<Longrightarrow> v \<noteq> UnavailableOutcome \<Longrightarrow> votes v ms out \<le> votes v ms out'"
  by (cases v; induction ms) (auto simp: later_reports_def votes_def counted_def)

text \<open>A decision is final: once a round is decided, no later report of its members (in any order,
  in any number) changes the decision, let alone reverses it.\<close>

theorem decision_final:
  assumes d: "evaluateProbeRound ms out p = Inr d" "d \<noteq> RoundUnknown"
    and later: "later_reports ms out out'"
  shows "evaluateProbeRound ms out' p = Inr d"
proof -
  obtain n where v: "validateConsensusInput ms p = Inr n"
    using d(1) evaluateProbeRound_Inr_valid by blast
  note vs = validateConsensusInput_Inr [OF v]
  note mono = later_votes [OF later, of SuccessOutcome] later_votes [OF later, of FailureOutcome]
  obtain k where k: "cp_minimumValid p = num_of_int k" using vs(4) by blast
  show ?thesis
  proof (cases "cp_mode p = SpecifiedMode")
    case True
    then obtain q where q: "q \<in> set ms" "cp_specifiedProbeId p = Some q" using vs(5) by blast
    from later q(1) have "counted (out q) \<Longrightarrow> out' q = out q"
      by (auto simp: later_reports_def list_all_iff)
    with d mono show ?thesis
      by (auto simp: evaluateProbeRound_specified [OF v True q(2)] k counted_def
          split: if_splits option.splits ProbeOutcome.splits)
  next
    case False
    with d mono votes_bound [of ms out'] vs(1) show ?thesis
      by (auto simp: evaluateProbeRound_votes [OF v False] k split: if_splits)
  qed
qed

definition quorum_policy :: ConsensusPolicy where
  "quorum_policy = \<lparr>cp_mode = MajorityMode, cp_minimumValid = num_of_int 2,
     cp_failureVotes = None, cp_specifiedProbeId = None\<rparr>"

theorem decision_final_witness:
  "evaluateProbeRound [''a'', ''b'', ''c'']
     [''a'' \<mapsto> FailureOutcome, ''b'' \<mapsto> FailureOutcome, ''c'' \<mapsto> SuccessOutcome] quorum_policy = Inr RoundFailure"
proof -
  have "evaluateProbeRound [''a'', ''b'', ''c''] [''a'' \<mapsto> FailureOutcome, ''b'' \<mapsto> FailureOutcome] quorum_policy
    = Inr RoundFailure"
    by (simp add: evaluateProbeRound_def validateConsensusInput_def requiredFailureVotes_def quorum_policy_def
        counted_def)
  then show ?thesis
    by (rule decision_final) (simp_all add: later_reports_def counted_def)
qed

text \<open>A round every member reported is decided, whatever the vote threshold: when all members
  have a result, the decision of a voting policy is a success or a failure, and it is a failure exactly
  when the failures reach the required votes.\<close>

theorem full_round_decided:
  assumes v: "validateConsensusInput ms p = Inr n" and m: "cp_mode p \<noteq> SpecifiedMode"
    and all: "list_all (\<lambda>q. counted (out q)) ms"
  shows "evaluateProbeRound ms out p =
    Inr (if failure_votes p n \<le> votes FailureOutcome ms out then RoundFailure else RoundSuccess)"
proof -
  note vs = validateConsensusInput_Inr [OF v]
  have total: "votes SuccessOutcome ms out + votes FailureOutcome ms out = n"
    using all vs(1) by (simp add: counted_votes [symmetric] list_all_iff comp_def)
  obtain k where "cp_minimumValid p = num_of_int k" "k \<le> n" using vs(4) by blast
  with total show ?thesis by (simp add: evaluateProbeRound_votes [OF v m])
qed

theorem full_round_decided_witness:
  "evaluateProbeRound [''a'', ''b''] [''a'' \<mapsto> FailureOutcome, ''b'' \<mapsto> SuccessOutcome] quorum_policy
   = Inr RoundSuccess"
proof -
  have "validateConsensusInput [''a'', ''b''] quorum_policy = Inr 2"
    by (simp add: validateConsensusInput_def quorum_policy_def)
  from full_round_decided [OF this] show ?thesis
    by (simp add: quorum_policy_def counted_def failure_votes_def votes_def)
qed

section \<open>Rounds of a target\<close>

lemma advance_defined:
  "1 \<le> f \<Longrightarrow> 1 \<le> s \<Longrightarrow> k \<noteq> [] \<Longrightarrow>
   advanceRoundHealth c k d (thresholds_of f s) =
   Inr (if rh_lastRoundId c = Some k then c
        else case d of
          RoundUnknown \<Rightarrow> c\<lparr>ho_consecutiveSuccesses := 0, ho_consecutiveFailures := 0, rh_lastRoundId := Some k\<rparr>
        | RoundSuccess \<Rightarrow> as_round (health_step f s (health_of c) True) (Some k)
        | RoundFailure \<Rightarrow> as_round (health_step f s (health_of c) False) (Some k))"
  by (cases d) (auto simp: advanceRoundHealth_def applyHealthResult_health_step)

lemma as_round_sel [simp]:
  "ho_state (as_round obs k) = ho_state obs"
  "ho_consecutiveSuccesses (as_round obs k) = ho_consecutiveSuccesses obs"
  "ho_consecutiveFailures (as_round obs k) = ho_consecutiveFailures obs"
  "rh_lastRoundId (as_round obs k) = k"
  "ho_state (health_of c) = ho_state c"
  "ho_consecutiveSuccesses (health_of c) = ho_consecutiveSuccesses c"
  "ho_consecutiveFailures (health_of c) = ho_consecutiveFailures c"
  by (simp_all add: as_round_def health_of_def)

definition round_step :: "int \<Rightarrow> int \<Rightarrow> RoundHealthObservation \<Rightarrow> string \<times> RoundDecision \<Rightarrow> RoundHealthObservation" where
  "round_step f s c r = (case advanceRoundHealth c (fst r) (snd r) (thresholds_of (max 1 f) (max 1 s)) of
     Inr c' \<Rightarrow> c' | Inl _ \<Rightarrow> c)"

definition fresh_round :: "RoundHealthObservation \<Rightarrow> string \<times> RoundDecision \<Rightarrow> bool" where
  "fresh_round c r \<longleftrightarrow> fst r \<noteq> [] \<and> rh_lastRoundId c \<noteq> Some (fst r)"

interpretation rounds: health_machine "round_step f s" fresh_round
    "\<lambda>r. snd r = RoundSuccess" "\<lambda>r. snd r = RoundFailure"
    ho_consecutiveSuccesses ho_consecutiveFailures for f s
proof unfold_locales
  fix c r
  show "\<not> fresh_round c r \<Longrightarrow> round_step f s c r = c"
    by (auto simp: round_step_def fresh_round_def advanceRoundHealth_def)
  assume "fresh_round c r"
  then have r: "fst r \<noteq> []" "rh_lastRoundId c \<noteq> Some (fst r)" by (simp_all add: fresh_round_def)
  show "ho_consecutiveSuccesses (round_step f s c r) = (if snd r = RoundSuccess then ho_consecutiveSuccesses c + 1 else 0)"
    "ho_consecutiveFailures (round_step f s c r) = (if snd r = RoundFailure then ho_consecutiveFailures c + 1 else 0)"
    using r by (cases "snd r"; simp add: round_step_def advance_defined)+
qed

text \<open>A round moves its target at most once: delivering the same round again, even with another
  decision or other thresholds, leaves the observation as the first delivery made it.\<close>

theorem round_redelivery_ignored:
  assumes "advanceRoundHealth c k d t = Inr c'"
  shows "advanceRoundHealth c' k d' t' = Inr c'"
  using assms
  by (auto simp: advanceRoundHealth_def split: if_splits sum.splits)

theorem round_redelivery_ignored_witness:
  "advanceRoundHealth (as_round (observation Degraded 0 1) (Some ''r1'')) ''r1'' RoundSuccess (thresholds_of 1 1)
   = Inr (as_round (observation Degraded 0 1) (Some ''r1''))"
proof -
  have "advanceRoundHealth (as_round (observation Healthy 4 0) None) ''r1'' RoundFailure (thresholds_of 3 2)
    = Inr (as_round (observation Degraded 0 1) (Some ''r1''))"
    by (simp add: advance_defined health_step_simps as_round_def health_of_def)
  then show ?thesis by (rule round_redelivery_ignored)
qed

definition run_rounds ::
  "HealthThresholds \<Rightarrow> (string \<times> RoundDecision) list \<Rightarrow> ConsensusError + RoundHealthObservation" where
  "run_rounds t rs = foldE (\<lambda>c r. advanceRoundHealth c (fst r) (snd r) t) (as_round fresh_observation None) rs"

text \<open>The rounds of a history that were new when they arrived.\<close>

fun new_rounds :: "string option \<Rightarrow> (string \<times> RoundDecision) list \<Rightarrow> (string \<times> RoundDecision) list" where
  "new_rounds prev [] = []"
| "new_rounds prev ((k, d) # rs) =
     (if prev = Some k then new_rounds prev rs else (k, d) # new_rounds (Some k) rs)"

lemma run_rounds_step:
  assumes "1 \<le> f" "1 \<le> s" and "foldE (\<lambda>c r. advanceRoundHealth c (fst r) (snd r) (thresholds_of f s)) c rs = Inr c'"
  shows "c' = foldl (round_step f s) c rs \<and>
    accepted (round_step f s) fresh_round c rs = new_rounds (rh_lastRoundId c) rs"
  using assms(3)
proof (induction rs arbitrary: c)
  case (Cons r rs)
  obtain k d where r: "r = (k, d)" by (cases r)
  from Cons.prems r obtain c1 where c1: "advanceRoundHealth c k d (thresholds_of f s) = Inr c1"
    and run: "foldE (\<lambda>c r. advanceRoundHealth c (fst r) (snd r) (thresholds_of f s)) c1 rs = Inr c'"
    by (auto simp: bindE_eq_Inr)
  then have k: "k \<noteq> []" by (auto simp: advanceRoundHealth_def)
  from c1 assms(1,2) r have step: "round_step f s c r = c1"
    by (simp add: round_step_def max_def)
  from c1 have last: "rh_lastRoundId c1 = Some k"
    by (auto simp: advanceRoundHealth_def split: if_splits sum.splits)
  have same: "rh_lastRoundId c = Some k \<Longrightarrow> c1 = c"
    using c1 k by (simp add: advanceRoundHealth_def)
  show ?case
    using Cons.IH [OF run] step last same r k by (auto simp: fresh_round_def)
qed simp

text \<open>A target's verdict follows rounds, not reports: in any history of rounds, with repeated
  deliveries counted once, a round that changes the verdict is itself decided, and together with the
  rounds before it forms an unbroken run of equal decisions at least as long as the threshold. An
  undecided round breaks the run.\<close>

theorem verdict_change_needs_rounds:
  assumes run: "run_rounds t rs = Inr c1" and step: "advanceRoundHealth c1 k d t = Inr c2"
    and change: "verdict_of (ho_state c2) \<noteq> verdict_of (ho_state c1)"
  shows "d \<noteq> RoundUnknown \<and>
    num_le (if d = RoundSuccess then ht_successThreshold t else ht_failureThreshold t)
      (num_of_int (int (length (takeWhile (\<lambda>r. snd r = d) (rev (new_rounds None (rs @ [(k, d)])))))))"
proof -
  have d: "d \<noteq> RoundUnknown" and k: "k \<noteq> []" and new: "rh_lastRoundId c1 \<noteq> Some k"
    using step change by (auto simp: advanceRoundHealth_def split: if_splits sum.splits)
  then have valid: "validateThresholds t = Inr ()"
    using step by (auto simp: advanceRoundHealth_def split: if_splits sum.splits)
  then obtain f s where t: "1 \<le> f" "1 \<le> s" "t = thresholds_of f s" using validateThresholds_iff by blast
  let ?c0 = "as_round fresh_observation None"
  have run': "foldE (\<lambda>c r. advanceRoundHealth c (fst r) (snd r) (thresholds_of f s)) ?c0 (rs @ [(k, d)]) = Inr c2"
    using run step t(3) by (simp add: run_rounds_def foldE_append)
  note c2 = run_rounds_step [OF t(1,2) run']
  have zero: "ho_consecutiveSuccesses ?c0 = 0" "ho_consecutiveFailures ?c0 = 0"
    by (simp_all add: fresh_observation_def)
  have counters:
    "ho_consecutiveSuccesses c2 = int (length (takeWhile (\<lambda>r. snd r = RoundSuccess) (rev (new_rounds None (rs @ [(k, d)])))))"
    "ho_consecutiveFailures c2 = int (length (takeWhile (\<lambda>r. snd r = RoundFailure) (rev (new_rounds None (rs @ [(k, d)])))))"
    using rounds.succ_run [OF zero(1), of f s "rs @ [(k, d)]"] rounds.fail_run [OF zero(2), of f s "rs @ [(k, d)]"] c2
    by simp_all
  have eq: "c2 = as_round (health_step f s (health_of c1) (d = RoundSuccess)) (Some k)"
    using step t d k new by (cases d) (simp_all add: advance_defined)
  show ?thesis
  proof (cases d)
    case RoundSuccess
    then show ?thesis
      using change counters eq t by (cases "ho_state c1") (auto simp: health_step_simps split: if_splits)
  next
    case RoundFailure
    then show ?thesis
      using change counters eq t by (cases "ho_state c1") (auto simp: health_step_simps split: if_splits)
  qed (use d in simp)
qed

theorem verdict_change_needs_rounds_witness:
  "num_le (ht_failureThreshold (thresholds_of 2 1))
    (num_of_int (int (length (takeWhile (\<lambda>r. snd r = RoundFailure)
      (rev (new_rounds None ([(''a'', RoundSuccess), (''b'', RoundFailure), (''b'', RoundFailure)] @ [(''c'', RoundFailure)])))))))"
proof -
  have run: "run_rounds (thresholds_of 2 1) [(''a'', RoundSuccess), (''b'', RoundFailure), (''b'', RoundFailure)]
    = Inr (as_round (observation Degraded 0 1) (Some ''b''))"
    by (simp add: run_rounds_def advance_defined health_step_simps fresh_observation_def as_round_def health_of_def)
  have step: "advanceRoundHealth (as_round (observation Degraded 0 1) (Some ''b'')) ''c'' RoundFailure (thresholds_of 2 1)
    = Inr (as_round (observation Unhealthy 0 2) (Some ''c''))"
    by (simp add: advance_defined health_step_simps as_round_def health_of_def)
  show ?thesis
    using verdict_change_needs_rounds [OF run step] by simp
qed

end
