(* ===== verification/Rotation_Machine.thy ===== *)
theory Rotation_Machine
  imports Probe_Consensus
begin

text \<open>
  The rotation state machine of \<open>packages/automation/src/rotation-machine.ts\<close>: from a snapshot of the
  coordinator's facts and the server clock, \<open>nextRotationAction\<close> names the one next action of an
  address rotation. Numbers are JavaScript numbers, because the comparison with the observation
  deadline comes before the test that the clock is finite. A \<open>switch\<close> of the source is a \<open>case\<close>,
  an early return an \<open>if\<close>, and an optional flag of a returned action a \<open>bool\<close>.
\<close>

section \<open>Snapshots and actions\<close>

text \<open>The store casts whatever error code a step carries to this type; \<open>OtherRejection\<close> is a code outside the union.\<close>

datatype RotationCloudRejection =
    PermissionDenied | QuotaExceeded | CredentialsExpired | InvalidCredentials
  | RateLimited | TemporaryCloudError | UnknownCloudError
  | RotationUnsupported | CloudWritesNotEnabled | RemoteIdentityChanged | ResourceNotFound
  | OtherRejection string

datatype RotationStepStatus =
    StepPrepared | StepApplied | StepNotApplied | StepAmbiguous | StepAbandoned
  | StepInFlight number | StepPending number
  | StepRejected RotationCloudRejection "number option"

record RotationStepSnapshot =
  rs_stepId :: string
  rs_status :: RotationStepStatus

record RotationRevisions =
  rv_authorization :: number
  rv_policy :: number
  rv_address :: number

record RotationEvidence =
  ev_addressVersion :: number
  ev_probeConfigRevision :: number
  ev_decision :: RoundDecision
  ev_consecutiveSuccesses :: number
  ev_consecutiveFailures :: number
  ev_observedAt :: number
  ev_expiresAt :: number

record RotationCandidate =
  rc_addressVersion :: number
  rc_probeConfigRevision :: number
  rc_successThreshold :: number
  rc_failureThreshold :: number
  rc_probeWindowEndsAt :: number
  rc_nextProbeAt :: number
  rc_evidence :: "RotationEvidence option"

datatype RotationPhase = CloudPhase | CandidatePhase | PublishPhase | CleanupPhase | CompletePhase

record RotationAuthorization =
  ra_managed :: bool
  ra_familyEnabled :: bool
  ra_present :: bool
  ra_regionAllowed :: bool
  ra_conflictingManager :: bool
  ra_lifecycleBlocked :: bool

record RotationLease =
  rl_held :: bool
  rl_revision :: number
  rl_expectedRevision :: number

record RotationBudget =
  rb_segmentId :: string
  rb_attemptsUsed :: number
  rb_maxAttempts :: number
  rb_exhausted :: bool

record RotationAttempt =
  at_attemptId :: string
  at_segmentId :: string
  at_charged :: bool
  at_steps :: "RotationStepSnapshot list"

datatype RotationPublication = PubPending | PubFailed | PubInFlight number | PubApplied number

record RotationCleanupPlan =
  cl_authorized :: bool
  cl_ownershipVerified :: bool
  cl_notBefore :: number
  cl_steps :: "RotationStepSnapshot list"

datatype RotationCleanup = CleanupNotRequired | CleanupFailedStatus | CleanupRequired RotationCleanupPlan

record RotationSnapshot =
  rt_phase :: RotationPhase
  rt_authorization :: RotationAuthorization
  rt_revisions :: RotationRevisions
  rt_expectedRevisions :: RotationRevisions
  rt_lease :: RotationLease
  rt_budget :: RotationBudget
  rt_nextAttemptAt :: number
  rt_attempt :: "RotationAttempt option"
  rt_candidate :: "RotationCandidate option"
  rt_publication :: RotationPublication
  rt_cleanup :: RotationCleanup

datatype RotationPauseReason =
    PauseRejection RotationCloudRejection
  | AuthorizationRevoked | FamilyDisabled | RegionExcluded | ConflictingManager
  | AuthorizationChanged | ConfigurationChanged | AddressVersionChanged | StaleFence
  | AttemptsExhausted | ResourceOwnershipAmbiguous | CloudNotApplied
  | CandidateFailed | DnsPartial | CleanupNotAuthorized | CleanupFailed
  | InvalidSnapshot | InstanceLifecycleBusy

datatype RotationWaitReason =
    InstanceBusy | Cooldown | CandidateRequired | ProbeInsufficient | PublicationRequired | CleanupGrace
  | WaitRejection RotationCloudRejection

datatype RotationAction =
    Wait RotationWaitReason "number option"
  | ExecutePrepareAttempt string
  | ExecuteCloudStep string string
  | Observe string string bool
  | Probe number bool
  | PublishDispatch number
  | PublishObserve number
  | Cleanup string string
  | Pause RotationPauseReason
  | Complete

section \<open>The decision function\<close>

definition writeGate :: "RotationSnapshot \<Rightarrow> RotationAction option" where
  "writeGate s = (let auth = rt_authorization s in
     if ra_lifecycleBlocked auth then Some (Pause InstanceLifecycleBusy)
     else if \<not> ra_managed auth then Some (Pause AuthorizationRevoked)
     else if \<not> ra_familyEnabled auth then Some (Pause FamilyDisabled)
     else if \<not> ra_present auth then Some (Pause (PauseRejection ResourceNotFound))
     else if \<not> ra_regionAllowed auth then Some (Pause RegionExcluded)
     else if ra_conflictingManager auth then Some (Pause ConflictingManager)
     else if \<not> num_eq (rv_authorization (rt_revisions s)) (rv_authorization (rt_expectedRevisions s))
       then Some (Pause AuthorizationChanged)
     else if \<not> num_eq (rv_policy (rt_revisions s)) (rv_policy (rt_expectedRevisions s))
       then Some (Pause ConfigurationChanged)
     else if \<not> num_eq (rv_address (rt_revisions s)) (rv_address (rt_expectedRevisions s))
       then Some (Pause AddressVersionChanged)
     else if \<not> rl_held (rt_lease s) then Some (Wait InstanceBusy None)
     else if \<not> num_eq (rl_revision (rt_lease s)) (rl_expectedRevision (rt_lease s)) then Some (Pause StaleFence)
     else None)"

definition exhausted :: "RotationSnapshot \<Rightarrow> bool" where
  "exhausted s = (rb_exhausted (rt_budget s) \<or> num_le (rb_maxAttempts (rt_budget s)) (rb_attemptsUsed (rt_budget s)))"

definition attemptGate :: "RotationSnapshot \<Rightarrow> number \<Rightarrow> RotationAction option" where
  "attemptGate s now = (let b = rt_budget s in
     if \<not> is_safe_integer (rb_maxAttempts b) \<or> num_lt (rb_maxAttempts b) (num_of_int 1)
        \<or> \<not> is_safe_integer (rb_attemptsUsed b) \<or> num_lt (rb_attemptsUsed b) (num_of_int 0)
        \<or> \<not> is_finite (rt_nextAttemptAt s) then Some (Pause InvalidSnapshot)
     else if exhausted s then Some (Pause AttemptsExhausted)
     else if num_lt now (rt_nextAttemptAt s) then Some (Wait Cooldown (Some (rt_nextAttemptAt s)))
     else None)"

definition prepareAttempt :: "RotationSnapshot \<Rightarrow> number \<Rightarrow> RotationAction" where
  "prepareAttempt s now = (case attemptGate s now of
     Some blocked \<Rightarrow> blocked
   | None \<Rightarrow> ExecutePrepareAttempt (rb_segmentId (rt_budget s)))"

definition evidence_fresh :: "RotationCandidate \<Rightarrow> number \<Rightarrow> bool" where
  "evidence_fresh c now = (case rc_evidence c of None \<Rightarrow> False | Some e \<Rightarrow>
     num_eq (ev_addressVersion e) (rc_addressVersion c)
     \<and> num_eq (ev_probeConfigRevision e) (rc_probeConfigRevision c)
     \<and> num_le (ev_observedAt e) now \<and> num_lt now (ev_expiresAt e))"

definition evidence_verdict :: "RotationCandidate \<Rightarrow> number \<Rightarrow> RoundDecision \<Rightarrow> bool" where
  "evidence_verdict c now d = (evidence_fresh c now \<and> (case rc_evidence c of None \<Rightarrow> False | Some e \<Rightarrow>
     ev_decision e = d \<and>
     (if d = RoundSuccess then num_le (rc_successThreshold c) (ev_consecutiveSuccesses e)
      else num_le (rc_failureThreshold c) (ev_consecutiveFailures e))))"

definition candidateAction :: "RotationSnapshot \<Rightarrow> number \<Rightarrow> bool \<Rightarrow> RotationAction" where
  "candidateAction s now mayRotate = (case rt_candidate s of
     None \<Rightarrow> Wait CandidateRequired None
   | Some c \<Rightarrow>
       if \<not> num_eq (rc_addressVersion c) (rv_address (rt_revisions s)) then Pause AddressVersionChanged
       else if \<not> is_safe_integer (rc_successThreshold c) \<or> num_lt (rc_successThreshold c) (num_of_int 1)
         \<or> \<not> is_safe_integer (rc_failureThreshold c) \<or> num_lt (rc_failureThreshold c) (num_of_int 1)
         then Pause InvalidSnapshot
       else if evidence_verdict c now RoundSuccess then PublishDispatch (rc_addressVersion c)
       else if mayRotate \<and> exhausted s then Pause AttemptsExhausted
       else if evidence_verdict c now RoundFailure then
         (if \<not> mayRotate then Pause CandidateFailed
          else if \<not> (case rt_attempt s of None \<Rightarrow> False | Some a \<Rightarrow> at_charged a) then Pause InvalidSnapshot
          else prepareAttempt s now)
       else if num_lt now (rc_nextProbeAt c) then Wait ProbeInsufficient (Some (rc_nextProbeAt c))
       else Probe (rc_addressVersion c) (num_le (rc_probeWindowEndsAt c) now))"

definition firstUnapplied :: "RotationStepSnapshot list \<Rightarrow> RotationStepSnapshot option" where
  "firstUnapplied steps = find (\<lambda>item. rs_status item \<noteq> StepApplied) steps"

definition cleanupAction :: "RotationSnapshot \<Rightarrow> number \<Rightarrow> RotationAction" where
  "cleanupAction s now = (case rt_publication s of
     PubFailed \<Rightarrow> Pause DnsPartial
   | PubPending \<Rightarrow> Wait PublicationRequired None
   | PubInFlight _ \<Rightarrow> Wait PublicationRequired None
   | PubApplied version \<Rightarrow>
       if \<not> num_eq version (rv_address (rt_revisions s))
         \<or> \<not> (case rt_candidate s of None \<Rightarrow> False | Some c \<Rightarrow> num_eq version (rc_addressVersion c))
         then Pause AddressVersionChanged
       else (case rt_cleanup s of
         CleanupFailedStatus \<Rightarrow> Pause CleanupFailed
       | CleanupNotRequired \<Rightarrow> Complete
       | CleanupRequired plan \<Rightarrow>
           (case firstUnapplied (cl_steps plan) of
             None \<Rightarrow> Complete
           | Some step \<Rightarrow>
               if \<not> cl_authorized plan then Pause CleanupNotAuthorized
               else if \<not> cl_ownershipVerified plan \<or> rs_status step = StepAmbiguous then Pause ResourceOwnershipAmbiguous
               else if rs_status step \<noteq> StepPrepared then Pause CleanupFailed
               else if num_lt now (cl_notBefore plan) then Wait CleanupGrace (Some (cl_notBefore plan))
               else (case rt_attempt s of
                   None \<Rightarrow> Pause InvalidSnapshot
                 | Some attempt \<Rightarrow> Cleanup (at_attemptId attempt) (rs_stepId step)))))"

fun publication_applied :: "RotationPublication \<Rightarrow> bool" where
  "publication_applied (PubApplied _) = True"
| "publication_applied _ = False"

text \<open>The step the machine looks at: of the cleanup plan once the publication is applied, of the
  current attempt in the cloud phase, of nothing otherwise.\<close>

definition currentStep :: "RotationSnapshot \<Rightarrow> RotationStepSnapshot option" where
  "currentStep s = (let
     inCleanup = (rt_phase s = CleanupPhase \<or> (rt_phase s = PublishPhase \<and> publication_applied (rt_publication s)));
     attemptSteps = (if rt_phase s = CloudPhase then map_option at_steps (rt_attempt s) else None);
     steps = (if inCleanup
              then (case rt_cleanup s of CleanupRequired plan \<Rightarrow> Some (cl_steps plan) | _ \<Rightarrow> attemptSteps)
              else attemptSteps)
   in Option.bind steps firstUnapplied)"

fun observeDeadline :: "RotationStepStatus \<Rightarrow> number option" where
  "observeDeadline (StepInFlight deadline) = Some deadline"
| "observeDeadline (StepPending deadline) = Some deadline"
| "observeDeadline _ = None"

definition observeAction :: "RotationSnapshot \<Rightarrow> number \<Rightarrow> RotationAction option" where
  "observeAction s now = (case (rt_attempt s, currentStep s) of
     (Some attempt, Some step) \<Rightarrow>
       map_option (\<lambda>deadline. Observe (at_attemptId attempt) (rs_stepId step) (num_le deadline now))
         (observeDeadline (rs_status step))
   | _ \<Rightarrow> None)"

definition cloudAction :: "RotationSnapshot \<Rightarrow> number \<Rightarrow> RotationAction" where
  "cloudAction s now = (case rt_attempt s of
     None \<Rightarrow> prepareAttempt s now
   | Some attempt \<Rightarrow>
       if at_steps attempt = [] \<or> at_segmentId attempt \<noteq> rb_segmentId (rt_budget s) then Pause InvalidSnapshot
       else (case currentStep s of
         None \<Rightarrow> Wait CandidateRequired None
       | Some step \<Rightarrow>
           let execute = (case (if at_charged attempt then None else attemptGate s now) of
                 Some blocked \<Rightarrow> blocked
               | None \<Rightarrow> ExecuteCloudStep (at_attemptId attempt) (rs_stepId step))
           in (case rs_status step of
                 StepAmbiguous \<Rightarrow> Pause ResourceOwnershipAmbiguous
               | StepNotApplied \<Rightarrow> Pause CloudNotApplied
               | StepRejected reason retryAt \<Rightarrow>
                   (if reason \<noteq> RateLimited \<and> reason \<noteq> TemporaryCloudError then Pause (PauseRejection reason)
                    else (case retryAt of
                        None \<Rightarrow> Pause (PauseRejection reason)
                      | Some t \<Rightarrow> if num_lt now t then Wait (WaitRejection reason) (Some t) else execute))
               | _ \<Rightarrow> execute)))"

text \<open>The final \<open>switch\<close> on the phase.\<close>

definition phaseAction :: "RotationSnapshot \<Rightarrow> number \<Rightarrow> RotationAction" where
  "phaseAction s now = (case rt_phase s of
     CloudPhase \<Rightarrow> cloudAction s now
   | CandidatePhase \<Rightarrow> candidateAction s now True
   | PublishPhase \<Rightarrow>
       (case rt_publication s of
         PubFailed \<Rightarrow> Pause DnsPartial
       | PubApplied _ \<Rightarrow> cleanupAction s now
       | _ \<Rightarrow> candidateAction s now False)
   | CleanupPhase \<Rightarrow> cleanupAction s now
   | CompletePhase \<Rightarrow> Complete)"

definition nextRotationAction :: "RotationSnapshot \<Rightarrow> number \<Rightarrow> RotationAction" where
  "nextRotationAction s now =
    (if rt_phase s = CompletePhase then Complete
     else if map_option rs_status (currentStep s) = Some StepAbandoned then Pause CloudNotApplied
     else (case observeAction s now of
       Some action \<Rightarrow> action
     | None \<Rightarrow>
       (case rt_publication s of
         PubInFlight version \<Rightarrow> PublishObserve version
       | _ \<Rightarrow>
         if \<not> is_finite now then Pause InvalidSnapshot
         else (case writeGate s of
           Some gate \<Rightarrow> gate
         | None \<Rightarrow> phaseAction s now))))"

section \<open>The gate in front of every write\<close>

text \<open>What the coordinator must hold to change anything: the authorization in force, the three
  revisions it was granted for, and the lease under its current fence.\<close>

definition writes_permitted :: "RotationSnapshot \<Rightarrow> bool" where
  "writes_permitted s = (
     ra_managed (rt_authorization s) \<and> ra_familyEnabled (rt_authorization s) \<and> ra_present (rt_authorization s)
     \<and> ra_regionAllowed (rt_authorization s) \<and> \<not> ra_conflictingManager (rt_authorization s)
     \<and> \<not> ra_lifecycleBlocked (rt_authorization s)
     \<and> num_eq (rv_authorization (rt_revisions s)) (rv_authorization (rt_expectedRevisions s))
     \<and> num_eq (rv_policy (rt_revisions s)) (rv_policy (rt_expectedRevisions s))
     \<and> num_eq (rv_address (rt_revisions s)) (rv_address (rt_expectedRevisions s))
     \<and> rl_held (rt_lease s) \<and> num_eq (rl_revision (rt_lease s)) (rl_expectedRevision (rt_lease s)))"

fun is_write :: "RotationAction \<Rightarrow> bool" where
  "is_write (ExecutePrepareAttempt _) = True"
| "is_write (ExecuteCloudStep _ _) = True"
| "is_write (PublishDispatch _) = True"
| "is_write (Cleanup _ _) = True"
| "is_write _ = False"

lemma writeGate_None_iff: "writeGate s = None \<longleftrightarrow> writes_permitted s"
  by (auto simp: writeGate_def writes_permitted_def Let_def)

lemma writeGate_not_write: "writeGate s = Some a \<Longrightarrow> \<not> is_write a \<and> a \<noteq> Complete"
  by (auto simp: writeGate_def Let_def split: if_splits)

lemma attemptGate_not_write: "attemptGate s now = Some a \<Longrightarrow> \<not> is_write a \<and> a \<noteq> Complete"
  by (auto simp: attemptGate_def Let_def split: if_splits)

lemma observeAction_observes: "observeAction s now = Some a \<Longrightarrow> \<exists>attemptId stepId expired. a = Observe attemptId stepId expired"
  by (auto simp: observeAction_def split: option.splits)

text \<open>Every proof about a write or a completion goes through this one fact: such an action comes out of
  the phase switch, behind the gate.\<close>

lemma nextRotationAction_gated:
  assumes "nextRotationAction s now = a" and "is_write a \<or> (a = Complete \<and> rt_phase s \<noteq> CompletePhase)"
  shows "writes_permitted s \<and> is_finite now \<and> observeAction s now = None \<and> phaseAction s now = a
    \<and> rt_phase s \<noteq> CompletePhase \<and> (\<forall>v. rt_publication s \<noteq> PubInFlight v)"
  using assms
  by (auto simp: nextRotationAction_def writeGate_None_iff [symmetric]
      split: if_splits option.splits RotationPublication.splits
      dest: writeGate_not_write observeAction_observes)

text \<open>C1: No write without authority: whenever the next action prepares an attempt, executes a cloud step,
  dispatches a publication or cleans up, the resource is managed, enabled, present, in an allowed region
  and neither claimed by another manager nor by its lifecycle, the authorization, policy and address
  revisions are the expected ones, the lease is held under its fence, and the clock is finite.\<close>

theorem rotation_writes_gated:
  assumes "is_write (nextRotationAction s now)"
  shows "writes_permitted s \<and> is_finite now"
  using nextRotationAction_gated [OF refl, of s now] assms by blast

section \<open>Attempts\<close>

text \<open>An attempt may start when the budget of its segment has one left and the cooldown is over.\<close>

definition attempt_allowed :: "RotationSnapshot \<Rightarrow> number \<Rightarrow> bool" where
  "attempt_allowed s now = (\<not> rb_exhausted (rt_budget s)
     \<and> num_le (num_of_int 0) (rb_attemptsUsed (rt_budget s))
     \<and> num_lt (rb_attemptsUsed (rt_budget s)) (rb_maxAttempts (rt_budget s))
     \<and> num_le (rt_nextAttemptAt s) now)"

lemma attemptGate_None:
  assumes gate: "attemptGate s now = None" and now: "is_finite now"
  shows "attempt_allowed s now"
proof -
  have safe: "is_safe_integer (rb_maxAttempts (rt_budget s))" "is_safe_integer (rb_attemptsUsed (rt_budget s))"
    and next_at: "is_finite (rt_nextAttemptAt s)" "\<not> num_lt now (rt_nextAttemptAt s)"
    and used: "\<not> num_lt (rb_attemptsUsed (rt_budget s)) (num_of_int 0)" "\<not> exhausted s"
    using gate by (auto simp: attemptGate_def Let_def split: if_splits)
  obtain used max where n: "rb_attemptsUsed (rt_budget s) = num_of_int used" "rb_maxAttempts (rt_budget s) = num_of_int max"
    using safe by (metis is_safe_integerE)
  show ?thesis
    using used next_at now not_num_lt_iff_le [OF now next_at(1)]
    by (auto simp: attempt_allowed_def exhausted_def n)
qed

lemma prepareAttempt_eq: "prepareAttempt s now = ExecutePrepareAttempt g \<longleftrightarrow> attemptGate s now = None \<and> g = rb_segmentId (rt_budget s)"
  by (auto simp: prepareAttempt_def split: option.splits dest: attemptGate_not_write)

lemma prepareAttempt_cases:
  "prepareAttempt s now \<noteq> ExecuteCloudStep x y" "prepareAttempt s now \<noteq> PublishDispatch v"
  "prepareAttempt s now \<noteq> Cleanup x y" "prepareAttempt s now \<noteq> Complete"
  by (auto simp: prepareAttempt_def split: option.splits dest: attemptGate_not_write)

lemma candidateAction_cases:
  "candidateAction s now m \<noteq> ExecuteCloudStep x y" "candidateAction s now m \<noteq> Cleanup x y"
  "candidateAction s now m \<noteq> Complete"
  by (auto simp: candidateAction_def prepareAttempt_cases split: option.splits if_splits)

lemma cleanupAction_cases:
  "cleanupAction s now \<noteq> ExecuteCloudStep x y" "cleanupAction s now \<noteq> ExecutePrepareAttempt g"
  "cleanupAction s now \<noteq> PublishDispatch v"
  by (auto simp: cleanupAction_def split: option.splits if_splits RotationPublication.splits RotationCleanup.splits)

lemma cloudAction_cases:
  "cloudAction s now \<noteq> PublishDispatch v" "cloudAction s now \<noteq> Cleanup x y" "cloudAction s now \<noteq> Complete"
  by (auto simp: cloudAction_def Let_def prepareAttempt_cases split: option.splits if_splits RotationStepStatus.splits
      dest: attemptGate_not_write)

lemmas phase_cases = prepareAttempt_cases candidateAction_cases cleanupAction_cases cloudAction_cases

text \<open>The latest finalized probe round fails the candidate address, and it is about this address version
  and this probe configuration, observed already and not yet expired.\<close>

definition candidate_verdict :: "RotationSnapshot \<Rightarrow> number \<Rightarrow> RoundDecision \<Rightarrow> bool" where
  "candidate_verdict s now d = (case rt_candidate s of None \<Rightarrow> False
   | Some c \<Rightarrow> num_eq (rc_addressVersion c) (rv_address (rt_revisions s)) \<and> evidence_verdict c now d)"

definition attempt_charged :: "RotationSnapshot \<Rightarrow> bool" where
  "attempt_charged s = (case rt_attempt s of None \<Rightarrow> False | Some a \<Rightarrow> at_charged a)"

lemma candidateAction_prepares:
  "candidateAction s now m = ExecutePrepareAttempt g \<Longrightarrow>
    m \<and> candidate_verdict s now RoundFailure \<and> attempt_charged s \<and> prepareAttempt s now = ExecutePrepareAttempt g"
  by (auto simp: candidateAction_def candidate_verdict_def attempt_charged_def split: option.splits if_splits)

lemma cloudAction_prepares:
  "cloudAction s now = ExecutePrepareAttempt g \<Longrightarrow> rt_attempt s = None \<and> prepareAttempt s now = ExecutePrepareAttempt g"
  by (auto simp: cloudAction_def Let_def split: option.splits if_splits RotationStepStatus.splits
      dest: attemptGate_not_write)

text \<open>A new attempt is prepared only inside its budget and after the cooldown, and only for one of two
  reasons: the cloud phase has none yet, or the candidate phase holds fresh evidence, for this address
  version and probe configuration, of at least the configured number of consecutive failed rounds, with
  the previous attempt charged. Missing, unknown or stale evidence never rotates an address.\<close>

theorem rotation_new_attempt_justified:
  assumes "nextRotationAction s now = ExecutePrepareAttempt g"
  shows "attempt_allowed s now \<and> g = rb_segmentId (rt_budget s) \<and>
    (rt_phase s = CloudPhase \<and> rt_attempt s = None
     \<or> rt_phase s = CandidatePhase \<and> candidate_verdict s now RoundFailure \<and> attempt_charged s)"
proof -
  have p: "phaseAction s now = ExecutePrepareAttempt g" and now: "is_finite now"
    using nextRotationAction_gated [OF assms] by auto
  have "prepareAttempt s now = ExecutePrepareAttempt g \<and> (rt_phase s = CloudPhase \<and> rt_attempt s = None
     \<or> rt_phase s = CandidatePhase \<and> candidate_verdict s now RoundFailure \<and> attempt_charged s)"
    using p by (auto simp: phaseAction_def phase_cases split: RotationPhase.splits RotationPublication.splits
        dest: candidateAction_prepares cloudAction_prepares)
  then show ?thesis using attemptGate_None [OF _ now] by (auto simp: prepareAttempt_eq)
qed

section \<open>Steps in the cloud\<close>

text \<open>A step may be sent when it has never been sent, or when the cloud confirmed that it rejected it
  without effect, for a transient reason, and the retry time is not ahead.\<close>

fun may_send :: "RotationStepStatus \<Rightarrow> number \<Rightarrow> bool" where
  "may_send StepPrepared now = True"
| "may_send (StepRejected reason (Some t)) now = ((reason = RateLimited \<or> reason = TemporaryCloudError) \<and> \<not> num_lt now t)"
| "may_send _ now = False"

text \<open>The steps are taken in order: everything before the given one is applied.\<close>

definition next_in_order :: "RotationStepSnapshot list \<Rightarrow> RotationStepSnapshot \<Rightarrow> bool" where
  "next_in_order steps step = (\<exists>before after. steps = before @ step # after
     \<and> list_all (\<lambda>item. rs_status item = StepApplied) before \<and> rs_status step \<noteq> StepApplied)"

lemma firstUnapplied_Some: "firstUnapplied steps = Some step \<longleftrightarrow> next_in_order steps step"
proof
  assume "firstUnapplied steps = Some step"
  then obtain i where i: "i < length steps" "rs_status (steps ! i) \<noteq> StepApplied" "step = steps ! i"
    "\<forall>j<i. rs_status (steps ! j) = StepApplied"
    by (auto simp: firstUnapplied_def find_Some_iff)
  then have "steps = take i steps @ step # drop (Suc i) steps" by (simp add: id_take_nth_drop)
  moreover have "list_all (\<lambda>item. rs_status item = StepApplied) (take i steps)"
    using i by (simp add: list_all_length)
  ultimately show "next_in_order steps step" using i(2,3) unfolding next_in_order_def by blast
next
  assume "next_in_order steps step"
  then obtain before after where "steps = before @ step # after"
    "list_all (\<lambda>item. rs_status item = StepApplied) before" "rs_status step \<noteq> StepApplied"
    by (auto simp: next_in_order_def)
  then show "firstUnapplied steps = Some step"
    unfolding firstUnapplied_def by (induction before arbitrary: steps) auto
qed

lemma firstUnapplied_None: "firstUnapplied steps = None \<longleftrightarrow> list_all (\<lambda>item. rs_status item = StepApplied) steps"
  by (auto simp: firstUnapplied_def find_None_iff list_all_iff)

lemma currentStep_cloud: "rt_phase s = CloudPhase \<Longrightarrow> rt_attempt s = Some a \<Longrightarrow> currentStep s = firstUnapplied (at_steps a)"
  by (simp add: currentStep_def)

lemma observeAction_None:
  "observeAction s now = None \<Longrightarrow> rt_attempt s = Some a \<Longrightarrow> currentStep s = Some step \<Longrightarrow> observeDeadline (rs_status step) = None"
  by (simp add: observeAction_def)

lemma nextRotationAction_not_abandoned:
  "is_write (nextRotationAction s now) \<Longrightarrow> currentStep s = Some step \<Longrightarrow> rs_status step \<noteq> StepAbandoned"
  by (auto simp: nextRotationAction_def split: if_splits)

lemma cloudAction_executes:
  assumes "cloudAction s now = ExecuteCloudStep aid sid" and cloud: "rt_phase s = CloudPhase"
    and "observeAction s now = None" and "\<And>step. currentStep s = Some step \<Longrightarrow> rs_status step \<noteq> StepAbandoned"
  shows "\<exists>a step. rt_attempt s = Some a \<and> at_attemptId a = aid \<and> at_segmentId a = rb_segmentId (rt_budget s)
    \<and> next_in_order (at_steps a) step \<and> rs_stepId step = sid \<and> may_send (rs_status step) now
    \<and> (at_charged a \<or> attemptGate s now = None)"
proof -
  from assms(1) obtain a step where a: "rt_attempt s = Some a" "currentStep s = Some step"
    and ids: "at_attemptId a = aid" "rs_stepId step = sid" "at_segmentId a = rb_segmentId (rt_budget s)"
    by (auto simp: cloudAction_def Let_def prepareAttempt_cases split: option.splits if_splits RotationStepStatus.splits
        dest: attemptGate_not_write)
  have step: "next_in_order (at_steps a) step"
    using currentStep_cloud [OF cloud a(1)] a(2) by (simp flip: firstUnapplied_Some)
  have gate: "at_charged a \<or> attemptGate s now = None" and send: "may_send (rs_status step) now"
    using assms(1) step observeAction_None [OF assms(3) a] assms(4) [OF a(2)]
    by (auto simp: cloudAction_def Let_def a next_in_order_def split: option.splits if_splits RotationStepStatus.splits
        dest: attemptGate_not_write)
  show ?thesis using a ids step gate send by blast
qed


text \<open>C25: Effects already dispatched are always reconciled: while the current step is in flight or pending,
  the next action observes it, whatever has happened to the authorization, the revisions, the lease, the
  budget, the cooldown or the candidate in the meantime; a passed deadline only flags the observation.\<close>

theorem rotation_dispatched_effects_observed:
  assumes "rt_phase s \<noteq> CompletePhase" and "rt_attempt s = Some a" and "currentStep s = Some step"
    and "observeDeadline (rs_status step) = Some deadline"
  shows "nextRotationAction (s\<lparr>rt_authorization := auth, rt_revisions := revs, rt_expectedRevisions := revs',
      rt_lease := lease, rt_budget := budget, rt_nextAttemptAt := t, rt_candidate := cand\<rparr>) now
    = Observe (at_attemptId a) (rs_stepId step) (num_le deadline now)"
proof -
  have "currentStep (s\<lparr>rt_authorization := auth, rt_revisions := revs, rt_expectedRevisions := revs',
      rt_lease := lease, rt_budget := budget, rt_nextAttemptAt := t, rt_candidate := cand\<rparr>) = currentStep s"
    by (simp add: currentStep_def)
  moreover have "rs_status step \<noteq> StepAbandoned" using assms(4) by auto
  ultimately show ?thesis using assms by (simp add: nextRotationAction_def observeAction_def)
qed

section \<open>Publication, cleanup, completion\<close>

lemma candidateAction_publishes:
  "candidateAction s now m = PublishDispatch v \<Longrightarrow>
    candidate_verdict s now RoundSuccess \<and> map_option rc_addressVersion (rt_candidate s) = Some v"
  by (auto simp: candidateAction_def candidate_verdict_def prepareAttempt_cases split: option.splits if_splits)

text \<open>DNS is pointed at a new address only on proof that it works: a publication is dispatched for the
  candidate's own version, which is the current address revision, and with fresh evidence for it of at
  least the configured number of consecutive successful rounds.\<close>

theorem rotation_publishes_verified_address:
  assumes "nextRotationAction s now = PublishDispatch v"
  shows "candidate_verdict s now RoundSuccess \<and> map_option rc_addressVersion (rt_candidate s) = Some v
    \<and> (rt_phase s = CandidatePhase \<or> rt_phase s = PublishPhase \<and> \<not> publication_applied (rt_publication s))"
  using nextRotationAction_gated [OF assms]
  by (auto simp: phaseAction_def phase_cases split: RotationPhase.splits RotationPublication.splits
      dest: candidateAction_publishes)

lemma cleanupAction_cleans:
  assumes "cleanupAction s now = Cleanup aid sid" and "is_finite now"
  shows "\<exists>v plan c step. rt_publication s = PubApplied v \<and> num_eq v (rv_address (rt_revisions s))
    \<and> rt_candidate s = Some c \<and> num_eq v (rc_addressVersion c)
    \<and> rt_cleanup s = CleanupRequired plan \<and> cl_authorized plan \<and> cl_ownershipVerified plan
    \<and> \<not> num_lt now (cl_notBefore plan) \<and> next_in_order (cl_steps plan) step
    \<and> rs_stepId step = sid \<and> rs_status step = StepPrepared"
  using assms
  by (auto simp: cleanupAction_def firstUnapplied_Some
      split: RotationPublication.splits option.splits RotationCleanup.splits if_splits)

text \<open>The old address is released last and safely: a cleanup step runs only once the publication of
  exactly the candidate's version, still the current revision, is applied, the cleanup is authorized and
  its ownership verified, the grace period is not running, and the step is the first unapplied one and was
  never sent.\<close>

theorem rotation_cleanup_after_publication:
  assumes "nextRotationAction s now = Cleanup aid sid"
  shows "\<exists>v plan c step. rt_publication s = PubApplied v \<and> num_eq v (rv_address (rt_revisions s))
    \<and> rt_candidate s = Some c \<and> num_eq v (rc_addressVersion c)
    \<and> rt_cleanup s = CleanupRequired plan \<and> cl_authorized plan \<and> cl_ownershipVerified plan
    \<and> \<not> num_lt now (cl_notBefore plan) \<and> next_in_order (cl_steps plan) step
    \<and> rs_stepId step = sid \<and> rs_status step = StepPrepared"
proof -
  note g = nextRotationAction_gated [OF assms, simplified]
  then have "cleanupAction s now = Cleanup aid sid"
    by (auto simp: phaseAction_def phase_cases split: RotationPhase.splits RotationPublication.splits)
  with cleanupAction_cleans g show ?thesis by blast
qed

lemma cleanupAction_completes:
  "cleanupAction s now = Complete \<Longrightarrow> publication_applied (rt_publication s)
    \<and> (rt_cleanup s = CleanupNotRequired
       \<or> (\<exists>plan. rt_cleanup s = CleanupRequired plan \<and> list_all (\<lambda>item. rs_status item = StepApplied) (cl_steps plan)))"
  by (auto simp: cleanupAction_def firstUnapplied_None
      split: RotationPublication.splits option.splits RotationCleanup.splits if_splits)

text \<open>A rotation that is not recorded as complete completes only with its publication applied and
  nothing left to clean up: no cleanup is required, or every step of it is applied.\<close>

theorem rotation_completes_clean:
  assumes "nextRotationAction s now = Complete" and "rt_phase s \<noteq> CompletePhase"
  shows "publication_applied (rt_publication s)
    \<and> (rt_cleanup s = CleanupNotRequired
       \<or> (\<exists>plan. rt_cleanup s = CleanupRequired plan \<and> list_all (\<lambda>item. rs_status item = StepApplied) (cl_steps plan)))"
proof -
  note g = nextRotationAction_gated [OF assms(1)]
  with assms(2) have "cleanupAction s now = Complete"
    by (auto simp: phaseAction_def phase_cases split: RotationPhase.splits RotationPublication.splits)
  then show ?thesis by (rule cleanupAction_completes)
qed

section \<open>Witnesses\<close>

definition sample_snapshot :: RotationSnapshot where
  "sample_snapshot = \<lparr>rt_phase = CloudPhase,
     rt_authorization = \<lparr>ra_managed = True, ra_familyEnabled = True, ra_present = True, ra_regionAllowed = True,
       ra_conflictingManager = False, ra_lifecycleBlocked = False\<rparr>,
     rt_revisions = \<lparr>rv_authorization = Num 1, rv_policy = Num 2, rv_address = Num 3\<rparr>,
     rt_expectedRevisions = \<lparr>rv_authorization = Num 1, rv_policy = Num 2, rv_address = Num 3\<rparr>,
     rt_lease = \<lparr>rl_held = True, rl_revision = Num 4, rl_expectedRevision = Num 4\<rparr>,
     rt_budget = \<lparr>rb_segmentId = ''seg'', rb_attemptsUsed = Num 1, rb_maxAttempts = Num 3, rb_exhausted = False\<rparr>,
     rt_nextAttemptAt = Num 100,
     rt_attempt = Some \<lparr>at_attemptId = ''a1'', at_segmentId = ''seg'', at_charged = True,
       at_steps = [\<lparr>rs_stepId = ''allocate'', rs_status = StepApplied\<rparr>, \<lparr>rs_stepId = ''attach'', rs_status = StepPrepared\<rparr>]\<rparr>,
     rt_candidate = None, rt_publication = PubPending, rt_cleanup = CleanupNotRequired\<rparr>"

definition sample_candidate :: "RoundDecision \<Rightarrow> RotationCandidate" where
  "sample_candidate d = \<lparr>rc_addressVersion = Num 3, rc_probeConfigRevision = Num 1, rc_successThreshold = Num 2,
     rc_failureThreshold = Num 2, rc_probeWindowEndsAt = Num 900, rc_nextProbeAt = Num 300,
     rc_evidence = Some \<lparr>ev_addressVersion = Num 3, ev_probeConfigRevision = Num 1, ev_decision = d,
       ev_consecutiveSuccesses = Num 2, ev_consecutiveFailures = Num 2, ev_observedAt = Num 150, ev_expiresAt = Num 400\<rparr>\<rparr>"

definition cleanup_snapshot :: RotationSnapshot where
  "cleanup_snapshot = sample_snapshot\<lparr>rt_phase := PublishPhase, rt_candidate := Some (sample_candidate RoundSuccess),
     rt_publication := PubApplied (Num 3),
     rt_cleanup := CleanupRequired \<lparr>cl_authorized = True, cl_ownershipVerified = True, cl_notBefore = Num 180,
       cl_steps = [\<lparr>rs_stepId = ''release'', rs_status = StepPrepared\<rparr>]\<rparr>\<rparr>"

lemmas rotation_eval = sample_snapshot_def sample_candidate_def cleanup_snapshot_def nextRotationAction_def
  currentStep_def firstUnapplied_def observeAction_def writeGate_def phaseAction_def cloudAction_def
  candidateAction_def cleanupAction_def prepareAttempt_def attemptGate_def exhausted_def evidence_verdict_def
  evidence_fresh_def num_of_int_def max_safe_integer_def num_eq_def

lemma execute_example: "nextRotationAction sample_snapshot (Num 200) = ExecuteCloudStep ''a1'' ''attach''"
  by (simp add: rotation_eval)

lemma rotate_example:
  "nextRotationAction (sample_snapshot\<lparr>rt_phase := CandidatePhase, rt_candidate := Some (sample_candidate RoundFailure)\<rparr>)
    (Num 200) = ExecutePrepareAttempt ''seg''"
  by (simp add: rotation_eval)

lemma publish_example:
  "nextRotationAction (sample_snapshot\<lparr>rt_phase := CandidatePhase, rt_candidate := Some (sample_candidate RoundSuccess)\<rparr>)
    (Num 200) = PublishDispatch (Num 3)"
  by (simp add: rotation_eval)

lemma cleanup_example: "nextRotationAction cleanup_snapshot (Num 200) = Cleanup ''a1'' ''release''"
  by (simp add: rotation_eval)

lemma complete_example:
  "nextRotationAction (cleanup_snapshot\<lparr>rt_cleanup := CleanupNotRequired\<rparr>) (Num 200) = Complete"
  by (simp add: rotation_eval)

theorem rotation_writes_gated_witness: "writes_permitted sample_snapshot \<and> is_finite (Num 200)"
  using rotation_writes_gated [of sample_snapshot "Num 200"] by (simp add: execute_example)

theorem rotation_new_attempt_justified_witness:
  "attempt_allowed (sample_snapshot\<lparr>rt_phase := CandidatePhase, rt_candidate := Some (sample_candidate RoundFailure)\<rparr>) (Num 200)"
  using rotation_new_attempt_justified [OF rotate_example] by simp


theorem rotation_dispatched_effects_observed_witness:
  "nextRotationAction (cleanup_snapshot\<lparr>rt_phase := CloudPhase,
      rt_attempt := Some \<lparr>at_attemptId = ''a1'', at_segmentId = ''seg'', at_charged = True,
        at_steps = [\<lparr>rs_stepId = ''allocate'', rs_status = StepPending (Num 150)\<rparr>]\<rparr>,
      rt_authorization := (rt_authorization sample_snapshot)\<lparr>ra_managed := False\<rparr>\<rparr>) NaN
   = Observe ''a1'' ''allocate'' False"
proof -
  let ?a = "\<lparr>at_attemptId = ''a1'', at_segmentId = ''seg'', at_charged = True,
        at_steps = [\<lparr>rs_stepId = ''allocate'', rs_status = StepPending (Num 150)\<rparr>]\<rparr>"
  let ?s = "cleanup_snapshot\<lparr>rt_phase := CloudPhase, rt_attempt := Some ?a\<rparr>"
  show ?thesis
    using rotation_dispatched_effects_observed [where s = ?s and a = ?a and step = "hd (at_steps ?a)" and deadline = "Num 150"
      and auth = "(rt_authorization sample_snapshot)\<lparr>ra_managed := False\<rparr>" and revs = "rt_revisions ?s"
      and revs' = "rt_expectedRevisions ?s" and lease = "rt_lease ?s" and budget = "rt_budget ?s"
      and t = "rt_nextAttemptAt ?s" and cand = "rt_candidate ?s" and now = NaN]
    by (simp add: currentStep_def firstUnapplied_def cleanup_snapshot_def sample_snapshot_def)
qed

theorem rotation_publishes_verified_address_witness:
  "candidate_verdict (sample_snapshot\<lparr>rt_phase := CandidatePhase, rt_candidate := Some (sample_candidate RoundSuccess)\<rparr>)
    (Num 200) RoundSuccess"
  using rotation_publishes_verified_address [OF publish_example] by simp

theorem rotation_cleanup_after_publication_witness: "\<exists>v. rt_publication cleanup_snapshot = PubApplied v"
  using rotation_cleanup_after_publication [OF cleanup_example] by blast

theorem rotation_completes_clean_witness: "publication_applied (rt_publication cleanup_snapshot)"
  using rotation_completes_clean [OF complete_example] by (simp add: cleanup_snapshot_def)

end
