(* ===== verification/Zone_Lock.thy ===== *)
theory Zone_Lock
  imports Prelude
begin

text \<open>
  The Redis lease of \<open>packages/automation/src/dns-zone-lock.ts\<close>, which serialises the work on a DNS
  zone or an operation. Redis itself is a parameter: the four commands the module calls, with their
  documented behaviour as the locale \<open>redis\<close>. One call of \<open>withRedisLease\<close> is a client, named by its
  random token; its state is what the closure holds (phase, deadline, armed timer, the command in
  flight, \<open>lostError\<close>), and each \<open>await\<close> is a step of \<open>lease_step\<close>, with the delivery of a command to
  the server and of its reply to the client as steps of their own. Time is in milliseconds; timers fire
  on time, so that the clock never passes an armed timer.
\<close>

section \<open>Options\<close>

record DnsZoneLockOptions =
  zo_leaseMs :: "number option"
  zo_waitTimeoutMs :: "number option"
  zo_pollIntervalMs :: "number option"
  zo_refreshIntervalMs :: "number option"
  zo_commandTimeoutMs :: "number option"
  zo_cleanupTimeoutMs :: "number option"

record LeaseTimes =
  lt_leaseMs :: rat
  lt_waitTimeoutMs :: rat
  lt_pollIntervalMs :: rat
  lt_refreshIntervalMs :: rat
  lt_commandTimeoutMs :: rat
  lt_cleanupTimeoutMs :: rat

datatype LeaseOptionError = NotPositive string | RefreshNotShorterThanLease

fun positiveOption :: "string \<Rightarrow> number \<Rightarrow> LeaseOptionError + rat" where
  "positiveOption name (Num v) = (if v \<le> 0 then Inl (NotPositive name) else Inr v)"
| "positiveOption name _ = Inl (NotPositive name)"

definition option_or :: "number option \<Rightarrow> rat \<Rightarrow> number" where
  "option_or v d = (case v of None \<Rightarrow> Num d | Some n \<Rightarrow> n)"

definition default_options :: DnsZoneLockOptions where
  "default_options = \<lparr>zo_leaseMs = None, zo_waitTimeoutMs = None, zo_pollIntervalMs = None,
     zo_refreshIntervalMs = None, zo_commandTimeoutMs = None, zo_cleanupTimeoutMs = None\<rparr>"

definition leaseTimes :: "DnsZoneLockOptions \<Rightarrow> LeaseOptionError + LeaseTimes" where
  "leaseTimes options =
    bindE (positiveOption ''leaseMs'' (option_or (zo_leaseMs options) 120000)) (\<lambda>leaseMs.
    bindE (positiveOption ''waitTimeoutMs'' (option_or (zo_waitTimeoutMs options) 30000)) (\<lambda>waitTimeoutMs.
    bindE (positiveOption ''pollIntervalMs'' (option_or (zo_pollIntervalMs options) 100)) (\<lambda>pollIntervalMs.
    bindE (positiveOption ''refreshIntervalMs'' (option_or (zo_refreshIntervalMs options)
        (max 1000 (of_int \<lfloor>leaseMs / 3\<rfloor>)))) (\<lambda>refreshIntervalMs.
    bindE (positiveOption ''commandTimeoutMs'' (option_or (zo_commandTimeoutMs options)
        (min 5000 (max 100 (of_int \<lfloor>leaseMs / 6\<rfloor>))))) (\<lambda>commandTimeoutMs.
    bindE (positiveOption ''cleanupTimeoutMs'' (option_or (zo_cleanupTimeoutMs options)
        (min 2000 commandTimeoutMs))) (\<lambda>cleanupTimeoutMs.
    bindE (guardE (\<not> leaseMs \<le> refreshIntervalMs + commandTimeoutMs) RefreshNotShorterThanLease) (\<lambda>_.
    Inr \<lparr>lt_leaseMs = leaseMs, lt_waitTimeoutMs = waitTimeoutMs, lt_pollIntervalMs = pollIntervalMs,
      lt_refreshIntervalMs = refreshIntervalMs, lt_commandTimeoutMs = commandTimeoutMs,
      lt_cleanupTimeoutMs = cleanupTimeoutMs\<rparr>)))))))"

text \<open>The code's own guard on the times.\<close>

definition accepted_times :: "LeaseTimes \<Rightarrow> bool" where
  "accepted_times o' = (0 < lt_leaseMs o' \<and> 0 < lt_waitTimeoutMs o' \<and> 0 < lt_pollIntervalMs o'
     \<and> 0 < lt_refreshIntervalMs o' \<and> 0 < lt_commandTimeoutMs o' \<and> 0 < lt_cleanupTimeoutMs o'
     \<and> lt_refreshIntervalMs o' + lt_commandTimeoutMs o' < lt_leaseMs o')"

lemma positiveOption_eq_Inr: "positiveOption name n = Inr v \<longleftrightarrow> n = Num v \<and> 0 < v"
  by (cases n) (auto simp: not_le)

lemma leaseTimes_accepted: "leaseTimes options = Inr o' \<Longrightarrow> accepted_times o'"
  by (auto simp: leaseTimes_def result_elims positiveOption_eq_Inr accepted_times_def)

section \<open>Redis, a parameter\<close>

text \<open>The commands \<open>GET\<close>, \<open>SET key token PX ms NX\<close>, \<open>PEXPIRE\<close> and \<open>DEL\<close> at a server time.\<close>

record 'st Redis =
  rd_get :: "'st \<Rightarrow> rat \<Rightarrow> string \<Rightarrow> string option"
  rd_set_nx_px :: "'st \<Rightarrow> rat \<Rightarrow> string \<Rightarrow> string \<Rightarrow> rat \<Rightarrow> 'st \<times> bool"
  rd_pexpire :: "'st \<Rightarrow> rat \<Rightarrow> string \<Rightarrow> rat \<Rightarrow> 'st \<times> bool"
  rd_del :: "'st \<Rightarrow> rat \<Rightarrow> string \<Rightarrow> 'st \<times> bool"

locale redis =
  fixes R :: "'st Redis"
  assumes set_free: "rd_get R st t k = None \<Longrightarrow> snd (rd_set_nx_px R st t k v ms) \<and>
      (\<forall>t'\<ge>t. rd_get R (fst (rd_set_nx_px R st t k v ms)) t' k = (if t' < t + ms then Some v else None))"
    and set_taken: "rd_get R st t k = Some w \<Longrightarrow> \<not> snd (rd_set_nx_px R st t k v ms) \<and>
      (\<forall>t'\<ge>t. rd_get R (fst (rd_set_nx_px R st t k v ms)) t' k = rd_get R st t' k)"
    and pexpire_present: "rd_get R st t k = Some w \<Longrightarrow> snd (rd_pexpire R st t k ms) \<and>
      (\<forall>t'\<ge>t. rd_get R (fst (rd_pexpire R st t k ms)) t' k = (if t' < t + ms then Some w else None))"
    and del_present: "rd_get R st t k = Some w \<Longrightarrow> snd (rd_del R st t k) \<and>
      (\<forall>t'\<ge>t. rd_get R (fst (rd_del R st t k)) t' k = None)"

text \<open>The two Lua scripts, which Redis runs atomically.\<close>

definition REFRESH_SCRIPT :: "'st Redis \<Rightarrow> 'st \<Rightarrow> rat \<Rightarrow> string \<Rightarrow> string \<Rightarrow> rat \<Rightarrow> 'st \<times> bool" where
  "REFRESH_SCRIPT R st now key token ms =
    (if rd_get R st now key = Some token then rd_pexpire R st now key ms else (st, False))"

definition RELEASE_SCRIPT :: "'st Redis \<Rightarrow> 'st \<Rightarrow> rat \<Rightarrow> string \<Rightarrow> string \<Rightarrow> 'st \<times> bool" where
  "RELEASE_SCRIPT R st now key token =
    (if rd_get R st now key = Some token then rd_del R st now key else (st, False))"

text \<open>The documented behaviour can be had: a store of tokens with their expiry times.\<close>

type_synonym expiring_store = "string \<Rightarrow> (string \<times> rat) option"

definition expiring_get :: "expiring_store \<Rightarrow> rat \<Rightarrow> string \<Rightarrow> string option" where
  "expiring_get st now k = (case st k of None \<Rightarrow> None | Some (v, e) \<Rightarrow> if now < e then Some v else None)"

definition expiring_redis :: "expiring_store Redis" where
  "expiring_redis = \<lparr>
     rd_get = expiring_get,
     rd_set_nx_px = (\<lambda>st now k v ms. if expiring_get st now k = None then (st(k \<mapsto> (v, now + ms)), True) else (st, False)),
     rd_pexpire = (\<lambda>st now k ms. case st k of None \<Rightarrow> (st, False)
       | Some (v, e) \<Rightarrow> if now < e then (st(k \<mapsto> (v, now + ms)), True) else (st, False)),
     rd_del = (\<lambda>st now k. if expiring_get st now k = None then (st, False) else (st(k := None), True))\<rparr>"

interpretation er: redis expiring_redis
  by unfold_locales (auto simp: expiring_redis_def expiring_get_def split: option.splits if_splits)

section \<open>Clients\<close>

datatype LeaseOutcome = TimedOut | Unavailable | Lost | ActionFailed | Succeeded

text \<open>Where a call of \<open>withRedisLease\<close> is suspended. \<open>Held\<close> and \<open>Renewing\<close> are the renewal loop beside the
  running action, \<open>HeldLost\<close> the action running on after \<open>markLost\<close>, \<open>Draining\<close> the wait for the renewal
  once the action is over, \<open>Late\<close> the lone handler of an acquisition that timed out.\<close>

datatype LeasePhase =
    Idle | Acquiring | Polling | Held | Renewing | HeldLost
  | Draining bool | Releasing bool | Late | Ended LeaseOutcome

datatype LeaseCommand = SetSent | RefreshSent | ReleaseSent

record LeaseClient =
  lc_phase :: LeasePhase
  lc_deadline :: rat
  lc_timer :: rat
  lc_sent :: "LeaseCommand list"
  lc_answer :: "bool option"
  lc_lost :: bool

record 'st LeaseWorld =
  lw_clock :: rat
  lw_store :: 'st
  lw_clients :: "string \<Rightarrow> LeaseClient"

definition idle_client :: LeaseClient where
  "idle_client = \<lparr>lc_phase = Idle, lc_deadline = 0, lc_timer = 0, lc_sent = [], lc_answer = None, lc_lost = False\<rparr>"

text \<open>Commands of a call reach the server in the order they were sent; the call only ever waits for the
  last one.\<close>

definition send :: "LeaseCommand \<Rightarrow> LeaseClient \<Rightarrow> LeaseClient" where
  "send cmd cl = cl\<lparr>lc_sent := lc_sent cl @ [cmd], lc_answer := None\<rparr>"

text \<open>The head of the loop of \<open>acquire\<close>: give up, or send \<open>SET\<close> and wait for it.\<close>

definition acquireAttempt :: "LeaseTimes \<Rightarrow> rat \<Rightarrow> LeaseClient \<Rightarrow> LeaseClient" where
  "acquireAttempt lt now cl = (let remaining = lc_deadline cl - now in
     if remaining \<le> 0 then cl\<lparr>lc_phase := Ended TimedOut\<rparr>
     else send SetSent (cl\<lparr>lc_phase := Acquiring, lc_timer := now + min remaining (lt_commandTimeoutMs lt)\<rparr>))"

definition startLease :: "LeaseTimes \<Rightarrow> rat \<Rightarrow> LeaseClient \<Rightarrow> LeaseClient" where
  "startLease lt now cl = acquireAttempt lt now (cl\<lparr>lc_deadline := now + lt_waitTimeoutMs lt\<rparr>)"

definition startRenewalDelay :: "LeaseTimes \<Rightarrow> rat \<Rightarrow> LeaseClient \<Rightarrow> LeaseClient" where
  "startRenewalDelay lt now cl =
    cl\<lparr>lc_phase := Held, lc_timer := now + lt_refreshIntervalMs lt\<rparr>"

text \<open>The reply to \<open>SET\<close>: the lease is held, or the next poll is scheduled.\<close>

definition acquireReply :: "LeaseTimes \<Rightarrow> rat \<Rightarrow> bool \<Rightarrow> LeaseClient \<Rightarrow> LeaseClient" where
  "acquireReply lt now acquired cl =
    (if acquired then startRenewalDelay lt now cl
     else let delayMs = min (lt_pollIntervalMs lt) (lc_deadline cl - now) in
       if delayMs \<le> 0 then cl\<lparr>lc_phase := Ended TimedOut\<rparr>
       else cl\<lparr>lc_phase := Polling, lc_timer := now + delayMs\<rparr>)"

definition sendRefresh :: "LeaseTimes \<Rightarrow> rat \<Rightarrow> LeaseClient \<Rightarrow> LeaseClient" where
  "sendRefresh lt now cl =
    send RefreshSent (cl\<lparr>lc_phase := Renewing, lc_timer := now + lt_commandTimeoutMs lt\<rparr>)"

definition sendRelease :: "LeaseTimes \<Rightarrow> rat \<Rightarrow> bool \<Rightarrow> LeaseClient \<Rightarrow> LeaseClient" where
  "sendRelease lt now failed cl =
    send ReleaseSent (cl\<lparr>lc_phase := Releasing failed, lc_timer := now + lt_cleanupTimeoutMs lt\<rparr>)"

definition markLost :: "LeaseClient \<Rightarrow> LeaseClient" where
  "markLost cl = cl\<lparr>lc_lost := True\<rparr>"

text \<open>The end of the call: the action's own error first, then the lost lease, then the value.\<close>

definition endLease :: "bool \<Rightarrow> LeaseClient \<Rightarrow> LeaseClient" where
  "endLease failed cl = cl\<lparr>lc_phase := Ended (if failed then ActionFailed else if lc_lost cl then Lost else Succeeded)\<rparr>"

section \<open>Steps\<close>

definition put_client :: "'st LeaseWorld \<Rightarrow> string \<Rightarrow> LeaseClient \<Rightarrow> 'st LeaseWorld" where
  "put_client w c cl = w\<lparr>lw_clients := (lw_clients w)(c := cl)\<rparr>"

text \<open>A timer is armed while the call sleeps or waits for a command.\<close>

fun armed :: "LeasePhase \<Rightarrow> bool" where
  "armed Acquiring = True"
| "armed Polling = True"
| "armed Held = True"
| "armed Renewing = True"
| "armed (Draining _) = True"
| "armed (Releasing _) = True"
| "armed _ = False"

text \<open>The server runs a command at the current clock and answers.\<close>

fun serverRun :: "'st Redis \<Rightarrow> string \<Rightarrow> LeaseTimes \<Rightarrow> string \<Rightarrow> rat \<Rightarrow> 'st \<Rightarrow> LeaseCommand \<Rightarrow> 'st \<times> bool" where
  "serverRun R key lt c now st SetSent = rd_set_nx_px R st now key c (lt_leaseMs lt)"
| "serverRun R key lt c now st RefreshSent = REFRESH_SCRIPT R st now key c (lt_leaseMs lt)"
| "serverRun R key lt c now st ReleaseSent = RELEASE_SCRIPT R st now key c"

text \<open>What a client does next by itself: its command's reply arrives, its timer fires, the command
  fails, or its action ends (with or without an error). \<open>None\<close> where nothing of the kind can happen.\<close>

datatype LeaseEvent = Start | Reply | TimerFires | CommandFails | ActionEnds bool

fun clientStep :: "LeaseTimes \<Rightarrow> rat \<Rightarrow> LeaseEvent \<Rightarrow> LeasePhase \<Rightarrow> bool option \<Rightarrow> LeaseClient \<Rightarrow> LeaseClient option" where
  "clientStep lt now Start Idle _ cl = Some (startLease lt now cl)"
| "clientStep lt now Reply Acquiring (Some acquired) cl = Some (acquireReply lt now acquired cl)"
| "clientStep lt now TimerFires Acquiring _ cl = Some (cl\<lparr>lc_phase := Late\<rparr>)"
| "clientStep lt now CommandFails Acquiring _ cl = Some (cl\<lparr>lc_phase := Ended Unavailable\<rparr>)"
| "clientStep lt now Reply Late (Some acquired) cl =
     Some ((if acquired then send ReleaseSent cl else cl)\<lparr>lc_phase := Ended TimedOut\<rparr>)"
| "clientStep lt now TimerFires Polling _ cl = Some (acquireAttempt lt now cl)"
| "clientStep lt now TimerFires Held _ cl = Some (sendRefresh lt now cl)"
| "clientStep lt now Reply Renewing (Some refreshed) cl =
     Some (if refreshed then startRenewalDelay lt now cl else markLost (cl\<lparr>lc_phase := HeldLost\<rparr>))"
| "clientStep lt now TimerFires Renewing _ cl = Some (markLost (cl\<lparr>lc_phase := HeldLost\<rparr>))"
| "clientStep lt now CommandFails Renewing _ cl = Some (markLost (cl\<lparr>lc_phase := HeldLost\<rparr>))"
| "clientStep lt now (ActionEnds failed) Held _ cl = Some (sendRelease lt now failed cl)"
| "clientStep lt now (ActionEnds failed) HeldLost _ cl = Some (sendRelease lt now failed cl)"
| "clientStep lt now (ActionEnds failed) Renewing _ cl = Some (cl\<lparr>lc_phase := Draining failed\<rparr>)"
| "clientStep lt now Reply (Draining failed) (Some refreshed) cl =
     Some (sendRelease lt now failed (if refreshed then cl else markLost cl))"
| "clientStep lt now TimerFires (Draining failed) _ cl = Some (sendRelease lt now failed (markLost cl))"
| "clientStep lt now CommandFails (Draining failed) _ cl = Some (sendRelease lt now failed (markLost cl))"
| "clientStep lt now Reply (Releasing failed) (Some released) cl =
     Some (endLease failed (if released then cl else markLost cl))"
| "clientStep lt now TimerFires (Releasing failed) _ cl = Some (endLease failed cl)"
| "clientStep lt now CommandFails (Releasing failed) _ cl = Some (endLease failed cl)"
| "clientStep _ _ _ _ _ _ = None"

text \<open>The last command's reply is the one the call waits for.\<close>

definition deliver :: "bool option \<Rightarrow> LeaseClient \<Rightarrow> LeaseClient" where
  "deliver answer cl = cl\<lparr>lc_sent := tl (lc_sent cl), lc_answer := (if tl (lc_sent cl) = [] then answer else None)\<rparr>"

inductive lease_step :: "'st Redis \<Rightarrow> string \<Rightarrow> (string \<Rightarrow> LeaseTimes) \<Rightarrow> 'st LeaseWorld \<Rightarrow> 'st LeaseWorld \<Rightarrow> bool"
  for R key lt where
  tick: "0 \<le> d \<Longrightarrow> (\<And>c. armed (lc_phase (lw_clients w c)) \<Longrightarrow> lw_clock w + d \<le> lc_timer (lw_clients w c))
    \<Longrightarrow> lease_step R key lt w (w\<lparr>lw_clock := lw_clock w + d\<rparr>)"
| server: "lc_sent (lw_clients w c) = cmd # rest
    \<Longrightarrow> serverRun R key (lt c) c (lw_clock w) (lw_store w) cmd = (st, answer)
    \<Longrightarrow> lease_step R key lt w (put_client (w\<lparr>lw_store := st\<rparr>) c (deliver (Some answer) (lw_clients w c)))"
| dropped: "lc_sent (lw_clients w c) = cmd # rest
    \<Longrightarrow> lease_step R key lt w (put_client w c (deliver None (lw_clients w c)))"
| client: "(event = TimerFires \<Longrightarrow> lc_timer (lw_clients w c) \<le> lw_clock w)
    \<Longrightarrow> clientStep (lt c) (lw_clock w) event (lc_phase (lw_clients w c)) (lc_answer (lw_clients w c)) (lw_clients w c) = Some cl
    \<Longrightarrow> lease_step R key lt w (put_client w c cl)"

definition lease_start :: "'st LeaseWorld \<Rightarrow> bool" where
  "lease_start w = (\<forall>c. lw_clients w c = idle_client)"

inductive lease_reachable :: "'st Redis \<Rightarrow> string \<Rightarrow> (string \<Rightarrow> LeaseTimes) \<Rightarrow> 'st LeaseWorld \<Rightarrow> bool"
  for R key lt where
  start: "lease_start w \<Longrightarrow> lease_reachable R key lt w"
| step: "lease_reachable R key lt w \<Longrightarrow> lease_step R key lt w w' \<Longrightarrow> lease_reachable R key lt w'"

text \<open>The action of a call runs with \<open>assertOwned\<close> not throwing.\<close>

definition believes_owned :: "LeaseClient \<Rightarrow> bool" where
  "believes_owned cl = ((lc_phase cl = Held \<or> lc_phase cl = Renewing) \<and> \<not> lc_lost cl)"

section \<open>Mutual exclusion\<close>

text \<open>The lease outlives a round of the renewal: the refresh interval and two commands, the one that
  granted it and the one that extends it.\<close>

definition safe_times :: "LeaseTimes \<Rightarrow> bool" where
  "safe_times lt = (accepted_times lt \<and> lt_refreshIntervalMs lt + 2 * lt_commandTimeoutMs lt < lt_leaseMs lt)"

definition owned_until :: "'st Redis \<Rightarrow> string \<Rightarrow> 'st \<Rightarrow> string \<Rightarrow> rat \<Rightarrow> rat \<Rightarrow> bool" where
  "owned_until R key st c now e = (\<forall>t. now \<le> t \<and> t < e \<longrightarrow> rd_get R st t key = Some c)"

lemma owned_until_mono: "owned_until R key st c now e \<Longrightarrow> e' \<le> e \<Longrightarrow> now \<le> now' \<Longrightarrow> owned_until R key st c now' e'"
  by (auto simp: owned_until_def)

lemma owned_until_past: "e \<le> now \<Longrightarrow> owned_until R key st c now e"
  by (auto simp: owned_until_def)

fun client_inv :: "'st Redis \<Rightarrow> string \<Rightarrow> LeaseTimes \<Rightarrow> rat \<Rightarrow> 'st \<Rightarrow> string \<Rightarrow> LeaseClient \<Rightarrow> LeasePhase \<Rightarrow> bool" where
  "client_inv R key lt now st c cl Idle = (lc_sent cl = [])"
| "client_inv R key lt now st c cl Polling = (lc_sent cl = [])"
| "client_inv R key lt now st c cl Acquiring = (now \<le> lc_timer cl \<and> lc_timer cl \<le> now + lt_commandTimeoutMs lt
     \<and> (lc_sent cl = [SetSent] \<and> lc_answer cl = None
        \<or> lc_sent cl = [] \<and> (lc_answer cl = Some True \<longrightarrow>
            owned_until R key st c now (lc_timer cl - lt_commandTimeoutMs lt + lt_leaseMs lt))))"
| "client_inv R key lt now st c cl Held = (now \<le> lc_timer cl \<and> lc_sent cl = []
     \<and> owned_until R key st c now (lc_timer cl - lt_refreshIntervalMs lt - lt_commandTimeoutMs lt + lt_leaseMs lt))"
| "client_inv R key lt now st c cl Renewing = (now \<le> lc_timer cl \<and> lc_timer cl \<le> now + lt_commandTimeoutMs lt
     \<and> owned_until R key st c now (lc_timer cl - lt_refreshIntervalMs lt - 2 * lt_commandTimeoutMs lt + lt_leaseMs lt)
     \<and> (lc_sent cl = [RefreshSent] \<and> lc_answer cl = None
        \<or> lc_sent cl = [] \<and> (lc_answer cl = Some True \<longrightarrow>
            owned_until R key st c now (lc_timer cl - lt_commandTimeoutMs lt + lt_leaseMs lt))))"
| "client_inv R key lt now st c cl _ = True"

lemma client_inv_tick:
  assumes "client_inv R key lt now st c cl ph" and "0 \<le> d" and "armed ph \<Longrightarrow> now + d \<le> lc_timer cl"
  shows "client_inv R key lt (now + d) st c cl ph"
  using assms by (cases ph) (auto intro: owned_until_mono)

lemma client_inv_store:
  assumes "client_inv R key lt now st c cl ph"
    and "\<And>e. owned_until R key st c now e \<Longrightarrow> owned_until R key st' c now e"
  shows "client_inv R key lt now st' c cl ph"
  using assms by (cases ph) auto

lemma client_inv_dropped:
  assumes "client_inv R key lt now st c cl ph" and "lc_sent cl = cmd # rest"
  shows "client_inv R key lt now st c (deliver None cl) ph"
  using assms by (cases ph) (auto simp: deliver_def)

context redis begin

lemma owned_now: "owned_until R key st c now e \<Longrightarrow> now < e \<Longrightarrow> rd_get R st now key = Some c"
  by (simp add: owned_until_def)

text \<open>No command of another call touches a key that is owned.\<close>

lemma other_server_keeps:
  assumes own: "owned_until R key st c now e" and d: "c \<noteq> d"
    and run: "serverRun R key lt d now st cmd = (st', answer)"
  shows "owned_until R key st' c now e"
proof (cases "now < e")
  case True
  note get = owned_now [OF own True]
  show ?thesis
  proof (cases cmd)
    case SetSent
    from set_taken [OF get, of d "lt_leaseMs lt"] run SetSent own show ?thesis
      by (auto simp: owned_until_def)
  qed (use run get d own in \<open>auto simp: REFRESH_SCRIPT_def RELEASE_SCRIPT_def\<close>)
next
  case False
  then show ?thesis by (simp add: owned_until_past)
qed

lemma set_granted:
  assumes "serverRun R key lt c now st SetSent = (st', True)"
  shows "owned_until R key st' c now (now + lt_leaseMs lt)"
proof (cases "rd_get R st now key")
  case None
  from set_free [OF this, of c "lt_leaseMs lt"] assms show ?thesis by (auto simp: owned_until_def)
next
  case (Some w)
  from set_taken [OF this, of c "lt_leaseMs lt"] assms show ?thesis by auto
qed

lemma refresh_granted:
  assumes "rd_get R st now key = Some c" and "serverRun R key lt c now st RefreshSent = (st', answer)"
  shows "answer \<and> owned_until R key st' c now (now + lt_leaseMs lt)"
  using pexpire_present [OF assms(1), of "lt_leaseMs lt"] assms
  by (auto simp: REFRESH_SCRIPT_def owned_until_def)

lemma own_server_keeps:
  assumes inv: "client_inv R key lt now st c cl ph" and sent: "lc_sent cl = cmd # rest"
    and run: "serverRun R key lt c now st cmd = (st', answer)" and safe: "safe_times lt"
  shows "client_inv R key lt now st' c (deliver (Some answer) cl) ph"
proof (cases ph)
  case Acquiring
  with inv sent have cmd: "cmd = SetSent" "rest = []" and timer: "now \<le> lc_timer cl" "lc_timer cl \<le> now + lt_commandTimeoutMs lt"
    by auto
  have "owned_until R key st' c now (lc_timer cl - lt_commandTimeoutMs lt + lt_leaseMs lt)" if "answer"
    by (rule owned_until_mono [OF set_granted]) (use run cmd that timer in auto)
  with cmd timer sent Acquiring show ?thesis by (auto simp: deliver_def)
next
  case Renewing
  with inv sent have cmd: "cmd = RefreshSent" "rest = []" and timer: "now \<le> lc_timer cl" "lc_timer cl \<le> now + lt_commandTimeoutMs lt"
    and own: "owned_until R key st c now (lc_timer cl - lt_refreshIntervalMs lt - 2 * lt_commandTimeoutMs lt + lt_leaseMs lt)"
    by auto
  have pos: "0 < lt_refreshIntervalMs lt" "0 < lt_commandTimeoutMs lt" and "lt_refreshIntervalMs lt + 2 * lt_commandTimeoutMs lt < lt_leaseMs lt"
    using safe by (auto simp: safe_times_def accepted_times_def)
  with timer have "rd_get R st now key = Some c" by (intro owned_now [OF own]) auto
  from refresh_granted [OF this run [unfolded cmd]] have new: "owned_until R key st' c now (now + lt_leaseMs lt)" by blast
  show ?thesis
    using cmd timer sent Renewing pos by (auto simp: deliver_def intro!: owned_until_mono [OF new])
qed (use inv sent in \<open>auto simp: deliver_def\<close>)

end

lemma clientStep_keeps:
  assumes inv: "client_inv R key lt now st c cl (lc_phase cl)" and safe: "safe_times lt"
    and fires: "event = TimerFires \<Longrightarrow> lc_timer cl \<le> now"
    and step: "clientStep lt now event (lc_phase cl) (lc_answer cl) cl = Some cl'"
  shows "client_inv R key lt now st c cl' (lc_phase cl')"
proof -
  have pos: "0 < lt_refreshIntervalMs lt" "0 < lt_commandTimeoutMs lt" "0 < lt_waitTimeoutMs lt" "0 < lt_pollIntervalMs lt"
    "lt_refreshIntervalMs lt + 2 * lt_commandTimeoutMs lt < lt_leaseMs lt"
    using safe by (auto simp: safe_times_def accepted_times_def)
  show ?thesis
  proof (cases "event = Reply \<and> lc_phase cl = Renewing \<and> lc_answer cl = Some True")
    case True
    with inv step have own: "owned_until R key st c now (lc_timer cl - lt_commandTimeoutMs lt + lt_leaseMs lt)"
      and "now \<le> lc_timer cl" "lc_sent cl = []" and cl': "cl' = startRenewalDelay lt now cl" by auto
    then show ?thesis using pos by (auto simp: startRenewalDelay_def intro!: owned_until_mono [OF own])
  next
    case False
    with inv pos fires show ?thesis
    using step
    by (cases "(lt, now, event, lc_phase cl, lc_answer cl, cl)" rule: clientStep.cases)
       (auto simp: startLease_def acquireAttempt_def acquireReply_def startRenewalDelay_def sendRefresh_def
          sendRelease_def markLost_def endLease_def send_def Let_def split: if_splits elim!: owned_until_mono)
  qed
qed

definition world_inv :: "'st Redis \<Rightarrow> string \<Rightarrow> (string \<Rightarrow> LeaseTimes) \<Rightarrow> 'st LeaseWorld \<Rightarrow> bool" where
  "world_inv R key lt w = (\<forall>c. client_inv R key (lt c) (lw_clock w) (lw_store w) c (lw_clients w c) (lc_phase (lw_clients w c)))"

lemma lc_phase_deliver [simp]: "lc_phase (deliver a cl) = lc_phase cl"
  by (simp add: deliver_def)

lemma world_inv_put:
  assumes "world_inv R key lt w" and "client_inv R key (lt c) (lw_clock w) st c cl (lc_phase cl)"
    and "\<And>d e. d \<noteq> c \<Longrightarrow> owned_until R key (lw_store w) d (lw_clock w) e \<Longrightarrow> owned_until R key st d (lw_clock w) e"
  shows "world_inv R key lt (put_client (w\<lparr>lw_store := st\<rparr>) c cl)"
proof -
  have "client_inv R key (lt d) (lw_clock w) st d (lw_clients w d) (lc_phase (lw_clients w d))" if "d \<noteq> c" for d
    by (rule client_inv_store [where st = "lw_store w"]) (use assms(1,3) that in \<open>auto simp: world_inv_def\<close>)
  with assms(2) show ?thesis by (auto simp: world_inv_def put_client_def)
qed

lemma lease_step_keeps:
  assumes R: "redis R" and safe: "\<And>c. safe_times (lt c)" and inv: "world_inv R key lt w"
    and step: "lease_step R key lt w w'"
  shows "world_inv R key lt w'"
  using step
proof (cases rule: lease_step.cases)
  case (tick d)
  then show ?thesis using inv by (auto simp: world_inv_def intro!: client_inv_tick)
next
  case (server c cmd rest st answer)
  have c: "client_inv R key (lt c) (lw_clock w) (lw_store w) c (lw_clients w c) (lc_phase (lw_clients w c))"
    using inv by (simp add: world_inv_def)
  show ?thesis unfolding server(1)
    by (rule world_inv_put [OF inv])
       (use redis.own_server_keeps [OF R c server(2,3) safe] redis.other_server_keeps [OF R _ _ server(3)] in auto)
next
  case (dropped c cmd rest)
  have c: "client_inv R key (lt c) (lw_clock w) (lw_store w) c (lw_clients w c) (lc_phase (lw_clients w c))"
    using inv by (simp add: world_inv_def)
  have "world_inv R key lt (put_client (w\<lparr>lw_store := lw_store w\<rparr>) c (deliver None (lw_clients w c)))"
    by (rule world_inv_put [OF inv]) (use client_inv_dropped [OF c dropped(2)] in auto)
  with dropped(1) show ?thesis by simp
next
  case (client event c cl)
  have c: "client_inv R key (lt c) (lw_clock w) (lw_store w) c (lw_clients w c) (lc_phase (lw_clients w c))"
    using inv by (simp add: world_inv_def)
  have "world_inv R key lt (put_client (w\<lparr>lw_store := lw_store w\<rparr>) c cl)"
    by (rule world_inv_put [OF inv]) (use clientStep_keeps [OF c safe client(2,3)] in auto)
  with client(1) show ?thesis by simp
qed

lemma reachable_world_inv:
  assumes "lease_reachable R key lt w" and "redis R" and "\<And>c. safe_times (lt c)"
  shows "world_inv R key lt w"
  using assms(1)
proof induction
  case (start w)
  then show ?case by (simp add: lease_start_def world_inv_def idle_client_def)
next
  case (step w w')
  show ?case by (rule lease_step_keeps [OF assms(2,3) step.IH step.hyps(2)])
qed

lemma believes_owned_get:
  assumes "world_inv R key lt w" and "safe_times (lt c)" and "believes_owned (lw_clients w c)"
  shows "rd_get R (lw_store w) (lw_clock w) key = Some c"
proof -
  have pos: "0 < lt_refreshIntervalMs (lt c)" "0 < lt_commandTimeoutMs (lt c)"
    "lt_refreshIntervalMs (lt c) + 2 * lt_commandTimeoutMs (lt c) < lt_leaseMs (lt c)"
    using assms(2) by (auto simp: safe_times_def accepted_times_def)
  have inv: "client_inv R key (lt c) (lw_clock w) (lw_store w) c (lw_clients w c) (lc_phase (lw_clients w c))"
    using assms(1) by (simp add: world_inv_def)
  from assms(3) show ?thesis
    using inv pos by (auto simp: believes_owned_def owned_until_def)
qed

text \<open>C15: Mutual exclusion of the zone lock: when every call's lease outlasts its refresh interval and two
  command timeouts, then in every reachable state, whatever the delays, losses and failures of commands,
  a call whose \<open>assertOwned\<close> passes is the one whose token Redis holds; no two calls pass at once.\<close>

theorem zone_lock_mutual_exclusion:
  assumes "redis R" and "\<And>c. safe_times (lt c)" and "lease_reachable R key lt w"
    and "believes_owned (lw_clients w c)"
  shows "rd_get R (lw_store w) (lw_clock w) key = Some c \<and> (believes_owned (lw_clients w d) \<longrightarrow> d = c)"
proof -
  have "world_inv R key lt w" by (rule reachable_world_inv [OF assms(3,1,2)])
  note get = believes_owned_get [OF this assms(2)]
  show ?thesis using get [OF assms(4)] get [of d] by auto
qed

section \<open>The guard on the times\<close>

lemma floor_rat_div: "\<lfloor>rat_of_int l / numeral n\<rfloor> = l div numeral n"
  using floor_divide_of_int_eq [of l "numeral n"] by simp

lemma leaseTimes_default:
  "leaseTimes (default_options\<lparr>zo_leaseMs := Some (num_of_int l)\<rparr>) =
    (if l \<le> 0 then Inl (NotPositive ''leaseMs'')
     else let r = max 1000 (l div 3); c = min 5000 (max 100 (l div 6)) in
       if l \<le> r + c then Inl RefreshNotShorterThanLease
       else Inr \<lparr>lt_leaseMs = of_int l, lt_waitTimeoutMs = 30000, lt_pollIntervalMs = 100,
         lt_refreshIntervalMs = of_int r, lt_commandTimeoutMs = of_int c, lt_cleanupTimeoutMs = of_int (min 2000 c)\<rparr>)"
proof (cases "l \<le> 0")
  case True
  then show ?thesis by (simp add: leaseTimes_def default_options_def option_or_def num_of_int_def)
next
  case False
  define r c where rc: "r = max 1000 (l div 3)" "c = min 5000 (max 100 (l div 6))"
  have "0 < r" "0 < c" by (auto simp: rc)
  have r: "max 1000 (rat_of_int \<lfloor>rat_of_int l / 3\<rfloor>) = of_int r"
    and c: "min 5000 (max 100 (rat_of_int \<lfloor>rat_of_int l / 6\<rfloor>)) = of_int c"
    and m: "min 2000 (rat_of_int c) = of_int (min 2000 c)"
    by (simp_all add: rc floor_rat_div of_int_max of_int_min)
  have g: "rat_of_int l \<le> of_int r + of_int c \<longleftrightarrow> l \<le> r + c" by (simp flip: of_int_add)
  show ?thesis
    using False \<open>0 < r\<close> \<open>0 < c\<close>
    by (simp add: leaseTimes_def default_options_def option_or_def num_of_int_def r c m g Let_def guardE_def
        flip: rc)
qed

lemma safe_default_bound:
  fixes l :: int
  assumes "1500 < l"
  shows "max 1000 (l div 3) + 2 * min 5000 (max 100 (l div 6)) < l"
proof -
  have "l div 3 * 3 \<le> l" "l div 6 * 6 \<le> l" by (simp_all add: mult.commute [of _ "_ :: int"] minus_mod_eq_mult_div [symmetric])
  then show ?thesis using assms by (auto simp: max_def min_def)
qed

text \<open>What the defaults give for a lease of a whole number of milliseconds: a lease of up to 1200 is
  refused, a longer one accepted, and above 1500 (every caller asks for 90 or 120 seconds) the derived
  intervals satisfy the condition under which the lock excludes.\<close>

theorem default_lease_times:
  "(case leaseTimes (default_options\<lparr>zo_leaseMs := Some (num_of_int l)\<rparr>) of
      Inl e \<Rightarrow> l \<le> 1200
    | Inr t \<Rightarrow> 1200 < l \<and> lt_leaseMs t = of_int l \<and> (1500 < l \<longrightarrow> safe_times t))"
proof -
  define r c where rc: "r = max 1000 (l div 3)" "c = min 5000 (max 100 (l div 6))"
  have pos: "0 < rat_of_int r" "0 < rat_of_int c" "0 < min 2000 (rat_of_int c)" by (auto simp: rc)
  have lower: "1200 < l" if "\<not> l \<le> r + c" using that by (auto simp: rc max_def min_def split: if_splits)
  have upper: "l \<le> 1200" if "l \<le> r + c"
  proof (rule ccontr)
    assume "\<not> l \<le> 1200"
    moreover have "l div 3 * 3 \<le> l" "l div 6 * 6 \<le> l" by (simp_all add: mult.commute [of _ "_ :: int"] minus_mod_eq_mult_div [symmetric])
    ultimately show False using that by (auto simp: rc max_def min_def split: if_splits)
  qed
  have safe: "rat_of_int r + 2 * rat_of_int c < of_int l" "rat_of_int r + rat_of_int c < of_int l" if "1500 < l"
  proof -
    have "r + 2 * c < l" unfolding rc by (rule safe_default_bound [OF that])
    moreover from this have "r + c < l" using pos by simp
    ultimately have "rat_of_int (r + 2 * c) < of_int l" "rat_of_int (r + c) < of_int l" by (simp_all only: of_int_less_iff)
    then show "rat_of_int r + 2 * rat_of_int c < of_int l" "rat_of_int r + rat_of_int c < of_int l" by simp_all
  qed
  show ?thesis
    using lower upper safe pos
    by (auto simp: leaseTimes_default Let_def rc [symmetric] safe_times_def accepted_times_def of_int_min)
qed

theorem default_lease_times_witness:
  "case leaseTimes (default_options\<lparr>zo_leaseMs := Some (num_of_int 90000)\<rparr>) of Inl e \<Rightarrow> False | Inr t \<Rightarrow> safe_times t"
  using default_lease_times [of 90000] by (auto split: sum.splits)

text \<open>The guard of the code counts one command timeout, not two. These times pass it: a lease of ten,
  renewed every six, commands timing out after three.\<close>

definition tight_times :: LeaseTimes where
  "tight_times = \<lparr>lt_leaseMs = 10, lt_waitTimeoutMs = 30, lt_pollIntervalMs = 1, lt_refreshIntervalMs = 6,
     lt_commandTimeoutMs = 3, lt_cleanupTimeoutMs = 3\<rparr>"

definition tight_options :: DnsZoneLockOptions where
  "tight_options = \<lparr>zo_leaseMs = Some (Num 10), zo_waitTimeoutMs = Some (Num 30), zo_pollIntervalMs = Some (Num 1),
     zo_refreshIntervalMs = Some (Num 6), zo_commandTimeoutMs = Some (Num 3), zo_cleanupTimeoutMs = None\<rparr>"

definition fresh_world :: "expiring_store LeaseWorld" where
  "fresh_world = \<lparr>lw_clock = 0, lw_store = Map.empty, lw_clients = (\<lambda>_. idle_client)\<rparr>"

text \<open>Schedules of two calls, run step by step.\<close>

datatype Move = Pass rat | Serve string | Do string LeaseEvent

fun applyMove :: "(string \<Rightarrow> LeaseTimes) \<Rightarrow> expiring_store LeaseWorld \<Rightarrow> Move \<Rightarrow> expiring_store LeaseWorld option" where
  "applyMove lt w (Pass d) =
    (if 0 \<le> d \<and> list_all (\<lambda>c. armed (lc_phase (lw_clients w c)) \<longrightarrow> lw_clock w + d \<le> lc_timer (lw_clients w c)) [''a'', ''b'']
     then Some (w\<lparr>lw_clock := lw_clock w + d\<rparr>) else None)"
| "applyMove lt w (Serve c) = (case lc_sent (lw_clients w c) of [] \<Rightarrow> None
    | cmd # _ \<Rightarrow> (case serverRun expiring_redis ''key'' (lt c) c (lw_clock w) (lw_store w) cmd of (st, answer) \<Rightarrow>
        Some (put_client (w\<lparr>lw_store := st\<rparr>) c (deliver (Some answer) (lw_clients w c)))))"
| "applyMove lt w (Do c event) =
    (if event = TimerFires \<and> lw_clock w < lc_timer (lw_clients w c) \<or> c \<notin> {''a'', ''b''} then None
     else map_option (put_client w c)
       (clientStep (lt c) (lw_clock w) event (lc_phase (lw_clients w c)) (lc_answer (lw_clients w c)) (lw_clients w c)))"

fun runMoves :: "(string \<Rightarrow> LeaseTimes) \<Rightarrow> expiring_store LeaseWorld \<Rightarrow> Move list \<Rightarrow> expiring_store LeaseWorld option" where
  "runMoves lt w [] = Some w"
| "runMoves lt w (m # ms) = Option.bind (applyMove lt w m) (\<lambda>w'. runMoves lt w' ms)"

lemma applyMove_step:
  assumes "applyMove lt w m = Some w'" and "\<And>c. c \<notin> {''a'', ''b''} \<Longrightarrow> lw_clients w c = idle_client"
  shows "lease_step expiring_redis ''key'' lt w w' \<and> (\<forall>c. c \<notin> {''a'', ''b''} \<longrightarrow> lw_clients w' c = idle_client)"
proof (cases m)
  case (Pass d)
  have "lw_clock w + d \<le> lc_timer (lw_clients w c)" if "armed (lc_phase (lw_clients w c))" for c
  proof (cases "c \<in> {''a'', ''b''}")
    case True
    then show ?thesis using that assms(1) Pass by (auto split: if_splits)
  next
    case False
    then show ?thesis using that assms(2) [OF False] by (simp add: idle_client_def)
  qed
  with assms(1) Pass have "lease_step expiring_redis ''key'' lt w w'" and "w' = w\<lparr>lw_clock := lw_clock w + d\<rparr>"
    by (auto intro!: lease_step.tick split: if_splits)
  then show ?thesis using assms(2) by simp
next
  case (Serve c)
  with assms obtain cmd rest st answer where c: "lc_sent (lw_clients w c) = cmd # rest"
    "serverRun expiring_redis ''key'' (lt c) c (lw_clock w) (lw_store w) cmd = (st, answer)"
    "w' = put_client (w\<lparr>lw_store := st\<rparr>) c (deliver (Some answer) (lw_clients w c))"
    by (auto split: list.splits prod.splits)
  have "c \<in> {''a'', ''b''}"
  proof (rule ccontr)
    assume "c \<notin> {''a'', ''b''}"
    from assms(2) [OF this] c(1) show False by (simp add: idle_client_def)
  qed
  moreover have "lease_step expiring_redis ''key'' lt w w'" unfolding c(3) by (rule lease_step.server) (fact c(1,2))+
  ultimately show ?thesis using assms(2) c(3) by (auto simp: put_client_def)
next
  case (Do c event)
  with assms(1) obtain cl where fires: "event = TimerFires \<Longrightarrow> lc_timer (lw_clients w c) \<le> lw_clock w"
    and cl: "clientStep (lt c) (lw_clock w) event (lc_phase (lw_clients w c)) (lc_answer (lw_clients w c)) (lw_clients w c) = Some cl"
    and w': "w' = put_client w c cl" and c: "c \<in> {''a'', ''b''}"
    by (auto split: if_splits simp: not_less)
  have "lease_step expiring_redis ''key'' lt w w'" unfolding w' by (rule lease_step.client [where event = event]) (fact fires cl)+
  then show ?thesis using assms(2) c w' by (auto simp: put_client_def)
qed

lemma runMoves_reachable:
  assumes "runMoves lt w ms = Some w'" and "lease_reachable expiring_redis ''key'' lt w"
    and "\<And>c. c \<notin> {''a'', ''b''} \<Longrightarrow> lw_clients w c = idle_client"
  shows "lease_reachable expiring_redis ''key'' lt w'"
  using assms
proof (induction ms arbitrary: w)
  case (Cons m ms)
  then obtain w1 where w1: "applyMove lt w m = Some w1" "runMoves lt w1 ms = Some w'" by (auto split: Option.bind_splits)
  from applyMove_step [OF w1(1) Cons.prems(3)] Cons.IH [OF w1(2)] Cons.prems(2) show ?case
    by (blast intro: lease_reachable.step)
qed simp

text \<open>A slow reply to \<open>SET\<close>, a renewal that never reaches the server, and the lease runs out before the
  renewal times out: both calls work on the zone at the same clock.\<close>

definition overlap_schedule :: "Move list" where
  "overlap_schedule = [Do ''a'' Start, Serve ''a'', Pass 3, Do ''a'' Reply, Pass 6, Do ''a'' TimerFires, Pass 1,
     Do ''b'' Start, Serve ''b'', Do ''b'' Reply]"

text \<open>C34: The guard on the lease times is one command timeout short: with times that it accepts, two calls
  are reachable that both pass \<open>assertOwned\<close> at the same time.\<close>

theorem zone_lock_guard_insufficient:
  "leaseTimes tight_options = Inr tight_times \<and>
   (\<exists>w. lease_reachable expiring_redis ''key'' (\<lambda>_. tight_times) w
     \<and> believes_owned (lw_clients w ''a'') \<and> believes_owned (lw_clients w ''b''))"
proof
  show "leaseTimes tight_options = Inr tight_times"
    by (simp add: leaseTimes_def tight_options_def tight_times_def option_or_def)
  have start: "lease_reachable expiring_redis ''key'' (\<lambda>_. tight_times) fresh_world"
    by (rule lease_reachable.start) (simp add: lease_start_def fresh_world_def)
  have "\<exists>w. runMoves (\<lambda>_. tight_times) fresh_world overlap_schedule = Some w
     \<and> believes_owned (lw_clients w ''a'') \<and> believes_owned (lw_clients w ''b'')"
    by (simp add: overlap_schedule_def fresh_world_def idle_client_def put_client_def startLease_def acquireAttempt_def
        send_def deliver_def tight_times_def acquireReply_def startRenewalDelay_def sendRefresh_def expiring_redis_def
        expiring_get_def believes_owned_def Let_def)
  then show "\<exists>w. lease_reachable expiring_redis ''key'' (\<lambda>_. tight_times) w
     \<and> believes_owned (lw_clients w ''a'') \<and> believes_owned (lw_clients w ''b'')"
    using runMoves_reachable [OF _ start] by (auto simp: fresh_world_def)
qed

theorem zone_lock_mutual_exclusion_witness:
  "\<exists>w. lease_reachable expiring_redis ''key'' (\<lambda>_. tight_times\<lparr>lt_leaseMs := 13\<rparr>) w
     \<and> rd_get expiring_redis (lw_store w) (lw_clock w) ''key'' = Some ''a'' \<and> believes_owned (lw_clients w ''a'')"
proof -
  let ?lt = "\<lambda>_ :: string. tight_times\<lparr>lt_leaseMs := 13\<rparr>"
  have start: "lease_reachable expiring_redis ''key'' ?lt fresh_world"
    by (rule lease_reachable.start) (simp add: lease_start_def fresh_world_def)
  have "\<exists>w. runMoves ?lt fresh_world (take 7 overlap_schedule) = Some w \<and> believes_owned (lw_clients w ''a'')"
    by (simp add: overlap_schedule_def fresh_world_def idle_client_def put_client_def startLease_def acquireAttempt_def
        send_def deliver_def tight_times_def acquireReply_def startRenewalDelay_def sendRefresh_def expiring_redis_def
        expiring_get_def believes_owned_def Let_def numeral_eq_Suc)
  then obtain w where w: "runMoves ?lt fresh_world (take 7 overlap_schedule) = Some w" "believes_owned (lw_clients w ''a'')"
    by blast
  have reach: "lease_reachable expiring_redis ''key'' ?lt w"
    by (rule runMoves_reachable [OF w(1) start]) (simp add: fresh_world_def)
  have safe: "safe_times (?lt c)" for c by (simp add: safe_times_def accepted_times_def tight_times_def)
  from zone_lock_mutual_exclusion [OF er.redis_axioms safe reach w(2)] reach w(2) show ?thesis by blast
qed

section \<open>Waiting for the lock\<close>

lemma acquire_deadline_step:
  assumes "ph = lc_phase cl" and "ph = Acquiring \<or> ph = Polling \<Longrightarrow> now \<le> lc_timer cl \<and> lc_timer cl \<le> lc_deadline cl"
    and "clientStep lt now event (lc_phase cl) (lc_answer cl) cl = Some cl'" and "accepted_times lt"
  shows "lc_phase cl' = Acquiring \<or> lc_phase cl' = Polling \<Longrightarrow> now \<le> lc_timer cl' \<and> lc_timer cl' \<le> lc_deadline cl'"
  using assms
  by (cases "(lt, now, event, lc_phase cl, lc_answer cl, cl)" rule: clientStep.cases)
     (auto simp: startLease_def acquireAttempt_def acquireReply_def startRenewalDelay_def sendRefresh_def
          sendRelease_def markLost_def endLease_def send_def Let_def accepted_times_def min_def split: if_splits)

lemma acquire_deadline_inv:
  assumes "lease_reachable R key lt w" and "\<And>c. accepted_times (lt c)"
  shows "lc_phase (lw_clients w c) = Acquiring \<or> lc_phase (lw_clients w c) = Polling \<Longrightarrow>
    lw_clock w \<le> lc_timer (lw_clients w c) \<and> lc_timer (lw_clients w c) \<le> lc_deadline (lw_clients w c)"
  using assms(1)
proof (induction arbitrary: c)
  case (start w)
  then show ?case by (simp add: lease_start_def idle_client_def)
next
  case (step w w')
  from step.hyps(2) show ?case
  proof (cases rule: lease_step.cases)
    case (tick d)
    then show ?thesis using step.IH [of c] step.prems tick(3) [of c] by auto
  next
    case (client event d cl)
    then show ?thesis using step.IH [of c] step.prems acquire_deadline_step [OF refl _ client(3) assms(2)]
      by (cases "c = d") (auto simp: put_client_def)
  qed (use step.IH [of c] step.prems in \<open>auto simp: put_client_def deliver_def split: if_splits\<close>)
qed

text \<open>Waiting is bounded: a call that has not got the lock yet is never past its deadline, neither
  between two polls nor while its \<open>SET\<close> is outstanding.\<close>

theorem acquire_within_deadline:
  assumes "lease_reachable R key lt w" and "\<And>c. accepted_times (lt c)"
    and "lc_phase (lw_clients w c) = Acquiring \<or> lc_phase (lw_clients w c) = Polling"
  shows "lw_clock w \<le> lc_deadline (lw_clients w c)"
  using acquire_deadline_inv [OF assms] by linarith

theorem acquire_within_deadline_witness:
  "lw_clock fresh_world \<le> lc_deadline (startLease tight_times 0 idle_client)"
proof -
  have start: "lease_reachable expiring_redis ''key'' (\<lambda>_. tight_times) fresh_world"
    by (rule lease_reachable.start) (simp add: lease_start_def fresh_world_def)
  have "runMoves (\<lambda>_. tight_times) fresh_world [Do ''a'' Start]
      = Some (put_client fresh_world ''a'' (startLease tight_times 0 idle_client))"
    by (simp add: fresh_world_def idle_client_def)
  from runMoves_reachable [OF this start]
  have "lease_reachable expiring_redis ''key'' (\<lambda>_. tight_times) (put_client fresh_world ''a'' (startLease tight_times 0 idle_client))"
    by (simp add: fresh_world_def)
  from acquire_within_deadline [OF this, of "''a''"] show ?thesis
    by (simp add: accepted_times_def tight_times_def startLease_def acquireAttempt_def send_def idle_client_def
        fresh_world_def put_client_def)
qed

end
