(* ===== verification/Dns_Records.thy ===== *)
theory Dns_Records
  imports Prelude
begin

text \<open>
  DNS records as the application, its provider adapters and its database exchange them
  (\<open>packages/contracts/src/dns.ts\<close>), the comparison of a remote record with the desired one
  (\<open>packages/providers/src/record-match.ts\<close>) and the drift hash
  (\<open>packages/providers/src/record-hash.ts\<close>). Provider metadata are JavaScript values: objects keep
  their entries in insertion order. SHA-256, \<open>localeCompare\<close>, the rendering of numbers and \<open>isIP\<close> of
  \<open>node:net\<close> are parameters.
\<close>

section \<open>JavaScript values\<close>

datatype json =
    JUndefined | JNull | JBool bool | JNum number | JStr string
  | JArr "json list" | JObj "(string \<times> json) list"

fun digit_char :: "nat \<Rightarrow> char" where
  "digit_char n = char_of (48 + n)"

fun nat_text :: "nat \<Rightarrow> string" where
  "nat_text n = (if n < 10 then [digit_char n] else nat_text (n div 10) @ [digit_char (n mod 10)])"

declare nat_text.simps [simp del]

text \<open>\<open>Object.entries\<close>; an array has its indices for keys.\<close>

fun json_entries :: "json \<Rightarrow> (string \<times> json) list" where
  "json_entries (JObj es) = es"
| "json_entries (JArr xs) = zip (map nat_text [0..<length xs]) xs"
| "json_entries _ = []"

text \<open>Reading a property of an object; what is not there is \<open>undefined\<close>.\<close>

fun json_get :: "json \<Rightarrow> string \<Rightarrow> json" where
  "json_get (JObj es) k = (case map_of es k of Some v \<Rightarrow> v | None \<Rightarrow> JUndefined)"
| "json_get (JArr xs) k = (if k = ''length'' then JNum (num_of_int (int (length xs)))
     else (case map_of (json_entries (JArr xs)) k of Some v \<Rightarrow> v | None \<Rightarrow> JUndefined))"
| "json_get _ k = JUndefined"

fun is_json_object :: "json \<Rightarrow> bool" where
  "is_json_object (JObj _) = True"
| "is_json_object (JArr _) = True"
| "is_json_object _ = False"

text \<open>\<open>===\<close> between values that were parsed apart: two objects are never the same one.\<close>

fun json_same :: "json \<Rightarrow> json \<Rightarrow> bool" where
  "json_same (JNum a) (JNum b) = num_eq a b"
| "json_same (JStr a) (JStr b) = (a = b)"
| "json_same (JBool a) (JBool b) = (a = b)"
| "json_same JNull JNull = True"
| "json_same JUndefined JUndefined = True"
| "json_same _ _ = False"

section \<open>Records\<close>

datatype DnsRecordType = TypeA | TypeAAAA | TypeCAA | TypeCNAME | TypeMX | TypeNS | TypeSRV | TypeTXT

fun type_text :: "DnsRecordType \<Rightarrow> string" where
  "type_text TypeA = ''A''" | "type_text TypeAAAA = ''AAAA''" | "type_text TypeCAA = ''CAA''"
| "type_text TypeCNAME = ''CNAME''" | "type_text TypeMX = ''MX''" | "type_text TypeNS = ''NS''"
| "type_text TypeSRV = ''SRV''" | "type_text TypeTXT = ''TXT''"

record DnsRecordInput =
  di_type :: DnsRecordType
  di_name :: string
  di_content :: string
  di_ttl :: int
  di_priority :: "int option"
  di_providerMetadata :: "(string \<times> json) list"

record ProviderRecord =
  pr_externalId :: string
  pr_zoneExternalId :: string
  pr_type :: string
  pr_name :: string
  pr_content :: string
  pr_ttl :: int
  pr_priority :: "int option"
  pr_providerMetadata :: "(string \<times> json) list"

datatype ZoneStatus = ZoneActive | ZonePending | ZoneError

record ProviderZone =
  pz_externalId :: string
  pz_name :: string
  pz_status :: ZoneStatus
  pz_providerMetadata :: "(string \<times> json) list"

section \<open>The drift hash and the comparison\<close>

definition normalizeName :: "string \<Rightarrow> string" where
  "normalizeName value = drop_trailing_dot (to_lower value)"

definition normalizeAliyunStatusForComparison :: "string \<Rightarrow> string option" where
  "normalizeAliyunStatusForComparison value = (let normalized = to_lower value in
     if normalized = ''enable'' \<or> normalized = ''enabled'' then Some ''Enable''
     else if normalized = ''disable'' \<or> normalized = ''disabled'' then Some ''Disable''
     else None)"

text \<open>\<open>{ ...metadata, status }\<close>: the value changes, the key stays where it is.\<close>

definition put_entry :: "string \<Rightarrow> json \<Rightarrow> (string \<times> json) list \<Rightarrow> (string \<times> json) list" where
  "put_entry k v es = (if k \<in> fst ` set es then map (\<lambda>(k', v'). if k' = k then (k', v) else (k', v')) es else es @ [(k, v)])"

definition normalizeProviderMetadata :: "(string \<times> json) list \<Rightarrow> (string \<times> json) list" where
  "normalizeProviderMetadata metadata =
    (case json_get (JObj metadata) ''status'' of
       JStr s \<Rightarrow> (case normalizeAliyunStatusForComparison s of
          None \<Rightarrow> metadata
        | Some status \<Rightarrow> put_entry ''status'' (JStr status) metadata)
     | _ \<Rightarrow> metadata)"

fun escape_char :: "char \<Rightarrow> string" where
  "escape_char c = (let n = (of_char c :: nat) in
     if n = 34 \<or> n = 92 then [char_of (92::nat), c]
     else if n = 8 then [char_of (92::nat), CHR ''b'']
     else if n = 9 then [char_of (92::nat), CHR ''t'']
     else if n = 10 then [char_of (92::nat), CHR ''n'']
     else if n = 12 then [char_of (92::nat), CHR ''f'']
     else if n = 13 then [char_of (92::nat), CHR ''r'']
     else if n < 32 then char_of (92::nat) # ''u00'' @ [digit_char (n div 16),
       (if n mod 16 < 10 then digit_char (n mod 16) else char_of (87 + n mod 16))]
     else [c])"

definition quote :: "string \<Rightarrow> string" where
  "quote s = [char_of (34::nat)] @ concat (map escape_char s) @ [char_of (34::nat)]"

definition byKey :: "(string \<Rightarrow> string \<Rightarrow> int) \<Rightarrow> string \<times> string \<Rightarrow> string \<times> string \<Rightarrow> int" where
  "byKey lc a b = lc (fst a) (fst b)"

text \<open>The entries are rendered first and then sorted by key, which gives what sorting them first gives.\<close>

fun stableJson :: "(string \<Rightarrow> string \<Rightarrow> int) \<Rightarrow> (number \<Rightarrow> string) \<Rightarrow> json \<Rightarrow> string" where
  "stableJson lc num_text (JArr xs) = ''['' @ join_with '','' (map (stableJson lc num_text) xs) @ '']''"
| "stableJson lc num_text (JObj es) = ''{'' @ join_with '',''
     (map (\<lambda>(k, t). quote k @ '':'' @ t) (js_sort (byKey lc) (map (\<lambda>(k, v). (k, stableJson lc num_text v)) es))) @ ''}''"
| "stableJson lc num_text (JStr s) = quote s"
| "stableJson lc num_text (JNum n) = (if is_finite n then num_text n else ''null'')"
| "stableJson lc num_text (JBool b) = (if b then ''true'' else ''false'')"
| "stableJson lc num_text JNull = ''null''"
| "stableJson lc num_text JUndefined = ''undefined''"

definition hashed_value :: "ProviderRecord \<Rightarrow> json" where
  "hashed_value r = JObj [(''type'', JStr (pr_type r)), (''name'', JStr (normalizeName (pr_name r))),
     (''content'', JStr (pr_content r)), (''ttl'', JNum (num_of_int (pr_ttl r))),
     (''priority'', case pr_priority r of None \<Rightarrow> JNull | Some p \<Rightarrow> JNum (num_of_int p)),
     (''providerMetadata'', JObj (normalizeProviderMetadata (pr_providerMetadata r)))]"

definition providerRecordHash ::
  "(string \<Rightarrow> string) \<Rightarrow> (string \<Rightarrow> string \<Rightarrow> int) \<Rightarrow> (number \<Rightarrow> string) \<Rightarrow> ProviderRecord \<Rightarrow> string" where
  "providerRecordHash sha256 lc num_text r = sha256 (stableJson lc num_text (hashed_value r))"

function deepEqual :: "json \<Rightarrow> json \<Rightarrow> bool"
  and arrayEvery :: "json list \<Rightarrow> json list \<Rightarrow> bool"
  and itemsEvery :: "nat \<Rightarrow> json list \<Rightarrow> json \<Rightarrow> bool"
  and entriesEvery :: "(string \<times> json) list \<Rightarrow> json \<Rightarrow> bool" where
  "deepEqual left right = (json_same left right \<or>
     (case left of
        JArr xs \<Rightarrow> (case right of
            JArr ys \<Rightarrow> length xs = length ys \<and> arrayEvery xs ys
          | _ \<Rightarrow> is_json_object right \<and> length xs = length (json_entries right) \<and> itemsEvery 0 xs right)
      | JObj es \<Rightarrow> is_json_object right \<and> length es = length (json_entries right) \<and> entriesEvery es right
      | _ \<Rightarrow> False))"
| "arrayEvery [] ys = True"
| "arrayEvery (x # xs) ys = (case ys of [] \<Rightarrow> True | y # ys' \<Rightarrow> deepEqual x y \<and> arrayEvery xs ys')"
| "itemsEvery i [] right = True"
| "itemsEvery i (x # xs) right = (deepEqual x (json_get right (nat_text i)) \<and> itemsEvery (Suc i) xs right)"
| "entriesEvery [] right = True"
| "entriesEvery (e # es) right = (deepEqual (snd e) (json_get right (fst e)) \<and> entriesEvery es right)"
  by pat_completeness auto
termination
  by (relation "measure (\<lambda>x. case x of
        Inl (Inl (l, r)) \<Rightarrow> size l
      | Inl (Inr (xs, ys)) \<Rightarrow> size_list size xs
      | Inr (Inl (i, xs, r)) \<Rightarrow> size_list size xs
      | Inr (Inr (es, r)) \<Rightarrow> size_list (\<lambda>e. size (snd e)) es)")
     (auto simp: less_Suc_eq_le size_prod_simp intro!: size_list_pointwise)

declare deepEqual.simps [simp del]

definition providerMetadataEqual :: "string \<Rightarrow> json \<Rightarrow> json \<Rightarrow> bool" where
  "providerMetadataEqual key actual expected =
    (case (actual, expected) of
       (JStr a, JStr e) \<Rightarrow>
         if key = ''status'' \<and> (normalizeAliyunStatusForComparison a \<noteq> None \<or> normalizeAliyunStatusForComparison e \<noteq> None)
         then normalizeAliyunStatusForComparison a = normalizeAliyunStatusForComparison e
         else deepEqual actual expected
     | _ \<Rightarrow> deepEqual actual expected)"

text \<open>A proxied record reports the automatic TTL.\<close>

definition expectedTtl :: "DnsRecordInput \<Rightarrow> int" where
  "expectedTtl expected = (if json_get (JObj (di_providerMetadata expected)) ''proxied'' = JBool True then 1 else di_ttl expected)"

definition dnsRecordMatches :: "ProviderRecord \<Rightarrow> DnsRecordInput \<Rightarrow> bool" where
  "dnsRecordMatches actual expected =
    (pr_type actual = type_text (di_type expected)
     \<and> normalizeName (pr_name actual) = normalizeName (di_name expected)
     \<and> pr_content actual = di_content expected
     \<and> pr_ttl actual = expectedTtl expected
     \<and> pr_priority actual = di_priority expected
     \<and> list_all (\<lambda>(key, value). value = JUndefined
         \<or> providerMetadataEqual key (json_get (JObj (pr_providerMetadata actual)) key) value) (di_providerMetadata expected))"

section \<open>Comparing and hashing\<close>

text \<open>Data that come from JSON: no \<open>undefined\<close>, no \<open>NaN\<close>, every key once.\<close>

fun wf_json :: "json \<Rightarrow> bool" where
  "wf_json JUndefined = False"
| "wf_json (JNum n) = (n \<noteq> NaN)"
| "wf_json (JArr xs) = list_all wf_json xs"
| "wf_json (JObj es) = (distinct (map fst es) \<and> list_all (\<lambda>e. wf_json (snd e)) es)"
| "wf_json _ = True"

lemma json_get_entry: "distinct (map fst es) \<Longrightarrow> (k, v) \<in> set es \<Longrightarrow> json_get (JObj es) k = v"
  by simp

lemma arrayEvery_refl: "(\<And>x. x \<in> set xs \<Longrightarrow> deepEqual x x) \<Longrightarrow> arrayEvery xs xs"
  by (induction xs) auto

lemma entriesEvery_iff: "entriesEvery es r \<longleftrightarrow> list_all (\<lambda>e. deepEqual (snd e) (json_get r (fst e))) es"
  by (induction es) auto

lemma deepEqual_arrays: "deepEqual (JArr xs) (JArr ys) \<longleftrightarrow> length xs = length ys \<and> arrayEvery xs ys"
  by (simp add: deepEqual.simps)

lemma deepEqual_objects: "deepEqual (JObj es) (JObj fs) \<longleftrightarrow> length es = length fs \<and> entriesEvery es (JObj fs)"
  by (simp add: deepEqual.simps)

lemma deepEqual_refl: "wf_json v \<Longrightarrow> deepEqual v v"
proof (induction v rule: wf_json.induct)
  case (3 xs)
  then show ?case by (auto simp: deepEqual_arrays list_all_iff intro!: arrayEvery_refl)
next
  case (4 es)
  have "deepEqual (snd e) (json_get (JObj es) (fst e))" if "e \<in> set es" for e
    using 4 that json_get_entry [of es "fst e" "snd e"] by (auto simp: list_all_iff)
  then show ?case by (auto simp: deepEqual_objects entriesEvery_iff list_all_iff)
qed (auto simp: deepEqual.simps num_eq_def)

lemma providerMetadataEqual_refl: "wf_json v \<Longrightarrow> providerMetadataEqual k v v"
  by (auto simp: providerMetadataEqual_def deepEqual_refl split: json.splits)

text \<open>A record written as desired is recognised: whatever case or trailing dot the provider gives the
  name, and whatever metadata it adds, a remote record that carries the desired type, content, priority
  and metadata, with the automatic TTL where it is proxied, matches, so that verification and the
  duplicate search of a retried creation find it.\<close>

theorem desired_record_matches:
  assumes "wf_json (JObj (di_providerMetadata e))"
    and "pr_type r = type_text (di_type e)" and "to_lower (pr_name r) = to_lower (di_name e) \<or> pr_name r = di_name e @ ''.''"
    and "pr_content r = di_content e" and "pr_ttl r = expectedTtl e" and "pr_priority r = di_priority e"
    and "\<And>k v. (k, v) \<in> set (di_providerMetadata e) \<Longrightarrow> json_get (JObj (pr_providerMetadata r)) k = v"
    and "di_name e = [] \<or> last (di_name e) \<noteq> CHR ''.''"
  shows "dnsRecordMatches r e"
proof -
  have "normalizeName (pr_name r) = normalizeName (di_name e)"
    using assms(3) normal_name_dot [OF assms(8)] by (auto simp: normalizeName_def)
  moreover have "providerMetadataEqual k (json_get (JObj (pr_providerMetadata r)) k) v" if "(k, v) \<in> set (di_providerMetadata e)" for k v
    using assms(7) [OF that] that assms(1) providerMetadataEqual_refl [of v k] by (auto simp: list_all_iff)
  ultimately show ?thesis using assms by (auto simp: dnsRecordMatches_def list_all_iff)
qed

definition sample_input :: DnsRecordInput where
  "sample_input = \<lparr>di_type = TypeA, di_name = ''www.example.org'', di_content = ''192.0.2.1'', di_ttl = 60,
     di_priority = None, di_providerMetadata = [(''proxied'', JBool True), (''tags'', JArr [JStr ''a''])]\<rparr>"

definition sample_remote :: ProviderRecord where
  "sample_remote = \<lparr>pr_externalId = ''r1'', pr_zoneExternalId = ''z1'', pr_type = ''A'', pr_name = ''www.example.org.'',
     pr_content = ''192.0.2.1'', pr_ttl = 1, pr_priority = None,
     pr_providerMetadata = [(''tags'', JArr [JStr ''a'']), (''comment'', JNull), (''proxied'', JBool True)]\<rparr>"

theorem desired_record_matches_witness: "dnsRecordMatches sample_remote sample_input"
  by (rule desired_record_matches) (auto simp: sample_input_def sample_remote_def expectedTtl_def)

lemma stableJson_object_cong:
  assumes "js_comparator lc" and "mset es = mset fs" and "distinct (map fst es)"
    and "\<And>a b. a \<in> fst ` set es \<Longrightarrow> b \<in> fst ` set es \<Longrightarrow> lc a b \<le> 0 \<Longrightarrow> lc b a \<le> 0 \<Longrightarrow> a = b"
  shows "stableJson lc nt (JObj es) = stableJson lc nt (JObj fs)"
proof -
  let ?r = "map (\<lambda>(k, v). (k, stableJson lc nt v))"
  have "js_sort (byKey lc) (?r es) = js_sort (byKey lc) (?r fs)"
  proof (rule js_sort_unique)
    show "js_comparator (byKey lc)" using assms(1) by (auto simp: js_comparator_def byKey_def)
    show "mset (?r es) = mset (?r fs)" using assms(2) by simp
    have d: "distinct (map fst (?r es))" using assms(3) by (simp add: comp_def case_prod_beta)
    fix a b assume a: "a \<in> set (?r es)" and b: "b \<in> set (?r es)" and le: "byKey lc a b \<le> 0" "byKey lc b a \<le> 0"
    have "fst a \<in> fst ` set es" "fst b \<in> fst ` set es" using a b by force+
    with le assms(4) have "fst a = fst b" by (auto simp: byKey_def)
    with a b d show "a = b" by (metis eq_key_imp_eq_value prod.collapse)
  qed
  then show ?thesis by simp
qed

lemma put_entry_mset:
  assumes "mset es = mset fs" and "k \<in> fst ` set es"
  shows "mset (put_entry k v es) = mset (put_entry k v fs)"
proof -
  have "k \<in> fst ` set fs" using assms by (metis mset_eq_setD)
  with assms show ?thesis by (simp add: put_entry_def)
qed

lemma map_fst_put_entry: "k \<in> fst ` set es \<Longrightarrow> map fst (put_entry k v es) = map fst es"
  by (auto simp: put_entry_def)

lemma normalizeProviderMetadata_cong:
  assumes "mset es = mset fs" and "distinct (map fst es)"
  shows "mset (normalizeProviderMetadata es) = mset (normalizeProviderMetadata fs)
    \<and> map fst (normalizeProviderMetadata es) = map fst es"
proof -
  have set: "set es = set fs" using assms(1) by (rule mset_eq_setD)
  have "distinct (map fst fs)" using assms mset_eq_imp_distinct_iff [of "map fst es" "map fst fs"] by simp
  then have "map_of es = map_of fs" using map_of_eqI assms(2) set
    by (metis (no_types, lifting) map_of_inject_set)
  then have get: "json_get (JObj es) ''status'' = json_get (JObj fs) ''status''" by simp
  have key: "''status'' \<in> fst ` set es" if "json_get (JObj es) ''status'' = JStr s" for s
    using that by (auto split: option.splits dest: map_of_SomeD intro: rev_image_eqI)
  show ?thesis
    unfolding normalizeProviderMetadata_def get [symmetric]
    using assms(1) key put_entry_mset [OF assms(1)] map_fst_put_entry
    by (auto split: json.splits option.splits)
qed



section \<open>Record input\<close>

text \<open>What the schema is given, once the fields have their JavaScript types: \<open>dnsRecordInputSchema\<close> trims the
  strings, checks lengths and ranges, and then, on a record that passed, what depends on its type.\<close>

record RawDnsRecord =
  rd_type :: string
  rd_name :: string
  rd_content :: string
  rd_ttl :: number
  rd_priority :: "number option"
  rd_providerMetadata :: "(string \<times> json) list option"

datatype DnsIssue = InvalidType | InvalidName | InvalidContent | InvalidTtl | InvalidPriority
  | NotIpv4 | NotIpv6 | PriorityRequired

definition is_space :: "char \<Rightarrow> bool" where
  "is_space c = (let n = (of_char c :: nat) in n = 32 \<or> (9 \<le> n \<and> n \<le> 13) \<or> n = 160)"

definition trim :: "string \<Rightarrow> string" where
  "trim s = rev (dropWhile is_space (rev (dropWhile is_space s)))"

definition record_types :: "DnsRecordType list" where
  "record_types = [TypeA, TypeAAAA, TypeCAA, TypeCNAME, TypeMX, TypeNS, TypeSRV, TypeTXT]"

definition parse_type :: "string \<Rightarrow> DnsRecordType option" where
  "parse_type s = find (\<lambda>t. type_text t = s) record_types"

definition int_between :: "int \<Rightarrow> int \<Rightarrow> number \<Rightarrow> bool" where
  "int_between lo hi n = (is_safe_integer n \<and> num_le (num_of_int lo) n \<and> num_le n (num_of_int hi))"

fun int_of :: "number \<Rightarrow> int" where
  "int_of (Num q) = \<lfloor>q\<rfloor>"
| "int_of _ = 0"

definition refineRecord :: "(string \<Rightarrow> nat) \<Rightarrow> DnsRecordInput \<Rightarrow> DnsIssue list" where
  "refineRecord isIP r =
     (if di_type r = TypeA \<and> isIP (di_content r) \<noteq> 4 then [NotIpv4] else [])
     @ (if di_type r = TypeAAAA \<and> isIP (di_content r) \<noteq> 6 then [NotIpv6] else [])
     @ (if (di_type r = TypeMX \<or> di_type r = TypeSRV) \<and> di_priority r = None then [PriorityRequired] else [])"

definition dnsRecordInputSchema :: "(string \<Rightarrow> nat) \<Rightarrow> RawDnsRecord \<Rightarrow> DnsIssue list + DnsRecordInput" where
  "dnsRecordInputSchema isIP raw = (let name = trim (rd_name raw); content = trim (rd_content raw);
     issues = (if parse_type (rd_type raw) = None then [InvalidType] else [])
       @ (if 1 \<le> length name \<and> length name \<le> 255 then [] else [InvalidName])
       @ (if 1 \<le> length content \<and> length content \<le> 4096 then [] else [InvalidContent])
       @ (if int_between 1 86400 (rd_ttl raw) then [] else [InvalidTtl])
       @ (case rd_priority raw of None \<Rightarrow> [] | Some p \<Rightarrow> if int_between 0 65535 p then [] else [InvalidPriority])
     in case parse_type (rd_type raw) of
       None \<Rightarrow> Inl issues
     | Some t \<Rightarrow>
         if issues \<noteq> [] then Inl issues
         else (let r = \<lparr>di_type = t, di_name = name, di_content = content, di_ttl = int_of (rd_ttl raw),
                 di_priority = map_option int_of (rd_priority raw),
                 di_providerMetadata = (case rd_providerMetadata raw of None \<Rightarrow> [] | Some m \<Rightarrow> m)\<rparr>
           in if refineRecord isIP r = [] then Inr r else Inl (refineRecord isIP r)))"

text \<open>A parsed record, sent again.\<close>

definition as_raw :: "DnsRecordInput \<Rightarrow> RawDnsRecord" where
  "as_raw r = \<lparr>rd_type = type_text (di_type r), rd_name = di_name r, rd_content = di_content r,
     rd_ttl = num_of_int (di_ttl r), rd_priority = map_option num_of_int (di_priority r),
     rd_providerMetadata = Some (di_providerMetadata r)\<rparr>"

lemma parse_type_text [simp]: "parse_type (type_text t) = Some t"
  by (cases t) (simp_all add: parse_type_def record_types_def)

lemma int_of_num_of_int [simp]: "int_of (num_of_int i) = i"
  by (simp add: num_of_int_def)

lemma dropWhile_idem_rev: "dropWhile P (rev (dropWhile P (rev (dropWhile P s)))) = rev (dropWhile P (rev (dropWhile P s)))"
proof (cases "rev (dropWhile P (rev (dropWhile P s)))")
  case (Cons x xs)
  obtain zs where "dropWhile P s = rev (dropWhile P (rev (dropWhile P s))) @ rev zs"
    by (metis rev_append rev_rev_ident takeWhile_dropWhile_id)
  then have "hd (dropWhile P s) = x" "dropWhile P s \<noteq> []" using Cons by auto
  then have "\<not> P x" using hd_dropWhile by blast
  then show ?thesis using Cons by simp
qed (simp only: dropWhile.simps)

lemma trim_idem [simp]: "trim (trim s) = trim s"
  by (simp add: trim_def dropWhile_idem_rev dropWhile_idem)

lemma int_between_num_of_int: "int_between lo hi n \<Longrightarrow> num_of_int (int_of n) = n"
  by (auto simp: int_between_def elim!: is_safe_integerE)

lemma int_between_bounds: "int_between lo hi n \<Longrightarrow> lo \<le> int_of n \<and> int_of n \<le> hi"
  by (auto simp: int_between_def elim!: is_safe_integerE)



end
