(* ===== verification/Dns_Providers.thy ===== *)
theory Dns_Providers
  imports Dns_Records
begin

text \<open>
  Provider errors (\<open>packages/contracts/src/errors.ts\<close>), the adapter interface
  (\<open>packages/providers/src/provider.ts\<close>) and the Cloudflare adapter
  (\<open>packages/providers/src/cloudflare.ts\<close>). The vendor's SDK client is a parameter: functions on the
  remote state that answer with a raw record or throw. An adapter is a record of functions on the same
  state; the modification time of a record, which nothing reads, is left out.
\<close>

section \<open>Errors\<close>

datatype ProviderErrorCode = AuthenticationFailed | ProviderPermissionDenied | NotFound | Conflict
  | ValidationFailed | ProviderRateLimited | TransientFailure | UnknownProviderError

datatype ProviderType = Cloudflare | Aliyun

record ProviderError =
  pe_message :: string
  pe_code :: ProviderErrorCode
  pe_provider :: ProviderType
  pe_retryable :: bool
  pe_retryAfterMs :: "int option"

definition retryable_code :: "ProviderErrorCode \<Rightarrow> bool" where
  "retryable_code code = (code = ProviderRateLimited \<or> code = TransientFailure)"

definition newProviderError ::
  "string \<Rightarrow> ProviderErrorCode \<Rightarrow> ProviderType \<Rightarrow> bool option \<Rightarrow> int option \<Rightarrow> ProviderError" where
  "newProviderError message code provider retryable retryAfterMs =
    \<lparr>pe_message = message, pe_code = code, pe_provider = provider,
     pe_retryable = (case retryable of Some b \<Rightarrow> b | None \<Rightarrow> retryable_code code), pe_retryAfterMs = retryAfterMs\<rparr>"

text \<open>What an adapter call may throw.\<close>

record ApiError =
  ae_status :: "int option"
  ae_code :: string
  ae_retryAfter :: "string option"
  ae_errors :: json

datatype Thrown = ThrownProvider ProviderError | ThrownApi ApiError | ThrownOther

section \<open>The adapter interface\<close>

record 'a Page =
  pg_items :: "'a list"
  pg_nextCursor :: "string option"

record 'r DnsProviderAdapter =
  ad_provider :: ProviderType
  ad_listRecords :: "'r \<Rightarrow> string \<Rightarrow> string option \<Rightarrow> 'r \<times> (ProviderError + ProviderRecord Page)"
  ad_getRecord :: "'r \<Rightarrow> string \<Rightarrow> string \<Rightarrow> 'r \<times> (ProviderError + ProviderRecord option)"
  ad_createRecord :: "'r \<Rightarrow> string \<Rightarrow> DnsRecordInput \<Rightarrow> 'r \<times> (ProviderError + ProviderRecord)"
  ad_updateRecord :: "'r \<Rightarrow> string \<Rightarrow> string \<Rightarrow> DnsRecordInput \<Rightarrow> 'r \<times> (ProviderError + ProviderRecord)"
  ad_deleteRecord :: "'r \<Rightarrow> string \<Rightarrow> string \<Rightarrow> 'r \<times> (ProviderError + unit)"

section \<open>Numbers in headers and cursors\<close>

definition is_digit :: "char \<Rightarrow> bool" where
  "is_digit c = (let n = (of_char c :: nat) in 48 \<le> n \<and> n \<le> 57)"

definition digit_value :: "char \<Rightarrow> int" where
  "digit_value c = int (of_char c) - 48"

definition digits_value :: "string \<Rightarrow> int" where
  "digits_value ds = foldl (\<lambda>n d. 10 * n + digit_value d) 0 ds"

text \<open>\<open>Number.parseInt(s, 10)\<close>: leading space, a sign, digits; \<open>None\<close> is \<open>NaN\<close>.\<close>

definition parse_int :: "string \<Rightarrow> int option" where
  "parse_int s = (let t = dropWhile is_space s;
     neg = (t \<noteq> [] \<and> hd t = CHR ''-'');
     u = (if t \<noteq> [] \<and> (hd t = CHR ''-'' \<or> hd t = CHR ''+'') then tl t else t);
     ds = takeWhile is_digit u
   in if ds = [] then None else Some (if neg then - digits_value ds else digits_value ds))"

definition int_text :: "int \<Rightarrow> string" where
  "int_text i = (if i < 0 then ''-'' @ nat_text (nat (- i)) else nat_text (nat i))"

section \<open>Cloudflare\<close>

record CloudflareRecordShape =
  cf_id :: string
  cf_name :: string
  cf_type :: string
  cf_content :: "string option"
  cf_data :: json
  cf_ttl :: int
  cf_priority :: "int option"
  cf_proxied :: "bool option"
  cf_proxiable :: "bool option"
  cf_comment :: "string option"
  cf_tags :: "string list option"

definition opt_entry :: "string \<Rightarrow> json option \<Rightarrow> (string \<times> json) list" where
  "opt_entry k v = (case v of None \<Rightarrow> [] | Some x \<Rightarrow> [(k, x)])"

definition normalizeCloudflareRecord :: "(json \<Rightarrow> string) \<Rightarrow> CloudflareRecordShape \<Rightarrow> string \<Rightarrow> ProviderRecord" where
  "normalizeCloudflareRecord stringify record zoneExternalId =
    \<lparr>pr_externalId = cf_id record, pr_zoneExternalId = zoneExternalId, pr_type = cf_type record, pr_name = cf_name record,
     pr_content = (case cf_content record of Some c \<Rightarrow> c
       | None \<Rightarrow> stringify (if cf_data record = JUndefined \<or> cf_data record = JNull then JObj [] else cf_data record)),
     pr_ttl = cf_ttl record, pr_priority = cf_priority record,
     pr_providerMetadata = opt_entry ''proxied'' (map_option JBool (cf_proxied record))
       @ opt_entry ''proxiable'' (map_option JBool (cf_proxiable record))
       @ opt_entry ''comment'' (map_option JStr (cf_comment record))
       @ opt_entry ''tags'' (map_option (\<lambda>ts. JArr (map JStr ts)) (cf_tags record))\<rparr>"

record CloudflareInput =
  ci_zone_id :: string
  ci_type :: string
  ci_name :: string
  ci_content :: string
  ci_ttl :: int
  ci_priority :: "int option"
  ci_proxied :: "bool option"
  ci_comment :: "string option"
  ci_tags :: "string list option"

fun json_bool :: "json \<Rightarrow> bool option" where
  "json_bool (JBool b) = Some b"
| "json_bool _ = None"

fun json_str :: "json \<Rightarrow> string option" where
  "json_str (JStr s) = Some s"
| "json_str _ = None"

fun json_arr :: "json \<Rightarrow> json list option" where
  "json_arr (JArr xs) = Some xs"
| "json_arr _ = None"

definition toCloudflareInput :: "string \<Rightarrow> DnsRecordInput \<Rightarrow> CloudflareInput" where
  "toCloudflareInput zoneId input = (let metadata = JObj (di_providerMetadata input) in
    \<lparr>ci_zone_id = zoneId, ci_type = type_text (di_type input), ci_name = di_name input, ci_content = di_content input,
     ci_ttl = (if json_get metadata ''proxied'' = JBool True then 1 else di_ttl input),
     ci_priority = di_priority input,
     ci_proxied = json_bool (json_get metadata ''proxied''),
     ci_comment = json_str (json_get metadata ''comment''),
     ci_tags = map_option (List.map_filter json_str) (json_arr (json_get metadata ''tags''))\<rparr>)"

definition parseCursor :: "ProviderType \<Rightarrow> string option \<Rightarrow> ProviderError + int" where
  "parseCursor provider cursor = (let parsed = (case cursor of None \<Rightarrow> Some 1 | Some c \<Rightarrow> parse_int c) in
     case parsed of
       Some n \<Rightarrow> if n < 1 then Inl (newProviderError ''Invalid pagination cursor'' ValidationFailed provider None None) else Inr n
     | None \<Rightarrow> Inl (newProviderError ''Invalid pagination cursor'' ValidationFailed provider None None))"

text \<open>What is kept of a validation error: numeric codes and the names of known request fields.\<close>

definition known_fields :: "string list" where
  "known_fields = [''type'', ''name'', ''content'', ''ttl'', ''priority'', ''proxied'', ''comment'', ''tags'']"

definition known_pointer :: "string \<Rightarrow> bool" where
  "known_pointer p = (p \<in> (\<lambda>f. ''/'' @ f) ` set known_fields
     \<or> (prefix ''/tags/'' p \<and> (let d = drop 6 p in 1 \<le> length d \<and> length d \<le> 4 \<and> list_all is_digit d)))"

fun json_code :: "json \<Rightarrow> int option" where
  "json_code (JNum n) = (if is_safe_integer n \<and> num_le (num_of_int 0) n then Some (int_of n) else None)"
| "json_code _ = None"

definition json_pointer :: "json \<Rightarrow> string option" where
  "json_pointer entry = (case json_str (json_get (json_get entry ''source'') ''pointer'') of
     Some p \<Rightarrow> if known_pointer p then Some p else None
   | None \<Rightarrow> None)"

definition detail_text :: "int option \<Rightarrow> string option \<Rightarrow> string" where
  "detail_text code pointer = join_with '' '' ((case code of Some c \<Rightarrow> [''code '' @ int_text c] | None \<Rightarrow> [])
     @ (case pointer of Some p \<Rightarrow> [''at '' @ p] | None \<Rightarrow> []))"

definition add_detail :: "string \<Rightarrow> string list \<Rightarrow> string list" where
  "add_detail d details = (if d \<in> set details then details else details @ [d])"

fun visitErrors :: "nat \<Rightarrow> json \<Rightarrow> string list \<Rightarrow> string list" where
  "visitErrors 0 errors details = details"
| "visitErrors (Suc depth) errors details =
    (case errors of
       JArr values \<Rightarrow> foldl (\<lambda>found entry.
           if 8 \<le> length found \<or> \<not> is_json_object entry then found
           else let code = json_code (json_get entry ''code''); pointer = json_pointer entry;
                  found' = (if code \<noteq> None \<or> pointer \<noteq> None then add_detail (detail_text code pointer) found else found)
                in visitErrors depth (json_get entry ''error_chain'') found') details (take 8 values)
     | _ \<Rightarrow> details)"

text \<open>The depths 0 to 4.\<close>

definition cloudflareValidationDetail :: "ApiError \<Rightarrow> string" where
  "cloudflareValidationDetail e = (let details = visitErrors 5 (ae_errors e) [] in
     take 512 (''Cloudflare rejected the DNS record (HTTP '' @ (case ae_status e of Some s \<Rightarrow> int_text s | None \<Rightarrow> ''undefined'')
       @ (if details \<noteq> [] then ''; '' @ join_with ''; '' details else []) @ '')''))"

definition mapCloudflareError :: "Thrown \<Rightarrow> ProviderError" where
  "mapCloudflareError error = (case error of
     ThrownProvider e \<Rightarrow> e
   | ThrownApi e \<Rightarrow> (let status = ae_status e; retryAfter = Option.bind (ae_retryAfter e) parse_int in
       if status = Some 401 then newProviderError ''Cloudflare authentication failed'' AuthenticationFailed Cloudflare None None
       else if status = Some 403 then newProviderError ''Cloudflare permission denied'' ProviderPermissionDenied Cloudflare None None
       else if status = Some 404 then newProviderError ''Cloudflare resource not found'' NotFound Cloudflare None None
       else if status = Some 409 then newProviderError ''Cloudflare record conflict'' Conflict Cloudflare None None
       else if status = Some 400 \<or> status = Some 422
         then newProviderError (cloudflareValidationDetail e) ValidationFailed Cloudflare None None
       else if status = Some 429 then newProviderError ''Cloudflare API rate limit exceeded'' ProviderRateLimited Cloudflare None
         (map_option (\<lambda>s. s * 1000) retryAfter)
       else if (case status of None \<Rightarrow> True | Some s \<Rightarrow> 500 \<le> s)
         then newProviderError ''Cloudflare API is temporarily unavailable'' TransientFailure Cloudflare None None
       else newProviderError ''Unexpected Cloudflare API error'' UnknownProviderError Cloudflare None None)
   | ThrownOther \<Rightarrow> newProviderError ''Unexpected Cloudflare API error'' UnknownProviderError Cloudflare None None)"

text \<open>The SDK's client.\<close>

record 'r CloudflareClient =
  cc_list :: "'r \<Rightarrow> string \<Rightarrow> int \<Rightarrow> int \<Rightarrow> 'r \<times> (Thrown + CloudflareRecordShape list \<times> bool)"
  cc_get :: "'r \<Rightarrow> string \<Rightarrow> string \<Rightarrow> 'r \<times> (Thrown + CloudflareRecordShape)"
  cc_create :: "'r \<Rightarrow> CloudflareInput \<Rightarrow> 'r \<times> (Thrown + CloudflareRecordShape)"
  cc_update :: "'r \<Rightarrow> string \<Rightarrow> CloudflareInput \<Rightarrow> 'r \<times> (Thrown + CloudflareRecordShape)"
  cc_delete :: "'r \<Rightarrow> string \<Rightarrow> string \<Rightarrow> 'r \<times> (Thrown + unit)"

definition wrap :: "(Thrown \<Rightarrow> ProviderError) \<Rightarrow> ('a \<Rightarrow> 'b) \<Rightarrow> 'r \<times> (Thrown + 'a) \<Rightarrow> 'r \<times> (ProviderError + 'b)" where
  "wrap mapError f = (\<lambda>(r, result). (r, case result of Inl e \<Rightarrow> Inl (mapError e) | Inr a \<Rightarrow> Inr (f a)))"

definition cloudflareAdapter :: "(json \<Rightarrow> string) \<Rightarrow> 'r CloudflareClient \<Rightarrow> 'r DnsProviderAdapter" where
  "cloudflareAdapter stringify client = \<lparr>
     ad_provider = Cloudflare,
     ad_listRecords = (\<lambda>r zone cursor. case parseCursor Cloudflare cursor of
         Inl e \<Rightarrow> (r, Inl e)
       | Inr pageNumber \<Rightarrow> wrap mapCloudflareError (\<lambda>(records, hasNextPage).
           \<lparr>pg_items = map (\<lambda>record. normalizeCloudflareRecord stringify record zone) records,
            pg_nextCursor = (if hasNextPage then Some (int_text (pageNumber + 1)) else None)\<rparr>)
           (cc_list client r zone pageNumber 100)),
     ad_getRecord = (\<lambda>r zone id. case cc_get client r zone id of
         (r', Inr record) \<Rightarrow> (r', Inr (Some (normalizeCloudflareRecord stringify record zone)))
       | (r', Inl e) \<Rightarrow> (r', if pe_code (mapCloudflareError e) = NotFound then Inr None else Inl (mapCloudflareError e))),
     ad_createRecord = (\<lambda>r zone input. wrap mapCloudflareError (\<lambda>record. normalizeCloudflareRecord stringify record zone)
         (cc_create client r (toCloudflareInput zone input))),
     ad_updateRecord = (\<lambda>r zone id input. wrap mapCloudflareError (\<lambda>record. normalizeCloudflareRecord stringify record zone)
         (cc_update client r id (toCloudflareInput zone input))),
     ad_deleteRecord = (\<lambda>r zone id. wrap mapCloudflareError (\<lambda>_. ()) (cc_delete client r zone id))\<rparr>"

section \<open>What the adapter keeps and what it lets through\<close>

text \<open>The metadata Cloudflare takes, and a remote that stores what it is sent.\<close>

fun is_json_str :: "json \<Rightarrow> bool" where
  "is_json_str (JStr s) = True"
| "is_json_str _ = False"

fun cloudflare_entry :: "string \<Rightarrow> json \<Rightarrow> bool" where
  "cloudflare_entry k (JBool b) = (k = ''proxied'')"
| "cloudflare_entry k (JStr s) = (k = ''comment'')"
| "cloudflare_entry k (JArr xs) = (k = ''tags'' \<and> list_all is_json_str xs)"
| "cloudflare_entry k _ = False"

definition cloudflare_metadata :: "(string \<times> json) list \<Rightarrow> bool" where
  "cloudflare_metadata es = (distinct (map fst es) \<and> list_all (\<lambda>(k, v). cloudflare_entry k v) es)"

definition stored :: "string \<Rightarrow> CloudflareInput \<Rightarrow> CloudflareRecordShape" where
  "stored recordId i = \<lparr>cf_id = recordId, cf_name = ci_name i, cf_type = ci_type i, cf_content = Some (ci_content i),
     cf_data = JUndefined, cf_ttl = ci_ttl i, cf_priority = ci_priority i, cf_proxied = ci_proxied i,
     cf_proxiable = Some True, cf_comment = ci_comment i, cf_tags = ci_tags i\<rparr>"

lemma map_filter_json_str: "list_all is_json_str xs \<Longrightarrow> map JStr (List.map_filter json_str xs) = xs"
proof (induction xs)
  case (Cons x xs)
  then show ?case by (cases x) (simp_all add: List.map_filter_simps)
qed (simp add: List.map_filter_simps)

lemma wf_strings: "list_all is_json_str xs \<Longrightarrow> list_all wf_json xs"
proof (induction xs)
  case (Cons x xs)
  then show ?case by (cases x) simp_all
qed simp

lemma cloudflare_entry_wf: "cloudflare_entry k v \<Longrightarrow> wf_json v"
  by (cases v) (simp_all add: wf_strings)

lemma cloudflare_metadata_wf: "cloudflare_metadata es \<Longrightarrow> wf_json (JObj es)"
  by (fastforce simp: cloudflare_metadata_def list_all_iff dest: cloudflare_entry_wf)

lemma map_of_opt_entry: "map_of (opt_entry k v) x = (if x = k then v else None)"
  by (auto simp: opt_entry_def split: option.splits)

lemma map_of_append_case: "map_of (xs @ ys) k = (case map_of xs k of None \<Rightarrow> map_of ys k | Some v \<Rightarrow> Some v)"
  by (auto simp: map_add_def split: option.splits)

lemma echoed_metadata:
  assumes "cloudflare_metadata (di_providerMetadata e)" and "(k, v) \<in> set (di_providerMetadata e)"
  shows "json_get (JObj (pr_providerMetadata (normalizeCloudflareRecord sf (stored i (toCloudflareInput z e)) z))) k = v"
proof -
  have get: "map_of (di_providerMetadata e) k = Some v"
    using assms by (simp add: cloudflare_metadata_def)
  have entry: "cloudflare_entry k v" using assms by (auto simp: cloudflare_metadata_def list_all_iff)
  show ?thesis
  proof (cases v)
    case (JArr xs)
    with entry have "k = ''tags''" "map JStr (List.map_filter json_str xs) = xs" by (simp_all add: map_filter_json_str)
    with JArr get show ?thesis
      by (simp add: normalizeCloudflareRecord_def stored_def toCloudflareInput_def Let_def map_of_append_case map_of_opt_entry
          del: map_of_append)
  qed (use get entry in \<open>simp_all add: normalizeCloudflareRecord_def stored_def toCloudflareInput_def Let_def
      map_of_append_case map_of_opt_entry del: map_of_append\<close>)
qed



definition safe_detail :: "string \<Rightarrow> bool" where
  "safe_detail d = (\<exists>code pointer. d = detail_text code pointer \<and> pred_option (\<lambda>c. 0 \<le> c) code \<and> pred_option known_pointer pointer)"

lemma json_code_nonneg: "json_code v = Some c \<Longrightarrow> 0 \<le> c"
proof (cases v)
  case (JNum n)
  assume c: "json_code v = Some c"
  with JNum have "is_safe_integer n" "num_le (num_of_int 0) n" "c = int_of n" by (simp_all split: if_splits)
  then show ?thesis by (auto elim!: is_safe_integerE)
qed simp_all

lemma json_pointer_known: "json_pointer v = Some q \<Longrightarrow> known_pointer q"
  by (auto simp: json_pointer_def split: option.splits if_splits)

lemma safe_detail_entry: "safe_detail (detail_text (json_code v) (json_pointer w))"
proof -
  have "pred_option (\<lambda>c. 0 \<le> c) (json_code v)" using json_code_nonneg by (cases "json_code v") auto
  moreover have "pred_option known_pointer (json_pointer w)" using json_pointer_known by (cases "json_pointer w") auto
  ultimately show ?thesis unfolding safe_detail_def by blast
qed

lemma visitErrors_safe: "list_all safe_detail details \<and> length details \<le> 8 \<Longrightarrow>
    list_all safe_detail (visitErrors n errors details) \<and> length (visitErrors n errors details) \<le> 8"
proof (induction n arbitrary: errors details)
  case (Suc n)
  show ?case
  proof (cases errors)
    case (JArr vs)
    have "list_all safe_detail (foldl f ds us) \<and> length (foldl f ds us) \<le> 8"
      if "list_all safe_detail ds \<and> length ds \<le> 8"
        and "\<And>d v. list_all safe_detail d \<and> length d \<le> 8 \<Longrightarrow> list_all safe_detail (f d v) \<and> length (f d v) \<le> 8"
      for f :: "string list \<Rightarrow> json \<Rightarrow> string list" and ds us
      using that(1) by (induction us arbitrary: ds) (use that(2) in auto)
    note fold = this
    show ?thesis
      unfolding JArr visitErrors.simps json.case
    proof (rule fold [OF Suc.prems], goal_cases)
      case (1 d v)
      then show ?case
        using safe_detail_entry [of "json_get v ''code''" v] by (auto simp: Let_def add_detail_def intro!: Suc.IH)
    qed
  qed (use Suc.prems in simp_all)
qed simp

text \<open>A rejected write leaks nothing: the message kept of a Cloudflare validation error is a fixed text
  with the HTTP status and at most eight details, each made of a non-negative numeric code and the name
  of a known request field; no text of the response, which may echo contents or credentials, is in it.\<close>

theorem cloudflare_detail_safe:
  assumes "ae_status e = Some 400 \<or> ae_status e = Some 422"
  shows "\<exists>details. list_all safe_detail details \<and> length details \<le> 8 \<and>
    mapCloudflareError (ThrownApi e) = newProviderError
      (take 512 (''Cloudflare rejected the DNS record (HTTP '' @ int_text (the (ae_status e))
        @ (if details \<noteq> [] then ''; '' @ join_with ''; '' details else []) @ '')'')) ValidationFailed Cloudflare None None"
proof -
  have "list_all safe_detail (visitErrors 5 (ae_errors e) []) \<and> length (visitErrors 5 (ae_errors e) []) \<le> 8"
    by (rule visitErrors_safe) simp
  with assms show ?thesis
    by (auto simp: mapCloudflareError_def cloudflareValidationDetail_def Let_def intro!: exI [of _ "visitErrors 5 (ae_errors e) []"])
qed

theorem cloudflare_detail_safe_witness:
  "\<exists>details. list_all safe_detail details \<and> pe_message (mapCloudflareError (ThrownApi \<lparr>ae_status = Some 400, ae_code = [],
     ae_retryAfter = None, ae_errors = JArr [JObj [(''message'', JStr ''secret''), (''code'', JNum (Num 1004))]]\<rparr>))
   = take 512 (''Cloudflare rejected the DNS record (HTTP '' @ int_text 400
        @ (if details \<noteq> [] then ''; '' @ join_with ''; '' details else []) @ '')'')"
  using cloudflare_detail_safe [of "\<lparr>ae_status = Some 400, ae_code = [], ae_retryAfter = None,
     ae_errors = JArr [JObj [(''message'', JStr ''secret''), (''code'', JNum (Num 1004))]]\<rparr>"]
  by (fastforce simp: newProviderError_def)

end
