(* ===== verification/Aliyun_Dns.thy ===== *)
theory Aliyun_Dns
  imports Dns_Providers
begin

text \<open>
  The Aliyun adapter (\<open>packages/providers/src/aliyun.ts\<close>). Aliyun takes a record in several calls, so a
  write is a sequence with compensation. The SDK's client is a parameter: the environment answers a
  command given everything it was sent before, so the state is the list of commands sent, newest last.
\<close>

section \<open>Requests and responses\<close>

record AliyunRecordShape =
  as_recordId :: "string option"
  as_domainName :: "string option"
  as_RR :: "string option"
  as_type :: "string option"
  as_value :: "string option"
  as_TTL :: "int option"
  as_priority :: "int option"
  as_line :: "string option"
  as_weight :: "int option"
  as_status :: "string option"
  as_locked :: "bool option"
  as_remark :: "string option"

record AliyunInput =
  ai_domainName :: string
  ai_RR :: string
  ai_type :: string
  ai_value :: string
  ai_TTL :: int
  ai_priority :: "int option"
  ai_line :: "string option"

datatype AliCommand =
    DescribeDomainRecords string int int
  | DescribeDomainRecordInfo string
  | AddDomainRecord AliyunInput
  | UpdateDomainRecord string AliyunInput
  | UpdateDNSSLBWeight string json
  | SetDomainRecordStatus string string
  | DeleteDomainRecord string

record AliResponse =
  ar_recordId :: "string option"
  ar_record :: "AliyunRecordShape option"
  ar_records :: "AliyunRecordShape list"
  ar_totalCount :: "int option"

type_synonym ali_client = "AliCommand list \<Rightarrow> AliCommand \<Rightarrow> Thrown + AliResponse"

type_synonym 'a ali = "(AliCommand list, Thrown, 'a) effect"

definition call :: "ali_client \<Rightarrow> AliCommand \<Rightarrow> AliResponse ali" where
  "call client cmd = (\<lambda>sent. (sent @ [cmd], client sent cmd))"

definition aliyun_error :: "string \<Rightarrow> ProviderErrorCode \<Rightarrow> ProviderError" where
  "aliyun_error message code = newProviderError message code Aliyun None None"

definition truthy_str :: "string option \<Rightarrow> bool" where
  "truthy_str s = (s \<noteq> None \<and> s \<noteq> Some [])"

section \<open>Names\<close>

definition fqdnFromRr :: "string \<Rightarrow> string \<Rightarrow> string" where
  "fqdnFromRr rr zone =
    (if rr = ''@'' then zone
     else if ends_with (to_lower rr) (''.'' @ to_lower zone) then rr else rr @ ''.'' @ zone)"

definition rrFromFqdn :: "string \<Rightarrow> string \<Rightarrow> ProviderError + string" where
  "rrFromFqdn name zone = (let normalizedName = to_lower (drop_trailing_dot name); normalizedZone = to_lower (drop_trailing_dot zone) in
     if normalizedName = ''@'' \<or> normalizedName = normalizedZone then Inr ''@''
     else if \<not> ends_with normalizedName (''.'' @ normalizedZone) then
       (if \<not> str_includes normalizedName ''.'' then Inr normalizedName
        else Inl (aliyun_error ''Record name does not belong to the Aliyun zone'' ValidationFailed))
     else Inr (take (length normalizedName - (length normalizedZone + 1)) normalizedName))"

section \<open>Metadata\<close>

definition normalizeAliyunStatus :: "json \<Rightarrow> ProviderError + string option" where
  "normalizeAliyunStatus value = (case value of
     JStr s \<Rightarrow> (let normalized = to_lower s in
       if normalized = ''enable'' \<or> normalized = ''enabled'' then Inr (Some ''Enable'')
       else if normalized = ''disable'' \<or> normalized = ''disabled'' then Inr (Some ''Disable'')
       else Inl (aliyun_error ''Aliyun DNS status must be Enable or Disable'' ValidationFailed))
   | _ \<Rightarrow> Inr None)"

record AliyunWriteMetadata =
  wm_weight :: "json option"
  wm_status :: "string option"

fun valid_weight :: "json \<Rightarrow> bool" where
  "valid_weight (JNum n) = (is_integer n \<and> num_le (num_of_int 1) n \<and> num_le n (num_of_int 100))"
| "valid_weight _ = False"

definition validateAliyunMetadata :: "(string \<times> json) list \<Rightarrow> ProviderError + AliyunWriteMetadata" where
  "validateAliyunMetadata metadata = (let m = JObj metadata; line = json_get m ''line''; weight = json_get m ''weight''; status = json_get m ''status'' in
     bindE (guardE (line = JUndefined \<or> json_str line \<noteq> None) (aliyun_error ''Aliyun DNS line must be a string'' ValidationFailed)) (\<lambda>_.
     bindE (guardE (weight = JUndefined \<or> valid_weight weight)
       (aliyun_error ''Aliyun DNS weight must be an integer from 1 to 100'' ValidationFailed)) (\<lambda>_.
     bindE (if status = JUndefined then Inr None
            else if json_str status = None then Inl (aliyun_error ''Aliyun DNS status must be Enable or Disable'' ValidationFailed)
            else normalizeAliyunStatus status) (\<lambda>st.
     Inr \<lparr>wm_weight = (if weight = JUndefined then None else Some weight), wm_status = st\<rparr>))))"

definition normalizeAliyunRecord :: "AliyunRecordShape \<Rightarrow> string \<Rightarrow> ProviderError + ProviderRecord" where
  "normalizeAliyunRecord record zoneExternalId =
    (if \<not> truthy_str (as_recordId record) \<or> \<not> truthy_str (as_type record) \<or> as_value record = None
     then Inl (aliyun_error ''Aliyun returned an incomplete DNS record'' UnknownProviderError)
     else bindE (case as_status record of None \<Rightarrow> Inr [] | Some s \<Rightarrow>
         bindE (normalizeAliyunStatus (JStr s)) (\<lambda>st. Inr (opt_entry ''status'' (map_option JStr st)))) (\<lambda>status.
       Inr \<lparr>pr_externalId = the (as_recordId record), pr_zoneExternalId = zoneExternalId, pr_type = the (as_type record),
         pr_name = fqdnFromRr (case as_RR record of Some rr \<Rightarrow> rr | None \<Rightarrow> ''@'') zoneExternalId,
         pr_content = the (as_value record), pr_ttl = (case as_TTL record of Some t \<Rightarrow> t | None \<Rightarrow> 600),
         pr_priority = as_priority record,
         pr_providerMetadata = opt_entry ''line'' (map_option JStr (as_line record))
           @ opt_entry ''weight'' (map_option (\<lambda>w. JNum (num_of_int w)) (as_weight record)) @ status
           @ opt_entry ''locked'' (map_option JBool (as_locked record))
           @ opt_entry ''remark'' (map_option JStr (as_remark record))\<rparr>))"

text \<open>The write of a desired record, and of a remote one on the way back.\<close>

definition toAliyunInput ::
  "string \<Rightarrow> string \<Rightarrow> string \<Rightarrow> string \<Rightarrow> int \<Rightarrow> int option \<Rightarrow> (string \<times> json) list \<Rightarrow> ProviderError + AliyunInput" where
  "toAliyunInput zoneExternalId type name content ttl priority metadata =
    bindE (rrFromFqdn name zoneExternalId) (\<lambda>rr.
      Inr \<lparr>ai_domainName = zoneExternalId, ai_RR = rr, ai_type = type, ai_value = content, ai_TTL = ttl,
        ai_priority = priority, ai_line = json_str (json_get (JObj metadata) ''line'')\<rparr>)"

definition desired_input :: "string \<Rightarrow> DnsRecordInput \<Rightarrow> ProviderError + AliyunInput" where
  "desired_input zone input = toAliyunInput zone (type_text (di_type input)) (di_name input) (di_content input) (di_ttl input)
     (di_priority input) (di_providerMetadata input)"

definition remote_input :: "string \<Rightarrow> ProviderRecord \<Rightarrow> ProviderError + AliyunInput" where
  "remote_input zone r = toAliyunInput zone (pr_type r) (pr_name r) (pr_content r) (pr_ttl r) (pr_priority r) (pr_providerMetadata r)"

definition recordFromInput :: "string \<Rightarrow> string \<Rightarrow> DnsRecordInput \<Rightarrow> ProviderError + ProviderRecord" where
  "recordFromInput recordId zoneExternalId input = (let status = json_get (JObj (di_providerMetadata input)) ''status'' in
     bindE (if status = JUndefined then Inr (di_providerMetadata input)
            else bindE (normalizeAliyunStatus status) (\<lambda>st. Inr (put_entry ''status''
              (case st of Some s \<Rightarrow> JStr s | None \<Rightarrow> JUndefined) (di_providerMetadata input)))) (\<lambda>metadata.
     Inr \<lparr>pr_externalId = recordId, pr_zoneExternalId = zoneExternalId, pr_type = type_text (di_type input),
       pr_name = di_name input, pr_content = di_content input, pr_ttl = di_ttl input, pr_priority = di_priority input,
       pr_providerMetadata = metadata\<rparr>))"

section \<open>Errors\<close>

definition mapAliyunError :: "Thrown \<Rightarrow> ProviderError" where
  "mapAliyunError error = (case error of
     ThrownProvider e \<Rightarrow> e
   | ThrownOther \<Rightarrow> aliyun_error ''Unexpected Aliyun DNS API error'' UnknownProviderError
   | ThrownApi e \<Rightarrow> (let status = ae_status e; normalized = to_lower (ae_code e); has = str_includes normalized in
       if status = Some 401 \<or> has ''invalidaccesskey'' \<or> has ''signature''
         then aliyun_error ''Aliyun authentication failed'' AuthenticationFailed
       else if status = Some 403 \<or> has ''forbidden'' \<or> has ''unauthorized''
         then aliyun_error ''Aliyun permission denied'' ProviderPermissionDenied
       else if status = Some 404 \<or> has ''notfound'' \<or> has ''notbelongtouser''
         then aliyun_error ''Aliyun DNS resource not found'' NotFound
       else if has ''duplicate'' \<or> has ''recordexists'' then aliyun_error ''Aliyun DNS record already exists'' Conflict
       else if status = Some 429 \<or> has ''throttl'' \<or> has ''limitexceeded''
         then aliyun_error ''Aliyun DNS API rate limit exceeded'' ProviderRateLimited
       else if (case status of None \<Rightarrow> False | Some s \<Rightarrow> 500 \<le> s)
         then aliyun_error ''Aliyun DNS API is temporarily unavailable'' TransientFailure
       else if status = Some 400 \<or> starts_with normalized ''invalid''
         then aliyun_error ''Aliyun rejected the DNS record'' ValidationFailed
       else aliyun_error ''Unexpected Aliyun DNS API error'' UnknownProviderError))"

definition ali_pure :: "ProviderError + 'a \<Rightarrow> 'a ali" where
  "ali_pure r = pureS (case r of Inl e \<Rightarrow> Inl (ThrownProvider e) | Inr a \<Rightarrow> Inr a)"

definition ali_wrap :: "'a ali \<Rightarrow> (AliCommand list, ProviderError, 'a) effect" where
  "ali_wrap m = catchS m (\<lambda>e. failS (mapAliyunError e))"

section \<open>Operations\<close>

text \<open>\<open>getRecord\<close>: what it throws is a mapped error already, which the callers' \<open>wrap\<close> passes on.\<close>

definition getRecord :: "ali_client \<Rightarrow> string \<Rightarrow> string \<Rightarrow> ProviderRecord option ali" where
  "getRecord client zoneExternalId recordExternalId =
    catchS (thenS (call client (DescribeDomainRecordInfo recordExternalId)) (\<lambda>response.
        case ar_record response of
          None \<Rightarrow> retS None
        | Some record \<Rightarrow>
            if \<not> truthy_str (as_recordId record) then retS None
            else thenS (ali_pure (normalizeAliyunRecord record
                (case as_domainName record of Some d \<Rightarrow> d | None \<Rightarrow> zoneExternalId))) (\<lambda>r. retS (Some r))))
      (\<lambda>error. if pe_code (mapAliyunError error) = NotFound then retS None else failS (ThrownProvider (mapAliyunError error)))"

definition listRecords :: "ali_client \<Rightarrow> string \<Rightarrow> string option \<Rightarrow> ProviderRecord Page ali" where
  "listRecords client zoneExternalId cursor =
    thenS (ali_pure (parseCursor Aliyun cursor)) (\<lambda>pageNumber.
    thenS (call client (DescribeDomainRecords zoneExternalId pageNumber 100)) (\<lambda>response.
    thenS (ali_pure (mapE (\<lambda>record. normalizeAliyunRecord record zoneExternalId)
        (filter (\<lambda>r. truthy_str (as_recordId r) \<and> truthy_str (as_type r) \<and> truthy_str (as_value r)) (ar_records response)))) (\<lambda>items.
      let total = (case ar_totalCount response of Some t \<Rightarrow> t | None \<Rightarrow> int (length items)) in
      retS \<lparr>pg_items = items, pg_nextCursor = (if pageNumber * 100 < total then Some (int_text (pageNumber + 1)) else None)\<rparr>)))"

datatype MetadataKey = WeightKey | StatusKey

definition metadata_of :: "ProviderRecord option \<Rightarrow> string \<Rightarrow> json" where
  "metadata_of before k = (case before of None \<Rightarrow> JUndefined | Some r \<Rightarrow> json_get (JObj (pr_providerMetadata r)) k)"

text \<open>\<open>===\<close> of a weight with what was read.\<close>

definition same_weight :: "json \<Rightarrow> json \<Rightarrow> bool" where
  "same_weight a b = json_same a b"

text \<open>The set of applied keys is filled while the calls succeed, so it is there for the rollback when a
  later one throws: the result is the set and the error, if any.\<close>

definition applyMetadata ::
  "ali_client \<Rightarrow> string \<Rightarrow> AliyunWriteMetadata \<Rightarrow> ProviderRecord option
    \<Rightarrow> AliCommand list \<Rightarrow> AliCommand list \<times> MetadataKey list \<times> Thrown option" where
  "applyMetadata client recordId metadata before sent =
    (case normalizeAliyunStatus (metadata_of before ''status'') of
       Inl e \<Rightarrow> (sent, [], Some (ThrownProvider e))
     | Inr previousStatus \<Rightarrow>
        (let (sent1, applied1, error1) =
           (case wm_status metadata of
              Some requested \<Rightarrow>
                if Some requested \<noteq> previousStatus then
                  (case call client (SetDomainRecordStatus recordId requested) sent of
                     (l, Inl e) \<Rightarrow> (l, [], Some e)
                   | (l, Inr _) \<Rightarrow> (l, [StatusKey], None))
                else (sent, [], None)
            | None \<Rightarrow> (sent, [], None))
         in case error1 of
              Some e \<Rightarrow> (sent1, applied1, Some e)
            | None \<Rightarrow>
               (case wm_weight metadata of
                  Some requested \<Rightarrow>
                    if \<not> same_weight requested (metadata_of before ''weight'') then
                      (case call client (UpdateDNSSLBWeight recordId requested) sent1 of
                         (l, Inl e) \<Rightarrow> (l, applied1, Some e)
                       | (l, Inr _) \<Rightarrow> (l, applied1 @ [WeightKey], None))
                    else (sent1, applied1, None)
                | None \<Rightarrow> (sent1, applied1, None))))"

definition restoreAppliedMetadata :: "ali_client \<Rightarrow> string \<Rightarrow> ProviderRecord \<Rightarrow> MetadataKey list \<Rightarrow> unit ali" where
  "restoreAppliedMetadata client recordId before applied =
    thenS (ali_pure (validateAliyunMetadata (pr_providerMetadata before))) (\<lambda>previous.
    thenS (if WeightKey \<in> set applied then
        (case wm_weight previous of None \<Rightarrow> failS ThrownOther
         | Some w \<Rightarrow> thenS (call client (UpdateDNSSLBWeight recordId w)) (\<lambda>_. retS ())) else retS ()) (\<lambda>_.
    if StatusKey \<in> set applied then
        (case wm_status previous of None \<Rightarrow> failS ThrownOther
         | Some st \<Rightarrow> thenS (call client (SetDomainRecordStatus recordId st)) (\<lambda>_. retS ())) else retS ()))"

definition partial_error :: "string \<Rightarrow> ProviderError" where
  "partial_error message = newProviderError message UnknownProviderError Aliyun (Some False) None"

definition readBack :: "ali_client \<Rightarrow> string \<Rightarrow> string \<Rightarrow> DnsRecordInput \<Rightarrow> ProviderRecord ali" where
  "readBack client zoneExternalId recordId input =
    thenS (getRecord client zoneExternalId recordId) (\<lambda>found. case found of
       Some r \<Rightarrow> retS r
     | None \<Rightarrow> ali_pure (recordFromInput recordId zoneExternalId input))"

definition createRecord :: "ali_client \<Rightarrow> string \<Rightarrow> DnsRecordInput \<Rightarrow> (AliCommand list, ProviderError, ProviderRecord) effect" where
  "createRecord client zoneExternalId input = ali_wrap
    (thenS (ali_pure (validateAliyunMetadata (di_providerMetadata input))) (\<lambda>metadata.
     thenS (ali_pure (desired_input zoneExternalId input)) (\<lambda>request.
     thenS (call client (AddDomainRecord request)) (\<lambda>response.
       if \<not> truthy_str (ar_recordId response)
       then ali_pure (Inl (aliyun_error ''Aliyun did not return the created record ID'' UnknownProviderError))
       else let recordId = the (ar_recordId response) in
         thenS (\<lambda>sent. case applyMetadata client recordId metadata None sent of
             (sent', _, None) \<Rightarrow> (sent', Inr ())
           | (sent', _, Some error) \<Rightarrow>
               (case call client (DeleteDomainRecord recordId) sent' of
                  (sent'', Inr _) \<Rightarrow> (sent'', Inl error)
                | (sent'', Inl _) \<Rightarrow> (sent'', Inl (ThrownProvider (partial_error
                    (''Aliyun DNS record '' @ recordId @ '' was partially created and cleanup failed''))))))
         (\<lambda>_. readBack client zoneExternalId recordId input)))))"

definition updateRecord ::
  "ali_client \<Rightarrow> string \<Rightarrow> string \<Rightarrow> DnsRecordInput \<Rightarrow> (AliCommand list, ProviderError, ProviderRecord) effect" where
  "updateRecord client zoneExternalId recordId input = ali_wrap
    (thenS (ali_pure (validateAliyunMetadata (di_providerMetadata input))) (\<lambda>metadata.
     thenS (getRecord client zoneExternalId recordId) (\<lambda>before.
     thenS (ali_pure (desired_input zoneExternalId input)) (\<lambda>request.
     thenS (call client (UpdateDomainRecord recordId request)) (\<lambda>_.
     thenS (\<lambda>sent. case applyMetadata client recordId metadata before sent of
             (sent', _, None) \<Rightarrow> (sent', Inr ())
           | (sent', applied, Some error) \<Rightarrow>
               (case before of
                  None \<Rightarrow> (sent', Inl error)
                | Some old \<Rightarrow>
                    (case thenS (ali_pure (remote_input zoneExternalId old)) (\<lambda>undo.
                          thenS (call client (UpdateDomainRecord recordId undo)) (\<lambda>_.
                          restoreAppliedMetadata client recordId old applied)) sent' of
                       (sent'', Inr _) \<Rightarrow> (sent'', Inl error)
                     | (sent'', Inl _) \<Rightarrow> (sent'', Inl (ThrownProvider (partial_error
                         (''Aliyun DNS record '' @ recordId @ '' was partially updated and rollback failed'')))))))
     (\<lambda>_. readBack client zoneExternalId recordId input))))))"

definition deleteRecord :: "ali_client \<Rightarrow> string \<Rightarrow> (AliCommand list, ProviderError, unit) effect" where
  "deleteRecord client recordId = ali_wrap (thenS (call client (DeleteDomainRecord recordId)) (\<lambda>_. retS ()))"

definition aliyunAdapter :: "ali_client \<Rightarrow> AliCommand list DnsProviderAdapter" where
  "aliyunAdapter client = \<lparr>
     ad_provider = Aliyun,
     ad_listRecords = (\<lambda>sent zone cursor. ali_wrap (listRecords client zone cursor) sent),
     ad_getRecord = (\<lambda>sent zone recordId. ali_wrap (getRecord client zone recordId) sent),
     ad_createRecord = (\<lambda>sent zone input. createRecord client zone input sent),
     ad_updateRecord = (\<lambda>sent zone recordId input. updateRecord client zone recordId input sent),
     ad_deleteRecord = (\<lambda>sent zone recordId. deleteRecord client recordId sent)\<rparr>"

section \<open>Names round-trip\<close>

text \<open>Aliyun's relative names and the application's full names agree: a relative name made absolute in
  its zone is taken back to itself, in lower case, unless it is written with the zone in it already.\<close>

theorem rr_roundtrip:
  assumes "zone \<noteq> []" "last zone \<noteq> CHR ''.''" and "rr \<noteq> []" and "to_lower rr \<noteq> to_lower zone"
    and "\<not> ends_with (to_lower rr) (''.'' @ to_lower zone)"
  shows "rrFromFqdn (fqdnFromRr rr zone) zone = Inr (to_lower rr)"
proof (cases "rr = ''@''")
  case True
  then show ?thesis
    using assms by (auto simp: fqdnFromRr_def rrFromFqdn_def drop_trailing_dot_def Let_def to_lower_def char_lower_def)
next
  case False
  let ?n = "rr @ ''.'' @ zone"
  have n: "fqdnFromRr rr zone = ?n" using False assms(5) by (simp add: fqdnFromRr_def)
  have d: "drop_trailing_dot ?n = ?n" "drop_trailing_dot zone = zone" using assms(1,2) by (auto simp: drop_trailing_dot_def)
  have l: "to_lower ?n = to_lower rr @ ''.'' @ to_lower zone" by (simp add: to_lower_def)
  have "length (to_lower ?n) > length zone + 1" using assms(3) by simp
  then have "length (to_lower ?n) \<noteq> length ''@''" "length (to_lower ?n) \<noteq> length (to_lower zone)"
    using assms(1) by auto
  then have "to_lower ?n \<noteq> ''@''" "to_lower ?n \<noteq> to_lower zone" by metis+
  then have neq: "to_lower rr @ ''.'' @ to_lower zone \<noteq> ''@''" "to_lower rr @ ''.'' @ to_lower zone \<noteq> to_lower zone"
    unfolding l by blast+
  show ?thesis
    unfolding n rrFromFqdn_def d l Let_def using neq by (simp add: ends_with_def suffix_def)
qed

theorem rr_roundtrip_witness: "rrFromFqdn (fqdnFromRr ''WWW'' ''Example.com'') ''Example.com'' = Inr (to_lower ''WWW'')"
proof (rule rr_roundtrip)
  show "to_lower ''WWW'' \<noteq> to_lower ''Example.com''" by code_simp
  show "\<not> ends_with (to_lower ''WWW'') (''.'' @ to_lower ''Example.com'')" by code_simp
qed simp_all

section \<open>Compensation\<close>

text \<open>Reading back sends the one query.\<close>

lemma getRecord_sends: "getRecord client z i sent = (sent', r) \<Longrightarrow> sent' = sent @ [DescribeDomainRecordInfo i]"
  by (auto simp: getRecord_def catchS_def thenS_def call_def ali_pure_def split: prod.splits sum.splits option.splits if_splits)

lemma readBack_sends: "readBack client z i input sent = (sent', r) \<Longrightarrow> sent' = sent @ [DescribeDomainRecordInfo i]"
  by (auto simp: readBack_def thenS_def ali_pure_def split: prod.splits sum.splits option.splits dest: getRecord_sends)

definition added_id :: "ali_client \<Rightarrow> AliCommand list \<Rightarrow> AliyunInput \<Rightarrow> string option" where
  "added_id client sent request = (case client sent (AddDomainRecord request) of
     Inl _ \<Rightarrow> None | Inr response \<Rightarrow> if truthy_str (ar_recordId response) then ar_recordId response else None)"

text \<open>A creation that fails half-way is undone: if \<open>createRecord\<close> throws although Aliyun had created the
  record, then either the last command sent deletes exactly that record, the error of the failed call
  being reported or, when the deletion fails too, an error that is never retried, or everything was
  applied and only the read-back failed, after which a retry finds the record.\<close>

theorem aliyun_create_compensates:
  assumes "createRecord client z input sent = (sent', Inl e)"
    and "desired_input z input = Inr request" and "validateAliyunMetadata (di_providerMetadata input) = Inr metadata"
    and "added_id client sent request = Some recordId"
  shows "(\<exists>middle error. applyMetadata client recordId metadata None (sent @ [AddDomainRecord request]) = (middle, error)
      \<and> snd error \<noteq> None \<and> sent' = middle @ [DeleteDomainRecord recordId]
      \<and> (e = mapAliyunError (the (snd error)) \<or> \<not> pe_retryable e))
    \<or> (\<exists>middle applied. applyMetadata client recordId metadata None (sent @ [AddDomainRecord request]) = (middle, applied, None)
      \<and> sent' = middle @ [DescribeDomainRecordInfo recordId])"
proof -
  obtain response where r: "client sent (AddDomainRecord request) = Inr response" "truthy_str (ar_recordId response)"
      "ar_recordId response = Some recordId"
    using assms(4) by (auto simp: added_id_def split: sum.splits if_splits)
  obtain middle applied err where m: "applyMetadata client recordId metadata None (sent @ [AddDomainRecord request]) = (middle, applied, err)"
    by (metis prod_cases3)
  show ?thesis
  proof (cases err)
    case None
    have "\<exists>x. readBack client z recordId input middle = (sent', Inl x)"
      using assms(1) m None r
      by (auto simp: createRecord_def ali_wrap_def catchS_Inl thenS_def call_def ali_pure_def assms(2,3) Let_def
          split: prod.splits sum.splits)
    with m None show ?thesis by (auto dest: readBack_sends)
  next
    case (Some x)
    then have "sent' = middle @ [DeleteDomainRecord recordId] \<and> (e = mapAliyunError x \<or> \<not> pe_retryable e)"
      using assms(1) m r
      by (auto simp: createRecord_def ali_wrap_def catchS_Inl thenS_def call_def ali_pure_def assms(2,3) Let_def
          mapAliyunError_def partial_error_def newProviderError_def split: prod.splits sum.splits)
    with m Some show ?thesis by auto
  qed
qed

text \<open>A remote that creates the record, refuses its status, and deletes it again.\<close>

definition refusing_client :: ali_client where
  "refusing_client sent cmd = (case cmd of
     SetDomainRecordStatus _ _ \<Rightarrow> Inl ThrownOther
   | _ \<Rightarrow> Inr \<lparr>ar_recordId = Some ''r1'', ar_record = None, ar_records = [], ar_totalCount = None\<rparr>)"

definition aliyun_input :: DnsRecordInput where
  "aliyun_input = \<lparr>di_type = TypeA, di_name = ''www.example.org'', di_content = ''192.0.2.1'', di_ttl = 600,
     di_priority = None, di_providerMetadata = [(''status'', JStr ''Disable'')]\<rparr>"

definition aliyun_request :: AliyunInput where
  "aliyun_request = \<lparr>ai_domainName = ''example.org'', ai_RR = ''www'', ai_type = ''A'', ai_value = ''192.0.2.1'', ai_TTL = 600,
     ai_priority = None, ai_line = None\<rparr>"

theorem aliyun_create_compensates_witness:
  "fst (createRecord refusing_client ''example.org'' aliyun_input [])
    = [AddDomainRecord aliyun_request, SetDomainRecordStatus ''r1'' ''Disable'', DeleteDomainRecord ''r1'']"
proof -
  have req: "desired_input ''example.org'' aliyun_input = Inr aliyun_request" by code_simp
  have meta: "validateAliyunMetadata (di_providerMetadata aliyun_input) = Inr \<lparr>wm_weight = None, wm_status = Some ''Disable''\<rparr>"
    by code_simp
  have apply1: "applyMetadata refusing_client ''r1'' \<lparr>wm_weight = None, wm_status = Some ''Disable''\<rparr> None
      [AddDomainRecord aliyun_request]
    = ([AddDomainRecord aliyun_request, SetDomainRecordStatus ''r1'' ''Disable''], [], Some ThrownOther)"
    by (simp add: applyMetadata_def call_def refusing_client_def normalizeAliyunStatus_def metadata_of_def)
  have added: "added_id refusing_client [] aliyun_request = Some ''r1''"
    by (simp add: added_id_def refusing_client_def truthy_str_def)
  obtain sent e where run: "createRecord refusing_client ''example.org'' aliyun_input [] = (sent, Inl e)"
    by (simp add: createRecord_def ali_wrap_def catchS_def thenS_def ali_pure_def meta req call_def refusing_client_def
        truthy_str_def Let_def apply1 [unfolded refusing_client_def] applyMetadata_def normalizeAliyunStatus_def metadata_of_def)
  from aliyun_create_compensates [OF run req meta added] show ?thesis by (simp add: apply1 run)
qed

end
