(* ===== verification/Cloud_Schema.thy ===== *)
theory Cloud_Schema
  imports Rotation_Machine Dns_Records
begin

text \<open>
  The tables of the address rotation: \<open>packages/db/src/schema/cloud.ts\<close>, \<open>rotation.ts\<close>,
  \<open>cloud-lifecycle.ts\<close>, \<open>cloud-rotation-limits.ts\<close> and the health tables of \<open>probes.ts\<close>, one record per
  table with the columns the modelled services read or write. Times are epoch milliseconds; JSON columns are
  JavaScript values.
\<close>

section \<open>Providers and services (\<open>cloud-catalog.ts\<close>)\<close>

datatype CloudProvider = Aws | Azure | Linode

datatype CloudService = Ec2 | Lightsail | AzureVm | LinodeCompute

datatype CloudRotationTrigger = HealthTrigger | ManualTrigger | ScheduledTrigger

definition cloudServiceDefinition :: "CloudService \<Rightarrow> CloudProvider \<times> CloudRotationTrigger list" where
  "cloudServiceDefinition service = (case service of
     Ec2 \<Rightarrow> (Aws, [HealthTrigger, ManualTrigger, ScheduledTrigger])
   | Lightsail \<Rightarrow> (Aws, [HealthTrigger, ManualTrigger, ScheduledTrigger])
   | AzureVm \<Rightarrow> (Azure, [HealthTrigger, ScheduledTrigger])
   | LinodeCompute \<Rightarrow> (Linode, [HealthTrigger, ManualTrigger, ScheduledTrigger]))"

definition supportsRotationTrigger :: "CloudProvider \<Rightarrow> CloudService \<Rightarrow> CloudRotationTrigger \<Rightarrow> bool" where
  "supportsRotationTrigger provider service trigger =
    (fst (cloudServiceDefinition service) = provider \<and> trigger \<in> set (snd (cloudServiceDefinition service)))"

section \<open>Inventory (\<open>cloud.ts\<close>)\<close>

record CloudAccountRow =
  ca_id :: string
  ca_ownerUserId :: string
  ca_provider :: CloudProvider
  ca_name :: string
  ca_regions :: "string list option"
  ca_externalAccountId :: "string option"
  ca_credentialCiphertext :: string
  ca_enabled :: bool

record CloudScanScopeRow =
  cs_accountId :: string
  cs_service :: CloudService
  cs_region :: string
  cs_generation :: int

record CloudInstanceRow =
  cin_id :: string
  cin_accountId :: string
  cin_service :: CloudService
  cin_region :: string
  cin_externalId :: string
  cin_name :: "string option"
  cin_metadata :: "(string \<times> json) list"
  cin_scanGeneration :: int

record CloudInterfaceRow =
  cif_id :: string
  cif_instanceId :: string
  cif_externalId :: string
  cif_metadata :: "(string \<times> json) list"
  cif_scanGeneration :: int

datatype CloudAddressOrigin = UserOrigin | SystemOrigin

record CloudAddressRow =
  cd_id :: string
  cd_interfaceId :: string
  cd_family :: Family
  cd_address :: string
  cd_remoteAllocationId :: "string option"
  cd_metadata :: "(string \<times> json) list"
  cd_origin :: CloudAddressOrigin
  cd_attemptId :: "string option"
  cd_inventoryPresent :: bool
  cd_scanGeneration :: int

record ManagedAddressSlotRow =
  ms_id :: string
  ms_interfaceId :: string
  ms_family :: Family
  ms_name :: string
  ms_currentAddressId :: "string option"
  ms_currentVersion :: int
  ms_resetRecoveryRetries :: int
  ms_candidateAddressId :: "string option"
  ms_candidateVersion :: int

definition slot_row_ok :: "ManagedAddressSlotRow \<Rightarrow> bool" where
  "slot_row_ok s = (0 \<le> ms_currentVersion s \<and> 0 \<le> ms_candidateVersion s
     \<and> 0 \<le> ms_resetRecoveryRetries s \<and> ms_resetRecoveryRetries s \<le> 20)"

record InstanceAuthorizationRow =
  ia_instanceId :: string
  ia_revision :: int
  ia_managed :: bool
  ia_allowIpv4Rotation :: bool
  ia_allowIpv6Rotation :: bool
  ia_allowStopStart :: bool
  ia_allowDelete :: bool
  ia_allowReleaseAddress :: bool

record CloudEndpointLinkRow =
  cl_endpointId :: string
  cl_family :: Family
  cl_slotId :: string

section \<open>Lifecycle (\<open>cloud-lifecycle.ts\<close>)\<close>

datatype CloudLifecycleAction = StartAction | StopAction | DeleteAction

datatype CloudLifecycleStatus = LcQueued | LcInFlight | LcSucceeded | LcFailed | LcUnknown | LcCancelled

datatype PowerHold = ManualStopHold | TrafficLimitHold | DeletedHold

record CloudInstanceControlRow =
  ic_physicalKey :: string
  ic_powerHold :: "PowerHold option"

record CloudLifecycleOperationRow =
  lo_id :: string
  lo_physicalKey :: string
  lo_action :: CloudLifecycleAction
  lo_status :: CloudLifecycleStatus
  lo_protectedAddresses :: "string list"

section \<open>Health evidence (\<open>probes.ts\<close>)\<close>

record ProbeGroupRow =
  pg_id :: string
  pg_ownerUserId :: string
  pg_revision :: int

datatype HealthMode = LocalMode | ExternalMode | MixedMode

record AddressHealthPolicyRow =
  hp_id :: string
  hp_slotId :: "string option"
  hp_endpointId :: "string option"
  hp_family :: Family
  hp_configId :: string
  hp_mode :: HealthMode
  hp_groupId :: "string option"
  hp_revision :: int
  hp_successThreshold :: int
  hp_failureThreshold :: int
  hp_checkIntervalSeconds :: int
  hp_executionWindowSeconds :: int
  hp_resultExpirySeconds :: int

record AddressHealthStateRow =
  hs_slotId :: "string option"
  hs_endpointId :: "string option"
  hs_family :: Family
  hs_addressId :: "string option"
  hs_addressVersion :: int
  hs_configId :: "string option"
  hs_configVersion :: int
  hs_policyId :: "string option"
  hs_policyRevision :: int
  hs_groupRevision :: "int option"
  hs_healthState :: HealthState
  hs_consecutiveSuccesses :: int
  hs_consecutiveFailures :: int
  hs_latestDecision :: RoundDecision
  hs_evidenceExpiresAt :: "int option"
  hs_lastCheckedAt :: "int option"
  hs_nextRoundAt :: "int option"
  hs_lastRoundId :: "string option"
  hs_lastAppliedSequence :: int

record ProbeRoundSequenceRow =
  rq_slotId :: "string option"
  rq_endpointId :: "string option"
  rq_family :: Family
  rq_lastSequence :: int

section \<open>Rotations (\<open>rotation.ts\<close>)\<close>

datatype LinodeIpv4Strategy = AdditionalIpv4 | InstanceSwap

datatype LinodeRestartMode = Reboot | StopStart

record RotationPolicyRow =
  rp_slotId :: string
  rp_enabled :: bool
  rp_revision :: int
  rp_maxAttempts :: int
  rp_maxRecoveryRetries :: int
  rp_minIntervalSeconds :: int
  rp_cloudWaitSeconds :: int
  rp_candidateWindowSeconds :: int
  rp_linodeRestartMode :: LinodeRestartMode
  rp_linodeIpv4Strategy :: LinodeIpv4Strategy
  rp_linodeSwapPlan :: string
  rp_linodeAllowTemporaryInstance :: bool

definition policy_row_ok :: "RotationPolicyRow \<Rightarrow> bool" where
  "policy_row_ok p = (0 < rp_revision p \<and> 1 \<le> rp_maxAttempts p \<and> rp_maxAttempts p \<le> 20
     \<and> 0 \<le> rp_maxRecoveryRetries p \<and> rp_maxRecoveryRetries p \<le> 20
     \<and> 60 \<le> rp_minIntervalSeconds p \<and> rp_minIntervalSeconds p \<le> 86400 \<and> 10 \<le> rp_cloudWaitSeconds p \<and> rp_cloudWaitSeconds p \<le> 3600
     \<and> 15 \<le> rp_candidateWindowSeconds p \<and> rp_candidateWindowSeconds p \<le> 86400)"

datatype IncidentStatus = IncActive | IncPaused | IncExhausted | IncComplete

record RotationIncidentRow =
  ri_incidentId :: string
  ri_ownerUserId :: string
  ri_slotId :: string
  ri_family :: Family
  ri_physicalKey :: string
  ri_sourceEventId :: string
  ri_rotationTrigger :: CloudRotationTrigger
  ri_releaseOldAddress :: bool
  ri_status :: IncidentStatus
  ri_phase :: RotationPhase
  ri_currentSegmentId :: string
  ri_currentAttemptId :: "string option"
  ri_pendingSegmentId :: "string option"
  ri_authorizationRevision :: int
  ri_rotationPolicyRevision :: int
  ri_addressVersion :: int
  ri_healthPolicyId :: "string option"
  ri_healthPolicyRevision :: "int option"
  ri_configId :: "string option"
  ri_configRevision :: "int option"
  ri_groupId :: "string option"
  ri_groupRevision :: "int option"
  ri_nextAttemptAt :: int
  ri_nextRunAt :: int
  ri_candidateDeadline :: "int option"
  ri_errorCode :: "string option"
  ri_recoveryRetries :: int
  ri_recoveryRetryAt :: "int option"
  ri_lastRecoveryError :: "string option"
  ri_pausedByUserId :: "string option"
  ri_createdAt :: int
  ri_updatedAt :: int
  ri_finishedAt :: "int option"
  ri_terminatedAt :: "int option"

text \<open>The table's check: a health or scheduled incident carries the epoch of its health evidence, a manual one none.\<close>

definition has_epoch :: "RotationIncidentRow \<Rightarrow> bool" where
  "has_epoch i = (ri_healthPolicyId i \<noteq> None \<and> ri_healthPolicyRevision i \<noteq> None \<and> ri_configId i \<noteq> None
     \<and> ri_configRevision i \<noteq> None \<and> ri_groupId i \<noteq> None \<and> ri_groupRevision i \<noteq> None)"

definition no_epoch :: "RotationIncidentRow \<Rightarrow> bool" where
  "no_epoch i = (ri_healthPolicyId i = None \<and> ri_healthPolicyRevision i = None \<and> ri_configId i = None
     \<and> ri_configRevision i = None \<and> ri_groupId i = None \<and> ri_groupRevision i = None)"

definition incident_row_ok :: "RotationIncidentRow \<Rightarrow> bool" where
  "incident_row_ok i = ((if ri_rotationTrigger i = ManualTrigger then no_epoch i else has_epoch i)
     \<and> 0 \<le> ri_recoveryRetries i \<and> ri_recoveryRetries i \<le> 20)"

record RotationScheduleRow =
  rs_slotId :: string
  rs_enabled :: bool
  rs_intervalMinutes :: int
  rs_revision :: int
  rs_nextRunAt :: "int option"
  rs_activeIncidentId :: "string option"
  rs_lastStartedAt :: "int option"
  rs_lastCompletedAt :: "int option"
  rs_lastHandledIncidentId :: "string option"
  rs_lastHandledIncidentUpdatedAt :: "int option"
  rs_pausedReason :: "string option"

record RotationBudgetSegmentRow =
  bs_id :: string
  bs_incidentId :: string
  bs_maxAttempts :: int
  bs_attemptsUsed :: int
  bs_exhausted :: bool
  bs_actorUserId :: "string option"

datatype AttemptStatus = AttPrepared | AttCloud | AttCandidate | AttCandidateFailed | AttVerified | AttAbandoned

record RotationAttemptRow =
  ra_id :: string
  ra_incidentId :: string
  ra_segmentId :: string
  ra_charged :: bool
  ra_status :: AttemptStatus
  ra_sequence :: int
  ra_beforeInventory :: json
  ra_candidateAddressId :: "string option"
  ra_candidateVersion :: "int option"
  ra_candidateRepeated :: bool
  ra_chargedAt :: "int option"

datatype StoredStepStatus = SsPrepared | SsInFlight | SsPending | SsApplied | SsNotApplied | SsAmbiguous | SsRejected | SsAbandoned

text \<open>The plan of a step (\<open>CloudStep\<close> of \<open>contracts/rotation.ts\<close>).\<close>

record CloudStep =
  pl_id :: string
  pl_action :: string
  pl_resourceKey :: string
  pl_arguments :: "(string \<times> json) list"
  pl_destructive :: bool

record RotationStepRow =
  st_id :: string
  st_attemptId :: string
  st_sequence :: int
  st_plan :: CloudStep
  st_status :: StoredStepStatus
  st_fence :: "int option"
  st_dispatchedAt :: "int option"
  st_observeDeadline :: "int option"
  st_receipt :: "(string \<times> json) list option"
  st_errorCode :: "string option"
  st_retryAt :: "int option"

record RotationStepObservationRow =
  so_stepId :: string
  so_observation :: bool
  so_result :: "(string \<times> json) list"

record RotationLeaseRow =
  le_physicalKey :: string
  le_revision :: int
  le_holder :: "string option"
  le_expiresAt :: int
  le_incidentId :: "string option"
  le_unresolvedStepId :: "string option"

datatype CleanupStatus = CuRetained | CuPending | CuReleased | CuFailed

datatype ResourceRole = OriginalRole | CandidateRole

record RotationResourceRow =
  re_id :: string
  re_incidentId :: string
  re_attemptId :: string
  re_addressId :: "string option"
  re_address :: string
  re_allocationId :: "string option"
  re_resourceId :: "string option"
  re_origin :: CloudAddressOrigin
  re_ownershipAttemptId :: "string option"
  re_role :: ResourceRole
  re_snapshot :: json
  re_attached :: bool
  re_referenced :: bool
  re_cleanupStepId :: "string option"
  re_cleanupStatus :: CleanupStatus
  re_cleanupError :: "string option"
  re_cleanupDueAt :: "int option"
  re_cleanupAddressVersion :: "int option"

datatype PublicationStatus = PbPending | PbInFlight | PbApplied | PbFailed

record PublicationChild =
  pc_poolId :: string
  pc_eventId :: string
  pc_policyRevision :: int
  pc_decisionRevision :: int
  pc_operationId :: "string option"

record RotationPublicationRow =
  pb_id :: string
  pb_slotId :: string
  pb_addressVersion :: int
  pb_addressId :: string
  pb_incidentId :: "string option"
  pb_status :: PublicationStatus
  pb_operationId :: "string option"
  pb_children :: "PublicationChild list"
  pb_context :: "json option"
  pb_promotedAt :: "int option"
  pb_errorCode :: "string option"
  pb_previousMaxTtl :: int
  pb_appliedAt :: "int option"

text \<open>The limits of rotation writes (\<open>cloud-rotation-limits.ts\<close>). An identity key is the JSON text of its three parts, a bucket key the
  JSON text of identity, rule and region; the texts are injective, so the parts stand for them.\<close>

type_synonym CloudIdentityKey = "CloudProvider \<times> string option \<times> CloudService"

record CloudRotationLimitSwitchRow =
  lw_identityKey :: CloudIdentityKey
  lw_enabled :: bool

record CloudRotationLimitPolicyRow =
  lp_accountId :: string
  lp_service :: CloudService
  lp_utilizationPercent :: int

record CloudRotationBucketRow =
  bk_identityKey :: CloudIdentityKey
  bk_ruleId :: string
  bk_region :: "string option"
  bk_debt :: rat
  bk_events :: "int list"
  bk_updatedAt :: int
  bk_cooldownUntil :: "int option"
  bk_throttleCount :: int

record CloudRotationReservationRow =
  rr_stepId :: string
  rr_identityKey :: CloudIdentityKey
  rr_consumedAt :: "int option"

datatype IdleIpStatus = IdlePending | IdleInFlight | IdleOther

record IdleIpCleanupRow =
  ii_id :: string
  ii_externalAccountId :: string
  ii_items :: "(string \<times> string \<times> IdleIpStatus) list"

section \<open>The cloud tables\<close>

record CloudTables =
  ct_accounts :: "CloudAccountRow list"
  ct_scanScopes :: "CloudScanScopeRow list"
  ct_instances :: "CloudInstanceRow list"
  ct_interfaces :: "CloudInterfaceRow list"
  ct_addresses :: "CloudAddressRow list"
  ct_slots :: "ManagedAddressSlotRow list"
  ct_authorizations :: "InstanceAuthorizationRow list"
  ct_links :: "CloudEndpointLinkRow list"
  ct_controls :: "CloudInstanceControlRow list"
  ct_lifecycleOperations :: "CloudLifecycleOperationRow list"
  ct_probeGroups :: "ProbeGroupRow list"
  ct_healthPolicies :: "AddressHealthPolicyRow list"
  ct_healthStates :: "AddressHealthStateRow list"
  ct_policies :: "RotationPolicyRow list"
  ct_incidents :: "RotationIncidentRow list"
  ct_schedules :: "RotationScheduleRow list"
  ct_segments :: "RotationBudgetSegmentRow list"
  ct_attempts :: "RotationAttemptRow list"
  ct_steps :: "RotationStepRow list"
  ct_observations :: "RotationStepObservationRow list"
  ct_leases :: "RotationLeaseRow list"
  ct_resources :: "RotationResourceRow list"
  ct_publications :: "RotationPublicationRow list"
  ct_reservations :: "CloudRotationReservationRow list"
  ct_idleIpCleanups :: "IdleIpCleanupRow list"
  ct_limitSwitches :: "CloudRotationLimitSwitchRow list"
  ct_limitPolicies :: "CloudRotationLimitPolicyRow list"
  ct_buckets :: "CloudRotationBucketRow list"
  ct_roundSequences :: "ProbeRoundSequenceRow list"

definition no_cloud :: CloudTables where
  "no_cloud = \<lparr>ct_accounts = [], ct_scanScopes = [], ct_instances = [], ct_interfaces = [], ct_addresses = [], ct_slots = [],
     ct_authorizations = [], ct_links = [], ct_controls = [], ct_lifecycleOperations = [], ct_probeGroups = [],
     ct_healthPolicies = [], ct_healthStates = [], ct_policies = [], ct_incidents = [], ct_schedules = [], ct_segments = [],
     ct_attempts = [], ct_steps = [], ct_observations = [], ct_leases = [], ct_resources = [], ct_publications = [], ct_reservations = [],
     ct_idleIpCleanups = [], ct_limitSwitches = [], ct_limitPolicies = [], ct_buckets = [], ct_roundSequences = []\<rparr>"

end
