(* ===== verification/Db_Schema.thy ===== *)
theory Db_Schema
  imports Dns_Providers Cloud_Schema
begin

text \<open>
  The tables of \<open>packages/db/src/schema/index.ts\<close> that the modelled services read and write, one record
  per table with the table's columns; an enumeration of the database is a datatype. Times are epoch
  milliseconds; \<open>createdAt\<close> and \<open>updatedAt\<close>, which no decision reads, are left out. A table is the
  list of its rows, newest last.
\<close>

section \<open>Enumerations\<close>

datatype ResourceStatus = StatusActive | StatusDisabled | StatusError

datatype RecordManagement = Unmanaged | Managed

datatype BindingState = BindingHealthy | BindingSwitching | BindingFailed | BindingDrifted

datatype OperationSource = UserSource | FailoverSource | RecoverySource | DdnsSource | DriftSource | SyncSource | RollbackSource

datatype OperationStatus = OpPending | OpRunning | OpSucceeded | OpPartial | OpFailed | OpSuperseded

datatype OperationStepStatus = StPending | StRunning | StSucceeded | StFailed | StSkipped

datatype OperationAction = ActCreate | ActUpdate | ActDelete

datatype AddressMode = StaticMode | DdnsMode | CloudMode

datatype AddressState = CandidateAddress | CurrentAddress | PreviousAddress

datatype AssignmentMode = SingleAssignment | SetAssignment

section \<open>Rows\<close>

record ProviderAccountRow =
  pa_id :: string
  pa_ownerUserId :: string
  pa_provider :: ProviderType
  pa_name :: string
  pa_credentialCiphertext :: string
  pa_credentialIv :: string
  pa_credentialTag :: string
  pa_credentialKeyVersion :: int
  pa_credentialHint :: "string option"
  pa_capabilities :: json
  pa_status :: ResourceStatus
  pa_errorCode :: "ProviderErrorCode option"
  pa_lastVerifiedAt :: "int option"
  pa_lastSyncedAt :: "int option"

record ZoneRow =
  zo_id :: string
  zo_providerAccountId :: string
  zo_externalId :: string
  zo_nameAscii :: string
  zo_nameUnicode :: "string option"
  zo_status :: ResourceStatus
  zo_providerMetadata :: json
  zo_remoteHash :: "string option"
  zo_lastSyncedAt :: "int option"

record EndpointPoolRow =
  ep_id :: string
  ep_ownerUserId :: string
  ep_name :: string
  ep_description :: "string option"
  ep_strategy :: PoolStrategy
  ep_selectionMode :: SelectionMode
  ep_recoveryMode :: RecoveryMode
  ep_recoveryDelaySeconds :: int
  ep_failureThreshold :: int
  ep_successThreshold :: int
  ep_checkIntervalSeconds :: int
  ep_checkTimeoutMs :: int
  ep_switchCooldownSeconds :: int
  ep_allDownReminderSeconds :: int
  ep_state :: HealthState
  ep_policyRevision :: int
  ep_decisionRevision :: int
  ep_roundRobinCursor :: "string option"
  ep_roundRobinCursors :: "string \<rightharpoonup> string"
  ep_enabled :: bool
  ep_enabledAt :: int
  ep_pausedAt :: "int option"
  ep_lastReconciledAt :: "int option"

text \<open>The table's own checks.\<close>

definition pool_row_ok :: "EndpointPoolRow \<Rightarrow> bool" where
  "pool_row_ok p = (0 < ep_failureThreshold p \<and> 0 < ep_successThreshold p \<and> 5 \<le> ep_checkIntervalSeconds p
     \<and> 60 \<le> ep_allDownReminderSeconds p)"

record EndpointRow =
  en_id :: string
  en_poolId :: string
  en_name :: string
  en_addressMode :: AddressMode
  en_priority :: int
  en_lifecycle :: EndpointLifecycle
  en_healthState :: HealthState
  en_consecutiveSuccesses :: int
  en_consecutiveFailures :: int
  en_lastCheckedAt :: "int option"
  en_stateChangedAt :: int

record EndpointAddressRow =
  ea_id :: string
  ea_endpointId :: string
  ea_family :: Family
  ea_address :: string
  ea_state :: AddressState
  ea_source :: AddressMode
  ea_healthState :: HealthState
  ea_consecutiveSuccesses :: int
  ea_consecutiveFailures :: int
  ea_lastCheckedAt :: "int option"
  ea_observedAt :: int
  ea_promotedAt :: "int option"
  ea_replacedAt :: "int option"

record DomainBindingRow =
  db_id :: string
  db_poolId :: string
  db_zoneId :: string
  db_fqdn :: string
  db_recordType :: string
  db_ttl :: int
  db_providerMetadata :: "(string \<times> json) list"
  db_originalEndpointId :: "string option"
  db_desiredRevision :: int
  db_state :: BindingState

definition binding_row_ok :: "DomainBindingRow \<Rightarrow> bool" where
  "binding_row_ok b = (db_recordType b = ''A'' \<or> db_recordType b = ''AAAA'')"

record DnsRecordRow =
  dr_id :: string
  dr_zoneId :: string
  dr_externalId :: string
  dr_type :: string
  dr_name :: string
  dr_content :: string
  dr_ttl :: int
  dr_priority :: "int option"
  dr_providerMetadata :: "(string \<times> json) list"
  dr_management :: RecordManagement
  dr_managedByPoolId :: "string option"
  dr_remoteHash :: string
  dr_lastSyncedAt :: int
  dr_deletedAt :: "int option"

definition record_row_ok :: "DnsRecordRow \<Rightarrow> bool" where
  "record_row_ok r = (dr_management r = Unmanaged \<or> dr_managedByPoolId r \<noteq> None)"

record BindingAssignmentRow =
  ba_domainBindingId :: string
  ba_endpointId :: string
  ba_dnsRecordId :: "string option"
  ba_desired :: bool
  ba_applied :: bool
  ba_reason :: string
  ba_assignedAt :: int

record HealthCheckConfigRow =
  hc_slotId :: "string option"
  hc_id :: string
  hc_poolId :: "string option"
  hc_endpointId :: "string option"
  hc_domainBindingId :: "string option"
  hc_checkerType :: string
  hc_config :: json
  hc_enabled :: bool
  hc_revision :: int
  hc_updatedAt :: int

text \<open>A check has exactly one scope.\<close>

definition check_row_ok :: "HealthCheckConfigRow \<Rightarrow> bool" where
  "check_row_ok c = (length (filter (\<lambda>s. s \<noteq> None) [hc_poolId c, hc_endpointId c, hc_domainBindingId c, hc_slotId c]) = 1)"

text \<open>The input of a step, as \<open>stepInputSchema\<close> reads it.\<close>

record StepInput =
  si_zoneExternalId :: string
  si_recordExternalId :: "string option"
  si_record :: "DnsRecordInput option"
  si_management :: "RecordManagement option"
  si_poolId :: "string option"
  si_bindingId :: "string option"
  si_endpointId :: "string option"
  si_assignmentMode :: "AssignmentMode option"
  si_previousEndpointIds :: "string list option"
  si_deleteBinding :: "bool option"
  si_cloud :: "json option"
  si_cleanupOldTtl :: "int option"

record OperationRow =
  op_id :: string
  op_ownerUserId :: string
  op_actorUserId :: "string option"
  op_source :: OperationSource
  op_idempotencyKey :: string
  op_resourceType :: string
  op_resourceId :: "string option"
  op_policyRevision :: "int option"
  op_decisionRevision :: "int option"
  op_status :: OperationStatus
  op_beforeSnapshot :: json
  op_desiredSnapshot :: json
  op_errorCode :: "string option"
  op_startedAt :: "int option"
  op_finishedAt :: "int option"

text \<open>The stored input is JSON; \<open>None\<close> stands for one that does not pass the schema.\<close>

record OperationStepRow =
  os_id :: string
  os_operationId :: string
  os_sequence :: int
  os_providerAccountId :: string
  os_zoneId :: string
  os_dnsRecordId :: "string option"
  os_action :: OperationAction
  os_status :: OperationStepStatus
  os_input :: "StepInput option"
  os_remoteSnapshot :: "ProviderRecord option"
  os_attempts :: int
  os_nextRetryAt :: "int option"
  os_errorCode :: "string option"
  os_errorDetail :: "string option"
  os_remoteRequestId :: "string option"
  os_startedAt :: "int option"
  os_finishedAt :: "int option"

text \<open>A policy version freezes the pool with everything that belongs to it.\<close>

record PolicySnapshot =
  ps_cloudLinks :: "json option"
  ps_pool :: EndpointPoolRow
  ps_endpoints :: "EndpointRow list"
  ps_addresses :: "EndpointAddressRow list"
  ps_bindings :: "DomainBindingRow list"
  ps_healthChecks :: "HealthCheckConfigRow list"

record PolicyVersionRow =
  pv_poolId :: string
  pv_version :: int
  pv_snapshot :: PolicySnapshot
  pv_reason :: string
  pv_actorUserId :: "string option"

datatype AuditSnapshot = NoSnapshot | RecordSnapshot ProviderRecord | JsonSnapshot json

record AuditLogRow =
  al_ownerUserId :: string
  al_actorUserId :: "string option"
  al_source :: OperationSource
  al_action :: string
  al_resourceType :: string
  al_resourceId :: "string option"
  al_beforeSnapshot :: json
  al_afterSnapshot :: AuditSnapshot
  al_operationId :: "string option"

record ReconcileIntentRow =
  ri_id :: string
  ri_eventId :: string
  ri_poolId :: string
  ri_endpointId :: "string option"
  ri_decisionRevision :: int
  ri_policyRevision :: int
  ri_trigger :: Trigger
  ri_source :: OperationSource
  ri_force :: bool
  ri_availableAt :: int
  ri_completedAt :: "int option"

record BindingEndpointHealthRow =
  bh_domainBindingId :: string
  bh_endpointId :: string
  bh_endpointAddressId :: "string option"
  bh_healthState :: HealthState
  bh_consecutiveSuccesses :: int
  bh_consecutiveFailures :: int
  bh_lastCheckedAt :: "int option"
  bh_stateChangedAt :: int

record FailoverEventRow =
  fe_poolId :: string
  fe_endpointId :: "string option"
  fe_operationId :: "string option"
  fe_eventType :: string
  fe_evidence :: json
  fe_decision :: StrategyDecision

section \<open>The database\<close>

record Database =
  tb_providerAccounts :: "ProviderAccountRow list"
  tb_zones :: "ZoneRow list"
  tb_endpointPools :: "EndpointPoolRow list"
  tb_endpoints :: "EndpointRow list"
  tb_endpointAddresses :: "EndpointAddressRow list"
  tb_domainBindings :: "DomainBindingRow list"
  tb_dnsRecords :: "DnsRecordRow list"
  tb_bindingAssignments :: "BindingAssignmentRow list"
  tb_healthCheckConfigs :: "HealthCheckConfigRow list"
  tb_operations :: "OperationRow list"
  tb_operationSteps :: "OperationStepRow list"
  tb_policyVersions :: "PolicyVersionRow list"
  tb_auditLogs :: "AuditLogRow list"
  tb_reconcileIntents :: "ReconcileIntentRow list"
  tb_bindingEndpointHealth :: "BindingEndpointHealthRow list"
  tb_failoverEvents :: "FailoverEventRow list"
  tb_cloud :: CloudTables

text \<open>\<open>select ... where p limit 1\<close>, \<open>update ... set f where p\<close> and \<open>delete ... where p\<close>.\<close>

definition select_one :: "('r \<Rightarrow> bool) \<Rightarrow> 'r list \<Rightarrow> 'r option" where
  "select_one P t = find P t"

definition update_where :: "('r \<Rightarrow> bool) \<Rightarrow> ('r \<Rightarrow> 'r) \<Rightarrow> 'r list \<Rightarrow> 'r list" where
  "update_where P f t = map (\<lambda>r. if P r then f r else r) t"

definition delete_where :: "('r \<Rightarrow> bool) \<Rightarrow> 'r list \<Rightarrow> 'r list" where
  "delete_where P t = filter (\<lambda>r. \<not> P r) t"

lemma select_one_Some: "select_one P t = Some r \<Longrightarrow> r \<in> set t \<and> P r"
  by (auto simp: select_one_def find_Some_iff)

lemma select_one_update:
  assumes "\<And>r. key (f r) = key r"
  shows "select_one (\<lambda>r. key r = i) (update_where (\<lambda>r. key r = i) f t) = map_option f (select_one (\<lambda>r. key r = i) t)"
  using assms by (induction t) (auto simp: select_one_def update_where_def)

lemma select_one_None: "select_one P t = None \<longleftrightarrow> (\<forall>r \<in> set t. \<not> P r)"
  by (auto simp: select_one_def find_None_iff)

lemma set_update_where: "r' \<in> set (update_where P f t) \<longleftrightarrow> (\<exists>r \<in> set t. r' = (if P r then f r else r))"
  by (auto simp: update_where_def)

lemma update_where_row:
  assumes "row \<in> set (update_where (\<lambda>r. key r = i) f t)" and "key row = i" and "\<And>r. key (f r) = key r"
  shows "\<exists>r. row = f r"
  using assms by (auto simp: set_update_where split: if_splits)

lemma length_update_where [simp]: "length (update_where P f t) = length t"
  by (simp add: update_where_def)

lemma nth_update_where: "i < length t \<Longrightarrow> update_where P f t ! i = (if P (t ! i) then f (t ! i) else t ! i)"
  by (simp add: update_where_def)

lemma map_update_where: "(\<And>r. g (f r) = g r) \<Longrightarrow> map g (update_where P f t) = map g t"
  by (simp add: update_where_def)

lemma update_where_none: "(\<And>r. r \<in> set t \<Longrightarrow> \<not> P r) \<Longrightarrow> update_where P f t = t"
  by (induction t) (auto simp: update_where_def)

lemma select_one_snoc: "select_one P (t @ [r]) = (case select_one P t of Some x \<Rightarrow> Some x | None \<Rightarrow> if P r then Some r else None)"
  by (induction t) (auto simp: select_one_def)

lemma select_one_updated:
  assumes "\<And>r. P (f r) = P r"
  shows "select_one P (update_where Q f t) = map_option (\<lambda>r. if Q r then f r else r) (select_one P t)"
  using assms by (induction t) (auto simp: select_one_def update_where_def)

end
