(* ===== verification/Rotation_Context.thy ===== *)
theory Rotation_Context
  imports Db_Schema
begin

text \<open>
  What a rotation and a publication are allowed on: the context of an address slot
  (\<open>packages/db/src/rotation-context.ts\<close>, \<open>cloud-lifecycle.ts\<close>), its health evidence
  (\<open>rotation-incidents.ts\<close>, \<open>address-health.ts\<close>), the visibility of cloud addresses (\<open>cloud-targets.ts\<close>),
  the prerequisites of a provider (\<open>packages/contracts/src/cloud-rotation-policy.ts\<close>) and the admission of a
  publication (\<open>rotation-publication.service.ts\<close>). Row locks are left out: a transaction reads one state.
  \<open>JSON.stringify\<close> of the physical key and \<open>isIP\<close> are parameters.
\<close>

section \<open>Prerequisites of a service\<close>

type_synonym CodeError = string

definition rotationAuthorizationPrerequisiteError :: "CloudService \<Rightarrow> LinodeIpv4Strategy option \<Rightarrow> bool \<Rightarrow> CodeError option" where
  "rotationAuthorizationPrerequisiteError service linodeIpv4Strategy linodeAllowTemporaryInstance =
    (if service = LinodeCompute \<and> linodeIpv4Strategy = Some InstanceSwap \<and> \<not> linodeAllowTemporaryInstance
     then Some ''rotation_temporary_instance_not_authorized'' else None)"

record ManualRotationPrerequisites =
  mp_allowStopStart :: bool
  mp_allocationId :: "string option"
  mp_primary :: bool
  mp_privateAddress :: json
  mp_deviceIndex :: json
  mp_ipv6Only :: json

definition manualRotationServicePrerequisiteError :: "CloudService \<Rightarrow> ManualRotationPrerequisites \<Rightarrow> CodeError option" where
  "manualRotationServicePrerequisiteError service input = (let allocated = (case mp_allocationId input of Some (_ # _) \<Rightarrow> True | _ \<Rightarrow> False) in
    case service of
      Ec2 \<Rightarrow>
        if \<not> allocated \<and> \<not> mp_primary input then Some ''rotation_capability_unavailable''
        else if allocated \<and> \<not> mp_primary input \<and> (case mp_privateAddress input of JStr _ \<Rightarrow> False | _ \<Rightarrow> True)
          then Some ''rotation_capability_unavailable''
        else if \<not> allocated \<and> \<not> json_same (mp_deviceIndex input) (JNum (num_of_int 0)) then Some ''rotation_capability_unavailable''
        else None
    | Lightsail \<Rightarrow> if \<not> json_same (mp_ipv6Only input) (JBool False) then Some ''rotation_capability_unavailable'' else None
    | AzureVm \<Rightarrow> None
    | LinodeCompute \<Rightarrow> if \<not> mp_allowStopStart input then Some ''rotation_stop_start_not_authorized'' else None)"

text \<open>\<open>Number\<close> of a dotted part; what is not a decimal number is \<open>NaN\<close>, and every comparison with it fails.\<close>

definition octet :: "string list \<Rightarrow> nat \<Rightarrow> int option" where
  "octet parts i = (if i < length parts then
       (let w = trim (parts ! i) in if w = [] then Some 0
        else if list_all (\<lambda>c. 48 \<le> (of_char c :: nat) \<and> (of_char c :: nat) \<le> 57) w
          then Some (foldl (\<lambda>n c. 10 * n + int (of_char c - 48)) 0 w) else None)
     else Some 0)"

definition rotationPrivateIpv4Error :: "string \<Rightarrow> json \<Rightarrow> CodeError option" where
  "rotationPrivateIpv4Error address providerMetadata =
    (if (case providerMetadata of JObj _ \<Rightarrow> json_same (json_get providerMetadata ''awsAddressScope'') (JStr ''private'') | _ \<Rightarrow> False)
       then Some ''rotation_private_ipv4_unsupported''
     else (let parts = split_on CHR ''.'' address; first = octet parts 0; second = octet parts 1;
               is1 = (\<lambda>P. case first of Some n \<Rightarrow> P n | None \<Rightarrow> False);
               is2 = (\<lambda>P. case second of Some n \<Rightarrow> P n | None \<Rightarrow> False) in
       if is1 (\<lambda>a. a = 10) \<or> is1 (\<lambda>a. a = 127) \<or> is1 (\<lambda>a. a = 0) \<or> is1 (\<lambda>a. 224 \<le> a)
          \<or> is1 (\<lambda>a. a = 172) \<and> is2 (\<lambda>b. 16 \<le> b \<and> b \<le> 31) \<or> is1 (\<lambda>a. a = 192) \<and> is2 (\<lambda>b. b = 168)
          \<or> is1 (\<lambda>a. a = 169) \<and> is2 (\<lambda>b. b = 254) \<or> is1 (\<lambda>a. a = 100) \<and> is2 (\<lambda>b. 64 \<le> b \<and> b \<le> 127)
       then Some ''rotation_private_ipv4_unsupported'' else None))"

section \<open>The context of a slot\<close>

record RotationContext =
  cx_account :: CloudAccountRow
  cx_instance :: CloudInstanceRow
  cx_iface :: "CloudInterfaceRow option"
  cx_slot :: ManagedAddressSlotRow
  cx_address :: "CloudAddressRow option"
  cx_authorization :: "InstanceAuthorizationRow option"
  cx_policy :: "RotationPolicyRow option"
  cx_scope :: "CloudScanScopeRow option"
  cx_physicalKey :: string
  cx_lifecycleBlocked :: bool
  cx_conflictingManager :: bool
  cx_addressVersion :: int

type_synonym physical_key = "CloudProvider \<Rightarrow> string option \<Rightarrow> CloudService \<Rightarrow> string \<Rightarrow> string \<Rightarrow> string"

definition lifecycle_active :: "CloudLifecycleStatus \<Rightarrow> bool" where
  "lifecycle_active s = (s \<in> {LcQueued, LcInFlight, LcUnknown})"

definition instanceLifecycleBlocksRotation :: "CloudTables \<Rightarrow> string \<Rightarrow> bool" where
  "instanceLifecycleBlocksRotation t physicalKey =
    (case select_one (\<lambda>c. ic_physicalKey c = physicalKey) (ct_controls t) of
       Some c \<Rightarrow> ic_powerHold c \<noteq> None \<or> list_ex (\<lambda>o'. lo_physicalKey o' = physicalKey \<and> lifecycle_active (lo_status o')) (ct_lifecycleOperations t)
     | None \<Rightarrow> list_ex (\<lambda>o'. lo_physicalKey o' = physicalKey \<and> lifecycle_active (lo_status o')) (ct_lifecycleOperations t))"

text \<open>Another instance row, of any account entry, that names the same remote machine and is managed.\<close>

definition conflicting_manager :: "CloudTables \<Rightarrow> CloudAccountRow \<Rightarrow> CloudInstanceRow \<Rightarrow> bool" where
  "conflicting_manager t account inst = (case ca_externalAccountId account of
     Some ext \<Rightarrow> ext \<noteq> [] \<and> list_ex (\<lambda>i. cin_id i \<noteq> cin_id inst \<and> cin_service i = cin_service inst \<and> cin_region i = cin_region inst
        \<and> cin_externalId i = cin_externalId inst
        \<and> list_ex (\<lambda>a. ca_id a = cin_accountId i \<and> ca_provider a = ca_provider account \<and> ca_externalAccountId a = Some ext) (ct_accounts t)
        \<and> list_ex (\<lambda>x. ia_instanceId x = cin_id i \<and> ia_managed x) (ct_authorizations t)) (ct_instances t)
   | None \<Rightarrow> False)"

definition lockRotationContext :: "physical_key \<Rightarrow> CloudTables \<Rightarrow> string \<Rightarrow> CodeError + RotationContext" where
  "lockRotationContext pk t slotId = (case select_one (\<lambda>s. ms_id s = slotId) (ct_slots t) of
     None \<Rightarrow> Inl ''rotation_not_found''
   | Some slot \<Rightarrow> (case select_one (\<lambda>f. cif_id f = ms_interfaceId slot) (ct_interfaces t) of
     None \<Rightarrow> Inl ''rotation_not_found''
   | Some iface \<Rightarrow> (case select_one (\<lambda>i. cin_id i = cif_instanceId iface) (ct_instances t) of
     None \<Rightarrow> Inl ''rotation_not_found''
   | Some inst \<Rightarrow> (case select_one (\<lambda>a. ca_id a = cin_accountId inst) (ct_accounts t) of
     None \<Rightarrow> Inl ''rotation_not_found''
   | Some account \<Rightarrow>
      (let selectedId = (case ms_candidateAddressId slot of Some c \<Rightarrow> Some c | None \<Rightarrow> ms_currentAddressId slot);
           physicalKey = pk (ca_provider account) (ca_externalAccountId account) (cin_service inst) (cin_region inst) (cin_externalId inst)
       in Inr \<lparr>cx_account = account, cx_instance = inst, cx_iface = Some iface, cx_slot = slot,
         cx_address = Option.bind selectedId (\<lambda>i. select_one (\<lambda>d. cd_id d = i) (ct_addresses t)),
         cx_authorization = select_one (\<lambda>x. ia_instanceId x = cin_id inst) (ct_authorizations t),
         cx_policy = select_one (\<lambda>p. rp_slotId p = slotId) (ct_policies t),
         cx_scope = select_one (\<lambda>s. cs_accountId s = ca_id account \<and> cs_service s = cin_service inst \<and> cs_region s = cin_region inst) (ct_scanScopes t),
         cx_physicalKey = physicalKey, cx_lifecycleBlocked = instanceLifecycleBlocksRotation t physicalKey,
         cx_conflictingManager = conflicting_manager t account inst,
         cx_addressVersion = (if ms_candidateAddressId slot \<noteq> None then ms_candidateVersion slot else ms_currentVersion slot)\<rparr>)))))"

text \<open>Every slot, or the first error; the result maps a slot to its context.\<close>

definition lockRotationContexts :: "physical_key \<Rightarrow> CloudTables \<Rightarrow> string list \<Rightarrow> CodeError + (string \<rightharpoonup> RotationContext)" where
  "lockRotationContexts pk t slotIds = (let ids = js_sort code_unit_compare (remdups slotIds) in
     bindE (mapE (\<lambda>i. bindE (lockRotationContext pk t i) (\<lambda>c. Inr (i, c))) ids) (\<lambda>cs. Inr (map_of cs)))"

definition present :: "(string \<times> json) list \<Rightarrow> bool" where
  "present metadata = (\<not> json_same (json_get (JObj metadata) ''present'') (JBool False))"

definition region_excluded :: "RotationContext \<Rightarrow> bool" where
  "region_excluded c = (cx_scope c = None
     \<or> (case ca_regions (cx_account c) of None \<Rightarrow> False | Some rs \<Rightarrow> cin_region (cx_instance c) \<notin> set rs))"

definition resource_missing :: "RotationContext \<Rightarrow> bool" where
  "resource_missing c = (case (cx_iface c, cx_address c) of
     (Some iface, Some address) \<Rightarrow> \<not> cd_inventoryPresent address \<or> \<not> present (cin_metadata (cx_instance c))
        \<or> cif_scanGeneration iface \<noteq> cin_scanGeneration (cx_instance c)
   | _ \<Rightarrow> True)"

definition account_authorized :: "RotationContext \<Rightarrow> bool" where
  "account_authorized c = (ca_enabled (cx_account c) \<and> ca_externalAccountId (cx_account c) \<noteq> None
     \<and> ca_externalAccountId (cx_account c) \<noteq> Some [] \<and> (case cx_authorization c of Some a \<Rightarrow> ia_managed a | None \<Rightarrow> False))"

definition family_allowed :: "RotationContext \<Rightarrow> bool" where
  "family_allowed c = (case cx_authorization c of None \<Rightarrow> False
     | Some a \<Rightarrow> (if ms_family (cx_slot c) = V4 then ia_allowIpv4Rotation a else ia_allowIpv6Rotation a))"

definition rotationAuthorizationError :: "RotationContext \<Rightarrow> CloudRotationTrigger \<Rightarrow> CodeError option" where
  "rotationAuthorizationError c trigger =
    (if cx_lifecycleBlocked c then Some ''instance_lifecycle_busy''
     else if \<not> account_authorized c then Some ''authorization_revoked''
     else if trigger = HealthTrigger \<and> \<not> (case cx_policy c of Some p \<Rightarrow> rp_enabled p | None \<Rightarrow> False) \<or> \<not> family_allowed c
       then Some ''family_disabled''
     else if region_excluded c then Some ''region_excluded''
     else if resource_missing c then Some ''resource_not_found''
     else if cx_conflictingManager c then Some ''conflicting_manager''
     else rotationAuthorizationPrerequisiteError (cin_service (cx_instance c))
       (map_option rp_linodeIpv4Strategy (cx_policy c))
       (case cx_policy c of Some p \<Rightarrow> rp_linodeAllowTemporaryInstance p | None \<Rightarrow> False))"

definition publicationAuthorizationError :: "RotationContext \<Rightarrow> CodeError option" where
  "publicationAuthorizationError c =
    (if cx_lifecycleBlocked c then Some ''instance_lifecycle_busy''
     else if \<not> account_authorized c then Some ''authorization_revoked''
     else if region_excluded c then Some ''region_excluded''
     else if resource_missing c then Some ''resource_not_found''
     else if cx_conflictingManager c then Some ''conflicting_manager''
     else None)"

section \<open>Health evidence\<close>

definition hasFreshHealthEvidence :: "AddressHealthStateRow \<Rightarrow> RoundDecision \<Rightarrow> int \<Rightarrow> int \<Rightarrow> int \<Rightarrow> bool" where
  "hasFreshHealthEvidence state decision successThreshold failureThreshold now =
    (hs_latestDecision state = decision \<and> (case hs_evidenceExpiresAt state of Some t \<Rightarrow> now < t | None \<Rightarrow> False)
     \<and> (if decision = RoundSuccess then hs_healthState state = Healthy \<and> successThreshold \<le> hs_consecutiveSuccesses state
        else hs_healthState state = Unhealthy \<and> failureThreshold \<le> hs_consecutiveFailures state))"

record RotationHealth =
  rh_policy :: "AddressHealthPolicyRow option"
  rh_config :: "HealthCheckConfigRow option"
  rh_group :: "ProbeGroupRow option"
  rh_state :: "AddressHealthStateRow option"
  rh_configured :: bool
  rh_matches :: bool
  rh_now :: int
  rh_success :: bool
  rh_failure :: bool

definition health_configured ::
  "RotationContext \<Rightarrow> AddressHealthPolicyRow option \<Rightarrow> HealthCheckConfigRow option \<Rightarrow> ProbeGroupRow option \<Rightarrow> bool" where
  "health_configured c policy config grp = (case (policy, config, grp) of
     (Some p, Some k, Some g) \<Rightarrow> hp_family p = ms_family (cx_slot c) \<and> (hp_mode p = ExternalMode \<or> hp_mode p = MixedMode)
        \<and> hc_enabled k \<and> hc_slotId k = Some (ms_id (cx_slot c)) \<and> pg_ownerUserId g = ca_ownerUserId (cx_account c)
   | _ \<Rightarrow> False)"

definition health_matches ::
  "RotationContext \<Rightarrow> AddressHealthPolicyRow \<Rightarrow> HealthCheckConfigRow \<Rightarrow> ProbeGroupRow \<Rightarrow> AddressHealthStateRow \<Rightarrow> bool" where
  "health_matches c p k g s = (hs_family s = ms_family (cx_slot c) \<and> (case cx_address c of Some a \<Rightarrow> hs_addressId s = Some (cd_id a) | None \<Rightarrow> False)
     \<and> hs_addressVersion s = cx_addressVersion c \<and> hs_configId s = Some (hc_id k) \<and> hs_configVersion s = hc_revision k
     \<and> hs_policyId s = Some (hp_id p) \<and> hs_policyRevision s = hp_revision p \<and> hs_groupRevision s = Some (pg_revision g))"

definition lockRotationHealth :: "int \<Rightarrow> Database \<Rightarrow> RotationContext \<Rightarrow> RotationHealth" where
  "lockRotationHealth now d c = (let t = tb_cloud d; slotId = ms_id (cx_slot c);
       policy = select_one (\<lambda>p. hp_slotId p = Some slotId) (ct_healthPolicies t);
       config = Option.bind policy (\<lambda>p. select_one (\<lambda>k. hc_id k = hp_configId p) (tb_healthCheckConfigs d));
       grp = Option.bind (Option.bind policy hp_groupId) (\<lambda>i. select_one (\<lambda>g. pg_id g = i) (ct_probeGroups t));
       state = select_one (\<lambda>s. hs_slotId s = Some slotId) (ct_healthStates t);
       configured = health_configured c policy config grp;
       verdict = (\<lambda>P. case (policy, config, grp, state) of
         (Some p, Some k, Some g, Some s) \<Rightarrow> configured \<and> health_matches c p k g s \<and> P p s | _ \<Rightarrow> False)
     in \<lparr>rh_policy = policy, rh_config = config, rh_group = grp, rh_state = state, rh_configured = configured,
         rh_matches = verdict (\<lambda>_ _. True), rh_now = now,
         rh_success = verdict (\<lambda>p s. hasFreshHealthEvidence s RoundSuccess (hp_successThreshold p) (hp_failureThreshold p) now
           \<and> hp_successThreshold p \<le> hs_consecutiveSuccesses s),
         rh_failure = verdict (\<lambda>p s. hasFreshHealthEvidence s RoundFailure (hp_successThreshold p) (hp_failureThreshold p) now
           \<and> hp_failureThreshold p \<le> hs_consecutiveFailures s)\<rparr>)"

text \<open>The epoch of the evidence: the revisions it was gathered under.\<close>

record HealthEpoch =
  he_healthPolicyId :: string
  he_healthPolicyRevision :: int
  he_configId :: string
  he_configRevision :: int
  he_groupId :: string
  he_groupRevision :: int

definition healthRevisions :: "RotationHealth \<Rightarrow> CodeError + HealthEpoch" where
  "healthRevisions h = (case (rh_policy h, rh_config h, rh_group h) of
     (Some p, Some k, Some g) \<Rightarrow>
       if rh_configured h then Inr \<lparr>he_healthPolicyId = hp_id p, he_healthPolicyRevision = hp_revision p, he_configId = hc_id k,
         he_configRevision = hc_revision k, he_groupId = pg_id g, he_groupRevision = pg_revision g\<rparr>
       else Inl ''external_health_required''
   | _ \<Rightarrow> Inl ''external_health_required'')"

definition epoch_json :: "HealthEpoch \<Rightarrow> (string \<times> json) list" where
  "epoch_json e = [(''healthPolicyId'', JStr (he_healthPolicyId e)), (''healthPolicyRevision'', JNum (num_of_int (he_healthPolicyRevision e))),
     (''configId'', JStr (he_configId e)), (''configRevision'', JNum (num_of_int (he_configRevision e))),
     (''groupId'', JStr (he_groupId e)), (''groupRevision'', JNum (num_of_int (he_groupRevision e)))]"

text \<open>An incident row and the context of a publication are compared by the same function.\<close>

definition opt_str :: "string option \<Rightarrow> json" where
  "opt_str v = (case v of Some s \<Rightarrow> JStr s | None \<Rightarrow> JNull)"

definition opt_int :: "int option \<Rightarrow> json" where
  "opt_int v = (case v of Some n \<Rightarrow> JNum (num_of_int n) | None \<Rightarrow> JNull)"

definition incident_json :: "RotationIncidentRow \<Rightarrow> json" where
  "incident_json i = JObj [(''healthPolicyId'', opt_str (ri_healthPolicyId i)), (''healthPolicyRevision'', opt_int (ri_healthPolicyRevision i)),
     (''configId'', opt_str (ri_configId i)), (''configRevision'', opt_int (ri_configRevision i)),
     (''groupId'', opt_str (ri_groupId i)), (''groupRevision'', opt_int (ri_groupRevision i))]"

definition healthRevisionMatches :: "json \<Rightarrow> RotationHealth \<Rightarrow> bool" where
  "healthRevisionMatches i h = (case healthRevisions h of Inl _ \<Rightarrow> False
     | Inr e \<Rightarrow> list_all (\<lambda>(k, v). json_same (json_get i k) v) (epoch_json e))"

end
