(* ===== verification/Operations.thy ===== *)
theory Operations
  imports Db_Schema
begin

text \<open>
  The operation worker (\<open>apps/worker/src/operations/operation.processor.ts\<close>) with the deletion fence of
  \<open>packages/db/src/binding-deletion.ts\<close>. A transaction is a function of the database; one that throws
  leaves it as it was, while what it did to the DNS provider stays done. Between two transactions other
  processes may commit anything: \<open>re_others\<close> says what. The checks that a cloud-linked publication adds
  are the parameter \<open>CloudGate\<close>; the leases answer \<open>assertOwned\<close> through \<open>re_owned\<close> (of the zone) and \<open>re_operationOwned\<close>; the adapter is a
  parameter of the kind of \<open>Dns_Providers\<close>. Taking the zone's lease may fail, and a lease found lost at the end turns a
  finished step into a lock failure (\<open>re_zoneAcquired\<close>, \<open>re_zoneKept\<close>).
\<close>

section \<open>Statuses and revisions\<close>

definition isTerminalOperationStatus :: "OperationStatus \<Rightarrow> bool" where
  "isTerminalOperationStatus status = (status \<in> {OpSucceeded, OpPartial, OpFailed, OpSuperseded})"

definition isOperationDecisionCurrent :: "OperationRow \<Rightarrow> EndpointPoolRow option \<Rightarrow> bool" where
  "isOperationDecisionCurrent operation pool = (case pool of None \<Rightarrow> False | Some p \<Rightarrow>
     op_policyRevision operation = Some (ep_policyRevision p)
     \<and> (op_decisionRevision operation = None \<or> op_decisionRevision operation = Some (ep_decisionRevision p)))"

definition shouldFinalizeOperationStepFailure :: "bool \<Rightarrow> int \<Rightarrow> int \<Rightarrow> ResourceStatus option \<Rightarrow> bool \<Rightarrow> bool" where
  "shouldFinalizeOperationStepFailure retryable attemptsMade maxAttempts providerStatus lockFailure =
    (if providerStatus = Some StatusDisabled \<or> lockFailure then False
     else \<not> retryable \<or> maxAttempts \<le> attemptsMade + 1)"

definition find_operation :: "Database \<Rightarrow> string \<Rightarrow> OperationRow option" where
  "find_operation d i = select_one (\<lambda>o'. op_id o' = i) (tb_operations d)"

definition find_step :: "Database \<Rightarrow> string \<Rightarrow> OperationStepRow option" where
  "find_step d i = select_one (\<lambda>s. os_id s = i) (tb_operationSteps d)"

definition lockActiveOperation :: "Database \<Rightarrow> string \<Rightarrow> bool" where
  "lockActiveOperation d operationId = (case find_operation d operationId of
     None \<Rightarrow> False | Some o' \<Rightarrow> \<not> isTerminalOperationStatus (op_status o'))"

text \<open>The revision check of a pool's operation, made again in every transaction.\<close>

definition poolDecisionCurrent :: "Database \<Rightarrow> OperationRow \<Rightarrow> bool" where
  "poolDecisionCurrent d operation =
    (if op_resourceType operation = ''endpoint_pool'' \<and> op_resourceId operation \<noteq> None \<and> op_policyRevision operation \<noteq> None
     then isOperationDecisionCurrent operation
       (select_one (\<lambda>p. Some (ep_id p) = op_resourceId operation) (tb_endpointPools d))
     else True)"

definition getDeletingBindingIds :: "Database \<Rightarrow> string list \<Rightarrow> string list" where
  "getDeletingBindingIds d bindingIds = filter (\<lambda>b. list_ex (\<lambda>o'.
       op_resourceType o' = ''domain_binding'' \<and> op_resourceId o' = Some b
       \<and> op_status o' \<in> {OpPending, OpRunning, OpFailed, OpPartial}
       \<and> list_ex (\<lambda>s. os_operationId s = op_id o' \<and> os_action s = ActDelete
           \<and> (case os_input s of None \<Rightarrow> False | Some i \<Rightarrow> si_deleteBinding i = Some True \<and> si_bindingId i = Some b))
         (tb_operationSteps d)) (tb_operations d)) bindingIds"

section \<open>Transactions of the worker\<close>

definition set_steps :: "(OperationStepRow \<Rightarrow> bool) \<Rightarrow> (OperationStepRow \<Rightarrow> OperationStepRow) \<Rightarrow> Database \<Rightarrow> Database" where
  "set_steps P f d = d\<lparr>tb_operationSteps := update_where P f (tb_operationSteps d)\<rparr>"

definition set_operation :: "string \<Rightarrow> (OperationRow \<Rightarrow> OperationRow) \<Rightarrow> Database \<Rightarrow> Database" where
  "set_operation i f d = d\<lparr>tb_operations := update_where (\<lambda>o'. op_id o' = i) f (tb_operations d)\<rparr>"

definition open_step :: "OperationStepRow \<Rightarrow> bool" where
  "open_step s = (os_status s = StPending \<or> os_status s = StRunning)"

text \<open>The claim of \<open>processLocked\<close>: only a pending or running operation is taken.\<close>

definition claimOperation :: "int \<Rightarrow> OperationRow \<Rightarrow> Database \<Rightarrow> Database \<times> bool" where
  "claimOperation now operation d = (let P = (\<lambda>o'. op_id o' = op_id operation \<and> op_status o' \<in> {OpPending, OpRunning}) in
     (d\<lparr>tb_operations := update_where P (\<lambda>o'. o'\<lparr>op_status := OpRunning,
         op_startedAt := Some (case op_startedAt operation of Some t \<Rightarrow> t | None \<Rightarrow> now)\<rparr>) (tb_operations d)\<rparr>,
      list_ex P (tb_operations d)))"

definition skip_step :: "int \<Rightarrow> string option \<Rightarrow> OperationStepRow \<Rightarrow> OperationStepRow" where
  "skip_step now code s = s\<lparr>os_status := StSkipped, os_errorCode := (if code = None then os_errorCode s else code),
     os_finishedAt := Some now\<rparr>"

definition supersedeOperation :: "int \<Rightarrow> string \<Rightarrow> Database \<Rightarrow> Database" where
  "supersedeOperation now operationId d = (case find_operation d operationId of
     None \<Rightarrow> d
   | Some o' \<Rightarrow>
       if isTerminalOperationStatus (op_status o') \<and> op_status o' \<noteq> OpSuperseded then d
       else set_operation operationId (\<lambda>r. r\<lparr>op_status := OpSuperseded, op_finishedAt := Some now\<rparr>)
         (set_steps (\<lambda>s. os_operationId s = operationId \<and> open_step s) (skip_step now None) d))"

definition prepareStep :: "int \<Rightarrow> OperationRow \<Rightarrow> OperationStepRow \<Rightarrow> Database \<Rightarrow> Database \<times> bool" where
  "prepareStep now operation step d =
    (if \<not> poolDecisionCurrent d operation \<or> \<not> lockActiveOperation d (op_id operation) then (d, False)
     else let P = (\<lambda>s. os_id s = os_id step \<and> open_step s) in
       (set_steps P (\<lambda>s. s\<lparr>os_status := StRunning, os_attempts := os_attempts step + 1,
           os_startedAt := Some (case os_startedAt step of Some t \<Rightarrow> t | None \<Rightarrow> now)\<rparr>) d,
        list_ex P (tb_operationSteps d)))"

section \<open>The provider\<close>

datatype OperationError = FromProvider ProviderError | LockFailure | UnexpectedError

type_synonym ('r, 'a) remote = "('r, OperationError, 'a) effect"

definition provider_call :: "('r \<Rightarrow> 'r \<times> (ProviderError + 'a)) \<Rightarrow> ('r, 'a) remote" where
  "provider_call m = (\<lambda>r. case m r of (r', Inl e) \<Rightarrow> (r', Inl (FromProvider e)) | (r', Inr a) \<Rightarrow> (r', Inr a))"

definition op_error :: "'r DnsProviderAdapter \<Rightarrow> string \<Rightarrow> ProviderErrorCode \<Rightarrow> OperationError" where
  "op_error adapter message code = FromProvider (newProviderError message code (ad_provider adapter) None None)"

text \<open>The search ends when a page has no cursor; the first argument bounds the pages followed.\<close>

fun findMatchingRecord :: "nat \<Rightarrow> 'r DnsProviderAdapter \<Rightarrow> string \<Rightarrow> DnsRecordInput \<Rightarrow> string option \<Rightarrow> ('r, ProviderRecord option) remote" where
  "findMatchingRecord 0 adapter zoneId expected cursor = failS UnexpectedError"
| "findMatchingRecord (Suc n) adapter zoneId expected cursor =
     thenS (provider_call (\<lambda>r. ad_listRecords adapter r zoneId cursor)) (\<lambda>page.
       case find (\<lambda>record. dnsRecordMatches record expected) (pg_items page) of
         Some match \<Rightarrow> retS (Some match)
       | None \<Rightarrow> if pg_nextCursor page \<noteq> None \<and> pg_nextCursor page \<noteq> Some [] then findMatchingRecord n adapter zoneId expected (pg_nextCursor page)
           else retS None)"

definition verifyRemoteRecord :: "'r DnsProviderAdapter \<Rightarrow> string \<Rightarrow> string \<Rightarrow> DnsRecordInput \<Rightarrow> ('r, ProviderRecord) remote" where
  "verifyRemoteRecord adapter zoneId recordId expected =
    thenS (provider_call (\<lambda>r. ad_getRecord adapter r zoneId recordId)) (\<lambda>verified. case verified of
       None \<Rightarrow> failS (op_error adapter ''DNS record did not match the desired state after write'' TransientFailure)
     | Some record \<Rightarrow>
         if dnsRecordMatches record expected then retS record
         else failS (op_error adapter ''DNS record did not match the desired state after write'' TransientFailure))"

definition is_not_found :: "OperationError \<Rightarrow> bool" where
  "is_not_found e = (case e of FromProvider p \<Rightarrow> pe_code p = NotFound | _ \<Rightarrow> False)"

definition deleteRemoteRecordAndVerify :: "'r DnsProviderAdapter \<Rightarrow> string \<Rightarrow> string \<Rightarrow> ('r, unit) remote" where
  "deleteRemoteRecordAndVerify adapter zoneId recordId =
    thenS (provider_call (\<lambda>r. ad_getRecord adapter r zoneId recordId)) (\<lambda>existing.
    thenS (if existing = None then retS ()
           else catchS (provider_call (\<lambda>r. ad_deleteRecord adapter r zoneId recordId))
             (\<lambda>e. if is_not_found e then retS () else failS e)) (\<lambda>_.
    thenS (provider_call (\<lambda>r. ad_getRecord adapter r zoneId recordId)) (\<lambda>verified.
      if verified \<noteq> None then failS (op_error adapter ''DNS record still exists after deletion'' TransientFailure)
      else retS ())))"

text \<open>The one write of a step, with its verification.\<close>

definition dispatchStep ::
  "nat \<Rightarrow> 'r DnsProviderAdapter \<Rightarrow> OperationStepRow \<Rightarrow> StepInput \<Rightarrow> ProviderRecord option \<Rightarrow> ('r, ProviderRecord option) remote" where
  "dispatchStep pages adapter step input beforeRecord = (case os_action step of
     ActCreate \<Rightarrow> (case si_record input of
         None \<Rightarrow> failS (op_error adapter ''Create step is missing record input'' ValidationFailed)
       | Some record \<Rightarrow>
           thenS (if 0 < os_attempts step then findMatchingRecord pages adapter (si_zoneExternalId input) record None else retS None) (\<lambda>found.
           thenS (case found of Some r \<Rightarrow> retS r
             | None \<Rightarrow> provider_call (\<lambda>r. ad_createRecord adapter r (si_zoneExternalId input) record)) (\<lambda>remote.
           thenS (verifyRemoteRecord adapter (si_zoneExternalId input) (pr_externalId remote) record) (\<lambda>v. retS (Some v)))))
   | ActUpdate \<Rightarrow> (case (si_record input, si_recordExternalId input) of
         (Some record, Some externalId) \<Rightarrow>
           thenS (case beforeRecord of Some r \<Rightarrow> retS (Some r)
             | None \<Rightarrow> provider_call (\<lambda>r. ad_getRecord adapter r (si_zoneExternalId input) externalId)) (\<lambda>existing. case existing of
               None \<Rightarrow> failS (op_error adapter ''DNS record no longer exists'' NotFound)
             | Some old \<Rightarrow>
                 thenS (if dnsRecordMatches old record then retS old
                   else provider_call (\<lambda>r. ad_updateRecord adapter r (si_zoneExternalId input) externalId record)) (\<lambda>remote.
                 thenS (verifyRemoteRecord adapter (si_zoneExternalId input) (pr_externalId remote) record) (\<lambda>v. retS (Some v))))
       | _ \<Rightarrow> failS (op_error adapter ''Update step is incomplete'' ValidationFailed))
   | ActDelete \<Rightarrow> (case si_recordExternalId input of
         None \<Rightarrow> failS (op_error adapter ''Delete step is missing record ID'' ValidationFailed)
       | Some externalId \<Rightarrow>
           thenS (deleteRemoteRecordAndVerify adapter (si_zoneExternalId input) externalId) (\<lambda>_. retS None)))"

section \<open>The step's transaction\<close>

record 'c CloudGate =
  cg_lock :: "Database \<Rightarrow> 'c \<Rightarrow> OperationError + unit"
  cg_releasing :: "Database \<Rightarrow> string \<Rightarrow> bool"
  cg_prepare :: "Database \<Rightarrow> StepInput \<Rightarrow> EndpointRow \<Rightarrow> OperationError + 'c option"
  cg_check :: "Database \<Rightarrow> 'c \<Rightarrow> StepInput \<Rightarrow> OperationError + unit"
  cg_links :: "Database \<Rightarrow> string \<Rightarrow> json"

record ('r, 'c) RunEnv =
  re_now :: int
  re_newId :: string
  re_pages :: nat
  re_owned :: "nat \<Rightarrow> bool"
  re_operationOwned :: bool
  re_zoneAcquired :: bool
  re_zoneKept :: bool
  re_others :: "nat \<Rightarrow> Database \<Rightarrow> Database"
  re_adapter :: "string \<Rightarrow> Database \<Rightarrow> OperationError + 'r DnsProviderAdapter"
  re_hash :: "ProviderRecord \<Rightarrow> string"
  re_cloud :: "'c CloudGate"

definition assertOwned :: "('r, 'c) RunEnv \<Rightarrow> nat \<Rightarrow> OperationError + unit" where
  "assertOwned env n = guardE (re_owned env n) LockFailure"

definition toDnsRecordValues ::
  "('r, 'c) RunEnv \<Rightarrow> string \<Rightarrow> string \<Rightarrow> ProviderRecord \<Rightarrow> RecordManagement \<Rightarrow> string option \<Rightarrow> DnsRecordRow" where
  "toDnsRecordValues env rowId zoneId r management poolId =
    \<lparr>dr_id = rowId, dr_zoneId = zoneId, dr_externalId = pr_externalId r, dr_type = pr_type r, dr_name = pr_name r,
     dr_content = pr_content r, dr_ttl = pr_ttl r, dr_priority = pr_priority r, dr_providerMetadata = pr_providerMetadata r,
     dr_management = management, dr_managedByPoolId = (if management = Managed then poolId else None),
     dr_remoteHash = re_hash env r, dr_lastSyncedAt = re_now env, dr_deletedAt = None\<rparr>"

text \<open>Storing the outcome: the record row (the unique index on zone and external id may refuse it), the
  assignment, the operation's resource, the step, the audit entry.\<close>

definition storeRecord ::
  "('r, 'c) RunEnv \<Rightarrow> OperationStepRow \<Rightarrow> StepInput \<Rightarrow> ProviderRecord option \<Rightarrow> Database \<Rightarrow> OperationError + Database \<times> string option" where
  "storeRecord env step input remote d =
    (if os_action step = ActDelete then
       Inr (case os_dnsRecordId step of None \<Rightarrow> d
         | Some i \<Rightarrow> d\<lparr>tb_dnsRecords := update_where (\<lambda>r. dr_id r = i)
             (\<lambda>r. r\<lparr>dr_deletedAt := Some (re_now env), dr_management := Unmanaged, dr_managedByPoolId := None\<rparr>) (tb_dnsRecords d)\<rparr>,
         os_dnsRecordId step)
     else (case remote of
         None \<Rightarrow> Inr (d, os_dnsRecordId step)
       | Some r \<Rightarrow>
           (let rowId = (case os_dnsRecordId step of Some i \<Rightarrow> i | None \<Rightarrow> re_newId env);
                row = toDnsRecordValues env rowId (os_zoneId step) r
                  (case si_management input of Some m \<Rightarrow> m | None \<Rightarrow> Unmanaged) (si_poolId input);
                clash = list_ex (\<lambda>x. dr_id x \<noteq> rowId \<and> dr_zoneId x = dr_zoneId row \<and> dr_externalId x = dr_externalId row) (tb_dnsRecords d)
            in if clash \<or> \<not> record_row_ok row then Inl UnexpectedError
               else case os_dnsRecordId step of
                   Some i \<Rightarrow> Inr (d\<lparr>tb_dnsRecords := update_where (\<lambda>x. dr_id x = i) (\<lambda>_. row) (tb_dnsRecords d)\<rparr>, Some i)
                 | None \<Rightarrow> Inr (d\<lparr>tb_dnsRecords := tb_dnsRecords d @ [row]\<rparr>, Some rowId))))"

fun source_text :: "OperationSource \<Rightarrow> string" where
  "source_text UserSource = ''user''" | "source_text FailoverSource = ''failover''" | "source_text RecoverySource = ''recovery''"
| "source_text DdnsSource = ''ddns''" | "source_text DriftSource = ''drift''" | "source_text SyncSource = ''sync''"
| "source_text RollbackSource = ''rollback''"

definition unapply :: "BindingAssignmentRow \<Rightarrow> BindingAssignmentRow" where
  "unapply a = a\<lparr>ba_applied := False, ba_dnsRecordId := None\<rparr>"

definition storeAssignment ::
  "('r, 'c) RunEnv \<Rightarrow> OperationRow \<Rightarrow> OperationStepRow \<Rightarrow> StepInput \<Rightarrow> string option \<Rightarrow> BindingAssignmentRow list \<Rightarrow> BindingAssignmentRow list" where
  "storeAssignment env operation step input recordId t = (case (si_bindingId input, si_endpointId input) of
     (Some b, Some e) \<Rightarrow>
       if os_action step = ActDelete then
         update_where (\<lambda>a. ba_domainBindingId a = b \<and> ba_endpointId a = e) unapply t
       else (case recordId of None \<Rightarrow> t
         | Some i \<Rightarrow>
             (let t1 = (if si_assignmentMode input = Some SingleAssignment
                  then update_where (\<lambda>a. ba_domainBindingId a = b) unapply t else t);
                  P = (\<lambda>a. ba_domainBindingId a = b \<and> ba_endpointId a = e)
              in if list_ex P t1
                 then update_where P (\<lambda>a. a\<lparr>ba_dnsRecordId := Some i, ba_desired := True, ba_applied := True,
                   ba_reason := source_text (op_source operation)\<rparr>) t1
                 else t1 @ [\<lparr>ba_domainBindingId = b, ba_endpointId = e, ba_dnsRecordId = Some i, ba_desired = True,
                   ba_applied = True, ba_reason = source_text (op_source operation), ba_assignedAt = re_now env\<rparr>]))
   | _ \<Rightarrow> t)"

fun action_text :: "OperationAction \<Rightarrow> string" where
  "action_text ActCreate = ''create''" | "action_text ActUpdate = ''update''" | "action_text ActDelete = ''delete''"

definition storeOutcome ::
  "('r, 'c) RunEnv \<Rightarrow> OperationRow \<Rightarrow> OperationStepRow \<Rightarrow> StepInput \<Rightarrow> ProviderRecord option \<Rightarrow> Database \<Rightarrow> OperationError + Database" where
  "storeOutcome env operation step input remote d =
    bindE (storeRecord env step input remote d) (\<lambda>(d1, recordId).
      let d2 = d1\<lparr>tb_bindingAssignments := storeAssignment env operation step input recordId (tb_bindingAssignments d1)\<rparr>;
          d3 = (if recordId \<noteq> None \<and> op_resourceType operation = ''dns_record'' \<and> op_resourceId operation = None
                then set_operation (op_id operation) (\<lambda>o'. o'\<lparr>op_resourceId := recordId\<rparr>) d2 else d2);
          d4 = set_steps (\<lambda>s. os_id s = os_id step) (\<lambda>s. s\<lparr>os_status := StSucceeded,
                os_dnsRecordId := (if recordId = None then os_dnsRecordId s else recordId), os_remoteSnapshot := remote,
                os_errorCode := None, os_errorDetail := None, os_nextRetryAt := None, os_finishedAt := Some (re_now env)\<rparr>) d3
      in Inr (d4\<lparr>tb_auditLogs := tb_auditLogs d4 @ [\<lparr>al_ownerUserId = op_ownerUserId operation,
            al_actorUserId = op_actorUserId operation, al_source = op_source operation,
            al_action = ''dns_record.'' @ action_text (os_action step), al_resourceType = ''dns_record'',
            al_resourceId = recordId, al_beforeSnapshot = op_beforeSnapshot operation, al_afterSnapshot = (case remote of Some r \<Rightarrow> RecordSnapshot r | None \<Rightarrow> JsonSnapshot JNull),
            al_operationId = Some (op_id operation)\<rparr>]\<rparr>))"

definition bindingFence :: "Database \<Rightarrow> OperationStepRow \<Rightarrow> StepInput \<Rightarrow> string option" where
  "bindingFence d step input = (case si_bindingId input of
     Some b \<Rightarrow>
       if os_action step = ActDelete then None
       else if \<not> list_ex (\<lambda>x. db_id x = b) (tb_domainBindings d) then Some ''binding_missing''
       else if b \<in> set (getDeletingBindingIds d [b]) then Some ''binding_deleting'' else None
   | None \<Rightarrow> None)"

text \<open>A record set that a pool's binding manages by now; names compare in lower case without a trailing dot
  (the database strips every trailing dot of the stored name).\<close>

definition strip_dots :: "string \<Rightarrow> string" where
  "strip_dots s = rev (dropWhile (\<lambda>c. c = CHR ''.'') (rev s))"

definition bound_rrset :: "Database \<Rightarrow> string \<Rightarrow> string \<Rightarrow> string \<Rightarrow> bool" where
  "bound_rrset d zoneId type name = list_ex (\<lambda>b. db_zoneId b = zoneId \<and> db_recordType b = type
     \<and> to_lower (strip_dots (db_fqdn b)) = normalizeName name) (tb_domainBindings d)"

definition rrsetManaged :: "Database \<Rightarrow> OperationStepRow \<Rightarrow> StepInput \<Rightarrow> bool" where
  "rrsetManaged d step input = (let current = (case os_dnsRecordId step of None \<Rightarrow> None
       | Some i \<Rightarrow> select_one (\<lambda>r. dr_id r = i) (tb_dnsRecords d)) in
     (case current of Some r \<Rightarrow> dr_management r = Managed | None \<Rightarrow> False)
     \<or> (case si_record input of Some r \<Rightarrow> bound_rrset d (os_zoneId step) (type_text (di_type r)) (di_name r) | None \<Rightarrow> False)
     \<or> (case current of Some r \<Rightarrow> bound_rrset d (os_zoneId step) (dr_type r) (dr_name r) | None \<Rightarrow> False))"

definition address_write :: "OperationStepRow \<Rightarrow> StepInput \<Rightarrow> string option" where
  "address_write step input = (case si_record input of
     Some r \<Rightarrow> if os_action step \<noteq> ActDelete \<and> (di_type r = TypeA \<or> di_type r = TypeAAAA) then Some (di_content r) else None
   | None \<Rightarrow> None)"

text \<open>Everything the transaction checks before it reaches out, in the code's order: an error that rolls
  back, an early return with the database it commits and the answer, or the permission to go on.\<close>

definition admitStep ::
  "('r, 'c) RunEnv \<Rightarrow> 'r DnsProviderAdapter \<Rightarrow> OperationRow \<Rightarrow> OperationStepRow \<Rightarrow> StepInput \<Rightarrow> 'c option \<Rightarrow> Database
    \<Rightarrow> OperationError + (Database \<times> bool) option" where
  "admitStep env adapter operation step input cloud d =
    bindE (case cloud of None \<Rightarrow> Inr () | Some c \<Rightarrow> cg_lock (re_cloud env) d c) (\<lambda>_.
     if (case address_write step input of Some a \<Rightarrow> cg_releasing (re_cloud env) d a | None \<Rightarrow> False)
       then Inl (op_error adapter ''Address cleanup is in progress'' TransientFailure)
     else if \<not> poolDecisionCurrent d operation
       then Inr (Some (set_steps (\<lambda>s. os_id s = os_id step) (skip_step (re_now env) None) d, False))
     else if \<not> lockActiveOperation d (op_id operation) then Inr (Some (d, False))
     else if map_option os_status (find_step d (os_id step)) \<noteq> Some StRunning then Inr (Some (d, False))
     else (case bindingFence d step input of
       Some code \<Rightarrow> Inr (Some (set_steps (\<lambda>s. os_id s = os_id step) (skip_step (re_now env) (Some code)) d, True))
     | None \<Rightarrow>
       bindE (case cloud of None \<Rightarrow> Inr () | Some c \<Rightarrow> cg_check (re_cloud env) d c input) (\<lambda>_.
       bindE (assertOwned env 0) (\<lambda>_.
         if op_resourceType operation = ''dns_record'' \<and> rrsetManaged d step input
         then Inr (Some (set_steps (\<lambda>s. os_id s = os_id step) (skip_step (re_now env) (Some ''rrset_now_managed'')) d, False))
         else bindE (assertOwned env 1) (\<lambda>_. Inr None)))))"

definition applyStep ::
  "('r, 'c) RunEnv \<Rightarrow> 'r DnsProviderAdapter \<Rightarrow> OperationRow \<Rightarrow> OperationStepRow \<Rightarrow> StepInput \<Rightarrow> ProviderRecord option \<Rightarrow> 'c option
    \<Rightarrow> Database \<Rightarrow> ('r, Database \<times> bool) remote" where
  "applyStep env adapter operation step input beforeRecord cloud d =
    thenS (pureS (admitStep env adapter operation step input cloud d)) (\<lambda>admission. case admission of
       Some answer \<Rightarrow> retS answer
     | None \<Rightarrow>
         thenS (dispatchStep (re_pages env) adapter step input beforeRecord) (\<lambda>remote.
         thenS (pureS (assertOwned env 2)) (\<lambda>_.
         thenS (pureS (storeOutcome env operation step input remote d)) (\<lambda>d'.
         thenS (pureS (assertOwned env 3)) (\<lambda>_. retS (d', True))))))"

section \<open>A step\<close>

definition effectiveOldTtl :: "int \<Rightarrow> ProviderType \<Rightarrow> int" where
  "effectiveOldTtl ttl provider = (if 1 < ttl then ttl else if provider = Cloudflare then 300 else 86400)"

definition saveOldTtl :: "'r DnsProviderAdapter \<Rightarrow> OperationStepRow \<Rightarrow> StepInput \<Rightarrow> ProviderRecord option \<Rightarrow> Database \<Rightarrow> Database" where
  "saveOldTtl adapter step input beforeRecord d = (case beforeRecord of None \<Rightarrow> d
     | Some r \<Rightarrow> set_steps (\<lambda>s. os_id s = os_id step) (\<lambda>s. s\<lparr>os_input := Some (input\<lparr>si_cleanupOldTtl :=
         Some (max (case si_cleanupOldTtl input of Some t \<Rightarrow> t | None \<Rightarrow> 0) (effectiveOldTtl (pr_ttl r) (ad_provider adapter)))\<rparr>)\<rparr>) d)"

text \<open>The publication of a cloud endpoint needs its context; a static one must not carry any.\<close>

definition cloudContext ::
  "('r, 'c) RunEnv \<Rightarrow> 'r DnsProviderAdapter \<Rightarrow> OperationStepRow \<Rightarrow> StepInput \<Rightarrow> Database \<Rightarrow> OperationError + 'c option" where
  "cloudContext env adapter step input d = (case si_endpointId input of
     None \<Rightarrow> Inr None
   | Some i \<Rightarrow>
       if os_action step = ActDelete then Inr None
       else (case select_one (\<lambda>e. en_id e = i) (tb_endpoints d) of
           Some endpoint \<Rightarrow>
             if en_addressMode endpoint = CloudMode then cg_prepare (re_cloud env) d input endpoint
             else if si_cloud input \<noteq> None
               then Inl (op_error adapter ''Cloud publication is no longer linked to its endpoint'' ValidationFailed)
             else Inr None
         | None \<Rightarrow>
             if si_cloud input \<noteq> None
               then Inl (op_error adapter ''Cloud publication is no longer linked to its endpoint'' ValidationFailed)
             else Inr None))"

text \<open>What a pool's step reads first: the record as it is.\<close>

definition readBefore :: "'r DnsProviderAdapter \<Rightarrow> OperationRow \<Rightarrow> StepInput \<Rightarrow> ('r, ProviderRecord option) remote" where
  "readBefore adapter operation input = (case (op_resourceType operation = ''endpoint_pool'', si_recordExternalId input) of
     (True, Some externalId) \<Rightarrow> provider_call (\<lambda>r. ad_getRecord adapter r (si_zoneExternalId input) externalId)
   | _ \<Rightarrow> retS None)"

text \<open>A prepared step, from that read to its transaction.\<close>

definition publishStep ::
  "('r, 'c) RunEnv \<Rightarrow> 'r DnsProviderAdapter \<Rightarrow> OperationRow \<Rightarrow> OperationStepRow \<Rightarrow> StepInput \<Rightarrow> ProviderRecord option \<Rightarrow> Database \<Rightarrow> 'r
    \<Rightarrow> Database \<times> 'r \<times> (OperationError + bool)" where
  "publishStep env adapter operation step input beforeRecord d r =
    (let d1 = re_others env 2 (saveOldTtl adapter step input beforeRecord (re_others env 1 d)) in
     case cloudContext env adapter step input d1 of
       Inl e \<Rightarrow> (d1, r, Inl e)
     | Inr cloud \<Rightarrow>
         (let d2 = re_others env 3 d1 in
          case applyStep env adapter operation step input beforeRecord cloud d2 r of
            (r', Inl e) \<Rightarrow> (d2, r', Inl e)
          | (r', Inr (d3, applied)) \<Rightarrow> (d3, r', Inr applied)))"

definition executeStep ::
  "('r, 'c) RunEnv \<Rightarrow> OperationRow \<Rightarrow> OperationStepRow \<Rightarrow> Database \<Rightarrow> 'r \<Rightarrow> Database \<times> 'r \<times> (OperationError + bool)" where
  "executeStep env operation staleStep d r = (case find_step d (os_id staleStep) of
     None \<Rightarrow> (d, r, Inr True)
   | Some step \<Rightarrow>
      if os_status step \<in> {StSucceeded, StFailed, StSkipped} then (d, r, Inr True)
      else (case os_input step of
        None \<Rightarrow> (d, r, Inl UnexpectedError)
      | Some input \<Rightarrow>
         (case re_adapter env (os_providerAccountId step) d of
           Inl e \<Rightarrow> (d, r, Inl e)
         | Inr adapter \<Rightarrow>
            (let (d1, prepared) = prepareStep (re_now env) operation step (re_others env 0 d) in
             if \<not> prepared then (d1, r, Inr False)
             else (case readBefore adapter operation input r of
               (r1, Inl e) \<Rightarrow> (d1, r1, Inl e)
             | (r1, Inr beforeRecord) \<Rightarrow> publishStep env adapter operation step input beforeRecord d1 r1)))))"

section \<open>Failures\<close>

record OperationJob =
  oj_attemptsMade :: nat
  oj_maxAttempts :: int

definition providerErrorOf :: "OperationError \<Rightarrow> ProviderType option \<Rightarrow> ProviderError" where
  "providerErrorOf e provider = (case e of
     FromProvider p \<Rightarrow> p
   | _ \<Rightarrow> newProviderError ''Unexpected operation error'' TransientFailure
       (case provider of Some t \<Rightarrow> t | None \<Rightarrow> Cloudflare) None None)"

fun code_text :: "ProviderErrorCode \<Rightarrow> string" where
  "code_text AuthenticationFailed = ''authentication_failed''" | "code_text ProviderPermissionDenied = ''permission_denied''"
| "code_text NotFound = ''not_found''" | "code_text Conflict = ''conflict''" | "code_text ValidationFailed = ''validation_failed''"
| "code_text ProviderRateLimited = ''rate_limited''" | "code_text TransientFailure = ''transient_failure''"
| "code_text UnknownProviderError = ''unknown_provider_error''"

text \<open>Recording a failed attempt: final or to be retried, and an account whose credentials failed is marked.
  \<open>None\<close>: the operation or the step had ended meanwhile, and nothing is recorded.\<close>

definition recordFailure ::
  "int \<Rightarrow> OperationJob \<Rightarrow> OperationRow \<Rightarrow> OperationStepRow \<Rightarrow> ProviderError \<Rightarrow> bool \<Rightarrow> Database \<Rightarrow> Database option" where
  "recordFailure now job operation step e finalAttempt d =
    (let P = (\<lambda>s. os_id s = os_id step \<and> open_step s) in
     if \<not> lockActiveOperation d (op_id operation) \<or> \<not> list_ex P (tb_operationSteps d) then None
     else let d1 = set_steps P (\<lambda>s. s\<lparr>os_status := (if finalAttempt then StFailed else StPending),
            os_attempts := os_attempts step + 1, os_errorCode := Some (code_text (pe_code e)),
            os_errorDetail := Some (take 512 (pe_message e)),
            os_nextRetryAt := (if finalAttempt then None else Some (now + (case pe_retryAfterMs e of Some ms \<Rightarrow> ms
              | None \<Rightarrow> 1000 * 2 ^ oj_attemptsMade job))),
            os_finishedAt := (if finalAttempt then Some now else None)\<rparr>) d
          in Some (if pe_code e = AuthenticationFailed \<or> pe_code e = ProviderPermissionDenied
            then d1\<lparr>tb_providerAccounts := update_where (\<lambda>a. pa_id a = os_providerAccountId step \<and> pa_status a \<noteq> StatusDisabled)
              (\<lambda>a. a\<lparr>pa_status := StatusError, pa_errorCode := Some (pe_code e)\<rparr>) (tb_providerAccounts d1)\<rparr>
            else d1))"

section \<open>The end of an operation\<close>

datatype Finalized = Superseded | Finalized OperationStatus nat nat

definition step_input_binding :: "OperationStepRow \<Rightarrow> string option" where
  "step_input_binding s = Option.bind (os_input s) si_bindingId"

definition step_deletes_binding :: "OperationStepRow \<Rightarrow> bool" where
  "step_deletes_binding s = (case os_input s of None \<Rightarrow> False | Some i \<Rightarrow> si_deleteBinding i = Some True)"

definition settled :: "OperationStepRow \<Rightarrow> bool" where
  "settled s = (os_status s = StSucceeded \<or> os_status s = StSkipped)"

definition finalStatus :: "OperationStepRow list \<Rightarrow> OperationStatus" where
  "finalStatus steps = (let succeeded = length (filter settled steps);
       failed = length (filter (\<lambda>s. os_status s = StFailed) steps)
     in if failed = 0 then OpSucceeded else if succeeded = 0 then OpFailed else OpPartial)"

definition bindingOutcome :: "OperationStepRow list \<Rightarrow> BindingState" where
  "bindingOutcome related = (if list_ex (\<lambda>s. os_status s = StFailed) related then BindingFailed
     else if list_all settled related then BindingHealthy else BindingSwitching)"

text \<open>A deleted binding leaves a new policy version of its pool behind, with the pool as it is then.\<close>

definition deleteBinding :: "('r, 'c) RunEnv \<Rightarrow> OperationRow \<Rightarrow> string \<Rightarrow> Database \<Rightarrow> Database" where
  "deleteBinding env operation bindingId d =
    (let d1 = d\<lparr>tb_domainBindings := delete_where (\<lambda>b. db_id b = bindingId) (tb_domainBindings d),
               tb_bindingAssignments := delete_where (\<lambda>a. ba_domainBindingId a = bindingId) (tb_bindingAssignments d),
               tb_healthCheckConfigs := delete_where (\<lambda>c. hc_domainBindingId c = Some bindingId) (tb_healthCheckConfigs d)\<rparr>;
         d2 = (case select_one (\<lambda>b. db_id b = bindingId) (tb_domainBindings d) of
             None \<Rightarrow> d1
           | Some binding \<Rightarrow>
               (let poolId = db_poolId binding;
                    d' = d1\<lparr>tb_endpointPools := update_where (\<lambda>p. ep_id p = poolId)
                      (\<lambda>p. p\<lparr>ep_policyRevision := ep_policyRevision p + 1\<rparr>) (tb_endpointPools d1)\<rparr>
                in case select_one (\<lambda>p. ep_id p = poolId) (tb_endpointPools d') of
                     None \<Rightarrow> d'
                   | Some pool \<Rightarrow>
                       (let ends = filter (\<lambda>e. en_poolId e = poolId) (tb_endpoints d');
                            bindings = filter (\<lambda>b. db_poolId b = poolId) (tb_domainBindings d')
                        in d'\<lparr>tb_policyVersions := tb_policyVersions d' @ [\<lparr>pv_poolId = poolId,
                             pv_version = ep_policyRevision pool,
                             pv_snapshot = \<lparr>ps_cloudLinks = (if list_ex (\<lambda>e. en_addressMode e = CloudMode) ends
                                 then Some (cg_links (re_cloud env) d' poolId) else None),
                               ps_pool = pool, ps_endpoints = ends,
                               ps_addresses = filter (\<lambda>a. list_ex (\<lambda>e. en_id e = ea_endpointId a) ends) (tb_endpointAddresses d'),
                               ps_bindings = bindings,
                               ps_healthChecks = filter (\<lambda>c. hc_poolId c = Some poolId
                                 \<or> list_ex (\<lambda>e. hc_endpointId c = Some (en_id e)) ends
                                 \<or> list_ex (\<lambda>b. hc_domainBindingId c = Some (db_id b)) bindings) (tb_healthCheckConfigs d')\<rparr>,
                             pv_reason = ''binding.delete'', pv_actorUserId = op_actorUserId operation\<rparr>]\<rparr>)))
     in d2\<lparr>tb_auditLogs := tb_auditLogs d2 @ [\<lparr>al_ownerUserId = op_ownerUserId operation,
            al_actorUserId = op_actorUserId operation, al_source = op_source operation, al_action = ''binding.delete'',
            al_resourceType = ''domain_binding'', al_resourceId = Some bindingId, al_beforeSnapshot = JUndefined,
            al_afterSnapshot = NoSnapshot, al_operationId = Some (op_id operation)\<rparr>]\<rparr>)"

definition finalizeBinding ::
  "('r, 'c) RunEnv \<Rightarrow> OperationRow \<Rightarrow> OperationStepRow list \<Rightarrow> string list \<Rightarrow> string \<Rightarrow> Database \<Rightarrow> Database" where
  "finalizeBinding env operation finalSteps deleting bindingId d =
    (let related = filter (\<lambda>s. step_input_binding s = Some bindingId) finalSteps;
         deletes = list_ex step_deletes_binding related
     in if bindingId \<in> set deleting \<and> \<not> deletes then d
        else if bindingOutcome related = BindingHealthy \<and> deletes then deleteBinding env operation bindingId d
        else d\<lparr>tb_domainBindings := update_where (\<lambda>b. db_id b = bindingId)
            (\<lambda>b. b\<lparr>db_state := bindingOutcome related\<rparr>) (tb_domainBindings d)\<rparr>)"

definition finalizeOperation :: "('r, 'c) RunEnv \<Rightarrow> OperationRow \<Rightarrow> Database \<Rightarrow> Database \<times> Finalized" where
  "finalizeOperation env operation d =
    (if \<not> lockActiveOperation d (op_id operation) then (d, Superseded)
     else if \<not> poolDecisionCurrent d operation then
       (set_operation (op_id operation) (\<lambda>o'. o'\<lparr>op_status := OpSuperseded, op_finishedAt := Some (re_now env)\<rparr>)
         (set_steps (\<lambda>s. os_operationId s = op_id operation \<and> open_step s) (skip_step (re_now env) None) d), Superseded)
     else (let finalSteps = filter (\<lambda>s. os_operationId s = op_id operation) (tb_operationSteps d);
               succeeded = length (filter settled finalSteps);
               failed = length (filter (\<lambda>s. os_status s = StFailed) finalSteps);
               d1 = set_operation (op_id operation) (\<lambda>o'. o'\<lparr>op_status := finalStatus finalSteps,
                 op_finishedAt := Some (re_now env),
                 op_errorCode := (if 0 < failed then Some ''one_or_more_steps_failed'' else op_errorCode o')\<rparr>) d;
               bindingIds = remdups (List.map_filter step_input_binding finalSteps);
               deleting = getDeletingBindingIds d1 bindingIds
           in (fold (finalizeBinding env operation finalSteps deleting) bindingIds d1,
               Finalized (finalStatus finalSteps) succeeded failed)))"

section \<open>An operation\<close>

datatype OperationOutcome = NothingToDo | WasSuperseded | Ended OperationStatus nat nat | Rethrown ProviderError | LeaseLost

text \<open>The \<open>catch\<close> of the loop: the failure is recorded; a final one lets the loop go on with the next step.\<close>

definition failStep ::
  "('r, 'c) RunEnv \<Rightarrow> OperationJob \<Rightarrow> OperationRow \<Rightarrow> OperationStepRow \<Rightarrow> OperationError \<Rightarrow> Database \<Rightarrow> Database \<times> OperationOutcome option" where
  "failStep env job operation step e d =
    (let account = select_one (\<lambda>a. pa_id a = os_providerAccountId step) (tb_providerAccounts d);
         providerError = providerErrorOf e (map_option pa_provider account);
         finalAttempt = shouldFinalizeOperationStepFailure (pe_retryable providerError) (int (oj_attemptsMade job))
           (oj_maxAttempts job) (map_option pa_status account) (e = LockFailure)
     in (case recordFailure (re_now env) job operation step providerError finalAttempt d of
           None \<Rightarrow> (d, Some NothingToDo)
         | Some d' \<Rightarrow> (d', if finalAttempt then None else Some (Rethrown providerError))))"

definition lockedStep ::
  "('r, 'c) RunEnv \<Rightarrow> OperationRow \<Rightarrow> OperationStepRow \<Rightarrow> Database \<Rightarrow> 'r \<Rightarrow> Database \<times> 'r \<times> (OperationError + bool)" where
  "lockedStep env operation step d r =
    (if \<not> re_zoneAcquired env then (d, r, Inl LockFailure)
     else (case executeStep env operation step d r of
        (d1, r1, Inl e) \<Rightarrow> (d1, r1, Inl e)
      | (d1, r1, Inr applied) \<Rightarrow> (d1, r1, if re_zoneKept env then Inr applied else Inl LockFailure)))"

definition runStep ::
  "('r, 'c) RunEnv \<Rightarrow> OperationJob \<Rightarrow> OperationRow \<Rightarrow> OperationStepRow \<Rightarrow> Database \<Rightarrow> 'r \<Rightarrow> Database \<times> 'r \<times> OperationOutcome option" where
  "runStep env job operation step d r =
    (case lockedStep env operation step d r of
       (d1, r1, Inr True) \<Rightarrow> (d1, r1, None)
     | (d1, r1, Inr False) \<Rightarrow> (supersedeOperation (re_now env) (op_id operation) (re_others env 4 d1), r1, Some WasSuperseded)
     | (d1, r1, Inl e) \<Rightarrow> (case failStep env job operation step e (re_others env 4 d1) of (d2, stop) \<Rightarrow> (d2, r1, stop)))"

fun runSteps ::
  "(nat \<Rightarrow> ('r, 'c) RunEnv) \<Rightarrow> OperationJob \<Rightarrow> OperationRow \<Rightarrow> nat \<Rightarrow> OperationStepRow list \<Rightarrow> Database \<Rightarrow> 'r
    \<Rightarrow> Database \<times> 'r \<times> OperationOutcome option" where
  "runSteps env job operation n [] d r = (d, r, None)"
| "runSteps env job operation n (step # steps) d r =
    (if settled step then runSteps env job operation (Suc n) steps d r
     else if \<not> re_operationOwned (env n) then (d, r, Some LeaseLost)
     else (case runStep (env n) job operation step d r of
        (d1, r1, None) \<Rightarrow> runSteps env job operation (Suc n) steps d1 r1
      | (d1, r1, Some outcome) \<Rightarrow> (d1, r1, Some outcome)))"

definition processLocked ::
  "(nat \<Rightarrow> ('r, 'c) RunEnv) \<Rightarrow> OperationJob \<Rightarrow> string \<Rightarrow> Database \<Rightarrow> 'r \<Rightarrow> Database \<times> 'r \<times> OperationOutcome" where
  "processLocked env job operationId d r = (case find_operation d operationId of
     None \<Rightarrow> (d, r, NothingToDo)
   | Some operation \<Rightarrow>
      if isTerminalOperationStatus (op_status operation) then (d, r, NothingToDo)
      else if \<not> poolDecisionCurrent (re_others (env 0) 5 d) operation
        then (supersedeOperation (re_now (env 0)) operationId (re_others (env 0) 5 d), r, WasSuperseded)
      else (let (d1, claimed) = claimOperation (re_now (env 0)) operation (re_others (env 0) 5 d) in
        if \<not> claimed then (d1, r, NothingToDo)
        else let steps = sort_key os_sequence (filter (\<lambda>s. os_operationId s = operationId) (tb_operationSteps d1)) in
          (case runSteps env job operation 0 steps d1 r of
             (d2, r2, Some outcome) \<Rightarrow> (d2, r2, outcome)
           | (d2, r2, None) \<Rightarrow>
               if \<not> re_operationOwned (env (length steps)) then (d2, r2, LeaseLost)
               else (case finalizeOperation (env (length steps)) operation (re_others (env (length steps)) 6 d2) of
                  (d3, Superseded) \<Rightarrow> (d3, r2, WasSuperseded)
                | (d3, Finalized status succeeded failed) \<Rightarrow> (d3, r2, Ended status succeeded failed)))))"

section \<open>A finished operation stays finished\<close>

text \<open>One row keeps its id, and its status once that is terminal.\<close>

definition row_kept :: "OperationRow \<Rightarrow> OperationRow \<Rightarrow> bool" where
  "row_kept a b = (op_id b = op_id a \<and> (isTerminalOperationStatus (op_status a) \<longrightarrow> op_status b = op_status a))"

definition ops_kept :: "Database \<Rightarrow> Database \<Rightarrow> bool" where
  "ops_kept d d' = list_all2 row_kept (tb_operations d) (tb_operations d')"

text \<open>The transactions of any number of workers, each with whatever it has read before, however stale;
  \<open>envs\<close> are the surroundings their runs may find.\<close>

inductive worker_tx :: "('r, 'c) RunEnv set \<Rightarrow> Database \<Rightarrow> Database \<Rightarrow> bool" for envs where
  tx_claim: "worker_tx envs d (fst (claimOperation now operation d))"
| tx_prepare: "worker_tx envs d (fst (prepareStep now operation step d))"
| tx_save_ttl: "worker_tx envs d (saveOldTtl (adapter :: 'r DnsProviderAdapter) step input before d)"
| tx_apply: "env \<in> envs \<Longrightarrow> applyStep env adapter operation step input before cloud d r = (r', Inr (d', applied)) \<Longrightarrow> worker_tx envs d d'"
| tx_fail: "recordFailure now job operation step e final d = Some d' \<Longrightarrow> worker_tx envs d d'"
| tx_finalize: "env \<in> envs \<Longrightarrow> worker_tx envs d (fst (finalizeOperation env operation d))"
| tx_supersede: "worker_tx envs d (supersedeOperation now operationId d)"

lemma row_kept_refl [simp]: "row_kept a a"
  by (simp add: row_kept_def)

lemma row_kept_trans: "row_kept a b \<Longrightarrow> row_kept b c \<Longrightarrow> row_kept a c"
  by (auto simp: row_kept_def)

lemma ops_kept_refl [simp]: "ops_kept d d"
  by (simp add: ops_kept_def list.rel_refl)

lemma ops_kept_same [simp]: "tb_operations d' = tb_operations d \<Longrightarrow> ops_kept d d'"
  by (simp add: ops_kept_def list.rel_refl)

lemma ops_kept_trans: "ops_kept a b \<Longrightarrow> ops_kept b c \<Longrightarrow> ops_kept a c"
  unfolding ops_kept_def by (rule list_all2_trans [of row_kept row_kept row_kept]) (auto intro: row_kept_trans)

lemma list_all2_update_where: "(\<And>r. r \<in> set t \<Longrightarrow> P r \<Longrightarrow> Q r (f r)) \<Longrightarrow> (\<And>r. Q r r) \<Longrightarrow> list_all2 Q t (update_where P f t)"
  by (induction t) (auto simp: update_where_def)

lemma set_steps_operations [simp]: "tb_operations (set_steps P f d) = tb_operations d"
  by (simp add: set_steps_def)

lemma set_operation_operations [simp]:
  "tb_operations (set_operation i f d) = update_where (\<lambda>o'. op_id o' = i) f (tb_operations d)"
  by (simp add: set_operation_def)

lemma lockActive_rows:
  assumes "lockActiveOperation d i" and "distinct (map op_id (tb_operations d))" and "o' \<in> set (tb_operations d)" and "op_id o' = i"
  shows "\<not> isTerminalOperationStatus (op_status o')"
proof -
  from assms(1) obtain a where a: "find_operation d i = Some a" "\<not> isTerminalOperationStatus (op_status a)"
    by (auto simp: lockActiveOperation_def split: option.splits)
  then have "a \<in> set (tb_operations d)" "op_id a = i"
    using select_one_Some [of "\<lambda>o'. op_id o' = i"] by (auto simp: find_operation_def)
  with assms have "a = o'" by (metis inj_on_eq_iff distinct_map)
  with a show ?thesis by simp
qed

lemma set_operation_kept:
  assumes "lockActiveOperation d i" and "distinct (map op_id (tb_operations d))" and "\<And>o'. op_id (f o') = op_id o'"
  shows "ops_kept d (set_operation i f d)"
  unfolding ops_kept_def set_operation_operations
  by (rule list_all2_update_where) (use lockActive_rows [OF assms(1,2)] assms(3) in \<open>auto simp: row_kept_def\<close>)

lemma finalizeBinding_operations: "tb_operations (finalizeBinding env operation steps deleting b d) = tb_operations d"
  by (simp add: finalizeBinding_def deleteBinding_def Let_def split: option.splits)

lemma fold_finalizeBinding_operations:
  "tb_operations (fold (finalizeBinding env operation steps deleting) bs d) = tb_operations d"
  by (induction bs arbitrary: d) (simp_all add: finalizeBinding_operations)

lemma storeRecord_operations:
  assumes "storeRecord env step input remote d = Inr (d', i)"
  shows "tb_operations d' = tb_operations d"
proof (cases "os_action step = ActDelete")
  case True
  with assms show ?thesis by (auto simp: storeRecord_def split: option.splits)
next
  case False
  with assms show ?thesis
    by (cases remote; cases "os_dnsRecordId step") (auto simp: storeRecord_def Let_def split: if_splits)
qed

lemma storeOutcome_operations:
  assumes "storeOutcome env operation step input remote d = Inr d'"
  shows "tb_operations d' = tb_operations d \<or>
    (\<exists>i. tb_operations d' = tb_operations (set_operation (op_id operation) (\<lambda>o'. o'\<lparr>op_resourceId := i\<rparr>) d))"
proof -
  from assms obtain d1 i where "storeRecord env step input remote d = Inr (d1, i)"
    by (cases "storeRecord env step input remote d") (auto simp: storeOutcome_def)
  with assms storeRecord_operations [OF this] show ?thesis by (auto simp: storeOutcome_def Let_def split: if_splits)
qed

lemma admitStep_None:
  assumes "admitStep env adapter operation step input cloud d = Inr None"
  shows "lockActiveOperation d (op_id operation) \<and> poolDecisionCurrent d operation
    \<and> map_option os_status (find_step d (os_id step)) = Some StRunning \<and> bindingFence d step input = None
    \<and> \<not> (op_resourceType operation = ''dns_record'' \<and> rrsetManaged d step input)
    \<and> re_owned env 0 \<and> re_owned env 1"
  using assms by (auto simp: admitStep_def assertOwned_def result_elims split: if_splits option.splits)

lemma admitStep_Some: "admitStep env adapter operation step input cloud d = Inr (Some (d', b)) \<Longrightarrow> tb_operations d' = tb_operations d"
  by (auto simp: admitStep_def assertOwned_def result_elims split: if_splits option.splits)

lemma applyStep_cases:
  assumes "applyStep env adapter operation step input before cloud d r = (r', Inr (d', b))"
  shows "(admitStep env adapter operation step input cloud d = Inr (Some (d', b)) \<and> r' = r)
    \<or> (admitStep env adapter operation step input cloud d = Inr None \<and> b \<and> (\<exists>remote.
         dispatchStep (re_pages env) adapter step input before r = (r', Inr remote)
         \<and> storeOutcome env operation step input remote d = Inr d'))"
  using assms by (auto simp: applyStep_def effect_elims split: option.splits)

lemma applyStep_kept:
  assumes "applyStep env adapter operation step input before cloud d r = (r', Inr (d', b))"
    and "distinct (map op_id (tb_operations d))"
  shows "ops_kept d d'"
  using applyStep_cases [OF assms(1)]
proof (elim disjE conjE exE)
  fix remote assume "admitStep env adapter operation step input cloud d = Inr None"
    and store: "storeOutcome env operation step input remote d = Inr d'"
  then have "lockActiveOperation d (op_id operation)" using admitStep_None by blast
  then have "ops_kept d (set_operation (op_id operation) (\<lambda>o'. o'\<lparr>op_resourceId := i\<rparr>) d)" for i
    by (rule set_operation_kept) (simp_all add: assms(2))
  with storeOutcome_operations [OF store] show ?thesis
    by (auto simp: ops_kept_def list.rel_refl)
qed (metis admitStep_Some ops_kept_same)

lemma supersede_kept:
  assumes "distinct (map op_id (tb_operations d))"
  shows "ops_kept d (supersedeOperation now i d)"
proof (cases "find_operation d i")
  case (Some a)
  have a: "a \<in> set (tb_operations d)" "op_id a = i"
    using select_one_Some [of "\<lambda>o'. op_id o' = i"] Some by (auto simp: find_operation_def)
  have unique: "o' = a" if "o' \<in> set (tb_operations d)" "op_id o' = i" for o'
    using that a assms by (metis inj_on_eq_iff distinct_map)
  show ?thesis
  proof (cases "isTerminalOperationStatus (op_status a) \<and> op_status a \<noteq> OpSuperseded")
    case False
    have "ops_kept d (set_operation i (\<lambda>r. r\<lparr>op_status := OpSuperseded, op_finishedAt := Some now\<rparr>)
         (set_steps (\<lambda>s. os_operationId s = i \<and> open_step s) (skip_step now None) d))"
      unfolding ops_kept_def set_operation_operations set_steps_operations
      by (rule list_all2_update_where) (use unique False in \<open>auto simp: row_kept_def\<close>)
    with Some False show ?thesis by (simp add: supersedeOperation_def)
  qed (simp add: supersedeOperation_def Some)
qed (simp add: supersedeOperation_def)

lemma worker_tx_kept:
  assumes "worker_tx envs d d'" and "distinct (map op_id (tb_operations d))"
  shows "ops_kept d d'"
  using assms
proof (cases rule: worker_tx.cases)
  case (tx_claim now operation)
  then show ?thesis
    by (auto simp: claimOperation_def Let_def ops_kept_def row_kept_def isTerminalOperationStatus_def intro!: list_all2_update_where)
next
  case (tx_prepare now operation step)
  then show ?thesis by (auto simp: prepareStep_def Let_def)
next
  case (tx_save_ttl adapter step input before)
  then show ?thesis by (auto simp: saveOldTtl_def split: option.splits)
next
  case (tx_apply env adapter operation step input before cloud r r' applied)
  show ?thesis by (rule applyStep_kept [OF tx_apply(2) assms(2)])
next
  case (tx_fail now job operation step e final)
  then show ?thesis by (auto simp: recordFailure_def Let_def split: if_splits)
next
  case (tx_finalize env operation)
  have "ops_kept d (fst (finalizeOperation env operation d))" if active: "lockActiveOperation d (op_id operation)"
  proof -
    have kept: "ops_kept d (set_operation (op_id operation) f d)" if "\<And>o'. op_id (f o') = op_id o'" for f
      using set_operation_kept [OF active assms(2) that] .
    show ?thesis
      using active kept
      by (auto simp: finalizeOperation_def Let_def ops_kept_def fold_finalizeBinding_operations)
  qed
  with tx_finalize show ?thesis by (cases "lockActiveOperation d (op_id operation)") (auto simp: finalizeOperation_def)
next
  case (tx_supersede now i)
  then show ?thesis using supersede_kept [OF assms(2)] by simp
qed

lemma ops_kept_ids: "ops_kept d d' \<Longrightarrow> map op_id (tb_operations d') = map op_id (tb_operations d)"
  unfolding ops_kept_def by (induction rule: list_all2_induct) (auto simp: row_kept_def)

section \<open>A finished step stays finished\<close>

definition step_kept :: "OperationStepRow \<Rightarrow> OperationStepRow \<Rightarrow> bool" where
  "step_kept a b = (os_id b = os_id a \<and> os_operationId b = os_operationId a \<and> (\<not> open_step a \<longrightarrow> \<not> open_step b))"

definition steps_kept :: "Database \<Rightarrow> Database \<Rightarrow> bool" where
  "steps_kept d d' = list_all2 step_kept (tb_operationSteps d) (tb_operationSteps d')"

lemma step_kept_refl [simp]: "step_kept a a"
  by (simp add: step_kept_def)

lemma steps_kept_same [simp]: "tb_operationSteps d' = tb_operationSteps d \<Longrightarrow> steps_kept d d'"
  by (simp add: steps_kept_def list.rel_refl)

lemma steps_kept_trans: "steps_kept a b \<Longrightarrow> steps_kept b c \<Longrightarrow> steps_kept a c"
  unfolding steps_kept_def by (rule list_all2_trans [of step_kept step_kept step_kept]) (auto simp: step_kept_def)

lemma set_operation_steps [simp]: "tb_operationSteps (set_operation i f d) = tb_operationSteps d"
  by (simp add: set_operation_def)

lemma set_steps_steps [simp]: "tb_operationSteps (set_steps P f d) = update_where P f (tb_operationSteps d)"
  by (simp add: set_steps_def)

lemma set_steps_kept:
  "(\<And>s. P s \<Longrightarrow> step_kept s (f s)) \<Longrightarrow> list_all2 step_kept (tb_operationSteps d) (update_where P f (tb_operationSteps d))"
  by (rule list_all2_update_where) simp_all

lemma skip_step_kept [simp]: "step_kept s (skip_step now code s)"
  by (simp add: step_kept_def skip_step_def open_step_def)

lemma finalizeBinding_steps: "tb_operationSteps (finalizeBinding env operation steps deleting b d) = tb_operationSteps d"
  by (simp add: finalizeBinding_def deleteBinding_def Let_def split: option.splits)

lemma fold_finalizeBinding_steps:
  "tb_operationSteps (fold (finalizeBinding env operation steps deleting) bs d) = tb_operationSteps d"
  by (induction bs arbitrary: d) (simp_all add: finalizeBinding_steps)

lemma storeRecord_steps:
  assumes "storeRecord env step input remote d = Inr (d', i)"
  shows "tb_operationSteps d' = tb_operationSteps d"
proof (cases "os_action step = ActDelete")
  case True
  with assms show ?thesis by (auto simp: storeRecord_def split: option.splits)
next
  case False
  with assms show ?thesis
    by (cases remote; cases "os_dnsRecordId step") (auto simp: storeRecord_def Let_def split: if_splits)
qed

lemma storeOutcome_steps:
  assumes "storeOutcome env operation step input remote d = Inr d'"
  shows "\<exists>f. tb_operationSteps d' = update_where (\<lambda>s. os_id s = os_id step) f (tb_operationSteps d)
    \<and> (\<forall>s. os_id (f s) = os_id s \<and> os_operationId (f s) = os_operationId s \<and> os_status (f s) = StSucceeded
        \<and> os_remoteSnapshot (f s) = remote)"
proof -
  from assms obtain d1 i where "storeRecord env step input remote d = Inr (d1, i)"
    by (cases "storeRecord env step input remote d") (auto simp: storeOutcome_def)
  with assms storeRecord_steps [OF this] show ?thesis
    by (intro exI [of _ "\<lambda>s. s\<lparr>os_status := StSucceeded, os_dnsRecordId := (if i = None then os_dnsRecordId s else i),
        os_remoteSnapshot := remote, os_errorCode := None, os_errorDetail := None, os_nextRetryAt := None,
        os_finishedAt := Some (re_now env)\<rparr>"]) (auto simp: storeOutcome_def Let_def set_operation_def set_steps_def)
qed

lemma storeOutcome_steps_kept:
  assumes "storeOutcome env operation step input remote d = Inr d'"
  shows "steps_kept d d'"
  using storeOutcome_steps [OF assms] unfolding steps_kept_def
  by (auto simp: step_kept_def open_step_def intro!: list_all2_update_where)

lemma admitStep_steps:
  assumes "admitStep env adapter operation step input cloud d = Inr (Some (d', b))"
  shows "steps_kept d d'"
  using assms set_steps_kept [OF skip_step_kept]
  by (auto simp: admitStep_def assertOwned_def result_elims steps_kept_def list.rel_refl split: if_splits option.splits)

lemma worker_tx_steps:
  assumes "worker_tx envs d d'"
  shows "steps_kept d d'"
  using assms
proof (cases rule: worker_tx.cases)
  case (tx_claim now operation)
  then show ?thesis by (simp add: claimOperation_def Let_def)
next
  case (tx_prepare now operation step)
  then show ?thesis
    using set_steps_kept [of "\<lambda>s. os_id s = os_id step \<and> open_step s"]
    by (auto simp: prepareStep_def Let_def steps_kept_def list.rel_refl step_kept_def open_step_def intro!: list_all2_update_where)
next
  case (tx_save_ttl adapter step input before)
  then show ?thesis
    by (auto simp: saveOldTtl_def steps_kept_def list.rel_refl step_kept_def open_step_def intro!: list_all2_update_where split: option.splits)
next
  case (tx_apply env adapter operation step input before cloud r r' applied)
  show ?thesis using applyStep_cases [OF tx_apply(2)] admitStep_steps storeOutcome_steps_kept by blast
next
  case (tx_fail now job operation step e final)
  then show ?thesis
    by (auto simp: recordFailure_def Let_def steps_kept_def step_kept_def open_step_def intro!: list_all2_update_where split: if_splits)
next
  case (tx_finalize env operation)
  then show ?thesis
    using set_steps_kept [OF skip_step_kept]
    by (auto simp: finalizeOperation_def Let_def steps_kept_def list.rel_refl fold_finalizeBinding_steps)
next
  case (tx_supersede now i)
  then show ?thesis
    using set_steps_kept [OF skip_step_kept]
    by (auto simp: supersedeOperation_def steps_kept_def list.rel_refl split: option.splits)
qed

lemma worker_txs_steps: "(worker_tx envs)\<^sup>*\<^sup>* d d' \<Longrightarrow> steps_kept d d'"
  by (induction rule: rtranclp_induct) (auto intro: steps_kept_trans worker_tx_steps)

section \<open>An operation that ends has done all its steps\<close>

text \<open>What runs beside a worker is other workers.\<close>

definition beside_workers :: "('r, 'c) RunEnv set \<Rightarrow> ('r, 'c) RunEnv \<Rightarrow> bool" where
  "beside_workers envs env = (env \<in> envs \<and> (\<forall>n d. (worker_tx envs)\<^sup>*\<^sup>* d (re_others env n d)))"

definition closed_in :: "Database \<Rightarrow> string \<Rightarrow> bool" where
  "closed_in d i = list_all (\<lambda>s. os_id s = i \<longrightarrow> \<not> open_step s) (tb_operationSteps d)"

lemma steps_kept_back:
  assumes "steps_kept d d'" and "s' \<in> set (tb_operationSteps d')"
  shows "\<exists>s \<in> set (tb_operationSteps d). step_kept s s'"
  using assms unfolding steps_kept_def by (metis list_all2_conv_all_nth in_set_conv_nth)

lemma steps_kept_forth:
  assumes "steps_kept d d'" and "s \<in> set (tb_operationSteps d)"
  shows "\<exists>s' \<in> set (tb_operationSteps d'). step_kept s s'"
  using assms unfolding steps_kept_def by (metis list_all2_conv_all_nth in_set_conv_nth)

lemma steps_kept_ids: "steps_kept d d' \<Longrightarrow> map os_id (tb_operationSteps d') = map os_id (tb_operationSteps d)"
  unfolding steps_kept_def by (induction rule: list_all2_induct) (auto simp: step_kept_def)

lemma closed_in_kept: "closed_in d i \<Longrightarrow> steps_kept d d' \<Longrightarrow> closed_in d' i"
  using steps_kept_back unfolding closed_in_def list_all_iff step_kept_def by metis

lemma set_steps_closed:
  assumes "\<And>s. P s \<Longrightarrow> os_id (f s) = os_id s \<and> \<not> open_step (f s)"
    and "\<And>s. s \<in> set (tb_operationSteps d) \<Longrightarrow> os_id s = i \<Longrightarrow> P s \<or> \<not> open_step s"
  shows "closed_in (set_steps P f d) i"
  using assms by (auto simp: closed_in_def list_all_iff update_where_def)

lemma find_step_closed:
  assumes "find_step d i = Some s" and "\<not> open_step s" and "distinct (map os_id (tb_operationSteps d))"
  shows "closed_in d i"
proof -
  have "s \<in> set (tb_operationSteps d)" "os_id s = i"
    using select_one_Some [of "\<lambda>s. os_id s = i"] assms(1) by (auto simp: find_step_def)
  with assms(2,3) have "t = s" if "t \<in> set (tb_operationSteps d)" "os_id t = i" for t
    using that by (metis inj_on_eq_iff distinct_map)
  with assms(2) show ?thesis by (auto simp: closed_in_def list_all_iff)
qed

lemma applyStep_closed:
  assumes "applyStep env adapter operation step input before cloud d r = (r', Inr (d', True))"
  shows "closed_in d' (os_id step)"
  using applyStep_cases [OF assms]
proof (elim disjE conjE exE)
  assume "admitStep env adapter operation step input cloud d = Inr (Some (d', True))"
  then have "\<exists>code. d' = set_steps (\<lambda>s. os_id s = os_id step) (skip_step (re_now env) code) d"
    by (auto simp: admitStep_def assertOwned_def result_elims split: if_splits option.splits)
  then show ?thesis by (auto intro!: set_steps_closed simp: skip_step_def open_step_def)
next
  fix remote assume "storeOutcome env operation step input remote d = Inr d'"
  then show ?thesis
    using storeOutcome_steps by (fastforce simp: closed_in_def list_all_iff update_where_def open_step_def)
qed

lemma prepareStep_tx: "prepareStep now operation step d = (d', b) \<Longrightarrow> worker_tx envs d d'"
  using worker_tx.tx_prepare [of envs d now operation step] by simp

lemma find_step_id: "find_step d i = Some s \<Longrightarrow> os_id s = i"
  using select_one_Some [of "\<lambda>s. os_id s = i"] by (auto simp: find_step_def)

lemma publishStep_txs:
  assumes "publishStep env adapter operation step input before d r = (d', r', res)" and env: "beside_workers envs env"
  shows "(worker_tx envs)\<^sup>*\<^sup>* d d' \<and> (res = Inr True \<longrightarrow> closed_in d' (os_id step))"
proof -
  define d1 where "d1 = re_others env 2 (saveOldTtl adapter step input before (re_others env 1 d))"
  define d2 where "d2 = re_others env 3 d1"
  have others: "(worker_tx envs)\<^sup>*\<^sup>* x (re_others env n x)" for n x using env by (simp add: beside_workers_def)
  have t1: "(worker_tx envs)\<^sup>*\<^sup>* d d1"
    unfolding d1_def using others worker_tx.tx_save_ttl rtranclp.rtrancl_into_rtrancl rtranclp_trans by metis
  have t2: "(worker_tx envs)\<^sup>*\<^sup>* d d2" unfolding d2_def using t1 others rtranclp_trans by metis
  from assms(1) consider
      (unlinked) e where "d' = d1" "res = Inl e"
    | (failed) e where "d' = d2" "res = Inl e"
    | (applied) cloud b where "applyStep env adapter operation step input before cloud d2 r = (r', Inr (d', b))" "res = Inr b"
    unfolding publishStep_def Let_def d1_def [symmetric] d2_def [symmetric] by (auto split: sum.splits prod.splits)
  then show ?thesis
  proof cases
    case applied
    then have "worker_tx envs d2 d'" using env by (auto simp: beside_workers_def intro: worker_tx.tx_apply)
    with t2 applied show ?thesis by (auto intro: applyStep_closed)
  qed (use t1 t2 in auto)
qed

lemma executeStep_txs:
  assumes exec: "executeStep env operation stale d r = (d', r', res)" and env: "beside_workers envs env"
    and ids: "distinct (map os_id (tb_operationSteps d))" "os_id stale \<in> os_id ` set (tb_operationSteps d)"
  shows "(worker_tx envs)\<^sup>*\<^sup>* d d' \<and> (res = Inr True \<longrightarrow> closed_in d' (os_id stale))"
proof -
  obtain step where step: "find_step d (os_id stale) = Some step"
    using ids(2) select_one_None [of "\<lambda>s. os_id s = os_id stale" "tb_operationSteps d"]
    by (cases "find_step d (os_id stale)") (auto simp: find_step_def)
  then have sid: "os_id step = os_id stale" by (rule find_step_id)
  from exec step consider
      (ended) "os_status step \<in> {StSucceeded, StFailed, StSkipped}" "d' = d"
    | (early) e where "d' = d" "res = Inl e"
    | (prepared) d1 b where "prepareStep (re_now env) operation step (re_others env 0 d) = (d1, b)"
        "d' = d1 \<and> res \<noteq> Inr True
         \<or> (\<exists>adapter input before r1. publishStep env adapter operation step input before d1 r1 = (d', r', res))"
    unfolding executeStep_def Let_def by (fastforce split: if_splits option.splits sum.splits prod.splits)
  then show ?thesis
  proof cases
    case ended
    then show ?thesis using find_step_closed [OF step _ ids(1)] by (auto simp: open_step_def)
  next
    case (prepared d1 b)
    have "(worker_tx envs)\<^sup>*\<^sup>* d (re_others env 0 d)" using env by (simp add: beside_workers_def)
    then have "(worker_tx envs)\<^sup>*\<^sup>* d d1" using prepareStep_tx [OF prepared(1)] by (rule rtranclp.rtrancl_into_rtrancl)
    with prepared(2) publishStep_txs [OF _ env] sid show ?thesis by (metis rtranclp_trans)
  qed auto
qed

end
