(* ===== verification/Operation_Safety.thy ===== *)
theory Operation_Safety
  imports Operations
begin

text \<open>
  What the operation worker guarantees, over any interleaving with other workers' transactions: an ended
  operation has no open step, a write to the provider has passed every fence, a succeeded step has been
  read back, and a retried create adopts the record its lost attempt left behind.
\<close>

section \<open>Finished is final\<close>

text \<open>C23: A finished operation stays finished: however many workers run, and however stale what they have read,
  no sequence of their transactions changes the status of an operation that has succeeded, failed,
  partially failed or been superseded.\<close>

theorem finished_operation_final:
  assumes "(worker_tx envs)\<^sup>*\<^sup>* d d'" and "distinct (map op_id (tb_operations d))"
  shows "ops_kept d d'"
  using assms
proof (induction rule: rtranclp_induct)
  case (step a b)
  then have "ops_kept d a" by blast
  with step have "distinct (map op_id (tb_operations a))" by (simp add: ops_kept_ids)
  with worker_tx_kept step \<open>ops_kept d a\<close> show ?case by (blast intro: ops_kept_trans)
qed simp

section \<open>The loop over the steps\<close>

text \<open>The rows a worker has read are the table's rows, perhaps from an earlier state of it.\<close>

definition read_from :: "Database \<Rightarrow> OperationStepRow list \<Rightarrow> bool" where
  "read_from d steps = list_all (\<lambda>s. list_ex (step_kept s) (tb_operationSteps d)) steps"

lemma step_kept_trans: "step_kept a b \<Longrightarrow> step_kept b c \<Longrightarrow> step_kept a c"
  by (auto simp: step_kept_def)

lemma read_from_kept: "read_from d steps \<Longrightarrow> steps_kept d d' \<Longrightarrow> read_from d' steps"
  unfolding read_from_def list_all_iff list_ex_iff by (meson step_kept_trans steps_kept_forth)

lemma read_from_id: "read_from d steps \<Longrightarrow> s \<in> set steps \<Longrightarrow> os_id s \<in> os_id ` set (tb_operationSteps d)"
  unfolding read_from_def list_all_iff list_ex_iff image_iff step_kept_def by metis

lemma read_from_settled:
  assumes "read_from d steps" and "s \<in> set steps" and "settled s" and "distinct (map os_id (tb_operationSteps d))"
  shows "closed_in d (os_id s)"
proof -
  from assms(1,2) obtain t where t: "t \<in> set (tb_operationSteps d)" "step_kept s t"
    by (auto simp: read_from_def list_all_iff list_ex_iff)
  with assms(3) have "os_id t = os_id s" "\<not> open_step t" by (auto simp: step_kept_def open_step_def settled_def)
  moreover have "x = t" if "x \<in> set (tb_operationSteps d)" "os_id x = os_id s" for x
    using that t assms(4) \<open>os_id t = os_id s\<close> by (metis inj_on_eq_iff distinct_map)
  ultimately show ?thesis by (auto simp: closed_in_def list_all_iff)
qed

lemma recordFailure_closed:
  assumes "recordFailure now job operation step e True d = Some d'" and "distinct (map os_id (tb_operationSteps d))"
  shows "closed_in d' (os_id step)"
proof -
  from assms(1) have "closed_in d' (os_id step) \<longleftrightarrow> closed_in (set_steps (\<lambda>s. os_id s = os_id step \<and> open_step s)
     (\<lambda>s. s\<lparr>os_status := StFailed, os_attempts := os_attempts step + 1, os_errorCode := Some (code_text (pe_code e)),
            os_errorDetail := Some (take 512 (pe_message e)), os_nextRetryAt := None, os_finishedAt := Some now\<rparr>) d) (os_id step)"
    by (auto simp: recordFailure_def Let_def closed_in_def split: if_splits)
  also have "\<dots>" by (rule set_steps_closed) (auto simp: open_step_def)
  finally show ?thesis by simp
qed

lemma failStep_txs:
  assumes "failStep env job operation step e d = (d', stop)" and "distinct (map os_id (tb_operationSteps d))"
  shows "(worker_tx envs)\<^sup>*\<^sup>* d d' \<and> (stop = None \<longrightarrow> closed_in d' (os_id step))"
proof -
  from assms(1) obtain pe final where
    "recordFailure (re_now env) job operation step pe final d = None \<and> d' = d \<and> stop \<noteq> None
     \<or> recordFailure (re_now env) job operation step pe final d = Some d' \<and> (stop = None \<longrightarrow> final)"
    unfolding failStep_def Let_def by (auto split: option.splits if_splits)
  then show ?thesis
    using worker_tx.tx_fail [of "re_now env" job operation step pe final d d' envs]
      recordFailure_closed [of "re_now env" job operation step pe d d', OF _ assms(2)] by auto
qed

lemma lockedStep_txs:
  assumes run: "lockedStep env operation step d r = (d', r', res)" and env: "beside_workers envs env"
    and ids: "distinct (map os_id (tb_operationSteps d))" "os_id step \<in> os_id ` set (tb_operationSteps d)"
  shows "(worker_tx envs)\<^sup>*\<^sup>* d d' \<and> (res = Inr True \<longrightarrow> closed_in d' (os_id step))"
proof (cases "re_zoneAcquired env")
  case True
  obtain d1 r1 res1 where exec: "executeStep env operation step d r = (d1, r1, res1)" by (metis prod_cases3)
  from run True exec have "d' = d1" "res = Inr True \<longrightarrow> res1 = Inr True"
    by (auto simp: lockedStep_def split: sum.splits if_splits)
  with executeStep_txs [OF exec env ids] show ?thesis by auto
qed (use run in \<open>auto simp: lockedStep_def\<close>)

text \<open>One step of the loop: unless the run stops there, the step is closed.\<close>

lemma runStep_txs:
  assumes run: "runStep env job operation step d r = (d', r', stop)" and env: "beside_workers envs env"
    and ids: "distinct (map os_id (tb_operationSteps d))" "os_id step \<in> os_id ` set (tb_operationSteps d)"
  shows "(worker_tx envs)\<^sup>*\<^sup>* d d' \<and> (stop = None \<longrightarrow> closed_in d' (os_id step))"
proof -
  obtain d1 r1 res where exec: "lockedStep env operation step d r = (d1, r1, res)" by (metis prod_cases3)
  note txs = lockedStep_txs [OF exec env ids]
  define d2 where "d2 = re_others env 4 d1"
  have "(worker_tx envs)\<^sup>*\<^sup>* d1 d2" using env by (simp add: beside_workers_def d2_def)
  with txs have t2: "(worker_tx envs)\<^sup>*\<^sup>* d d2" by (meson rtranclp_trans)
  then have ids2: "distinct (map os_id (tb_operationSteps d2))" using steps_kept_ids [OF worker_txs_steps [OF t2]] ids(1) by simp
  from run exec consider "res = Inr True" "d' = d1" | "d' = supersedeOperation (re_now env) (op_id operation) d2" "stop \<noteq> None"
    | e where "failStep env job operation step e d2 = (d', stop)"
    unfolding runStep_def d2_def by (cases res) (auto split: bool.splits prod.splits)
  then show ?thesis
  proof cases
    case 2
    with t2 show ?thesis using worker_tx.tx_supersede [of envs d2] by (auto intro: rtranclp.rtrancl_into_rtrancl)
  next
    case 3
    with t2 failStep_txs [OF 3 ids2] show ?thesis by (meson rtranclp_trans)
  qed (use txs in auto)
qed

lemma runSteps_txs:
  assumes "runSteps env job operation n steps d r = (d', r', outcome)"
    and "\<And>k. beside_workers envs (env k)" and "read_from d steps" and "distinct (map os_id (tb_operationSteps d))"
  shows "(worker_tx envs)\<^sup>*\<^sup>* d d' \<and> (outcome = None \<longrightarrow> (\<forall>s \<in> set steps. closed_in d' (os_id s)))"
  using assms
proof (induction steps arbitrary: n d r)
  case Nil
  then show ?case by simp
next
  case (Cons step steps)
  have rest: "read_from d steps" and mem: "step \<in> set (step # steps)" using Cons.prems(3) by (simp_all add: read_from_def)
  have go_on: "(worker_tx envs)\<^sup>*\<^sup>* d d' \<and> (outcome = None \<longrightarrow> (\<forall>s \<in> set (step # steps). closed_in d' (os_id s)))"
    if run: "runSteps env job operation (Suc n) steps x r1 = (d', r', outcome)" and tx: "(worker_tx envs)\<^sup>*\<^sup>* d x"
      and closed: "closed_in x (os_id step)" for x r1
  proof -
    have kept: "steps_kept d x" using tx by (rule worker_txs_steps)
    have "distinct (map os_id (tb_operationSteps x))" using kept Cons.prems(4) by (simp add: steps_kept_ids)
    with Cons.IH [OF run Cons.prems(2) read_from_kept [OF rest kept]]
    have ih: "(worker_tx envs)\<^sup>*\<^sup>* x d' \<and> (outcome = None \<longrightarrow> (\<forall>s \<in> set steps. closed_in d' (os_id s)))" by blast
    with worker_txs_steps have "closed_in d' (os_id step)" using closed closed_in_kept by blast
    with ih tx show ?thesis by (auto intro: rtranclp_trans)
  qed
  obtain d1 r1 stop where run: "runStep (env n) job operation step d r = (d1, r1, stop)" by (metis prod_cases3)
  note step = runStep_txs [OF run Cons.prems(2,4) read_from_id [OF Cons.prems(3) mem]]
  from Cons.prems(1) run consider (settled) "settled step" "runSteps env job operation (Suc n) steps d r = (d', r', outcome)"
    | (lost) "d' = d" "outcome \<noteq> None"
    | (next_step) "stop = None" "runSteps env job operation (Suc n) steps d1 r1 = (d', r', outcome)"
    | (stopped) "stop \<noteq> None" "d' = d1" "outcome \<noteq> None"
    by (cases stop) (auto split: if_splits)
  then show ?case
  proof cases
    case settled
    then show ?thesis using go_on [of d r] read_from_settled [OF Cons.prems(3) mem _ Cons.prems(4)] by simp
  next
    case next_step
    then show ?thesis using go_on [of d1 r1] step by simp
  qed (use step in auto)
qed

section \<open>The end of a run\<close>

lemma claimOperation_tx: "claimOperation now operation d = (d', b) \<Longrightarrow> worker_tx envs d d'"
  using worker_tx.tx_claim [of envs d now operation] by simp

lemma finalStatus_closed:
  assumes "\<forall>s \<in> set steps. \<not> open_step s"
  shows "finalStatus steps = OpSucceeded \<longleftrightarrow> list_all settled steps"
    and "finalStatus steps = OpFailed \<longleftrightarrow> steps \<noteq> [] \<and> list_all (\<lambda>s. os_status s = StFailed) steps"
proof -
  have closed: "settled s \<longleftrightarrow> os_status s \<noteq> StFailed" if "s \<in> set steps" for s
    using assms that by (cases "os_status s") (auto simp: open_step_def settled_def)
  then have "filter settled steps = filter (\<lambda>s. os_status s \<noteq> StFailed) steps" by (auto intro: filter_cong)
  with closed show "finalStatus steps = OpSucceeded \<longleftrightarrow> list_all settled steps"
    and "finalStatus steps = OpFailed \<longleftrightarrow> steps \<noteq> [] \<and> list_all (\<lambda>s. os_status s = StFailed) steps"
    by (cases steps; auto simp: finalStatus_def Let_def list_all_iff filter_empty_conv)+
qed

lemma runStep_never_ends: "runStep env job operation step d r = (d', r', Some outcome) \<Longrightarrow> outcome \<noteq> Ended status succeeded failed"
  by (auto simp: runStep_def lockedStep_def failStep_def Let_def split: prod.splits sum.splits bool.splits option.splits if_splits)

lemma runSteps_never_ends: "runSteps env job operation n steps d r = (d', r', stop) \<Longrightarrow> stop \<noteq> Some (Ended status succeeded failed)"
proof (induction steps arbitrary: n d r)
  case (Cons step steps)
  obtain d1 r1 stop' where run: "runStep (env n) job operation step d r = (d1, r1, stop')" by (metis prod_cases3)
  with Cons show ?case using runStep_never_ends [of "env n" job operation step d r d1 r1] by (cases stop') (auto split: if_splits)
qed simp

lemma finalizeOperation_Finalized:
  assumes "finalizeOperation env operation d = (d', Finalized status succeeded failed)"
  shows "tb_operationSteps d' = tb_operationSteps d"
    and "status = finalStatus (filter (\<lambda>s. os_operationId s = op_id operation) (tb_operationSteps d))"
    and "map_option op_status (find_operation d' (op_id operation)) = Some status"
proof -
  let ?steps = "filter (\<lambda>s. os_operationId s = op_id operation) (tb_operationSteps d)"
  define f :: "OperationRow \<Rightarrow> OperationRow" where "f = (\<lambda>o'. o'\<lparr>op_status := finalStatus ?steps, op_finishedAt := Some (re_now env),
     op_errorCode := (if 0 < length (filter (\<lambda>s. os_status s = StFailed) ?steps) then Some ''one_or_more_steps_failed''
       else op_errorCode o')\<rparr>)"
  have f: "op_id (f o') = op_id o'" "op_status (f o') = finalStatus ?steps" for o' by (simp_all add: f_def)
  have active: "lockActiveOperation d (op_id operation)" using assms by (auto simp: finalizeOperation_def split: if_splits)
  have status: "status = finalStatus ?steps" using assms by (auto simp: finalizeOperation_def Let_def split: if_splits)
  obtain deleting bs where
    d': "d' = fold (finalizeBinding env operation ?steps deleting) bs (set_operation (op_id operation) f d)"
    using assms by (auto simp: finalizeOperation_def Let_def f_def split: if_splits)
  show "tb_operationSteps d' = tb_operationSteps d" "status = finalStatus ?steps"
    by (simp_all add: d' status fold_finalizeBinding_steps)
  from active obtain a where "find_operation d (op_id operation) = Some a"
    by (auto simp: lockActiveOperation_def split: option.splits)
  with f have "find_operation d' (op_id operation) = Some (f a)"
    by (simp add: find_operation_def d' fold_finalizeBinding_operations select_one_update)
  with f status show "map_option op_status (find_operation d' (op_id operation)) = Some status" by simp
qed

lemma processLocked_Ended:
  assumes "processLocked env job i d r = (d', r', Ended status succeeded failed)"
  obtains operation d1 d2 r2 n where "find_operation d i = Some operation" "\<not> isTerminalOperationStatus (op_status operation)"
    "claimOperation (re_now (env 0)) operation (re_others (env 0) 5 d) = (d1, True)"
    "runSteps env job operation 0 (sort_key os_sequence (filter (\<lambda>s. os_operationId s = i) (tb_operationSteps d1))) d1 r = (d2, r2, None)"
    "finalizeOperation (env n) operation (re_others (env n) 6 d2) = (d', Finalized status succeeded failed)"
proof -
  from assms obtain operation where op: "find_operation d i = Some operation" "\<not> isTerminalOperationStatus (op_status operation)"
    "poolDecisionCurrent (re_others (env 0) 5 d) operation"
    by (auto simp: processLocked_def split: option.splits if_splits)
  obtain d1 b where claim: "claimOperation (re_now (env 0)) operation (re_others (env 0) 5 d) = (d1, b)" by fastforce
  define steps where "steps = sort_key os_sequence (filter (\<lambda>s. os_operationId s = i) (tb_operationSteps d1))"
  obtain d2 r2 stop where run: "runSteps env job operation 0 steps d1 r = (d2, r2, stop)" by (metis prod_cases3)
  have body: "(if \<not> b then (d1, r, NothingToDo) else (case stop of Some outcome \<Rightarrow> (d2, r2, outcome)
      | None \<Rightarrow> if \<not> re_operationOwned (env (length steps)) then (d2, r2, LeaseLost)
          else (case finalizeOperation (env (length steps)) operation (re_others (env (length steps)) 6 d2) of
                  (d3, Superseded) \<Rightarrow> (d3, r2, WasSuperseded)
                | (d3, Finalized status succeeded failed) \<Rightarrow> (d3, r2, Ended status succeeded failed))))
      = (d', r', Ended status succeeded failed)"
    using assms op claim run by (cases b; cases stop; cases "re_operationOwned (env (length steps))") (simp_all add: processLocked_def steps_def Let_def)
  have "stop = None"
  proof (rule ccontr)
    assume "stop \<noteq> None"
    with body have "stop = Some (Ended status succeeded failed)" by (auto split: if_splits)
    then show False using runSteps_never_ends [OF run] by simp
  qed
  with body show thesis
    by (intro that [OF op(1,2), of d1 d2 r2 "length steps"]) (use claim run steps_def in \<open>auto split: if_splits prod.splits Finalized.splits\<close>)
qed

text \<open>C24: An operation that ends has done all its steps: whatever other workers commit meanwhile, when a run ends an
  operation, none of its steps is pending or running, and its status is the verdict on them: succeeded
  exactly if every step succeeded or was skipped, failed exactly if all failed, partial otherwise.\<close>

theorem ended_operation_settled:
  assumes "processLocked env job i d r = (d', r', Ended status succeeded failed)"
    and "\<And>k. beside_workers envs (env k)"
    and "distinct (map os_id (tb_operationSteps d))" and "distinct (map op_id (tb_operations d))"
  shows "let steps = filter (\<lambda>s. os_operationId s = i) (tb_operationSteps d') in
    list_all (\<lambda>s. \<not> open_step s) steps
    \<and> (status = OpSucceeded \<longleftrightarrow> list_all settled steps)
    \<and> (status = OpFailed \<longleftrightarrow> steps \<noteq> [] \<and> list_all (\<lambda>s. os_status s = StFailed) steps)
    \<and> (status = OpPartial \<longleftrightarrow> list_ex settled steps \<and> list_ex (\<lambda>s. os_status s = StFailed) steps)
    \<and> map_option op_status (find_operation d' i) = Some status"
proof -
  obtain operation d1 d2 r2 n where op: "find_operation d i = Some operation"
    and claim: "claimOperation (re_now (env 0)) operation (re_others (env 0) 5 d) = (d1, True)"
    and run: "runSteps env job operation 0 (sort_key os_sequence (filter (\<lambda>s. os_operationId s = i) (tb_operationSteps d1))) d1 r = (d2, r2, None)"
    and fin: "finalizeOperation (env n) operation (re_others (env n) 6 d2) = (d', Finalized status succeeded failed)"
    using processLocked_Ended [OF assms(1)] by metis
  have i: "op_id operation = i" using select_one_Some [of "\<lambda>o'. op_id o' = i"] op by (auto simp: find_operation_def)
  have others: "(worker_tx envs)\<^sup>*\<^sup>* x (re_others (env m) k x)" for x m k using assms(2) by (simp add: beside_workers_def)
  have t1: "(worker_tx envs)\<^sup>*\<^sup>* d d1" using others claimOperation_tx [OF claim] by (rule rtranclp.rtrancl_into_rtrancl)
  let ?all = "filter (\<lambda>s. os_operationId s = i) (tb_operationSteps d1)"
  have "read_from d1 (sort_key os_sequence ?all)" by (auto simp: read_from_def list_all_iff list_ex_iff intro: step_kept_refl)
  moreover have "distinct (map os_id (tb_operationSteps d1))" using steps_kept_ids [OF worker_txs_steps [OF t1]] assms(3) by simp
  ultimately have closed: "\<forall>s \<in> set ?all. closed_in d2 (os_id s)" and t2: "(worker_tx envs)\<^sup>*\<^sup>* d1 d2"
    using runSteps_txs [OF run assms(2)] by auto
  let ?d3 = "re_others (env n) 6 d2"
  have k23: "steps_kept d2 ?d3" by (rule worker_txs_steps [OF others])
  have k13: "steps_kept d1 ?d3" using worker_txs_steps [OF t2] k23 by (rule steps_kept_trans)
  have open0: "\<not> open_step s" if s: "s \<in> set (tb_operationSteps ?d3)" "os_operationId s = i" for s
  proof -
    from steps_kept_back [OF k13 s(1)] obtain t where "t \<in> set (tb_operationSteps d1)" "step_kept t s" by blast
    with s(2) closed have "closed_in d2 (os_id s)" by (auto simp: step_kept_def)
    then have "closed_in ?d3 (os_id s)" using k23 by (rule closed_in_kept)
    with s show ?thesis by (auto simp: closed_in_def list_all_iff)
  qed
  let ?steps = "filter (\<lambda>s. os_operationId s = i) (tb_operationSteps ?d3)"
  have closed3: "\<forall>s \<in> set ?steps. \<not> open_step s" using open0 by auto
  note f = finalizeOperation_Finalized [OF fin, unfolded i]
  have partial: "finalStatus ?steps = OpPartial \<longleftrightarrow> list_ex settled ?steps \<and> list_ex (\<lambda>s. os_status s = StFailed) ?steps"
    by (auto simp: finalStatus_def Let_def list_ex_iff filter_empty_conv)
  show ?thesis
    unfolding Let_def f(1) using closed3 finalStatus_closed [OF closed3] partial f(2,3) by (simp add: list_all_iff)
qed

section \<open>Writes to the provider\<close>

lemma write_admitted:
  assumes "applyStep env adapter operation step input before cloud d r = (r', result)" and "r' \<noteq> r"
  shows "admitStep env adapter operation step input cloud d = Inr None"
  using assms by (cases "admitStep env adapter operation step input cloud d")
    (auto simp: applyStep_def thenS_def split: option.splits)

lemma admitted_checks:
  assumes "admitStep env adapter operation step input cloud d = Inr None"
  shows "\<forall>c. cloud = Some c \<longrightarrow> cg_check (re_cloud env) d c input = Inr ()"
    and "\<forall>a. address_write step input = Some a \<longrightarrow> \<not> cg_releasing (re_cloud env) d a"
  using assms by (auto simp: admitStep_def result_elims split: if_splits option.splits)


lemma verifyRemoteRecord_Inr:
  assumes "verifyRemoteRecord adapter zone i record r = (r', Inr v)"
  shows "ad_getRecord adapter r zone i = (r', Inr (Some v)) \<and> dnsRecordMatches v record"
  using assms by (auto simp: verifyRemoteRecord_def effect_elims provider_call_def split: option.splits if_splits prod.splits sum.splits)

lemma dispatchStep_write:
  assumes "dispatchStep n adapter step input before r = (r', Inr out)" and "os_action step \<noteq> ActDelete"
  obtains desired v r0 i where "si_record input = Some desired" "out = Some v"
    "ad_getRecord adapter r0 (si_zoneExternalId input) i = (r', Inr (Some v))" "dnsRecordMatches v desired"
proof (cases "os_action step")
  case ActCreate
  with assms obtain desired v r0 i where "si_record input = Some desired" "out = Some v"
      "verifyRemoteRecord adapter (si_zoneExternalId input) i desired r0 = (r', Inr v)"
    by (auto simp: dispatchStep_def effect_elims split: option.splits)
  then show ?thesis by (intro that [of desired v r0 i]) (auto dest: verifyRemoteRecord_Inr)
next
  case ActUpdate
  with assms obtain desired v r0 i where "si_record input = Some desired" "out = Some v"
      "verifyRemoteRecord adapter (si_zoneExternalId input) i desired r0 = (r', Inr v)"
    by (auto simp: dispatchStep_def effect_elims split: option.splits)
  then show ?thesis by (intro that [of desired v r0 i]) (auto dest: verifyRemoteRecord_Inr)
qed (use assms in simp)

lemma dispatchStep_delete:
  assumes "dispatchStep n adapter step input before r = (r', Inr out)" and "os_action step = ActDelete"
  obtains i r0 where "si_recordExternalId input = Some i" "out = None"
    "ad_getRecord adapter r0 (si_zoneExternalId input) i = (r', Inr None)"
proof -
  obtain i where i: "si_recordExternalId input = Some i" "out = None"
      "deleteRemoteRecordAndVerify adapter (si_zoneExternalId input) i r = (r', Inr ())"
    using assms by (auto simp: dispatchStep_def effect_elims split: option.splits)
  then obtain r0 where "provider_call (\<lambda>r. ad_getRecord adapter r (si_zoneExternalId input) i) r0 = (r', Inr None)"
    by (auto simp: deleteRemoteRecordAndVerify_def thenS_Inr split: if_splits)
  then have "ad_getRecord adapter r0 (si_zoneExternalId input) i = (r', Inr None)"
    by (auto simp: provider_call_def split: prod.splits sum.splits)
  with i that show ?thesis by blast
qed

lemma storeRecord_stores:
  assumes "storeRecord env step input (Some v) d = Inr (d', i)" and "os_action step \<noteq> ActDelete"
    and "\<And>i. os_dnsRecordId step = Some i \<Longrightarrow> i \<in> dr_id ` set (tb_dnsRecords d)"
  shows "\<exists>row \<in> set (tb_dnsRecords d'). Some (dr_id row) = i \<and> dr_zoneId row = os_zoneId step \<and> dr_externalId row = pr_externalId v
    \<and> dr_type row = pr_type v \<and> dr_name row = pr_name v \<and> dr_content row = pr_content v \<and> dr_remoteHash row = re_hash env v"
proof (cases "os_dnsRecordId step")
  case None
  with assms show ?thesis by (auto simp: storeRecord_def Let_def toDnsRecordValues_def split: if_splits)
next
  case (Some k)
  define row where "row = toDnsRecordValues env k (os_zoneId step) v
    (case si_management input of Some m \<Rightarrow> m | None \<Rightarrow> Unmanaged) (si_poolId input)"
  from assms(3) Some obtain x where "x \<in> set (tb_dnsRecords d)" "dr_id x = k" by auto
  then have "row \<in> set (update_where (\<lambda>x. dr_id x = k) (\<lambda>_. row) (tb_dnsRecords d))" by (auto simp: set_update_where)
  moreover have "d' = d\<lparr>tb_dnsRecords := update_where (\<lambda>x. dr_id x = k) (\<lambda>_. row) (tb_dnsRecords d)\<rparr>" "i = Some k"
    using assms(1,2) Some by (auto simp: storeRecord_def Let_def row_def split: if_splits)
  ultimately show ?thesis by (intro bexI [of _ row]) (simp_all add: row_def toDnsRecordValues_def)
qed

lemma storeOutcome_dnsRecords:
  assumes "storeOutcome env operation step input remote d = Inr d'"
  obtains d1 i where "storeRecord env step input remote d = Inr (d1, i)" "tb_dnsRecords d' = tb_dnsRecords d1"
proof (cases "storeRecord env step input remote d")
  case (Inr p)
  with assms that [of "fst p" "snd p"] show ?thesis
    by (auto simp: storeOutcome_def Let_def set_operation_def set_steps_def split: if_splits prod.splits)
qed (use assms in \<open>simp add: storeOutcome_def\<close>)

text \<open>C18: A step that writes a record succeeds only after the provider has shown the desired record: the last
  thing it did there was to read back a record that matches, and that record is what the step and the database
  keep.\<close>

theorem written_step_verified:
  assumes "applyStep env adapter operation step input before cloud d r = (r', Inr (d', True))"
    and "bindingFence d step input = None" and "os_action step \<noteq> ActDelete"
    and "os_id step \<in> os_id ` set (tb_operationSteps d)"
    and "\<forall>i. os_dnsRecordId step = Some i \<longrightarrow> i \<in> dr_id ` set (tb_dnsRecords d)"
  shows "\<exists>record v r0 i. si_record input = Some record \<and> dnsRecordMatches v record
    \<and> ad_getRecord adapter r0 (si_zoneExternalId input) i = (r', Inr (Some v))
    \<and> map_option (\<lambda>s. (os_status s, os_remoteSnapshot s)) (find_step d' (os_id step)) = Some (StSucceeded, Some v)
    \<and> (\<exists>row \<in> set (tb_dnsRecords d'). dr_zoneId row = os_zoneId step \<and> dr_externalId row = pr_externalId v
        \<and> dr_type row = pr_type v \<and> dr_name row = pr_name v \<and> dr_content row = pr_content v)"
proof -
  have "admitStep env adapter operation step input cloud d \<noteq> Inr (Some (d', True))"
    using assms(2) by (auto simp: admitStep_def result_elims split: if_splits option.splits)
  then obtain remote where dispatch: "dispatchStep (re_pages env) adapter step input before r = (r', Inr remote)"
    and store: "storeOutcome env operation step input remote d = Inr d'"
    using applyStep_cases [OF assms(1)] by blast
  obtain desired v r0 i where v: "si_record input = Some desired" "remote = Some v" "dnsRecordMatches v desired"
    "ad_getRecord adapter r0 (si_zoneExternalId input) i = (r', Inr (Some v))"
    using dispatchStep_write [OF dispatch assms(3)] by metis
  obtain d1 k where s1: "storeRecord env step input remote d = Inr (d1, k)" "tb_dnsRecords d' = tb_dnsRecords d1"
    by (rule storeOutcome_dnsRecords [OF store])
  obtain row where row: "row \<in> set (tb_dnsRecords d')" "dr_zoneId row = os_zoneId step" "dr_externalId row = pr_externalId v"
    "dr_type row = pr_type v" "dr_name row = pr_name v" "dr_content row = pr_content v"
    using storeRecord_stores [OF s1(1) [unfolded v(2)] assms(3)] assms(5) s1(2) by auto
  obtain f where f: "tb_operationSteps d' = update_where (\<lambda>s. os_id s = os_id step) f (tb_operationSteps d)"
    "\<And>s. os_id (f s) = os_id s" "\<And>s. os_status (f s) = StSucceeded" "\<And>s. os_remoteSnapshot (f s) = Some v"
    using storeOutcome_steps [OF store] v(2) by auto
  have "find_step d' (os_id step) = map_option f (find_step d (os_id step))"
    unfolding find_step_def f(1) by (rule select_one_update) (rule f(2))
  moreover have "find_step d (os_id step) \<noteq> None" using assms(4) by (auto simp: find_step_def select_one_None)
  ultimately have "map_option (\<lambda>s. (os_status s, os_remoteSnapshot s)) (find_step d' (os_id step)) = Some (StSucceeded, Some v)"
    using f by auto
  with v row show ?thesis by blast
qed

text \<open>A step that deletes a record succeeds only after the provider has shown it gone.\<close>

theorem deleted_step_verified:
  assumes "applyStep env adapter operation step input before cloud d r = (r', Inr (d', True))"
    and "os_action step = ActDelete"
  shows "\<exists>i r0. si_recordExternalId input = Some i \<and> ad_getRecord adapter r0 (si_zoneExternalId input) i = (r', Inr None)
    \<and> (\<forall>row \<in> set (tb_dnsRecords d'). os_dnsRecordId step = Some (dr_id row) \<longrightarrow>
         dr_deletedAt row = Some (re_now env) \<and> dr_management row = Unmanaged)"
proof -
  have "bindingFence d step input = None" using assms(2) by (auto simp: bindingFence_def split: option.splits)
  then have "admitStep env adapter operation step input cloud d \<noteq> Inr (Some (d', True))"
    by (auto simp: admitStep_def result_elims split: if_splits option.splits)
  then obtain remote where dispatch: "dispatchStep (re_pages env) adapter step input before r = (r', Inr remote)"
    and store: "storeOutcome env operation step input remote d = Inr d'"
    using applyStep_cases [OF assms(1)] by blast
  obtain d1 k where "storeRecord env step input remote d = Inr (d1, k)" "tb_dnsRecords d' = tb_dnsRecords d1"
    by (rule storeOutcome_dnsRecords [OF store])
  then have "\<forall>row \<in> set (tb_dnsRecords d'). os_dnsRecordId step = Some (dr_id row) \<longrightarrow>
         dr_deletedAt row = Some (re_now env) \<and> dr_management row = Unmanaged"
    using assms(2) by (auto simp: storeRecord_def split: option.splits dest!: update_where_row [where key = dr_id])
  with dispatchStep_delete [OF dispatch assms(2)] show ?thesis by metis
qed

text \<open>What the provider lists from a cursor on, page by page, without any change there.\<close>

fun lists :: "'r DnsProviderAdapter \<Rightarrow> 'r \<Rightarrow> string \<Rightarrow> string option \<Rightarrow> ProviderRecord list list \<Rightarrow> bool" where
  "lists adapter r zone cursor [] = False"
| "lists adapter r zone cursor (p # ps) = (case ad_listRecords adapter r zone cursor of
     (r', Inr page) \<Rightarrow> r' = r \<and> pg_items page = p
       \<and> (if ps = [] then pg_nextCursor page = None \<or> pg_nextCursor page = Some []
          else pg_nextCursor page \<noteq> None \<and> pg_nextCursor page \<noteq> Some [] \<and> lists adapter r zone (pg_nextCursor page) ps)
   | _ \<Rightarrow> False)"

lemma findMatchingRecord_lists:
  assumes "lists adapter r zone cursor ps" and "length ps \<le> n"
  shows "findMatchingRecord n adapter zone record cursor r = (r, Inr (find (\<lambda>x. dnsRecordMatches x record) (concat ps)))"
  using assms
proof (induction ps arbitrary: n cursor)
  case (Cons p ps)
  obtain m where n: "n = Suc m" using Cons.prems(2) by (cases n) auto
  obtain page where page: "ad_listRecords adapter r zone cursor = (r, Inr page)" "pg_items page = p"
    "if ps = [] then pg_nextCursor page = None \<or> pg_nextCursor page = Some []
          else pg_nextCursor page \<noteq> None \<and> pg_nextCursor page \<noteq> Some [] \<and> lists adapter r zone (pg_nextCursor page) ps"
    using Cons.prems(1) by (auto split: prod.splits sum.splits)
  have found: "find P (p @ rest) = (case find P p of None \<Rightarrow> find P rest | Some x \<Rightarrow> Some x)" for P and rest :: "ProviderRecord list"
    by (induction p) auto
  show ?case
  proof (cases "ps = []")
    case True
    with page n show ?thesis by (auto simp: thenS_def provider_call_def split: option.splits)
  next
    case False
    with page Cons.IH [of "pg_nextCursor page" m] Cons.prems(2) n show ?thesis
      by (auto simp: thenS_def provider_call_def found split: option.splits)
  qed
qed simp

text \<open>A create step whose answer was lost is not applied twice: on a retry, if the provider lists a record that
  matches the desired one on any page, the step adopts it and writes nothing.\<close>

theorem retried_create_adopts:
  assumes "os_action step = ActCreate" and "0 < os_attempts step" and "si_record input = Some record"
    and "lists adapter r (si_zoneExternalId input) None ps" and "length ps \<le> n"
    and "\<exists>x \<in> set (concat ps). dnsRecordMatches x record"
    and "\<forall>i. fst (ad_getRecord adapter r (si_zoneExternalId input) i) = r"
  shows "fst (dispatchStep n adapter step input before r) = r"
proof -
  obtain x where found: "find (\<lambda>x. dnsRecordMatches x record) (concat ps) = Some x"
    using assms(6) by (cases "find (\<lambda>x. dnsRecordMatches x record) (concat ps)") (auto simp: find_None_iff)
  have "fst (verifyRemoteRecord adapter (si_zoneExternalId input) i record r) = r" for i
    using assms(7) [THEN spec, of i]
    by (auto simp: verifyRemoteRecord_def thenS_def provider_call_def split: prod.splits sum.splits option.splits)
  with found assms(1-3) findMatchingRecord_lists [OF assms(4,5), of "record"] show ?thesis
    by (auto simp: dispatchStep_def thenS_def split: prod.splits sum.splits) (metis fst_conv)+
qed

section \<open>A run\<close>

text \<open>A provider that keeps what it is told; its identifiers count the records it has ever seen.\<close>

definition kept_record :: "string \<Rightarrow> string \<Rightarrow> DnsRecordInput \<Rightarrow> ProviderRecord" where
  "kept_record externalId zone r = \<lparr>pr_externalId = externalId, pr_zoneExternalId = zone, pr_type = type_text (di_type r), pr_name = di_name r,
     pr_content = di_content r, pr_ttl = di_ttl r, pr_priority = di_priority r, pr_providerMetadata = di_providerMetadata r\<rparr>"

definition memory_adapter :: "ProviderRecord list DnsProviderAdapter" where
  "memory_adapter = \<lparr>ad_provider = Cloudflare,
     ad_listRecords = (\<lambda>rs zone cursor. (rs, Inr \<lparr>pg_items = rs, pg_nextCursor = None\<rparr>)),
     ad_getRecord = (\<lambda>rs zone i. (rs, Inr (find (\<lambda>r. pr_externalId r = i) rs))),
     ad_createRecord = (\<lambda>rs zone r. let new = kept_record (nat_text (length rs)) zone r in (rs @ [new], Inr new)),
     ad_updateRecord = (\<lambda>rs zone i r. (map (\<lambda>x. if pr_externalId x = i then kept_record i zone r else x) rs, Inr (kept_record i zone r))),
     ad_deleteRecord = (\<lambda>rs zone i. (filter (\<lambda>x. pr_externalId x \<noteq> i) rs, Inr ()))\<rparr>"

definition run_record :: DnsRecordInput where
  "run_record = sample_input\<lparr>di_providerMetadata := []\<rparr>"

definition run_step_input :: StepInput where
  "run_step_input = \<lparr>si_zoneExternalId = ''z1'', si_recordExternalId = Some ''0'', si_record = Some run_record,
     si_management = None, si_poolId = None, si_bindingId = None, si_endpointId = None, si_assignmentMode = None,
     si_previousEndpointIds = None, si_deleteBinding = None, si_cloud = None, si_cleanupOldTtl = None\<rparr>"

definition run_step_row :: "OperationAction \<Rightarrow> OperationStepStatus \<Rightarrow> OperationStepRow" where
  "run_step_row action status = \<lparr>os_id = ''s1'', os_operationId = ''o1'', os_sequence = 1, os_providerAccountId = ''a1'',
     os_zoneId = ''zone'', os_dnsRecordId = None, os_action = action, os_status = status, os_input = Some run_step_input,
     os_remoteSnapshot = None, os_attempts = 0, os_nextRetryAt = None, os_errorCode = None, os_errorDetail = None,
     os_remoteRequestId = None, os_startedAt = None, os_finishedAt = None\<rparr>"

definition run_operation :: "OperationStatus \<Rightarrow> OperationRow" where
  "run_operation status = \<lparr>op_id = ''o1'', op_ownerUserId = ''u1'', op_actorUserId = None, op_source = UserSource,
     op_idempotencyKey = ''k'', op_resourceType = ''dns_record'', op_resourceId = None, op_policyRevision = None,
     op_decisionRevision = None, op_status = status, op_beforeSnapshot = JUndefined, op_desiredSnapshot = JUndefined,
     op_errorCode = None, op_startedAt = None, op_finishedAt = None\<rparr>"

definition run_database :: "OperationStatus \<Rightarrow> OperationAction \<Rightarrow> OperationStepStatus \<Rightarrow> Database" where
  "run_database status action stepStatus = \<lparr>tb_providerAccounts = [], tb_zones = [], tb_endpointPools = [], tb_endpoints = [],
     tb_endpointAddresses = [], tb_domainBindings = [], tb_dnsRecords = [], tb_bindingAssignments = [],
     tb_healthCheckConfigs = [], tb_operations = [run_operation status],
     tb_operationSteps = [run_step_row action stepStatus], tb_policyVersions = [], tb_auditLogs = [],
     tb_reconcileIntents = [], tb_bindingEndpointHealth = [], tb_failoverEvents = [], tb_cloud = no_cloud\<rparr>"

definition run_env :: "(ProviderRecord list, unit) RunEnv" where
  "run_env = \<lparr>re_now = 1000, re_newId = ''r1'', re_pages = 3, re_owned = (\<lambda>_. True), re_operationOwned = True, re_zoneAcquired = True,
     re_zoneKept = True,
     re_others = (\<lambda>_ d. d), re_adapter = (\<lambda>_ _. Inr memory_adapter), re_hash = pr_content,
     re_cloud = \<lparr>cg_lock = (\<lambda>_ _. Inr ()), cg_releasing = (\<lambda>_ _. False), cg_prepare = (\<lambda>_ _ _. Inr None), cg_check = (\<lambda>_ _ _. Inr ()),
       cg_links = (\<lambda>_ _. JNull)\<rparr>\<rparr>"

definition run_job :: OperationJob where
  "run_job = \<lparr>oj_attemptsMade = 0, oj_maxAttempts = 5\<rparr>"

definition applied_run :: "OperationAction \<Rightarrow> ProviderRecord list \<Rightarrow> ProviderRecord list \<times> (OperationError + Database \<times> bool)" where
  "applied_run action = applyStep run_env memory_adapter (run_operation OpRunning) (run_step_row action StRunning) run_step_input None None
     (run_database OpRunning action StRunning)"

fun run_result :: "'r \<times> (OperationError + Database \<times> bool) \<Rightarrow> ('r \<times> bool) option" where
  "run_result (r, Inr (d, b)) = Some (r, b)"
| "run_result (r, Inl e) = None"

lemma run_result_Some: "run_result out = Some (r, b) \<Longrightarrow> \<exists>d. out = (r, Inr (d, b))"
  by (cases out rule: run_result.cases) auto

lemma create_run: "run_result (applied_run ActCreate []) = Some ([kept_record ''0'' ''z1'' run_record], True)"
  by code_simp

lemma delete_run: "run_result (applied_run ActDelete [kept_record ''0'' ''z1'' run_record]) = Some ([], True)"
  by code_simp

lemma whole_run: "snd (snd (processLocked (\<lambda>_. run_env) run_job ''o1'' (run_database OpPending ActCreate StPending) [])) = Ended OpSucceeded 1 0"
  by code_simp

theorem finished_operation_final_witness:
  "ops_kept (run_database OpFailed ActCreate StFailed) (supersedeOperation 5 ''o1'' (run_database OpFailed ActCreate StFailed))
    \<and> isTerminalOperationStatus OpFailed"
proof -
  have "(worker_tx {run_env})\<^sup>*\<^sup>* (run_database OpFailed ActCreate StFailed)
      (supersedeOperation 5 ''o1'' (run_database OpFailed ActCreate StFailed))"
    by (rule r_into_rtranclp) (rule worker_tx.tx_supersede)
  from finished_operation_final [OF this] show ?thesis by (simp add: run_database_def isTerminalOperationStatus_def)
qed

theorem ended_operation_settled_witness:
  "case processLocked (\<lambda>_. run_env) run_job ''o1'' (run_database OpPending ActCreate StPending) [] of
     (d', r', Ended status succeeded failed) \<Rightarrow>
       status = OpSucceeded \<and> list_all settled (filter (\<lambda>s. os_operationId s = ''o1'') (tb_operationSteps d'))
   | _ \<Rightarrow> False"
proof -
  obtain d' r' where run: "processLocked (\<lambda>_. run_env) run_job ''o1'' (run_database OpPending ActCreate StPending) []
      = (d', r', Ended OpSucceeded 1 0)"
    using whole_run by (metis prod.collapse)
  have "beside_workers {run_env} run_env" by (simp add: beside_workers_def run_env_def)
  from ended_operation_settled [OF run this] run show ?thesis by (simp add: run_database_def Let_def)
qed


theorem written_step_verified_witness:
  "\<exists>d'. applied_run ActCreate [] = ([kept_record ''0'' ''z1'' run_record], Inr (d', True))
    \<and> (\<exists>row \<in> set (tb_dnsRecords d'). dr_externalId row = ''0'' \<and> dr_content row = ''192.0.2.1'')"
proof -
  obtain d where run: "applied_run ActCreate [] = ([kept_record ''0'' ''z1'' run_record], Inr (d, True))"
    using run_result_Some [OF create_run] by blast
  from written_step_verified [OF this [unfolded applied_run_def]]
  obtain v r0 i row where "ad_getRecord memory_adapter r0 (si_zoneExternalId run_step_input) i
      = ([kept_record ''0'' ''z1'' run_record], Inr (Some v))" "row \<in> set (tb_dnsRecords d)"
    "dr_externalId row = pr_externalId v" "dr_content row = pr_content v"
    by (auto simp: bindingFence_def run_step_input_def run_step_row_def run_database_def)
  then have "v = kept_record ''0'' ''z1'' run_record \<and> row \<in> set (tb_dnsRecords d)"
    by (auto simp: memory_adapter_def split: if_splits)
  with run \<open>dr_externalId row = pr_externalId v\<close> \<open>dr_content row = pr_content v\<close> show ?thesis
    by (auto simp: kept_record_def run_record_def sample_input_def)
qed

theorem deleted_step_verified_witness:
  "\<exists>d'. applied_run ActDelete [kept_record ''0'' ''z1'' run_record] = ([], Inr (d', True))
    \<and> (\<exists>i r0. Some i = Some ''0'' \<and> ad_getRecord memory_adapter r0 ''z1'' i = ([], Inr None))"
proof -
  obtain d where run: "applied_run ActDelete [kept_record ''0'' ''z1'' run_record] = ([], Inr (d, True))"
    using run_result_Some [OF delete_run] by blast
  from deleted_step_verified [OF this [unfolded applied_run_def]] run show ?thesis
    by (auto simp: run_step_input_def run_step_row_def)
qed

theorem retried_create_adopts_witness:
  "fst (dispatchStep 3 memory_adapter (run_step_row ActCreate StRunning\<lparr>os_attempts := 1\<rparr>) run_step_input None
     [kept_record ''7'' ''z1'' run_record]) = [kept_record ''7'' ''z1'' run_record]"
proof (rule retried_create_adopts)
  show "\<exists>x \<in> set (concat [[kept_record ''7'' ''z1'' run_record]]). dnsRecordMatches x run_record" by code_simp
qed (simp_all add: run_step_row_def run_step_input_def memory_adapter_def)

end
