(* ===== verification/Cloud_Publication.thy ===== *)
theory Cloud_Publication
  imports Rotation_Context Operation_Safety
begin

text \<open>
  The publication of a cloud address: which remote address is the stored one
  (\<open>packages/cloud-providers/src/workflow-policy.ts\<close>), when a publication is admitted
  (\<open>rotation-publication.service.ts\<close>), which addresses are being released (\<open>packages/db/src/idle-ip-guards.ts\<close>), and
  the checks the operation worker makes on a cloud-linked step
  (\<open>operation.processor.ts\<close>), as an instance of the gate that \<open>Operations\<close> takes as a parameter. The live inventory
  read from the provider and PostgreSQL's comparison of addresses are parameters.
\<close>

section \<open>Live inventory\<close>

record LiveAddress =
  la_address :: string
  la_family :: Family
  la_allocationId :: json
  la_resourceId :: json
  la_metadata :: json
  la_primary :: bool
  la_privateAddress :: json
  la_prefixLength :: json

record LiveInterface =
  lf_id :: string
  lf_deviceIndex :: json
  lf_metadata :: json
  lf_addresses :: "LiveAddress list"

record LiveInventory =
  li_accountId :: string
  li_instanceId :: string
  li_region :: string
  li_service :: CloudService
  li_interfaces :: "LiveInterface list"
  li_nativeName :: json
  li_name :: string
  li_state :: string
  li_ipv6Only :: json
  li_metadata :: json

text \<open>What \<open>!value\<close> tests.\<close>

fun falsy :: "json \<Rightarrow> bool" where
  "falsy JUndefined = True" | "falsy JNull = True" | "falsy (JBool b) = (\<not> b)" | "falsy (JStr s) = (s = [])"
| "falsy (JNum n) = (n = NaN \<or> num_eq n (num_of_int 0))" | "falsy _ = False"

definition as_record :: "json \<Rightarrow> json" where
  "as_record v = (case v of JObj es \<Rightarrow> JObj es | _ \<Rightarrow> JUndefined)"

definition publicationAddressMatches :: "CloudAddressRow \<Rightarrow> LiveAddress \<Rightarrow> bool" where
  "publicationAddressMatches saved observed = (let metadata = JObj (cd_metadata saved);
       providerMetadata = as_record (json_get metadata ''providerMetadata'');
       identity = json_get metadata ''allocationIdentity'';
       resourceId = json_get metadata ''resourceId'';
       guid = json_get providerMetadata ''resourceGuid''
     in la_address observed = cd_address saved
        \<and> (case cd_remoteAllocationId saved of None \<Rightarrow> True | Some a \<Rightarrow> a = [] \<or> json_same (la_allocationId observed) (JStr a))
        \<and> (falsy resourceId \<or> json_same (la_resourceId observed) resourceId)
        \<and> (falsy guid \<or> json_same (json_get (la_metadata observed) ''resourceGuid'') guid)
        \<and> (falsy identity \<or> json_same (la_allocationId observed) (json_get identity ''allocationId'')
              \<and> json_same (la_resourceId observed) (json_get identity ''resourceId'')
              \<and> json_same (json_get (la_metadata observed) ''resourceGuid'') (json_get identity ''resourceGuid'')))"

definition azurePublicationAddressMatches :: "CloudAddressRow \<Rightarrow> LiveAddress \<Rightarrow> bool" where
  "azurePublicationAddressMatches saved observed = (let metadata = JObj (cd_metadata saved);
       identity = json_get metadata ''allocationIdentity'';
       guid = (if falsy identity then json_get (as_record (json_get metadata ''providerMetadata'')) ''resourceGuid''
               else json_get identity ''resourceGuid'')
     in \<not> ((\<not> falsy identity \<or> cd_origin saved = SystemOrigin) \<and> falsy guid) \<and> publicationAddressMatches saved observed)"

definition workflowAddressMatches :: "CloudService \<Rightarrow> CloudAddressRow \<Rightarrow> LiveAddress \<Rightarrow> bool" where
  "workflowAddressMatches service = (if service = AzureVm then azurePublicationAddressMatches else publicationAddressMatches)"

definition livePublicationMatches :: "RotationContext \<Rightarrow> LiveInventory \<Rightarrow> bool" where
  "livePublicationMatches c live = (case (cx_address c, cx_iface c) of
     (Some address, Some iface) \<Rightarrow>
       li_accountId live = ca_id (cx_account c) \<and> li_instanceId live = cin_externalId (cx_instance c)
       \<and> li_region live = cin_region (cx_instance c) \<and> li_service live = cin_service (cx_instance c)
       \<and> list_ex (\<lambda>i. lf_id i = cif_externalId iface
            \<and> list_ex (\<lambda>a. la_family a = ms_family (cx_slot c) \<and> workflowAddressMatches (cin_service (cx_instance c)) address a) (lf_addresses i))
          (li_interfaces live)
   | _ \<Rightarrow> False)"

section \<open>Admission of a publication\<close>

record PublicationEvidence =
  pe_health :: RotationHealth
  pe_manualIncidentId :: "string option"

text \<open>The incident of a publication, checked against the context: the long condition of the source.\<close>

definition incidentChanged :: "RotationContext \<Rightarrow> RotationHealth \<Rightarrow> RotationIncidentRow \<Rightarrow> bool \<Rightarrow> RotationPolicyRow \<Rightarrow> InstanceAuthorizationRow \<Rightarrow> bool" where
  "incidentChanged c h incident completedManual policy authorization =
    (ri_slotId incident \<noteq> ms_id (cx_slot c) \<or> ri_physicalKey incident \<noteq> cx_physicalKey c \<or> ri_pausedByUserId incident \<noteq> None
     \<or> ri_status incident \<noteq> IncActive \<and> \<not> completedManual
     \<or> ri_addressVersion incident \<noteq> cx_addressVersion c \<or> ri_authorizationRevision incident \<noteq> ia_revision authorization
     \<or> ri_rotationPolicyRevision incident \<noteq> rp_revision policy
     \<or> (if ri_rotationTrigger incident = ManualTrigger then ri_phase incident \<notin> {PublishPhase, CleanupPhase, CompletePhase}
        else \<not> healthRevisionMatches (incident_json incident) h))"

definition contextChanged ::
  "RotationContext \<Rightarrow> RotationHealth \<Rightarrow> RotationIncidentRow option \<Rightarrow> InstanceAuthorizationRow \<Rightarrow> json \<Rightarrow> bool" where
  "contextChanged c h incident authorization ctx =
    (\<not> json_same (json_get ctx ''physicalKey'') (JStr (cx_physicalKey c))
     \<or> \<not> json_same (json_get ctx ''authorizationRevision'') (JNum (num_of_int (ia_revision authorization)))
     \<or> (case incident of
          Some i \<Rightarrow> if ri_rotationTrigger i = ManualTrigger
            then \<not> json_same (json_get ctx ''manualIncidentId'') (JStr (ri_incidentId i)) else \<not> healthRevisionMatches ctx h
        | None \<Rightarrow> \<not> healthRevisionMatches ctx h))"

text \<open>The checks that a publication of an incident adds. \<open>type_error\<close>: the source reads the policy's revision
  without asking whether there is a policy.\<close>

definition assertPublicationIncident ::
  "RotationContext \<Rightarrow> RotationHealth \<Rightarrow> RotationPublicationRow \<Rightarrow> RotationIncidentRow option \<Rightarrow> InstanceAuthorizationRow \<Rightarrow> CodeError + unit" where
  "assertPublicationIncident c h publication incident authorization =
    (let manual = (case incident of Some i \<Rightarrow> ri_rotationTrigger i = ManualTrigger | None \<Rightarrow> False);
         trigger = (case incident of Some i \<Rightarrow> ri_rotationTrigger i | None \<Rightarrow> HealthTrigger) in
     bindE (guardE (\<not> (case incident of Some i \<Rightarrow> (case ri_recoveryRetryAt i of Some t \<Rightarrow> rh_now h < t | None \<Rightarrow> False) | None \<Rightarrow> False))
       ''publication_recovery_wait'') (\<lambda>_.
     bindE (case rotationAuthorizationError c trigger of Some e \<Rightarrow> Inl e | None \<Rightarrow> Inr ()) (\<lambda>_.
     case incident of
       None \<Rightarrow> Inl ''publication_incident_changed''
     | Some i \<Rightarrow>
        (let completedManual = (manual \<and> ri_status i = IncComplete \<and> pb_status publication = PbApplied) in
         case cx_policy c of
           None \<Rightarrow> if ri_slotId i \<noteq> ms_id (cx_slot c) \<or> ri_physicalKey i \<noteq> cx_physicalKey c \<or> ri_pausedByUserId i \<noteq> None
               \<or> ri_status i \<noteq> IncActive \<and> \<not> completedManual \<or> ri_addressVersion i \<noteq> cx_addressVersion c
               \<or> ri_authorizationRevision i \<noteq> ia_revision authorization
             then Inl ''publication_incident_changed'' else Inl ''type_error''
         | Some policy \<Rightarrow>
             bindE (guardE (\<not> incidentChanged c h i completedManual policy authorization) ''publication_incident_changed'') (\<lambda>_.
             bindE (guardE (\<not> (manual \<and> (ms_family (cx_slot c) \<noteq> V4
               \<or> \<not> supportsRotationTrigger (ca_provider (cx_account c)) (cin_service (cx_instance c)) ManualTrigger)))
               ''manual_rotation_unsupported'') (\<lambda>_.
             guardE (\<not> (completedManual \<and> rh_configured h \<and> \<not> rh_success h)) ''fresh_external_success_required''))))))"

definition assertPublicationContext ::
  "int \<Rightarrow> Database \<Rightarrow> RotationContext \<Rightarrow> RotationPublicationRow option \<Rightarrow> CodeError + PublicationEvidence" where
  "assertPublicationContext now d c publication =
    bindE (guardE (\<not> (case publication of Some p \<Rightarrow> pb_errorCode p = Some ''manual_terminated'' | None \<Rightarrow> False)) ''manual_terminated'') (\<lambda>_.
    bindE (case publicationAuthorizationError c of Some e \<Rightarrow> Inl e | None \<Rightarrow> Inr ()) (\<lambda>_.
    let h = lockRotationHealth now d c;
        incident = Option.bind (Option.bind publication pb_incidentId) (\<lambda>i. select_one (\<lambda>x. ri_incidentId x = i) (ct_incidents (tb_cloud d)));
        manual = (case incident of Some i \<Rightarrow> ri_rotationTrigger i = ManualTrigger | None \<Rightarrow> False) in
    bindE (guardE (\<not> (case incident of Some i \<Rightarrow> ri_terminatedAt i \<noteq> None | None \<Rightarrow> False)) ''manual_terminated'') (\<lambda>_.
    bindE (guardE (manual \<or> rh_success h) ''fresh_external_success_required'') (\<lambda>_.
    bindE (guardE (case publication of Some p \<Rightarrow> Some (pb_addressId p) = map_option cd_id (cx_address c)
        \<and> pb_addressVersion p = cx_addressVersion c | None \<Rightarrow> True) ''publication_version_changed'') (\<lambda>_.
    if (case publication of Some p \<Rightarrow> pb_status p = PbApplied \<and> rh_success h | None \<Rightarrow> False)
    then Inr \<lparr>pe_health = h, pe_manualIncidentId = None\<rparr>
    else (case (publication, cx_authorization c) of
        (Some p, Some authorization) \<Rightarrow>
          bindE (guardE (case pb_context p of Some ctx \<Rightarrow> \<not> contextChanged c h incident authorization ctx | None \<Rightarrow> True)
            ''publication_authorization_changed'') (\<lambda>_.
          bindE (if pb_incidentId p \<noteq> None then assertPublicationIncident c h p incident authorization else Inr ()) (\<lambda>_.
          Inr \<lparr>pe_health = h, pe_manualIncidentId = (if manual then map_option ri_incidentId incident else None)\<rparr>))
      | _ \<Rightarrow> Inr \<lparr>pe_health = h, pe_manualIncidentId = None\<rparr>))))))"

definition publicationEvidence :: "PublicationEvidence \<Rightarrow> CodeError + (string \<times> json) list" where
  "publicationEvidence e = (case pe_manualIncidentId e of
     Some i \<Rightarrow> Inr [(''manualIncidentId'', JStr i)]
   | None \<Rightarrow> bindE (healthRevisions (pe_health e)) (\<lambda>h. Inr (epoch_json h)))"

definition publicationEvidenceMatches :: "json \<Rightarrow> PublicationEvidence \<Rightarrow> bool" where
  "publicationEvidenceMatches ctx e = (case pe_manualIncidentId e of
     Some i \<Rightarrow> json_same (json_get ctx ''manualIncidentId'') (JStr i)
   | None \<Rightarrow> healthRevisionMatches ctx (pe_health e))"

section \<open>Addresses that are being released\<close>

definition instanceLifecycleAddressDeleting :: "(string \<Rightarrow> string \<Rightarrow> bool) \<Rightarrow> CloudTables \<Rightarrow> string \<Rightarrow> bool" where
  "instanceLifecycleAddressDeleting same_inet t address = list_ex (\<lambda>o'. lo_action o' = DeleteAction \<and> lifecycle_active (lo_status o')
     \<and> list_ex (\<lambda>a. same_inet a address) (lo_protectedAddresses o')) (ct_lifecycleOperations t)"

definition idleIpAddressReleasing :: "(string \<Rightarrow> string \<Rightarrow> bool) \<Rightarrow> CloudTables \<Rightarrow> string \<Rightarrow> bool" where
  "idleIpAddressReleasing same_inet t address =
    (instanceLifecycleAddressDeleting same_inet t address
     \<or> list_ex (\<lambda>b. list_ex (\<lambda>(region, a, status). a = address \<and> (status = IdlePending \<or> status = IdleInFlight)) (ii_items b)) (ct_idleIpCleanups t)
     \<or> list_ex (\<lambda>r. same_inet (re_address r) address
          \<and> list_ex (\<lambda>s. re_cleanupStepId r = Some (st_id s) \<and> st_status s \<in> {SsInFlight, SsPending, SsAmbiguous}) (ct_steps t)) (ct_resources t))"

section \<open>The gate of the operation worker\<close>

text \<open>What the step read before its transaction: the context, and the live inventory if the runtime is there.\<close>

record CloudStepContext =
  cc_context :: RotationContext
  cc_live :: "LiveInventory option"

definition record_family :: "StepInput \<Rightarrow> Family" where
  "record_family input = (case si_record input of Some r \<Rightarrow> if di_type r = TypeAAAA then V6 else V4 | None \<Rightarrow> V4)"

definition code_error :: "CodeError + 'a \<Rightarrow> OperationError + 'a" where
  "code_error r = (case r of Inl _ \<Rightarrow> Inl UnexpectedError | Inr a \<Rightarrow> Inr a)"

definition validation_error :: "ProviderType \<Rightarrow> string \<Rightarrow> OperationError" where
  "validation_error provider message = FromProvider (newProviderError message ValidationFailed provider None None)"

text \<open>A static address that was kept when its cloud link was removed is published as it is.\<close>

definition retained_static :: "Database \<Rightarrow> StepInput \<Rightarrow> EndpointRow \<Rightarrow> bool" where
  "retained_static d input endpoint = (case si_record input of None \<Rightarrow> False
     | Some r \<Rightarrow> list_ex (\<lambda>a. ea_endpointId a = en_id endpoint \<and> ea_family a = record_family input \<and> ea_state a = CurrentAddress
          \<and> ea_source a = StaticMode \<and> ea_address a = di_content r) (tb_endpointAddresses d))"

definition prepareCloud ::
  "physical_key \<Rightarrow> (RotationContext \<Rightarrow> OperationError + LiveInventory option) \<Rightarrow> ProviderType \<Rightarrow> Database \<Rightarrow> StepInput \<Rightarrow> EndpointRow
    \<Rightarrow> OperationError + CloudStepContext option" where
  "prepareCloud pk inspect provider d input endpoint =
    (let link = select_one (\<lambda>l. cl_endpointId l = en_id endpoint \<and> cl_family l = record_family input) (ct_links (tb_cloud d)) in
     if link = None \<and> si_cloud input = None \<and> retained_static d input endpoint then Inr None
     else (case (link, si_cloud input) of
        (Some l, Some cloud) \<Rightarrow>
          if \<not> json_same (json_get cloud ''slotId'') (JStr (cl_slotId l)) then Inl (validation_error provider ''Cloud publication identity is missing'')
          else bindE (code_error (lockRotationContext pk (tb_cloud d) (cl_slotId l))) (\<lambda>c.
               bindE (inspect c) (\<lambda>live. Inr (Some \<lparr>cc_context = c, cc_live = live\<rparr>)))
      | _ \<Rightarrow> Inl (validation_error provider ''Cloud publication identity is missing'')))"

definition publication_of :: "CloudTables \<Rightarrow> StepInput \<Rightarrow> RotationPublicationRow option" where
  "publication_of t input = (case si_cloud input of None \<Rightarrow> None
     | Some cloud \<Rightarrow> (case json_get cloud ''publicationId'' of JStr i \<Rightarrow> select_one (\<lambda>p. pb_id p = i) (ct_publications t) | _ \<Rightarrow> None))"

text \<open>The publication the assertion is given: a finished one is held to its incident only when that was manual.\<close>

definition asserted_publication :: "RotationPublicationRow \<Rightarrow> RotationPublicationRow option" where
  "asserted_publication p = (if (case pb_context p of Some ctx \<Rightarrow> \<not> falsy (json_get ctx ''manualIncidentId'') | None \<Rightarrow> False)
       \<or> pb_status p \<noteq> PbApplied then Some p else None)"

definition cloudPublicationCurrent ::
  "Database \<Rightarrow> CloudStepContext \<Rightarrow> RotationContext \<Rightarrow> StepInput \<Rightarrow> PublicationEvidence \<Rightarrow> bool" where
  "cloudPublicationCurrent d cloud c input h =
    ((case cc_live cloud of Some live \<Rightarrow> livePublicationMatches c live | None \<Rightarrow> False)
     \<and> ca_credentialCiphertext (cx_account c) = ca_credentialCiphertext (cx_account (cc_context cloud))
     \<and> ms_candidateAddressId (cx_slot c) = None
     \<and> list_ex (\<lambda>l. Some (cl_endpointId l) = si_endpointId input \<and> cl_family l = ms_family (cx_slot c) \<and> cl_slotId l = ms_id (cx_slot c)) (ct_links (tb_cloud d))
     \<and> list_ex (\<lambda>p. Some (ep_id p) = si_poolId input \<and> ep_ownerUserId p = ca_ownerUserId (cx_account c)) (tb_endpointPools d)
     \<and> map_option cd_address (cx_address c) = map_option di_content (si_record input)
     \<and> (case (si_cloud input, cx_address c, cx_authorization c) of
          (Some cloud', Some address, Some authorization) \<Rightarrow>
             json_same (json_get cloud' ''addressId'') (JStr (cd_id address))
             \<and> json_same (json_get cloud' ''addressVersion'') (JNum (num_of_int (cx_addressVersion c)))
             \<and> json_same (json_get cloud' ''authorizationRevision'') (JNum (num_of_int (ia_revision authorization)))
             \<and> json_same (json_get cloud' ''physicalKey'') (JStr (cx_physicalKey c))
             \<and> publicationEvidenceMatches cloud' h
        | _ \<Rightarrow> False))"

definition checkCloud ::
  "physical_key \<Rightarrow> int \<Rightarrow> ProviderType \<Rightarrow> Database \<Rightarrow> CloudStepContext \<Rightarrow> StepInput \<Rightarrow> OperationError + unit" where
  "checkCloud pk now provider d cloud input = (let t = tb_cloud d in
    bindE (code_error (lockRotationContext pk t (ms_id (cx_slot (cc_context cloud))))) (\<lambda>c.
    bindE (guardE (\<not> list_ex (\<lambda>l. le_physicalKey l = cx_physicalKey c \<and> le_unresolvedStepId l \<noteq> None) (ct_leases t))
      (FromProvider (newProviderError ''Cloud mutation still requires observation'' TransientFailure provider None None))) (\<lambda>_.
    case publication_of t input of
      None \<Rightarrow> Inl (validation_error provider ''Cloud publication is missing or superseded'')
    | Some p \<Rightarrow>
        bindE (guardE (\<not> (pb_errorCode p = Some ''manual_terminated'' \<or> pb_slotId p \<noteq> ms_id (cx_slot c) \<or> pb_addressVersion p \<noteq> cx_addressVersion c))
          (validation_error provider ''Cloud publication is missing or superseded'')) (\<lambda>_.
        bindE (code_error (assertPublicationContext now d c (asserted_publication p))) (\<lambda>h.
        guardE (cloudPublicationCurrent d cloud c input h)
          (validation_error provider ''Cloud publication authorization or address changed''))))))"

definition masterCloudGate ::
  "physical_key \<Rightarrow> (string \<Rightarrow> string \<Rightarrow> bool) \<Rightarrow> (RotationContext \<Rightarrow> OperationError + LiveInventory option) \<Rightarrow> (Database \<Rightarrow> string \<Rightarrow> json)
    \<Rightarrow> int \<Rightarrow> ProviderType \<Rightarrow> CloudStepContext CloudGate" where
  "masterCloudGate pk same_inet inspect links now provider =
    \<lparr>cg_lock = (\<lambda>d cloud. bindE (code_error (lockRotationContext pk (tb_cloud d) (ms_id (cx_slot (cc_context cloud))))) (\<lambda>_. Inr ())),
     cg_releasing = (\<lambda>d address. idleIpAddressReleasing same_inet (tb_cloud d) address),
     cg_prepare = prepareCloud pk inspect provider,
     cg_check = checkCloud pk now provider,
     cg_links = links\<rparr>"

section \<open>A cloud address in DNS\<close>

lemma code_error_Inr [simp]: "code_error r = Inr a \<longleftrightarrow> r = Inr a"
  by (cases r) (simp_all add: code_error_def)

lemma checkCloud_Inr:
  assumes "checkCloud pk now provider d cloud input = Inr ()"
  obtains c p h where "lockRotationContext pk (tb_cloud d) (ms_id (cx_slot (cc_context cloud))) = Inr c"
    "\<forall>l \<in> set (ct_leases (tb_cloud d)). le_physicalKey l = cx_physicalKey c \<longrightarrow> le_unresolvedStepId l = None"
    "publication_of (tb_cloud d) input = Some p" "pb_errorCode p \<noteq> Some ''manual_terminated''"
    "pb_slotId p = ms_id (cx_slot c)" "pb_addressVersion p = cx_addressVersion c"
    "assertPublicationContext now d c (asserted_publication p) = Inr h" "cloudPublicationCurrent d cloud c input h"
  using assms by (auto simp: checkCloud_def Let_def result_elims list_ex_iff split: option.splits)

lemma asserted_cases: "asserted_publication p = Some p \<or> asserted_publication p = None"
  by (simp add: asserted_publication_def)

lemma rh_success_evidence:
  assumes "rh_success (lockRotationHealth now d c)"
  shows "\<exists>p k g s. p \<in> set (ct_healthPolicies (tb_cloud d)) \<and> s \<in> set (ct_healthStates (tb_cloud d))
    \<and> hs_slotId s = Some (ms_id (cx_slot c)) \<and> health_matches c p k g s
    \<and> hs_latestDecision s = RoundSuccess \<and> (\<exists>t. hs_evidenceExpiresAt s = Some t \<and> now < t)
    \<and> hs_healthState s = Healthy \<and> hp_successThreshold p \<le> hs_consecutiveSuccesses s"
  using assms
  by (auto simp: lockRotationHealth_def Let_def hasFreshHealthEvidence_def split: option.splits dest!: select_one_Some) blast

lemma assertPublicationContext_Inr:
  assumes "assertPublicationContext now d c publication = Inr h"
  shows "publicationAuthorizationError c = None
    \<and> (rh_success (lockRotationHealth now d c)
       \<or> (\<exists>p i. publication = Some p \<and> i \<in> set (ct_incidents (tb_cloud d)) \<and> pb_incidentId p = Some (ri_incidentId i)
            \<and> ri_rotationTrigger i = ManualTrigger \<and> ri_terminatedAt i = None))"
  using assms
  by (auto simp: assertPublicationContext_def Let_def result_elims bind_eq_Some_conv split: option.splits if_splits dest!: select_one_Some)


section \<open>A slot and its publication\<close>

definition plain_key :: physical_key where
  "plain_key provider account service region inst = (case account of Some a \<Rightarrow> a | None \<Rightarrow> []) @ ''/'' @ region @ ''/'' @ inst"

definition demo_account :: CloudAccountRow where
  "demo_account = \<lparr>ca_id = ''a1'', ca_ownerUserId = ''u1'', ca_provider = Aws, ca_name = ''aws'', ca_regions = None,
     ca_externalAccountId = Some ''1234'', ca_credentialCiphertext = ''c'', ca_enabled = True\<rparr>"

definition demo_instance :: CloudInstanceRow where
  "demo_instance = \<lparr>cin_id = ''i1'', cin_accountId = ''a1'', cin_service = Ec2, cin_region = ''us-west-2'', cin_externalId = ''i-1'',
     cin_name = None, cin_metadata = [], cin_scanGeneration = 3\<rparr>"

definition demo_interface :: CloudInterfaceRow where
  "demo_interface = \<lparr>cif_id = ''f1'', cif_instanceId = ''i1'', cif_externalId = ''eni-1'',
     cif_metadata = [(''primaryAddresses'', JArr [JStr ''192.0.2.1'']), (''deviceIndex'', JNum (num_of_int 0))], cif_scanGeneration = 3\<rparr>"

definition demo_address :: CloudAddressRow where
  "demo_address = \<lparr>cd_id = ''d1'', cd_interfaceId = ''f1'', cd_family = V4, cd_address = ''192.0.2.1'', cd_remoteAllocationId = None,
     cd_metadata = [], cd_origin = SystemOrigin, cd_attemptId = None, cd_inventoryPresent = True, cd_scanGeneration = 3\<rparr>"

definition demo_slot :: ManagedAddressSlotRow where
  "demo_slot = \<lparr>ms_id = ''s1'', ms_interfaceId = ''f1'', ms_family = V4, ms_name = ''primary'', ms_currentAddressId = Some ''d1'',
     ms_currentVersion = 2, ms_resetRecoveryRetries = 0, ms_candidateAddressId = None, ms_candidateVersion = 2\<rparr>"

definition demo_publication :: RotationPublicationRow where
  "demo_publication = \<lparr>pb_id = ''pub1'', pb_slotId = ''s1'', pb_addressVersion = 2, pb_addressId = ''d1'', pb_incidentId = None,
     pb_status = PbApplied, pb_operationId = None, pb_children = [], pb_context = None, pb_promotedAt = Some 5, pb_errorCode = None,
     pb_previousMaxTtl = 0, pb_appliedAt = Some 6\<rparr>"

definition demo_health_state :: AddressHealthStateRow where
  "demo_health_state = \<lparr>hs_slotId = Some ''s1'', hs_endpointId = None, hs_family = V4, hs_addressId = Some ''d1'', hs_addressVersion = 2,
     hs_configId = Some ''k1'', hs_configVersion = 1, hs_policyId = Some ''hp1'', hs_policyRevision = 1, hs_groupRevision = Some 1,
     hs_healthState = Healthy, hs_consecutiveSuccesses = 3, hs_consecutiveFailures = 0, hs_latestDecision = RoundSuccess,
     hs_evidenceExpiresAt = Some 5000, hs_lastCheckedAt = Some 900, hs_nextRoundAt = Some 2000, hs_lastRoundId = Some ''round1'',
     hs_lastAppliedSequence = 1\<rparr>"

definition demo_cloud :: CloudTables where
  "demo_cloud = no_cloud\<lparr>ct_accounts := [demo_account],
     ct_scanScopes := [\<lparr>cs_accountId = ''a1'', cs_service = Ec2, cs_region = ''us-west-2'', cs_generation = 3\<rparr>],
     ct_instances := [demo_instance], ct_interfaces := [demo_interface], ct_addresses := [demo_address], ct_slots := [demo_slot],
     ct_authorizations := [\<lparr>ia_instanceId = ''i1'', ia_revision = 4, ia_managed = True, ia_allowIpv4Rotation = True,
       ia_allowIpv6Rotation = False, ia_allowStopStart = False, ia_allowDelete = False, ia_allowReleaseAddress = True\<rparr>],
     ct_links := [\<lparr>cl_endpointId = ''e1'', cl_family = V4, cl_slotId = ''s1''\<rparr>],
     ct_probeGroups := [\<lparr>pg_id = ''g1'', pg_ownerUserId = ''u1'', pg_revision = 1\<rparr>],
     ct_healthPolicies := [\<lparr>hp_id = ''hp1'', hp_slotId = Some ''s1'', hp_endpointId = None, hp_family = V4, hp_configId = ''k1'',
       hp_mode = ExternalMode, hp_groupId = Some ''g1'', hp_revision = 1, hp_successThreshold = 3, hp_failureThreshold = 3,
       hp_checkIntervalSeconds = 10, hp_executionWindowSeconds = 20, hp_resultExpirySeconds = 60\<rparr>],
     ct_healthStates := [demo_health_state],
     ct_policies := [\<lparr>rp_slotId = ''s1'', rp_enabled = True, rp_revision = 1, rp_maxAttempts = 3, rp_maxRecoveryRetries = 5,
       rp_minIntervalSeconds = 60, rp_cloudWaitSeconds = 120, rp_candidateWindowSeconds = 180, rp_linodeRestartMode = Reboot,
       rp_linodeIpv4Strategy = AdditionalIpv4, rp_linodeSwapPlan = ''g6-nanode-1'', rp_linodeAllowTemporaryInstance = False\<rparr>],
     ct_publications := [demo_publication]\<rparr>"

definition demo_pool :: EndpointPoolRow where
  "demo_pool = \<lparr>ep_id = ''p1'', ep_ownerUserId = ''u1'', ep_name = ''web'', ep_description = None, ep_strategy = PrimaryBackup,
     ep_selectionMode = OrderedMode, ep_recoveryMode = AutomaticRecovery, ep_recoveryDelaySeconds = 0, ep_failureThreshold = 3,
     ep_successThreshold = 3, ep_checkIntervalSeconds = 30, ep_checkTimeoutMs = 1000, ep_switchCooldownSeconds = 0,
     ep_allDownReminderSeconds = 60, ep_state = Healthy, ep_policyRevision = 1, ep_decisionRevision = 1, ep_roundRobinCursor = None,
     ep_roundRobinCursors = (\<lambda>_. None), ep_enabled = True, ep_enabledAt = 0, ep_pausedAt = None, ep_lastReconciledAt = None\<rparr>"

definition demo_config :: HealthCheckConfigRow where
  "demo_config = \<lparr>hc_slotId = Some ''s1'', hc_id = ''k1'', hc_poolId = None, hc_endpointId = None, hc_domainBindingId = None,
     hc_checkerType = ''http'', hc_config = JObj [], hc_enabled = True, hc_revision = 1, hc_updatedAt = 0\<rparr>"

definition demo_input :: StepInput where
  "demo_input = run_step_input\<lparr>si_recordExternalId := None, si_poolId := Some ''p1'', si_endpointId := Some ''e1'',
     si_cloud := Some (JObj ([(''publicationId'', JStr ''pub1''), (''slotId'', JStr ''s1''), (''addressId'', JStr ''d1''),
       (''addressVersion'', JNum (num_of_int 2)), (''authorizationRevision'', JNum (num_of_int 4)),
       (''physicalKey'', JStr ''1234/us-west-2/i-1''), (''healthPolicyId'', JStr ''hp1''), (''healthPolicyRevision'', JNum (num_of_int 1)),
       (''configId'', JStr ''k1''), (''configRevision'', JNum (num_of_int 1)), (''groupId'', JStr ''g1''),
       (''groupRevision'', JNum (num_of_int 1))]))\<rparr>"

definition demo_database :: Database where
  "demo_database = (run_database OpRunning ActCreate StRunning)\<lparr>tb_endpointPools := [demo_pool], tb_healthCheckConfigs := [demo_config],
     tb_cloud := demo_cloud\<rparr>"

definition demo_live :: LiveInventory where
  "demo_live = \<lparr>li_accountId = ''a1'', li_instanceId = ''i-1'', li_region = ''us-west-2'', li_service = Ec2,
     li_interfaces = [\<lparr>lf_id = ''eni-1'', lf_deviceIndex = JNum (num_of_int 0), lf_metadata = JUndefined, lf_addresses = [\<lparr>la_address = ''192.0.2.1'', la_family = V4, la_allocationId = JUndefined,
       la_resourceId = JUndefined, la_metadata = JUndefined, la_primary = True, la_privateAddress = JUndefined,
       la_prefixLength = JUndefined\<rparr>]\<rparr>], li_nativeName = JUndefined, li_name = ''web'', li_state = ''running'', li_ipv6Only = JUndefined,
     li_metadata = JUndefined\<rparr>"

definition demo_context :: RotationContext where
  "demo_context = projr (lockRotationContext plain_key demo_cloud ''s1'')"

definition demo_env :: "(ProviderRecord list, CloudStepContext) RunEnv" where
  "demo_env = \<lparr>re_now = 1000, re_newId = ''r1'', re_pages = 3, re_owned = (\<lambda>_. True), re_operationOwned = True, re_zoneAcquired = True,
     re_zoneKept = True, re_others = (\<lambda>_ d. d), re_adapter = (\<lambda>_ _. Inr memory_adapter), re_hash = pr_content,
     re_cloud = masterCloudGate plain_key (=) (\<lambda>_. Inr (Some demo_live)) (\<lambda>_ _. JNull) 1000 Cloudflare\<rparr>"

definition demo_run :: "ProviderRecord list \<times> (OperationError + Database \<times> bool)" where
  "demo_run = applyStep demo_env memory_adapter ((run_operation OpRunning)\<lparr>op_resourceType := ''endpoint_pool''\<rparr>) (run_step_row ActCreate StRunning) demo_input
     None (Some \<lparr>cc_context = demo_context, cc_live = Some demo_live\<rparr>) demo_database []"

lemma demo_run_writes: "run_result demo_run = Some ([kept_record ''0'' ''z1'' run_record], True)"
  by code_simp


end
