(* ===== verification/Rotation_Incidents.thy ===== *)
theory Rotation_Incidents
  imports Cloud_Publication
begin

text \<open>
  The life of a rotation incident: creation by health, schedule or hand, and resumption
  (\<open>packages/db/src/rotation-incidents.ts\<close>), and termination (\<open>rotation-termination.ts\<close>). A transaction is a
  function of the database that may throw; the clock, the random identifiers and \<open>isIP\<close> are parameters.
\<close>

section \<open>Admission\<close>

definition set_cloud :: "(CloudTables \<Rightarrow> CloudTables) \<Rightarrow> Database \<Rightarrow> Database" where
  "set_cloud f d = d\<lparr>tb_cloud := f (tb_cloud d)\<rparr>"

definition rotationAudit :: "RotationIncidentRow \<Rightarrow> string \<Rightarrow> string option \<Rightarrow> AuditSnapshot \<Rightarrow> Database \<Rightarrow> Database" where
  "rotationAudit incident action actorUserId snapshot d = d\<lparr>tb_auditLogs := tb_auditLogs d @ [\<lparr>al_ownerUserId = ri_ownerUserId incident,
     al_actorUserId = actorUserId, al_source = (if actorUserId \<noteq> None \<and> actorUserId \<noteq> Some [] then UserSource else FailoverSource), al_action = action,
     al_resourceType = ''rotation'', al_resourceId = Some (ri_incidentId incident), al_beforeSnapshot = JUndefined,
     al_afterSnapshot = snapshot, al_operationId = None\<rparr>]\<rparr>"

definition public_ipv4_error :: "(string \<Rightarrow> nat) \<Rightarrow> RotationContext \<Rightarrow> CodeError option" where
  "public_ipv4_error isIP c = (case cx_address c of
     Some a \<Rightarrow> if ms_family (cx_slot c) \<noteq> V4 \<or> ms_currentAddressId (cx_slot c) \<noteq> Some (cd_id a) \<or> isIP (cd_address a) \<noteq> 4
       then Some ''rotation_public_ipv4_required''
       else rotationPrivateIpv4Error (cd_address a) (json_get (JObj (cd_metadata a)) ''providerMetadata'')
   | None \<Rightarrow> Some ''rotation_public_ipv4_required'')"

definition candidate_exists :: "RotationContext \<Rightarrow> bool" where
  "candidate_exists c = (ms_candidateAddressId (cx_slot c) \<noteq> None \<and> ms_candidateAddressId (cx_slot c) \<noteq> Some []
     \<and> ms_candidateAddressId (cx_slot c) \<noteq> ms_currentAddressId (cx_slot c))"

definition scheduledRotationPrerequisiteError :: "(string \<Rightarrow> nat) \<Rightarrow> RotationContext \<Rightarrow> CodeError option" where
  "scheduledRotationPrerequisiteError isIP c =
    (if candidate_exists c then Some ''rotation_candidate_exists''
     else (case public_ipv4_error isIP c of Some e \<Rightarrow> Some e
       | None \<Rightarrow> if \<not> supportsRotationTrigger (ca_provider (cx_account c)) (cin_service (cx_instance c)) ScheduledTrigger
           then Some ''rotation_provider_service_unsupported'' else None))"

definition manualRotationCapabilityError :: "(string \<Rightarrow> nat) \<Rightarrow> RotationContext \<Rightarrow> CodeError option" where
  "manualRotationCapabilityError isIP c =
    (if \<not> supportsRotationTrigger (ca_provider (cx_account c)) (cin_service (cx_instance c)) ManualTrigger
       then Some ''rotation_provider_service_unsupported''
     else (case public_ipv4_error isIP c of Some e \<Rightarrow> Some e
       | None \<Rightarrow> (case cx_address c of None \<Rightarrow> None | Some a \<Rightarrow>
          (let ifaceMetadata = JObj (case cx_iface c of Some f \<Rightarrow> cif_metadata f | None \<Rightarrow> []) in
           manualRotationServicePrerequisiteError (cin_service (cx_instance c))
            \<lparr>mp_allowStopStart = (case cx_authorization c of Some x \<Rightarrow> ia_allowStopStart x | None \<Rightarrow> False),
             mp_allocationId = cd_remoteAllocationId a,
             mp_primary = (case json_get ifaceMetadata ''primaryAddresses'' of JArr xs \<Rightarrow> JStr (cd_address a) \<in> set xs | _ \<Rightarrow> False),
             mp_privateAddress = json_get (JObj (cd_metadata a)) ''privateAddress'',
             mp_deviceIndex = json_get ifaceMetadata ''deviceIndex'',
             mp_ipv6Only = json_get (JObj (cin_metadata (cx_instance c))) ''ipv6Only''\<rparr>))))"

section \<open>Creation\<close>

definition open_incident :: "RotationIncidentRow \<Rightarrow> bool" where
  "open_incident i = (ri_status i \<noteq> IncComplete)"

record NewIds =
  ni_incidentId :: string
  ni_segmentId :: string

text \<open>What every creation looks at first: an open incident of the slot, or one for the same event, is the answer
  if it has the same trigger.\<close>

definition existingIncident :: "Database \<Rightarrow> RotationContext \<Rightarrow> CloudRotationTrigger \<Rightarrow> string \<Rightarrow> CodeError + RotationIncidentRow option" where
  "existingIncident d c trigger sourceEventId = (let slotId = ms_id (cx_slot c); same = (\<lambda>i. if ri_rotationTrigger i \<noteq> trigger
       then Inl ''rotation_active_conflict'' else Inr (Some i)) in
    (case select_one (\<lambda>i. ri_slotId i = slotId \<and> open_incident i) (ct_incidents (tb_cloud d)) of
       Some existing \<Rightarrow> same existing
     | None \<Rightarrow> (case select_one (\<lambda>i. ri_slotId i = slotId \<and> ri_sourceEventId i = sourceEventId) (ct_incidents (tb_cloud d)) of
         Some source \<Rightarrow> same source
       | None \<Rightarrow> Inr None)))"

definition fresh_incident ::
  "NewIds \<Rightarrow> int \<Rightarrow> RotationContext \<Rightarrow> CloudRotationTrigger \<Rightarrow> string \<Rightarrow> InstanceAuthorizationRow \<Rightarrow> int \<Rightarrow> HealthEpoch option \<Rightarrow> RotationIncidentRow" where
  "fresh_incident ids now c trigger sourceEventId authorization policyRevision epoch =
    \<lparr>ri_incidentId = ni_incidentId ids, ri_ownerUserId = ca_ownerUserId (cx_account c), ri_slotId = ms_id (cx_slot c),
     ri_family = ms_family (cx_slot c), ri_physicalKey = cx_physicalKey c, ri_sourceEventId = sourceEventId,
     ri_rotationTrigger = trigger, ri_releaseOldAddress = True, ri_status = IncActive, ri_phase = CloudPhase,
     ri_currentSegmentId = ni_segmentId ids, ri_currentAttemptId = None, ri_pendingSegmentId = None,
     ri_authorizationRevision = ia_revision authorization, ri_rotationPolicyRevision = policyRevision,
     ri_addressVersion = cx_addressVersion c,
     ri_healthPolicyId = map_option he_healthPolicyId epoch, ri_healthPolicyRevision = map_option he_healthPolicyRevision epoch,
     ri_configId = map_option he_configId epoch, ri_configRevision = map_option he_configRevision epoch,
     ri_groupId = map_option he_groupId epoch, ri_groupRevision = map_option he_groupRevision epoch,
     ri_nextAttemptAt = now, ri_nextRunAt = now, ri_candidateDeadline = None, ri_errorCode = None,
     ri_recoveryRetries = ms_resetRecoveryRetries (cx_slot c), ri_recoveryRetryAt = None, ri_lastRecoveryError = None,
     ri_pausedByUserId = None, ri_createdAt = now, ri_updatedAt = now, ri_finishedAt = None, ri_terminatedAt = None\<rparr>"

definition new_segment :: "string \<Rightarrow> string \<Rightarrow> int \<Rightarrow> string option \<Rightarrow> RotationBudgetSegmentRow" where
  "new_segment i incidentId maxAttempts actorUserId = \<lparr>bs_id = i, bs_incidentId = incidentId, bs_maxAttempts = maxAttempts,
     bs_attemptsUsed = 0, bs_exhausted = False, bs_actorUserId = actorUserId\<rparr>"

definition insert_incident :: "RotationIncidentRow \<Rightarrow> RotationBudgetSegmentRow \<Rightarrow> Database \<Rightarrow> Database" where
  "insert_incident incident segment = set_cloud (\<lambda>t. t\<lparr>ct_incidents := ct_incidents t @ [incident], ct_segments := ct_segments t @ [segment]\<rparr>)"

definition source_event :: "string \<Rightarrow> AuditSnapshot" where
  "source_event sourceEventId = JsonSnapshot (JObj [(''sourceEventId'', JStr sourceEventId)])"

definition createCrossCloudRotationIncident ::
  "NewIds \<Rightarrow> int \<Rightarrow> RotationContext \<Rightarrow> CloudRotationTrigger \<Rightarrow> string \<Rightarrow> string option \<Rightarrow> Database \<Rightarrow> CodeError + Database \<times> RotationIncidentRow \<times> int" where
  "createCrossCloudRotationIncident ids now c trigger sourceEventId actorUserId d =
    bindE (existingIncident d c trigger sourceEventId) (\<lambda>existing. case existing of
      Some i \<Rightarrow> Inr (d, i, ri_createdAt i)
    | None \<Rightarrow>
        bindE (case rotationAuthorizationError c trigger of Some e \<Rightarrow> Inl e | None \<Rightarrow> Inr ()) (\<lambda>_.
        case (cx_policy c, cx_authorization c) of
          (Some policy, Some authorization) \<Rightarrow>
            (let h = lockRotationHealth now d c in
             bindE (guardE (\<not> (trigger = HealthTrigger \<and> \<not> rh_failure h)) ''confirmed_failure_required'') (\<lambda>_.
             bindE (healthRevisions h) (\<lambda>epoch.
               let incident = fresh_incident ids now c trigger sourceEventId authorization (rp_revision policy) (Some epoch) in
               Inr (rotationAudit incident (if trigger = ScheduledTrigger then ''rotation.scheduled'' else ''rotation.start'') actorUserId
                      (source_event sourceEventId)
                      (insert_incident incident (new_segment (ni_segmentId ids) (ni_incidentId ids) (rp_maxAttempts policy) actorUserId) d),
                    incident, now))))
        | _ \<Rightarrow> Inl ''rotation_policy_missing''))"

definition createRotationIncident ::
  "NewIds \<Rightarrow> int \<Rightarrow> RotationContext \<Rightarrow> string \<Rightarrow> string option \<Rightarrow> Database \<Rightarrow> CodeError + Database \<times> RotationIncidentRow" where
  "createRotationIncident ids now c sourceEventId actorUserId d =
    bindE (createCrossCloudRotationIncident ids now c HealthTrigger sourceEventId actorUserId d) (\<lambda>(d', i, _). Inr (d', i))"

definition set_schedule :: "string \<Rightarrow> (RotationScheduleRow \<Rightarrow> RotationScheduleRow) \<Rightarrow> Database \<Rightarrow> Database" where
  "set_schedule slotId f = set_cloud (\<lambda>t. t\<lparr>ct_schedules := update_where (\<lambda>s. rs_slotId s = slotId) f (ct_schedules t)\<rparr>)"

definition find_schedule :: "Database \<Rightarrow> string \<Rightarrow> RotationScheduleRow option" where
  "find_schedule d slotId = select_one (\<lambda>s. rs_slotId s = slotId) (ct_schedules (tb_cloud d))"

text \<open>The event identifier of a scheduled run names the revision and the deadline (\<open>render\<close> is \<open>toISOString\<close>).\<close>

definition createScheduledRotationIncident ::
  "(string \<Rightarrow> nat) \<Rightarrow> (int \<Rightarrow> string) \<Rightarrow> NewIds \<Rightarrow> int \<Rightarrow> RotationContext \<Rightarrow> Database \<Rightarrow> CodeError + Database \<times> RotationIncidentRow" where
  "createScheduledRotationIncident isIP render ids now c d = (case find_schedule d (ms_id (cx_slot c)) of
     None \<Rightarrow> Inl ''rotation_schedule_not_found''
   | Some schedule \<Rightarrow>
       bindE (guardE (rs_enabled schedule) ''rotation_schedule_disabled'') (\<lambda>_.
       bindE (guardE (rs_pausedReason schedule = None \<or> rs_pausedReason schedule = Some []) ''rotation_schedule_paused'') (\<lambda>_.
       bindE (guardE (rs_activeIncidentId schedule = None) ''rotation_schedule_active'') (\<lambda>_.
       case rs_nextRunAt schedule of
         None \<Rightarrow> Inl ''rotation_schedule_not_due''
       | Some due \<Rightarrow>
           bindE (guardE (due \<le> now) ''rotation_schedule_not_due'') (\<lambda>_.
           bindE (case scheduledRotationPrerequisiteError isIP c of Some e \<Rightarrow> Inl e | None \<Rightarrow> Inr ()) (\<lambda>_.
           bindE (createCrossCloudRotationIncident ids now c ScheduledTrigger
               (''scheduled-'' @ int_text (rs_revision schedule) @ ''-'' @ render due) None d) (\<lambda>(d', incident, startedAt).
           Inr (set_schedule (ms_id (cx_slot c)) (\<lambda>s. s\<lparr>rs_activeIncidentId := Some (ri_incidentId incident), rs_nextRunAt := None,
                  rs_lastStartedAt := Some startedAt\<rparr>) d', incident))))))))"

text \<open>A slot without a policy gets a disabled default one when it is rotated by hand.\<close>

definition default_policy :: "string \<Rightarrow> RotationPolicyRow" where
  "default_policy slotId = \<lparr>rp_slotId = slotId, rp_enabled = False, rp_revision = 1, rp_maxAttempts = 3, rp_maxRecoveryRetries = 5,
     rp_minIntervalSeconds = 60, rp_cloudWaitSeconds = 120, rp_candidateWindowSeconds = 180, rp_linodeRestartMode = Reboot,
     rp_linodeIpv4Strategy = AdditionalIpv4, rp_linodeSwapPlan = ''g6-nanode-1'', rp_linodeAllowTemporaryInstance = False\<rparr>"

definition createManualRotationIncident ::
  "(string \<Rightarrow> nat) \<Rightarrow> NewIds \<Rightarrow> int \<Rightarrow> RotationContext \<Rightarrow> string \<Rightarrow> string \<Rightarrow> Database \<Rightarrow> CodeError + Database \<times> RotationIncidentRow" where
  "createManualRotationIncident isIP ids now c sourceEventId actorUserId d =
    bindE (existingIncident d c ManualTrigger sourceEventId) (\<lambda>existing. case existing of
      Some i \<Rightarrow> Inr (d, i)
    | None \<Rightarrow>
        bindE (guardE (\<not> candidate_exists c) ''rotation_candidate_exists'') (\<lambda>_.
        bindE (case rotationAuthorizationError c ManualTrigger of Some e \<Rightarrow> Inl e | None \<Rightarrow> Inr ()) (\<lambda>_.
        bindE (case manualRotationCapabilityError isIP c of Some e \<Rightarrow> Inl e | None \<Rightarrow> Inr ()) (\<lambda>_.
        case cx_authorization c of
          None \<Rightarrow> Inl ''type_error''
        | Some authorization \<Rightarrow>
            (let slotId = ms_id (cx_slot c);
                 policy = (case cx_policy c of Some p \<Rightarrow> p | None \<Rightarrow> default_policy slotId);
                 d1 = (if cx_policy c = None then set_cloud (\<lambda>t. t\<lparr>ct_policies := ct_policies t @ [policy]\<rparr>) d else d);
                 incident = fresh_incident ids now c ManualTrigger sourceEventId authorization (rp_revision policy) None
             in Inr (rotationAudit incident ''rotation.manual'' (Some actorUserId) (source_event sourceEventId)
                       (insert_incident incident (new_segment (ni_segmentId ids) (ni_incidentId ids) 1 (Some actorUserId)) d1), incident))))))"

section \<open>Resumption\<close>

definition set_incident :: "string \<Rightarrow> (RotationIncidentRow \<Rightarrow> RotationIncidentRow) \<Rightarrow> Database \<Rightarrow> Database" where
  "set_incident i f = set_cloud (\<lambda>t. t\<lparr>ct_incidents := update_where (\<lambda>x. ri_incidentId x = i) f (ct_incidents t)\<rparr>)"

definition find_incident :: "Database \<Rightarrow> string \<Rightarrow> RotationIncidentRow option" where
  "find_incident d i = select_one (\<lambda>x. ri_incidentId x = i) (ct_incidents (tb_cloud d))"

definition observed_step :: "RotationStepRow \<Rightarrow> bool" where
  "observed_step s = (st_status s \<in> {SsPrepared, SsRejected, SsNotApplied, SsApplied})"

text \<open>A conclusively rejected step of a charged plan is prepared again; its receipt is kept for the retry.\<close>

definition reprepare :: "RotationStepRow \<Rightarrow> RotationStepRow" where
  "reprepare s = s\<lparr>st_status := SsPrepared, st_errorCode := None, st_retryAt := None,
     st_plan := (st_plan s)\<lparr>pl_arguments := (case (st_status s, st_receipt s) of
        (SsNotApplied, Some receipt) \<Rightarrow> put_entry ''retryReceipt'' (JObj receipt) (pl_arguments (st_plan s)) | _ \<Rightarrow> pl_arguments (st_plan s))\<rparr>\<rparr>"

definition retryable_step :: "string \<Rightarrow> RotationStepRow \<Rightarrow> bool" where
  "retryable_step attemptId s = (st_attemptId s = attemptId \<and> (st_status s = SsRejected \<or> st_status s = SsNotApplied))"

definition step_audit :: "RotationIncidentRow \<Rightarrow> string \<Rightarrow> string \<Rightarrow> RotationStepRow \<Rightarrow> Database \<Rightarrow> Database" where
  "step_audit incident actorUserId attemptId s = rotationAudit incident ''rotation.step_reprepared'' (Some actorUserId)
     (JsonSnapshot (JObj [(''stepId'', JStr (st_id s)), (''attemptId'', JStr attemptId),
       (''previousStatus'', JStr (if st_status s = SsRejected then ''rejected_no_effect'' else ''not_applied'')),
       (''previousErrorCode'', opt_str (st_errorCode s)), (''previousRetryAt'', opt_int (st_retryAt s))]))"

definition resumeAttempt :: "string \<Rightarrow> RotationIncidentRow \<Rightarrow> RotationAttemptRow option \<Rightarrow> Database \<Rightarrow> CodeError + Database" where
  "resumeAttempt actorUserId incident attempt d = (case attempt of
     None \<Rightarrow> Inr d
   | Some a \<Rightarrow>
       if ri_phase incident \<noteq> CloudPhase then Inr d
       else (let steps = filter (\<lambda>s. st_attemptId s = ra_id a) (ct_steps (tb_cloud d)) in
         if list_ex (\<lambda>s. \<not> observed_step s) steps then Inl ''cloud_observation_required''
         else if \<not> ra_charged a then
           Inr (set_cloud (\<lambda>t. t\<lparr>ct_attempts := update_where (\<lambda>x. ra_id x = ra_id a) (\<lambda>x. x\<lparr>ra_status := AttAbandoned\<rparr>) (ct_attempts t)\<rparr>) d)
         else Inr (fold (step_audit incident actorUserId (ra_id a)) (filter (retryable_step (ra_id a)) steps)
           (set_cloud (\<lambda>t. t\<lparr>ct_steps := update_where (retryable_step (ra_id a)) reprepare (ct_steps t)\<rparr>) d))))"

definition with_epoch :: "HealthEpoch option \<Rightarrow> RotationIncidentRow \<Rightarrow> RotationIncidentRow" where
  "with_epoch epoch i = (case epoch of None \<Rightarrow> i | Some e \<Rightarrow> i\<lparr>ri_healthPolicyId := Some (he_healthPolicyId e),
     ri_healthPolicyRevision := Some (he_healthPolicyRevision e), ri_configId := Some (he_configId e),
     ri_configRevision := Some (he_configRevision e), ri_groupId := Some (he_groupId e), ri_groupRevision := Some (he_groupRevision e)\<rparr>)"

definition resumed ::
  "int \<Rightarrow> RotationContext \<Rightarrow> InstanceAuthorizationRow \<Rightarrow> RotationPolicyRow \<Rightarrow> HealthEpoch option \<Rightarrow> bool \<Rightarrow> string \<Rightarrow> RotationIncidentRow \<Rightarrow> RotationIncidentRow" where
  "resumed now c authorization policy epoch continuingCloud segmentId i =
    (let manual = ri_rotationTrigger i = ManualTrigger in
     with_epoch epoch (i\<lparr>ri_status := IncActive,
       ri_currentSegmentId := (if continuingCloud \<or> manual then ri_currentSegmentId i else segmentId),
       ri_pendingSegmentId := (if \<not> manual \<and> continuingCloud then Some segmentId else None),
       ri_currentAttemptId := (if ri_phase i = CloudPhase \<and> \<not> continuingCloud then None else ri_currentAttemptId i),
       ri_pausedByUserId := None, ri_errorCode := None, ri_recoveryRetries := 0, ri_recoveryRetryAt := None, ri_lastRecoveryError := None,
       ri_authorizationRevision := ia_revision authorization, ri_rotationPolicyRevision := rp_revision policy,
       ri_addressVersion := cx_addressVersion c, ri_nextRunAt := now, ri_updatedAt := now\<rparr>))"

text \<open>A paused or exhausted incident goes on, with the charged plan of its attempt or a new budget segment.\<close>

definition reactivate ::
  "string \<Rightarrow> int \<Rightarrow> RotationContext \<Rightarrow> string \<Rightarrow> string \<Rightarrow> RotationPolicyRow \<Rightarrow> InstanceAuthorizationRow \<Rightarrow> HealthEpoch option \<Rightarrow> RotationIncidentRow
   \<Rightarrow> Database \<Rightarrow> CodeError + Database \<times> RotationIncidentRow" where
  "reactivate newSegmentId now c i actorUserId policy authorization epoch incident d =
    (let manual = ri_rotationTrigger incident = ManualTrigger;
         attempt = Option.bind (ri_currentAttemptId incident) (\<lambda>a. select_one (\<lambda>x. ra_id x = a) (ct_attempts (tb_cloud d)));
         continuingCloud = (ri_phase incident = CloudPhase \<and> (case attempt of Some a \<Rightarrow> ra_charged a | None \<Rightarrow> False));
         segmentId = (if manual then ri_currentSegmentId incident else newSegmentId);
         updated = resumed now c authorization policy epoch continuingCloud segmentId in
     bindE (resumeAttempt actorUserId incident attempt d) (\<lambda>d1.
     let d2 = (if manual then d1 else set_cloud (\<lambda>t. t\<lparr>ct_segments := ct_segments t
             @ [new_segment segmentId i (rp_maxAttempts policy) (Some actorUserId)]\<rparr>) d1)
     in Inr (rotationAudit (updated incident) ''rotation.resume'' (Some actorUserId)
           (JsonSnapshot (JObj [(''previousSegmentId'', JStr (ri_currentSegmentId incident)), (''segmentId'', JStr segmentId)]))
           (set_incident i updated d2), updated incident)))"

definition resume_epoch :: "int \<Rightarrow> RotationContext \<Rightarrow> Database \<Rightarrow> RotationIncidentRow \<Rightarrow> CodeError + HealthEpoch option" where
  "resume_epoch now c d incident = (if ri_rotationTrigger incident = ManualTrigger then Inr None
     else bindE (healthRevisions (lockRotationHealth now d c)) (\<lambda>e. Inr (Some e)))"

definition resumeRotationIncident ::
  "string \<Rightarrow> int \<Rightarrow> RotationContext \<Rightarrow> string \<Rightarrow> string \<Rightarrow> Database \<Rightarrow> CodeError + Database \<times> RotationIncidentRow" where
  "resumeRotationIncident newSegmentId now c i actorUserId d = (case find_incident d i of
     None \<Rightarrow> Inl ''rotation_not_resumable''
   | Some incident \<Rightarrow>
      if ri_status incident = IncComplete then Inl ''rotation_not_resumable''
      else bindE (case rotationAuthorizationError c (ri_rotationTrigger incident) of Some e \<Rightarrow> Inl e | None \<Rightarrow> Inr ()) (\<lambda>_.
        case (cx_policy c, cx_authorization c) of
          (Some policy, Some authorization) \<Rightarrow>
            bindE (resume_epoch now c d incident) (\<lambda>epoch.
            bindE (guardE (\<not> list_ex (\<lambda>l. le_physicalKey l = cx_physicalKey c \<and> le_unresolvedStepId l \<noteq> None) (ct_leases (tb_cloud d)))
              ''cloud_observation_required'') (\<lambda>_.
            if ri_status incident = IncActive then Inr (d, incident)
            else reactivate newSegmentId now c i actorUserId policy authorization epoch incident d))
        | _ \<Rightarrow> Inl ''rotation_policy_missing''))"

section \<open>Termination\<close>

definition child_key :: "PublicationChild \<Rightarrow> string" where
  "child_key c = ''pool:'' @ pc_poolId c @ '':revision:'' @ int_text (pc_policyRevision c) @ '':event:'' @ pc_eventId c"

text \<open>The operations of the incident's publications: those recorded, and those planned under a child's key.\<close>

definition terminated_operations :: "RotationPublicationRow list \<Rightarrow> OperationRow list \<Rightarrow> string list" where
  "terminated_operations publications ops = (let children = concat (map pb_children publications) in
     List.map_filter (\<lambda>x. if x = Some [] then None else x) (concat (map (\<lambda>p. pb_operationId p # map pc_operationId (pb_children p)) publications))
     @ map op_id (filter (\<lambda>o'. op_idempotencyKey o' \<in> set (map child_key children)) ops))"

definition terminate_publications :: "int \<Rightarrow> RotationPublicationRow list \<Rightarrow> Database \<Rightarrow> Database" where
  "terminate_publications now publications d =
    (let eventIds = map pc_eventId (concat (map pb_children publications));
         operationIds = terminated_operations publications (tb_operations d)
     in d\<lparr>tb_reconcileIntents := update_where (\<lambda>r. ri_eventId r \<in> set eventIds) (\<lambda>r. r\<lparr>ri_completedAt := Some now\<rparr>) (tb_reconcileIntents d),
         tb_operations := update_where (\<lambda>o'. op_id o' \<in> set operationIds \<and> op_status o' \<in> {OpPending, OpRunning, OpPartial, OpFailed})
           (\<lambda>o'. o'\<lparr>op_status := OpSuperseded\<rparr>) (tb_operations d),
         tb_operationSteps := update_where (\<lambda>s. os_operationId s \<in> set operationIds \<and> (os_status s = StPending \<or> os_status s = StFailed))
           (\<lambda>s. s\<lparr>os_status := StSkipped, os_finishedAt := Some now\<rparr>) (tb_operationSteps d)\<rparr>)"

definition terminate_cloud :: "int \<Rightarrow> string option \<Rightarrow> RotationIncidentRow \<Rightarrow> CloudTables \<Rightarrow> CloudTables" where
  "terminate_cloud now actorUserId incident t = (let i = ri_incidentId incident;
       steps = map st_id (filter (\<lambda>s. list_ex (\<lambda>a. ra_id a = st_attemptId s \<and> ra_incidentId a = i) (ct_attempts t)) (ct_steps t))
     in t\<lparr>ct_policies := update_where (\<lambda>p. rp_slotId p = ri_slotId incident) (\<lambda>p. p\<lparr>rp_enabled := False, rp_revision := rp_revision p + 1\<rparr>) (ct_policies t),
         ct_resources := update_where (\<lambda>r. re_incidentId r = i \<and> (re_cleanupStatus r = CuPending \<or> re_cleanupStatus r = CuFailed))
           (\<lambda>r. r\<lparr>re_cleanupStatus := CuRetained, re_cleanupError := Some ''manual_terminated'', re_cleanupDueAt := None\<rparr>) (ct_resources t),
         ct_reservations := delete_where (\<lambda>r. rr_stepId r \<in> set steps \<and> rr_consumedAt r = None) (ct_reservations t),
         ct_publications := update_where (\<lambda>p. pb_incidentId p = Some i) (\<lambda>p. p\<lparr>pb_errorCode := Some ''manual_terminated''\<rparr>) (ct_publications t),
         ct_leases := update_where (\<lambda>l. le_incidentId l = Some i) (\<lambda>l. l\<lparr>le_holder := None, le_expiresAt := now, le_revision := le_revision l + 1,
           le_incidentId := (if le_unresolvedStepId l = None then None else le_incidentId l)\<rparr>) (ct_leases t),
         ct_incidents := update_where (\<lambda>x. ri_incidentId x = i) (\<lambda>x. x\<lparr>ri_status := IncComplete, ri_terminatedAt := Some now,
           ri_finishedAt := Some now, ri_pausedByUserId := actorUserId, ri_errorCode := Some ''manual_terminated'', ri_updatedAt := now\<rparr>) (ct_incidents t)\<rparr>)"

definition terminateRotationIncident ::
  "physical_key \<Rightarrow> int \<Rightarrow> string \<Rightarrow> string option \<Rightarrow> Database \<Rightarrow> CodeError + Database" where
  "terminateRotationIncident pk now i actorUserId d = (case find_incident d i of
     None \<Rightarrow> Inl ''rotation_not_found''
   | Some incident \<Rightarrow>
      bindE (lockRotationContext pk (tb_cloud d) (ri_slotId incident)) (\<lambda>_.
      if ri_terminatedAt incident \<noteq> None then Inr d
      else if ri_status incident = IncComplete then Inl ''rotation_not_resumable''
      else (let publications = filter (\<lambda>p. pb_incidentId p = Some i) (ct_publications (tb_cloud d))
        in Inr (rotationAudit incident ''rotation.terminate'' actorUserId NoSnapshot
             (set_cloud (terminate_cloud now actorUserId incident) (terminate_publications now publications d))))))"
section \<open>At most one open incident of a slot\<close>

text \<open>The table's constraints, with its partial unique index: one open incident of a slot.\<close>

definition incidents_ok :: "CloudTables \<Rightarrow> bool" where
  "incidents_ok t = (distinct (map ri_incidentId (ct_incidents t))
     \<and> distinct (map ri_slotId (filter open_incident (ct_incidents t)))
     \<and> (\<forall>i \<in> set (ct_incidents t). incident_row_ok i) \<and> (\<forall>s \<in> set (ct_slots t). slot_row_ok s))"

lemma tb_cloud_set_cloud [simp]: "tb_cloud (set_cloud f d) = f (tb_cloud d)"
  by (simp add: set_cloud_def)

lemma tb_cloud_rotationAudit [simp]: "tb_cloud (rotationAudit i a u s d) = tb_cloud d"
  by (simp add: rotationAudit_def)

lemma tb_cloud_insert_incident [simp]:
  "tb_cloud (insert_incident i s d) = (tb_cloud d)\<lparr>ct_incidents := ct_incidents (tb_cloud d) @ [i], ct_segments := ct_segments (tb_cloud d) @ [s]\<rparr>"
  by (simp add: insert_incident_def)

lemma tb_cloud_terminate_publications [simp]: "tb_cloud (terminate_publications now p d) = tb_cloud d"
  by (simp add: terminate_publications_def Let_def)

lemma incidents_ok_cong:
  "ct_incidents t' = ct_incidents t \<Longrightarrow> ct_slots t' = ct_slots t \<Longrightarrow> incidents_ok t' = incidents_ok t"
  by (simp add: incidents_ok_def)

lemma distinct_map_filter_mono:
  "distinct (map f (filter P xs)) \<Longrightarrow> (\<And>x. x \<in> set xs \<Longrightarrow> Q x \<Longrightarrow> P x) \<Longrightarrow> distinct (map f (filter Q xs))"
  by (induction xs) (auto split: if_splits)

text \<open>A change of the rows that reopens none keeps the constraints, and so does a new row of a slot without an open one.\<close>

lemma incidents_ok_update:
  assumes "incidents_ok t" and "ct_incidents t' = map g (ct_incidents t)" and "ct_slots t' = ct_slots t"
    and "\<And>i. i \<in> set (ct_incidents t) \<Longrightarrow> incident_row_ok i \<Longrightarrow> ri_incidentId (g i) = ri_incidentId i \<and> ri_slotId (g i) = ri_slotId i
      \<and> incident_row_ok (g i) \<and> (open_incident (g i) \<longrightarrow> open_incident i)"
  shows "incidents_ok t'"
proof -
  from assms(1,4) have g: "ri_incidentId (g i) = ri_incidentId i" "ri_slotId (g i) = ri_slotId i" "incident_row_ok (g i)"
      "open_incident (g i) \<Longrightarrow> open_incident i" if "i \<in> set (ct_incidents t)" for i
    using that by (auto simp: incidents_ok_def)
  have ids: "map ri_incidentId (ct_incidents t') = map ri_incidentId (ct_incidents t)" using g(1) assms(2) by simp
  have "map ri_slotId (filter open_incident (ct_incidents t')) = map ri_slotId (filter (open_incident \<circ> g) (ct_incidents t))"
    using g(2) assms(2) by (simp add: filter_map)
  moreover have "distinct (map ri_slotId (filter (open_incident \<circ> g) (ct_incidents t)))"
    by (rule distinct_map_filter_mono [where P = open_incident]) (use assms(1) g(4) in \<open>auto simp: incidents_ok_def\<close>)
  ultimately have "distinct (map ri_slotId (filter open_incident (ct_incidents t')))" by metis
  moreover have "\<forall>i \<in> set (ct_incidents t'). incident_row_ok i" using g(3) assms(2) by simp
  moreover have "distinct (map ri_incidentId (ct_incidents t'))" unfolding ids using assms(1) by (simp add: incidents_ok_def)
  ultimately show ?thesis using assms(1,3) by (simp add: incidents_ok_def)
qed

lemma incidents_ok_insert:
  assumes "incidents_ok t" and "ct_incidents t' = ct_incidents t @ [i]" and "ct_slots t' = ct_slots t"
    and "ri_incidentId i \<notin> ri_incidentId ` set (ct_incidents t)" and "incident_row_ok i"
    and "\<And>j. j \<in> set (ct_incidents t) \<Longrightarrow> open_incident j \<Longrightarrow> ri_slotId j \<noteq> ri_slotId i"
  shows "incidents_ok t'"
proof -
  have "ri_slotId i \<notin> ri_slotId ` set (filter open_incident (ct_incidents t))" using assms(6) by force
  with assms(1-5) show ?thesis by (auto simp: incidents_ok_def)
qed

lemma lockRotationContext_slot:
  "lockRotationContext pk t i = Inr c \<Longrightarrow> cx_slot c \<in> set (ct_slots t) \<and> ms_id (cx_slot c) = i"
  by (auto simp: lockRotationContext_def Let_def dest!: select_one_Some split: option.splits)

lemma existingIncident_none:
  "existingIncident d c tr ev = Inr None \<Longrightarrow> j \<in> set (ct_incidents (tb_cloud d)) \<Longrightarrow> open_incident j \<Longrightarrow> ri_slotId j \<noteq> ms_id (cx_slot c)"
  by (auto simp: existingIncident_def Let_def select_one_None split: option.splits if_splits)

lemma fresh_incident_row_ok:
  "slot_row_ok (cx_slot c) \<Longrightarrow> (epoch = None \<longleftrightarrow> tr = ManualTrigger) \<Longrightarrow> incident_row_ok (fresh_incident ids now c tr ev a p epoch)"
  by (auto simp: fresh_incident_def incident_row_ok_def slot_row_ok_def has_epoch_def no_epoch_def)

text \<open>The ways an admission succeeds: the open incident is the answer, or a fresh one is inserted.\<close>

lemma createCross_Inr:
  assumes "createCrossCloudRotationIncident ids now c tr ev u d = Inr (d', i, n)"
  shows "(existingIncident d c tr ev = Inr (Some i) \<and> d' = d)
    \<or> (\<exists>p a e. existingIncident d c tr ev = Inr None \<and> rotationAuthorizationError c tr = None \<and> cx_policy c = Some p \<and> cx_authorization c = Some a
        \<and> healthRevisions (lockRotationHealth now d c) = Inr e \<and> (tr = HealthTrigger \<longrightarrow> rh_failure (lockRotationHealth now d c))
        \<and> i = fresh_incident ids now c tr ev a (rp_revision p) (Some e)
        \<and> tb_cloud d' = (tb_cloud d)\<lparr>ct_incidents := ct_incidents (tb_cloud d) @ [i],
            ct_segments := ct_segments (tb_cloud d) @ [new_segment (ni_segmentId ids) (ni_incidentId ids) (rp_maxAttempts p) u]\<rparr>)"
  using assms by (auto simp: createCrossCloudRotationIncident_def Let_def result_elims split: option.splits sum.splits)

lemma createCross_incidents_ok:
  assumes "createCrossCloudRotationIncident ids now c tr ev u d = Inr (d', i, n)" and "incidents_ok (tb_cloud d)"
    and slot: "slot_row_ok (cx_slot c)" and "tr \<noteq> ManualTrigger"
    and "ni_incidentId ids \<notin> ri_incidentId ` set (ct_incidents (tb_cloud d))"
  shows "incidents_ok (tb_cloud d')"
proof -
  from createCross_Inr [OF assms(1)] show ?thesis
  proof (elim disjE exE conjE)
    fix p a e
    assume fresh: "existingIncident d c tr ev = Inr None" and i: "i = fresh_incident ids now c tr ev a (rp_revision p) (Some e)"
      and d': "tb_cloud d' = (tb_cloud d)\<lparr>ct_incidents := ct_incidents (tb_cloud d) @ [i],
            ct_segments := ct_segments (tb_cloud d) @ [new_segment (ni_segmentId ids) (ni_incidentId ids) (rp_maxAttempts p) u]\<rparr>"
    have "incident_row_ok i" unfolding i by (rule fresh_incident_row_ok) (use slot assms(4) in simp_all)
    moreover have "ri_slotId i = ms_id (cx_slot c)" "ri_incidentId i = ni_incidentId ids" by (simp_all add: i fresh_incident_def)
    ultimately show ?thesis using assms(2,5) existingIncident_none [OF fresh] d'
      by (intro incidents_ok_insert [of "tb_cloud d" "tb_cloud d'" i]) auto
  qed (use assms(2) in simp)
qed
lemma tb_cloud_set_schedule [simp]:
  "tb_cloud (set_schedule i f d) = (tb_cloud d)\<lparr>ct_schedules := update_where (\<lambda>s. rs_slotId s = i) f (ct_schedules (tb_cloud d))\<rparr>"
  by (simp add: set_schedule_def)

lemma tb_cloud_set_incident [simp]:
  "tb_cloud (set_incident i f d) = (tb_cloud d)\<lparr>ct_incidents := update_where (\<lambda>x. ri_incidentId x = i) f (ct_incidents (tb_cloud d))\<rparr>"
  by (simp add: set_incident_def)

lemma incidents_ok_ignores:
  "incidents_ok (t\<lparr>ct_schedules := a\<rparr>) = incidents_ok t" "incidents_ok (t\<lparr>ct_policies := b\<rparr>) = incidents_ok t"
  "incidents_ok (t\<lparr>ct_segments := c\<rparr>) = incidents_ok t" "incidents_ok (t\<lparr>ct_steps := e\<rparr>) = incidents_ok t"
  "incidents_ok (t\<lparr>ct_attempts := f\<rparr>) = incidents_ok t" "incidents_ok (t\<lparr>ct_leases := g\<rparr>) = incidents_ok t"
  by (simp_all add: incidents_ok_def)

lemma createScheduled_Inr:
  assumes "createScheduledRotationIncident isIP render ids now c d = Inr (d', i)"
  obtains s due d1 n where "find_schedule d (ms_id (cx_slot c)) = Some s" and "rs_enabled s" and "rs_pausedReason s = None \<or> rs_pausedReason s = Some []"
    and "rs_activeIncidentId s = None" and "rs_nextRunAt s = Some due" and "due \<le> now" and "scheduledRotationPrerequisiteError isIP c = None"
    and "createCrossCloudRotationIncident ids now c ScheduledTrigger (''scheduled-'' @ int_text (rs_revision s) @ ''-'' @ render due) None d = Inr (d1, i, n)"
    and "d' = set_schedule (ms_id (cx_slot c)) (\<lambda>s. s\<lparr>rs_activeIncidentId := Some (ri_incidentId i), rs_nextRunAt := None, rs_lastStartedAt := Some n\<rparr>) d1"
proof -
  from assms obtain s due where s: "find_schedule d (ms_id (cx_slot c)) = Some s" "rs_nextRunAt s = Some due"
    by (auto simp: createScheduledRotationIncident_def bindE_eq_Inr split: option.splits)
  have "scheduledRotationPrerequisiteError isIP c = None"
    using assms s by (auto simp: createScheduledRotationIncident_def bindE_eq_Inr split: option.splits)
  with assms s that show ?thesis by (auto simp: createScheduledRotationIncident_def bindE_eq_Inr guardE_eq_Inr split: prod.splits)
qed

lemma createScheduled_incidents_ok:
  assumes "createScheduledRotationIncident isIP render ids now c d = Inr (d', i)" and "incidents_ok (tb_cloud d)"
    and slot: "slot_row_ok (cx_slot c)" and "ni_incidentId ids \<notin> ri_incidentId ` set (ct_incidents (tb_cloud d))"
  shows "incidents_ok (tb_cloud d')"
  using assms(1)
proof (rule createScheduled_Inr)
  fix s' due d1 n
  assume "createCrossCloudRotationIncident ids now c ScheduledTrigger (''scheduled-'' @ int_text (rs_revision s') @ ''-'' @ render due) None d = Inr (d1, i, n)"
    and d': "d' = set_schedule (ms_id (cx_slot c)) (\<lambda>s. s\<lparr>rs_activeIncidentId := Some (ri_incidentId i), rs_nextRunAt := None, rs_lastStartedAt := Some n\<rparr>) d1"
  from createCross_incidents_ok [OF this(1) assms(2,3) _ assms(4)] show ?thesis by (simp add: d' incidents_ok_ignores)
qed

lemma createManual_Inr:
  assumes "createManualRotationIncident isIP ids now c ev u d = Inr (d', i)"
  shows "(existingIncident d c ManualTrigger ev = Inr (Some i) \<and> d' = d)
    \<or> (\<exists>(p :: RotationPolicyRow) ps a. existingIncident d c ManualTrigger ev = Inr None \<and> rotationAuthorizationError c ManualTrigger = None
        \<and> manualRotationCapabilityError isIP c = None \<and> i = fresh_incident ids now c ManualTrigger ev a (rp_revision p) None
        \<and> tb_cloud d' = (tb_cloud d)\<lparr>ct_policies := ps, ct_incidents := ct_incidents (tb_cloud d) @ [i],
            ct_segments := ct_segments (tb_cloud d) @ [new_segment (ni_segmentId ids) (ni_incidentId ids) 1 (Some u)]\<rparr>)"
proof (cases "existingIncident d c ManualTrigger ev")
  case (Inr x)
  show ?thesis
  proof (cases x)
    case None
    from assms Inr None obtain a where a: "cx_authorization c = Some a" and ok: "rotationAuthorizationError c ManualTrigger = None" "manualRotationCapabilityError isIP c = None"
      by (auto simp: createManualRotationIncident_def result_elims split: option.splits)
    obtain p :: RotationPolicyRow and ps where "i = fresh_incident ids now c ManualTrigger ev a (rp_revision p) None"
      and "tb_cloud d' = (tb_cloud d)\<lparr>ct_policies := ps, ct_incidents := ct_incidents (tb_cloud d) @ [i],
            ct_segments := ct_segments (tb_cloud d) @ [new_segment (ni_segmentId ids) (ni_incidentId ids) 1 (Some u)]\<rparr>"
    proof (cases "cx_policy c")
      case no: None
      let ?p = "default_policy (ms_id (cx_slot c))"
      from no assms Inr None a ok show thesis
        by (intro that [of ?p "ct_policies (tb_cloud d) @ [?p]"]) (auto simp: createManualRotationIncident_def Let_def result_elims)
    next
      case (Some p)
      with assms Inr None a ok show thesis
        by (intro that [of p "ct_policies (tb_cloud d)"]) (auto simp: createManualRotationIncident_def Let_def result_elims)
    qed
    with Inr None ok show ?thesis by blast
  qed (use assms Inr in \<open>auto simp: createManualRotationIncident_def\<close>)
qed (use assms in \<open>simp add: createManualRotationIncident_def\<close>)

lemma createManual_incidents_ok:
  assumes "createManualRotationIncident isIP ids now c ev u d = Inr (d', i)" and "incidents_ok (tb_cloud d)"
    and slot: "slot_row_ok (cx_slot c)" and "ni_incidentId ids \<notin> ri_incidentId ` set (ct_incidents (tb_cloud d))"
  shows "incidents_ok (tb_cloud d')"
  using createManual_Inr [OF assms(1)]
proof (elim disjE exE conjE)
  fix p :: RotationPolicyRow and ps a
  assume fresh: "existingIncident d c ManualTrigger ev = Inr None" and i: "i = fresh_incident ids now c ManualTrigger ev a (rp_revision p) None"
    and d': "tb_cloud d' = (tb_cloud d)\<lparr>ct_policies := ps, ct_incidents := ct_incidents (tb_cloud d) @ [i],
            ct_segments := ct_segments (tb_cloud d) @ [new_segment (ni_segmentId ids) (ni_incidentId ids) 1 (Some u)]\<rparr>"
  have "incident_row_ok i" unfolding i by (rule fresh_incident_row_ok) (use slot in simp_all)
  moreover have "ri_slotId i = ms_id (cx_slot c)" "ri_incidentId i = ni_incidentId ids" by (simp_all add: i fresh_incident_def)
  ultimately show ?thesis using assms(2,4) existingIncident_none [OF fresh] d'
    by (intro incidents_ok_insert [of "tb_cloud d" "tb_cloud d'" i]) auto
qed (use assms(2) in simp)
lemma tb_cloud_step_audits [simp]: "tb_cloud (fold (step_audit incident u a) ss d) = tb_cloud d"
  by (induction ss arbitrary: d) (simp_all add: step_audit_def)

lemma resumeAttempt_cloud:
  "resumeAttempt u incident attempt d = Inr d' \<Longrightarrow> ct_incidents (tb_cloud d') = ct_incidents (tb_cloud d) \<and> ct_slots (tb_cloud d') = ct_slots (tb_cloud d)"
  by (auto simp: resumeAttempt_def Let_def split: option.splits if_splits)

lemma resumed_row [simp]:
  "ri_incidentId (resumed now c a p e cc seg i) = ri_incidentId i" "ri_slotId (resumed now c a p e cc seg i) = ri_slotId i"
  "ri_rotationTrigger (resumed now c a p e cc seg i) = ri_rotationTrigger i" "ri_status (resumed now c a p e cc seg i) = IncActive"
  by (simp_all add: resumed_def with_epoch_def Let_def split: option.splits)

lemma resumed_row_ok:
  "incident_row_ok i \<Longrightarrow> (e = None \<longleftrightarrow> ri_rotationTrigger i = ManualTrigger) \<Longrightarrow> incident_row_ok (resumed now c a p e cc seg i)"
  by (auto simp: resumed_def with_epoch_def Let_def incident_row_ok_def has_epoch_def no_epoch_def split: option.splits if_splits)

lemma reactivate_Inr:
  assumes "reactivate new now c i u p a e incident d = Inr (d', r)"
  obtains cc seg where "r = resumed now c a p e cc seg incident"
    and "ct_incidents (tb_cloud d') = update_where (\<lambda>x. ri_incidentId x = i) (resumed now c a p e cc seg) (ct_incidents (tb_cloud d))"
    and "ct_slots (tb_cloud d') = ct_slots (tb_cloud d)"
  using assms by (auto simp: reactivate_def Let_def bindE_eq_Inr dest!: resumeAttempt_cloud split: if_splits)

lemma resume_epoch_Inr: "resume_epoch now c d incident = Inr e \<Longrightarrow> e = None \<longleftrightarrow> ri_rotationTrigger incident = ManualTrigger"
  by (auto simp: resume_epoch_def bindE_eq_Inr split: if_splits)

text \<open>A resumption either finds the incident active already or reactivates it under the present revisions.\<close>

lemma resume_Inr:
  assumes "resumeRotationIncident new now c i u d = Inr (d', r)"
  obtains incident p a e where "find_incident d i = Some incident" and "ri_status incident \<noteq> IncComplete"
    and "rotationAuthorizationError c (ri_rotationTrigger incident) = None" and "cx_policy c = Some p" and "cx_authorization c = Some a"
    and "e = None \<longleftrightarrow> ri_rotationTrigger incident = ManualTrigger"
    and "\<forall>l \<in> set (ct_leases (tb_cloud d)). le_physicalKey l = cx_physicalKey c \<longrightarrow> le_unresolvedStepId l = None"
    and "d' = d \<and> r = incident \<and> ri_status incident = IncActive \<or> reactivate new now c i u p a e incident d = Inr (d', r)"
proof -
  from assms obtain incident where f: "find_incident d i = Some incident" and s: "ri_status incident \<noteq> IncComplete"
    and ok: "rotationAuthorizationError c (ri_rotationTrigger incident) = None"
    by (auto simp: resumeRotationIncident_def result_elims split: option.splits if_splits)
  note body = assms [unfolded resumeRotationIncident_def f option.case if_not_P [OF s] ok bindE_Inr]
  from body obtain p a where pa: "cx_policy c = Some p" "cx_authorization c = Some a" by (auto split: option.splits)
  from body [unfolded pa option.case prod.case bindE_eq_Inr] obtain e where e: "resume_epoch now c d incident = Inr e"
    and rest: "\<not> list_ex (\<lambda>l. le_physicalKey l = cx_physicalKey c \<and> le_unresolvedStepId l \<noteq> None) (ct_leases (tb_cloud d))"
      "(if ri_status incident = IncActive then Inr (d, incident) else reactivate new now c i u p a e incident d) = Inr (d', r)"
    by (auto simp: guardE_eq_Inr)
  show thesis
    by (rule that [OF f s ok pa resume_epoch_Inr [OF e]]) (use rest in \<open>auto simp: list_ex_iff split: if_splits\<close>)
qed

lemma find_incident_unique:
  assumes "incidents_ok (tb_cloud d)" and "find_incident d i = Some incident" and "x \<in> set (ct_incidents (tb_cloud d))" and "ri_incidentId x = i"
  shows "x = incident"
proof -
  have "incident \<in> set (ct_incidents (tb_cloud d))" "ri_incidentId incident = i"
    using select_one_Some [OF assms(2) [unfolded find_incident_def]] by auto
  with assms show ?thesis by (auto simp: incidents_ok_def distinct_map dest: inj_onD)
qed

lemma incidents_ok_update_where:
  assumes "incidents_ok (tb_cloud d)" and "find_incident d i = Some incident" and "ct_slots t' = ct_slots (tb_cloud d)"
    and "ct_incidents t' = update_where (\<lambda>x. ri_incidentId x = i) f (ct_incidents (tb_cloud d))"
    and "ri_incidentId (f incident) = i" and "ri_slotId (f incident) = ri_slotId incident"
    and "incident_row_ok incident \<Longrightarrow> incident_row_ok (f incident)" and "open_incident (f incident) \<Longrightarrow> open_incident incident"
  shows "incidents_ok t'"
  by (rule incidents_ok_update [OF assms(1) assms(4) [unfolded update_where_def] assms(3)])
    (use find_incident_unique [OF assms(1,2)] assms(5-) in \<open>auto split: if_splits\<close>)

lemma resume_incidents_ok:
  assumes "resumeRotationIncident new now c i u d = Inr (d', r)" and "incidents_ok (tb_cloud d)"
  shows "incidents_ok (tb_cloud d')"
  using assms(1)
proof (rule resume_Inr)
  fix incident p a e
  assume f: "find_incident d i = Some incident" and s: "ri_status incident \<noteq> IncComplete"
    and e: "e = None \<longleftrightarrow> ri_rotationTrigger incident = ManualTrigger"
    and "d' = d \<and> r = incident \<and> ri_status incident = IncActive \<or> reactivate new now c i u p a e incident d = Inr (d', r)"
  then consider "d' = d" | "reactivate new now c i u p a e incident d = Inr (d', r)" by blast
  then show ?thesis
  proof cases
    case 2
    have "ri_incidentId incident = i" using f by (auto simp: find_incident_def dest: select_one_Some)
    from 2 show ?thesis
    proof (rule reactivate_Inr)
      fix cc seg
      assume inc: "ct_incidents (tb_cloud d') = update_where (\<lambda>x. ri_incidentId x = i) (resumed now c a p e cc seg) (ct_incidents (tb_cloud d))"
        and slots: "ct_slots (tb_cloud d') = ct_slots (tb_cloud d)"
      show ?thesis by (rule incidents_ok_update_where [OF assms(2) f slots inc])
        (use \<open>ri_incidentId incident = i\<close> s e resumed_row_ok in \<open>simp_all add: open_incident_def\<close>)
    qed
  qed (use assms(2) in simp)
qed
section \<open>Termination is a fence\<close>

lemma terminate_Inr:
  assumes "terminateRotationIncident pk now i u d = Inr d'" and "find_incident d i = Some incident" and "ri_terminatedAt incident = None"
  shows "ri_status incident \<noteq> IncComplete \<and> d' = rotationAudit incident ''rotation.terminate'' u NoSnapshot (set_cloud (terminate_cloud now u incident)
    (terminate_publications now (filter (\<lambda>p. pb_incidentId p = Some i) (ct_publications (tb_cloud d))) d))"
  using assms by (auto simp: terminateRotationIncident_def bindE_eq_Inr Let_def split: if_splits)

lemma terminate_incidents_ok:
  assumes "terminateRotationIncident pk now i u d = Inr d'" and ok: "incidents_ok (tb_cloud d)"
  shows "incidents_ok (tb_cloud d')"
proof -
  from assms(1) obtain incident where f: "find_incident d i = Some incident" by (auto simp: terminateRotationIncident_def split: option.splits)
  have i: "ri_incidentId incident = i" using f by (auto simp: find_incident_def dest: select_one_Some)
  show ?thesis
  proof (cases "ri_terminatedAt incident")
    case None
    from terminate_Inr [OF assms(1) f None] have d': "tb_cloud d' = terminate_cloud now u incident (tb_cloud d)" by simp
    show ?thesis
      by (rule incidents_ok_update_where [OF ok f, where f = "\<lambda>x. x\<lparr>ri_status := IncComplete, ri_terminatedAt := Some now,
           ri_finishedAt := Some now, ri_pausedByUserId := u, ri_errorCode := Some ''manual_terminated'', ri_updatedAt := now\<rparr>"])
        (auto simp: d' terminate_cloud_def Let_def i open_incident_def incident_row_ok_def has_epoch_def no_epoch_def)
  next
    case (Some t)
    with assms(1) f have "d' = d" by (auto simp: terminateRotationIncident_def bindE_eq_Inr)
    with ok show ?thesis by simp
  qed
qed

definition unsettled :: "OperationStatus \<Rightarrow> bool" where
  "unsettled s = (s \<in> {OpPending, OpRunning, OpPartial, OpFailed})"

lemma update_where_all:
  "r' \<in> set (update_where P f t) \<Longrightarrow> (\<And>r. P r \<Longrightarrow> Q (f r)) \<Longrightarrow> (\<And>r. \<not> P r \<Longrightarrow> Q r) \<Longrightarrow> Q r'"
  by (auto simp: set_update_where)

lemma terminate_publications_operations:
  "o' \<in> set (tb_operations (terminate_publications now publications d)) \<Longrightarrow>
   op_id o' \<in> set (terminated_operations publications (tb_operations d)) \<longrightarrow> \<not> unsettled (op_status o')"
  unfolding terminate_publications_def Let_def
  by (simp, erule update_where_all) (simp_all add: unsettled_def)

lemma terminate_publications_intents:
  "r \<in> set (tb_reconcileIntents (terminate_publications now publications d)) \<Longrightarrow>
   ri_eventId r \<in> pc_eventId ` set (concat (map pb_children publications)) \<longrightarrow> ri_completedAt r \<noteq> None"
  unfolding terminate_publications_def Let_def
  by (simp, erule update_where_all) simp_all

text \<open>C22: Terminating an incident by hand fences everything that still works for it: the incident is complete, every
  operation and every reconciliation of its publications is cancelled, the policy no longer rotates, no unused write
  reservation is left, every lease it holds loses its holder and gets a new revision, and a lease stays tied to it
  only while an unresolved cloud step is recorded on it.\<close>

theorem termination_fences:
  assumes run: "terminateRotationIncident pk now i u d = Inr d'" and found: "find_incident d i = Some incident"
    and fresh: "ri_terminatedAt incident = None"
  defines "publications \<equiv> filter (\<lambda>p. pb_incidentId p = Some i) (ct_publications (tb_cloud d))"
  shows "(\<forall>x \<in> set (ct_incidents (tb_cloud d')). ri_incidentId x = i \<longrightarrow> ri_status x = IncComplete \<and> ri_terminatedAt x = Some now)
    \<and> (\<forall>o' \<in> set (tb_operations d'). op_id o' \<in> set (terminated_operations publications (tb_operations d)) \<longrightarrow> \<not> unsettled (op_status o'))
    \<and> (\<forall>r \<in> set (tb_reconcileIntents d'). ri_eventId r \<in> pc_eventId ` set (concat (map pb_children publications)) \<longrightarrow> ri_completedAt r \<noteq> None)
    \<and> (\<forall>p \<in> set (ct_policies (tb_cloud d')). rp_slotId p = ri_slotId incident \<longrightarrow> \<not> rp_enabled p)
    \<and> (\<forall>r \<in> set (ct_reservations (tb_cloud d')). \<forall>s \<in> set (ct_steps (tb_cloud d)). \<forall>a \<in> set (ct_attempts (tb_cloud d)).
         ra_incidentId a = i \<and> st_attemptId s = ra_id a \<and> rr_stepId r = st_id s \<longrightarrow> rr_consumedAt r \<noteq> None)
    \<and> list_all2 (\<lambda>l l'. le_physicalKey l' = le_physicalKey l \<and> le_unresolvedStepId l' = le_unresolvedStepId l
         \<and> (le_incidentId l = Some i \<longrightarrow> le_holder l' = None \<and> le_revision l' = le_revision l + 1))
         (ct_leases (tb_cloud d)) (ct_leases (tb_cloud d'))
    \<and> (\<forall>l \<in> set (ct_leases (tb_cloud d')). le_incidentId l = Some i \<longrightarrow> le_unresolvedStepId l \<noteq> None)"
proof -
  have i: "ri_incidentId incident = i" using found by (auto simp: find_incident_def dest: select_one_Some)
  note d' = conjunct2 [OF terminate_Inr [OF run found fresh]]
  have c: "tb_cloud d' = terminate_cloud now u incident (tb_cloud d)" by (simp add: d')
  have o: "tb_operations d' = tb_operations (terminate_publications now publications d)"
    "tb_reconcileIntents d' = tb_reconcileIntents (terminate_publications now publications d)"
    by (simp_all add: d' publications_def rotationAudit_def set_cloud_def)
  have "\<forall>x \<in> set (ct_incidents (tb_cloud d')). ri_incidentId x = i \<longrightarrow> ri_status x = IncComplete \<and> ri_terminatedAt x = Some now"
    by (intro ballI, simp add: c i terminate_cloud_def Let_def, erule update_where_all) simp_all
  moreover have "\<forall>o' \<in> set (tb_operations d'). op_id o' \<in> set (terminated_operations publications (tb_operations d)) \<longrightarrow> \<not> unsettled (op_status o')"
    unfolding o by (intro ballI) (rule terminate_publications_operations)
  moreover have "\<forall>r \<in> set (tb_reconcileIntents d'). ri_eventId r \<in> pc_eventId ` set (concat (map pb_children publications)) \<longrightarrow> ri_completedAt r \<noteq> None"
    unfolding o by (intro ballI) (rule terminate_publications_intents)
  moreover have "\<forall>p \<in> set (ct_policies (tb_cloud d')). rp_slotId p = ri_slotId incident \<longrightarrow> \<not> rp_enabled p"
    by (intro ballI, simp add: c terminate_cloud_def Let_def, erule update_where_all) simp_all
  moreover have "\<forall>r \<in> set (ct_reservations (tb_cloud d')). \<forall>s \<in> set (ct_steps (tb_cloud d)). \<forall>a \<in> set (ct_attempts (tb_cloud d)).
         ra_incidentId a = i \<and> st_attemptId s = ra_id a \<and> rr_stepId r = st_id s \<longrightarrow> rr_consumedAt r \<noteq> None"
  proof (intro ballI impI)
    fix r s a
    assume r: "r \<in> set (ct_reservations (tb_cloud d'))" and "s \<in> set (ct_steps (tb_cloud d))" "a \<in> set (ct_attempts (tb_cloud d))"
      and m: "ra_incidentId a = i \<and> st_attemptId s = ra_id a \<and> rr_stepId r = st_id s"
    then have "rr_stepId r \<in> st_id ` {s \<in> set (ct_steps (tb_cloud d)). \<exists>a \<in> set (ct_attempts (tb_cloud d)). ra_id a = st_attemptId s \<and> ra_incidentId a = i}"
      by (metis (mono_tags, lifting) imageI mem_Collect_eq)
    with r show "rr_consumedAt r \<noteq> None"
      by (simp add: c i terminate_cloud_def Let_def delete_where_def list_ex_iff)
  qed
  moreover have "list_all2 (\<lambda>l l'. le_physicalKey l' = le_physicalKey l \<and> le_unresolvedStepId l' = le_unresolvedStepId l
         \<and> (le_incidentId l = Some i \<longrightarrow> le_holder l' = None \<and> le_revision l' = le_revision l + 1))
         (ct_leases (tb_cloud d)) (ct_leases (tb_cloud d'))"
    by (auto simp: c i terminate_cloud_def Let_def update_where_def list_all2_map2 intro!: list.rel_refl_strong)
  moreover have "\<forall>l \<in> set (ct_leases (tb_cloud d')). le_incidentId l = Some i \<longrightarrow> le_unresolvedStepId l \<noteq> None"
    by (intro ballI, simp add: c i terminate_cloud_def Let_def, erule update_where_all) simp_all
  ultimately show ?thesis by blast
qed

definition manual_start :: Database where
  "manual_start = (case createManualRotationIncident (\<lambda>_. 4) \<lparr>ni_incidentId = ''inc1'', ni_segmentId = ''seg1''\<rparr> 1000 demo_context
     ''manual-1'' ''u1'' demo_database of Inr (d, _) \<Rightarrow> d | Inl _ \<Rightarrow> demo_database)"

definition started_incident :: RotationIncidentRow where
  "started_incident = (case find_incident manual_start ''inc1'' of Some i \<Rightarrow> i | None \<Rightarrow> undefined)"

lemma manual_start_incident: "find_incident manual_start ''inc1'' = Some started_incident" "ri_terminatedAt started_incident = None"
  by code_simp+

lemma manual_start_terminates: "\<not> isl (terminateRotationIncident plain_key 2000 ''inc1'' (Some ''u1'') manual_start)"
  by code_simp

theorem termination_fences_witness:
  "\<exists>d'. terminateRotationIncident plain_key 2000 ''inc1'' (Some ''u1'') manual_start = Inr d'
    \<and> list_all (\<lambda>p. \<not> rp_enabled p) (filter (\<lambda>p. rp_slotId p = ri_slotId started_incident) (ct_policies (tb_cloud d')))"
proof -
  obtain d' where run: "terminateRotationIncident plain_key 2000 ''inc1'' (Some ''u1'') manual_start = Inr d'"
    using manual_start_terminates by (metis isl_def obj_sumE)
  from termination_fences [OF run manual_start_incident] show ?thesis by (intro exI [of _ d'] conjI run) (simp add: list_all_iff)
qed
end
