(* ===== verification/Rotation_Schedules.thy ===== *)
theory Rotation_Schedules
  imports Rotation_Incidents
begin

text \<open>
  Scheduled rotations: the configuration of a schedule, its resumption and its reconciliation with the incidents of
  its slot (\<open>packages/db/src/rotation-schedules.ts\<close>), the scanner that admits due ones
  (\<open>apps/worker/src/rotation/rotation-scheduler.service.ts\<close>) and the service behind the API
  (\<open>apps/api/src/modules/rotation/rotation-schedules.service.ts\<close>, \<open>rotation.service.ts\<close>). The database clock is
  the parameter \<open>now\<close>; queue wake-ups are the list of the admitted incidents.
\<close>

section \<open>Configuration\<close>

record RotationScheduleUpdateInput =
  su_revision :: int
  su_enabled :: bool
  su_intervalMinutes :: int

definition rotationScheduleDeadline :: "int \<Rightarrow> int \<Rightarrow> int" where
  "rotationScheduleDeadline now intervalMinutes = now + intervalMinutes * 60000"

definition schedule_paused :: "RotationScheduleRow \<Rightarrow> bool" where
  "schedule_paused s = (rs_pausedReason s \<noteq> None \<and> rs_pausedReason s \<noteq> Some [])"

definition lockScheduleIncident :: "Database \<Rightarrow> RotationScheduleRow option \<Rightarrow> RotationIncidentRow option" where
  "lockScheduleIncident d schedule = Option.bind (Option.bind schedule rs_activeIncidentId) (find_incident d)"

text \<open>Latest completion first, then latest creation, then the greatest identifier.\<close>

definition completion_order :: "RotationIncidentRow \<Rightarrow> RotationIncidentRow \<Rightarrow> int" where
  "completion_order a b = (case (ri_finishedAt a, ri_finishedAt b) of
     (Some x, Some y) \<Rightarrow> if x \<noteq> y then y - x
       else if ri_createdAt a \<noteq> ri_createdAt b then ri_createdAt b - ri_createdAt a
       else code_unit_compare (ri_incidentId b) (ri_incidentId a)
   | _ \<Rightarrow> 0)"

definition latestScheduleCompletion :: "Database \<Rightarrow> string \<Rightarrow> RotationIncidentRow option" where
  "latestScheduleCompletion d slotId = (case js_sort completion_order
      (filter (\<lambda>i. ri_slotId i = slotId \<and> ri_status i = IncComplete \<and> ri_finishedAt i \<noteq> None) (ct_incidents (tb_cloud d))) of
     [] \<Rightarrow> None | i # _ \<Rightarrow> Some i)"

definition incidentObservationTime :: "Database \<Rightarrow> string \<Rightarrow> int option" where
  "incidentObservationTime d i = map_option ri_updatedAt (find_incident d i)"

text \<open>The first non-null value (\<open>??\<close>).\<close>

definition or_else :: "'a option \<Rightarrow> 'a option \<Rightarrow> 'a option" where
  "or_else a b = (case a of Some x \<Rightarrow> Some x | None \<Rightarrow> b)"

definition put_schedule :: "RotationScheduleRow option \<Rightarrow> RotationScheduleRow \<Rightarrow> Database \<Rightarrow> Database" where
  "put_schedule before s = (case before of
     Some _ \<Rightarrow> set_schedule (rs_slotId s) (\<lambda>_. s)
   | None \<Rightarrow> set_cloud (\<lambda>t. t\<lparr>ct_schedules := ct_schedules t @ [s]\<rparr>))"

definition schedule_revision :: "RotationScheduleRow option \<Rightarrow> int" where
  "schedule_revision before = (case before of Some s \<Rightarrow> rs_revision s | None \<Rightarrow> 0)"

definition schedule_changed :: "RotationScheduleRow option \<Rightarrow> RotationScheduleUpdateInput \<Rightarrow> bool" where
  "schedule_changed before input =
    ((case before of Some s \<Rightarrow> rs_enabled s | None \<Rightarrow> False) \<noteq> su_enabled input
     \<or> (case before of Some s \<Rightarrow> rs_intervalMinutes s | None \<Rightarrow> 1440) \<noteq> su_intervalMinutes input)"

definition configured_schedule ::
  "int \<Rightarrow> Database \<Rightarrow> string \<Rightarrow> RotationScheduleUpdateInput \<Rightarrow> RotationScheduleRow option \<Rightarrow> RotationScheduleRow" where
  "configured_schedule now d slotId input before =
    (let latest = latestScheduleCompletion d slotId;
         active = (case lockScheduleIncident d before of
            Some i \<Rightarrow> if ri_status i = IncComplete \<and> ri_terminatedAt i = None then None else Option.bind before rs_activeIncidentId
          | None \<Rightarrow> Option.bind before rs_activeIncidentId)
     in \<lparr>rs_slotId = slotId, rs_enabled = su_enabled input, rs_intervalMinutes = su_intervalMinutes input,
         rs_revision = schedule_revision before + 1,
         rs_nextRunAt = (if su_enabled input then Some (rotationScheduleDeadline now (su_intervalMinutes input)) else None),
         rs_activeIncidentId = active, rs_lastStartedAt = Option.bind before rs_lastStartedAt,
         rs_lastCompletedAt = or_else (Option.bind latest ri_finishedAt) (Option.bind before rs_lastCompletedAt),
         rs_lastHandledIncidentId = (if active \<noteq> None then Option.bind before rs_lastHandledIncidentId
            else or_else (map_option ri_incidentId latest) (Option.bind before rs_lastHandledIncidentId)),
         rs_lastHandledIncidentUpdatedAt = (if active \<noteq> None then Option.bind before rs_lastHandledIncidentUpdatedAt
            else (case latest of Some i \<Rightarrow> incidentObservationTime d (ri_incidentId i)
              | None \<Rightarrow> Option.bind before rs_lastHandledIncidentUpdatedAt)),
         rs_pausedReason = Option.bind before rs_pausedReason\<rparr>)"

definition updateRotationScheduleConfiguration ::
  "int \<Rightarrow> string \<Rightarrow> RotationScheduleUpdateInput \<Rightarrow> Database \<Rightarrow> CodeError + Database \<times> RotationScheduleRow option \<times> bool" where
  "updateRotationScheduleConfiguration now slotId input d = (let before = find_schedule d slotId in
     if schedule_revision before \<noteq> su_revision input then Inl ''rotation_schedule_revision_conflict''
     else if \<not> schedule_changed before input then Inr (d, before, False)
     else (let s = configured_schedule now d slotId input before in Inr (put_schedule before s d, Some s, True)))"

section \<open>Resumption\<close>

definition resumed_schedule :: "int \<Rightarrow> Database \<Rightarrow> RotationScheduleRow \<Rightarrow> RotationScheduleRow" where
  "resumed_schedule now d before =
    (let active = (case lockScheduleIncident d (Some before) of
            Some i \<Rightarrow> if ri_status i = IncComplete then None else rs_activeIncidentId before
          | None \<Rightarrow> rs_activeIncidentId before);
         latest = latestScheduleCompletion d (rs_slotId before);
         seen = or_else active (map_option ri_incidentId latest)
     in before\<lparr>rs_revision := rs_revision before + 1, rs_activeIncidentId := active,
         rs_nextRunAt := Some (rotationScheduleDeadline now (rs_intervalMinutes before)),
         rs_lastCompletedAt := or_else (Option.bind latest ri_finishedAt) (rs_lastCompletedAt before),
         rs_lastHandledIncidentId := or_else seen (rs_lastHandledIncidentId before),
         rs_lastHandledIncidentUpdatedAt := (case seen of Some i \<Rightarrow> incidentObservationTime d i
           | None \<Rightarrow> rs_lastHandledIncidentUpdatedAt before),
         rs_pausedReason := None\<rparr>)"

definition resumeRotationSchedule :: "int \<Rightarrow> string \<Rightarrow> int \<Rightarrow> Database \<Rightarrow> CodeError + Database \<times> RotationScheduleRow" where
  "resumeRotationSchedule now slotId revision d = (case find_schedule d slotId of
     None \<Rightarrow> Inl ''rotation_schedule_not_found''
   | Some before \<Rightarrow>
       bindE (guardE (rs_revision before = revision) ''rotation_schedule_revision_conflict'') (\<lambda>_.
       bindE (guardE (rs_enabled before) ''rotation_schedule_disabled'') (\<lambda>_.
       bindE (guardE (schedule_paused before) ''rotation_schedule_not_paused'') (\<lambda>_.
       let s = resumed_schedule now d before in Inr (put_schedule (Some before) s d, s)))))"

section \<open>Reconciliation\<close>

text \<open>The incident the schedule looks at: its own, an open one of the slot, or the latest completed one.\<close>

definition observed_incident :: "Database \<Rightarrow> string \<Rightarrow> RotationScheduleRow \<Rightarrow> RotationIncidentRow option" where
  "observed_incident d slotId s = (case rs_activeIncidentId s of
     Some a \<Rightarrow> select_one (\<lambda>i. ri_slotId i = slotId \<and> ri_incidentId i = a) (ct_incidents (tb_cloud d))
   | None \<Rightarrow> or_else (select_one (\<lambda>i. ri_slotId i = slotId \<and> open_incident i) (ct_incidents (tb_cloud d))) (latestScheduleCompletion d slotId))"

definition incident_handled :: "RotationScheduleRow \<Rightarrow> RotationIncidentRow \<Rightarrow> bool" where
  "incident_handled s i = (rs_lastHandledIncidentId s = Some (ri_incidentId i) \<and> rs_lastHandledIncidentUpdatedAt s = Some (ri_updatedAt i))"

definition stopped_incident :: "RotationIncidentRow \<Rightarrow> bool" where
  "stopped_incident i = (ri_terminatedAt i \<noteq> None \<or> ri_status i = IncPaused \<or> ri_status i = IncExhausted)"

definition stop_reason :: "RotationScheduleRow \<Rightarrow> RotationIncidentRow \<Rightarrow> string option" where
  "stop_reason s i = or_else (rs_pausedReason s) (or_else (ri_errorCode i)
     (Some (if ri_terminatedAt i \<noteq> None then ''manual_terminated''
            else if ri_status i = IncPaused then ''rotation_paused'' else ''rotation_exhausted'')))"

definition reconciled_schedule :: "Database \<Rightarrow> string \<Rightarrow> RotationScheduleRow \<Rightarrow> RotationScheduleRow" where
  "reconciled_schedule d slotId s = (case observed_incident d slotId s of
     None \<Rightarrow> s
   | Some i \<Rightarrow>
      if ri_status i = IncComplete \<and> rs_activeIncidentId s = None \<and> rs_lastHandledIncidentId s = Some (ri_incidentId i) then s
      else if stopped_incident i then
        (if incident_handled s i
         then (if ri_status i \<noteq> IncComplete \<or> rs_activeIncidentId s = None then s else s\<lparr>rs_activeIncidentId := None\<rparr>)
         else s\<lparr>rs_activeIncidentId := (if ri_status i = IncComplete then None else Some (ri_incidentId i)),
                rs_lastHandledIncidentId := Some (ri_incidentId i),
                rs_lastHandledIncidentUpdatedAt := incidentObservationTime d (ri_incidentId i),
                rs_pausedReason := stop_reason s i, rs_nextRunAt := None\<rparr>)
      else (case (ri_status i, ri_finishedAt i) of
          (IncComplete, Some finished) \<Rightarrow>
             s\<lparr>rs_activeIncidentId := None, rs_lastCompletedAt := Some finished, rs_lastHandledIncidentId := Some (ri_incidentId i),
               rs_lastHandledIncidentUpdatedAt := incidentObservationTime d (ri_incidentId i),
               rs_nextRunAt := (if rs_enabled s \<and> \<not> schedule_paused s then Some (rotationScheduleDeadline finished (rs_intervalMinutes s)) else None)\<rparr>
        | _ \<Rightarrow> if rs_activeIncidentId s = None
               then s\<lparr>rs_activeIncidentId := Some (ri_incidentId i), rs_lastStartedAt := Some (ri_createdAt i)\<rparr> else s))"

definition reconcileRotationSchedule :: "string \<Rightarrow> Database \<Rightarrow> Database \<times> RotationScheduleRow option" where
  "reconcileRotationSchedule slotId d = (case find_schedule d slotId of
     None \<Rightarrow> (d, None)
   | Some s \<Rightarrow> (let s' = reconciled_schedule d slotId s in (put_schedule (Some s) s' d, Some s')))"
section \<open>The scanner\<close>

definition benignAdmissionErrors :: "CodeError list" where
  "benignAdmissionErrors = [''rotation_schedule_not_found'', ''rotation_schedule_disabled'', ''rotation_schedule_paused'',
     ''rotation_schedule_active'', ''rotation_schedule_not_due'', ''rotation_active_conflict'']"

definition prerequisiteErrors :: "CodeError list" where
  "prerequisiteErrors = [''rotation_candidate_exists'', ''rotation_public_ipv4_required'', ''rotation_private_ipv4_unsupported'',
     ''rotation_provider_service_unsupported'', ''rotation_policy_missing'', ''authorization_revoked'', ''family_disabled'',
     ''region_excluded'', ''resource_not_found'', ''conflicting_manager'', ''external_health_required'', ''instance_lifecycle_busy'']"

text \<open>What one scan takes from outside: the clock, the identifiers drawn for a slot, \<open>isIP\<close>, \<open>toISOString\<close> and the
  physical key.\<close>

record ScanEnv =
  sc_now :: int
  sc_newIds :: "string \<Rightarrow> NewIds"
  sc_isIP :: "string \<Rightarrow> nat"
  sc_render :: "int \<Rightarrow> string"
  sc_key :: physical_key

definition schedule_due :: "int \<Rightarrow> RotationScheduleRow \<Rightarrow> bool" where
  "schedule_due now s = (rs_enabled s \<and> \<not> schedule_paused s \<and> rs_activeIncidentId s = None
     \<and> (case rs_nextRunAt s of Some due \<Rightarrow> due \<le> now | None \<Rightarrow> False))"

definition scanSlot :: "ScanEnv \<Rightarrow> string \<Rightarrow> Database \<Rightarrow> CodeError + Database \<times> string option" where
  "scanSlot env slotId d =
    bindE (lockRotationContext (sc_key env) (tb_cloud d) slotId) (\<lambda>c.
    case reconcileRotationSchedule slotId d of
      (d1, None) \<Rightarrow> Inr (d1, None)
    | (d1, Some s) \<Rightarrow>
        if \<not> schedule_due (sc_now env) s then Inr (d1, None)
        else (case createScheduledRotationIncident (sc_isIP env) (sc_render env) (sc_newIds env slotId) (sc_now env) c d1 of
            Inr (d2, incident) \<Rightarrow> Inr (d2, Some (ri_incidentId incident))
          | Inl e \<Rightarrow>
              if e \<in> set benignAdmissionErrors then Inr (d1, None)
              else if e \<notin> set prerequisiteErrors then Inl e
              else Inr (set_schedule slotId (\<lambda>s. s\<lparr>rs_pausedReason := Some e, rs_nextRunAt := None\<rparr>) d1, None)))"

text \<open>A failed transaction is rolled back and logged; an admitted incident is woken up.\<close>

definition scanRow :: "ScanEnv \<Rightarrow> Database \<times> string list \<Rightarrow> string \<Rightarrow> Database \<times> string list" where
  "scanRow env s slotId = (case scanSlot env slotId (fst s) of
     Inl _ \<Rightarrow> s
   | Inr (d', admitted) \<Rightarrow> (d', snd s @ (case admitted of Some i \<Rightarrow> [i] | None \<Rightarrow> [])))"

definition scanPage :: "string option \<Rightarrow> Database \<Rightarrow> string list" where
  "scanPage after d = take 200 (js_sort code_unit_compare
     (filter (\<lambda>i. case after of Some a \<Rightarrow> a < i | None \<Rightarrow> True) (map rs_slotId (ct_schedules (tb_cloud d)))))"

text \<open>The scan never changes which slots have a schedule.\<close>

definition scheduled_slots :: "Database \<Rightarrow> string list" where
  "scheduled_slots d = map rs_slotId (ct_schedules (tb_cloud d))"

lemma scheduled_slots_set_schedule:
  "(\<And>s. rs_slotId s = i \<Longrightarrow> rs_slotId (f s) = i) \<Longrightarrow> scheduled_slots (set_schedule i f d) = scheduled_slots d"
  by (auto simp: scheduled_slots_def set_schedule_def set_cloud_def update_where_def)

lemma reconciled_schedule_slot [simp]: "rs_slotId (reconciled_schedule d i s) = rs_slotId s"
  by (auto simp: reconciled_schedule_def Let_def split: option.splits IncidentStatus.splits if_splits)

lemma find_schedule_slot: "find_schedule d i = Some s \<Longrightarrow> rs_slotId s = i \<and> s \<in> set (ct_schedules (tb_cloud d))"
  by (auto simp: find_schedule_def dest: select_one_Some)

lemma reconcile_slots: "reconcileRotationSchedule i d = (d1, s) \<Longrightarrow> scheduled_slots d1 = scheduled_slots d"
  by (auto simp: reconcileRotationSchedule_def put_schedule_def Let_def scheduled_slots_set_schedule
      dest: find_schedule_slot split: option.splits)

lemma createCross_slots:
  "createCrossCloudRotationIncident ids now c tr ev u d = Inr (d', i, n) \<Longrightarrow> scheduled_slots d' = scheduled_slots d"
  by (auto simp: createCrossCloudRotationIncident_def bindE_eq_Inr Let_def scheduled_slots_def split: option.splits sum.splits)

lemma createScheduled_slots:
  "createScheduledRotationIncident isIP render ids now c d = Inr (d', i) \<Longrightarrow> scheduled_slots d' = scheduled_slots d"
  by (auto simp: createScheduledRotationIncident_def bindE_eq_Inr scheduled_slots_set_schedule
      dest: createCross_slots split: option.splits sum.splits)

text \<open>The ways a scan of a slot commits.\<close>

lemma scanSlot_Inr:
  assumes "scanSlot env i d = Inr (d', x)"
  obtains c d1 sch where "lockRotationContext (sc_key env) (tb_cloud d) i = Inr c" and "reconcileRotationSchedule i d = (d1, sch)"
    and "x = None \<and> d' = d1
      \<or> (\<exists>e. x = None \<and> d' = set_schedule i (\<lambda>s. s\<lparr>rs_pausedReason := Some e, rs_nextRunAt := None\<rparr>) d1 \<and> e \<in> set prerequisiteErrors)
      \<or> (\<exists>s incident. x = Some (ri_incidentId incident) \<and> sch = Some s \<and> schedule_due (sc_now env) s
          \<and> createScheduledRotationIncident (sc_isIP env) (sc_render env) (sc_newIds env i) (sc_now env) c d1 = Inr (d', incident))"
proof -
  from assms obtain c where c: "lockRotationContext (sc_key env) (tb_cloud d) i = Inr c" by (auto simp: scanSlot_def bindE_eq_Inr)
  obtain d1 sch where r: "reconcileRotationSchedule i d = (d1, sch)" by fastforce
  note step = assms [unfolded scanSlot_def c bindE_Inr r]
  show ?thesis
  proof (cases sch)
    case None
    with step that c r show ?thesis by simp
  next
    case (Some s)
    show ?thesis
    proof (cases "schedule_due (sc_now env) s")
      case False
      with step Some that c r show ?thesis by simp
    next
      case due: True
      show ?thesis
      proof (cases "createScheduledRotationIncident (sc_isIP env) (sc_render env) (sc_newIds env i) (sc_now env) c d1")
        case (Inl e)
        with step Some due show ?thesis by (intro that [OF c r]) (auto split: if_splits)
      next
        case (Inr y)
        with step Some due that c r show ?thesis by (cases y) simp
      qed
    qed
  qed
qed

lemma scanSlot_slots: "scanSlot env i d = Inr (d', x) \<Longrightarrow> scheduled_slots d' = scheduled_slots d"
  by (erule scanSlot_Inr) (auto simp: scheduled_slots_set_schedule dest!: reconcile_slots createScheduled_slots)

lemma scanRow_slots [simp]: "scheduled_slots (fst (scanRow env s i)) = scheduled_slots (fst s)"
  by (auto simp: scanRow_def dest: scanSlot_slots split: sum.splits prod.splits)

lemma scanRows_slots [simp]: "scheduled_slots (fst (foldl (scanRow env) s is)) = scheduled_slots (fst s)"
  by (induction "is" arbitrary: s) auto

lemma scanPage_eq:
  "scanPage after d = take 200 (js_sort code_unit_compare (filter (\<lambda>i. case after of Some a \<Rightarrow> a < i | None \<Rightarrow> True) (scheduled_slots d)))"
  by (simp add: scanPage_def scheduled_slots_def)

lemma scanPage_set: "i \<in> set (scanPage after d) \<Longrightarrow> i \<in> set (scheduled_slots d) \<and> (\<forall>a. after = Some a \<longrightarrow> a < i)"
  unfolding scanPage_eq by (auto dest!: in_set_takeD split: option.splits)

definition slots_after :: "string option \<Rightarrow> Database \<Rightarrow> string list" where
  "slots_after after d = filter (\<lambda>i. case after of Some a \<Rightarrow> a < i | None \<Rightarrow> True) (scheduled_slots d)"

lemma slots_after_shrink:
  assumes "i \<in> set (scanPage after d)" and "scheduled_slots d' = scheduled_slots d"
  shows "length (slots_after (Some i) d') < length (slots_after after d)"
proof -
  have i: "i \<in> set (slots_after after d)" using scanPage_set [OF assms(1)] by (auto simp: slots_after_def split: option.splits)
  have "slots_after (Some i) d' = filter (\<lambda>j. i < j) (slots_after after d)"
    using scanPage_set [OF assms(1)] assms(2)
    by (auto simp: slots_after_def intro!: filter_cong split: option.splits)
  with i show ?thesis by (metis length_filter_less less_irrefl)
qed

text \<open>Pages of 200 keys, each after the last key of the one before, until a page is not full.\<close>

function scanFrom :: "ScanEnv \<Rightarrow> string option \<Rightarrow> Database \<times> string list \<Rightarrow> Database \<times> string list" where
  "scanFrom env after s = (let page = scanPage after (fst s); s' = foldl (scanRow env) s page in
     if length page < 200 then s' else scanFrom env (Some (last page)) s')"
  by auto
termination
proof (relation "measure (\<lambda>(env, after, s). length (slots_after after (fst s)))")
  fix env after and s :: "Database \<times> string list" and page s'
  assume "page = scanPage after (fst s)" and "s' = foldl (scanRow env) s page" and "\<not> length page < 200"
  then have "last page \<in> set (scanPage after (fst s))" by (metis last_in_set length_greater_0_conv not_less zero_less_numeral order_less_le_trans)
  then show "((env, Some (last page), s'), (env, after, s)) \<in> measure (\<lambda>(env, after, s). length (slots_after after (fst s)))"
    using slots_after_shrink \<open>s' = _\<close> by simp
qed simp

definition scan :: "ScanEnv \<Rightarrow> Database \<Rightarrow> Database \<times> string list" where
  "scan env d = scanFrom env None (d, [])"

lemma js_sort_strings: "js_sort code_unit_compare xs = sort xs"
  using code_units.sorted_js_sort [of xs] by (intro properties_for_sort [symmetric]) (simp_all add: code_unit_compare_le)

lemma filter_after_take:
  fixes xs :: "'a::linorder list"
  assumes "sorted xs" and "distinct xs" and "0 < n" and "n \<le> length xs"
  shows "filter (\<lambda>i. last (take n xs) < i) xs = drop n xs"
proof -
  have l: "last (take n xs) = xs ! (n - 1)" using assms(3,4) by (subst last_conv_nth) (auto simp: min_def)
  have "x < y" if "x \<in> set (take n xs)" "y \<in> set (drop n xs)" for x y
  proof -
    have "sorted (take n xs @ drop n xs)" "distinct (take n xs @ drop n xs)" using assms(1,2) by simp_all
    with that show ?thesis by (metis sorted_append distinct_append disjoint_iff order_le_less)
  qed
  moreover have "last (take n xs) \<in> set (take n xs)" using assms(3,4) by (intro last_in_set) auto
  ultimately have "filter (\<lambda>i. last (take n xs) < i) (drop n xs) = drop n xs" by (intro filter_True) simp
  moreover have "x \<le> last (take n xs)" if x: "x \<in> set (take n xs)" for x
  proof -
    obtain k where "k < n" "x = xs ! k" using x by (auto simp: in_set_conv_nth)
    then show ?thesis using assms(1,3,4) l by (auto intro: sorted_nth_mono)
  qed
  then have "filter (\<lambda>i. last (take n xs) < i) (take n xs) = []" by (intro filter_False ballI) (simp add: not_less)
  ultimately show ?thesis by (metis append_Nil append_take_drop_id filter_append)
qed

lemma slots_after_page:
  assumes "distinct (scheduled_slots d)" and "scheduled_slots d' = scheduled_slots d"
    and "\<not> length (scanPage after d) < 200"
  shows "sort (slots_after (Some (last (scanPage after d))) d') = drop 200 (sort (slots_after after d))"
proof -
  let ?L = "sort (slots_after after d)" and ?l = "last (scanPage after d)"
  have page: "scanPage after d = take 200 ?L" by (simp add: scanPage_eq js_sort_strings slots_after_def)
  have "?l \<in> set (scanPage after d)" using assms(3) by (intro last_in_set) auto
  from scanPage_set [OF this] have "slots_after (Some ?l) d' = filter (\<lambda>i. ?l < i) (slots_after after d)"
    using assms(2) by (cases after) (auto simp: slots_after_def intro!: filter_cong)
  then have "sort (slots_after (Some ?l) d') = filter (\<lambda>i. ?l < i) ?L" by (simp add: filter_sort)
  also have "\<dots> = drop 200 ?L" unfolding page
    by (rule filter_after_take) (use assms(1,3) page in \<open>auto simp: slots_after_def\<close>)
  finally show ?thesis .
qed

lemma scanFrom_eq:
  "distinct (scheduled_slots (fst s)) \<Longrightarrow> scanFrom env after s = foldl (scanRow env) s (sort (slots_after after (fst s)))"
proof (induction env after s rule: scanFrom.induct)
  case (1 env after s)
  let ?L = "sort (slots_after after (fst s))" and ?page = "scanPage after (fst s)"
  let ?s = "foldl (scanRow env) s ?page"
  have page: "?page = take 200 ?L" by (simp add: scanPage_eq js_sort_strings slots_after_def)
  show ?case
  proof (cases "length ?page < 200")
    case True
    then have "?page = ?L" using page by simp
    with True show ?thesis by (subst scanFrom.simps) (simp add: Let_def)
  next
    case False
    have "scanFrom env after s = scanFrom env (Some (last ?page)) ?s" using False by (subst scanFrom.simps) (simp add: Let_def)
    also have "\<dots> = foldl (scanRow env) ?s (sort (slots_after (Some (last ?page)) (fst ?s)))"
      using 1 False by simp
    also have "\<dots> = foldl (scanRow env) (foldl (scanRow env) s (take 200 ?L)) (drop 200 ?L)"
      using slots_after_page [OF "1.prems" _ False, of "fst ?s"] page by simp
    also have "\<dots> = foldl (scanRow env) s ?L" by (metis append_take_drop_id foldl_append)
    finally show ?thesis .
  qed
qed

text \<open>C32: A scan ends and visits every schedule of the database exactly once, in the order of the slot identifiers,
  whatever the single transactions do: it returns what one pass over the sorted identifiers returns, so no blocked
  or failing prefix keeps later schedules from being reconciled.\<close>

theorem scan_visits_every_schedule:
  "distinct (map rs_slotId (ct_schedules (tb_cloud d)))
   \<Longrightarrow> scan env d = foldl (scanRow env) (d, []) (sort (map rs_slotId (ct_schedules (tb_cloud d))))"
  using scanFrom_eq [of "(d, [])"] by (simp add: scan_def scheduled_slots_def slots_after_def)
section \<open>What a scan may start\<close>

lemma scanSlot_start:
  assumes "scanSlot env i d = Inr (d', Some x)"
  obtains c d1 s incident where "lockRotationContext (sc_key env) (tb_cloud d) i = Inr c" and "reconcileRotationSchedule i d = (d1, Some s)"
    and "schedule_due (sc_now env) s" and "x = ri_incidentId incident"
    and "createScheduledRotationIncident (sc_isIP env) (sc_render env) (sc_newIds env i) (sc_now env) c d1 = Inr (d', incident)"
  using assms by (rule scanSlot_Inr) auto

lemma reconcile_cloud:
  "reconcileRotationSchedule i d = (d1, s) \<Longrightarrow> ct_incidents (tb_cloud d1) = ct_incidents (tb_cloud d) \<and> ct_slots (tb_cloud d1) = ct_slots (tb_cloud d)"
  by (auto simp: reconcileRotationSchedule_def put_schedule_def Let_def split: option.splits)

lemma update_where_key:
  "(\<And>r. key r = i \<Longrightarrow> key (f r) = i) \<Longrightarrow>
   select_one (\<lambda>r. key r = i) (update_where (\<lambda>r. key r = i) f t) = map_option f (select_one (\<lambda>r. key r = i) t)"
  by (induction t) (auto simp: select_one_def update_where_def)

lemma find_set_schedule:
  "(\<And>s. rs_slotId s = i \<Longrightarrow> rs_slotId (f s) = i) \<Longrightarrow> find_schedule (set_schedule i f d) i = map_option f (find_schedule d i)"
  by (simp add: find_schedule_def update_where_key)

lemma reconcile_find: "reconcileRotationSchedule i d = (d1, Some s) \<Longrightarrow> find_schedule d1 i = Some s"
  using find_schedule_slot [of d i]
  by (auto simp: reconcileRotationSchedule_def put_schedule_def Let_def find_set_schedule split: option.splits)

lemma createCross_schedules:
  "createCrossCloudRotationIncident ids now c tr ev u d = Inr (d', i, n) \<Longrightarrow> find_schedule d' j = find_schedule d j"
  by (drule createCross_Inr) (auto simp: find_schedule_def)


section \<open>What stops a scan\<close>

lemma rotationAuthorizationError_scheduled:
  "rotationAuthorizationError c ScheduledTrigger = Some e \<Longrightarrow> e \<in> set prerequisiteErrors \<or> e = ''rotation_temporary_instance_not_authorized''"
  by (auto simp: rotationAuthorizationError_def rotationAuthorizationPrerequisiteError_def prerequisiteErrors_def split: if_splits)

lemma scheduledRotationPrerequisiteError_listed:
  "scheduledRotationPrerequisiteError isIP c = Some e \<Longrightarrow> e \<in> set prerequisiteErrors"
  by (auto simp: scheduledRotationPrerequisiteError_def public_ipv4_error_def rotationPrivateIpv4Error_def Let_def prerequisiteErrors_def
      split: option.splits if_splits)

lemma existingIncident_Inl: "existingIncident d c tr ev = Inl e \<Longrightarrow> e = ''rotation_active_conflict''"
  by (auto simp: existingIncident_def Let_def split: option.splits if_splits)

lemma healthRevisions_Inl: "healthRevisions h = Inl e \<Longrightarrow> e = ''external_health_required''"
  by (auto simp: healthRevisions_def split: option.splits if_splits)

lemma createCross_Inl:
  assumes "createCrossCloudRotationIncident ids now c ScheduledTrigger ev u d = Inl e"
  shows "e \<in> set benignAdmissionErrors \<or> e \<in> set prerequisiteErrors \<or> e = ''rotation_temporary_instance_not_authorized''"
  using assms
  by (auto simp: createCrossCloudRotationIncident_def result_elims Let_def benignAdmissionErrors_def prerequisiteErrors_def
      dest!: existingIncident_Inl healthRevisions_Inl rotationAuthorizationError_scheduled split: option.splits)

lemma createScheduled_Inl:
  assumes "createScheduledRotationIncident isIP render ids now c d = Inl e"
  shows "e \<in> set benignAdmissionErrors \<or> e \<in> set prerequisiteErrors \<or> e = ''rotation_temporary_instance_not_authorized''"
  using assms
  by (auto simp: createScheduledRotationIncident_def result_elims benignAdmissionErrors_def
      dest!: createCross_Inl scheduledRotationPrerequisiteError_listed split: option.splits)

lemma lockRotationContext_Inl: "lockRotationContext pk t i = Inl e \<Longrightarrow> e = ''rotation_not_found''"
  by (auto simp: lockRotationContext_def Let_def split: option.splits)

text \<open>A scan of a slot is rolled back, and the schedule left as it was, for two errors only: a slot that has lost its
  machine, and a Linode instance swap without the permission for a temporary instance. Every other refusal is either
  benign or recorded as the reason of a pause. The second error is a gap: the same schedule fails again on every scan
  and is never paused.\<close>

theorem scan_failures:
  assumes "scanSlot env i d = Inl e"
  shows "e \<in> {''rotation_not_found'', ''rotation_temporary_instance_not_authorized''}"
proof (cases "lockRotationContext (sc_key env) (tb_cloud d) i")
  case (Inl e')
  with assms show ?thesis by (auto simp: scanSlot_def dest: lockRotationContext_Inl)
next
  case (Inr c)
  obtain d1 sch where r: "reconcileRotationSchedule i d = (d1, sch)" by fastforce
  note body = assms [unfolded scanSlot_def Inr bindE_Inr r prod.case]
  then obtain "createScheduledRotationIncident (sc_isIP env) (sc_render env) (sc_newIds env i) (sc_now env) c d1 = Inl e"
    and "e \<notin> set benignAdmissionErrors" and "e \<notin> set prerequisiteErrors"
    by (auto split: option.splits if_splits sum.splits)
  then show ?thesis using createScheduled_Inl by blast
qed

section \<open>A resumed schedule\<close>

lemma resumeRotationSchedule_Inr:
  assumes "resumeRotationSchedule now i revision d = Inr (d', s)"
  obtains before where "find_schedule d i = Some before" and "rs_slotId before = i" and "s = resumed_schedule now d before"
    and "d' = set_schedule i (\<lambda>_. s) d" and "rs_enabled before"
proof -
  from assms obtain before where "find_schedule d i = Some before" "s = resumed_schedule now d before" "d' = put_schedule (Some before) s d" "rs_enabled before"
    by (auto simp: resumeRotationSchedule_def Let_def result_elims split: option.splits)
  with find_schedule_slot [of d i before] that show thesis by (simp add: put_schedule_def resumed_schedule_def Let_def)
qed

lemma latestScheduleCompletion_Some:
  "latestScheduleCompletion d i = Some x \<Longrightarrow> ri_slotId x = i \<and> ri_status x = IncComplete \<and> x \<in> set (ct_incidents (tb_cloud d))"
proof -
  assume a: "latestScheduleCompletion d i = Some x"
  let ?xs = "filter (\<lambda>i'. ri_slotId i' = i \<and> ri_status i' = IncComplete \<and> ri_finishedAt i' \<noteq> None) (ct_incidents (tb_cloud d))"
  from a obtain ys where "js_sort completion_order ?xs = x # ys"
    unfolding latestScheduleCompletion_def by (cases "js_sort completion_order ?xs") simp_all
  then have "x \<in> set (js_sort completion_order ?xs)" by (metis list.set_intros(1))
  then show ?thesis by simp
qed

text \<open>When a paused schedule is resumed, the pause it was resumed from is consumed: as long as no other incident of its
  slot is open, the next reconciliation leaves the resumed schedule as it is, so the old stop does not pause it again.\<close>

theorem resume_survives_scan:
  assumes resumed: "resumeRotationSchedule now i revision d = Inr (d', s)"
    and linked: "\<And>x. x \<in> set (ct_incidents (tb_cloud d)) \<Longrightarrow> ri_slotId x = i \<Longrightarrow> open_incident x \<Longrightarrow> rs_activeIncidentId s = Some (ri_incidentId x)"
    and ids: "distinct (map ri_incidentId (ct_incidents (tb_cloud d)))"
  shows "rs_pausedReason s = None \<and> rs_nextRunAt s \<noteq> None \<and> find_schedule d' i = Some s \<and> snd (reconcileRotationSchedule i d') = Some s"
  using resumed
proof (rule resumeRotationSchedule_Inr)
  fix before
  assume f: "find_schedule d i = Some before" and i: "rs_slotId before = i" and s: "s = resumed_schedule now d before"
    and d': "d' = set_schedule i (\<lambda>_. s) d"
  have slot: "rs_slotId s = i" by (simp add: s i resumed_schedule_def Let_def)
  have find: "find_schedule d' i = Some s" using f slot by (simp add: d' find_set_schedule)
  have same: "ct_incidents (tb_cloud d') = ct_incidents (tb_cloud d)" by (simp add: d')
  then have latest: "latestScheduleCompletion d' i = latestScheduleCompletion d i"
    and obs: "incidentObservationTime d' j = incidentObservationTime d j" for j
    by (simp_all add: latestScheduleCompletion_def incidentObservationTime_def find_incident_def)
  have "reconciled_schedule d' i s = s"
  proof (cases "observed_incident d' i s")
    case None
    then show ?thesis by (simp add: reconciled_schedule_def)
  next
    case (Some x)
    show ?thesis
    proof (cases "rs_activeIncidentId s")
      case none: None
      have "select_one (\<lambda>x. ri_slotId x = i \<and> open_incident x) (ct_incidents (tb_cloud d')) = None"
        using linked none by (auto simp: select_one_None same)
      with Some none have l: "latestScheduleCompletion d i = Some x" by (simp add: observed_incident_def or_else_def latest)
      then have "ri_status x = IncComplete" by (auto dest: latestScheduleCompletion_Some)
      moreover have "rs_lastHandledIncidentId s = Some (ri_incidentId x)"
        using none l by (simp add: s resumed_schedule_def Let_def or_else_def i split: option.splits)
      ultimately show ?thesis using Some none by (simp add: reconciled_schedule_def)
    next
      case active: (Some a)
      with Some have x: "x \<in> set (ct_incidents (tb_cloud d))" "ri_incidentId x = a"
        by (auto simp: observed_incident_def same dest!: select_one_Some)
      have fx: "find_incident d a = Some x"
      proof (cases "find_incident d a")
        case (Some y)
        then have "y \<in> set (ct_incidents (tb_cloud d))" "ri_incidentId y = a" by (auto simp: find_incident_def dest: select_one_Some)
        with x ids have "y = x" by (auto simp: distinct_map dest: inj_onD)
        with Some show ?thesis by simp
      qed (use x in \<open>auto simp: find_incident_def select_one_None\<close>)
      have ba: "rs_activeIncidentId before = Some a" and nc: "ri_status x \<noteq> IncComplete"
        using active fx by (auto simp: s resumed_schedule_def Let_def lockScheduleIncident_def split: option.splits if_splits)
      have "rs_lastHandledIncidentId s = Some a" "rs_lastHandledIncidentUpdatedAt s = Some (ri_updatedAt x)"
        using fx ba nc by (simp_all add: s resumed_schedule_def Let_def lockScheduleIncident_def or_else_def incidentObservationTime_def)
      with Some active nc x(2) show ?thesis
        by (cases "ri_status x") (auto simp: reconciled_schedule_def incident_handled_def stopped_incident_def)
    qed
  qed
  with find show ?thesis by (simp add: reconcileRotationSchedule_def Let_def s resumed_schedule_def)
qed
section \<open>Sample schedules\<close>

definition demo_schedule :: RotationScheduleRow where
  "demo_schedule = \<lparr>rs_slotId = ''s1'', rs_enabled = True, rs_intervalMinutes = 60, rs_revision = 1, rs_nextRunAt = Some 900,
     rs_activeIncidentId = None, rs_lastStartedAt = None, rs_lastCompletedAt = None, rs_lastHandledIncidentId = None,
     rs_lastHandledIncidentUpdatedAt = None, rs_pausedReason = None\<rparr>"

definition scheduled_database :: "RotationScheduleRow list \<Rightarrow> Database" where
  "scheduled_database schedules = set_cloud (\<lambda>t. t\<lparr>ct_schedules := schedules\<rparr>) demo_database"

definition demo_scan :: ScanEnv where
  "demo_scan = \<lparr>sc_now = 1000, sc_newIds = (\<lambda>_. \<lparr>ni_incidentId = ''inc1'', ni_segmentId = ''seg1''\<rparr>), sc_isIP = (\<lambda>_. 4),
     sc_render = int_text, sc_key = plain_key\<rparr>"

text \<open>A Linode machine whose policy swaps the instance without permission for a temporary one.\<close>

definition swap_database :: Database where
  "swap_database = set_cloud (\<lambda>t. t\<lparr>
     ct_accounts := map (\<lambda>a. a\<lparr>ca_provider := Linode\<rparr>) (ct_accounts t),
     ct_instances := map (\<lambda>i. i\<lparr>cin_service := LinodeCompute\<rparr>) (ct_instances t),
     ct_scanScopes := map (\<lambda>s. s\<lparr>cs_service := LinodeCompute\<rparr>) (ct_scanScopes t),
     ct_policies := map (\<lambda>p. p\<lparr>rp_linodeIpv4Strategy := InstanceSwap\<rparr>) (ct_policies t)\<rparr>) (scheduled_database [demo_schedule])"

definition scan_result :: "CodeError + Database \<times> string option \<Rightarrow> CodeError + string option" where
  "scan_result r = (case r of Inl e \<Rightarrow> Inl e | Inr (_, x) \<Rightarrow> Inr x)"

lemma demo_scan_starts: "scan_result (scanSlot demo_scan ''s1'' (scheduled_database [demo_schedule])) = Inr (Some ''inc1'')"
  by code_simp

lemma swap_scan_fails: "scan_result (scanSlot demo_scan ''s1'' swap_database) = Inl ''rotation_temporary_instance_not_authorized''"
  by code_simp

lemma scan_result_simps:
  "scan_result r = Inl e \<Longrightarrow> r = Inl e" "scan_result r = Inr x \<Longrightarrow> \<exists>d. r = Inr (d, x)"
  by (auto simp: scan_result_def split: sum.splits prod.splits)


theorem scan_failures_witness:
  "scanSlot demo_scan ''s1'' swap_database = Inl ''rotation_temporary_instance_not_authorized''
   \<and> ''rotation_temporary_instance_not_authorized'' \<in> {''rotation_not_found'', ''rotation_temporary_instance_not_authorized''}"
  using scan_failures [OF scan_result_simps(1) [OF swap_scan_fails]] scan_result_simps(1) [OF swap_scan_fails] by blast

theorem scan_visits_every_schedule_witness:
  "scan demo_scan (scheduled_database [demo_schedule\<lparr>rs_slotId := ''s2''\<rparr>, demo_schedule])
   = foldl (scanRow demo_scan) (scheduled_database [demo_schedule\<lparr>rs_slotId := ''s2''\<rparr>, demo_schedule], []) [''s1'', ''s2'']"
proof -
  let ?d = "scheduled_database [demo_schedule\<lparr>rs_slotId := ''s2''\<rparr>, demo_schedule]"
  have "distinct (map rs_slotId (ct_schedules (tb_cloud ?d)))" by code_simp
  moreover have "sort (map rs_slotId (ct_schedules (tb_cloud ?d))) = [''s1'', ''s2'']" by code_simp
  ultimately show ?thesis using scan_visits_every_schedule [of ?d demo_scan] by argo
qed

definition paused_schedule :: RotationScheduleRow where
  "paused_schedule = demo_schedule\<lparr>rs_nextRunAt := None, rs_pausedReason := Some ''family_disabled''\<rparr>"

theorem resume_survives_scan_witness:
  "\<exists>d' s. resumeRotationSchedule 1000 ''s1'' 1 (scheduled_database [paused_schedule]) = Inr (d', s)
     \<and> snd (reconcileRotationSchedule ''s1'' d') = Some s"
proof -
  have "\<not> isl (resumeRotationSchedule 1000 ''s1'' 1 (scheduled_database [paused_schedule]))" by code_simp
  then obtain d' s where run: "resumeRotationSchedule 1000 ''s1'' 1 (scheduled_database [paused_schedule]) = Inr (d', s)"
    by (metis isl_def obj_sumE surj_pair)
  have none: "ct_incidents (tb_cloud (scheduled_database [paused_schedule])) = []" by code_simp
  from resume_survives_scan [OF run] none run show ?thesis by auto
qed

section \<open>Constraints\<close>

lemma scanSlot_incidents_ok:
  assumes "scanSlot env i d = Inr (d', x)" and "incidents_ok (tb_cloud d)"
    and "ni_incidentId (sc_newIds env i) \<notin> ri_incidentId ` set (ct_incidents (tb_cloud d))"
  shows "incidents_ok (tb_cloud d')"
  using assms(1)
proof (rule scanSlot_Inr)
  fix c d1 sch
  assume c: "lockRotationContext (sc_key env) (tb_cloud d) i = Inr c" and r: "reconcileRotationSchedule i d = (d1, sch)"
    and ways: "x = None \<and> d' = d1
      \<or> (\<exists>e. x = None \<and> d' = set_schedule i (\<lambda>s. s\<lparr>rs_pausedReason := Some e, rs_nextRunAt := None\<rparr>) d1 \<and> e \<in> set prerequisiteErrors)
      \<or> (\<exists>s incident. x = Some (ri_incidentId incident) \<and> sch = Some s \<and> schedule_due (sc_now env) s
          \<and> createScheduledRotationIncident (sc_isIP env) (sc_render env) (sc_newIds env i) (sc_now env) c d1 = Inr (d', incident))"
  have d1: "incidents_ok (tb_cloud d1)" using assms(2) incidents_ok_cong [of "tb_cloud d1" "tb_cloud d"] reconcile_cloud [OF r] by blast
  have slot: "slot_row_ok (cx_slot c)" using conjunct1 [OF lockRotationContext_slot [OF c]] assms(2) by (simp add: incidents_ok_def)
  show ?thesis using ways
  proof (elim disjE exE conjE)
    fix s incident
    assume "createScheduledRotationIncident (sc_isIP env) (sc_render env) (sc_newIds env i) (sc_now env) c d1 = Inr (d', incident)"
    from createScheduled_incidents_ok [OF this d1 slot] assms(3) reconcile_cloud [OF r] show ?thesis by metis
  qed (use d1 in \<open>simp_all add: incidents_ok_ignores\<close>)
qed

lemma schedule_operations_incidents_ok:
  "updateRotationScheduleConfiguration now i input d = Inr (d', r) \<Longrightarrow> incidents_ok (tb_cloud d') = incidents_ok (tb_cloud d)"
  "resumeRotationSchedule now i revision d = Inr (d', s) \<Longrightarrow> incidents_ok (tb_cloud d') = incidents_ok (tb_cloud d)"
  by (auto simp: updateRotationScheduleConfiguration_def resumeRotationSchedule_def Let_def result_elims put_schedule_def incidents_ok_ignores
      split: option.splits if_splits)
end
