(* ===== verification/Rotation_Api.thy ===== *)
theory Rotation_Api
  imports Rotation_Schedules
begin

text \<open>
  The services behind the rotation API: \<open>apps/api/src/modules/rotation/rotation.service.ts\<close> and
  \<open>rotation-schedules.service.ts\<close>, with the request receipts of
  \<open>apps/api/src/modules/cloud/cloud-idempotency.ts\<close>. A service call is one transaction; the wake-up of the
  queue after it and the read-only views are left out. \<open>JSON.stringify\<close> and SHA-256 are one parameter.
\<close>

section \<open>Errors\<close>

datatype ServiceError = Thrown CodeError | NotFoundException string | ConflictException string

definition lift_code :: "CodeError + 'a \<Rightarrow> ServiceError + 'a" where
  "lift_code r = (case r of Inl e \<Rightarrow> Inl (Thrown e) | Inr a \<Rightarrow> Inr a)"

definition authorization_codes :: "string list" where
  "authorization_codes = [''external_health_required'', ''authorization_revoked'', ''family_disabled'', ''region_excluded'',
     ''resource_not_found'', ''conflicting_manager'', ''instance_lifecycle_busy'']"

definition rotationTransaction :: "ServiceError + 'a \<Rightarrow> ServiceError + 'a" where
  "rotationTransaction r = (case r of
     Inl (Thrown e) \<Rightarrow>
       if list_ex (\<lambda>p. starts_with e p) ([''rotation_'', ''cloud_observation_required'', ''confirmed_failure_required''] @ authorization_codes)
       then Inl (ConflictException e) else r
   | _ \<Rightarrow> r)"

definition scheduleTransaction :: "ServiceError + 'a \<Rightarrow> ServiceError + 'a" where
  "scheduleTransaction r = (case r of
     Inl (Thrown e) \<Rightarrow>
       if e = ''rotation_not_found'' then Inl (NotFoundException ''Address slot not found'')
       else if list_ex (\<lambda>p. starts_with e p) (''rotation_'' # authorization_codes) then Inl (ConflictException e) else r
   | _ \<Rightarrow> r)"

record AuthUser =
  au_id :: string
  au_admin :: bool

definition ownedIncident :: "AuthUser \<Rightarrow> string \<Rightarrow> Database \<Rightarrow> ServiceError + RotationIncidentRow" where
  "ownedIncident actor i d = (case select_one (\<lambda>x. ri_incidentId x = i \<and> (au_admin actor \<or> ri_ownerUserId x = au_id actor)) (ct_incidents (tb_cloud d)) of
     None \<Rightarrow> Inl (NotFoundException ''Rotation not found'') | Some x \<Rightarrow> Inr x)"

text \<open>The owner of a slot, through its interface, instance and account.\<close>

definition ownedSlot :: "AuthUser \<Rightarrow> string \<Rightarrow> Database \<Rightarrow> ServiceError + string" where
  "ownedSlot actor i d = (let t = tb_cloud d in
     case Option.bind (select_one (\<lambda>s. ms_id s = i) (ct_slots t)) (\<lambda>s.
          Option.bind (select_one (\<lambda>f. cif_id f = ms_interfaceId s) (ct_interfaces t)) (\<lambda>f.
          Option.bind (select_one (\<lambda>v. cin_id v = cif_instanceId f) (ct_instances t)) (\<lambda>v.
          select_one (\<lambda>a. ca_id a = cin_accountId v \<and> (au_admin actor \<or> ca_ownerUserId a = au_id actor)) (ct_accounts t)))) of
       None \<Rightarrow> Inl (NotFoundException ''Address slot not found'') | Some a \<Rightarrow> Inr (ca_ownerUserId a))"

section \<open>Request receipts\<close>

record 'r ApiRequestRow =
  ar_key :: string
  ar_actorUserId :: string
  ar_ownerUserId :: string
  ar_action :: string
  ar_requestHash :: string
  ar_response :: "'r option"

record RequestIdentity =
  rq_key :: string
  rq_actorUserId :: string
  rq_ownerUserId :: string
  rq_action :: string
  rq_request :: json

text \<open>The keys of every object in code unit order, whatever order the client sent them in.\<close>

fun canonical :: "json \<Rightarrow> json" where
  "canonical (JObj es) = JObj (js_sort (\<lambda>a b. code_unit_compare (fst a) (fst b)) (map (\<lambda>e. (fst e, canonical (snd e))) es))"
| "canonical (JArr xs) = JArr (map canonical xs)"
| "canonical v = v"

definition withCloudRequest ::
  "(json \<Rightarrow> string) \<Rightarrow> RequestIdentity \<Rightarrow> ('d \<Rightarrow> ServiceError + 'd \<times> 'r) \<Rightarrow> 'r ApiRequestRow list \<times> 'd
   \<Rightarrow> ServiceError + ('r ApiRequestRow list \<times> 'd) \<times> 'r" where
  "withCloudRequest digest identity run state = (let requestHash = digest (canonical (rq_request identity));
       mine = (\<lambda>r. ar_actorUserId r = rq_actorUserId identity \<and> ar_key r = rq_key identity) in
     case select_one mine (fst state) of
       Some existing \<Rightarrow>
         (case ar_response existing of
            Some response \<Rightarrow>
              if ar_ownerUserId existing \<noteq> rq_ownerUserId identity \<or> ar_action existing \<noteq> rq_action identity \<or> ar_requestHash existing \<noteq> requestHash
              then Inl (ConflictException ''Idempotency-Key has already been used for another request'') else Inr (state, response)
          | None \<Rightarrow> Inl (ConflictException ''Idempotency-Key has already been used for another request''))
     | None \<Rightarrow>
         bindE (run (snd state)) (\<lambda>(d, response).
           Inr ((fst state @ [\<lparr>ar_key = rq_key identity, ar_actorUserId = rq_actorUserId identity, ar_ownerUserId = rq_ownerUserId identity,
                   ar_action = rq_action identity, ar_requestHash = requestHash, ar_response = Some response\<rparr>], d), response)))"

lemma select_one_append: "select_one P xs = None \<Longrightarrow> P r \<Longrightarrow> select_one P (xs @ [r]) = Some r"
  by (induction xs) (auto simp: select_one_def split: if_splits)


text \<open>The order of the keys of an object does not matter to its receipt.\<close>

interpretation entry_order: js_comparator "\<lambda>a b. code_unit_compare (fst a) (fst b)"
  by unfold_locales (auto simp: code_unit_compare_le)

lemma canonical_permuted:
  assumes "distinct (map fst es)" and "mset es = mset fs"
  shows "canonical (JObj es) = canonical (JObj fs)"
proof -
  let ?c = "\<lambda>e. (fst e, canonical (snd e))"
  have "a = b" if "a \<in> set (map ?c es)" "b \<in> set (map ?c es)" "fst a = fst b" for a b
    using that assms(1) by (auto dest: eq_key_imp_eq_value)
  then have "js_sort (\<lambda>a b. code_unit_compare (fst a) (fst b)) (map ?c es) = js_sort (\<lambda>a b. code_unit_compare (fst a) (fst b)) (map ?c fs)"
    by (intro js_sort_unique [OF entry_order.js_comparator_axioms]) (auto simp: assms(2) code_unit_compare_le)
  then show ?thesis by simp
qed

definition sample_request :: RequestIdentity where
  "sample_request = \<lparr>rq_key = ''k'', rq_actorUserId = ''u1'', rq_ownerUserId = ''u1'', rq_action = ''rotation.start'',
     rq_request = JObj [(''slotId'', JStr ''s1'')]\<rparr>"


section \<open>Rotations\<close>

record RotationPolicyInput =
  pi_revision :: int
  pi_enabled :: bool
  pi_maxAttempts :: int
  pi_maxRecoveryRetries :: int
  pi_minIntervalSeconds :: int
  pi_cloudWaitSeconds :: int
  pi_candidateWindowSeconds :: int
  pi_linodeRestartMode :: LinodeRestartMode
  pi_linodeIpv4Strategy :: LinodeIpv4Strategy
  pi_linodeSwapPlan :: string
  pi_linodeAllowTemporaryInstance :: bool

definition policy_of :: "string \<Rightarrow> RotationPolicyInput \<Rightarrow> RotationPolicyRow" where
  "policy_of slotId input = \<lparr>rp_slotId = slotId, rp_enabled = pi_enabled input, rp_revision = pi_revision input + 1,
     rp_maxAttempts = pi_maxAttempts input, rp_maxRecoveryRetries = pi_maxRecoveryRetries input,
     rp_minIntervalSeconds = pi_minIntervalSeconds input, rp_cloudWaitSeconds = pi_cloudWaitSeconds input,
     rp_candidateWindowSeconds = pi_candidateWindowSeconds input, rp_linodeRestartMode = pi_linodeRestartMode input,
     rp_linodeIpv4Strategy = pi_linodeIpv4Strategy input, rp_linodeSwapPlan = pi_linodeSwapPlan input,
     rp_linodeAllowTemporaryInstance = pi_linodeAllowTemporaryInstance input\<rparr>"

text \<open>Taking back the permission for temporary instances, and nothing else, is always possible.\<close>

definition revokingTemporaryGrant :: "RotationPolicyRow option \<Rightarrow> RotationPolicyInput \<Rightarrow> bool" where
  "revokingTemporaryGrant before input = (case before of None \<Rightarrow> False
   | Some p \<Rightarrow> rp_linodeAllowTemporaryInstance p \<and> \<not> pi_linodeAllowTemporaryInstance input
      \<and> policy_of (rp_slotId p) input
        = p\<lparr>rp_revision := pi_revision input + 1, rp_linodeAllowTemporaryInstance := False\<rparr>)"

definition requiredWindow :: "AddressHealthPolicyRow \<Rightarrow> int" where
  "requiredWindow p = max (hp_successThreshold p) (hp_failureThreshold p) * hp_checkIntervalSeconds p + hp_executionWindowSeconds p"

definition apiAudit :: "AuthUser \<Rightarrow> RotationContext \<Rightarrow> string \<Rightarrow> string \<Rightarrow> json \<Rightarrow> AuditSnapshot \<Rightarrow> Database \<Rightarrow> Database" where
  "apiAudit actor c action slotId before after d = d\<lparr>tb_auditLogs := tb_auditLogs d @ [\<lparr>al_ownerUserId = ca_ownerUserId (cx_account c),
     al_actorUserId = Some (au_id actor), al_source = UserSource, al_action = action, al_resourceType = ''address_slot'',
     al_resourceId = Some slotId, al_beforeSnapshot = before, al_afterSnapshot = after, al_operationId = None\<rparr>]\<rparr>"

definition restart_mode_text :: "LinodeRestartMode \<Rightarrow> string" where
  "restart_mode_text m = (case m of Reboot \<Rightarrow> ''reboot'' | StopStart \<Rightarrow> ''stop_start'')"

definition policy_json :: "RotationPolicyRow \<Rightarrow> json" where
  "policy_json p = JObj [(''slotId'', JStr (rp_slotId p)), (''enabled'', JBool (rp_enabled p)), (''revision'', JNum (num_of_int (rp_revision p))),
     (''maxAttempts'', JNum (num_of_int (rp_maxAttempts p))), (''maxRecoveryRetries'', JNum (num_of_int (rp_maxRecoveryRetries p))),
     (''minIntervalSeconds'', JNum (num_of_int (rp_minIntervalSeconds p))), (''cloudWaitSeconds'', JNum (num_of_int (rp_cloudWaitSeconds p))),
     (''candidateWindowSeconds'', JNum (num_of_int (rp_candidateWindowSeconds p))), (''linodeRestartMode'', JStr (restart_mode_text (rp_linodeRestartMode p))),
     (''linodeIpv4Strategy'', JStr (case rp_linodeIpv4Strategy p of AdditionalIpv4 \<Rightarrow> ''additional_ipv4'' | InstanceSwap \<Rightarrow> ''instance_swap'')),
     (''linodeSwapPlan'', JStr (rp_linodeSwapPlan p)), (''linodeAllowTemporaryInstance'', JBool (rp_linodeAllowTemporaryInstance p))]"

definition put_policy :: "RotationPolicyRow \<Rightarrow> RotationPolicyRow list \<Rightarrow> RotationPolicyRow list" where
  "put_policy p ps = (if list_ex (\<lambda>x. rp_slotId x = rp_slotId p) ps then update_where (\<lambda>x. rp_slotId x = rp_slotId p) (\<lambda>_. p) ps else ps @ [p])"

definition setPolicy :: "physical_key \<Rightarrow> int \<Rightarrow> AuthUser \<Rightarrow> string \<Rightarrow> RotationPolicyInput \<Rightarrow> Database \<Rightarrow> ServiceError + Database \<times> RotationPolicyRow" where
  "setPolicy pk now actor slotId input d =
    bindE (ownedSlot actor slotId d) (\<lambda>_. rotationTransaction (
    bindE (lift_code (lockRotationContext pk (tb_cloud d) slotId)) (\<lambda>c.
    bindE (guardE ((case cx_policy c of Some p \<Rightarrow> rp_revision p | None \<Rightarrow> 0) = pi_revision input) (ConflictException ''Policy revision has changed'')) (\<lambda>_.
    bindE (if pi_enabled input \<and> \<not> revokingTemporaryGrant (cx_policy c) input then
             (let h = lockRotationHealth now d c in
              case (rh_configured h, rh_policy h) of
                (True, Some p) \<Rightarrow> guardE (requiredWindow p \<le> pi_candidateWindowSeconds input)
                  (ConflictException ''Candidate window must cover the configured health thresholds'')
              | _ \<Rightarrow> Inl (ConflictException ''External health policy is required''))
           else Inr ()) (\<lambda>_.
    let policy = policy_of slotId input in
    Inr (apiAudit actor c ''rotation.policy'' slotId (case cx_policy c of Some p \<Rightarrow> policy_json p | None \<Rightarrow> JNull) (JsonSnapshot (policy_json policy))
           (set_cloud (\<lambda>t. t\<lparr>ct_policies := put_policy policy (ct_policies t)\<rparr>) d), policy))))))"

text \<open>The event of a rotation started by hand for a failure is the failing round itself.\<close>

definition health_event :: "RotationHealth \<Rightarrow> RotationContext \<Rightarrow> string" where
  "health_event h c = ''health-'' @ (case Option.bind (rh_state h) hs_lastRoundId of Some r \<Rightarrow> r | None \<Rightarrow> ''missing'') @ ''-'' @ int_text (cx_addressVersion c)"

definition startRotation :: "physical_key \<Rightarrow> NewIds \<Rightarrow> int \<Rightarrow> AuthUser \<Rightarrow> string \<Rightarrow> Database \<Rightarrow> ServiceError + Database \<times> RotationIncidentRow" where
  "startRotation pk ids now actor slotId d = lift_code (
    bindE (lockRotationContext pk (tb_cloud d) slotId) (\<lambda>c.
    createRotationIncident ids now c (health_event (lockRotationHealth now d c) c) (Some (au_id actor)) d))"

definition startManual ::
  "(string \<Rightarrow> nat) \<Rightarrow> physical_key \<Rightarrow> NewIds \<Rightarrow> string \<Rightarrow> int \<Rightarrow> AuthUser \<Rightarrow> string \<Rightarrow> Database \<Rightarrow> ServiceError + Database \<times> RotationIncidentRow" where
  "startManual isIP pk ids uuid now actor slotId d = lift_code (
    bindE (lockRotationContext pk (tb_cloud d) slotId) (\<lambda>c.
    createManualRotationIncident isIP ids now c (''manual-'' @ uuid) (au_id actor) d))"

definition resumeRotation ::
  "physical_key \<Rightarrow> string \<Rightarrow> int \<Rightarrow> AuthUser \<Rightarrow> string \<Rightarrow> string \<Rightarrow> int option \<Rightarrow> Database \<Rightarrow> ServiceError + Database \<times> RotationIncidentRow" where
  "resumeRotation pk segmentId now actor slotId i expectedPolicyRevision d =
    bindE (lift_code (lockRotationContext pk (tb_cloud d) slotId)) (\<lambda>c.
    bindE (guardE (expectedPolicyRevision = None \<or> map_option rp_revision (cx_policy c) = expectedPolicyRevision)
      (ConflictException ''Rotation policy revision has changed'')) (\<lambda>_.
    lift_code (resumeRotationIncident segmentId now c i (au_id actor) d)))"

type_synonym RequestState = "RotationIncidentRow ApiRequestRow list \<times> Database"

definition start_request :: "string \<Rightarrow> string \<Rightarrow> AuthUser \<Rightarrow> string \<Rightarrow> string \<Rightarrow> RequestIdentity" where
  "start_request action key actor owner slotId = \<lparr>rq_key = key, rq_actorUserId = au_id actor, rq_ownerUserId = owner, rq_action = action,
     rq_request = JObj [(''slotId'', JStr slotId)]\<rparr>"

definition start :: "(json \<Rightarrow> string) \<Rightarrow> physical_key \<Rightarrow> NewIds \<Rightarrow> int \<Rightarrow> AuthUser \<Rightarrow> string \<Rightarrow> string \<Rightarrow> RequestState \<Rightarrow> ServiceError + RequestState \<times> RotationIncidentRow" where
  "start digest pk ids now actor slotId key s =
    bindE (ownedSlot actor slotId (snd s)) (\<lambda>owner. rotationTransaction
      (withCloudRequest digest (start_request ''rotation.start'' key actor owner slotId) (startRotation pk ids now actor slotId) s))"

definition manual ::
  "(json \<Rightarrow> string) \<Rightarrow> (string \<Rightarrow> nat) \<Rightarrow> physical_key \<Rightarrow> NewIds \<Rightarrow> string \<Rightarrow> int \<Rightarrow> AuthUser \<Rightarrow> string \<Rightarrow> string \<Rightarrow> RequestState
   \<Rightarrow> ServiceError + RequestState \<times> RotationIncidentRow" where
  "manual digest isIP pk ids uuid now actor slotId key s =
    bindE (ownedSlot actor slotId (snd s)) (\<lambda>owner. rotationTransaction
      (withCloudRequest digest (start_request ''rotation.manual'' key actor owner slotId) (startManual isIP pk ids uuid now actor slotId) s))"

definition resume ::
  "(json \<Rightarrow> string) \<Rightarrow> physical_key \<Rightarrow> string \<Rightarrow> int \<Rightarrow> AuthUser \<Rightarrow> string \<Rightarrow> string \<Rightarrow> int option \<Rightarrow> RequestState
   \<Rightarrow> ServiceError + RequestState \<times> RotationIncidentRow" where
  "resume digest pk segmentId now actor i key expected s =
    bindE (ownedIncident actor i (snd s)) (\<lambda>owned. rotationTransaction
      (withCloudRequest digest \<lparr>rq_key = key, rq_actorUserId = au_id actor, rq_ownerUserId = ri_ownerUserId owned, rq_action = ''rotation.resume'',
           rq_request = JObj [(''incidentId'', JStr i),
             (''expectedPolicyRevision'', case expected of Some n \<Rightarrow> JNum (num_of_int n) | None \<Rightarrow> JUndefined)]\<rparr>
         (resumeRotation pk segmentId now actor (ri_slotId owned) i expected) s))"

definition terminate :: "physical_key \<Rightarrow> int \<Rightarrow> AuthUser \<Rightarrow> string \<Rightarrow> Database \<Rightarrow> ServiceError + Database" where
  "terminate pk now actor i d =
    bindE (ownedIncident actor i d) (\<lambda>_. rotationTransaction (lift_code (terminateRotationIncident pk now i (Some (au_id actor)) d)))"

definition pause :: "physical_key \<Rightarrow> int \<Rightarrow> AuthUser \<Rightarrow> string \<Rightarrow> Database \<Rightarrow> ServiceError + Database" where
  "pause pk now actor i d =
    bindE (ownedIncident actor i d) (\<lambda>owned. rotationTransaction (
    bindE (lift_code (lockRotationContext pk (tb_cloud d) (ri_slotId owned))) (\<lambda>_.
    case find_incident d i of
      None \<Rightarrow> Inl (ConflictException ''Rotation has completed'')
    | Some incident \<Rightarrow>
        if ri_status incident = IncComplete then Inl (ConflictException ''Rotation has completed'')
        else (let paused = (\<lambda>x. x\<lparr>ri_status := IncPaused, ri_pausedByUserId := Some (au_id actor), ri_errorCode := Some ''manual_pause'',
                ri_nextRunAt := now, ri_updatedAt := now\<rparr>)
          in Inr (rotationAudit (paused incident) ''rotation.pause'' (Some (au_id actor)) NoSnapshot (set_incident i paused d))))))"

section \<open>Schedules\<close>

definition assertOwned :: "AuthUser \<Rightarrow> RotationContext \<Rightarrow> ServiceError + unit" where
  "assertOwned actor c = guardE (au_admin actor \<or> ca_ownerUserId (cx_account c) = au_id actor) (NotFoundException ''Address slot not found'')"

definition validateEnabled ::
  "(string \<Rightarrow> nat) \<Rightarrow> int \<Rightarrow> RotationContext \<Rightarrow> RotationScheduleRow option \<Rightarrow> Database \<Rightarrow> CodeError + Database" where
  "validateEnabled isIP now c schedule d =
    bindE (case rotationAuthorizationError c ScheduledTrigger of Some e \<Rightarrow> Inl e | None \<Rightarrow> Inr ()) (\<lambda>_.
    bindE (if Option.bind schedule rs_activeIncidentId = None
           then (case scheduledRotationPrerequisiteError isIP c of Some e \<Rightarrow> Inl e | None \<Rightarrow> Inr ()) else Inr ()) (\<lambda>_.
    let policy = (case cx_policy c of Some p \<Rightarrow> p | None \<Rightarrow> default_policy (ms_id (cx_slot c)));
        d1 = (if cx_policy c = None then set_cloud (\<lambda>t. t\<lparr>ct_policies := ct_policies t @ [policy]\<rparr>) d else d);
        h = lockRotationHealth now d1 c in
    bindE (healthRevisions h) (\<lambda>_.
    bindE (guardE (case rh_policy h of Some p \<Rightarrow> requiredWindow p \<le> rp_candidateWindowSeconds policy | None \<Rightarrow> True)
      ''rotation_candidate_window_too_short'') (\<lambda>_. Inr d1))))"

definition schedule_json :: "string \<Rightarrow> RotationScheduleRow option \<Rightarrow> json" where
  "schedule_json slotId s = JObj [(''slotId'', JStr slotId), (''enabled'', JBool (case s of Some x \<Rightarrow> rs_enabled x | None \<Rightarrow> False)),
     (''intervalMinutes'', JNum (num_of_int (case s of Some x \<Rightarrow> rs_intervalMinutes x | None \<Rightarrow> 1440))),
     (''revision'', JNum (num_of_int (schedule_revision s))),
     (''nextRunAt'', opt_int (Option.bind s rs_nextRunAt)), (''activeIncidentId'', opt_str (Option.bind s rs_activeIncidentId)),
     (''lastStartedAt'', opt_int (Option.bind s rs_lastStartedAt)), (''lastCompletedAt'', opt_int (Option.bind s rs_lastCompletedAt)),
     (''lastHandledIncidentId'', opt_str (Option.bind s rs_lastHandledIncidentId)), (''pausedReason'', opt_str (Option.bind s rs_pausedReason))]"

definition updateSchedule ::
  "(string \<Rightarrow> nat) \<Rightarrow> physical_key \<Rightarrow> int \<Rightarrow> AuthUser \<Rightarrow> string \<Rightarrow> RotationScheduleUpdateInput \<Rightarrow> Database
   \<Rightarrow> ServiceError + Database \<times> RotationScheduleRow option" where
  "updateSchedule isIP pk now actor slotId input d = scheduleTransaction (
    bindE (lift_code (lockRotationContext pk (tb_cloud d) slotId)) (\<lambda>c.
    bindE (assertOwned actor c) (\<lambda>_.
    let current = find_schedule d slotId in
    bindE (guardE (schedule_revision current = su_revision input) (Thrown ''rotation_schedule_revision_conflict'')) (\<lambda>_.
    bindE (if schedule_changed current input \<and> su_enabled input then lift_code (validateEnabled isIP now c current d) else Inr d) (\<lambda>d1.
    bindE (lift_code (updateRotationScheduleConfiguration now slotId input d1)) (\<lambda>(d2, schedule, changed).
    Inr (if changed then apiAudit actor c ''rotation.schedule.update'' slotId (schedule_json slotId current)
           (JsonSnapshot (schedule_json slotId schedule)) d2 else d2, schedule)))))))"

definition resumeSchedule ::
  "(string \<Rightarrow> nat) \<Rightarrow> physical_key \<Rightarrow> int \<Rightarrow> AuthUser \<Rightarrow> string \<Rightarrow> int \<Rightarrow> Database \<Rightarrow> ServiceError + Database \<times> RotationScheduleRow" where
  "resumeSchedule isIP pk now actor slotId revision d = scheduleTransaction (
    bindE (lift_code (lockRotationContext pk (tb_cloud d) slotId)) (\<lambda>c.
    bindE (assertOwned actor c) (\<lambda>_.
    case find_schedule d slotId of
      None \<Rightarrow> Inl (Thrown ''rotation_schedule_not_found'')
    | Some current \<Rightarrow>
        bindE (guardE (rs_revision current = revision) (Thrown ''rotation_schedule_revision_conflict'')) (\<lambda>_.
        bindE (guardE (rs_enabled current) (Thrown ''rotation_schedule_disabled'')) (\<lambda>_.
        bindE (guardE (schedule_paused current) (Thrown ''rotation_schedule_not_paused'')) (\<lambda>_.
        bindE (lift_code (validateEnabled isIP now c (Some current) d)) (\<lambda>d1.
        bindE (lift_code (resumeRotationSchedule now slotId revision d1)) (\<lambda>(d2, s).
        Inr (apiAudit actor c ''rotation.schedule.resume'' slotId (schedule_json slotId (Some current))
               (JsonSnapshot (schedule_json slotId (Some s))) d2, s)))))))))"

section \<open>Constraints\<close>

lemma lift_code_Inr [simp]: "lift_code r = Inr a \<longleftrightarrow> r = Inr a"
  by (cases r) (simp_all add: lift_code_def)

lemma rotationTransaction_Inr [simp]: "rotationTransaction r = Inr a \<longleftrightarrow> r = Inr a"
  by (auto simp: rotationTransaction_def split: sum.splits ServiceError.splits)

lemma scheduleTransaction_Inr [simp]: "scheduleTransaction r = Inr a \<longleftrightarrow> r = Inr a"
  by (auto simp: scheduleTransaction_def split: sum.splits ServiceError.splits)

lemma pause_incidents_ok:
  assumes "pause pk now actor i d = Inr d'" and ok: "incidents_ok (tb_cloud d)"
  shows "incidents_ok (tb_cloud d')"
proof -
  from assms(1) obtain incident where f: "find_incident d i = Some incident" and s: "ri_status incident \<noteq> IncComplete"
    by (auto simp: pause_def bindE_eq_Inr split: option.splits if_splits)
  have i: "ri_incidentId incident = i" using f by (auto simp: find_incident_def dest: select_one_Some)
  from assms(1) f s have c: "tb_cloud d' = (tb_cloud d)\<lparr>ct_incidents := update_where (\<lambda>x. ri_incidentId x = i)
      (\<lambda>x. x\<lparr>ri_status := IncPaused, ri_pausedByUserId := Some (au_id actor), ri_errorCode := Some ''manual_pause'', ri_nextRunAt := now,
        ri_updatedAt := now\<rparr>) (ct_incidents (tb_cloud d))\<rparr>"
    by (auto simp: pause_def bindE_eq_Inr Let_def)
  show ?thesis
    by (rule incidents_ok_update_where [OF ok f, where f = "\<lambda>x. x\<lparr>ri_status := IncPaused, ri_pausedByUserId := Some (au_id actor),
         ri_errorCode := Some ''manual_pause'', ri_nextRunAt := now, ri_updatedAt := now\<rparr>"])
      (use s i in \<open>auto simp: c open_incident_def incident_row_ok_def has_epoch_def no_epoch_def\<close>)
qed

end
