(* ===== verification/Pool_Health.thy ===== *)
theory Pool_Health
  imports Cloud_Publication "HOL-Library.AList"
begin

text \<open>
  The health of a pool as the panel shows it: \<open>packages/db/src/pool-health.ts\<close> and the visibility of cloud
  addresses in \<open>packages/db/src/cloud-targets.ts\<close>. A query over joined tables is a filter over the rows; a join
  on a primary key is a lookup. An object keyed by ids is an association list in insertion order.
\<close>

section \<open>Cloud targets\<close>

record CloudTargetSummary =
  tg_account :: "string \<times> string \<times> CloudProvider"
  tg_instance :: "string \<times> string option \<times> string \<times> CloudService \<times> string"
  tg_slot :: "string \<times> string \<times> Family \<times> int \<times> int"
  tg_currentAddress :: "(string \<times> string) option"
  tg_candidateAddress :: "(string \<times> string) option"
  tg_activeCandidate :: bool
  tg_currentAddressObserved :: bool
  tg_candidateAddressObserved :: bool
  tg_inventoryCurrent :: bool
  tg_available :: bool

text \<open>The \<open>exists\<close> subquery; a comparison with a null is not true.\<close>

definition activeCandidate :: "CloudTables \<Rightarrow> ManagedAddressSlotRow \<Rightarrow> bool" where
  "activeCandidate t slot = list_ex (\<lambda>i. list_ex (\<lambda>a. ri_currentAttemptId i = Some (ra_id a)
       \<and> ra_candidateAddressId a \<noteq> None \<and> ra_candidateAddressId a = ms_candidateAddressId slot
       \<and> ra_candidateVersion a = Some (ms_candidateVersion slot)) (ct_attempts t)
     \<and> ri_slotId i = ms_id slot \<and> ri_status i \<noteq> IncComplete \<and> ri_terminatedAt i = None) (ct_incidents t)"

definition address_of :: "CloudTables \<Rightarrow> string option \<Rightarrow> CloudAddressRow option" where
  "address_of t i = Option.bind i (\<lambda>i. select_one (\<lambda>d. cd_id d = i) (ct_addresses t))"

definition instance_current :: "CloudTables \<Rightarrow> CloudAccountRow \<Rightarrow> CloudInstanceRow \<Rightarrow> CloudInterfaceRow \<Rightarrow> bool" where
  "instance_current t account inst iface = (present (cin_metadata inst)
     \<and> (case select_one (\<lambda>s. cs_accountId s = cin_accountId inst \<and> cs_service s = cin_service inst \<and> cs_region s = cin_region inst)
             (ct_scanScopes t) of None \<Rightarrow> True | Some s \<Rightarrow> cs_generation s = cin_scanGeneration inst)
     \<and> cif_scanGeneration iface = cin_scanGeneration inst)"

definition address_present :: "CloudAddressRow option \<Rightarrow> bool" where
  "address_present a = (case a of Some d \<Rightarrow> cd_inventoryPresent d | None \<Rightarrow> False)"

definition address_observed :: "bool \<Rightarrow> CloudInstanceRow \<Rightarrow> CloudAddressRow option \<Rightarrow> bool" where
  "address_observed instanceCurrent inst a =
    (instanceCurrent \<and> (case a of Some d \<Rightarrow> cd_inventoryPresent d \<and> cd_scanGeneration d = cin_scanGeneration inst | None \<Rightarrow> False))"

definition targetSummary ::
  "CloudTables \<Rightarrow> CloudAccountRow \<Rightarrow> CloudInstanceRow \<Rightarrow> CloudInterfaceRow \<Rightarrow> ManagedAddressSlotRow \<Rightarrow> CloudTargetSummary" where
  "targetSummary t account inst iface slot =
    (let current = address_of t (ms_currentAddressId slot); candidate = address_of t (ms_candidateAddressId slot);
         active = activeCandidate t slot; instanceCurrent = instance_current t account inst iface;
         currentObserved = address_observed instanceCurrent inst current;
         candidateObserved = address_observed instanceCurrent inst candidate;
         inventoryCurrent = (if candidate \<noteq> None then candidateObserved else currentObserved)
     in \<lparr>tg_account = (ca_id account, ca_name account, ca_provider account),
         tg_instance = (cin_id inst, cin_name inst, cin_externalId inst, cin_service inst, cin_region inst),
         tg_slot = (ms_id slot, ms_name slot, ms_family slot, ms_currentVersion slot, ms_candidateVersion slot),
         tg_currentAddress = map_option (\<lambda>d. (cd_id d, cd_address d)) current,
         tg_candidateAddress = map_option (\<lambda>d. (cd_id d, cd_address d)) candidate,
         tg_activeCandidate = active, tg_currentAddressObserved = currentObserved,
         tg_candidateAddressObserved = candidateObserved, tg_inventoryCurrent = inventoryCurrent,
         tg_available = (ca_enabled account \<and> (case ca_regions account of None \<Rightarrow> True | Some rs \<Rightarrow> cin_region inst \<in> set rs)
           \<and> instanceCurrent \<and> address_present (if candidate \<noteq> None then candidate else current)
           \<and> (inventoryCurrent \<or> active))\<rparr>)"

text \<open>A slot without its interface, instance or account is not in the inner join.\<close>

definition cloudTarget :: "CloudTables \<Rightarrow> ManagedAddressSlotRow \<Rightarrow> (string \<times> CloudTargetSummary) option" where
  "cloudTarget t slot =
    Option.bind (select_one (\<lambda>f. cif_id f = ms_interfaceId slot) (ct_interfaces t)) (\<lambda>iface.
    Option.bind (select_one (\<lambda>i. cin_id i = cif_instanceId iface) (ct_instances t)) (\<lambda>inst.
    Option.bind (select_one (\<lambda>a. ca_id a = cin_accountId inst) (ct_accounts t)) (\<lambda>account.
    Some (ms_id slot, targetSummary t account inst iface slot))))"

definition getCloudTargetsForSlots :: "CloudTables \<Rightarrow> string list \<Rightarrow> string \<rightharpoonup> CloudTargetSummary" where
  "getCloudTargetsForSlots t slotIds =
    map_of (List.map_filter (cloudTarget t) (filter (\<lambda>s. ms_id s \<in> set slotIds) (ct_slots t)))"

section \<open>The projection\<close>

record PoolEndpoint =
  pe_id :: string
  pe_lifecycle :: EndpointLifecycle
  pe_addressFamilies :: "Family list option"

record PoolAddress =
  pa_addressId :: string
  pa_endpointId :: string
  pa_family :: Family
  pa_healthState :: HealthState
  pa_available :: "bool option"

record PoolHealthInput =
  phi_endpoints :: "PoolEndpoint list"
  phi_addresses :: "PoolAddress list"
  phi_bindings :: "(string \<times> string) list"
  phi_bindingHealth :: "BindingEndpointHealthRow list"
  phi_overrideBindingIds :: "string list"

record PoolHealthSummary =
  sm_state :: HealthState
  sm_bindingStates :: "(string \<times> HealthState) list"
  sm_endpointStates :: "(string \<times> HealthState) list"
  sm_endpointCount :: nat
  sm_healthyEndpointCount :: nat
  sm_waitingBindingCount :: nat

definition summarizeHealth :: "HealthState list \<Rightarrow> HealthState" where
  "summarizeHealth states =
    (if states = [] then Unknown
     else if list_all (\<lambda>s. s = Healthy) states then Healthy
     else if list_ex (\<lambda>s. s = Healthy \<or> s = Degraded) states then Degraded
     else if list_ex (\<lambda>s. s = Recovering) states then Recovering
     else if list_ex (\<lambda>s. s = Unknown) states then Unknown
     else Unhealthy)"

definition endpoint_addresses :: "PoolHealthInput \<Rightarrow> PoolEndpoint \<Rightarrow> PoolAddress list" where
  "endpoint_addresses input e = filter (\<lambda>a. pa_endpointId a = pe_id e) (phi_addresses input)"

definition enabled_endpoints :: "PoolHealthInput \<Rightarrow> PoolEndpoint list" where
  "enabled_endpoints input = filter (\<lambda>e. pe_lifecycle e = Enabled) (phi_endpoints input)"

text \<open>What one endpoint contributes to the state of one binding.\<close>

definition candidateState :: "PoolHealthInput \<Rightarrow> string \<Rightarrow> Family \<Rightarrow> PoolEndpoint \<Rightarrow> HealthState list" where
  "candidateState input binding family e = (let addresses = endpoint_addresses input e in
    case find (\<lambda>a. pa_family a = family) addresses of
      None \<Rightarrow> if (case pe_addressFamilies e of Some (f # fs) \<Rightarrow> family \<in> set (f # fs) | _ \<Rightarrow> addresses = []) then [Unknown] else []
    | Some address \<Rightarrow>
        if pa_available address = Some False then [Unknown]
        else if binding \<notin> set (phi_overrideBindingIds input) then [pa_healthState address]
        else (case find (\<lambda>h. bh_domainBindingId h = binding \<and> bh_endpointId h = pe_id e
                  \<and> bh_endpointAddressId h = Some (pa_addressId address)) (phi_bindingHealth input) of
            Some h \<Rightarrow> [bh_healthState h] | None \<Rightarrow> [Unknown]))"

definition binding_family :: "string \<Rightarrow> Family" where
  "binding_family recordType = (if recordType = ''AAAA'' then V6 else V4)"

definition bindingState :: "PoolHealthInput \<Rightarrow> string \<Rightarrow> string \<Rightarrow> HealthState" where
  "bindingState input binding recordType =
    summarizeHealth (concat (map (candidateState input binding (binding_family recordType)) (enabled_endpoints input)))"

definition endpointState :: "PoolHealthInput \<Rightarrow> PoolEndpoint \<Rightarrow> HealthState" where
  "endpointState input e =
    summarizeHealth (map (\<lambda>a. if pa_available a = Some False then Unknown else pa_healthState a) (endpoint_addresses input e))"

definition projectPoolHealth :: "PoolHealthInput \<Rightarrow> PoolHealthSummary" where
  "projectPoolHealth input =
    (let bindingStates = foldl (\<lambda>m (b, recordType). AList.update b (bindingState input b recordType) m) [] (phi_bindings input);
         endpointStates = foldl (\<lambda>m e. AList.update (pe_id e) (endpointState input e) m) [] (enabled_endpoints input)
     in \<lparr>sm_state = summarizeHealth (map snd (if phi_bindings input \<noteq> [] then bindingStates else endpointStates)),
         sm_bindingStates = bindingStates, sm_endpointStates = endpointStates,
         sm_endpointCount = length (enabled_endpoints input),
         sm_healthyEndpointCount = length (filter (\<lambda>(_, s). s = Healthy) endpointStates),
         sm_waitingBindingCount = length (filter (\<lambda>(_, s). s = Unknown \<or> s = Recovering) bindingStates)\<rparr>)"

text \<open>\<open>T & { available: boolean }\<close> is an extension of the row. A cloud address is available while the inventory still
  shows it as the current address of its slot.\<close>

record AvailableAddress = EndpointAddressRow +
  ea_available :: bool

definition with_available :: "EndpointAddressRow \<Rightarrow> HealthState \<Rightarrow> bool \<Rightarrow> AvailableAddress" where
  "with_available address health available =
    EndpointAddressRow.extend (address\<lparr>ea_healthState := health\<rparr>) (AvailableAddress.fields available)"

definition withPoolAddressAvailability ::
  "EndpointAddressRow \<Rightarrow> CloudEndpointLinkRow list \<Rightarrow> (string \<rightharpoonup> CloudTargetSummary) \<Rightarrow> AvailableAddress" where
  "withPoolAddressAvailability address links targets =
    (if ea_source address \<noteq> CloudMode then with_available address (ea_healthState address) True
     else (let link = find (\<lambda>l. cl_endpointId l = ea_endpointId address \<and> cl_family l = ea_family address) links;
               target = Option.bind link (\<lambda>l. targets (cl_slotId l));
               available = (case target of None \<Rightarrow> False
                 | Some g \<Rightarrow> tg_currentAddressObserved g \<and> map_option snd (tg_currentAddress g) = Some (ea_address address))
           in with_available address (if available then ea_healthState address else Unknown) available))"

text \<open>A full row where the projection asks for the fields it reads.\<close>

definition pool_address :: "AvailableAddress \<Rightarrow> PoolAddress" where
  "pool_address a = \<lparr>pa_addressId = ea_id a, pa_endpointId = ea_endpointId a, pa_family = ea_family a,
     pa_healthState = ea_healthState a, pa_available = Some (ea_available a)\<rparr>"

section \<open>Reading and refreshing a pool\<close>

text \<open>The queries for one pool and its projection (\<open>getPoolHealthSummaries\<close> reads several pools in one
  round trip and splits the rows by pool).\<close>

definition in_pool :: "Database \<Rightarrow> string \<Rightarrow> string \<Rightarrow> bool" where
  "in_pool d poolId endpointId = list_ex (\<lambda>e. en_id e = endpointId \<and> en_poolId e = poolId) (tb_endpoints d)"

definition binding_in_pool :: "Database \<Rightarrow> string \<Rightarrow> string \<Rightarrow> bool" where
  "binding_in_pool d poolId binding = list_ex (\<lambda>b. db_id b = binding \<and> db_poolId b = poolId) (tb_domainBindings d)"

definition override_bindings :: "Database \<Rightarrow> string \<Rightarrow> string list" where
  "override_bindings d poolId = List.map_filter (\<lambda>c. case hc_domainBindingId c of
       Some b \<Rightarrow> if binding_in_pool d poolId b \<and> hc_enabled c then Some b else None
     | None \<Rightarrow> None) (tb_healthCheckConfigs d)"

lemma override_bindings_iff: "b \<in> set (override_bindings d poolId)
    \<longleftrightarrow> binding_in_pool d poolId b \<and> list_ex (\<lambda>c. hc_domainBindingId c = Some b \<and> hc_enabled c) (tb_healthCheckConfigs d)"
  unfolding override_bindings_def in_map_filter by (auto simp: list_ex_iff split: option.splits if_splits)

definition poolHealthInput :: "Database \<Rightarrow> string \<Rightarrow> PoolHealthInput" where
  "poolHealthInput d poolId =
    (let cloudLinks = filter (\<lambda>l. in_pool d poolId (cl_endpointId l)) (ct_links (tb_cloud d));
         targets = getCloudTargetsForSlots (tb_cloud d) (map cl_slotId cloudLinks)
     in \<lparr>phi_endpoints = map (\<lambda>e. \<lparr>pe_id = en_id e, pe_lifecycle = en_lifecycle e,
           pe_addressFamilies = Some (map cl_family (filter (\<lambda>l. cl_endpointId l = en_id e) cloudLinks))\<rparr>)
             (filter (\<lambda>e. en_poolId e = poolId) (tb_endpoints d)),
         phi_addresses = map (\<lambda>a. pool_address (withPoolAddressAvailability a cloudLinks targets))
             (filter (\<lambda>a. in_pool d poolId (ea_endpointId a) \<and> ea_state a = CurrentAddress) (tb_endpointAddresses d)),
         phi_bindings = map (\<lambda>b. (db_id b, db_recordType b)) (filter (\<lambda>b. db_poolId b = poolId) (tb_domainBindings d)),
         phi_bindingHealth = filter (\<lambda>h. binding_in_pool d poolId (bh_domainBindingId h)) (tb_bindingEndpointHealth d),
         phi_overrideBindingIds = override_bindings d poolId\<rparr>)"

definition getPoolHealthSummaries :: "Database \<Rightarrow> string list \<Rightarrow> (string \<times> PoolHealthSummary) list" where
  "getPoolHealthSummaries d poolIds = map (\<lambda>i. (i, projectPoolHealth (poolHealthInput d i))) poolIds"

definition refreshPoolHealth :: "string \<Rightarrow> Database \<Rightarrow> Database \<times> PoolHealthSummary" where
  "refreshPoolHealth poolId d = (let summary = the (map_of (getPoolHealthSummaries d [poolId]) poolId) in
    (d\<lparr>tb_endpointPools := update_where (\<lambda>p. ep_id p = poolId) (\<lambda>p. p\<lparr>ep_state := sm_state summary\<rparr>) (tb_endpointPools d)\<rparr>, summary))"

section \<open>Lemmas\<close>

lemma summarize_backed: "summarizeHealth states \<in> {Healthy, Degraded} \<Longrightarrow> \<exists>s \<in> set states. s \<in> {Healthy, Degraded}"
  by (auto simp: summarizeHealth_def list_all_iff list_ex_iff neq_Nil_conv split: if_splits)

lemma summarize_Healthy: "summarizeHealth states = Healthy \<longleftrightarrow> states \<noteq> [] \<and> (\<forall>s \<in> set states. s = Healthy)"
  by (auto simp: summarizeHealth_def list_all_iff)

lemma summarize_Unhealthy: "summarizeHealth states = Unhealthy \<longleftrightarrow> states \<noteq> [] \<and> (\<forall>s \<in> set states. s = Unhealthy)"
proof -
  have "s = Unhealthy \<longleftrightarrow> s \<notin> {Healthy, Degraded, Recovering, Unknown}" for s by (cases s) auto
  then show ?thesis by (auto simp: summarizeHealth_def list_all_iff list_ex_iff neq_Nil_conv)
qed

lemma map_of_foldl_update:
  "map_of (foldl (\<lambda>m x. AList.update (k x) (v x) m) m0 xs) i = Some s
    \<Longrightarrow> (\<exists>x \<in> set xs. k x = i \<and> v x = s) \<or> map_of m0 i = Some s"
  by (induction xs arbitrary: m0) (fastforce simp: update_conv' split: if_splits)+

lemma binding_states:
  assumes "map_of (sm_bindingStates (projectPoolHealth input)) b = Some s"
  shows "\<exists>recordType. (b, recordType) \<in> set (phi_bindings input) \<and> s = bindingState input b recordType"
  using map_of_foldl_update [of fst "\<lambda>x. bindingState input (fst x) (snd x)" "[]" "phi_bindings input" b s] assms
  by (auto simp: projectPoolHealth_def Let_def case_prod_unfold)

lemma summaries_of: "map_of (getPoolHealthSummaries d [p]) p = Some (projectPoolHealth (poolHealthInput d p))"
  by (simp add: getPoolHealthSummaries_def)

text \<open>A cloud address stands in the inventory: it is the current address of the slot and was seen by the scan of the
  instance, with the interface.\<close>

definition observed_address :: "CloudTables \<Rightarrow> string \<Rightarrow> string \<Rightarrow> bool" where
  "observed_address t slotId address = list_ex (\<lambda>slot. ms_id slot = slotId
     \<and> list_ex (\<lambda>iface. cif_id iface = ms_interfaceId slot \<and> list_ex (\<lambda>inst. cin_id inst = cif_instanceId iface
         \<and> present (cin_metadata inst) \<and> cif_scanGeneration iface = cin_scanGeneration inst
         \<and> list_ex (\<lambda>a. Some (cd_id a) = ms_currentAddressId slot \<and> cd_address a = address \<and> cd_inventoryPresent a
              \<and> cd_scanGeneration a = cin_scanGeneration inst) (ct_addresses t)) (ct_instances t)) (ct_interfaces t)) (ct_slots t)"

lemma target_observed:
  assumes "getCloudTargetsForSlots t slotIds slotId = Some g" and "tg_currentAddressObserved g"
    and "map_option snd (tg_currentAddress g) = Some address"
  shows "observed_address t slotId address"
proof -
  from assms(1) obtain slot iface inst account where rows: "slot \<in> set (ct_slots t)" "ms_id slot = slotId"
    "select_one (\<lambda>f. cif_id f = ms_interfaceId slot) (ct_interfaces t) = Some iface"
    "select_one (\<lambda>i. cin_id i = cif_instanceId iface) (ct_instances t) = Some inst"
    "g = targetSummary t account inst iface slot"
    by (auto simp: getCloudTargetsForSlots_def cloudTarget_def map_filter_def bind_eq_Some_conv dest!: map_of_SomeD)
  with assms(3) obtain a where a: "address_of t (ms_currentAddressId slot) = Some a" "cd_address a = address"
    by (auto simp: targetSummary_def Let_def)
  from a(1) have "a \<in> set (ct_addresses t)" "ms_currentAddressId slot = Some (cd_id a)"
    by (auto simp: address_of_def bind_eq_Some_conv dest!: select_one_Some)
  moreover from assms(2) rows(5) a(1) have "cd_inventoryPresent a" "cd_scanGeneration a = cin_scanGeneration inst"
    "present (cin_metadata inst)" "cif_scanGeneration iface = cin_scanGeneration inst"
    by (auto simp: targetSummary_def Let_def address_observed_def instance_current_def)
  moreover note select_one_Some [OF rows(3)] select_one_Some [OF rows(4)]
  ultimately show ?thesis
    unfolding observed_address_def list_ex_iff using rows(1,2) a(2)
    by (intro bexI [of _ slot] bexI [of _ iface] bexI [of _ inst] bexI [of _ a] conjI) simp_all
qed

section \<open>What a healthy pool rests on\<close>

text \<open>The address row \<open>a\<close> of the endpoint \<open>e\<close> can serve a family: the endpoint is enabled in the pool, the address is its current
  one and, from a cloud, still in the inventory.\<close>

definition serving :: "Database \<Rightarrow> string \<Rightarrow> Family \<Rightarrow> EndpointRow \<Rightarrow> EndpointAddressRow \<Rightarrow> bool" where
  "serving d poolId family e a =
    (en_poolId e = poolId \<and> en_lifecycle e = Enabled \<and> ea_endpointId a = en_id e \<and> ea_state a = CurrentAddress \<and> ea_family a = family
     \<and> (ea_source a = CloudMode \<longrightarrow> list_ex (\<lambda>l. cl_endpointId l = en_id e \<and> cl_family l = family
           \<and> observed_address (tb_cloud d) (cl_slotId l) (ea_address a)) (ct_links (tb_cloud d))))"

text \<open>The evidence for it is the address's own or, where the binding has a check of its own, that check's for this very
  address.\<close>

definition proven :: "Database \<Rightarrow> string \<Rightarrow> EndpointRow \<Rightarrow> EndpointAddressRow \<Rightarrow> bool" where
  "proven d binding e a =
    (if list_ex (\<lambda>c. hc_domainBindingId c = Some binding \<and> hc_enabled c) (tb_healthCheckConfigs d)
     then list_ex (\<lambda>h. bh_domainBindingId h = binding \<and> bh_endpointId h = en_id e \<and> bh_endpointAddressId h = Some (ea_id a)
       \<and> bh_healthState h \<in> {Healthy, Degraded}) (tb_bindingEndpointHealth d)
     else ea_healthState a \<in> {Healthy, Degraded})"

definition backs :: "Database \<Rightarrow> string \<Rightarrow> string \<Rightarrow> Family \<Rightarrow> EndpointRow \<Rightarrow> EndpointAddressRow \<Rightarrow> bool" where
  "backs d poolId binding family e a = (serving d poolId family e a \<and> proven d binding e a)"

lemma with_available_fields [simp]:
  "ea_id (with_available a h v) = ea_id a" "ea_endpointId (with_available a h v) = ea_endpointId a"
  "ea_family (with_available a h v) = ea_family a" "ea_address (with_available a h v) = ea_address a"
  "ea_source (with_available a h v) = ea_source a" "ea_state (with_available a h v) = ea_state a"
  "ea_healthState (with_available a h v) = h" "ea_available (with_available a h v) = v"
  by (cases a, simp add: with_available_def EndpointAddressRow.extend_def AvailableAddress.fields_def)+

lemma availability_fields [simp]:
  "ea_id (withPoolAddressAvailability a links targets) = ea_id a"
  "ea_endpointId (withPoolAddressAvailability a links targets) = ea_endpointId a"
  "ea_family (withPoolAddressAvailability a links targets) = ea_family a"
  "ea_address (withPoolAddressAvailability a links targets) = ea_address a"
  "ea_source (withPoolAddressAvailability a links targets) = ea_source a"
  "ea_state (withPoolAddressAvailability a links targets) = ea_state a"
  by (auto simp: withPoolAddressAvailability_def Let_def)

lemma available_health:
  "ea_available (withPoolAddressAvailability a links targets)
    \<Longrightarrow> ea_healthState (withPoolAddressAvailability a links targets) = ea_healthState a"
  by (auto simp: withPoolAddressAvailability_def Let_def)

lemma available_observed:
  assumes "ea_available (withPoolAddressAvailability a links (getCloudTargetsForSlots t slotIds))"
    and "ea_source a = CloudMode"
  shows "\<exists>l \<in> set links. cl_endpointId l = ea_endpointId a \<and> cl_family l = ea_family a
      \<and> observed_address t (cl_slotId l) (ea_address a)"
proof -
  from assms obtain l g where l: "find (\<lambda>l. cl_endpointId l = ea_endpointId a \<and> cl_family l = ea_family a) links = Some l"
    and g: "getCloudTargetsForSlots t slotIds (cl_slotId l) = Some g" "tg_currentAddressObserved g"
      "map_option snd (tg_currentAddress g) = Some (ea_address a)"
    by (auto simp: withPoolAddressAvailability_def Let_def bind_eq_Some_conv split: option.splits)
  from target_observed [OF g] l show ?thesis by (auto simp: find_Some_iff)
qed

lemma pool_address_fields [simp]:
  "pa_addressId (pool_address a) = ea_id a" "pa_endpointId (pool_address a) = ea_endpointId a"
  "pa_family (pool_address a) = ea_family a" "pa_healthState (pool_address a) = ea_healthState a"
  "pa_available (pool_address a) = Some (ea_available a)"
  by (simp_all add: pool_address_def)

lemma candidate_backs:
  assumes s: "s \<in> set (candidateState (poolHealthInput d poolId) binding family e)" "s \<in> {Healthy, Degraded}"
    and e: "e \<in> set (enabled_endpoints (poolHealthInput d poolId))" and b: "binding_in_pool d poolId binding"
  shows "list_ex (\<lambda>en. list_ex (backs d poolId binding family en) (tb_endpointAddresses d)) (tb_endpoints d)"
proof -
  let ?input = "poolHealthInput d poolId"
  from e obtain en where en: "en \<in> set (tb_endpoints d)" "en_poolId en = poolId" "en_lifecycle en = Enabled" "pe_id e = en_id en"
    by (auto simp: enabled_endpoints_def poolHealthInput_def Let_def)
  from s obtain p where p: "find (\<lambda>a. pa_family a = family) (endpoint_addresses ?input e) = Some p"
    and avail: "pa_available p \<noteq> Some False"
    by (auto simp: candidateState_def Let_def split: option.splits if_splits)
  from p have p': "p \<in> set (phi_addresses ?input)" "pa_endpointId p = en_id en" "pa_family p = family"
    by (auto simp: endpoint_addresses_def en(4) dest!: select_one_Some [unfolded select_one_def])
  then obtain a links slotIds where a: "a \<in> set (tb_endpointAddresses d)" "ea_state a = CurrentAddress"
    "p = pool_address (withPoolAddressAvailability a links (getCloudTargetsForSlots (tb_cloud d) slotIds))" "set links \<subseteq> set (ct_links (tb_cloud d))"
    by (auto simp: poolHealthInput_def Let_def)
  have cloud: "ea_source a = CloudMode \<Longrightarrow> list_ex (\<lambda>l. cl_endpointId l = en_id en \<and> cl_family l = family
      \<and> observed_address (tb_cloud d) (cl_slotId l) (ea_address a)) (ct_links (tb_cloud d))"
    using available_observed [of a links "tb_cloud d" slotIds] avail a p'(2,3)
    by (auto simp: list_ex_iff)
  have over: "binding \<in> set (phi_overrideBindingIds ?input)
      \<longleftrightarrow> list_ex (\<lambda>c. hc_domainBindingId c = Some binding \<and> hc_enabled c) (tb_healthCheckConfigs d)"
    using b by (simp add: poolHealthInput_def Let_def override_bindings_iff)
  have health: "if binding \<in> set (phi_overrideBindingIds ?input)
      then list_ex (\<lambda>h. bh_domainBindingId h = binding \<and> bh_endpointId h = en_id en \<and> bh_endpointAddressId h = Some (ea_id a)
           \<and> bh_healthState h \<in> {Healthy, Degraded}) (tb_bindingEndpointHealth d)
      else ea_healthState a \<in> {Healthy, Degraded}"
    using s p avail en(4) available_health [of a links "getCloudTargetsForSlots (tb_cloud d) slotIds"]
    by (auto simp: candidateState_def Let_def a(3) list_ex_iff poolHealthInput_def
      split: option.splits if_splits dest!: select_one_Some [unfolded select_one_def])
  have "backs d poolId binding family en a"
    unfolding backs_def serving_def proven_def using en a(1,2) p'(2,3) cloud health unfolding over a(3) by auto
  then show ?thesis using en(1) a(1) by (auto simp: list_ex_iff)
qed

text \<open>C28: A binding that a refreshed pool reports healthy or degraded has an address behind it: an enabled endpoint of the pool
  has a current address of the binding's family with a healthy or degraded verdict for this very address, and an
  address that comes from a cloud is still the slot's current one and was seen by the latest scan of its instance.\<close>

theorem reported_health_backed:
  assumes "refreshPoolHealth poolId d = (d', summary)"
    and "map_of (sm_bindingStates summary) binding = Some s" and "s \<in> {Healthy, Degraded}"
  shows "list_ex (\<lambda>b. db_id b = binding \<and> db_poolId b = poolId
    \<and> list_ex (\<lambda>e. list_ex (backs d poolId binding (binding_family (db_recordType b)) e) (tb_endpointAddresses d)) (tb_endpoints d))
    (tb_domainBindings d)"
proof -
  let ?input = "poolHealthInput d poolId"
  from assms(1,2) have "map_of (sm_bindingStates (projectPoolHealth ?input)) binding = Some s"
    by (auto simp: refreshPoolHealth_def Let_def summaries_of)
  from binding_states [OF this] obtain b where b: "b \<in> set (tb_domainBindings d)" "db_id b = binding" "db_poolId b = poolId"
    and s: "s = bindingState ?input binding (db_recordType b)"
    by (auto simp: poolHealthInput_def Let_def)
  have "binding_in_pool d poolId binding" using b by (auto simp: binding_in_pool_def list_ex_iff)
  moreover have "\<exists>e \<in> set (enabled_endpoints ?input). \<exists>x \<in> set (candidateState ?input binding (binding_family (db_recordType b)) e).
      x \<in> {Healthy, Degraded}"
    using summarize_backed assms(3) unfolding s bindingState_def by fastforce
  ultimately have "list_ex (\<lambda>e. list_ex (backs d poolId binding (binding_family (db_recordType b)) e) (tb_endpointAddresses d)) (tb_endpoints d)"
    using candidate_backs by blast
  with b show ?thesis by (auto simp: list_ex_iff)
qed

section \<open>A pool\<close>

text \<open>The pool of the publication above, with a cloud endpoint and one binding.\<close>

definition demo_endpoint :: EndpointRow where
  "demo_endpoint = \<lparr>en_id = ''e1'', en_poolId = ''p1'', en_name = ''web1'', en_addressMode = CloudMode, en_priority = 1,
     en_lifecycle = Enabled, en_healthState = Healthy, en_consecutiveSuccesses = 3, en_consecutiveFailures = 0,
     en_lastCheckedAt = Some 900, en_stateChangedAt = 100\<rparr>"

definition demo_endpoint_address :: EndpointAddressRow where
  "demo_endpoint_address = \<lparr>ea_id = ''ea1'', ea_endpointId = ''e1'', ea_family = V4, ea_address = ''192.0.2.1'', ea_state = CurrentAddress,
     ea_source = CloudMode, ea_healthState = Healthy, ea_consecutiveSuccesses = 3, ea_consecutiveFailures = 0,
     ea_lastCheckedAt = Some 900, ea_observedAt = 100, ea_promotedAt = Some 100, ea_replacedAt = None\<rparr>"

definition demo_binding :: DomainBindingRow where
  "demo_binding = \<lparr>db_id = ''b1'', db_poolId = ''p1'', db_zoneId = ''zone'', db_fqdn = ''www.example.com'', db_recordType = ''A'', db_ttl = 60,
     db_providerMetadata = [], db_originalEndpointId = None, db_desiredRevision = 1, db_state = BindingHealthy\<rparr>"

definition demo_pool_database :: Database where
  "demo_pool_database = demo_database\<lparr>tb_endpoints := [demo_endpoint], tb_endpointAddresses := [demo_endpoint_address],
     tb_domainBindings := [demo_binding]\<rparr>"

lemma demo_pool_healthy:
  "map_of (sm_bindingStates (snd (refreshPoolHealth ''p1'' demo_pool_database))) ''b1'' = Some Healthy"
  by code_simp

theorem reported_health_backed_witness:
  "list_ex (\<lambda>b. db_id b = ''b1'' \<and> list_ex (\<lambda>e. list_ex (backs demo_pool_database ''p1'' ''b1'' V4 e) (tb_endpointAddresses demo_pool_database))
     (tb_endpoints demo_pool_database)) (tb_domainBindings demo_pool_database)"
  using reported_health_backed [OF surjective_pairing demo_pool_healthy, simplified]
  by (simp add: demo_pool_database_def demo_binding_def binding_family_def)

end
