(* ===== verification/Reconcile.thy ===== *)
theory Reconcile
  imports Pool_Health Strategy Rotation_Incidents
begin

text \<open>
  The pool reconciler (\<open>apps/worker/src/automation/reconcile.processor.ts\<close>, \<open>reconcile-source.ts\<close>): one transaction that
  evaluates the pool's strategy on what the database says, records the new assignments and turns them into an
  operation with DNS steps. A thrown error is \<open>Inl\<close>: the transaction is rolled back and the job fails. The ids that the database
  generates, \<open>localeCompare\<close>, PostgreSQL's comparison of addresses and the JSON text of a decision are parameters.
\<close>

section \<open>Jobs, notifications and planned steps\<close>

record PoolReconcileJob =
  rj_poolId :: string
  rj_eventId :: string
  rj_decisionRevision :: "int option"
  rj_policyRevision :: "int option"
  rj_trigger :: Trigger
  rj_source :: "OperationSource option"
  rj_endpointId :: "string option"
  rj_force :: "bool option"

definition forced :: "PoolReconcileJob \<Rightarrow> bool" where
  "forced job = (rj_force job = Some True)"

record NotificationEvent =
  nf_eventId :: string
  nf_eventType :: string
  nf_ownerUserId :: string
  nf_poolId :: string
  nf_occurredAt :: int
  nf_summary :: string
  nf_poolName :: string
  nf_endpointId :: "string option"
  nf_decision :: StrategyDecision

record PendingStep =
  pn_providerAccountId :: string
  pn_zoneId :: string
  pn_dnsRecordId :: "string option"
  pn_action :: OperationAction
  pn_input :: StepInput

record ReconcileOutcome =
  oc_operationId :: "string option"
  oc_notifications :: "NotificationEvent list"

record ReconcileEnv =
  rn_now :: int
  rn_localeCompare :: "string \<Rightarrow> string \<Rightarrow> int"
  rn_physicalKey :: physical_key
  rn_sameInet :: "string \<Rightarrow> string \<Rightarrow> bool"
  rn_operationId :: string
  rn_stepId :: "nat \<Rightarrow> string"
  rn_decisionJson :: "StrategyDecision \<Rightarrow> json"

definition isInitialCloudVerification :: "HealthState \<Rightarrow> bool \<Rightarrow> bool \<Rightarrow> bool" where
  "isInitialCloudVerification healthState hasAppliedAssignment hasUnpublishedCloudAddress =
    (healthState = Unknown \<and> \<not> hasAppliedAssignment \<and> hasUnpublishedCloudAddress)"

definition reconcileOperationSource :: "PoolReconcileJob \<Rightarrow> OperationSource" where
  "reconcileOperationSource job = (case rj_source job of Some s \<Rightarrow> s
   | None \<Rightarrow> if rj_trigger job = RecoveryTrigger then RecoverySource
      else if rj_trigger job = FailureTrigger then FailoverSource else UserSource)"

fun trigger_text :: "Trigger \<Rightarrow> string" where
  "trigger_text FailureTrigger = ''failure''" | "trigger_text RecoveryTrigger = ''recovery''"
| "trigger_text RebalanceTrigger = ''rebalance''" | "trigger_text ConfigurationTrigger = ''configuration''"
| "trigger_text RepairTrigger = ''repair''"

fun reason_text :: "DecisionReason \<Rightarrow> string" where
  "reason_text FailureReason = ''failure''" | "reason_text RecoveryReason = ''recovery''"
| "reason_text RebalanceReason = ''rebalance''" | "reason_text NoHealthyEndpoint = ''no_healthy_endpoint''"

definition shouldPlanProviderSteps :: "DecisionReason \<Rightarrow> bool" where
  "shouldPlanProviderSteps reason = (reason \<noteq> NoHealthyEndpoint)"

definition eventEvidence :: "PoolReconcileJob \<Rightarrow> int \<Rightarrow> json" where
  "eventEvidence job policyRevision = JObj [(''eventId'', JStr (rj_eventId job)), (''trigger'', JStr (trigger_text (rj_trigger job))),
     (''source'', JStr (source_text (reconcileOperationSource job))), (''policyRevision'', JNum (num_of_int policyRevision)),
     (''decisionRevision'', case rj_decisionRevision job of Some r \<Rightarrow> JNum (num_of_int r) | None \<Rightarrow> JNull),
     (''force'', JBool (forced job))]"

definition isReconcileDecisionCurrent :: "EndpointPoolRow \<Rightarrow> PoolReconcileJob \<Rightarrow> bool" where
  "isReconcileDecisionCurrent pool job = (rj_decisionRevision job = None
     \<or> Some (ep_decisionRevision pool) = rj_decisionRevision job
       \<and> (rj_policyRevision job = None \<or> Some (ep_policyRevision pool) = rj_policyRevision job))"

definition providersReadyForReconcile :: "ResourceStatus list \<Rightarrow> bool" where
  "providersReadyForReconcile statuses = list_all (\<lambda>s. s = StatusActive) statuses"

definition reconcileEventType :: "Trigger \<Rightarrow> string" where
  "reconcileEventType trigger = (if trigger = FailureTrigger then ''endpoint.unhealthy''
     else if trigger = RecoveryTrigger then ''endpoint.recovered'' else ''pool.reconciled'')"

definition notificationEvent :: "int \<Rightarrow> EndpointPoolRow \<Rightarrow> PoolReconcileJob \<Rightarrow> StrategyDecision \<Rightarrow> string \<Rightarrow> NotificationEvent" where
  "notificationEvent now pool job decision eventType =
    \<lparr>nf_eventId = rj_eventId job, nf_eventType = eventType, nf_ownerUserId = ep_ownerUserId pool, nf_poolId = ep_id pool,
     nf_occurredAt = now,
     nf_summary = (if eventType = ''pool.no_healthy_endpoint'' \<or> eventType = ''binding.no_healthy_endpoint''
       then (if eventType = ''pool.no_healthy_endpoint'' then ''Pool '' @ ep_name pool else ''A binding in Pool '' @ ep_name pool)
         @ '' has no healthy endpoints; current DNS records were preserved.''
       else ''Pool '' @ ep_name pool @ '' processed '' @ trigger_text (rj_trigger job) @ ''.''),
     nf_poolName = ep_name pool, nf_endpointId = rj_endpointId job, nf_decision = decision\<rparr>"

section \<open>Planning\<close>

text \<open>A \<open>Map\<close> keeps the last entry of a key.\<close>

definition last_with :: "('a \<Rightarrow> bool) \<Rightarrow> 'a list \<Rightarrow> 'a option" where
  "last_with P xs = find P (rev xs)"

definition currentAddressForBinding :: "string \<Rightarrow> string \<Rightarrow> AvailableAddress list \<Rightarrow> AvailableAddress option" where
  "currentAddressForBinding endpointId recordType addresses =
    find (\<lambda>a. ea_endpointId a = endpointId \<and> ea_family a = binding_family recordType) addresses"

definition healthForCurrentBindingAddress ::
  "string \<Rightarrow> string \<Rightarrow> string \<Rightarrow> BindingEndpointHealthRow list \<Rightarrow> AvailableAddress list \<Rightarrow> HealthState" where
  "healthForCurrentBindingAddress bindingId endpointId recordType healthRows addresses =
    (case currentAddressForBinding endpointId recordType addresses of
       None \<Rightarrow> Unknown
     | Some a \<Rightarrow> (case find (\<lambda>h. bh_domainBindingId h = bindingId \<and> bh_endpointId h = endpointId
           \<and> bh_endpointAddressId h = Some (ea_id a)) healthRows of
         Some h \<Rightarrow> bh_healthState h | None \<Rightarrow> Unknown))"

definition requiredAddress :: "AvailableAddress list \<Rightarrow> string \<Rightarrow> string \<Rightarrow> CodeError + AvailableAddress" where
  "requiredAddress addresses endpointId recordType =
    (case last_with (\<lambda>a. ea_endpointId a = endpointId \<and> ea_family a = binding_family recordType) addresses of
       Some a \<Rightarrow> Inr a
     | None \<Rightarrow> Inl (''Endpoint '' @ endpointId @ '' has no current IPv'' @ (if recordType = ''AAAA'' then ''6'' else ''4'') @ '' address''))"

definition recordInput :: "DomainBindingRow \<Rightarrow> string \<Rightarrow> DnsRecordInput" where
  "recordInput binding content = \<lparr>di_type = (if db_recordType binding = ''AAAA'' then TypeAAAA else TypeA), di_name = db_fqdn binding,
     di_content = content, di_ttl = db_ttl binding, di_priority = None, di_providerMetadata = db_providerMetadata binding\<rparr>"

text \<open>The managed metadata of a step, with the zone and the record it names.\<close>

definition step_input ::
  "string \<Rightarrow> string option \<Rightarrow> DnsRecordInput option \<Rightarrow> string \<Rightarrow> string \<Rightarrow> string \<Rightarrow> string list \<Rightarrow> AssignmentMode \<Rightarrow> StepInput" where
  "step_input zone externalId desired poolId bindingId endpointId previousEndpointIds mode =
    \<lparr>si_zoneExternalId = zone, si_recordExternalId = externalId, si_record = desired, si_management = Some Managed,
     si_poolId = Some poolId, si_bindingId = Some bindingId, si_endpointId = Some endpointId, si_assignmentMode = Some mode,
     si_previousEndpointIds = Some previousEndpointIds, si_deleteBinding = None, si_cloud = None, si_cleanupOldTtl = None\<rparr>"

definition as_remote :: "DnsRecordRow \<Rightarrow> ProviderRecord" where
  "as_remote r = \<lparr>pr_externalId = dr_externalId r, pr_zoneExternalId = dr_zoneId r, pr_type = dr_type r, pr_name = dr_name r,
     pr_content = dr_content r, pr_ttl = dr_ttl r, pr_priority = dr_priority r, pr_providerMetadata = dr_providerMetadata r\<rparr>"

definition record_of :: "DnsRecordRow list \<Rightarrow> BindingAssignmentRow option \<Rightarrow> DnsRecordRow option" where
  "record_of records assignment = Option.bind (Option.bind assignment ba_dnsRecordId) (\<lambda>i. last_with (\<lambda>r. dr_id r = i) records)"

definition live_record :: "DnsRecordRow list \<Rightarrow> BindingAssignmentRow option \<Rightarrow> DnsRecordRow option" where
  "live_record records assignment = (case record_of records assignment of
     Some r \<Rightarrow> if dr_deletedAt r = None then Some r else None | None \<Rightarrow> None)"

text \<open>A step that removes the live record of an assignment.\<close>

definition delete_step ::
  "ZoneRow \<Rightarrow> string \<Rightarrow> DomainBindingRow \<Rightarrow> string list \<Rightarrow> AssignmentMode \<Rightarrow> DnsRecordRow list \<Rightarrow> string \<Rightarrow> BindingAssignmentRow
    \<Rightarrow> PendingStep option" where
  "delete_step zone providerAccountId binding previousEndpointIds mode records poolId assignment =
    map_option (\<lambda>r. \<lparr>pn_providerAccountId = providerAccountId, pn_zoneId = zo_id zone, pn_dnsRecordId = Some (dr_id r), pn_action = ActDelete,
       pn_input = step_input (zo_externalId zone) (Some (dr_externalId r)) None poolId (db_id binding) (ba_endpointId assignment)
         previousEndpointIds mode\<rparr>) (live_record records (Some assignment))"

definition planSingleAssignment ::
  "BindingDecision \<Rightarrow> DomainBindingRow \<Rightarrow> ZoneRow \<Rightarrow> string \<Rightarrow> BindingAssignmentRow list \<Rightarrow> DnsRecordRow list \<Rightarrow> AvailableAddress list
    \<Rightarrow> string \<Rightarrow> CodeError + PendingStep list" where
  "planSingleAssignment decision binding zone providerAccountId assignments records addresses poolId =
    (case bd_desiredEndpointIds decision of
       [] \<Rightarrow> Inr []
     | endpointId # _ \<Rightarrow> if endpointId = [] then Inr [] else
         bindE (requiredAddress addresses endpointId (db_recordType binding)) (\<lambda>address.
         let applied = js_sort (\<lambda>a b. ba_assignedAt a - ba_assignedAt b)
               (filter (\<lambda>a. ba_applied a \<and> ba_dnsRecordId a \<noteq> None \<and> ba_dnsRecordId a \<noteq> Some []) assignments);
             current = (case applied of a # _ \<Rightarrow> Some a | [] \<Rightarrow> None);
             desired = recordInput binding (ea_address address);
             input = (\<lambda>externalId. step_input (zo_externalId zone) externalId (Some desired) poolId (db_id binding) endpointId
               (bd_previousEndpointIds decision) SingleAssignment);
             first = (case live_record records current of
               Some r \<Rightarrow> if \<not> dnsRecordMatches (as_remote r) desired \<or> map_option ba_endpointId current \<noteq> Some endpointId
                 then [\<lparr>pn_providerAccountId = providerAccountId, pn_zoneId = zo_id zone, pn_dnsRecordId = Some (dr_id r),
                        pn_action = ActUpdate, pn_input = input (Some (dr_externalId r))\<rparr>]
                 else []
             | None \<Rightarrow> [\<lparr>pn_providerAccountId = providerAccountId, pn_zoneId = zo_id zone, pn_dnsRecordId = None,
                        pn_action = ActCreate, pn_input = input None\<rparr>])
         in Inr (first @ List.map_filter (delete_step zone providerAccountId binding (bd_previousEndpointIds decision) SingleAssignment
              records poolId) (tl applied))))"

definition planHealthyMember ::
  "BindingDecision \<Rightarrow> DomainBindingRow \<Rightarrow> ZoneRow \<Rightarrow> string \<Rightarrow> BindingAssignmentRow list \<Rightarrow> DnsRecordRow list \<Rightarrow> AvailableAddress list
    \<Rightarrow> string \<Rightarrow> string \<Rightarrow> CodeError + PendingStep list" where
  "planHealthyMember decision binding zone providerAccountId assignments records addresses poolId endpointId =
    bindE (requiredAddress addresses endpointId (db_recordType binding)) (\<lambda>address.
    let assignment = find (\<lambda>a. ba_endpointId a = endpointId) assignments;
        currentRecord = record_of records assignment;
        desired = recordInput binding (ea_address address);
        live = (case currentRecord of Some r \<Rightarrow> dr_deletedAt r = None | None \<Rightarrow> False)
    in Inr (if live \<and> (case currentRecord of Some r \<Rightarrow> dnsRecordMatches (as_remote r) desired | None \<Rightarrow> False)
           \<and> (case assignment of Some a \<Rightarrow> ba_applied a | None \<Rightarrow> False)
         then []
         else [\<lparr>pn_providerAccountId = providerAccountId, pn_zoneId = zo_id zone, pn_dnsRecordId = map_option dr_id currentRecord,
                pn_action = (if live then ActUpdate else ActCreate),
                pn_input = step_input (zo_externalId zone) (map_option dr_externalId currentRecord) (Some desired) poolId (db_id binding)
                  endpointId (bd_previousEndpointIds decision) SetAssignment\<rparr>]))"

definition planHealthySet ::
  "BindingDecision \<Rightarrow> DomainBindingRow \<Rightarrow> ZoneRow \<Rightarrow> string \<Rightarrow> BindingAssignmentRow list \<Rightarrow> DnsRecordRow list \<Rightarrow> AvailableAddress list
    \<Rightarrow> string \<Rightarrow> CodeError + PendingStep list" where
  "planHealthySet decision binding zone providerAccountId assignments records addresses poolId =
    (let desired = js_set (bd_desiredEndpointIds decision) in
     bindE (mapE (planHealthyMember decision binding zone providerAccountId assignments records addresses poolId) desired) (\<lambda>steps.
     Inr (concat steps @ List.map_filter (delete_step zone providerAccountId binding (bd_previousEndpointIds decision) SetAssignment
        records poolId) (filter (\<lambda>a. ba_applied a \<and> ba_endpointId a \<notin> set desired) assignments))))"

section \<open>What the transaction reads\<close>

record ReconcileRows =
  rw_pool :: EndpointPoolRow
  rw_linkedSlots :: "CloudEndpointLinkRow list"
  rw_contexts :: "string \<rightharpoonup> RotationContext"
  rw_endpoints :: "EndpointRow list"
  rw_bindings :: "DomainBindingRow list"
  rw_assignments :: "BindingAssignmentRow list"
  rw_addresses :: "AvailableAddress list"
  rw_bindingHealth :: "BindingEndpointHealthRow list"
  rw_overrides :: "string list"
  rw_manualAddresses :: "(string \<times> Family) list"

text \<open>A publication that its user terminated blocks the address version it published.\<close>

definition blockedAddress ::
  "CloudTables \<Rightarrow> CloudEndpointLinkRow list \<Rightarrow> (string \<rightharpoonup> RotationContext) \<Rightarrow> string \<Rightarrow> Family \<Rightarrow> bool" where
  "blockedAddress t linkedSlots contexts endpointId family = list_ex (\<lambda>l. cl_endpointId l = endpointId \<and> cl_family l = family
     \<and> list_ex (\<lambda>p. pb_slotId p = cl_slotId l \<and> pb_errorCode p = Some ''manual_terminated''
         \<and> map_option (\<lambda>c. ms_currentVersion (cx_slot c)) (contexts (cl_slotId l)) = Some (pb_addressVersion p)) (ct_publications t)) linkedSlots"

definition readAddress ::
  "Database \<Rightarrow> CloudEndpointLinkRow list \<Rightarrow> (string \<rightharpoonup> RotationContext) \<Rightarrow> EndpointAddressRow \<Rightarrow> AvailableAddress" where
  "readAddress d linkedSlots contexts row =
    (let address = withPoolAddressAvailability row linkedSlots (getCloudTargetsForSlots (tb_cloud d) (map cl_slotId linkedSlots)) in
     if ea_source address = CloudMode \<and> blockedAddress (tb_cloud d) linkedSlots contexts (ea_endpointId address) (ea_family address)
     then address\<lparr>ea_available := False, ea_healthState := Unknown\<rparr> else address)"

definition has_manual_context :: "RotationPublicationRow \<Rightarrow> bool" where
  "has_manual_context p = (case pb_context p of Some ctx \<Rightarrow> \<not> falsy (json_get ctx ''manualIncidentId'') | None \<Rightarrow> False)"

definition publication_at :: "CloudTables \<Rightarrow> RotationContext \<Rightarrow> RotationPublicationRow option" where
  "publication_at t c = select_one (\<lambda>p. pb_slotId p = ms_id (cx_slot c) \<and> pb_addressVersion p = cx_addressVersion c) (ct_publications t)"

text \<open>A link whose pending manual publication, promoted for this pool, is still authorized.\<close>

definition manualEligible ::
  "int \<Rightarrow> Database \<Rightarrow> PoolReconcileJob \<Rightarrow> string \<Rightarrow> (string \<rightharpoonup> RotationContext) \<Rightarrow> AvailableAddress list \<Rightarrow> CloudEndpointLinkRow \<Rightarrow> bool" where
  "manualEligible now d job poolId contexts addresses l = (case contexts (cl_slotId l) of
     None \<Rightarrow> False
   | Some c \<Rightarrow> ms_candidateAddressId (cx_slot c) = None
       \<and> list_ex (\<lambda>a. ea_endpointId a = cl_endpointId l \<and> ea_family a = cl_family l
            \<and> map_option cd_address (cx_address c) = Some (ea_address a)) addresses
       \<and> rj_decisionRevision job \<noteq> None
       \<and> (case publication_at (tb_cloud d) c of
            None \<Rightarrow> False
          | Some p \<Rightarrow> pb_promotedAt p \<noteq> None \<and> has_manual_context p \<and> pb_status p \<noteq> PbApplied
              \<and> list_ex (\<lambda>child. pc_poolId child = poolId) (pb_children p)
              \<and> (case assertPublicationContext now d c (Some p) of
                   Inl _ \<Rightarrow> False
                 | Inr e \<Rightarrow> (case pe_manualIncidentId e of Some i \<Rightarrow> i \<noteq> [] | None \<Rightarrow> False))))"

definition readRows ::
  "int \<Rightarrow> Database \<Rightarrow> PoolReconcileJob \<Rightarrow> EndpointPoolRow \<Rightarrow> CloudEndpointLinkRow list \<Rightarrow> (string \<rightharpoonup> RotationContext) \<Rightarrow> ReconcileRows" where
  "readRows now d job pool linkedSlots contexts =
    (let poolId = ep_id pool;
         addresses = map (readAddress d linkedSlots contexts)
           (filter (\<lambda>a. in_pool d poolId (ea_endpointId a) \<and> ea_state a = CurrentAddress) (tb_endpointAddresses d));
         poolBindings = filter (\<lambda>b. db_poolId b = poolId) (tb_domainBindings d);
         deleting = getDeletingBindingIds d (map db_id poolBindings)
     in \<lparr>rw_pool = pool, rw_linkedSlots = linkedSlots, rw_contexts = contexts,
         rw_endpoints = filter (\<lambda>e. en_poolId e = poolId) (tb_endpoints d),
         rw_bindings = filter (\<lambda>b. db_id b \<notin> set deleting) poolBindings,
         rw_assignments = filter (\<lambda>a. binding_in_pool d poolId (ba_domainBindingId a) \<and> ba_domainBindingId a \<notin> set deleting)
           (tb_bindingAssignments d),
         rw_addresses = addresses,
         rw_bindingHealth = filter (\<lambda>h. binding_in_pool d poolId (bh_domainBindingId h)) (tb_bindingEndpointHealth d),
         rw_overrides = override_bindings d poolId,
         rw_manualAddresses = map (\<lambda>l. (cl_endpointId l, cl_family l))
           (filter (manualEligible now d job poolId contexts addresses) linkedSlots)\<rparr>)"

section \<open>The strategy's input\<close>

definition strategyEndpoint :: "ReconcileRows \<Rightarrow> PoolReconcileJob \<Rightarrow> EndpointRow \<Rightarrow> StrategyEndpoint" where
  "strategyEndpoint rows job e = \<lparr>se_id = en_id e, se_priority = en_priority e, se_lifecycle = en_lifecycle e,
     se_healthState = (if (forced job \<or> (en_id e, V4) \<in> set (rw_manualAddresses rows)) \<and> en_lifecycle e = Enabled
       then Healthy else en_healthState e),
     se_activeBindingCount = int (length (filter (\<lambda>a. ba_endpointId a = en_id e \<and> ba_applied a) (rw_assignments rows))),
     se_addressFamilies = Some (map ea_family (filter (\<lambda>a. ea_endpointId a = en_id e) (rw_addresses rows)))\<rparr>"

definition endpointHealthForBinding :: "ReconcileRows \<Rightarrow> PoolReconcileJob \<Rightarrow> DomainBindingRow \<Rightarrow> EndpointRow \<Rightarrow> HealthState" where
  "endpointHealthForBinding rows job b e =
    (let address = currentAddressForBinding (en_id e) (db_recordType b) (rw_addresses rows) in
     if (case address of Some a \<Rightarrow> \<not> ea_available a | None \<Rightarrow> False) then Unknown
     else if (forced job \<or> (en_id e, binding_family (db_recordType b)) \<in> set (rw_manualAddresses rows)) \<and> en_lifecycle e = Enabled then Healthy
     else if db_id b \<in> set (rw_overrides rows)
       then healthForCurrentBindingAddress (db_id b) (en_id e) (db_recordType b) (rw_bindingHealth rows) (rw_addresses rows)
     else (case address of Some a \<Rightarrow> ea_healthState a | None \<Rightarrow> Unknown))"

definition appliedEndpoints :: "ReconcileRows \<Rightarrow> string \<Rightarrow> string list" where
  "appliedEndpoints rows bindingId =
    map ba_endpointId (filter (\<lambda>a. ba_domainBindingId a = bindingId \<and> ba_applied a) (rw_assignments rows))"

definition strategyBinding :: "ReconcileRows \<Rightarrow> PoolReconcileJob \<Rightarrow> DomainBindingRow \<Rightarrow> StrategyBinding" where
  "strategyBinding rows job b = \<lparr>sb_id = db_id b,
     sb_originalEndpointId = (if db_originalEndpointId b = Some [] then None else db_originalEndpointId b),
     sb_currentEndpointIds = appliedEndpoints rows (db_id b),
     sb_endpointHealthStates = Some (map_of (rev (map (\<lambda>e. (en_id e, endpointHealthForBinding rows job b e)) (rw_endpoints rows)))),
     sb_requiredAddressFamily = Some (binding_family (db_recordType b))\<rparr>"

definition strategyContext :: "ReconcileRows \<Rightarrow> PoolReconcileJob \<Rightarrow> StrategyContext" where
  "strategyContext rows job = (let pool = rw_pool rows in
    \<lparr>sc_eventId = rj_eventId job, sc_trigger = rj_trigger job, sc_strategy = ep_strategy pool, sc_selectionMode = ep_selectionMode pool,
     sc_recoveryMode = ep_recoveryMode pool, sc_endpoints = map (strategyEndpoint rows job) (rw_endpoints rows),
     sc_bindings = map (strategyBinding rows job) (rw_bindings rows),
     sc_roundRobinCursor = (if ep_roundRobinCursor pool = Some [] then None else ep_roundRobinCursor pool),
     sc_roundRobinCursors = Some (ep_roundRobinCursors pool)\<rparr>)"

definition healthInput :: "ReconcileRows \<Rightarrow> PoolHealthInput" where
  "healthInput rows = \<lparr>phi_endpoints = map (\<lambda>e. \<lparr>pe_id = en_id e, pe_lifecycle = en_lifecycle e,
       pe_addressFamilies = Some (map cl_family (filter (\<lambda>l. cl_endpointId l = en_id e) (rw_linkedSlots rows)))\<rparr>) (rw_endpoints rows),
     phi_addresses = map pool_address (rw_addresses rows),
     phi_bindings = map (\<lambda>b. (db_id b, db_recordType b)) (rw_bindings rows),
     phi_bindingHealth = rw_bindingHealth rows, phi_overrideBindingIds = rw_overrides rows\<rparr>"

section \<open>What it writes\<close>

definition add_event :: "ReconcileRows \<Rightarrow> PoolReconcileJob \<Rightarrow> string option \<Rightarrow> string \<Rightarrow> StrategyDecision \<Rightarrow> Database \<Rightarrow> Database" where
  "add_event rows job operationId eventType decision d = d\<lparr>tb_failoverEvents := tb_failoverEvents d @
     [\<lparr>fe_poolId = ep_id (rw_pool rows), fe_endpointId = rj_endpointId job, fe_operationId = operationId, fe_eventType = eventType,
       fe_evidence = eventEvidence job (ep_policyRevision (rw_pool rows)), fe_decision = decision\<rparr>]\<rparr>"

definition set_pool :: "string \<Rightarrow> (EndpointPoolRow \<Rightarrow> EndpointPoolRow) \<Rightarrow> Database \<Rightarrow> Database" where
  "set_pool poolId f d = d\<lparr>tb_endpointPools := update_where (\<lambda>p. ep_id p = poolId) f (tb_endpointPools d)\<rparr>"

text \<open>Bindings that lost their last healthy endpoint, apart from those that still wait for their first verification.\<close>

definition verificationFailures :: "ReconcileRows \<Rightarrow> PoolHealthSummary \<Rightarrow> StrategyDecision \<Rightarrow> BindingDecision list" where
  "verificationFailures rows summary decision = filter (\<lambda>item. bd_reason item = NoHealthyEndpoint
     \<and> \<not> isInitialCloudVerification
         (case map_of (sm_bindingStates summary) (bd_bindingId item) of Some s \<Rightarrow> s | None \<Rightarrow> Unknown)
         (list_ex (\<lambda>a. ba_domainBindingId a = bd_bindingId item \<and> ba_applied a) (rw_assignments rows))
         (list_ex (\<lambda>l. cl_family l = (case find (\<lambda>b. db_id b = bd_bindingId item) (rw_bindings rows) of
               Some b \<Rightarrow> binding_family (db_recordType b) | None \<Rightarrow> V4)
            \<and> \<not> list_ex (\<lambda>a. ea_endpointId a = cl_endpointId l \<and> ea_family a = cl_family l) (rw_addresses rows)) (rw_linkedSlots rows)))
    (sd_decisions decision)"

definition noHealthyEvent ::
  "int \<Rightarrow> ReconcileRows \<Rightarrow> PoolReconcileJob \<Rightarrow> PoolHealthSummary \<Rightarrow> StrategyDecision \<Rightarrow> Database \<Rightarrow> Database \<times> NotificationEvent list" where
  "noHealthyEvent now rows job summary decision d =
    (if \<not> sd_noHealthyEndpoints decision then (d, [])
     else (let failures = verificationFailures rows summary decision;
               entirePool = (rw_bindings rows \<noteq> [] \<and> length failures = length (rw_bindings rows));
               eventType = (if failures = [] then ''pool.awaiting_verification''
                 else if entirePool then ''pool.no_healthy_endpoint'' else ''binding.no_healthy_endpoint'')
           in (add_event rows job None eventType decision d,
               if failures \<noteq> [] then [notificationEvent now (rw_pool rows) job decision eventType] else [])))"

definition planning_bindings :: "StrategyDecision \<Rightarrow> string list" where
  "planning_bindings decision = map bd_bindingId (filter (\<lambda>item. shouldPlanProviderSteps (bd_reason item)) (sd_decisions decision))"

definition zoneRows :: "Database \<Rightarrow> ReconcileRows \<Rightarrow> StrategyDecision \<Rightarrow> (ZoneRow \<times> ProviderAccountRow) list" where
  "zoneRows d rows decision = (let ids = planning_bindings decision in if ids = [] then [] else
     List.map_filter (\<lambda>z. if list_ex (\<lambda>b. db_id b \<in> set ids \<and> db_zoneId b = zo_id z) (rw_bindings rows)
       then map_option (\<lambda>a. (z, a)) (select_one (\<lambda>a. pa_id a = zo_providerAccountId z) (tb_providerAccounts d)) else None) (tb_zones d))"

text \<open>The upsert of a desired assignment, keyed by binding and endpoint.\<close>

definition upsertAssignment ::
  "int \<Rightarrow> BindingAssignmentRow list \<Rightarrow> string \<Rightarrow> DecisionReason \<Rightarrow> string \<Rightarrow> BindingAssignmentRow list \<Rightarrow> BindingAssignmentRow list" where
  "upsertAssignment now existing bindingId reason endpointId t =
    (if list_ex (\<lambda>a. ba_domainBindingId a = bindingId \<and> ba_endpointId a = endpointId) t
     then update_where (\<lambda>a. ba_domainBindingId a = bindingId \<and> ba_endpointId a = endpointId)
       (\<lambda>a. a\<lparr>ba_desired := True, ba_reason := reason_text reason\<rparr>) t
     else t @ [\<lparr>ba_domainBindingId = bindingId, ba_endpointId = endpointId, ba_dnsRecordId = None, ba_desired = True,
       ba_applied = list_ex (\<lambda>a. ba_endpointId a = endpointId \<and> ba_applied a) existing, ba_reason = reason_text reason,
       ba_assignedAt = now\<rparr>])"

definition applyDecision ::
  "int \<Rightarrow> ReconcileRows \<Rightarrow> (ZoneRow \<times> ProviderAccountRow) list \<Rightarrow> DnsRecordRow list \<Rightarrow> Database \<times> PendingStep list \<Rightarrow> BindingDecision
    \<Rightarrow> CodeError + Database \<times> PendingStep list" where
  "applyDecision now rows zones records = (\<lambda>(d, pending) item. (case last_with (\<lambda>b. db_id b = bd_bindingId item) (rw_bindings rows) of
     None \<Rightarrow> Inr (d, pending)
   | Some binding \<Rightarrow>
      (let existing = filter (\<lambda>a. ba_domainBindingId a = db_id binding) (rw_assignments rows);
           t0 = update_where (\<lambda>a. ba_domainBindingId a = db_id binding) (\<lambda>a. a\<lparr>ba_desired := False\<rparr>) (tb_bindingAssignments d);
           t1 = foldl (\<lambda>t e. upsertAssignment now existing (db_id binding) (bd_reason item) e t) t0 (bd_desiredEndpointIds item);
           d1 = d\<lparr>tb_bindingAssignments := t1\<rparr>;
           plan = (if \<not> shouldPlanProviderSteps (bd_reason item) then Inr []
             else (case last_with (\<lambda>(z, a). zo_id z = db_zoneId binding) zones of
               None \<Rightarrow> Inl (''Zone '' @ db_zoneId binding @ '' is unavailable for Pool reconcile'')
             | Some (zone, account) \<Rightarrow>
                 (if ep_strategy (rw_pool rows) = HealthySet then planHealthySet else planSingleAssignment)
                   item binding zone (pa_id account) existing records (rw_addresses rows) (ep_id (rw_pool rows))))
       in bindE plan (\<lambda>steps. let pending' = pending @ steps in
          Inr (d1\<lparr>tb_domainBindings := update_where (\<lambda>b. db_id b = db_id binding) (\<lambda>b. b\<lparr>db_state :=
                 (if bd_reason item = NoHealthyEndpoint then BindingFailed
                  else if list_ex (\<lambda>s. si_bindingId (pn_input s) = Some (db_id binding)) pending' then BindingSwitching else BindingHealthy),
                 db_desiredRevision := ep_policyRevision (rw_pool rows)\<rparr>) (tb_domainBindings d1)\<rparr>, pending')))))"

section \<open>Steps that publish a cloud address\<close>

definition cloudReference :: "RotationContext \<Rightarrow> CloudAddressRow \<Rightarrow> RotationPublicationRow \<Rightarrow> (string \<times> json) list \<Rightarrow> json" where
  "cloudReference c address publication evidence = JObj ([(''publicationId'', JStr (pb_id publication)), (''slotId'', JStr (ms_id (cx_slot c))),
     (''addressId'', JStr (cd_id address)), (''addressVersion'', JNum (num_of_int (cx_addressVersion c))),
     (''authorizationRevision'', case cx_authorization c of Some a \<Rightarrow> JNum (num_of_int (ia_revision a)) | None \<Rightarrow> JUndefined),
     (''physicalKey'', JStr (cx_physicalKey c))] @ evidence)"

definition publishCloud :: "int \<Rightarrow> Database \<Rightarrow> RotationContext \<Rightarrow> DnsRecordInput \<Rightarrow> CodeError + json" where
  "publishCloud now d c desired = (case cx_address c of
     None \<Rightarrow> Inl ''cloud_address_not_verified''
   | Some address \<Rightarrow>
       if ms_candidateAddressId (cx_slot c) \<noteq> None \<or> cd_address address \<noteq> di_content desired then Inl ''cloud_address_not_verified''
       else (case publication_at (tb_cloud d) c of
         None \<Rightarrow> Inl ''cloud_publication_missing''
       | Some p \<Rightarrow> bindE (assertPublicationContext now d c
             (if has_manual_context p \<or> pb_status p \<noteq> PbApplied then Some p else None)) (\<lambda>h.
           bindE (publicationEvidence h) (\<lambda>evidence. Inr (cloudReference c address p evidence)))))"

definition attachCloud :: "int \<Rightarrow> Database \<Rightarrow> ReconcileRows \<Rightarrow> PendingStep \<Rightarrow> CodeError + PendingStep" where
  "attachCloud now d rows s = (case (pn_action s = ActDelete, si_record (pn_input s)) of
     (False, Some desired) \<Rightarrow>
       (case find (\<lambda>e. Some (en_id e) = si_endpointId (pn_input s)) (rw_endpoints rows) of
          None \<Rightarrow> Inr s
        | Some endpoint \<Rightarrow>
            if en_addressMode endpoint \<noteq> CloudMode then Inr s
            else (let family = record_family (pn_input s) in
              case select_one (\<lambda>l. cl_endpointId l = en_id endpoint \<and> cl_family l = family) (ct_links (tb_cloud d)) of
                None \<Rightarrow> if list_ex (\<lambda>a. ea_endpointId a = en_id endpoint \<and> ea_family a = family \<and> ea_source a = StaticMode
                      \<and> ea_address a = di_content desired) (rw_addresses rows)
                    then Inr s else Inl ''cloud_endpoint_link_missing''
              | Some l \<Rightarrow> (case rw_contexts rows (cl_slotId l) of
                  None \<Rightarrow> Inl ''cloud_endpoint_links_changed''
                | Some c \<Rightarrow> bindE (publishCloud now d c desired) (\<lambda>reference.
                    Inr (s\<lparr>pn_input := (pn_input s)\<lparr>si_cloud := Some reference\<rparr>\<rparr>)))))
   | _ \<Rightarrow> Inr s)"

section \<open>The transaction\<close>

definition idempotencyKey :: "EndpointPoolRow \<Rightarrow> PoolReconcileJob \<Rightarrow> string" where
  "idempotencyKey pool job = ''pool:'' @ ep_id pool @ '':revision:'' @ int_text (ep_policyRevision pool) @ '':event:'' @ rj_eventId job"

definition operation_row :: "ReconcileEnv \<Rightarrow> EndpointPoolRow \<Rightarrow> PoolReconcileJob \<Rightarrow> StrategyDecision \<Rightarrow> OperationRow" where
  "operation_row env pool job decision = \<lparr>op_id = rn_operationId env, op_ownerUserId = ep_ownerUserId pool, op_actorUserId = None,
     op_source = reconcileOperationSource job, op_idempotencyKey = idempotencyKey pool job, op_resourceType = ''endpoint_pool'',
     op_resourceId = Some (ep_id pool), op_policyRevision = Some (ep_policyRevision pool), op_decisionRevision = rj_decisionRevision job,
     op_status = OpPending, op_beforeSnapshot = JNull, op_desiredSnapshot = rn_decisionJson env decision, op_errorCode = None,
     op_startedAt = None, op_finishedAt = None\<rparr>"

definition step_row :: "ReconcileEnv \<Rightarrow> nat \<Rightarrow> PendingStep \<Rightarrow> OperationStepRow" where
  "step_row env i s = \<lparr>os_id = rn_stepId env i, os_operationId = rn_operationId env, os_sequence = int i + 1,
     os_providerAccountId = pn_providerAccountId s, os_zoneId = pn_zoneId s, os_dnsRecordId = pn_dnsRecordId s, os_action = pn_action s,
     os_status = StPending, os_input = Some (pn_input s), os_remoteSnapshot = None, os_attempts = 0, os_nextRetryAt = None,
     os_errorCode = None, os_errorDetail = None, os_remoteRequestId = None, os_startedAt = None, os_finishedAt = None\<rparr>"

definition address_deleting :: "ReconcileEnv \<Rightarrow> Database \<Rightarrow> PendingStep \<Rightarrow> bool" where
  "address_deleting env d s = (pn_action s \<noteq> ActDelete \<and> (case si_record (pn_input s) of
     Some r \<Rightarrow> di_type r \<in> {TypeA, TypeAAAA} \<and> instanceLifecycleAddressDeleting (rn_sameInet env) (tb_cloud d) (di_content r)
   | None \<Rightarrow> False))"

definition insertOperation ::
  "ReconcileEnv \<Rightarrow> ReconcileRows \<Rightarrow> PoolReconcileJob \<Rightarrow> StrategyDecision \<Rightarrow> PendingStep list \<Rightarrow> Database \<Rightarrow> CodeError + Database" where
  "insertOperation env rows job decision steps d =
    (let d1 = d\<lparr>tb_operations := tb_operations d @ [operation_row env (rw_pool rows) job decision]\<rparr> in
     bindE (guardE (\<not> list_ex (address_deleting env d1) steps) ''instance_lifecycle_busy'') (\<lambda>_.
     let d2 = d1\<lparr>tb_operationSteps := tb_operationSteps d1 @ map (\<lambda>(i, s). step_row env i s) (enumerate 0 steps)\<rparr>;
         d3 = add_event rows job (Some (rn_operationId env)) (''pool.'' @ trigger_text (rj_trigger job)) decision d2
     in Inr (set_pool (ep_id (rw_pool rows)) (\<lambda>p. p\<lparr>ep_lastReconciledAt := Some (rn_now env)\<rparr>) d3)))"

definition noChange ::
  "ReconcileEnv \<Rightarrow> ReconcileRows \<Rightarrow> PoolReconcileJob \<Rightarrow> StrategyDecision \<Rightarrow> NotificationEvent list \<Rightarrow> Database
    \<Rightarrow> Database \<times> ReconcileOutcome" where
  "noChange env rows job decision queued d =
    (add_event rows job None ''pool.reconcile_no_change'' decision
       (set_pool (ep_id (rw_pool rows)) (\<lambda>p. p\<lparr>ep_lastReconciledAt := Some (rn_now env)\<rparr>) d),
     \<lparr>oc_operationId = None, oc_notifications = queued @
        (if queued = [] \<and> (rj_trigger job = FailureTrigger \<or> rj_trigger job = RecoveryTrigger)
         then [notificationEvent (rn_now env) (rw_pool rows) job decision (reconcileEventType (rj_trigger job))] else [])\<rparr>)"

definition decided :: "ReconcileEnv \<Rightarrow> ReconcileRows \<Rightarrow> PoolReconcileJob \<Rightarrow> StrategyDecision" where
  "decided env rows job = evaluateStrategy (rn_localeCompare env) (strategyContext rows job)"

definition planDecisions ::
  "ReconcileEnv \<Rightarrow> ReconcileRows \<Rightarrow> StrategyDecision \<Rightarrow> Database \<Rightarrow> CodeError + Database \<times> PendingStep list" where
  "planDecisions env rows decision d = (let zones = zoneRows d rows decision;
       recordIds = List.map_filter ba_dnsRecordId (rw_assignments rows);
       records = filter (\<lambda>r. dr_id r \<in> set recordIds) (tb_dnsRecords d) in
     bindE (guardE (providersReadyForReconcile (map (\<lambda>(z, a). pa_status a) zones))
       ''A DNS provider account is unavailable; reconcile intent remains pending'') (\<lambda>_.
     bindE (foldE (applyDecision (rn_now env) rows zones records) (d, []) (sd_decisions decision)) (\<lambda>(d1, pending).
     Inr (case sd_nextRoundRobinCursors decision of
            Some m \<Rightarrow> set_pool (ep_id (rw_pool rows)) (\<lambda>p. p\<lparr>ep_roundRobinCursors := m\<rparr>) d1 | None \<Rightarrow> d1, pending))))"

definition reconcilePool ::
  "ReconcileEnv \<Rightarrow> ReconcileRows \<Rightarrow> PoolReconcileJob \<Rightarrow> Database \<Rightarrow> CodeError + Database \<times> ReconcileOutcome" where
  "reconcilePool env rows job d = (let pool = rw_pool rows; decision = decided env rows job in
     if \<not> ep_enabled pool
     then Inr (add_event rows job None ''pool.reconcile_paused'' decision d,
       \<lparr>oc_operationId = None, oc_notifications = [notificationEvent (rn_now env) pool job decision ''pool.automation_paused'']\<rparr>)
     else (let summary = projectPoolHealth (healthInput rows);
               d1 = set_pool (ep_id pool) (\<lambda>p. p\<lparr>ep_state := sm_state summary\<rparr>) d;
               (d2, queued) = noHealthyEvent (rn_now env) rows job summary decision d1 in
       bindE (planDecisions env rows decision d2) (\<lambda>(d3, pending).
       if pending = [] then Inr (noChange env rows job decision queued d3)
       else bindE (mapE (attachCloud (rn_now env) d3 rows) pending) (\<lambda>steps.
         bindE (insertOperation env rows job decision steps d3) (\<lambda>d4.
         Inr (d4, \<lparr>oc_operationId = Some (rn_operationId env), oc_notifications = (if queued \<noteq> [] then queued
           else [notificationEvent (rn_now env) pool job decision (reconcileEventType (rj_trigger job))])\<rparr>))))))"

text \<open>A fenced job consumes its intent; the flag tells whether the job goes on.\<close>

definition claimIntent :: "int \<Rightarrow> EndpointPoolRow \<Rightarrow> PoolReconcileJob \<Rightarrow> Database \<Rightarrow> Database \<times> bool" where
  "claimIntent now pool job d = (case rj_decisionRevision job of
     None \<Rightarrow> (d, True)
   | Some revision \<Rightarrow>
      (case select_one (\<lambda>i. ri_eventId i = rj_eventId job \<and> ri_poolId i = ep_id pool \<and> ri_decisionRevision i = revision) (tb_reconcileIntents d) of
         None \<Rightarrow> (d, False)
       | Some intent \<Rightarrow> if ri_completedAt intent \<noteq> None then (d, False)
           else (d\<lparr>tb_reconcileIntents := update_where (\<lambda>i. ri_id i = ri_id intent) (\<lambda>i. i\<lparr>ri_completedAt := Some now\<rparr>) (tb_reconcileIntents d)\<rparr>,
                 isReconcileDecisionCurrent pool job)))"

definition pool_links :: "Database \<Rightarrow> string \<Rightarrow> CloudEndpointLinkRow list" where
  "pool_links d poolId = filter (\<lambda>l. in_pool d poolId (cl_endpointId l)) (ct_links (tb_cloud d))"

definition reconcile :: "ReconcileEnv \<Rightarrow> PoolReconcileJob \<Rightarrow> Database \<Rightarrow> CodeError + Database \<times> ReconcileOutcome option" where
  "reconcile env job d = (let linkedSlots = pool_links d (rj_poolId job) in
     bindE (lockRotationContexts (rn_physicalKey env) (tb_cloud d) (map cl_slotId linkedSlots)) (\<lambda>contexts.
     case select_one (\<lambda>p. ep_id p = rj_poolId job) (tb_endpointPools d) of
       None \<Rightarrow> Inr (d, None)
     | Some pool \<Rightarrow> (case claimIntent (rn_now env) pool job d of
         (d1, False) \<Rightarrow> Inr (d1, None)
       | (d1, True) \<Rightarrow> (case select_one (\<lambda>o'. op_idempotencyKey o' = idempotencyKey pool job) (tb_operations d1) of
           Some o' \<Rightarrow> Inr (d1, Some \<lparr>oc_operationId = Some (op_id o'), oc_notifications = []\<rparr>)
         | None \<Rightarrow> bindE (reconcilePool env (readRows (rn_now env) d1 job pool linkedSlots contexts) job d1) (\<lambda>(d2, outcome).
             Inr (d2, Some outcome))))))"

text \<open>What is queued once the transaction has committed, each with the id that makes its delivery unique.\<close>

datatype QueuedJob = ExecuteOperation string | FanoutEvent string NotificationEvent

definition queuedJobs :: "ReconcileOutcome option \<Rightarrow> QueuedJob list" where
  "queuedJobs outcome = (case outcome of None \<Rightarrow> []
   | Some out \<Rightarrow> (case oc_operationId out of Some i \<Rightarrow> if i = [] then [] else [ExecuteOperation i] | None \<Rightarrow> [])
       @ map (\<lambda>n. FanoutEvent (''fanout-'' @ nf_eventId n @ ''-'' @ nf_eventType n) n) (oc_notifications out))"

section \<open>What a reconciliation leaves alone\<close>

definition pool_key :: "EndpointPoolRow \<Rightarrow> string \<times> string \<times> int \<times> int" where
  "pool_key p = (ep_id p, ep_ownerUserId p, ep_policyRevision p, ep_decisionRevision p)"

text \<open>Everything but the assignments, the bindings' states, the events and the pools' own progress.\<close>

definition untouched :: "Database \<Rightarrow> Database \<Rightarrow> bool" where
  "untouched d d' = (tb_cloud d' = tb_cloud d \<and> tb_endpoints d' = tb_endpoints d \<and> tb_endpointAddresses d' = tb_endpointAddresses d
     \<and> tb_healthCheckConfigs d' = tb_healthCheckConfigs d \<and> tb_dnsRecords d' = tb_dnsRecords d \<and> tb_zones d' = tb_zones d
     \<and> tb_providerAccounts d' = tb_providerAccounts d \<and> tb_reconcileIntents d' = tb_reconcileIntents d
     \<and> map pool_key (tb_endpointPools d') = map pool_key (tb_endpointPools d))"

definition no_operation :: "Database \<Rightarrow> Database \<Rightarrow> bool" where
  "no_operation d d' = (untouched d d' \<and> tb_operations d' = tb_operations d \<and> tb_operationSteps d' = tb_operationSteps d)"

lemma no_operation_refl [simp]: "no_operation d d"
  by (simp add: no_operation_def untouched_def)

lemma no_operation_trans [trans]: "no_operation a b \<Longrightarrow> no_operation b c \<Longrightarrow> no_operation a c"
  by (simp add: no_operation_def untouched_def)

lemma set_pool_no_operation: "(\<And>p. pool_key (f p) = pool_key p) \<Longrightarrow> no_operation d (set_pool i f d)"
  by (simp add: no_operation_def untouched_def set_pool_def map_update_where)

lemma set_pool_keys [simp]:
  "no_operation d (set_pool i (\<lambda>p. p\<lparr>ep_state := s\<rparr>) d)"
  "no_operation d (set_pool i (\<lambda>p. p\<lparr>ep_lastReconciledAt := t\<rparr>) d)"
  "no_operation d (set_pool i (\<lambda>p. p\<lparr>ep_roundRobinCursors := m\<rparr>) d)"
  by (rule set_pool_no_operation, simp add: pool_key_def)+

lemma add_event_no_operation [simp]: "no_operation d (add_event rows job i t decision d)"
  by (simp add: no_operation_def untouched_def add_event_def)

lemma noHealthyEvent_no_operation: "noHealthyEvent now rows job summary decision d = (d', queued) \<Longrightarrow> no_operation d d'"
  by (auto simp: noHealthyEvent_def Let_def split: if_splits)

lemma applyDecision_no_operation:
  "applyDecision now rows zones records (d, pending) item = Inr (d', pending') \<Longrightarrow> no_operation d d'"
  by (auto simp: applyDecision_def Let_def bindE_eq_Inr no_operation_def untouched_def split: option.splits)

lemma applyDecisions_no_operation:
  "foldE (applyDecision now rows zones records) (d, pending) items = Inr (d', pending') \<Longrightarrow> no_operation d d'"
proof (induction items arbitrary: d pending)
  case (Cons item items)
  then obtain d1 p1 where "applyDecision now rows zones records (d, pending) item = Inr (d1, p1)"
    "foldE (applyDecision now rows zones records) (d1, p1) items = Inr (d', pending')"
    by (auto simp: bindE_eq_Inr)
  with Cons.IH show ?case by (blast intro: applyDecision_no_operation no_operation_trans)
qed simp

lemma planDecisions_no_operation: "planDecisions env rows decision d = Inr (d', pending) \<Longrightarrow> no_operation d d'"
  by (auto simp: planDecisions_def Let_def bindE_eq_Inr split: option.splits
      dest!: applyDecisions_no_operation elim!: no_operation_trans)

lemma insertOperation_Inr:
  assumes "insertOperation env rows job decision steps d = Inr d'"
  shows "untouched d d'" "tb_operations d' = tb_operations d @ [operation_row env (rw_pool rows) job decision]"
    "tb_operationSteps d' = tb_operationSteps d @ map (\<lambda>(i, s). step_row env i s) (enumerate 0 steps)"
    "\<not> list_ex (address_deleting env d) steps"
proof -
  have same: "address_deleting env (d\<lparr>tb_operations := x\<rparr>) = address_deleting env d" for x
    by (rule ext) (simp add: address_deleting_def split: option.splits)
  have key: "map pool_key (update_where P (\<lambda>p. p\<lparr>ep_lastReconciledAt := x\<rparr>) t) = map pool_key t" for P x t
    by (rule map_update_where) (simp add: pool_key_def)
  from assms have d': "d' = set_pool (ep_id (rw_pool rows)) (\<lambda>p. p\<lparr>ep_lastReconciledAt := Some (rn_now env)\<rparr>)
      (add_event rows job (Some (rn_operationId env)) (''pool.'' @ trigger_text (rj_trigger job)) decision
        (d\<lparr>tb_operations := tb_operations d @ [operation_row env (rw_pool rows) job decision],
           tb_operationSteps := tb_operationSteps d @ map (\<lambda>(i, s). step_row env i s) (enumerate 0 steps)\<rparr>))"
    and "\<not> list_ex (address_deleting env d) steps"
    by (simp_all add: insertOperation_def Let_def bindE_eq_Inr guardE_eq_Inr same)
  then show "untouched d d'" "tb_operations d' = tb_operations d @ [operation_row env (rw_pool rows) job decision]"
    "tb_operationSteps d' = tb_operationSteps d @ map (\<lambda>(i, s). step_row env i s) (enumerate 0 steps)"
    "\<not> list_ex (address_deleting env d) steps"
    by (simp_all add: d' add_event_def set_pool_def untouched_def key)
qed

lemma address_deleting_untouched: "untouched d d' \<Longrightarrow> address_deleting env d' = address_deleting env d"
  by (rule ext) (simp add: address_deleting_def untouched_def split: option.splits)

lemma untouched_trans: "untouched a b \<Longrightarrow> untouched b c \<Longrightarrow> untouched a c"
  by (simp add: untouched_def)

text \<open>The two ways a pool's reconciliation can end.\<close>

lemma reconcilePool_Inr:
  assumes "reconcilePool env rows job d = Inr (d', out)"
  obtains (quiet) "no_operation d d'" "oc_operationId out = None"
  | (planned) d2 d3 pending steps where "no_operation d d2" "ep_enabled (rw_pool rows)"
      "planDecisions env rows (decided env rows job) d2 = Inr (d3, pending)" "pending \<noteq> []"
      "mapE (attachCloud (rn_now env) d3 rows) pending = Inr steps" "untouched d d'"
      "tb_operations d' = tb_operations d @ [operation_row env (rw_pool rows) job (decided env rows job)]"
      "tb_operationSteps d' = tb_operationSteps d @ map (\<lambda>(i, s). step_row env i s) (enumerate 0 steps)"
      "oc_operationId out = Some (rn_operationId env)" "\<not> list_ex (address_deleting env d) steps"
proof (cases "ep_enabled (rw_pool rows)")
  case False
  with assms have "no_operation d d'" "oc_operationId out = None" by (auto simp: reconcilePool_def Let_def)
  then show thesis by (rule quiet)
next
  case True
  let ?summary = "projectPoolHealth (healthInput rows)" and ?decision = "decided env rows job"
  let ?d1 = "set_pool (ep_id (rw_pool rows)) (\<lambda>p. p\<lparr>ep_state := sm_state ?summary\<rparr>) d"
  obtain d2 queued where ev: "noHealthyEvent (rn_now env) rows job ?summary ?decision ?d1 = (d2, queued)" by fastforce
  have d2: "no_operation d d2" using noHealthyEvent_no_operation [OF ev] by (rule no_operation_trans [rotated]) simp
  from assms True ev obtain d3 pending where plan: "planDecisions env rows ?decision d2 = Inr (d3, pending)"
    and fin: "(if pending = [] then Inr (noChange env rows job ?decision queued d3)
      else bindE (mapE (attachCloud (rn_now env) d3 rows) pending) (\<lambda>steps.
        bindE (insertOperation env rows job ?decision steps d3) (\<lambda>d4.
        Inr (d4, \<lparr>oc_operationId = Some (rn_operationId env), oc_notifications = (if queued \<noteq> [] then queued
           else [notificationEvent (rn_now env) (rw_pool rows) job ?decision (reconcileEventType (rj_trigger job))])\<rparr>)))) = Inr (d', out)"
    by (auto simp: reconcilePool_def Let_def bindE_eq_Inr)
  have d3: "no_operation d d3" using d2 planDecisions_no_operation [OF plan] by (rule no_operation_trans)
  show thesis
  proof (cases "pending = []")
    case True
    let ?p = "set_pool (ep_id (rw_pool rows)) (\<lambda>p. p\<lparr>ep_lastReconciledAt := Some (rn_now env)\<rparr>) d3"
    from True fin have "noChange env rows job ?decision queued d3 = (d', out)" by simp
    then have d': "d' = add_event rows job None ''pool.reconcile_no_change'' ?decision ?p" and out: "oc_operationId out = None"
      by (auto simp: noChange_def)
    have "no_operation d ?p" using d3 by (rule no_operation_trans) simp
    then have "no_operation d d'" unfolding d' by (rule no_operation_trans) simp
    then show thesis using out by (rule quiet)
  next
    case False
    with fin obtain steps where steps: "mapE (attachCloud (rn_now env) d3 rows) pending = Inr steps"
      and ins: "insertOperation env rows job ?decision steps d3 = Inr d'" and out: "oc_operationId out = Some (rn_operationId env)"
      by (auto simp: bindE_eq_Inr)
    have "untouched d d3" using d3 by (simp add: no_operation_def)
    then have "untouched d d'" "address_deleting env d3 = address_deleting env d"
      by (rule untouched_trans [OF _ insertOperation_Inr(1) [OF ins]], simp add: address_deleting_untouched)
    moreover have "tb_operations d3 = tb_operations d" "tb_operationSteps d3 = tb_operationSteps d"
      using d3 by (simp_all add: no_operation_def)
    note insertOperation_Inr(2-4) [OF ins, unfolded this calculation(2)]
    ultimately show thesis using planned [OF d2 \<open>ep_enabled (rw_pool rows)\<close> plan False steps] out by blast
  qed
qed

section \<open>Once per event\<close>

lemma select_pool_key:
  assumes "map pool_key t' = map pool_key t" and "select_one (\<lambda>p. ep_id p = i) t = Some p"
  obtains q where "select_one (\<lambda>p. ep_id p = i) t' = Some q" "pool_key q = pool_key p"
proof -
  have "rel_option (\<lambda>a b. pool_key a = pool_key b) (select_one (\<lambda>p. ep_id p = i) t') (select_one (\<lambda>p. ep_id p = i) t)"
    using assms(1) by (induction t' arbitrary: t) (auto simp: select_one_def pool_key_def Cons_eq_map_conv)
  with assms(2) that show ?thesis by (auto simp: option_rel_Some2)
qed

lemma idempotencyKey_pool_key: "pool_key p = pool_key q \<Longrightarrow> idempotencyKey p job = idempotencyKey q job"
  by (simp add: idempotencyKey_def pool_key_def)

lemma claimIntent_frame:
  "claimIntent now pool job d = (d1, b) \<Longrightarrow> \<exists>t. d1 = d\<lparr>tb_reconcileIntents := t\<rparr>"
  by (auto simp: claimIntent_def split: option.splits if_splits intro: exI [of _ "tb_reconcileIntents d"])

lemma reconcile_Inr:
  assumes "reconcile env job d = Inr (d', outcome)"
  obtains contexts where "lockRotationContexts (rn_physicalKey env) (tb_cloud d) (map cl_slotId (pool_links d (rj_poolId job))) = Inr contexts"
    and "outcome = None \<and> (d' = d \<or> (\<exists>pool. claimIntent (rn_now env) pool job d = (d', False)))
      \<or> (\<exists>pool d1 out. select_one (\<lambda>p. ep_id p = rj_poolId job) (tb_endpointPools d) = Some pool
           \<and> claimIntent (rn_now env) pool job d = (d1, True) \<and> outcome = Some out
           \<and> ((\<exists>o'. select_one (\<lambda>o'. op_idempotencyKey o' = idempotencyKey pool job) (tb_operations d) = Some o' \<and> d' = d1
                 \<and> out = \<lparr>oc_operationId = Some (op_id o'), oc_notifications = []\<rparr>)
             \<or> select_one (\<lambda>o'. op_idempotencyKey o' = idempotencyKey pool job) (tb_operations d) = None
                 \<and> reconcilePool env (readRows (rn_now env) d1 job pool (pool_links d (rj_poolId job)) contexts) job d1 = Inr (d', out)))"
proof -
  from assms obtain contexts where c:
    "lockRotationContexts (rn_physicalKey env) (tb_cloud d) (map cl_slotId (pool_links d (rj_poolId job))) = Inr contexts"
    by (auto simp: reconcile_def Let_def bindE_eq_Inr)
  show thesis
  proof (cases "select_one (\<lambda>p. ep_id p = rj_poolId job) (tb_endpointPools d)")
    case None
    with assms c that show ?thesis by (auto simp: reconcile_def)
  next
    case (Some pool)
    obtain d1 b where claim: "claimIntent (rn_now env) pool job d = (d1, b)" by fastforce
    then have "tb_operations d1 = tb_operations d" by (auto dest: claimIntent_frame)
    with assms c claim Some show ?thesis
      by (intro that [OF c]) (cases b; auto simp: reconcile_def bindE_eq_Inr split: option.splits)
  qed
qed

text \<open>What a second delivery of the same job finds.\<close>

lemma reconcile_again:
  assumes claim: "claimIntent now pool job d = (d1, True)"
    and contexts: "lockRotationContexts (rn_physicalKey env) (tb_cloud d) (map cl_slotId (pool_links d (rj_poolId job))) = Inr contexts"
    and pool: "select_one (\<lambda>p. ep_id p = rj_poolId job) (tb_endpointPools d) = Some pool"
    and kept: "untouched d1 d'"
    and found: "select_one (\<lambda>o'. op_idempotencyKey o' = idempotencyKey pool job) (tb_operations d') = Some o'"
  shows "reconcile env job d' = Inr (d', if rj_decisionRevision job = None
    then Some \<lparr>oc_operationId = Some (op_id o'), oc_notifications = []\<rparr> else None)"
proof -
  from claimIntent_frame [OF claim] obtain t where d1: "d1 = d\<lparr>tb_reconcileIntents := t\<rparr>" by blast
  from kept d1 have same: "tb_cloud d' = tb_cloud d" "tb_endpoints d' = tb_endpoints d" "tb_reconcileIntents d' = tb_reconcileIntents d1"
    and keys: "map pool_key (tb_endpointPools d') = map pool_key (tb_endpointPools d)"
    by (simp_all add: untouched_def)
  from select_pool_key [OF keys pool] obtain q where
    q: "select_one (\<lambda>p. ep_id p = rj_poolId job) (tb_endpointPools d') = Some q" "pool_key q = pool_key pool" by blast
  have links: "pool_links d' (rj_poolId job) = pool_links d (rj_poolId job)"
    using same by (simp add: pool_links_def in_pool_def)
  have again: "claimIntent (rn_now env) q job d' = (d', rj_decisionRevision job = None)"
  proof (cases "rj_decisionRevision job")
    case (Some revision)
    let ?P = "\<lambda>i. ri_eventId i = rj_eventId job \<and> ri_poolId i = ep_id pool \<and> ri_decisionRevision i = revision"
    from claim Some obtain intent where intent: "select_one ?P (tb_reconcileIntents d) = Some intent"
      and t: "tb_reconcileIntents d1 = update_where (\<lambda>i. ri_id i = ri_id intent) (\<lambda>i. i\<lparr>ri_completedAt := Some now\<rparr>) (tb_reconcileIntents d)"
      by (auto simp: claimIntent_def split: option.splits if_splits)
    have "select_one ?P (tb_reconcileIntents d1) = Some (intent\<lparr>ri_completedAt := Some now\<rparr>)"
      unfolding t by (subst select_one_updated) (simp_all add: intent)
    moreover have "ep_id q = ep_id pool" using q(2) by (simp add: pool_key_def)
    ultimately show ?thesis using Some same(3) by (simp add: claimIntent_def)
  qed (simp add: claimIntent_def)
  show ?thesis
    using contexts q(1) found idempotencyKey_pool_key [OF q(2), of job]
    by (cases "rj_decisionRevision job") (simp_all add: reconcile_def links same(1) again)
qed

text \<open>C29: A reconcile job acts at most once. Once a delivery of it has named an operation, another delivery, at any later
  time and before anything else has changed, changes nothing: it names the same operation again or, if the job is
  fenced by an intent, finds the intent completed.\<close>

theorem reconcile_once:
  assumes "reconcile env job d = Inr (d', Some out)" and "oc_operationId out = Some i"
    and "rn_physicalKey env2 = rn_physicalKey env"
  shows "reconcile env2 job d' = Inr (d', if rj_decisionRevision job = None
    then Some \<lparr>oc_operationId = Some i, oc_notifications = []\<rparr> else None)"
proof (rule reconcile_Inr [OF assms(1)], goal_cases)
  case (1 contexts)
  then obtain pool d1 where pool: "select_one (\<lambda>p. ep_id p = rj_poolId job) (tb_endpointPools d) = Some pool"
    and claim: "claimIntent (rn_now env) pool job d = (d1, True)"
    and how: "(\<exists>o'. select_one (\<lambda>o'. op_idempotencyKey o' = idempotencyKey pool job) (tb_operations d) = Some o' \<and> d' = d1 \<and> op_id o' = i)
      \<or> select_one (\<lambda>o'. op_idempotencyKey o' = idempotencyKey pool job) (tb_operations d) = None
        \<and> reconcilePool env (readRows (rn_now env) d1 job pool (pool_links d (rj_poolId job)) contexts) job d1 = Inr (d', out)"
    using assms(2) by fastforce
  from claimIntent_frame [OF claim] have ops: "tb_operations d1 = tb_operations d" by auto
  from how have "\<exists>o'. untouched d1 d' \<and> select_one (\<lambda>o'. op_idempotencyKey o' = idempotencyKey pool job) (tb_operations d') = Some o' \<and> op_id o' = i"
  proof
    assume new: "select_one (\<lambda>o'. op_idempotencyKey o' = idempotencyKey pool job) (tb_operations d) = None
        \<and> reconcilePool env (readRows (rn_now env) d1 job pool (pool_links d (rj_poolId job)) contexts) job d1 = Inr (d', out)"
    then have r: "reconcilePool env (readRows (rn_now env) d1 job pool (pool_links d (rj_poolId job)) contexts) job d1 = Inr (d', out)" ..
    from r show ?thesis
    proof (cases rule: reconcilePool_Inr)
      case quiet
      with assms(2) show ?thesis by simp
    next
      case (planned d2 d3 pending steps)
      with new assms(2) ops show ?thesis
        by (auto simp: select_one_snoc operation_row_def readRows_def Let_def)
    qed
  qed (auto simp: ops untouched_def)
  then obtain o' where "untouched d1 d'" "select_one (\<lambda>o'. op_idempotencyKey o' = idempotencyKey pool job) (tb_operations d') = Some o'" "op_id o' = i"
    by blast
  with reconcile_again [OF claim _ pool this(1,2), of env2] 1(1) assms(3) show ?case by simp
qed

section \<open>What the planned steps publish\<close>

text \<open>A step belongs to a binding whose decision names healthy endpoints; one that writes a record writes the current address that
  the rows hold for one of them.\<close>

definition publishes :: "ReconcileRows \<Rightarrow> BindingDecision list \<Rightarrow> PendingStep \<Rightarrow> bool" where
  "publishes rows items s = list_ex (\<lambda>item. bd_reason item \<noteq> NoHealthyEndpoint
     \<and> list_ex (\<lambda>b. db_id b = bd_bindingId item \<and> si_bindingId (pn_input s) = Some (db_id b)
        \<and> (pn_action s = ActDelete \<or> list_ex (\<lambda>a. ea_endpointId a \<in> set (bd_desiredEndpointIds item)
            \<and> ea_family a = binding_family (db_recordType b) \<and> si_endpointId (pn_input s) = Some (ea_endpointId a)
            \<and> si_record (pn_input s) = Some (recordInput b (ea_address a))) (rw_addresses rows))) (rw_bindings rows)) items"

lemma publishesI:
  assumes "item \<in> set items" "bd_reason item \<noteq> NoHealthyEndpoint" "b \<in> set (rw_bindings rows)" "db_id b = bd_bindingId item"
    "si_bindingId (pn_input s) = Some (db_id b)"
    "pn_action s = ActDelete \<or> a \<in> set (rw_addresses rows) \<and> ea_endpointId a \<in> set (bd_desiredEndpointIds item)
      \<and> ea_family a = binding_family (db_recordType b) \<and> si_endpointId (pn_input s) = Some (ea_endpointId a)
      \<and> si_record (pn_input s) = Some (recordInput b (ea_address a))"
  shows "publishes rows items s"
  unfolding publishes_def list_ex_iff using assms by blast

lemma step_input_fields [simp]:
  "si_record (step_input z x r p b e prev mode) = r" "si_bindingId (step_input z x r p b e prev mode) = Some b"
  "si_endpointId (step_input z x r p b e prev mode) = Some e"
  by (simp_all add: step_input_def)

lemma delete_step_action:
  "delete_step zone account b prev mode records poolId a = Some s \<Longrightarrow> pn_action s = ActDelete \<and> si_bindingId (pn_input s) = Some (db_id b)"
  by (auto simp: delete_step_def)

lemma requiredAddress_Inr:
  "requiredAddress addresses e recordType = Inr a \<Longrightarrow> a \<in> set addresses \<and> ea_endpointId a = e \<and> ea_family a = binding_family recordType"
  by (auto simp: requiredAddress_def last_with_def split: option.splits dest!: select_one_Some [unfolded select_one_def])

lemma planSingleAssignment_publishes:
  assumes plan: "planSingleAssignment item b zone account existing records (rw_addresses rows) poolId = Inr steps" and s: "s \<in> set steps"
    and item: "item \<in> set items" "bd_reason item \<noteq> NoHealthyEndpoint" "b \<in> set (rw_bindings rows)" "db_id b = bd_bindingId item"
  shows "publishes rows items s"
proof -
  from plan s obtain e es where e: "bd_desiredEndpointIds item = e # es" "e \<noteq> []"
    by (auto simp: planSingleAssignment_def split: list.splits if_splits)
  from plan e obtain a where a: "requiredAddress (rw_addresses rows) e (db_recordType b) = Inr a"
    by (auto simp: planSingleAssignment_def bindE_eq_Inr)
  from plan s e a have "si_bindingId (pn_input s) = Some (db_id b) \<and> (pn_action s = ActDelete \<or> si_endpointId (pn_input s) = Some e
      \<and> si_record (pn_input s) = Some (recordInput b (ea_address a)))"
    by (auto simp: planSingleAssignment_def Let_def in_map_filter dest: delete_step_action split: option.splits if_splits)
  with requiredAddress_Inr [OF a] e item show ?thesis by (intro publishesI [of item _ b _ _ a]) auto
qed

lemma planHealthySet_publishes:
  assumes plan: "planHealthySet item b zone account existing records (rw_addresses rows) poolId = Inr steps" and s: "s \<in> set steps"
    and item: "item \<in> set items" "bd_reason item \<noteq> NoHealthyEndpoint" "b \<in> set (rw_bindings rows)" "db_id b = bd_bindingId item"
  shows "publishes rows items s"
proof -
  from plan obtain members deletes where m:
    "mapE (planHealthyMember item b zone account existing records (rw_addresses rows) poolId) (js_set (bd_desiredEndpointIds item)) = Inr members"
    and st: "steps = concat members @ List.map_filter (delete_step zone account b (bd_previousEndpointIds item) SetAssignment records poolId) deletes"
    by (auto simp: planHealthySet_def Let_def bindE_eq_Inr)
  from s st consider ms where "ms \<in> set members" "s \<in> set ms"
    | "pn_action s = ActDelete" "si_bindingId (pn_input s) = Some (db_id b)"
    by (auto simp: in_map_filter dest: delete_step_action)
  then show ?thesis
  proof cases
    case 1
    from m 1(1) obtain e where "e \<in> set (js_set (bd_desiredEndpointIds item))"
      and e: "planHealthyMember item b zone account existing records (rw_addresses rows) poolId e = Inr ms"
      using mapE_member by metis
    then have "e \<in> set (bd_desiredEndpointIds item)" by (simp add: js_set_def)
    moreover from e obtain a where a: "requiredAddress (rw_addresses rows) e (db_recordType b) = Inr a"
      by (auto simp: planHealthyMember_def bindE_eq_Inr)
    moreover from e a 1(2) have "si_endpointId (pn_input s) = Some e" "si_bindingId (pn_input s) = Some (db_id b)"
        "si_record (pn_input s) = Some (recordInput b (ea_address a))"
      by (auto simp: planHealthyMember_def Let_def split: if_splits)
    ultimately show ?thesis using requiredAddress_Inr [OF a] item by (intro publishesI [of item _ b _ _ a]) auto
  qed (use item in \<open>auto intro: publishesI\<close>)
qed

lemma applyDecision_publishes:
  assumes "applyDecision now rows zones records (d, pending) item = Inr (d', pending')"
    and "item \<in> set items" and "list_all (publishes rows items) pending"
  shows "list_all (publishes rows items) pending'"
proof (cases "last_with (\<lambda>b. db_id b = bd_bindingId item) (rw_bindings rows)")
  case (Some b)
  then have b: "b \<in> set (rw_bindings rows)" "db_id b = bd_bindingId item"
    by (auto simp: last_with_def dest!: select_one_Some [unfolded select_one_def])
  from assms(1) Some obtain steps where steps: "pending' = pending @ steps" and plan: "steps = [] \<or> bd_reason item \<noteq> NoHealthyEndpoint
      \<and> (\<exists>zone account existing. planHealthySet item b zone account existing records (rw_addresses rows) (ep_id (rw_pool rows)) = Inr steps
         \<or> planSingleAssignment item b zone account existing records (rw_addresses rows) (ep_id (rw_pool rows)) = Inr steps)"
    by (fastforce simp: applyDecision_def Let_def bindE_eq_Inr shouldPlanProviderSteps_def split: if_splits option.splits)
  have "list_all (publishes rows items) steps"
    using plan planHealthySet_publishes [OF _ _ assms(2) _ b] planSingleAssignment_publishes [OF _ _ assms(2) _ b]
    unfolding list_all_iff by fastforce
  then show ?thesis using assms(3) steps by simp
qed (use assms in \<open>simp add: applyDecision_def\<close>)

lemma applyDecisions_publish:
  "foldE (applyDecision now rows zones records) (d, pending) todo = Inr (d', pending') \<Longrightarrow> set todo \<subseteq> set items
    \<Longrightarrow> list_all (publishes rows items) pending \<Longrightarrow> list_all (publishes rows items) pending'"
proof (induction todo arbitrary: d pending)
  case (Cons item todo)
  then obtain d1 p1 where 1: "applyDecision now rows zones records (d, pending) item = Inr (d1, p1)"
    and "foldE (applyDecision now rows zones records) (d1, p1) todo = Inr (d', pending')"
    by (auto simp: bindE_eq_Inr)
  with Cons applyDecision_publishes [OF 1] show ?case by simp
qed simp

lemma planDecisions_publish:
  assumes "planDecisions env rows decision d = Inr (d', pending)"
  shows "list_all (publishes rows (sd_decisions decision)) pending"
  using assms by (auto simp: planDecisions_def Let_def bindE_eq_Inr intro: applyDecisions_publish)

lemma attachCloud_Inr:
  "attachCloud now d rows s = Inr s' \<Longrightarrow> s' = s \<or> (\<exists>reference. s' = s\<lparr>pn_input := (pn_input s)\<lparr>si_cloud := Some reference\<rparr>\<rparr>)"
  by (auto simp: attachCloud_def Let_def bindE_eq_Inr split: prod.splits option.splits if_splits bool.splits)

lemma attachCloud_publishes:
  assumes "attachCloud now d rows s = Inr s'" and "publishes rows items s"
  shows "publishes rows items s'"
  using attachCloud_Inr [OF assms(1)] assms(2) by (elim disjE exE) (simp_all add: publishes_def)

section \<open>Every published address can serve\<close>

definition terminated_version :: "CloudTables \<Rightarrow> CloudEndpointLinkRow \<Rightarrow> bool" where
  "terminated_version t l = list_ex (\<lambda>p. pb_slotId p = cl_slotId l \<and> pb_errorCode p = Some ''manual_terminated''
     \<and> map_option ms_currentVersion (select_one (\<lambda>s. ms_id s = cl_slotId l) (ct_slots t)) = Some (pb_addressVersion p)) (ct_publications t)"

text \<open>A pending manual publication that was promoted for the pool.\<close>

definition manual_publication :: "CloudTables \<Rightarrow> string \<Rightarrow> string \<Rightarrow> Family \<Rightarrow> bool" where
  "manual_publication t poolId e family = list_ex (\<lambda>l. cl_endpointId l = e \<and> cl_family l = family
     \<and> list_ex (\<lambda>p. pb_slotId p = cl_slotId l \<and> pb_promotedAt p \<noteq> None \<and> has_manual_context p \<and> pb_status p \<noteq> PbApplied
         \<and> list_ex (\<lambda>child. pc_poolId child = poolId) (pb_children p)) (ct_publications t)) (ct_links t)"

definition may_publish :: "Database \<Rightarrow> PoolReconcileJob \<Rightarrow> DomainBindingRow \<Rightarrow> EndpointRow \<Rightarrow> EndpointAddressRow \<Rightarrow> bool" where
  "may_publish d job b e a = (serving d (rj_poolId job) (binding_family (db_recordType b)) e a
     \<and> (ea_source a = CloudMode \<longrightarrow> \<not> list_ex (\<lambda>l. cl_endpointId l = en_id e \<and> cl_family l = ea_family a \<and> terminated_version (tb_cloud d) l)
          (ct_links (tb_cloud d)))
     \<and> (proven d (db_id b) e a \<or> forced job \<or> manual_publication (tb_cloud d) (rj_poolId job) (en_id e) (ea_family a)))"

text \<open>The primary keys and the unique index of current addresses.\<close>

definition keys_ok :: "Database \<Rightarrow> bool" where
  "keys_ok d = (distinct (map en_id (tb_endpoints d)) \<and> distinct (map db_id (tb_domainBindings d))
     \<and> distinct (map (\<lambda>a. (ea_endpointId a, ea_family a)) (filter (\<lambda>a. ea_state a = CurrentAddress) (tb_endpointAddresses d))))"

lemma lockRotationContexts_Inr:
  assumes "lockRotationContexts pk t ids = Inr m"
  shows "m i = Some c \<Longrightarrow> lockRotationContext pk t i = Inr c" and "i \<in> set ids \<Longrightarrow> \<exists>c. m i = Some c"
proof -
  from assms obtain cs where cs: "mapE (\<lambda>i. bindE (lockRotationContext pk t i) (\<lambda>c. Inr (i, c))) (js_sort code_unit_compare (remdups ids)) = Inr cs"
    and m: "m = map_of cs"
    by (auto simp: lockRotationContexts_def Let_def bindE_eq_Inr)
  have "map fst cs = ys \<and> (\<forall>(i, c) \<in> set cs. lockRotationContext pk t i = Inr c)"
    if "mapE (\<lambda>i. bindE (lockRotationContext pk t i) (\<lambda>c. Inr (i, c))) ys = Inr cs" for ys cs
    using that by (induction ys arbitrary: cs) (auto simp: bindE_eq_Inr)
  from this [OF cs] show "m i = Some c \<Longrightarrow> lockRotationContext pk t i = Inr c" "i \<in> set ids \<Longrightarrow> \<exists>c. m i = Some c"
    by (auto simp: m dest!: map_of_SomeD) (metis map_of_eq_None_iff not_Some_eq set_js_sort set_map set_remdups)
qed

lemma lockRotationContext_row:
  "lockRotationContext pk t i = Inr c \<Longrightarrow> select_one (\<lambda>s. ms_id s = i) (ct_slots t) = Some (cx_slot c) \<and> ms_id (cx_slot c) = i"
  by (auto simp: lockRotationContext_def Let_def dest!: select_one_Some split: option.splits)

lemma readAddress_fields [simp]:
  "ea_id (readAddress d links contexts a) = ea_id a" "ea_endpointId (readAddress d links contexts a) = ea_endpointId a"
  "ea_family (readAddress d links contexts a) = ea_family a" "ea_address (readAddress d links contexts a) = ea_address a"
  by (simp_all add: readAddress_def Let_def)

lemma readAddress_available:
  assumes "ea_available (readAddress d links contexts a)"
  shows "ea_healthState (readAddress d links contexts a) = ea_healthState a"
    and "ea_source a = CloudMode \<Longrightarrow> \<not> blockedAddress (tb_cloud d) links contexts (ea_endpointId a) (ea_family a)"
    and "ea_source a = CloudMode \<Longrightarrow> \<exists>l \<in> set links. cl_endpointId l = ea_endpointId a \<and> cl_family l = ea_family a
      \<and> observed_address (tb_cloud d) (cl_slotId l) (ea_address a)"
  using assms available_observed
  by (auto simp: readAddress_def Let_def available_health split: if_splits)

lemma readRows_fields [simp]:
  "rw_pool (readRows now d job pool links contexts) = pool" "rw_linkedSlots (readRows now d job pool links contexts) = links"
  "rw_contexts (readRows now d job pool links contexts) = contexts"
  "rw_endpoints (readRows now d job pool links contexts) = filter (\<lambda>e. en_poolId e = ep_id pool) (tb_endpoints d)"
  "rw_addresses (readRows now d job pool links contexts) = map (readAddress d links contexts)
     (filter (\<lambda>a. in_pool d (ep_id pool) (ea_endpointId a) \<and> ea_state a = CurrentAddress) (tb_endpointAddresses d))"
  "rw_overrides (readRows now d job pool links contexts) = override_bindings d (ep_id pool)"
  "rw_bindingHealth (readRows now d job pool links contexts) =
     filter (\<lambda>h. binding_in_pool d (ep_id pool) (bh_domainBindingId h)) (tb_bindingEndpointHealth d)"
  by (simp_all add: readRows_def Let_def)

lemma readRows_bindings: "b \<in> set (rw_bindings (readRows now d job pool links contexts)) \<Longrightarrow> b \<in> set (tb_domainBindings d) \<and> db_poolId b = ep_id pool"
  by (auto simp: readRows_def Let_def)

lemma readRows_address_unique:
  assumes "keys_ok d" and "rows = readRows now d job pool links contexts"
    and "a \<in> set (rw_addresses rows)" "ea_endpointId a = e" "ea_family a = binding_family recordType"
  shows "currentAddressForBinding e recordType (rw_addresses rows) = Some a"
proof -
  let ?key = "\<lambda>a. (ea_endpointId a, ea_family a)"
  let ?key' = "\<lambda>a :: AvailableAddress. (ea_endpointId a, ea_family a)"
  have "distinct (map ?key (filter (\<lambda>a. in_pool d (ep_id pool) (ea_endpointId a) \<and> ea_state a = CurrentAddress) (tb_endpointAddresses d)))"
    using assms(1) distinct_map_filter [of ?key "filter (\<lambda>a. ea_state a = CurrentAddress) (tb_endpointAddresses d)"
        "\<lambda>a. in_pool d (ep_id pool) (ea_endpointId a)"] by (simp add: keys_ok_def filter_filter conj_commute)
  then have d: "distinct (map ?key' (rw_addresses rows))" by (simp add: assms(2) comp_def)
  obtain a' where a': "currentAddressForBinding e recordType (rw_addresses rows) = Some a'"
    using assms(3-5) by (cases "currentAddressForBinding e recordType (rw_addresses rows)")
      (auto simp: currentAddressForBinding_def find_None_iff)
  then have "a' \<in> set (rw_addresses rows)" "?key' a' = ?key' a"
    using assms(4,5) by (auto simp: currentAddressForBinding_def dest!: select_one_Some [unfolded select_one_def])
  with distinct_map_eq [OF d] assms(3) a' show ?thesis by blast
qed

lemma manual_link:
  assumes contexts: "lockRotationContexts pk (tb_cloud d) (map cl_slotId links) = Inr contexts" and links: "links = pool_links d (ep_id pool)"
    and "(e, family) \<in> set (rw_manualAddresses (readRows now d job pool links contexts))"
  shows "manual_publication (tb_cloud d) (ep_id pool) e family"
proof -
  from assms(3) obtain l addresses where l: "l \<in> set links" "cl_endpointId l = e" "cl_family l = family"
    and m: "manualEligible now d job (ep_id pool) contexts addresses l"
    by (auto simp: readRows_def Let_def)
  from m obtain c p where c: "contexts (cl_slotId l) = Some c" and p: "publication_at (tb_cloud d) c = Some p"
    "pb_promotedAt p \<noteq> None" "has_manual_context p" "pb_status p \<noteq> PbApplied"
    "list_ex (\<lambda>child. pc_poolId child = ep_id pool) (pb_children p)"
    by (auto simp: manualEligible_def split: option.splits)
  have "ms_id (cx_slot c) = cl_slotId l"
    using lockRotationContexts_Inr(1) [OF contexts c] lockRotationContext_row by blast
  with p(1) have "p \<in> set (ct_publications (tb_cloud d))" "pb_slotId p = cl_slotId l"
    by (auto simp: publication_at_def dest!: select_one_Some)
  moreover have "l \<in> set (ct_links (tb_cloud d))" using l(1) by (simp add: links pool_links_def)
  ultimately show ?thesis
    using l p(2-5) by (auto simp: manual_publication_def list_ex_iff intro!: bexI [of _ l] bexI [of _ p])
qed

lemma not_terminated:
  assumes contexts: "lockRotationContexts pk (tb_cloud d) (map cl_slotId links) = Inr contexts" and links: "links = pool_links d poolId"
    and "\<not> blockedAddress (tb_cloud d) links contexts e family" and "in_pool d poolId e"
  shows "\<not> list_ex (\<lambda>l. cl_endpointId l = e \<and> cl_family l = family \<and> terminated_version (tb_cloud d) l) (ct_links (tb_cloud d))"
proof
  assume "list_ex (\<lambda>l. cl_endpointId l = e \<and> cl_family l = family \<and> terminated_version (tb_cloud d) l) (ct_links (tb_cloud d))"
  then obtain l p where l: "l \<in> set (ct_links (tb_cloud d))" "cl_endpointId l = e" "cl_family l = family"
    and p: "p \<in> set (ct_publications (tb_cloud d))" "pb_slotId p = cl_slotId l" "pb_errorCode p = Some ''manual_terminated''"
      "map_option ms_currentVersion (select_one (\<lambda>s. ms_id s = cl_slotId l) (ct_slots (tb_cloud d))) = Some (pb_addressVersion p)"
    by (auto simp: list_ex_iff terminated_version_def)
  from l assms(4) have "l \<in> set links" by (simp add: links pool_links_def)
  then obtain c where c: "contexts (cl_slotId l) = Some c" using lockRotationContexts_Inr(2) [OF contexts] by fastforce
  with p(4) lockRotationContext_row [OF lockRotationContexts_Inr(1) [OF contexts c]]
  have "map_option (\<lambda>c. ms_currentVersion (cx_slot c)) (contexts (cl_slotId l)) = Some (pb_addressVersion p)" by simp
  with assms(3) \<open>l \<in> set links\<close> l p(1-3) show False by (auto simp: blockedAddress_def list_ex_iff)
qed

lemma strategy_health:
  assumes "eligible_id (map (strategyEndpoint rows job) (rw_endpoints rows)) (strategyBinding rows job b) e"
    and "distinct (map en_id (rw_endpoints rows))"
  obtains en where "en \<in> set (rw_endpoints rows)" "en_id en = e" "en_lifecycle en = Enabled"
    "endpointHealthForBinding rows job b en \<in> {Healthy, Degraded}"
proof -
  let ?states = "map_of (rev (map (\<lambda>e. (en_id e, endpointHealthForBinding rows job b e)) (rw_endpoints rows)))"
  from assms(1) obtain en where en: "en \<in> set (rw_endpoints rows)" "en_id en = e" "en_lifecycle en = Enabled"
    and h: "isHealthyEnough (effectiveHealth (strategyBinding rows job b) (strategyEndpoint rows job en))"
    by (auto simp: eligible_id_def eligible_def list_ex_iff strategyEndpoint_def)
  have "distinct (map fst (rev (map (\<lambda>e. (en_id e, endpointHealthForBinding rows job b e)) (rw_endpoints rows))))"
    using assms(2) by (simp add: rev_map comp_def distinct_map)
  then have "?states e = Some (endpointHealthForBinding rows job b en)"
    using en(1,2) by (intro map_of_is_SomeI) auto
  then have "isHealthyEnough (endpointHealthForBinding rows job b en)"
    using h en(2) by (simp add: effectiveHealth_def strategyBinding_def strategyEndpoint_def)
  then have "endpointHealthForBinding rows job b en \<in> {Healthy, Degraded}" by (auto simp: isHealthyEnough_def)
  with en show thesis by (rule that)
qed

lemma eligible_may_publish:
  assumes keys: "keys_ok d" and contexts: "lockRotationContexts pk (tb_cloud d) (map cl_slotId links) = Inr contexts"
    and links: "links = pool_links d (ep_id pool)" and pool: "ep_id pool = rj_poolId job"
    and rows: "rows = readRows now d job pool links contexts"
    and b: "b \<in> set (rw_bindings rows)"
    and elig: "eligible_id (map (strategyEndpoint rows job) (rw_endpoints rows)) (strategyBinding rows job b) (ea_endpointId a)"
    and a: "a \<in> set (rw_addresses rows)" "ea_family a = binding_family (db_recordType b)"
  shows "list_ex (\<lambda>e. en_id e = ea_endpointId a
     \<and> list_ex (\<lambda>row. ea_address row = ea_address a \<and> may_publish d job b e row) (tb_endpointAddresses d)) (tb_endpoints d)"
proof -
  have "distinct (map en_id (rw_endpoints rows))" using keys by (simp add: rows keys_ok_def distinct_map_filter)
  from strategy_health [OF elig this] obtain en where en: "en \<in> set (rw_endpoints rows)" "en_id en = ea_endpointId a" "en_lifecycle en = Enabled"
    and health: "endpointHealthForBinding rows job b en \<in> {Healthy, Degraded}" by blast
  have cur: "currentAddressForBinding (en_id en) (db_recordType b) (rw_addresses rows) = Some a"
    using readRows_address_unique [OF keys rows a(1) _ a(2)] en(2) by simp
  from a(1) obtain row where row: "row \<in> set (tb_endpointAddresses d)" "ea_state row = CurrentAddress" "a = readAddress d links contexts row"
    by (auto simp: rows)
  have en': "en \<in> set (tb_endpoints d)" "en_poolId en = rj_poolId job" using en(1) by (auto simp: rows pool)
  then have in_pool: "in_pool d (ep_id pool) (ea_endpointId row)" using en(2) row(3) pool by (auto simp: in_pool_def list_ex_iff)
  from health cur have avail: "ea_available a" by (auto simp: endpointHealthForBinding_def Let_def split: if_splits)
  note av = readAddress_available [OF avail [unfolded row(3)]]
  have "serving d (rj_poolId job) (binding_family (db_recordType b)) en row"
    using en' en(2,3) row a(2) av(3) unfolding serving_def by (auto simp: list_ex_iff links pool_links_def)
  moreover have "\<not> list_ex (\<lambda>l. cl_endpointId l = en_id en \<and> cl_family l = ea_family row \<and> terminated_version (tb_cloud d) l) (ct_links (tb_cloud d))"
    if "ea_source row = CloudMode"
    using not_terminated [OF contexts links av(2) [OF that]] in_pool en(2) row(3) by simp
  moreover have "proven d (db_id b) en row \<or> forced job \<or> manual_publication (tb_cloud d) (rj_poolId job) (en_id en) (ea_family row)"
  proof (cases "forced job \<or> (en_id en, binding_family (db_recordType b)) \<in> set (rw_manualAddresses rows)")
    case True
    then show ?thesis using manual_link [OF contexts links] a(2) row(3) by (auto simp: rows pool)
  next
    case False
    have "binding_in_pool d (ep_id pool) (db_id b)"
      using readRows_bindings [OF b [unfolded rows]] by (auto simp: binding_in_pool_def list_ex_iff)
    with False health cur avail av(1) row(3) have "proven d (db_id b) en row"
      by (auto simp: endpointHealthForBinding_def Let_def rows override_bindings_iff proven_def healthForCurrentBindingAddress_def list_ex_iff
        split: if_splits option.splits dest!: select_one_Some [unfolded select_one_def])
    then show ?thesis ..
  qed
  ultimately have "may_publish d job b en row" by (simp add: may_publish_def)
  then show ?thesis using en'(1) en(2) row by (auto simp: list_ex_iff)
qed

text \<open>A stored step that writes a record writes an address that may be published for its binding.\<close>

definition step_backed :: "Database \<Rightarrow> PoolReconcileJob \<Rightarrow> OperationStepRow \<Rightarrow> bool" where
  "step_backed d job s = (os_action s = ActDelete \<or> (case os_input s of None \<Rightarrow> False | Some input \<Rightarrow>
     list_ex (\<lambda>b. si_bindingId input = Some (db_id b) \<and> list_ex (\<lambda>e. si_endpointId input = Some (en_id e)
       \<and> list_ex (\<lambda>a. si_record input = Some (recordInput b (ea_address a)) \<and> may_publish d job b e a) (tb_endpointAddresses d))
       (tb_endpoints d)) (filter (\<lambda>b. db_poolId b = rj_poolId job) (tb_domainBindings d))))"

lemma may_publish_intents: "may_publish (d\<lparr>tb_reconcileIntents := t\<rparr>) job b e a = may_publish d job b e a"
  by (simp add: may_publish_def serving_def proven_def)

lemma step_backed_intents: "step_backed (d\<lparr>tb_reconcileIntents := t\<rparr>) job = step_backed d job"
  by (simp add: step_backed_def fun_eq_iff may_publish_intents split: option.splits)

lemma strategyBinding_id [simp]: "sb_id (strategyBinding rows job b) = db_id b"
  by (simp add: strategyBinding_def)

text \<open>What the evaluation justified for a binding that has its own id.\<close>

lemma decision_eligible:
  assumes item: "item \<in> set (sd_decisions (decided env rows job))" "bd_reason item \<noteq> NoHealthyEndpoint"
    and b: "b \<in> set (rw_bindings rows)" "db_id b = bd_bindingId item" and distinct: "distinct (map db_id (rw_bindings rows))"
    and e: "e \<in> set (bd_desiredEndpointIds item)"
  shows "eligible_id (map (strategyEndpoint rows job) (rw_endpoints rows)) (strategyBinding rows job b) e"
proof -
  from evaluation_justified [of "strategyContext rows job" "rn_localeCompare env"] item(1)
  obtain b' where b': "b' \<in> set (rw_bindings rows)" "justified (strategyContext rows job) (strategyBinding rows job b') item"
    by (auto simp: decided_def list_all_iff list_ex_iff strategyContext_def Let_def)
  then have "db_id b' = db_id b" using b(2) by (simp add: justified_def)
  then have "b' = b" using distinct_map_eq [OF distinct b'(1) b(1)] by simp
  with b'(2) item(2) e show ?thesis by (auto simp: justified_def list_all_iff strategyContext_def Let_def)
qed

lemma desired_nonempty:
  assumes "item \<in> set (sd_decisions (decided env rows job))" "bd_reason item \<noteq> NoHealthyEndpoint"
  shows "bd_desiredEndpointIds item \<noteq> []"
  using evaluation_justified [of "strategyContext rows job" "rn_localeCompare env"] assms
  by (auto simp: decided_def list_all_iff list_ex_iff justified_def)

lemma eligible_address:
  "eligible_id (map (strategyEndpoint rows job) (rw_endpoints rows)) (strategyBinding rows job b) e
    \<Longrightarrow> \<exists>a \<in> set (rw_addresses rows). ea_endpointId a = e \<and> ea_family a = binding_family (db_recordType b)"
  by (auto simp: eligible_id_def eligible_def list_ex_iff supportsFamily_def strategyEndpoint_def strategyBinding_def)

lemma publishes_backed:
  assumes keys: "keys_ok d" and contexts: "lockRotationContexts pk (tb_cloud d) (map cl_slotId links) = Inr contexts"
    and links: "links = pool_links d (ep_id pool)" and pool: "ep_id pool = rj_poolId job"
    and rows: "rows = readRows now d job pool links contexts"
    and s: "publishes rows (sd_decisions (decided env rows job)) s"
  shows "step_backed d job (step_row env i s)"
proof (cases "pn_action s = ActDelete")
  case False
  with s obtain item b a where item: "item \<in> set (sd_decisions (decided env rows job))" "bd_reason item \<noteq> NoHealthyEndpoint"
    and b: "b \<in> set (rw_bindings rows)" "db_id b = bd_bindingId item"
    and a: "a \<in> set (rw_addresses rows)" "ea_endpointId a \<in> set (bd_desiredEndpointIds item)" "ea_family a = binding_family (db_recordType b)"
    and input: "si_endpointId (pn_input s) = Some (ea_endpointId a)" "si_bindingId (pn_input s) = Some (db_id b)"
      "si_record (pn_input s) = Some (recordInput b (ea_address a))"
    by (auto simp: publishes_def list_ex_iff)
  have "distinct (map db_id (rw_bindings rows))"
    using keys by (simp add: rows readRows_def Let_def keys_ok_def distinct_map_filter)
  from decision_eligible [OF item b this a(2)] eligible_may_publish [OF keys contexts links pool rows b(1) _ a(1,3)]
  obtain e row where "e \<in> set (tb_endpoints d)" "en_id e = ea_endpointId a" "row \<in> set (tb_endpointAddresses d)" "ea_address row = ea_address a"
    "may_publish d job b e row"
    by (auto simp: list_ex_iff)
  moreover have "b \<in> set (filter (\<lambda>b. db_poolId b = rj_poolId job) (tb_domainBindings d))"
    using readRows_bindings [OF b(1) [unfolded rows]] pool by simp
  ultimately show ?thesis using input by (auto simp: step_backed_def step_row_def list_ex_iff)
qed (simp add: step_backed_def step_row_def)

text \<open>Where a new step comes from.\<close>

lemma reconcile_new_step:
  assumes "reconcile env job d = Inr (d', outcome)" and "s \<in> set (drop (length (tb_operationSteps d)) (tb_operationSteps d'))"
  obtains t pool contexts rows i ps where
    "lockRotationContexts (rn_physicalKey env) (tb_cloud (d\<lparr>tb_reconcileIntents := t\<rparr>))
       (map cl_slotId (pool_links (d\<lparr>tb_reconcileIntents := t\<rparr>) (ep_id pool))) = Inr contexts"
    "ep_id pool = rj_poolId job"
    "rows = readRows (rn_now env) (d\<lparr>tb_reconcileIntents := t\<rparr>) job pool (pool_links (d\<lparr>tb_reconcileIntents := t\<rparr>) (ep_id pool)) contexts"
    "s = step_row env i ps" "publishes rows (sd_decisions (decided env rows job)) ps"
proof (rule reconcile_Inr [OF assms(1)], goal_cases)
  case (1 contexts)
  then consider (same) "tb_operationSteps d' = tb_operationSteps d"
    | (run) pool d1 out where "select_one (\<lambda>p. ep_id p = rj_poolId job) (tb_endpointPools d) = Some pool"
      "claimIntent (rn_now env) pool job d = (d1, True)"
      "reconcilePool env (readRows (rn_now env) d1 job pool (pool_links d (rj_poolId job)) contexts) job d1 = Inr (d', out)"
    by (auto dest: claimIntent_frame)
  then show ?case
  proof cases
    case run
    then obtain t where d1: "d1 = d\<lparr>tb_reconcileIntents := t\<rparr>" using claimIntent_frame by blast
    let ?rows = "readRows (rn_now env) d1 job pool (pool_links d (rj_poolId job)) contexts"
    have pool: "ep_id pool = rj_poolId job" using select_one_Some [OF run(1)] by simp
    have links: "pool_links d1 (ep_id pool) = pool_links d (rj_poolId job)" by (simp add: pool d1 pool_links_def in_pool_def)
    from run(3) show ?thesis
    proof (cases rule: reconcilePool_Inr)
      case quiet
      with assms(2) show ?thesis by (simp add: no_operation_def d1)
    next
      case (planned d2 d3 pending steps)
      have "list_all (publishes ?rows (sd_decisions (decided env ?rows job))) steps"
        using planDecisions_publish [OF planned(3)] attachCloud_publishes mapE_member [OF planned(5)]
        unfolding list_all_iff by blast
      moreover obtain i ps where s: "s = step_row env i ps" and "ps \<in> set steps"
        using assms(2) by (auto simp: planned(8) d1 in_set_enumerate_eq)
      ultimately have c3: "publishes ?rows (sd_decisions (decided env ?rows job)) ps" by (simp add: list_all_iff)
      have c1: "lockRotationContexts (rn_physicalKey env) (tb_cloud d1) (map cl_slotId (pool_links d1 (ep_id pool))) = Inr contexts"
        using 1(2) unfolding links by (simp add: d1)
      have c2: "?rows = readRows (rn_now env) d1 job pool (pool_links d1 (ep_id pool)) contexts" by (simp only: links)
      show ?thesis by (rule that [OF c1 [unfolded d1] pool c2 [unfolded d1] s c3 [unfolded d1]])
    qed
  qed (use assms(2) in simp)
qed


text \<open>C19: A binding that nothing can serve keeps its DNS records. When no endpoint of the pool has an address that may be
  published for a binding, a reconciliation plans no step for it at all, neither a write nor a deletion.\<close>

theorem unserved_binding_kept:
  assumes "reconcile env job d = Inr (d', outcome)" and "keys_ok d" and "b \<in> set (tb_domainBindings d)"
    and "\<not> list_ex (\<lambda>e. list_ex (may_publish d job b e) (tb_endpointAddresses d)) (tb_endpoints d)"
  shows "list_all (\<lambda>s. Option.bind (os_input s) si_bindingId \<noteq> Some (db_id b)) (drop (length (tb_operationSteps d)) (tb_operationSteps d'))"
  unfolding list_all_iff
proof
  fix s assume "s \<in> set (drop (length (tb_operationSteps d)) (tb_operationSteps d'))"
  from reconcile_new_step [OF assms(1) this] show "Option.bind (os_input s) si_bindingId \<noteq> Some (db_id b)"
  proof cases
    case (1 t pool contexts rows i ps)
    let ?d = "d\<lparr>tb_reconcileIntents := t\<rparr>"
    have keys: "keys_ok ?d" using assms(2) by (simp add: keys_ok_def)
    have distinct: "distinct (map db_id (rw_bindings rows))"
      using keys by (simp add: 1(3) readRows_def Let_def keys_ok_def distinct_map_filter)
    from 1(5) obtain item b' where item: "item \<in> set (sd_decisions (decided env rows job))" "bd_reason item \<noteq> NoHealthyEndpoint"
      and b': "b' \<in> set (rw_bindings rows)" "db_id b' = bd_bindingId item" "si_bindingId (pn_input ps) = Some (db_id b')"
      by (auto simp: publishes_def list_ex_iff)
    obtain e where e: "e \<in> set (bd_desiredEndpointIds item)"
      using hd_in_set [OF desired_nonempty [OF item(1,2)]] by blast
    note elig = decision_eligible [OF item b'(1,2) distinct e]
    from eligible_address [OF elig] obtain a where a: "a \<in> set (rw_addresses rows)" "ea_endpointId a = e"
      "ea_family a = binding_family (db_recordType b')" by blast
    from eligible_may_publish [OF keys 1(1) refl 1(2,3) b'(1) elig [folded a(2)] a(1,3)]
    have "list_ex (\<lambda>e. list_ex (may_publish d job b' e) (tb_endpointAddresses d)) (tb_endpoints d)"
      by (auto simp: list_ex_iff may_publish_intents)
    with assms(4) have "b' \<noteq> b" by blast
    moreover have "b' \<in> set (tb_domainBindings d)" using readRows_bindings [OF b'(1) [unfolded 1(3)]] by simp
    moreover have "distinct (map db_id (tb_domainBindings d))" using assms(2) by (simp add: keys_ok_def)
    ultimately have "db_id b' \<noteq> db_id b" using assms(3) distinct_map_eq by metis
    then show ?thesis by (simp add: 1(4) step_row_def b'(3))
  qed
qed

text \<open>C21: A fenced job that creates an operation spends its intent on a decision that is still the pool's: the intent was open, the
  pool still stands at the job's decision (and at its policy, if the job names one), the intent is completed in the same
  transaction, and the operation, the only one added, is one that the operation worker accepts as current.\<close>

theorem reconcile_fenced:
  assumes "reconcile env job d = Inr (d', outcome)" and "rj_decisionRevision job = Some r" and "tb_operations d' \<noteq> tb_operations d"
  shows "list_ex (\<lambda>i. ri_eventId i = rj_eventId job \<and> ri_poolId i = rj_poolId job \<and> ri_decisionRevision i = r \<and> ri_completedAt i = None)
      (tb_reconcileIntents d)
    \<and> list_ex (\<lambda>i. ri_eventId i = rj_eventId job \<and> ri_poolId i = rj_poolId job \<and> ri_decisionRevision i = r \<and> ri_completedAt i = Some (rn_now env))
      (tb_reconcileIntents d')
    \<and> list_ex (\<lambda>p. ep_id p = rj_poolId job \<and> isReconcileDecisionCurrent p job) (tb_endpointPools d)
    \<and> butlast (tb_operations d') = tb_operations d \<and> op_decisionRevision (last (tb_operations d')) = Some r
    \<and> poolDecisionCurrent d' (last (tb_operations d'))"
proof (rule reconcile_Inr [OF assms(1)], goal_cases)
  case (1 contexts)
  with assms(3) obtain pool d1 out where pool: "select_one (\<lambda>p. ep_id p = rj_poolId job) (tb_endpointPools d) = Some pool"
    and claim: "claimIntent (rn_now env) pool job d = (d1, True)"
    and run: "reconcilePool env (readRows (rn_now env) d1 job pool (pool_links d (rj_poolId job)) contexts) job d1 = Inr (d', out)"
    by (auto dest: claimIntent_frame)
  let ?P = "\<lambda>i. ri_eventId i = rj_eventId job \<and> ri_poolId i = ep_id pool \<and> ri_decisionRevision i = r"
  from claim assms(2) obtain intent where intent: "select_one ?P (tb_reconcileIntents d) = Some intent" "ri_completedAt intent = None"
    and t: "tb_reconcileIntents d1 = update_where (\<lambda>i. ri_id i = ri_id intent) (\<lambda>i. i\<lparr>ri_completedAt := Some (rn_now env)\<rparr>) (tb_reconcileIntents d)"
    and current: "isReconcileDecisionCurrent pool job"
    by (auto simp: claimIntent_def split: option.splits if_splits)
  have spent: "select_one ?P (tb_reconcileIntents d1) = Some (intent\<lparr>ri_completedAt := Some (rn_now env)\<rparr>)"
    unfolding t by (subst select_one_updated) (simp_all add: intent)
  obtain t' where d1: "d1 = d\<lparr>tb_reconcileIntents := t'\<rparr>" using claimIntent_frame [OF claim] by blast
  note rows = select_one_Some [OF pool] select_one_Some [OF intent(1)] select_one_Some [OF spent]
  from run show ?case
  proof (cases rule: reconcilePool_Inr)
    case quiet
    with assms(3) show ?thesis by (simp add: no_operation_def d1)
  next
    case (planned d2 d3 pending steps)
    from planned(6) have keys: "map pool_key (tb_endpointPools d') = map pool_key (tb_endpointPools d)"
      and intents: "tb_reconcileIntents d' = tb_reconcileIntents d1" by (simp_all add: untouched_def d1)
    from select_pool_key [OF keys pool] obtain q where q: "select_one (\<lambda>p. ep_id p = rj_poolId job) (tb_endpointPools d') = Some q"
      "pool_key q = pool_key pool" by blast
    have "poolDecisionCurrent d' (operation_row env pool job (decided env (readRows (rn_now env) d1 job pool (pool_links d (rj_poolId job)) contexts) job))"
      using q rows(1) current assms(2)
      by (auto simp: poolDecisionCurrent_def operation_row_def isOperationDecisionCurrent_def isReconcileDecisionCurrent_def pool_key_def)
    then show ?thesis
      using rows intent(2) current assms(2) planned(7) unfolding intents
      by (auto simp: list_ex_iff d1 operation_row_def intro: bexI [of _ pool] bexI [of _ intent] bexI [of _ "intent\<lparr>ri_completedAt := Some (rn_now env)\<rparr>"])
  qed
qed

section \<open>A reconciliation\<close>

definition demo_reconcile_env :: ReconcileEnv where
  "demo_reconcile_env = \<lparr>rn_now = 1000, rn_localeCompare = code_unit_compare, rn_physicalKey = plain_key, rn_sameInet = (=),
     rn_operationId = ''o2'', rn_stepId = (\<lambda>i. ''st'' @ nat_text i), rn_decisionJson = (\<lambda>_. JObj [])\<rparr>"

definition demo_job :: PoolReconcileJob where
  "demo_job = \<lparr>rj_poolId = ''p1'', rj_eventId = ''ev1'', rj_decisionRevision = Some 1, rj_policyRevision = Some 1, rj_trigger = FailureTrigger,
     rj_source = None, rj_endpointId = None, rj_force = None\<rparr>"

definition demo_v6_binding :: DomainBindingRow where
  "demo_v6_binding = demo_binding\<lparr>db_id := ''b2'', db_recordType := ''AAAA''\<rparr>"

definition demo_reconcile_database :: Database where
  "demo_reconcile_database = demo_pool_database\<lparr>tb_cloud := no_cloud,
     tb_endpoints := [demo_endpoint\<lparr>en_addressMode := StaticMode\<rparr>],
     tb_endpointAddresses := [demo_endpoint_address\<lparr>ea_source := StaticMode\<rparr>], tb_domainBindings := [demo_binding, demo_v6_binding],
     tb_zones := [\<lparr>zo_id = ''zone'', zo_providerAccountId = ''a1'', zo_externalId = ''z1'', zo_nameAscii = ''example.com'', zo_nameUnicode = None,
       zo_status = StatusActive, zo_providerMetadata = JObj [], zo_remoteHash = None, zo_lastSyncedAt = None\<rparr>],
     tb_providerAccounts := [\<lparr>pa_id = ''a1'', pa_ownerUserId = ''u1'', pa_provider = Cloudflare, pa_name = ''cf'', pa_credentialCiphertext = ''c'',
       pa_credentialIv = ''i'', pa_credentialTag = ''t'', pa_credentialKeyVersion = 1, pa_credentialHint = None, pa_capabilities = JObj [],
       pa_status = StatusActive, pa_errorCode = None, pa_lastVerifiedAt = None, pa_lastSyncedAt = None\<rparr>],
     tb_reconcileIntents := [\<lparr>ri_id = ''in1'', ri_eventId = ''ev1'', ri_poolId = ''p1'', ri_endpointId = None, ri_decisionRevision = 1,
       ri_policyRevision = 1, ri_trigger = FailureTrigger, ri_source = FailoverSource, ri_force = False, ri_availableAt = 0,
       ri_completedAt = None\<rparr>]\<rparr>"

definition demo_reconcile :: "CodeError + Database \<times> ReconcileOutcome option" where
  "demo_reconcile = reconcile demo_reconcile_env demo_job demo_reconcile_database"

fun reconcile_summary :: "CodeError + Database \<times> ReconcileOutcome option
    \<Rightarrow> (string list \<times> (OperationAction \<times> string option \<times> string option) list \<times> string option) option" where
  "reconcile_summary (Inr (d, Some out)) = Some (map op_id (tb_operations d),
     map (\<lambda>s. (os_action s, Option.bind (os_input s) si_bindingId, Option.bind (os_input s) (\<lambda>i. map_option di_content (si_record i))))
       (tl (tb_operationSteps d)), oc_operationId out)"
| "reconcile_summary _ = None"

lemma demo_reconcile_plans:
  "reconcile_summary demo_reconcile
    = Some ([''o1'', ''o2''], [(ActCreate, Some ''b1'', Some ''192.0.2.1'')], Some ''o2'')"
  by code_simp

lemma reconcile_summary_Some: "reconcile_summary r = Some x \<Longrightarrow> \<exists>d out. r = Inr (d, Some out)"
  by (cases r rule: reconcile_summary.cases) auto

lemma demo_reconcile_Inr:
  obtains d' out where "demo_reconcile = Inr (d', Some out)" "map op_id (tb_operations d') = [''o1'', ''o2'']" "oc_operationId out = Some ''o2''"
    "map os_action (tl (tb_operationSteps d')) = [ActCreate]"
proof -
  obtain d' out where run: "demo_reconcile = Inr (d', Some out)"
    using reconcile_summary_Some [OF demo_reconcile_plans] by blast
  show thesis using demo_reconcile_plans [unfolded run] by (intro that [OF run]) (simp_all add: map_eq_Cons_conv, auto)
qed

lemma demo_keys: "keys_ok demo_reconcile_database"
  by code_simp

lemma demo_step_count: "length (tb_operationSteps demo_reconcile_database) = 1" "map op_id (tb_operations demo_reconcile_database) = [''o1'']"
  by code_simp+

lemma demo_unserved: "\<not> list_ex (\<lambda>e. list_ex (may_publish demo_reconcile_database demo_job demo_v6_binding e)
    (tb_endpointAddresses demo_reconcile_database)) (tb_endpoints demo_reconcile_database)"
  by code_simp

theorem reconcile_once_witness:
  "\<exists>d' out. demo_reconcile = Inr (d', Some out) \<and> reconcile demo_reconcile_env demo_job d' = Inr (d', None)"
proof (rule demo_reconcile_Inr)
  fix d' out assume run: "demo_reconcile = Inr (d', Some out)" "oc_operationId out = Some ''o2''"
  with reconcile_once [OF run(1) [unfolded demo_reconcile_def] run(2) refl] show ?thesis by (auto simp: demo_job_def)
qed


theorem unserved_binding_kept_witness:
  "\<exists>d' out s. demo_reconcile = Inr (d', out) \<and> s \<in> set (drop 1 (tb_operationSteps d'))
    \<and> Option.bind (os_input s) si_bindingId \<noteq> Some ''b2''"
proof (rule demo_reconcile_Inr)
  fix d' out assume run: "demo_reconcile = Inr (d', Some out)" and steps: "map os_action (tl (tb_operationSteps d')) = [ActCreate]"
  then obtain s where s: "drop 1 (tb_operationSteps d') = [s]" by (auto simp: drop_Suc map_eq_Cons_conv)
  have "demo_v6_binding \<in> set (tb_domainBindings demo_reconcile_database)" by (simp add: demo_reconcile_database_def)
  from unserved_binding_kept [OF run [unfolded demo_reconcile_def] demo_keys this demo_unserved] run s
  show ?thesis by (auto simp: demo_step_count demo_v6_binding_def demo_binding_def)
qed

theorem reconcile_fenced_witness:
  "\<exists>d' out. demo_reconcile = Inr (d', out) \<and> poolDecisionCurrent d' (last (tb_operations d'))"
proof (rule demo_reconcile_Inr)
  fix d' out assume run: "demo_reconcile = Inr (d', Some out)" and ops: "map op_id (tb_operations d') = [''o1'', ''o2'']"
  have "tb_operations d' \<noteq> tb_operations demo_reconcile_database" using ops demo_step_count(2) by auto
  with reconcile_fenced [OF run [unfolded demo_reconcile_def], of 1] run show ?thesis by (auto simp: demo_job_def)
qed

end
