(* ===== verification/Rotation_Limits.thy ===== *)
theory Rotation_Limits
  imports Rotation_Context
begin

text \<open>
  The budgets of cloud writes: the rules of \<open>packages/contracts/src/cloud-rotation-limits.ts\<close> (token buckets and sliding windows per
  operation) and their admission in \<open>packages/db/src/cloud-rotation-limits.ts\<close>. Debts and refill rates are rationals where the
  source has doubles. The order in which the buckets are written, which only orders locks, is left out.
\<close>

section \<open>Rules\<close>

datatype LimitScope = RegionScope | GlobalScope

datatype LimitKind = TokenBucket | SlidingWindow

record CloudRotationLimitRule =
  lr_id :: string
  lr_scope :: LimitScope
  lr_operations :: "string list"
  lr_kind :: LimitKind
  lr_officialCapacity :: int
  lr_capacity :: int
  lr_officialRefillPerSecond :: "rat option"
  lr_refillPerSecond :: "rat option"
  lr_windowSeconds :: "int option"

definition limitActions :: "CloudService \<Rightarrow> (string \<times> string) list" where
  "limitActions service = (case service of
     Ec2 \<Rightarrow> [(''ec2.auto-ipv4.disable'', ''ModifyNetworkInterfaceAttribute''), (''ec2.auto-ipv4.enable'', ''ModifyNetworkInterfaceAttribute''),
       (''ec2.eip.allocate'', ''AllocateAddress''), (''ec2.eip.associate'', ''AssociateAddress''), (''ec2.eip.release'', ''ReleaseAddress''),
       (''ec2.ipv6.assign'', ''AssignIpv6Addresses''), (''ec2.ipv6.unassign'', ''UnassignIpv6Addresses''),
       (''ec2.instance.start'', ''StartInstances''), (''ec2.instance.stop'', ''StopInstances''), (''ec2.instance.delete'', ''TerminateInstances'')]
   | Lightsail \<Rightarrow> [(''lightsail.static-ip.allocate'', ''AllocateStaticIp''), (''lightsail.static-ip.detach'', ''DetachStaticIp''),
       (''lightsail.static-ip.attach'', ''AttachStaticIp''), (''lightsail.static-ip.release'', ''ReleaseStaticIp''),
       (''lightsail.ipv6.disable'', ''SetIpAddressType''), (''lightsail.ipv6.enable'', ''SetIpAddressType''),
       (''lightsail.instance.start'', ''StartInstance''), (''lightsail.instance.stop'', ''StopInstance''),
       (''lightsail.instance.delete'', ''DeleteInstance'')]
   | AzureVm \<Rightarrow> [(''azure.public-ip.allocate'', ''PublicIPAddresses.CreateOrUpdate''),
       (''azure.public-ip.associate'', ''NetworkInterfaces.CreateOrUpdate''), (''azure.public-ip.delete'', ''PublicIPAddresses.Delete''),
       (''azure_vm.instance.start'', ''VirtualMachines.Start''), (''azure_vm.instance.stop'', ''VirtualMachines.Deallocate''),
       (''azure_vm.instance.delete'', ''VirtualMachines.Delete'')]
   | LinodeCompute \<Rightarrow> [(''linode.ipv4.allocate'', ''InstanceIP.Allocate''), (''linode.instance.reboot'', ''Instance.Reboot''),
       (''linode.ipv4.release'', ''InstanceIP.Delete''), (''linode.instance.start'', ''Instance.Boot''), (''linode.instance.stop'', ''Instance.Shutdown''),
       (''linode.instance.delete'', ''Instance.Delete''), (''linode.swap.allocate'', ''Instance.Create''), (''linode.ipv4.swap'', ''IP.Assign''),
       (''linode.swap.delete'', ''Instance.Delete'')])"

definition cloudRotationOperation :: "CloudService \<Rightarrow> string \<Rightarrow> CodeError + string" where
  "cloudRotationOperation service action = (case map_of (limitActions service) action of
     Some operation \<Rightarrow> Inr operation | None \<Rightarrow> Inl ''unsupported_rotation_action'')"

text \<open>The share of an official capacity, at least one.\<close>

definition shareOf :: "int \<Rightarrow> int \<Rightarrow> int" where
  "shareOf capacity percent = max 1 \<lfloor>rat_of_int capacity * (rat_of_int percent / 100)\<rfloor>"

definition limitBucket :: "int \<Rightarrow> string \<Rightarrow> string list \<Rightarrow> int \<Rightarrow> int \<Rightarrow> CloudRotationLimitRule" where
  "limitBucket percent i operations capacity refill = \<lparr>lr_id = i, lr_scope = RegionScope, lr_operations = operations, lr_kind = TokenBucket,
     lr_officialCapacity = capacity, lr_capacity = shareOf capacity percent, lr_officialRefillPerSecond = Some (rat_of_int refill),
     lr_refillPerSecond = Some (rat_of_int refill * (rat_of_int percent / 100)), lr_windowSeconds = None\<rparr>"

definition limitWindow :: "int \<Rightarrow> string \<Rightarrow> string list \<Rightarrow> int \<Rightarrow> int \<Rightarrow> LimitScope \<Rightarrow> CloudRotationLimitRule" where
  "limitWindow percent i operations capacity seconds scope = \<lparr>lr_id = i, lr_scope = scope, lr_operations = operations, lr_kind = SlidingWindow,
     lr_officialCapacity = capacity, lr_capacity = shareOf capacity percent, lr_officialRefillPerSecond = None, lr_refillPerSecond = None,
     lr_windowSeconds = Some seconds\<rparr>"

text \<open>The rules of a service; the schema admits a whole percentage from 1 to 100.\<close>

definition cloudRotationLimitRules :: "CloudService \<Rightarrow> int \<Rightarrow> CodeError + CloudRotationLimitRule list" where
  "cloudRotationLimitRules service percent =
    bindE (guardE (1 \<le> percent \<and> percent \<le> 100) ''invalid_limit_policy'') (\<lambda>_.
    let operations = js_set (map snd (limitActions service)) in
    Inr (case service of
       Ec2 \<Rightarrow> map (\<lambda>operation. limitBucket percent (''ec2.'' @ operation) [operation]
           (if operation = ''StartInstances'' then 5
            else if operation \<in> {''ModifyNetworkInterfaceAttribute'', ''AssignIpv6Addresses'', ''TerminateInstances''} then 100 else 50)
           (if operation = ''StartInstances'' then 2 else 5)) operations
     | Lightsail \<Rightarrow> (let staticOperations = filter (\<lambda>operation. operation \<in> {''AllocateStaticIp'', ''AttachStaticIp'', ''DetachStaticIp'',
             ''ReleaseStaticIp''}) operations in
         map (\<lambda>operation. limitBucket percent (''lightsail.'' @ operation) [operation]
           (if operation \<in> {''StartInstance'', ''StopInstance'', ''DeleteInstance''} then 20 else 1)
           (if operation \<in> {''StartInstance'', ''StopInstance''} then 10 else 1)) operations
         @ [limitWindow percent ''lightsail.static-ip.hour'' staticOperations 50 3600 GlobalScope,
            limitWindow percent ''lightsail.static-ip.day'' staticOperations 500 86400 GlobalScope])
     | AzureVm \<Rightarrow> [limitBucket percent ''azure.arm.writes'' (filter (\<lambda>operation. \<not> ends_with operation ''.Delete'') operations) 200 10,
         limitBucket percent ''azure.arm.deletes'' (filter (\<lambda>operation. ends_with operation ''.Delete'') operations) 200 10,
         limitWindow percent ''azure.network.mutations'' (filter (\<lambda>operation. \<not> starts_with operation ''VirtualMachines.'') operations) 1000 300 RegionScope]
     | LinodeCompute \<Rightarrow> [limitWindow percent ''linode.mutations'' operations 1600 60 GlobalScope]))"

definition cloudRotationRulesForAction :: "CloudService \<Rightarrow> string \<Rightarrow> int \<Rightarrow> CodeError + CloudRotationLimitRule list" where
  "cloudRotationRulesForAction service action percent =
    bindE (cloudRotationOperation service action) (\<lambda>operation.
    bindE (cloudRotationLimitRules service percent) (\<lambda>rules. Inr (filter (\<lambda>rule. operation \<in> set (lr_operations rule)) rules)))"

section \<open>The budget of an account\<close>

record LimitContext =
  lc_identityKey :: CloudIdentityKey
  lc_externalAccountId :: string
  lc_enabled :: bool
  lc_utilizationPercent :: int
  lc_effectivePercent :: int

definition percent_of :: "CloudTables \<Rightarrow> CloudService \<Rightarrow> CloudAccountRow \<Rightarrow> int" where
  "percent_of t service account = (case select_one (\<lambda>p. lp_accountId p = ca_id account \<and> lp_service p = service) (ct_limitPolicies t) of
     Some p \<Rightarrow> lp_utilizationPercent p | None \<Rightarrow> 80)"

text \<open>All local entries of one remote account share a budget: the smallest share counts.\<close>

definition limitContext :: "CloudTables \<Rightarrow> string \<Rightarrow> CloudService \<Rightarrow> CodeError + LimitContext" where
  "limitContext t accountId service = (case select_one (\<lambda>a. ca_id a = accountId) (ct_accounts t) of
     None \<Rightarrow> Inl ''cloud_account_not_found''
   | Some account \<Rightarrow>
       if ca_provider account \<noteq> fst (cloudServiceDefinition service) then Inl ''cloud_service_mismatch''
       else (case ca_externalAccountId account of
           None \<Rightarrow> Inl ''cloud_account_identity_missing''
         | Some ext \<Rightarrow> if ext = [] then Inl ''cloud_account_identity_missing''
             else (let identityKey = (ca_provider account, Some ext, service);
                       percents = map (percent_of t service) (filter (\<lambda>a. ca_provider a = ca_provider account
                         \<and> ca_externalAccountId a = Some ext) (ct_accounts t))
                   in Inr \<lparr>lc_identityKey = identityKey, lc_externalAccountId = ext,
                     lc_enabled = (case select_one (\<lambda>s. lw_identityKey s = identityKey) (ct_limitSwitches t) of Some s \<Rightarrow> lw_enabled s | None \<Rightarrow> True),
                     lc_utilizationPercent = percent_of t service account,
                     lc_effectivePercent = foldr min percents (percent_of t service account)\<rparr>)))"

definition limitBuckets :: "CloudTables \<Rightarrow> CloudIdentityKey \<Rightarrow> CloudRotationBucketRow list" where
  "limitBuckets t identityKey = filter (\<lambda>b. bk_identityKey b = identityKey) (ct_buckets t)"

text \<open>The step's attempt is still the current one of an incident that goes on.\<close>

definition current_attempt :: "CloudTables \<Rightarrow> string \<Rightarrow> bool" where
  "current_attempt t attemptId = list_ex (\<lambda>a. ra_id a = attemptId \<and> ra_status a \<noteq> AttAbandoned
     \<and> list_ex (\<lambda>i. ri_incidentId i = ra_incidentId a \<and> ri_currentAttemptId i = Some attemptId \<and> ri_status i \<noteq> IncComplete)
       (ct_incidents t)) (ct_attempts t)"

definition pendingReservations :: "CloudTables \<Rightarrow> CloudIdentityKey \<Rightarrow> string list" where
  "pendingReservations t identityKey = map rr_stepId (filter (\<lambda>r. rr_identityKey r = identityKey \<and> rr_consumedAt r = None
     \<and> list_ex (\<lambda>s. st_id s = rr_stepId r \<and> current_attempt t (st_attemptId s)) (ct_steps t)) (ct_reservations t))"

record LiveState =
  lv_debt :: rat
  lv_events :: "int list"

definition liveState :: "CloudRotationLimitRule \<Rightarrow> CloudRotationBucketRow option \<Rightarrow> int \<Rightarrow> LiveState" where
  "liveState rule row now = (let
       elapsed = rat_of_int (max 0 (now - (case row of Some b \<Rightarrow> bk_updatedAt b | None \<Rightarrow> now))) / 1000;
       refill = (case lr_refillPerSecond rule of Some r \<Rightarrow> r | None \<Rightarrow> 0)
     in \<lparr>lv_debt = max 0 ((case row of Some b \<Rightarrow> bk_debt b | None \<Rightarrow> 0) - elapsed * refill),
         lv_events = (case lr_windowSeconds rule of None \<Rightarrow> []
           | Some w \<Rightarrow> filter (\<lambda>event. now - w * 1000 < event) (case row of Some b \<Rightarrow> bk_events b | None \<Rightarrow> []))\<rparr>)"

definition retryTime :: "CloudRotationLimitRule \<Rightarrow> LiveState \<Rightarrow> int \<Rightarrow> int \<Rightarrow> int \<Rightarrow> int" where
  "retryTime rule state outstanding required now =
    (if lr_kind rule = TokenBucket
     then now + \<lceil>max 0 (lv_debt state + rat_of_int required - rat_of_int (lr_capacity rule)) / (case lr_refillPerSecond rule of Some r \<Rightarrow> r | None \<Rightarrow> 0) * 1000\<rceil>
     else (let expireCount = int (length (lv_events state)) + outstanding + required - lr_capacity rule in
       if 1 \<le> expireCount \<and> expireCount \<le> int (length (lv_events state))
       then lv_events state ! nat (expireCount - 1) + (case lr_windowSeconds rule of Some w \<Rightarrow> w | None \<Rightarrow> 0) * 1000
       else now + 60000))"

section \<open>Admission\<close>

record CloudRotationWriteInput =
  wi_accountId :: string
  wi_service :: CloudService
  wi_region :: string
  wi_stepId :: string
  wi_action :: string
  wi_idleCleanupId :: "string option"
  wi_remainingSteps :: "(string \<times> string) list"

datatype WriteAdmission = WriteAllowed | WriteDenied string int

definition idleIpReleaseInProgress :: "CloudTables \<Rightarrow> string \<Rightarrow> string \<Rightarrow> string option \<Rightarrow> bool" where
  "idleIpReleaseInProgress t externalAccountId region exceptBatchId = list_ex (\<lambda>b. ii_externalAccountId b = externalAccountId
     \<and> exceptBatchId \<noteq> Some (ii_id b) \<and> list_ex (\<lambda>(r, a, status). r = region \<and> status \<in> {IdleInFlight, IdlePending}) (ii_items b))
     (ct_idleIpCleanups t)"

definition dynamic_action :: "CloudRotationWriteInput \<Rightarrow> bool" where
  "dynamic_action input = (wi_service input = Lightsail \<and> starts_with (wi_action input) ''lightsail.static-ip.'')"

definition release_action :: "CloudRotationWriteInput \<Rightarrow> bool" where
  "release_action input = (wi_action input = ''lightsail.static-ip.release'')"

text \<open>The steps of the plan from the current one on that are still to be dispatched.\<close>

definition remainingPlan :: "CloudTables \<Rightarrow> string \<Rightarrow> RotationStepRow list" where
  "remainingPlan t stepId = (case select_one (\<lambda>s. st_id s = stepId) (ct_steps t) of
     None \<Rightarrow> []
   | Some current \<Rightarrow> if \<not> current_attempt t (st_attemptId current) then []
       else js_sort (\<lambda>a b. st_sequence a - st_sequence b) (filter (\<lambda>s. st_attemptId s = st_attemptId current \<and> st_sequence current \<le> st_sequence s
         \<and> st_status s \<in> {SsPrepared, SsNotApplied, SsRejected}) (ct_steps t)))"

definition newReservations :: "CloudTables \<Rightarrow> CloudIdentityKey \<Rightarrow> CloudRotationWriteInput \<Rightarrow> CodeError + string list" where
  "newReservations t identityKey input = (let steps = remainingPlan t (wi_stepId input) in
    bindE (guardE (list_ex (\<lambda>s. st_id s = wi_stepId input \<and> pl_action (st_plan s) = wi_action input) steps) ''invalid_rotation_reservation_step'') (\<lambda>_.
    bindE (guardE (list_all (\<lambda>(i, a). list_ex (\<lambda>s. st_id s = i \<and> pl_action (st_plan s) = a) steps) (wi_remainingSteps input))
      ''invalid_rotation_reservation_step'') (\<lambda>_.
    bindE (mapE (\<lambda>s. cloudRotationRulesForAction (wi_service input) (pl_action (st_plan s)) 80) steps) (\<lambda>_.
    Inr (map st_id (filter (\<lambda>s. st_id s \<noteq> wi_stepId input \<and> st_dispatchedAt s = None
       \<and> \<not> list_ex (\<lambda>r. rr_stepId r = st_id s \<and> rr_identityKey r = identityKey) (ct_reservations t)
       \<and> pl_action (st_plan s) \<in> {''lightsail.static-ip.allocate'', ''lightsail.static-ip.detach'', ''lightsail.static-ip.attach''}) steps))))))"

text \<open>The bucket of a rule: regional rules have one per region.\<close>

definition bucket_region :: "CloudRotationLimitRule \<Rightarrow> string \<Rightarrow> string option" where
  "bucket_region rule region = (if lr_scope rule = GlobalScope then None else Some region)"

definition find_bucket :: "CloudRotationBucketRow list \<Rightarrow> CloudIdentityKey \<Rightarrow> string \<Rightarrow> string option \<Rightarrow> CloudRotationBucketRow option" where
  "find_bucket rows identityKey ruleId region = find (\<lambda>b. bk_identityKey b = identityKey \<and> bk_ruleId b = ruleId \<and> bk_region b = region) rows"

definition put_bucket :: "CloudRotationBucketRow \<Rightarrow> (CloudRotationBucketRow \<Rightarrow> CloudRotationBucketRow) \<Rightarrow> CloudRotationBucketRow list
    \<Rightarrow> CloudRotationBucketRow list" where
  "put_bucket new f t = (let same = (\<lambda>b. bk_identityKey b = bk_identityKey new \<and> bk_ruleId b = bk_ruleId new \<and> bk_region b = bk_region new) in
     if list_ex same t then update_where same f t else t @ [new])"

definition bucket_row :: "CloudIdentityKey \<Rightarrow> string \<Rightarrow> string option \<Rightarrow> int \<Rightarrow> CloudRotationBucketRow" where
  "bucket_row identityKey ruleId region now = \<lparr>bk_identityKey = identityKey, bk_ruleId = ruleId, bk_region = region, bk_debt = 0, bk_events = [],
     bk_updatedAt = now, bk_cooldownUntil = None, bk_throttleCount = 0\<rparr>"

text \<open>What one rule says of a write: how much it needs, and when to come back if there is not that much.\<close>

definition requiredUnits :: "CloudRotationLimitRule \<Rightarrow> bool \<Rightarrow> bool \<Rightarrow> nat \<Rightarrow> int" where
  "requiredUnits rule dynamic ownsReservation fresh =
    (if lr_kind rule = SlidingWindow \<and> dynamic then (if ownsReservation then 0 else 1) + int fresh else 1)"

definition ruleRefusal ::
  "LimitContext \<Rightarrow> CloudRotationWriteInput \<Rightarrow> CloudRotationLimitRule \<Rightarrow> LiveState \<Rightarrow> nat \<Rightarrow> bool \<Rightarrow> nat \<Rightarrow> int \<Rightarrow> int option" where
  "ruleRefusal c input rule state pending ownsReservation fresh now =
    (let dynamic = dynamic_action input; required = requiredUnits rule dynamic ownsReservation fresh;
         used = (if lr_kind rule = TokenBucket then lv_debt state
           else rat_of_nat (length (lv_events state)) + (if dynamic then rat_of_nat pending else 0));
         protectedReservation = (dynamic \<and> ownsReservation \<and> required = 0)
     in if lc_enabled c \<and> \<not> (dynamic \<and> lr_kind rule = SlidingWindow \<and> (release_action input \<or> protectedReservation))
           \<and> rat_of_int (lr_capacity rule) + 1 / 1000000000 < used + rat_of_int required
        then Some (retryTime rule state (if dynamic then int pending else 0) required now) else None)"

definition worst :: "(string \<times> int) option \<Rightarrow> string \<times> int \<Rightarrow> (string \<times> int) option" where
  "worst refusal r = (case refusal of None \<Rightarrow> Some r | Some q \<Rightarrow> if snd q < snd r then Some r else Some q)"

definition chargeBucket :: "CloudIdentityKey \<Rightarrow> string \<Rightarrow> int \<Rightarrow> CloudRotationLimitRule \<Rightarrow> LiveState \<Rightarrow> CloudRotationBucketRow list \<Rightarrow> CloudRotationBucketRow list" where
  "chargeBucket identityKey region now rule state t = (let
       debt = (if lr_kind rule = TokenBucket then lv_debt state + 1 else 0);
       events = (if lr_kind rule = SlidingWindow then lv_events state @ [now] else []) in
     put_bucket ((bucket_row identityKey (lr_id rule) (bucket_region rule region) now)\<lparr>bk_debt := debt, bk_events := events\<rparr>)
       (\<lambda>b. b\<lparr>bk_debt := debt, bk_events := events, bk_updatedAt := now\<rparr>) t)"

definition cooldownOf :: "CloudRotationBucketRow list \<Rightarrow> CloudRotationBucketRow option" where
  "cooldownOf rows = find (\<lambda>b. bk_ruleId b = ''cooldown'') rows"

definition admitWrite ::
  "int \<Rightarrow> CloudRotationWriteInput \<Rightarrow> LimitContext \<Rightarrow> CloudRotationBucketRow list \<Rightarrow> CloudTables \<Rightarrow> CodeError + CloudTables \<times> WriteAdmission" where
  "admitWrite now input c rows t = (let dynamic = dynamic_action input; key = lc_identityKey c;
       pending = (if dynamic then pendingReservations t key else []);
       ownsReservation = wi_stepId input \<in> set pending;
       live = (\<lambda>rule. liveState rule (find_bucket rows key (lr_id rule) (bucket_region rule (wi_region input))) now) in
     bindE (cloudRotationRulesForAction (wi_service input) (wi_action input) (lc_effectivePercent c)) (\<lambda>rules.
     bindE (if dynamic \<and> \<not> release_action input then newReservations t key input else Inr []) (\<lambda>fresh.
     bindE (guardE (\<not> (lc_enabled c \<and> dynamic \<and> \<not> release_action input \<and> list_ex (\<lambda>rule. lr_kind rule = SlidingWindow
         \<and> lr_capacity rule < requiredUnits rule dynamic ownsReservation (length fresh)) rules)) ''rotation_limit_too_low'') (\<lambda>_.
     case foldl worst None (List.map_filter (\<lambda>rule. map_option (Pair (lr_id rule))
            (ruleRefusal c input rule (live rule) (length pending) ownsReservation (length fresh) now)) rules) of
       Some (ruleId, retryAt) \<Rightarrow> Inr (t, WriteDenied ruleId retryAt)
     | None \<Rightarrow> Inr (t\<lparr>ct_buckets := foldl (\<lambda>b rule. chargeBucket key (wi_region input) now rule (live rule) b) (ct_buckets t) rules,
           ct_reservations := (if ownsReservation
               then update_where (\<lambda>r. rr_stepId r = wi_stepId input) (\<lambda>r. r\<lparr>rr_consumedAt := Some now\<rparr>) else id)
             (ct_reservations t @ map (\<lambda>i. \<lparr>rr_stepId = i, rr_identityKey = key, rr_consumedAt = None\<rparr>) fresh)\<rparr>, WriteAllowed)))))"

definition reserveCloudRotationWrite ::
  "int \<Rightarrow> CloudRotationWriteInput \<Rightarrow> CloudTables \<Rightarrow> CodeError + CloudTables \<times> WriteAdmission" where
  "reserveCloudRotationWrite now input t =
    bindE (cloudRotationRulesForAction (wi_service input) (wi_action input) 80) (\<lambda>_.
    bindE (limitContext t (wi_accountId input) (wi_service input)) (\<lambda>c.
    let rows = limitBuckets t (lc_identityKey c) in
    if wi_service input = Lightsail \<and> idleIpReleaseInProgress t (lc_externalAccountId c) (wi_region input) (wi_idleCleanupId input)
    then Inr (t, WriteDenied ''idle_ip_cleanup'' (now + 5000))
    else (case Option.bind (cooldownOf rows) bk_cooldownUntil of
        Some cooldown \<Rightarrow> if now < cooldown then Inr (t, WriteDenied ''cooldown'' cooldown) else admitWrite now input c rows t
      | None \<Rightarrow> admitWrite now input c rows t)))"

section \<open>Throttling by the provider\<close>

definition throttleCount :: "int \<Rightarrow> CloudRotationBucketRow option \<Rightarrow> int" where
  "throttleCount now previous = (case previous of
     Some b \<Rightarrow> if now - bk_updatedAt b < 3600000 then min (bk_throttleCount b + 1) 7 else 1 | None \<Rightarrow> 1)"

text \<open>\<open>retryAfterMs\<close> is the provider's hint; one that is not finite counts as none.\<close>

definition throttleUntil :: "int \<Rightarrow> CloudRotationBucketRow option \<Rightarrow> number option \<Rightarrow> int" where
  "throttleUntil now previous retryAfterMs = (let
       retryAfter = (case retryAfterMs of Some (Num r) \<Rightarrow> min 86400000 (max 0 r) | _ \<Rightarrow> 0);
       backoff = min 3600000 (60000 * 2 ^ nat (throttleCount now previous - 1))
     in max (case Option.bind previous bk_cooldownUntil of Some t \<Rightarrow> t | None \<Rightarrow> 0) (now + max backoff \<lfloor>retryAfter\<rfloor>))"

definition recordCloudRotationThrottle ::
  "int \<Rightarrow> string \<Rightarrow> CloudService \<Rightarrow> string \<Rightarrow> number option \<Rightarrow> CloudTables \<Rightarrow> CodeError + CloudTables \<times> int" where
  "recordCloudRotationThrottle now accountId service action retryAfterMs t =
    bindE (cloudRotationRulesForAction service action 80) (\<lambda>_.
    bindE (limitContext t accountId service) (\<lambda>c. let key = lc_identityKey c;
        previous = cooldownOf (limitBuckets t key); count = throttleCount now previous; until = throttleUntil now previous retryAfterMs in
      Inr (t\<lparr>ct_buckets := put_bucket ((bucket_row key ''cooldown'' None now)\<lparr>bk_cooldownUntil := Some until, bk_throttleCount := count\<rparr>)
        (\<lambda>b. b\<lparr>bk_updatedAt := now, bk_cooldownUntil := Some until, bk_throttleCount := count\<rparr>) (ct_buckets t)\<rparr>, until)))"

section \<open>Status and policy\<close>

record LimitUsage =
  lu_ruleId :: string
  lu_region :: "string option"
  lu_used :: rat
  lu_remaining :: rat
  lu_retryAt :: "int option"

definition limitUsage :: "LimitContext \<Rightarrow> nat \<Rightarrow> int option \<Rightarrow> int \<Rightarrow> CloudRotationLimitRule \<Rightarrow> CloudRotationBucketRow option \<Rightarrow> LimitUsage" where
  "limitUsage c pending cooldown now rule row = (let state = liveState rule row now;
       outstanding = (if starts_with (lr_id rule) ''lightsail.static-ip.'' then pending else 0);
       used = (if lr_kind rule = TokenBucket then lv_debt state else rat_of_nat (length (lv_events state) + outstanding));
       own = (if lc_enabled c \<and> rat_of_int (lr_capacity rule) < used + 1 then Some (retryTime rule state (int outstanding) 1 now) else None);
       retryAt = (case cooldown of Some t \<Rightarrow> if now < t \<and> (case own of None \<Rightarrow> True | Some r \<Rightarrow> r < t) then Some t else own | None \<Rightarrow> own)
     in \<lparr>lu_ruleId = lr_id rule, lu_region = Option.bind row bk_region, lu_used = used,
         lu_remaining = max 0 (rat_of_int (lr_capacity rule) - used), lu_retryAt = retryAt\<rparr>)"

definition getCloudRotationLimitStatus ::
  "int \<Rightarrow> CloudTables \<Rightarrow> string \<Rightarrow> CloudService \<Rightarrow> CodeError + LimitContext \<times> CloudRotationLimitRule list \<times> LimitUsage list" where
  "getCloudRotationLimitStatus now t accountId service =
    bindE (limitContext t accountId service) (\<lambda>c.
    bindE (cloudRotationLimitRules service (lc_effectivePercent c)) (\<lambda>rules. let
        rows = limitBuckets t (lc_identityKey c);
        pending = (if service = Lightsail then length (pendingReservations t (lc_identityKey c)) else 0);
        cooldown = Option.bind (cooldownOf rows) bk_cooldownUntil;
        entries = (\<lambda>rule. let matching = filter (\<lambda>b. bk_ruleId b = lr_id rule) rows in
          if matching \<noteq> [] then map Some matching else if lr_scope rule = GlobalScope then [None] else [])
      in Inr (c, rules, concat (map (\<lambda>rule. map (limitUsage c pending cooldown now rule) (entries rule)) rules))))"

text \<open>A new policy settles the token buckets at the old rate first.\<close>

definition settleBuckets :: "CloudIdentityKey \<Rightarrow> CloudRotationLimitRule list \<Rightarrow> int \<Rightarrow> CloudRotationBucketRow list \<Rightarrow> CloudRotationBucketRow list" where
  "settleBuckets key rules now t = map (\<lambda>b. case (if bk_identityKey b = key then find (\<lambda>r. lr_id r = bk_ruleId b \<and> lr_kind r = TokenBucket) rules else None) of
       Some rule \<Rightarrow> b\<lparr>bk_debt := lv_debt (liveState rule (Some b) now), bk_updatedAt := now\<rparr> | None \<Rightarrow> b) t"

definition setCloudRotationLimitPolicy ::
  "int \<Rightarrow> string \<Rightarrow> CloudService \<Rightarrow> int \<Rightarrow> bool option \<Rightarrow> CloudTables
    \<Rightarrow> CodeError + CloudTables \<times> (LimitContext \<times> CloudRotationLimitRule list \<times> LimitUsage list)" where
  "setCloudRotationLimitPolicy now accountId service percent enabled t =
    bindE (guardE (1 \<le> percent \<and> percent \<le> 100) ''invalid_limit_policy'') (\<lambda>_.
    bindE (limitContext t accountId service) (\<lambda>previous.
    bindE (cloudRotationLimitRules service (lc_effectivePercent previous)) (\<lambda>rules.
    let key = lc_identityKey previous;
        mine = (\<lambda>p. lp_accountId p = accountId \<and> lp_service p = service);
        t1 = t\<lparr>ct_buckets := settleBuckets key rules now (ct_buckets t),
          ct_limitPolicies := (if list_ex mine (ct_limitPolicies t)
            then update_where mine (\<lambda>p. p\<lparr>lp_utilizationPercent := percent\<rparr>) (ct_limitPolicies t)
            else ct_limitPolicies t @ [\<lparr>lp_accountId = accountId, lp_service = service, lp_utilizationPercent = percent\<rparr>])\<rparr>;
        t2 = (case enabled of None \<Rightarrow> t1 | Some e \<Rightarrow> t1\<lparr>ct_limitSwitches :=
          (if list_ex (\<lambda>s. lw_identityKey s = key) (ct_limitSwitches t1)
           then update_where (\<lambda>s. lw_identityKey s = key) (\<lambda>s. s\<lparr>lw_enabled := e\<rparr>) (ct_limitSwitches t1)
           else ct_limitSwitches t1 @ [\<lparr>lw_identityKey = key, lw_enabled = e\<rparr>])\<rparr>)
    in bindE (getCloudRotationLimitStatus now t2 accountId service) (\<lambda>status. Inr (t2, status)))))"

text \<open>After the policy's transaction, what waits for the local budget is woken.\<close>

definition slot_identity :: "CloudTables \<Rightarrow> string \<Rightarrow> CloudIdentityKey option" where
  "slot_identity t slotId =
    Option.bind (select_one (\<lambda>s. ms_id s = slotId) (ct_slots t)) (\<lambda>slot.
    Option.bind (select_one (\<lambda>f. cif_id f = ms_interfaceId slot) (ct_interfaces t)) (\<lambda>iface.
    Option.bind (select_one (\<lambda>i. cin_id i = cif_instanceId iface) (ct_instances t)) (\<lambda>inst.
    Option.bind (select_one (\<lambda>a. ca_id a = cin_accountId inst) (ct_accounts t)) (\<lambda>account.
    Some (ca_provider account, ca_externalAccountId account, cin_service inst)))))"

definition wakeCloudRotationLimitWaits :: "int \<Rightarrow> string \<Rightarrow> CloudService \<Rightarrow> CloudTables \<Rightarrow> CloudTables" where
  "wakeCloudRotationLimitWaits now accountId service t = (case select_one (\<lambda>a. ca_id a = accountId) (ct_accounts t) of
     None \<Rightarrow> t
   | Some account \<Rightarrow> (let key = (ca_provider account, ca_externalAccountId account, service);
         waits = (\<lambda>i. slot_identity t (ri_slotId i) = Some key \<and> ri_status i = IncActive) in
       t\<lparr>ct_incidents := update_where (\<lambda>i. waits i \<and> ri_errorCode i = Some ''rotation_rate_limited'') (\<lambda>i. i\<lparr>ri_nextRunAt := now\<rparr>) (ct_incidents t),
         ct_resources := update_where (\<lambda>r. re_cleanupError r = Some ''rotation_rate_limited''
             \<and> list_ex (\<lambda>i. ri_incidentId i = re_incidentId r \<and> waits i) (ct_incidents t)) (\<lambda>r. r\<lparr>re_cleanupDueAt := Some now\<rparr>) (ct_resources t)\<rparr>))"


section \<open>Buckets\<close>

lemma find_filter: "(\<And>x. P x \<Longrightarrow> Q x) \<Longrightarrow> find P (filter Q xs) = find P xs"
  by (induction xs) auto

lemma find_bucket_limitBuckets [simp]: "find_bucket (limitBuckets t key) key ruleId region = find_bucket (ct_buckets t) key ruleId region"
  unfolding find_bucket_def limitBuckets_def by (rule find_filter) simp

lemma find_update_where:
  assumes "\<And>b. P (f b) = P b"
  shows "find P (update_where Q f t) = map_option (\<lambda>b. if Q b then f b else b) (find P t)"
  using select_one_updated [of P f Q t] assms by (simp add: select_one_def)

lemma find_bucket_put:
  assumes "\<And>b. bk_identityKey (f b) = bk_identityKey b \<and> bk_ruleId (f b) = bk_ruleId b \<and> bk_region (f b) = bk_region b"
  shows "find_bucket (put_bucket new f t) key ruleId region =
    (if bk_identityKey new = key \<and> bk_ruleId new = ruleId \<and> bk_region new = region
     then Some (case find_bucket t key ruleId region of Some b \<Rightarrow> f b | None \<Rightarrow> new)
     else find_bucket t key ruleId region)"
proof -
  let ?same = "\<lambda>b. bk_identityKey b = bk_identityKey new \<and> bk_ruleId b = bk_ruleId new \<and> bk_region b = bk_region new"
  let ?P = "\<lambda>b. bk_identityKey b = key \<and> bk_ruleId b = ruleId \<and> bk_region b = region"
  have upd: "find ?P (update_where ?same f t) = map_option (\<lambda>b. if ?same b then f b else b) (find ?P t)"
    by (rule find_update_where) (simp add: assms)
  have snoc: "find ?P (t @ [new]) = (case find ?P t of Some b \<Rightarrow> Some b | None \<Rightarrow> if ?P new then Some new else None)"
    using select_one_snoc [of ?P t new] by (simp add: select_one_def)
  show ?thesis
  proof (cases "?P new")
    case True
    then have "list_ex ?same t \<longleftrightarrow> find ?P t \<noteq> None" by (auto simp: list_ex_iff find_None_iff)
    then show ?thesis using True upd snoc unfolding find_bucket_def put_bucket_def Let_def
      by (auto split: option.splits dest!: select_one_Some [unfolded select_one_def])
  next
    case False
    have "map_option (\<lambda>b. if ?same b then f b else b) (find ?P t) = find ?P t"
      using False by (cases "find ?P t") (auto dest!: select_one_Some [unfolded select_one_def])
    then show ?thesis using False upd snoc unfolding find_bucket_def put_bucket_def Let_def by (auto split: option.splits)
  qed
qed

definition charged :: "CloudRotationLimitRule \<Rightarrow> LiveState \<Rightarrow> int \<Rightarrow> CloudRotationBucketRow \<Rightarrow> bool" where
  "charged rule state now b = (bk_updatedAt b = now \<and> bk_debt b = (if lr_kind rule = TokenBucket then lv_debt state + 1 else 0)
     \<and> bk_events b = (if lr_kind rule = SlidingWindow then lv_events state @ [now] else []))"

lemma chargeBucket_other:
  "\<not> (lr_id rule = ruleId \<and> bucket_region rule region = rg)
    \<Longrightarrow> find_bucket (chargeBucket key region now rule state t) key ruleId rg = find_bucket t key ruleId rg"
  unfolding chargeBucket_def Let_def by (subst find_bucket_put) (auto simp: bucket_row_def)

lemma chargeBucket_own:
  "\<exists>b. find_bucket (chargeBucket key region now rule state t) key (lr_id rule) (bucket_region rule region) = Some b \<and> charged rule state now b"
  unfolding chargeBucket_def Let_def by (subst find_bucket_put) (auto simp: bucket_row_def charged_def split: option.splits)

lemma chargeBuckets_other:
  "(\<And>rule. rule \<in> set rules \<Longrightarrow> \<not> (lr_id rule = ruleId \<and> bucket_region rule region = rg))
    \<Longrightarrow> find_bucket (foldl (\<lambda>b rule. chargeBucket key region now rule (live rule) b) t rules) key ruleId rg = find_bucket t key ruleId rg"
  by (induction rules arbitrary: t) (auto simp: chargeBucket_other)

lemma chargeBuckets_own:
  assumes "rule \<in> set rules" and "distinct (map lr_id rules)"
  shows "\<exists>b. find_bucket (foldl (\<lambda>b rule. chargeBucket key region now rule (live rule) b) t rules) key (lr_id rule) (bucket_region rule region) = Some b
    \<and> charged rule (live rule) now b"
  using assms
proof (induction rules arbitrary: t)
  case (Cons r rules)
  show ?case
  proof (cases "r = rule")
    case True
    with Cons.prems(2) have "find_bucket (foldl (\<lambda>b rule. chargeBucket key region now rule (live rule) b) t (r # rules)) key (lr_id rule) (bucket_region rule region)
        = find_bucket (chargeBucket key region now rule (live rule) t) key (lr_id rule) (bucket_region rule region)"
      by (auto intro!: chargeBuckets_other simp: image_iff)
    with chargeBucket_own [of key region now rule "live rule" t] show ?thesis by simp
  next
    case False
    with Cons show ?thesis by simp
  qed
qed simp

section \<open>Rules of a service\<close>

lemma limitOperations:
  "js_set (map snd (limitActions Ec2)) = [''ModifyNetworkInterfaceAttribute'', ''AllocateAddress'', ''AssociateAddress'', ''ReleaseAddress'',
     ''AssignIpv6Addresses'', ''UnassignIpv6Addresses'', ''StartInstances'', ''StopInstances'', ''TerminateInstances'']"
  "js_set (map snd (limitActions Lightsail)) = [''AllocateStaticIp'', ''DetachStaticIp'', ''AttachStaticIp'', ''ReleaseStaticIp'', ''SetIpAddressType'',
     ''StartInstance'', ''StopInstance'', ''DeleteInstance'']"
  by code_simp+

lemma limitRules_distinct: "cloudRotationLimitRules service percent = Inr rules \<Longrightarrow> distinct (map lr_id rules)"
  by (cases service) (auto simp: cloudRotationLimitRules_def Let_def bindE_eq_Inr limitBucket_def limitWindow_def limitOperations)

lemma shareOf_bounds: "1 \<le> capacity \<Longrightarrow> 0 \<le> percent \<Longrightarrow> percent \<le> 100 \<Longrightarrow> 1 \<le> shareOf capacity percent \<and> shareOf capacity percent \<le> capacity"
proof -
  assume "1 \<le> capacity" "0 \<le> percent" "percent \<le> 100"
  then have "rat_of_int capacity * (rat_of_int percent / 100) \<le> rat_of_int capacity * 1"
    by (intro mult_left_mono) auto
  then have "\<lfloor>rat_of_int capacity * (rat_of_int percent / 100)\<rfloor> \<le> capacity" by linarith
  with \<open>1 \<le> capacity\<close> show ?thesis by (simp add: shareOf_def)
qed

text \<open>A rule never allows more than the provider does.\<close>

definition rule_ok :: "CloudRotationLimitRule \<Rightarrow> bool" where
  "rule_ok rule = (1 \<le> lr_capacity rule \<and> lr_capacity rule \<le> lr_officialCapacity rule
     \<and> (case lr_kind rule of
          TokenBucket \<Rightarrow> lr_windowSeconds rule = None \<and> (case (lr_refillPerSecond rule, lr_officialRefillPerSecond rule) of
            (Some r, Some r') \<Rightarrow> 0 < r \<and> r \<le> r' | _ \<Rightarrow> False)
        | SlidingWindow \<Rightarrow> lr_refillPerSecond rule = None \<and> (case lr_windowSeconds rule of Some w \<Rightarrow> 0 < w | None \<Rightarrow> False)))"

lemma limitBucket_ok: "1 \<le> percent \<Longrightarrow> percent \<le> 100 \<Longrightarrow> 1 \<le> capacity \<Longrightarrow> 1 \<le> refill \<Longrightarrow> rule_ok (limitBucket percent i operations capacity refill)"
  using shareOf_bounds [of capacity percent] by (auto simp: rule_ok_def limitBucket_def intro!: mult_left_le)

lemma limitWindow_ok: "1 \<le> percent \<Longrightarrow> percent \<le> 100 \<Longrightarrow> 1 \<le> capacity \<Longrightarrow> 1 \<le> seconds \<Longrightarrow> rule_ok (limitWindow percent i operations capacity seconds scope)"
  using shareOf_bounds [of capacity percent] by (auto simp: rule_ok_def limitWindow_def)

lemma limitRules_ok: "cloudRotationLimitRules service percent = Inr rules \<Longrightarrow> list_all rule_ok rules"
  by (cases service) (auto simp: cloudRotationLimitRules_def Let_def bindE_eq_Inr guardE_eq_Inr list_all_iff intro!: limitBucket_ok limitWindow_ok)


section \<open>Runs of writes\<close>

text \<open>A history of requests at their times; the result lists the writes that were admitted.\<close>

fun runWrites :: "(int \<times> CloudRotationWriteInput) list \<Rightarrow> CloudTables \<Rightarrow> CloudTables \<times> (int \<times> CloudRotationWriteInput) list" where
  "runWrites [] t = (t, [])"
| "runWrites ((now, input) # requests) t = (case reserveCloudRotationWrite now input t of
     Inr (t', WriteAllowed) \<Rightarrow> (let (t'', writes) = runWrites requests t' in (t'', (now, input) # writes))
   | _ \<Rightarrow> runWrites requests t)"

text \<open>The writes that draw on the bucket of a rule in a region.\<close>

definition governed :: "CloudRotationLimitRule \<Rightarrow> string \<Rightarrow> CloudRotationWriteInput \<Rightarrow> bool" where
  "governed rule region input = ((case map_of (limitActions (wi_service input)) (wi_action input) of
       Some operation \<Rightarrow> operation \<in> set (lr_operations rule) | None \<Rightarrow> False)
     \<and> bucket_region rule (wi_region input) = bucket_region rule region)"

definition used_units :: "CloudRotationLimitRule \<Rightarrow> LiveState \<Rightarrow> rat" where
  "used_units rule state = (if lr_kind rule = TokenBucket then lv_debt state else rat_of_nat (length (lv_events state)))"

lemma limitContext_buckets: "limitContext (t\<lparr>ct_buckets := x\<rparr>) accountId service = limitContext t accountId service"
proof -
  have "percent_of (t\<lparr>ct_buckets := x\<rparr>) = percent_of t" by (intro ext) (simp add: percent_of_def)
  then show ?thesis by (simp add: limitContext_def Let_def cong: option.case_cong if_cong)
qed

lemma reserve_Allowed:
  assumes "reserveCloudRotationWrite now input t = Inr (t', WriteAllowed)"
  obtains c where "limitContext t (wi_accountId input) (wi_service input) = Inr c"
    "admitWrite now input c (limitBuckets t (lc_identityKey c)) t = Inr (t', WriteAllowed)"
  using assms by (auto simp: reserveCloudRotationWrite_def Let_def bindE_eq_Inr split: if_splits option.splits)

lemma foldl_worst_Some: "\<exists>z. foldl worst (Some y) rs = Some z"
proof (induction rs arbitrary: y)
  case (Cons r rs)
  show ?case using Cons [of y] Cons [of r] by (simp add: worst_def)
qed simp

lemma foldl_worst_None: "foldl worst x rs = None \<Longrightarrow> x = None \<and> rs = []"
proof (cases rs)
  case (Cons r rs')
  have "worst x r \<noteq> None" by (cases x) (simp_all add: worst_def)
  then obtain y where "worst x r = Some y" by blast
  with Cons obtain z where "foldl worst x rs = Some z" using foldl_worst_Some [of y rs'] by auto
  then show "foldl worst x rs = None \<Longrightarrow> ?thesis" by simp
qed simp

lemma map_filter_Nil: "List.map_filter f xs = [] \<longleftrightarrow> (\<forall>x \<in> set xs. f x = None)"
  by (induction xs) (auto simp: List.map_filter_simps split: option.splits)

lemma admitWrite_Allowed:
  assumes "admitWrite now input c (limitBuckets t (lc_identityKey c)) t = Inr (t', WriteAllowed)" and "\<not> dynamic_action input"
  obtains operation rules where "map_of (limitActions (wi_service input)) (wi_action input) = Some operation"
    "cloudRotationLimitRules (wi_service input) (lc_effectivePercent c) = Inr rules"
    "list_all (\<lambda>rule. ruleRefusal c input rule (liveState rule (find_bucket (ct_buckets t) (lc_identityKey c) (lr_id rule)
        (bucket_region rule (wi_region input))) now) 0 False 0 now = None) (filter (\<lambda>rule. operation \<in> set (lr_operations rule)) rules)"
    "t' = t\<lparr>ct_buckets := foldl (\<lambda>b rule. chargeBucket (lc_identityKey c) (wi_region input) now rule (liveState rule (find_bucket (ct_buckets t)
        (lc_identityKey c) (lr_id rule) (bucket_region rule (wi_region input))) now) b) (ct_buckets t) (filter (\<lambda>rule. operation \<in> set (lr_operations rule)) rules)\<rparr>"
proof -
  from assms obtain operation rules where op: "map_of (limitActions (wi_service input)) (wi_action input) = Some operation"
    and rules: "cloudRotationLimitRules (wi_service input) (lc_effectivePercent c) = Inr rules"
    by (auto simp: admitWrite_def Let_def bindE_eq_Inr cloudRotationRulesForAction_def cloudRotationOperation_def split: option.splits)
  then have "cloudRotationRulesForAction (wi_service input) (wi_action input) (lc_effectivePercent c)
      = Inr (filter (\<lambda>rule. operation \<in> set (lr_operations rule)) rules)"
    by (simp add: cloudRotationRulesForAction_def cloudRotationOperation_def)
  with assms show thesis
    by (intro that [OF op rules]) (auto simp: admitWrite_def Let_def list_all_iff map_filter_Nil dest!: foldl_worst_None split: option.splits)
qed

text \<open>One admitted write, seen from the bucket of a rule.\<close>

lemma admitted_bucket:
  assumes run: "reserveCloudRotationWrite now input t = Inr (t', WriteAllowed)"
    and c: "limitContext t (wi_accountId input) (wi_service input) = Inr c" and enabled: "lc_enabled c"
    and service: "wi_service input \<noteq> Lightsail"
    and rule: "cloudRotationLimitRules (wi_service input) (lc_effectivePercent c) = Inr rules" "rule \<in> set rules"
    and bucket: "bucket = find_bucket (ct_buckets t) (lc_identityKey c) (lr_id rule) (bucket_region rule region)"
      "bucket' = find_bucket (ct_buckets t') (lc_identityKey c) (lr_id rule) (bucket_region rule region)"
  shows "limitContext t' accountId service' = limitContext t accountId service'"
    and "governed rule region input \<Longrightarrow> used_units rule (liveState rule bucket now) + 1 \<le> rat_of_int (lr_capacity rule) + 1 / 1000000000
      \<and> (\<exists>b. bucket' = Some b \<and> charged rule (liveState rule bucket now) now b)"
    and "\<not> governed rule region input \<Longrightarrow> bucket' = bucket"
proof -
  have dyn: "\<not> dynamic_action input" using service by (simp add: dynamic_action_def)
  from reserve_Allowed [OF run] c have "admitWrite now input c (limitBuckets t (lc_identityKey c)) t = Inr (t', WriteAllowed)" by auto
  from admitWrite_Allowed [OF this dyn] rule(1) obtain operation where
    op: "map_of (limitActions (wi_service input)) (wi_action input) = Some operation"
    and free: "list_all (\<lambda>rule. ruleRefusal c input rule (liveState rule (find_bucket (ct_buckets t) (lc_identityKey c) (lr_id rule)
        (bucket_region rule (wi_region input))) now) 0 False 0 now = None) (filter (\<lambda>rule. operation \<in> set (lr_operations rule)) rules)"
    and t': "t' = t\<lparr>ct_buckets := foldl (\<lambda>b rule. chargeBucket (lc_identityKey c) (wi_region input) now rule (liveState rule (find_bucket (ct_buckets t)
        (lc_identityKey c) (lr_id rule) (bucket_region rule (wi_region input))) now) b) (ct_buckets t) (filter (\<lambda>rule. operation \<in> set (lr_operations rule)) rules)\<rparr>"
    by auto
  show "limitContext t' accountId service' = limitContext t accountId service'" by (simp add: t' limitContext_buckets)
  have distinct: "distinct (map lr_id rules)" by (rule limitRules_distinct [OF rule(1)])
  show "used_units rule (liveState rule bucket now) + 1 \<le> rat_of_int (lr_capacity rule) + 1 / 1000000000
      \<and> (\<exists>b. bucket' = Some b \<and> charged rule (liveState rule bucket now) now b)" if "governed rule region input"
  proof -
    from that op have r: "rule \<in> set (filter (\<lambda>rule. operation \<in> set (lr_operations rule)) rules)"
      "bucket_region rule (wi_region input) = bucket_region rule region"
      using rule(2) by (auto simp: governed_def)
    from free r have "ruleRefusal c input rule (liveState rule bucket now) 0 False 0 now = None"
      by (auto simp: list_all_iff bucket(1))
    then have "used_units rule (liveState rule bucket now) + 1 \<le> rat_of_int (lr_capacity rule) + 1 / 1000000000"
      using enabled dyn by (auto simp: ruleRefusal_def Let_def used_units_def requiredUnits_def split: if_splits)
    moreover have "\<exists>b. bucket' = Some b \<and> charged rule (liveState rule bucket now) now b"
      using chargeBuckets_own [OF r(1) distinct_map_filter [OF distinct], where key = "lc_identityKey c"
          and region = "wi_region input" and now = now and t = "ct_buckets t" and live = "\<lambda>rule. liveState rule (find_bucket (ct_buckets t)
            (lc_identityKey c) (lr_id rule) (bucket_region rule (wi_region input))) now"]
      by (simp add: t' bucket r(2))
    ultimately show ?thesis by blast
  qed
  have other: "\<not> (lr_id r = lr_id rule \<and> bucket_region r (wi_region input) = bucket_region rule region)"
    if "\<not> governed rule region input" "r \<in> set (filter (\<lambda>rule. operation \<in> set (lr_operations rule)) rules)" for r
  proof
    assume same: "lr_id r = lr_id rule \<and> bucket_region r (wi_region input) = bucket_region rule region"
    with that(2) have "r = rule" using distinct_map_eq [OF distinct _ rule(2)] by simp
    with same that op show False by (simp add: governed_def)
  qed
  show "bucket' = bucket" if "\<not> governed rule region input"
    unfolding bucket t' by simp (rule chargeBuckets_other, rule other [OF that])
qed


section \<open>Times of writes\<close>

abbreviation events_of :: "CloudRotationBucketRow option \<Rightarrow> int list" where
  "events_of bucket \<equiv> (case bucket of Some b \<Rightarrow> bk_events b | None \<Rightarrow> [])"

text \<open>The times of the writes of an identity that a rule governs, and those of them in the window that ends at \<open>x\<close>.\<close>

definition shares :: "CloudTables \<Rightarrow> CloudIdentityKey \<Rightarrow> CloudRotationWriteInput \<Rightarrow> bool" where
  "shares t key input = (case limitContext t (wi_accountId input) (wi_service input) of Inr c \<Rightarrow> lc_identityKey c = key | Inl _ \<Rightarrow> False)"

definition write_times ::
  "CloudTables \<Rightarrow> CloudIdentityKey \<Rightarrow> CloudRotationLimitRule \<Rightarrow> string \<Rightarrow> (int \<times> CloudRotationWriteInput) list \<Rightarrow> int list" where
  "write_times t key rule region writes = map fst (filter (\<lambda>(now, input). shares t key input \<and> governed rule region input) writes)"

definition in_window :: "int \<Rightarrow> int \<Rightarrow> int list \<Rightarrow> int list" where
  "in_window w x ts = filter (\<lambda>n. x - w * 1000 < n \<and> n \<le> x) ts"

lemma limitContext_reservations: "limitContext (t\<lparr>ct_buckets := x, ct_reservations := y\<rparr>) accountId service = limitContext t accountId service"
proof -
  have "percent_of (t\<lparr>ct_buckets := x, ct_reservations := y\<rparr>) = percent_of t" by (intro ext) (simp add: percent_of_def)
  then show ?thesis by (simp add: limitContext_def Let_def cong: option.case_cong if_cong)
qed

lemma limitContext_InrE:
  assumes "limitContext t accountId service = Inr c"
  obtains account ext where "select_one (\<lambda>a. ca_id a = accountId) (ct_accounts t) = Some account" "ca_externalAccountId account = Some ext"
    "lc_identityKey c = (ca_provider account, Some ext, service)"
    "lc_enabled c = (case select_one (\<lambda>s. lw_identityKey s = lc_identityKey c) (ct_limitSwitches t) of Some s \<Rightarrow> lw_enabled s | None \<Rightarrow> True)"
    "lc_effectivePercent c = foldr min (map (percent_of t service) (filter (\<lambda>a. ca_provider a = ca_provider account
       \<and> ca_externalAccountId a = Some ext) (ct_accounts t))) (percent_of t service account)"
  using assms by (auto simp: limitContext_def Let_def split: option.splits if_splits)

lemma foldr_min_member: "(y::int) \<in> set ys \<Longrightarrow> foldr min ys y = Min (set ys)"
proof -
  assume y: "y \<in> set ys"
  have "foldr min zs y = Min (insert y (set zs))" for zs by (induction zs) (auto simp: insert_commute)
  with y show ?thesis by (simp add: insert_absorb)
qed

text \<open>The local entries of one remote account see one budget.\<close>

lemma limitContext_shared:
  assumes "limitContext t accountId service = Inr c" and "limitContext t accountId' service' = Inr c'"
    and "lc_identityKey c' = lc_identityKey c"
  shows "service' = service" "lc_enabled c' = lc_enabled c" "lc_effectivePercent c' = lc_effectivePercent c"
proof -
  from limitContext_InrE [OF assms(1)] obtain a ext where a:
    "select_one (\<lambda>a. ca_id a = accountId) (ct_accounts t) = Some a" "ca_externalAccountId a = Some ext"
    "lc_identityKey c = (ca_provider a, Some ext, service)"
    "lc_enabled c = (case select_one (\<lambda>s. lw_identityKey s = lc_identityKey c) (ct_limitSwitches t) of Some s \<Rightarrow> lw_enabled s | None \<Rightarrow> True)"
    "lc_effectivePercent c = foldr min (map (percent_of t service) (filter (\<lambda>b. ca_provider b = ca_provider a
       \<and> ca_externalAccountId b = Some ext) (ct_accounts t))) (percent_of t service a)" by blast
  from limitContext_InrE [OF assms(2)] obtain b ext' where b:
    "select_one (\<lambda>a. ca_id a = accountId') (ct_accounts t) = Some b" "ca_externalAccountId b = Some ext'"
    "lc_identityKey c' = (ca_provider b, Some ext', service')"
    "lc_enabled c' = (case select_one (\<lambda>s. lw_identityKey s = lc_identityKey c') (ct_limitSwitches t) of Some s \<Rightarrow> lw_enabled s | None \<Rightarrow> True)"
    "lc_effectivePercent c' = foldr min (map (percent_of t service') (filter (\<lambda>a. ca_provider a = ca_provider b
       \<and> ca_externalAccountId a = Some ext') (ct_accounts t))) (percent_of t service' b)" by blast
  from a(3) b(3) assms(3) have same: "service' = service" "ext' = ext" "ca_provider b = ca_provider a" by auto
  show "service' = service" by (rule same(1))
  show "lc_enabled c' = lc_enabled c" using a(4) b(4) assms(3) by simp
  have member: "percent_of t service r \<in> set (map (percent_of t service) (filter (\<lambda>b. ca_provider b = ca_provider a
      \<and> ca_externalAccountId b = Some ext) (ct_accounts t)))"
    if "r \<in> set (ct_accounts t)" "ca_provider r = ca_provider a" "ca_externalAccountId r = Some ext" for r
    using that by auto
  show "lc_effectivePercent c' = lc_effectivePercent c"
    unfolding a(5) b(5) same
    using foldr_min_member [OF member, of a] foldr_min_member [OF member, of b] a(1,2) b(1,2) same
    by (auto dest!: select_one_Some)
qed

lemma find_bucket_other_key:
  "key' \<noteq> key \<Longrightarrow> find_bucket (foldl (\<lambda>b rule. chargeBucket key' region now rule (live rule) b) t rules) key ruleId rg = find_bucket t key ruleId rg"
proof (induction rules arbitrary: t)
  case (Cons r rules)
  then show ?case unfolding foldl_Cons by (simp add: chargeBucket_def Let_def find_bucket_put bucket_row_def)
qed simp

text \<open>A write of another identity leaves the bucket alone, and no write changes an identity's budget.\<close>

lemma admitted_other:
  assumes "reserveCloudRotationWrite now input t = Inr (t', WriteAllowed)"
  shows "limitContext t' accountId service' = limitContext t accountId service'"
    and "\<not> shares t key input \<Longrightarrow> find_bucket (ct_buckets t') key ruleId rg = find_bucket (ct_buckets t) key ruleId rg"
proof -
  from reserve_Allowed [OF assms] obtain c where c: "limitContext t (wi_accountId input) (wi_service input) = Inr c"
    and admit: "admitWrite now input c (limitBuckets t (lc_identityKey c)) t = Inr (t', WriteAllowed)" by blast
  from admit obtain live rules y where t': "t' = t\<lparr>ct_buckets := foldl (\<lambda>b rule. chargeBucket (lc_identityKey c) (wi_region input) now rule
      (live rule) b) (ct_buckets t) rules, ct_reservations := y\<rparr>"
    unfolding admitWrite_def Let_def by (clarsimp simp: bindE_eq_Inr split: option.splits)
  show "limitContext t' accountId service' = limitContext t accountId service'" by (simp add: t' limitContext_reservations)
  show "find_bucket (ct_buckets t') key ruleId rg = find_bucket (ct_buckets t) key ruleId rg" if "\<not> shares t key input"
  proof -
    from that c have "lc_identityKey c \<noteq> key" by (auto simp: shares_def)
    then show ?thesis by (simp add: t' find_bucket_other_key)
  qed
qed


lemma write_times_simps [simp]:
  "write_times t key rule region [] = []"
  "write_times t key rule region ((now, input) # writes) = (if shares t key input \<and> governed rule region input
     then now # write_times t key rule region writes else write_times t key rule region writes)"
  by (simp_all add: write_times_def)

lemma write_times_context:
  "(\<And>a s. limitContext t' a s = limitContext t a s) \<Longrightarrow> write_times t' key rule region writes = write_times t key rule region writes"
  by (simp add: write_times_def shares_def)

section \<open>Meters\<close>

text \<open>
  What a kind of bucket promises: it keeps track of the writes it was charged with (\<open>Inv\<close>) as time passes, and a charge it had
  room for leaves the history within bounds (\<open>Ok\<close>). Every run of requests then stays within bounds.
\<close>

locale write_meter =
  fixes governs :: "CloudRotationLimitRule \<Rightarrow> bool"
    and Inv :: "CloudRotationLimitRule \<Rightarrow> int \<Rightarrow> int list \<Rightarrow> CloudRotationBucketRow option \<Rightarrow> bool"
    and Ok :: "CloudRotationLimitRule \<Rightarrow> int list \<Rightarrow> bool"
  assumes start: "governs rule \<Longrightarrow> Inv rule lo [] bucket \<and> Ok rule []"
    and keep: "governs rule \<Longrightarrow> Inv rule lo ts bucket \<Longrightarrow> lo \<le> lo' \<Longrightarrow> Inv rule lo' ts bucket"
    and step: "governs rule \<Longrightarrow> Inv rule now ts bucket \<Longrightarrow> Ok rule ts
      \<Longrightarrow> used_units rule (liveState rule bucket now) + 1 \<le> rat_of_int (lr_capacity rule) + 1 / 1000000000
      \<Longrightarrow> charged rule (liveState rule bucket now) now b \<Longrightarrow> Inv rule now (ts @ [now]) (Some b) \<and> Ok rule (ts @ [now])"
begin

lemma run_invariant:
  assumes c: "limitContext t accountId service = Inr c" "lc_enabled c" "service \<noteq> Lightsail"
    and rules: "cloudRotationLimitRules service (lc_effectivePercent c) = Inr rules" "rule \<in> set rules"
    and kind: "governs rule"
    and order: "sorted (map fst requests)" "\<forall>n \<in> set (map fst requests). lo \<le> n"
    and r: "Inv rule lo ts (find_bucket (ct_buckets t) (lc_identityKey c) (lr_id rule) (bucket_region rule region))"
    and bound: "Ok rule ts"
  shows "Ok rule (ts @ write_times t (lc_identityKey c) rule region (snd (runWrites requests t)))"
  using c(1) order r bound
proof (induction requests arbitrary: t lo ts)
  case Nil
  then show ?case by simp
next
  case (Cons request requests)
  let ?key = "lc_identityKey c"
  let ?bucket = "\<lambda>t. find_bucket (ct_buckets t) ?key (lr_id rule) (bucket_region rule region)"
  obtain now input where request: "request = (now, input)" by (cases request)
  have sorted: "sorted (map fst requests)" "\<forall>n \<in> set (map fst requests). now \<le> n" "lo \<le> now"
    using Cons.prems(2,3) by (auto simp: request)
  have later: "Inv rule now ts (?bucket t)" by (rule keep [OF kind Cons.prems(4) sorted(3)])
  show ?case
  proof (cases "\<exists>t'. reserveCloudRotationWrite now input t = Inr (t', WriteAllowed)")
    case False
    then have "runWrites (request # requests) t = runWrites requests t"
      by (auto simp: request split: sum.split prod.split WriteAdmission.split)
    then show ?thesis using Cons.IH [OF Cons.prems(1) sorted(1,2) later Cons.prems(5)] by simp
  next
    case True
    then obtain t' where run: "reserveCloudRotationWrite now input t = Inr (t', WriteAllowed)" by blast
    have same: "limitContext t' a s = limitContext t a s" for a s by (rule admitted_other(1) [OF run])
    have runs: "snd (runWrites (request # requests) t) = (now, input) # snd (runWrites requests t')"
      by (simp add: request run split: prod.split)
    note IH = Cons.IH [of t', unfolded same, OF Cons.prems(1) sorted(1,2)]
    show ?thesis
    proof (cases "shares t ?key input \<and> governed rule region input")
      case True
      then obtain c' where c': "limitContext t (wi_accountId input) (wi_service input) = Inr c'" "lc_identityKey c' = ?key"
        by (auto simp: shares_def split: sum.splits)
      note shared = limitContext_shared [OF Cons.prems(1) c']
      from admitted_bucket(2) [OF run c'(1) _ _ _ rules(2) refl refl, of region] shared c(2,3) rules(1) True
      obtain b where room: "used_units rule (liveState rule (?bucket t) now) + 1 \<le> rat_of_int (lr_capacity rule) + 1 / 1000000000"
        and b: "?bucket t' = Some b" "charged rule (liveState rule (?bucket t) now) now b"
        by (auto simp: c'(2))
      note ws = step [OF kind later Cons.prems(5) room b(2)]
      show ?thesis
        using IH [of "ts @ [now]"] ws True by (simp add: runs b(1) write_times_context [OF same])
    next
      case False
      have "?bucket t' = ?bucket t"
      proof (cases "shares t ?key input")
        case True
        then obtain c' where c': "limitContext t (wi_accountId input) (wi_service input) = Inr c'" "lc_identityKey c' = ?key"
          by (auto simp: shares_def split: sum.splits)
        note shared = limitContext_shared [OF Cons.prems(1) c']
        from admitted_bucket(3) [OF run c'(1) _ _ _ rules(2) refl refl, of region] shared c(2,3) rules(1) True False
        show ?thesis by (simp add: c'(2))
      next
        case False
        then show ?thesis by (rule admitted_other(2) [OF run])
      qed
      with later have kept: "Inv rule now ts (?bucket t')" by simp
      have "write_times t ?key rule region ((now, input) # snd (runWrites requests t')) = write_times t' ?key rule region (snd (runWrites requests t'))"
        using False by (auto simp: write_times_context [OF same])
      with IH [OF kept Cons.prems(5)] show ?thesis by (simp only: runs)
    qed
  qed
qed

lemma run_ok:
  assumes "limitContext t accountId service = Inr c" "lc_enabled c" "service \<noteq> Lightsail"
    and "cloudRotationLimitRules service (lc_effectivePercent c) = Inr rules" "rule \<in> set rules" "governs rule"
    and "sorted (map fst requests)"
  shows "Ok rule (write_times t (lc_identityKey c) rule region (snd (runWrites requests t)))"
proof -
  have "\<exists>lo. \<forall>n \<in> set (map fst requests). lo \<le> n"
    using assms(7) by (cases requests) auto
  then obtain lo where "\<forall>n \<in> set (map fst requests). lo \<le> n" by blast
  from run_invariant [OF assms(1-7) this, of "[]" region] start [OF assms(6)] show ?thesis by simp
qed

end

section \<open>Sliding windows\<close>

text \<open>What the bucket remembers of the writes so far: all that may still count.\<close>

definition remembers :: "int \<Rightarrow> int \<Rightarrow> int list \<Rightarrow> CloudRotationBucketRow option \<Rightarrow> bool" where
  "remembers w lo ts bucket = ((\<forall>n \<in> set ts. n \<le> lo)
     \<and> (\<forall>x \<ge> lo. mset (filter (\<lambda>n. x - w * 1000 < n) ts) \<subseteq># mset (events_of bucket)))"

lemma remembers_mono: "remembers w lo ts bucket \<Longrightarrow> lo \<le> lo' \<Longrightarrow> remembers w lo' ts bucket"
  unfolding remembers_def by (meson order_trans)

lemma filter_mset_sub: "mset (filter P xs) \<subseteq># mset ys \<Longrightarrow> mset (filter P xs) \<subseteq># mset (filter P ys)"
  using multiset_filter_mono [of "mset (filter P xs)" "mset ys" P] by (simp add: filter_filter_mset)

lemma window_step:
  assumes r: "remembers w lo ts bucket" and now: "lo \<le> now" and rule: "lr_kind rule = SlidingWindow" "lr_windowSeconds rule = Some w" "0 < w"
    and room: "used_units rule (liveState rule bucket now) + 1 \<le> rat_of_int (lr_capacity rule) + 1 / 1000000000"
    and b: "charged rule (liveState rule bucket now) now b"
    and bound: "\<And>x. int (length (in_window w x ts)) \<le> lr_capacity rule"
  shows "remembers w now (ts @ [now]) (Some b)" and "int (length (in_window w x (ts @ [now]))) \<le> lr_capacity rule"
proof -
  let ?live = "filter (\<lambda>event. now - w * 1000 < event) (events_of bucket)"
  have live: "lv_events (liveState rule bucket now) = ?live" using rule(2) by (simp add: liveState_def Let_def)
  have sub: "mset (filter (\<lambda>n. now - w * 1000 < n) ts) \<subseteq># mset ?live"
    using r now by (intro filter_mset_sub) (auto simp: remembers_def)
  have old: "n \<le> now" if "n \<in> set ts" for n using r now that by (force simp: remembers_def)
  have room': "int (length ?live) + 1 \<le> lr_capacity rule"
  proof -
    have "rat_of_int (int (length ?live) + 1) \<le> rat_of_int (lr_capacity rule) + 1 / 1000000000"
      using room rule(1) by (simp add: used_units_def live)
    then show ?thesis by linarith
  qed
  show "remembers w now (ts @ [now]) (Some b)"
    unfolding remembers_def
  proof (intro conjI ballI allI impI)
    fix x assume x: "now \<le> x"
    have "mset (filter (\<lambda>n. x - w * 1000 < n) ts) \<subseteq># mset (filter (\<lambda>n. now - w * 1000 < n) ts)"
      using x by (induction ts) (auto simp: subset_mset.add_increasing2 intro: subset_mset.order_trans)
    also note sub
    finally have keep: "mset (filter (\<lambda>n. x - w * 1000 < n) ts) \<subseteq># mset ?live" .
    have "mset (filter (\<lambda>n. x - w * 1000 < n) [now]) \<subseteq># {#now#}" by simp
    from subset_mset.add_mono [OF keep this]
    have "mset (filter (\<lambda>n. x - w * 1000 < n) (ts @ [now])) \<subseteq># mset (?live @ [now])" by simp
    then show "mset (filter (\<lambda>n. x - w * 1000 < n) (ts @ [now])) \<subseteq># mset (events_of (Some b))"
      using b rule(1) by (simp add: charged_def live)
  qed (use old in auto)
  show "int (length (in_window w x (ts @ [now]))) \<le> lr_capacity rule"
  proof (cases "x - w * 1000 < now \<and> now \<le> x")
    case True
    have "in_window w x ts = filter (\<lambda>n. x - w * 1000 < n) ts"
      unfolding in_window_def using True old by (intro filter_cong) force+
    also have "length \<dots> \<le> length (filter (\<lambda>n. now - w * 1000 < n) ts)"
      using True by (induction ts) auto
    also have "\<dots> \<le> length ?live" using size_mset_mono [OF sub] by (simp only: size_mset)
    finally show ?thesis using True room' by (simp add: in_window_def)
  next
    case False
    then show ?thesis using bound [of x] by (auto simp: in_window_def)
  qed
qed

definition window_of :: "CloudRotationLimitRule \<Rightarrow> int" where
  "window_of rule = (case lr_windowSeconds rule of Some w \<Rightarrow> w | None \<Rightarrow> 0)"

definition is_window :: "CloudRotationLimitRule \<Rightarrow> bool" where
  "is_window rule = (lr_kind rule = SlidingWindow \<and> lr_windowSeconds rule = Some (window_of rule) \<and> 0 < window_of rule \<and> 1 \<le> lr_capacity rule)"

interpretation window: write_meter is_window "\<lambda>rule. remembers (window_of rule)"
  "\<lambda>rule ts. \<forall>x. int (length (in_window (window_of rule) x ts)) \<le> lr_capacity rule"
proof unfold_locales
  fix rule now ts bucket b
  assume "is_window rule" "remembers (window_of rule) now ts bucket" "\<forall>x. int (length (in_window (window_of rule) x ts)) \<le> lr_capacity rule"
    "used_units rule (liveState rule bucket now) + 1 \<le> rat_of_int (lr_capacity rule) + 1 / 1000000000"
    "charged rule (liveState rule bucket now) now b"
  then show "remembers (window_of rule) now (ts @ [now]) (Some b)
      \<and> (\<forall>x. int (length (in_window (window_of rule) x (ts @ [now]))) \<le> lr_capacity rule)"
    using window_step [of "window_of rule" now ts bucket now rule b] by (simp add: is_window_def)
qed (auto simp: is_window_def remembers_def in_window_def intro: order_trans)

section \<open>Token buckets\<close>

definition refill_of :: "CloudRotationLimitRule \<Rightarrow> rat" where
  "refill_of rule = (case lr_refillPerSecond rule of Some r \<Rightarrow> r | None \<Rightarrow> 0)"

definition is_bucket :: "CloudRotationLimitRule \<Rightarrow> bool" where
  "is_bucket rule = (lr_kind rule = TokenBucket \<and> 0 < refill_of rule \<and> 1 \<le> lr_capacity rule)"

text \<open>The debt accounts for every write since \<open>a\<close> that the refill has not paid.\<close>

definition owes :: "CloudRotationLimitRule \<Rightarrow> int \<Rightarrow> int list \<Rightarrow> CloudRotationBucketRow option \<Rightarrow> bool" where
  "owes rule lo ts bucket = ((\<forall>n \<in> set ts. n \<le> lo) \<and> (\<forall>a \<le> lo. rat_of_nat (length (filter (\<lambda>n. a \<le> n) ts))
     \<le> lv_debt (liveState rule bucket lo) + refill_of rule * (rat_of_int (lo - a) / 1000)))"

definition in_interval :: "int \<Rightarrow> int \<Rightarrow> int list \<Rightarrow> int list" where
  "in_interval a x ts = filter (\<lambda>n. a \<le> n \<and> n \<le> x) ts"

definition refill_bound :: "CloudRotationLimitRule \<Rightarrow> int \<Rightarrow> int \<Rightarrow> rat" where
  "refill_bound rule a x = rat_of_int (lr_capacity rule) + 1 / 1000000000 + refill_of rule * (rat_of_int (x - a) / 1000)"

lemma live_debt: "lv_debt (liveState rule bucket now) = max 0 ((case bucket of Some b \<Rightarrow> bk_debt b | None \<Rightarrow> 0)
    - rat_of_int (max 0 (now - (case bucket of Some b \<Rightarrow> bk_updatedAt b | None \<Rightarrow> now))) / 1000 * refill_of rule)"
  by (simp add: liveState_def Let_def refill_of_def)

lemma max_decay: "(x::rat) \<le> y + z \<Longrightarrow> 0 \<le> z \<Longrightarrow> max 0 (d - y) \<le> max 0 (d - x) + z"
  by (simp add: max_def)

lemma debt_decay:
  assumes "lo \<le> now" and "0 < refill_of rule"
  shows "lv_debt (liveState rule bucket lo) \<le> lv_debt (liveState rule bucket now) + refill_of rule * (rat_of_int (now - lo) / 1000)"
proof -
  let ?u = "\<lambda>n. case bucket of Some b \<Rightarrow> bk_updatedAt b | None \<Rightarrow> n"
  have "max 0 (now - ?u now) \<le> max 0 (lo - ?u lo) + (now - lo)" using assms(1) by (cases bucket) auto
  then have "rat_of_int (max 0 (now - ?u now)) \<le> rat_of_int (max 0 (lo - ?u lo) + (now - lo))" by (simp only: of_int_le_iff)
  then have "rat_of_int (max 0 (now - ?u now)) / 1000 * refill_of rule
      \<le> (rat_of_int (max 0 (lo - ?u lo)) + rat_of_int (now - lo)) / 1000 * refill_of rule"
    using assms(2) by (intro mult_right_mono divide_right_mono) auto
  also have "\<dots> = rat_of_int (max 0 (lo - ?u lo)) / 1000 * refill_of rule + refill_of rule * (rat_of_int (now - lo) / 1000)"
    by (simp add: add_divide_distrib distrib_right mult.commute [of "refill_of rule"])
  finally show ?thesis unfolding live_debt using assms by (intro max_decay) auto
qed


lemma owes_keep:
  assumes "is_bucket rule" and o: "owes rule lo ts bucket" and "lo \<le> lo'"
  shows "owes rule lo' ts bucket"
proof -
  let ?debt = "\<lambda>n. lv_debt (liveState rule bucket n)"
  have r: "0 < refill_of rule" using assms(1) by (simp add: is_bucket_def)
  have "rat_of_nat (length (filter (\<lambda>n. a \<le> n) ts)) \<le> ?debt lo' + refill_of rule * (rat_of_int (lo' - a) / 1000)" if a: "a \<le> lo'" for a
  proof (cases "a \<le> lo")
    case True
    with o have "rat_of_nat (length (filter (\<lambda>n. a \<le> n) ts)) \<le> ?debt lo + refill_of rule * (rat_of_int (lo - a) / 1000)"
      by (simp add: owes_def)
    moreover have "?debt lo \<le> ?debt lo' + refill_of rule * (rat_of_int (lo' - lo) / 1000)" by (rule debt_decay [OF assms(3) r])
    moreover have "refill_of rule * (rat_of_int (lo' - lo) / 1000) + refill_of rule * (rat_of_int (lo - a) / 1000)
        = refill_of rule * (rat_of_int (lo' - a) / 1000)" by (simp add: field_simps)
    ultimately show ?thesis by linarith
  next
    case False
    with o have "filter (\<lambda>n. a \<le> n) ts = []" by (force simp: owes_def filter_empty_conv)
    moreover have "0 \<le> refill_of rule * (rat_of_int (lo' - a) / 1000)" using r a by simp
    moreover have "0 \<le> ?debt lo'" by (simp add: live_debt)
    ultimately show ?thesis by simp
  qed
  with o assms(3) show ?thesis by (fastforce simp: owes_def)
qed

lemma bucket_step:
  assumes rule: "is_bucket rule" and o: "owes rule now ts bucket" and ok: "\<forall>a x. a \<le> x \<longrightarrow> rat_of_nat (length (in_interval a x ts)) \<le> refill_bound rule a x"
    and room: "used_units rule (liveState rule bucket now) + 1 \<le> rat_of_int (lr_capacity rule) + 1 / 1000000000"
    and b: "charged rule (liveState rule bucket now) now b"
  shows "owes rule now (ts @ [now]) (Some b)"
    and "a \<le> x \<Longrightarrow> rat_of_nat (length (in_interval a x (ts @ [now]))) \<le> refill_bound rule a x"
proof -
  let ?debt = "lv_debt (liveState rule bucket now)"
  have kind: "lr_kind rule = TokenBucket" "0 < refill_of rule" using rule by (simp_all add: is_bucket_def)
  have "0 \<le> ?debt" by (simp add: live_debt)
  then have after: "lv_debt (liveState rule (Some b) now) = ?debt + 1"
    using b kind(1) unfolding live_debt [of _ "Some b"] by (simp add: charged_def)
  have old: "n \<le> now" if "n \<in> set ts" for n using o that by (simp add: owes_def)
  show "owes rule now (ts @ [now]) (Some b)"
    using o after by (auto simp: owes_def)
  show "rat_of_nat (length (in_interval a x (ts @ [now]))) \<le> refill_bound rule a x" if ax: "a \<le> x"
  proof (cases "a \<le> now \<and> now \<le> x")
    case True
    have "in_interval a x ts = filter (\<lambda>n. a \<le> n) ts" unfolding in_interval_def using True old by (intro filter_cong) force+
    then have "rat_of_nat (length (in_interval a x ts)) \<le> ?debt + refill_of rule * (rat_of_int (now - a) / 1000)"
      using o True by (simp add: owes_def)
    moreover have "refill_of rule * (rat_of_int (now - a) / 1000) \<le> refill_of rule * (rat_of_int (x - a) / 1000)"
      using kind(2) True by simp
    moreover have "?debt + 1 \<le> rat_of_int (lr_capacity rule) + 1 / 1000000000" using room kind(1) by (simp add: used_units_def)
    moreover have "length (in_interval a x (ts @ [now])) = length (in_interval a x ts) + 1" using True by (simp add: in_interval_def)
    ultimately show ?thesis unfolding refill_bound_def by linarith
  next
    case False
    then have "in_interval a x (ts @ [now]) = in_interval a x ts" by (auto simp: in_interval_def)
    with ok ax show ?thesis by simp
  qed
qed

interpretation tokens: write_meter is_bucket owes
  "\<lambda>rule ts. \<forall>a x. a \<le> x \<longrightarrow> rat_of_nat (length (in_interval a x ts)) \<le> refill_bound rule a x"
proof unfold_locales
  fix rule lo bucket
  assume "is_bucket rule"
  then show "owes rule lo [] bucket \<and> (\<forall>a x. a \<le> x \<longrightarrow> rat_of_nat (length (in_interval a x [])) \<le> refill_bound rule a x)"
    by (auto simp: is_bucket_def owes_def in_interval_def refill_bound_def live_debt intro!: add_nonneg_nonneg)
next
  fix rule lo ts bucket lo'
  assume "is_bucket rule" "owes rule lo ts bucket" "lo \<le> lo'"
  then show "owes rule lo' ts bucket" by (rule owes_keep)
next
  fix rule now ts bucket b
  assume "is_bucket rule" "owes rule now ts bucket" "\<forall>a x. a \<le> x \<longrightarrow> rat_of_nat (length (in_interval a x ts)) \<le> refill_bound rule a x"
    "used_units rule (liveState rule bucket now) + 1 \<le> rat_of_int (lr_capacity rule) + 1 / 1000000000"
    "charged rule (liveState rule bucket now) now b"
  from bucket_step [OF this] show "owes rule now (ts @ [now]) (Some b)
      \<and> (\<forall>a x. a \<le> x \<longrightarrow> rat_of_nat (length (in_interval a x (ts @ [now]))) \<le> refill_bound rule a x)" by blast
qed

section \<open>Cooldowns\<close>

definition cooldowns_global :: "CloudTables \<Rightarrow> bool" where
  "cooldowns_global t = list_all (\<lambda>b. bk_ruleId b = ''cooldown'' \<longrightarrow> bk_region b = None) (ct_buckets t)"

lemma cooldownOf_bucket: "cooldowns_global t \<Longrightarrow> cooldownOf (limitBuckets t key) = find_bucket (ct_buckets t) key ''cooldown'' None"
proof -
  assume "cooldowns_global t"
  then have "cooldownOf (limitBuckets t key) = find_bucket (limitBuckets t key) key ''cooldown'' None"
    unfolding cooldownOf_def find_bucket_def cooldowns_global_def limitBuckets_def list_all_iff by (intro find_cong) auto
  then show ?thesis by simp
qed

lemma put_bucket_all:
  "list_all P t \<Longrightarrow> P new \<Longrightarrow> (\<And>b. P b \<Longrightarrow> P (f b)) \<Longrightarrow> list_all P (put_bucket new f t)"
  by (auto simp: put_bucket_def Let_def list_all_iff update_where_def)

lemma limitRules_ids: "cloudRotationLimitRules service percent = Inr rules \<Longrightarrow> rule \<in> set rules \<Longrightarrow> lr_id rule \<noteq> ''cooldown''"
  by (cases service) (auto simp: cloudRotationLimitRules_def Let_def bindE_eq_Inr limitBucket_def limitWindow_def limitOperations)

lemma chargeBuckets_global:
  "list_all (\<lambda>b. bk_ruleId b = ''cooldown'' \<longrightarrow> bk_region b = None) t \<Longrightarrow> (\<And>rule. rule \<in> set rules \<Longrightarrow> lr_id rule \<noteq> ''cooldown'')
    \<Longrightarrow> list_all (\<lambda>b. bk_ruleId b = ''cooldown'' \<longrightarrow> bk_region b = None) (foldl (\<lambda>b rule. chargeBucket key region now rule (live rule) b) t rules)"
proof (induction rules arbitrary: t)
  case (Cons r rules)
  then show ?case unfolding foldl_Cons
    by (intro Cons.IH) (auto simp: chargeBucket_def Let_def bucket_row_def intro!: put_bucket_all)
qed simp

lemma admitted_global:
  assumes "reserveCloudRotationWrite now input t = Inr (t', WriteAllowed)" and "cooldowns_global t"
  shows "cooldowns_global t'"
proof -
  from reserve_Allowed [OF assms(1)] obtain c where
    "admitWrite now input c (limitBuckets t (lc_identityKey c)) t = Inr (t', WriteAllowed)" by blast
  then obtain live rules y where rules: "cloudRotationRulesForAction (wi_service input) (wi_action input) (lc_effectivePercent c) = Inr rules"
    and t': "t' = t\<lparr>ct_buckets := foldl (\<lambda>b rule. chargeBucket (lc_identityKey c) (wi_region input) now rule
      (live rule) b) (ct_buckets t) rules, ct_reservations := y\<rparr>"
    unfolding admitWrite_def Let_def by (clarsimp simp: bindE_eq_Inr split: option.splits)
  from rules have "lr_id rule \<noteq> ''cooldown''" if "rule \<in> set rules" for rule
    using that by (auto simp: cloudRotationRulesForAction_def bindE_eq_Inr dest: limitRules_ids)
  with assms(2) show ?thesis unfolding cooldowns_global_def t' by (simp add: chargeBuckets_global)
qed

definition cooling :: "CloudTables \<Rightarrow> CloudIdentityKey \<Rightarrow> int \<Rightarrow> bool" where
  "cooling t key until = (cooldowns_global t \<and> Option.bind (find_bucket (ct_buckets t) key ''cooldown'' None) bk_cooldownUntil = Some until)"

lemma cooling_denies:
  assumes "cooling t key until" and "now < until" and "shares t key input"
  shows "reserveCloudRotationWrite now input t \<noteq> Inr (t', WriteAllowed)"
proof
  assume run: "reserveCloudRotationWrite now input t = Inr (t', WriteAllowed)"
  from assms(3) obtain c where c: "limitContext t (wi_accountId input) (wi_service input) = Inr c" "lc_identityKey c = key"
    by (auto simp: shares_def split: sum.splits)
  from assms(1) have "Option.bind (cooldownOf (limitBuckets t key)) bk_cooldownUntil = Some until"
    by (simp add: cooling_def cooldownOf_bucket)
  with run assms(2) c show False by (auto simp: reserveCloudRotationWrite_def Let_def bindE_eq_Inr split: if_splits)
qed

lemma cooling_run:
  assumes "cooling t key until" and "\<forall>(now, input) \<in> set requests. now < until"
  shows "write_times t key rule region (snd (runWrites requests t)) = []
    \<and> (\<forall>(now, input) \<in> set (snd (runWrites requests t)). \<not> shares t key input)"
  using assms
proof (induction requests arbitrary: t)
  case (Cons request requests)
  obtain now input where request: "request = (now, input)" by (cases request)
  show ?case
  proof (cases "\<exists>t'. reserveCloudRotationWrite now input t = Inr (t', WriteAllowed)")
    case False
    then have "runWrites (request # requests) t = runWrites requests t"
      by (auto simp: request split: sum.split prod.split WriteAdmission.split)
    with Cons show ?thesis by simp
  next
    case True
    then obtain t' where run: "reserveCloudRotationWrite now input t = Inr (t', WriteAllowed)" by blast
    have foreign: "\<not> shares t key input" using cooling_denies [OF Cons.prems(1)] Cons.prems(2) run by (auto simp: request)
    have same: "shares t' key = shares t key" by (intro ext) (simp add: shares_def admitted_other(1) [OF run])
    have "cooling t' key until"
      using Cons.prems(1) admitted_other(2) [OF run foreign] admitted_global [OF run] by (simp add: cooling_def)
    from Cons.IH [OF this] Cons.prems(2) show ?thesis
      using foreign same by (auto simp: request run write_times_def split: prod.splits)
  qed
qed simp

lemma throttled_cooling:
  assumes "cooldowns_global t" and "recordCloudRotationThrottle now accountId service action hint t = Inr (t', until)"
    and "limitContext t accountId service = Inr c"
  shows "cooling t' (lc_identityKey c) until" and "now + 60000 \<le> until"
proof -
  from assms(2,3) have until: "until = throttleUntil now (cooldownOf (limitBuckets t (lc_identityKey c))) hint"
    and t': "t' = t\<lparr>ct_buckets := put_bucket ((bucket_row (lc_identityKey c) ''cooldown'' None now)\<lparr>bk_cooldownUntil := Some until,
        bk_throttleCount := throttleCount now (cooldownOf (limitBuckets t (lc_identityKey c)))\<rparr>)
      (\<lambda>b. b\<lparr>bk_updatedAt := now, bk_cooldownUntil := Some until, bk_throttleCount := throttleCount now (cooldownOf (limitBuckets t (lc_identityKey c)))\<rparr>) (ct_buckets t)\<rparr>"
    by (auto simp: recordCloudRotationThrottle_def Let_def bindE_eq_Inr)
  have "cooldowns_global t'" using assms(1) unfolding t' cooldowns_global_def by (auto simp: bucket_row_def intro!: put_bucket_all)
  moreover have "Option.bind (find_bucket (ct_buckets t') (lc_identityKey c) ''cooldown'' None) bk_cooldownUntil = Some until"
    by (simp add: t' find_bucket_put bucket_row_def split: option.split)
  ultimately show "cooling t' (lc_identityKey c) until" by (simp add: cooling_def)
  have "60000 \<le> min 3600000 (60000 * 2 ^ nat (throttleCount now previous - 1) :: int)" for previous
    by (simp add: min_def)
  then show "now + 60000 \<le> until" unfolding until throttleUntil_def Let_def
    by (auto simp: le_max_iff_disj)
qed


section \<open>Properties\<close>


text \<open>In the same way the admitted writes of a token bucket never outrun its capacity plus what it refills in the meantime, at most
  the provider's own rate; the tolerance is the one the source grants its doubles.\<close>

theorem writes_within_rate:
  assumes "limitContext t accountId service = Inr c" and "lc_enabled c" and "service \<noteq> Lightsail"
    and "cloudRotationLimitRules service (lc_effectivePercent c) = Inr rules" and "rule \<in> set rules"
    and "lr_refillPerSecond rule = Some r" and "sorted (map fst requests)" and "a \<le> x"
  shows "rat_of_nat (length (in_interval a x (write_times t (lc_identityKey c) rule region (snd (runWrites requests t)))))
      \<le> rat_of_int (lr_capacity rule) + 1 / 1000000000 + r * (rat_of_int (x - a) / 1000)
    \<and> (\<exists>r'. lr_officialRefillPerSecond rule = Some r' \<and> r \<le> r')"
proof (rule conjI)
  have ok: "rule_ok rule" using limitRules_ok [OF assms(4)] assms(5) by (simp add: list_all_iff)
  then show "\<exists>r'. lr_officialRefillPerSecond rule = Some r' \<and> r \<le> r'"
    using assms(6) by (auto simp: rule_ok_def split: LimitKind.splits option.splits)
  from ok assms(6) have "is_bucket rule \<and> refill_of rule = r"
    by (auto simp: rule_ok_def is_bucket_def refill_of_def split: LimitKind.splits option.splits)
  with tokens.run_ok [OF assms(1-5) _ assms(7)] assms(8)
  show "rat_of_nat (length (in_interval a x (write_times t (lc_identityKey c) rule region (snd (runWrites requests t)))))
      \<le> rat_of_int (lr_capacity rule) + 1 / 1000000000 + r * (rat_of_int (x - a) / 1000)"
    by (auto simp: refill_bound_def)
qed

text \<open>Once the provider throttles an account, no write of the account is admitted for at least a minute, whichever entry submits it.\<close>

theorem throttle_blocks:
  assumes "cooldowns_global t" and "limitContext t accountId service = Inr c"
    and "recordCloudRotationThrottle now accountId service action hint t = Inr (t', until)"
    and "\<forall>(n, input) \<in> set requests. n < until"
  shows "(\<forall>(n, input) \<in> set (snd (runWrites requests t')). \<not> shares t' (lc_identityKey c) input) \<and> now + 60000 \<le> until"
  using cooling_run [OF throttled_cooling(1) [OF assms(1,3,2)] assms(4)] throttled_cooling(2) [OF assms(1,3,2)] by blast


section \<open>Examples\<close>

definition demo_account :: "CloudProvider \<Rightarrow> string \<Rightarrow> string \<Rightarrow> CloudAccountRow" where
  "demo_account provider i ext = \<lparr>ca_id = i, ca_ownerUserId = ''u1'', ca_provider = provider, ca_name = i, ca_regions = None,
     ca_externalAccountId = Some ext, ca_credentialCiphertext = [], ca_enabled = True\<rparr>"

definition demo_budget :: CloudTables where
  "demo_budget = no_cloud\<lparr>ct_accounts := [demo_account Linode ''a1'' ''E1'', demo_account Linode ''a2'' ''E1'', demo_account Aws ''a3'' ''E3'']\<rparr>"

definition demo_write :: "CloudService \<Rightarrow> string \<Rightarrow> string \<Rightarrow> string \<Rightarrow> CloudRotationWriteInput" where
  "demo_write service account stepId action = \<lparr>wi_accountId = account, wi_service = service, wi_region = ''us-east'', wi_stepId = stepId,
     wi_action = action, wi_idleCleanupId = None, wi_remainingSteps = []\<rparr>"

definition demo_writes :: "(int \<times> CloudRotationWriteInput) list" where
  "demo_writes = [(1000, demo_write LinodeCompute ''a1'' ''s1'' ''linode.instance.reboot''),
     (1500, demo_write Ec2 ''a3'' ''s3'' ''ec2.eip.allocate''), (2000, demo_write LinodeCompute ''a2'' ''s2'' ''linode.ipv4.release'')]"

definition demo_rule :: CloudRotationLimitRule where
  "demo_rule = limitWindow 80 ''linode.mutations'' (js_set (map snd (limitActions LinodeCompute))) 1600 60 GlobalScope"

definition demo_bucket :: CloudRotationLimitRule where
  "demo_bucket = limitBucket 80 ''ec2.AllocateAddress'' [''AllocateAddress''] 50 5"

definition demo_limits :: "CloudService \<Rightarrow> CloudProvider \<Rightarrow> string \<Rightarrow> LimitContext" where
  "demo_limits service provider ext = \<lparr>lc_identityKey = (provider, Some ext, service), lc_externalAccountId = ext,
     lc_enabled = True, lc_utilizationPercent = 80, lc_effectivePercent = 80\<rparr>"

lemma demo_budget_context:
  "limitContext demo_budget ''a1'' LinodeCompute = Inr (demo_limits LinodeCompute Linode ''E1'')"
  "limitContext demo_budget ''a3'' Ec2 = Inr (demo_limits Ec2 Aws ''E3'')"
  by code_simp+

lemma demo_budget_rules: "\<exists>rules. cloudRotationLimitRules LinodeCompute 80 = Inr rules \<and> demo_rule \<in> set rules"
  "\<exists>rules. cloudRotationLimitRules Ec2 80 = Inr rules \<and> demo_bucket \<in> set rules"
  by (simp_all add: cloudRotationLimitRules_def guardE_def bindE_def Let_def demo_rule_def demo_bucket_def limitOperations)

lemma demo_budget_runs:
  "write_times demo_budget (Linode, Some ''E1'', LinodeCompute) demo_rule ''us-east'' (snd (runWrites demo_writes demo_budget)) = [1000, 2000]"
  "write_times demo_budget (Aws, Some ''E3'', Ec2) demo_bucket ''us-east'' (snd (runWrites demo_writes demo_budget)) = [1500]"
  by code_simp+

lemma demo_writes_sorted: "sorted (map fst demo_writes)"
  by (simp add: demo_writes_def)


theorem writes_within_rate_witness:
  "rat_of_nat (length (in_interval 0 2000 [1500])) \<le> rat_of_int (lr_capacity demo_bucket) + 1 / 1000000000 + 4 * (rat_of_int (2000 - 0) / 1000)
    \<and> (\<exists>r. lr_officialRefillPerSecond demo_bucket = Some r \<and> 4 \<le> r)"
proof -
  obtain rules where rules: "cloudRotationLimitRules Ec2 (lc_effectivePercent (demo_limits Ec2 Aws ''E3'')) = Inr rules"
    "demo_bucket \<in> set rules" using demo_budget_rules(2) by (auto simp: demo_limits_def)
  have "lc_enabled (demo_limits Ec2 Aws ''E3'')" "lr_refillPerSecond demo_bucket = Some 4"
    by (simp_all add: demo_limits_def demo_bucket_def limitBucket_def)
  from writes_within_rate [OF demo_budget_context(2) this(1) _ rules this(2) demo_writes_sorted, of 0 2000 "''us-east''"]
  show ?thesis by (simp add: demo_limits_def demo_budget_runs)
qed

definition throttled_budget :: CloudTables where
  "throttled_budget = (case recordCloudRotationThrottle 500 ''a1'' LinodeCompute ''linode.instance.reboot'' None demo_budget of
     Inr (t, _) \<Rightarrow> t | Inl _ \<Rightarrow> demo_budget)"

lemma throttled_budget: "recordCloudRotationThrottle 500 ''a1'' LinodeCompute ''linode.instance.reboot'' None demo_budget = Inr (throttled_budget, 60500)"
  unfolding throttled_budget_def by code_simp

theorem throttle_blocks_witness:
  "list_all (\<lambda>(n, input). \<not> shares throttled_budget (Linode, Some ''E1'', LinodeCompute) input) (snd (runWrites demo_writes throttled_budget))
    \<and> (500::int) + 60000 \<le> 60500"
proof -
  have "cooldowns_global demo_budget" by code_simp
  from throttle_blocks [OF this demo_budget_context(1) throttled_budget, of demo_writes]
  show ?thesis unfolding list_all_iff by (simp add: demo_writes_def demo_limits_def)
qed

end
