(* ===== verification/Rotation_Leases.thy ===== *)
theory Rotation_Leases
  imports Rotation_Limits Rotation_Incidents
begin

text \<open>
  What the rotation worker holds while it works on a machine: the physical lease (\<open>apps/worker/src/rotation/rotation-lock.ts\<close>), the
  automatic retry (\<open>rotation-retry.ts\<close>) and the persistence extension of a service, which for Linode guards the temporary
  instance of an address swap (\<open>rotation-persistence-extensions.ts\<close>, \<open>linode-swap-state.ts\<close>,
  \<open>packages/db/src/rotation-temporary-instances.ts\<close>). A transaction reads the clock once.
\<close>

section \<open>The physical lease\<close>

record LeaseHandle =
  lh_physicalKey :: string
  lh_holder :: string
  lh_revision :: int

definition insert_lease :: "int \<Rightarrow> string \<Rightarrow> CloudTables \<Rightarrow> CloudTables" where
  "insert_lease now physicalKey t = (if list_ex (\<lambda>l. le_physicalKey l = physicalKey) (ct_leases t) then t
     else t\<lparr>ct_leases := ct_leases t @ [\<lparr>le_physicalKey = physicalKey, le_revision = 0, le_holder = None, le_expiresAt = now,
       le_incidentId = None, le_unresolvedStepId = None\<rparr>]\<rparr>)"

definition find_lease :: "string \<Rightarrow> CloudTables \<Rightarrow> RotationLeaseRow option" where
  "find_lease physicalKey t = select_one (\<lambda>l. le_physicalKey l = physicalKey) (ct_leases t)"

definition set_lease :: "string \<Rightarrow> (RotationLeaseRow \<Rightarrow> RotationLeaseRow) \<Rightarrow> CloudTables \<Rightarrow> CloudTables" where
  "set_lease physicalKey f t = t\<lparr>ct_leases := update_where (\<lambda>l. le_physicalKey l = physicalKey) f (ct_leases t)\<rparr>"

definition acquireRotationLease :: "int \<Rightarrow> string \<Rightarrow> string \<Rightarrow> CloudTables \<Rightarrow> CloudTables \<times> LeaseHandle option" where
  "acquireRotationLease now physicalKey holder t = (let t1 = insert_lease now physicalKey t in
     case find_lease physicalKey t1 of
       None \<Rightarrow> (t1, None)
     | Some row \<Rightarrow> if le_holder row \<noteq> None \<and> now < le_expiresAt row then (t1, None)
         else (set_lease physicalKey (\<lambda>l. l\<lparr>le_holder := Some holder, le_revision := le_revision row + 1, le_expiresAt := now + 45000\<rparr>) t1,
           Some \<lparr>lh_physicalKey = physicalKey, lh_holder = holder, lh_revision = le_revision row + 1\<rparr>))"

definition own_lease :: "LeaseHandle \<Rightarrow> RotationLeaseRow \<Rightarrow> bool" where
  "own_lease lease l = (le_physicalKey l = lh_physicalKey lease \<and> le_holder l = Some (lh_holder lease) \<and> le_revision l = lh_revision lease)"

definition verifyRotationLease :: "int \<Rightarrow> LeaseHandle \<Rightarrow> CloudTables \<Rightarrow> RotationLeaseRow option" where
  "verifyRotationLease now lease t = select_one (\<lambda>l. own_lease lease l \<and> now < le_expiresAt l) (ct_leases t)"

definition releaseRotationLease :: "int \<Rightarrow> LeaseHandle \<Rightarrow> CloudTables \<Rightarrow> CloudTables" where
  "releaseRotationLease now lease t = t\<lparr>ct_leases := update_where (own_lease lease) (\<lambda>l. l\<lparr>le_holder := None, le_expiresAt := now\<rparr>) (ct_leases t)\<rparr>"

section \<open>Automatic retry\<close>

definition retry_code :: "RotationIncidentRow \<Rightarrow> string \<Rightarrow> string" where
  "retry_code incident code = (if code = ''rate_limited'' then ''rotation_rate_limited''
     else if ri_phase incident = CleanupPhase then ''cleanup_failed'' else code)"

definition policy_value :: "RotationContext \<Rightarrow> (RotationPolicyRow \<Rightarrow> int) \<Rightarrow> int \<Rightarrow> int" where
  "policy_value c f fallback = (case cx_policy c of Some p \<Rightarrow> f p | None \<Rightarrow> fallback)"

definition exhaust_recovery :: "RotationContext \<Rightarrow> RotationIncidentRow \<Rightarrow> string \<Rightarrow> int \<Rightarrow> Database \<Rightarrow> Database" where
  "exhaust_recovery c incident code now d = rotationAudit incident ''rotation.recovery_exhausted'' None
     (JsonSnapshot (JObj [(''code'', JStr code), (''retries'', JNum (num_of_int (ri_recoveryRetries incident))),
       (''maxRetries'', JNum (num_of_int (policy_value c rp_maxRecoveryRetries 5)))]))
     (set_incident (ri_incidentId incident) (\<lambda>i. i\<lparr>ri_status := IncExhausted, ri_errorCode := Some ''recovery_retries_exhausted'',
       ri_lastRecoveryError := Some code, ri_recoveryRetryAt := None, ri_nextRunAt := now + 30000, ri_updatedAt := now\<rparr>) d)"

definition retry_time :: "RotationContext \<Rightarrow> int \<Rightarrow> int option \<Rightarrow> int" where
  "retry_time c now notBefore = max (now + policy_value c rp_minIntervalSeconds 60 * 1000) (case notBefore of Some n \<Rightarrow> n | None \<Rightarrow> 0)"

definition extend_observation :: "RotationContext \<Rightarrow> RotationIncidentRow \<Rightarrow> int \<Rightarrow> CloudTables \<Rightarrow> CloudTables" where
  "extend_observation c incident retryAt t = (if ri_phase incident = CloudPhase \<and> ri_currentAttemptId incident \<noteq> None
     then t\<lparr>ct_steps := update_where (\<lambda>s. Some (st_attemptId s) = ri_currentAttemptId incident \<and> (st_status s = SsInFlight \<or> st_status s = SsPending))
       (\<lambda>s. s\<lparr>st_observeDeadline := Some (retryAt + policy_value c rp_cloudWaitSeconds 120 * 1000)\<rparr>) (ct_steps t)\<rparr>
     else t)"

definition scheduleRotationRecovery ::
  "RotationContext \<Rightarrow> RotationIncidentRow \<Rightarrow> string \<Rightarrow> int \<Rightarrow> int option \<Rightarrow> Database \<Rightarrow> Database" where
  "scheduleRotationRecovery c incident code now notBefore d =
    (if ri_status incident = IncComplete \<or> ri_terminatedAt incident \<noteq> None \<or> ri_pausedByUserId incident \<noteq> None
        \<or> ri_errorCode incident = Some ''recovery_retries_exhausted'' then d
     else if (case ri_recoveryRetryAt incident of Some t \<Rightarrow> now < t | None \<Rightarrow> False) then d
     else if policy_value c rp_maxRecoveryRetries 5 \<le> ri_recoveryRetries incident then exhaust_recovery c incident code now d
     else (let retryAt = retry_time c now notBefore in
       rotationAudit incident ''rotation.auto_retry'' None
         (JsonSnapshot (JObj [(''code'', JStr code), (''retry'', JNum (num_of_int (ri_recoveryRetries incident + 1))),
           (''maxRetries'', JNum (num_of_int (policy_value c rp_maxRecoveryRetries 5))), (''retryAt'', JNum (num_of_int retryAt))]))
       (set_cloud (extend_observation c incident retryAt)
       (set_incident (ri_incidentId incident) (\<lambda>i. i\<lparr>ri_status := IncActive, ri_recoveryRetries := ri_recoveryRetries incident + 1,
         ri_recoveryRetryAt := Some retryAt, ri_lastRecoveryError := Some code, ri_errorCode := Some (retry_code incident code),
         ri_nextRunAt := retryAt, ri_updatedAt := now\<rparr>) d))))"

section \<open>Temporary instances\<close>

record LinodeTemporaryInstanceProof =
  tp_id :: string
  tp_region :: string
  tp_attemptId :: string
  tp_targetInstanceId :: string
  tp_originalAddress :: string
  tp_accountId :: string
  tp_externalAccountId :: string
  tp_label :: string
  tp_created :: string

definition str_of :: "json \<Rightarrow> string" where
  "str_of v = (case v of JStr s \<Rightarrow> s | _ \<Rightarrow> [])"

definition all_digits :: "string \<Rightarrow> bool" where
  "all_digits s = (s \<noteq> [] \<and> list_all (\<lambda>ch. 48 \<le> (of_char ch :: nat) \<and> (of_char ch :: nat) \<le> 57) s)"

definition linodeTemporaryInstanceProof :: "(string \<Rightarrow> nat) \<Rightarrow> json \<Rightarrow> LinodeTemporaryInstanceProof option" where
  "linodeTemporaryInstanceProof isIP receipt =
    (let proof = json_get (json_get receipt ''after'') ''temporaryInstance''; text = (\<lambda>k. str_of (json_get proof k));
         candidate = json_get proof ''candidateAddress'' in
     if \<not> list_all (\<lambda>k. text k \<noteq> []) [''id'', ''label'', ''created'', ''region'', ''attemptId'', ''targetInstanceId'', ''originalAddress'', ''type'',
          ''accountId'', ''externalAccountId''] then None
     else if \<not> all_digits (text ''id'') \<or> \<not> all_digits (text ''targetInstanceId'') \<or> text ''id'' = text ''targetInstanceId''
        \<or> isIP (text ''originalAddress'') \<noteq> 4 \<or> candidate \<noteq> JUndefined \<and> isIP (str_of candidate) \<noteq> 4 then None
     else Some \<lparr>tp_id = text ''id'', tp_region = text ''region'', tp_attemptId = text ''attemptId'', tp_targetInstanceId = text ''targetInstanceId'',
       tp_originalAddress = text ''originalAddress'', tp_accountId = text ''accountId'', tp_externalAccountId = text ''externalAccountId'',
       tp_label = text ''label'', tp_created = text ''created''\<rparr>)"

definition recordLinodeSwapState ::
  "physical_key \<Rightarrow> (string \<Rightarrow> nat) \<Rightarrow> RotationContext \<Rightarrow> string \<Rightarrow> string \<Rightarrow> (string \<times> json) list \<Rightarrow> bool \<Rightarrow> int \<Rightarrow> string \<Rightarrow> CloudTables
    \<Rightarrow> CloudTables \<times> bool" where
  "recordLinodeSwapState pk isIP c incidentId attemptId receipt appliedSwap now stepId t =
    (case linodeTemporaryInstanceProof isIP (JObj receipt) of
       None \<Rightarrow> (t, False)
     | Some proof \<Rightarrow>
         if tp_accountId proof \<noteq> ca_id (cx_account c) \<or> Some (tp_externalAccountId proof) \<noteq> ca_externalAccountId (cx_account c)
            \<or> tp_targetInstanceId proof \<noteq> cin_externalId (cx_instance c) \<or> tp_region proof \<noteq> cin_region (cx_instance c)
            \<or> tp_attemptId proof \<noteq> attemptId then (t, False)
         else (let physicalKey = pk Linode (Some (tp_externalAccountId proof)) LinodeCompute (tp_region proof) (tp_id proof) in
           if instanceLifecycleBlocksRotation t physicalKey then (t, False)
           else (let t1 = insert_lease now physicalKey t in
             case find_lease physicalKey t1 of
               None \<Rightarrow> (t1, False)
             | Some lease \<Rightarrow>
                 if le_incidentId lease \<noteq> None \<and> le_incidentId lease \<noteq> Some incidentId
                    \<or> le_unresolvedStepId lease \<noteq> None \<and> le_unresolvedStepId lease \<noteq> Some stepId
                    \<or> le_holder lease \<noteq> None \<and> now < le_expiresAt lease then (t1, False)
                 else (let t2 = set_lease physicalKey (\<lambda>l. l\<lparr>le_incidentId := Some incidentId\<rparr>) t1 in
                   if \<not> appliedSwap then (t2, True)
                   else (case select_one (\<lambda>r. re_attemptId r = attemptId \<and> re_role r = OriginalRole) (ct_resources t2) of
                       None \<Rightarrow> (t2, False)
                     | Some original \<Rightarrow>
                         if re_address original \<noteq> tp_originalAddress proof then (t2, False)
                         else (t2\<lparr>ct_resources := update_where (\<lambda>r. re_id r = re_id original)
                             (\<lambda>r. r\<lparr>re_attached := False, re_snapshot := JObj (put_entry ''linodeSwapReceipt'' (JObj receipt)
                               (case re_snapshot original of JObj es \<Rightarrow> es | _ \<Rightarrow> []))\<rparr>) (ct_resources t2)\<rparr>, True))))))"

section \<open>Persistence extensions\<close>

definition plan_arg :: "CloudStep \<Rightarrow> string \<Rightarrow> json" where
  "plan_arg plan k = json_get (JObj (pl_arguments plan)) k"

definition swap_strategy :: "CloudStep \<Rightarrow> bool" where
  "swap_strategy plan = (plan_arg plan ''linodeIpv4Strategy'' = JStr ''instance_swap'')"

definition authorizeLinodeStep ::
  "physical_key \<Rightarrow> (string \<Rightarrow> nat) \<Rightarrow> RotationContext \<Rightarrow> string \<Rightarrow> CloudStep \<Rightarrow> json \<Rightarrow> int \<Rightarrow> CloudTables \<Rightarrow> CodeError + string option" where
  "authorizeLinodeStep pk isIP c incidentId plan allocation now t =
    bindE (if pl_action plan \<in> {''linode.instance.reboot'', ''linode.instance.stop'', ''linode.instance.start''}
      then (case cx_authorization c of None \<Rightarrow> Inl ''type_error'' | Some a \<Rightarrow> guardE (ia_allowStopStart a) ''stop_not_authorized'')
      else Inr ()) (\<lambda>_.
    let cleanup = pl_action plan = ''linode.swap.delete'' in
    if \<not> cleanup \<and> \<not> swap_strategy plan then Inr None
    else bindE (guardE (case cx_policy c of Some p \<Rightarrow> rp_linodeAllowTemporaryInstance p | None \<Rightarrow> False)
      ''rotation_temporary_instance_not_authorized'') (\<lambda>_.
    if \<not> cleanup \<and> pl_action plan = ''linode.swap.allocate'' then Inr None
    else (case linodeTemporaryInstanceProof isIP (if cleanup then plan_arg plan ''linodeSwapReceipt'' else allocation) of
        None \<Rightarrow> Inl ''rotation_temporary_instance_busy''
      | Some proof \<Rightarrow>
          (let key = pk Linode (ca_externalAccountId (cx_account c)) LinodeCompute (cin_region (cx_instance c)) (tp_id proof) in
           case find_lease key t of
             None \<Rightarrow> Inl ''rotation_temporary_instance_busy''
           | Some peer \<Rightarrow>
               if le_incidentId peer \<noteq> Some incidentId \<or> le_unresolvedStepId peer \<noteq> None \<or> le_holder peer \<noteq> None \<and> now < le_expiresAt peer
               then Inl ''rotation_temporary_instance_busy'' else Inr (Some key)))))"

definition linodeReceiptsConflict :: "(string \<Rightarrow> nat) \<Rightarrow> json \<Rightarrow> json \<Rightarrow> bool" where
  "linodeReceiptsConflict isIP old new = (case (linodeTemporaryInstanceProof isIP old, linodeTemporaryInstanceProof isIP new) of
     (Some a, Some b) \<Rightarrow> tp_id a \<noteq> tp_id b | _ \<Rightarrow> False)"

text \<open>The extension of a service; every service but Linode has the defaults.\<close>

definition authorizeStep ::
  "physical_key \<Rightarrow> (string \<Rightarrow> nat) \<Rightarrow> RotationContext \<Rightarrow> string \<Rightarrow> CloudStep \<Rightarrow> json \<Rightarrow> int \<Rightarrow> CloudTables \<Rightarrow> CodeError + string option" where
  "authorizeStep pk isIP c incidentId plan allocation now t = (if cin_service (cx_instance c) = LinodeCompute
     then authorizeLinodeStep pk isIP c incidentId plan allocation now t else Inr None)"

definition receiptsConflict :: "(string \<Rightarrow> nat) \<Rightarrow> RotationContext \<Rightarrow> json \<Rightarrow> json \<Rightarrow> bool" where
  "receiptsConflict isIP c old new = (cin_service (cx_instance c) = LinodeCompute \<and> linodeReceiptsConflict isIP old new)"

definition recordReceipt ::
  "physical_key \<Rightarrow> (string \<Rightarrow> nat) \<Rightarrow> RotationContext \<Rightarrow> string \<Rightarrow> string \<Rightarrow> (string \<times> json) list \<Rightarrow> CloudStep \<Rightarrow> bool \<Rightarrow> int \<Rightarrow> string \<Rightarrow> CloudTables
    \<Rightarrow> CloudTables \<times> bool" where
  "recordReceipt pk isIP c incidentId attemptId receipt plan applied now stepId t =
    (if cin_service (cx_instance c) \<noteq> LinodeCompute \<or> \<not> swap_strategy plan
        \<or> falsy (json_get (json_get (JObj receipt) ''after'') ''temporaryInstance'') then (t, True)
     else recordLinodeSwapState pk isIP c incidentId attemptId receipt (pl_action plan = ''linode.ipv4.swap'' \<and> applied) now stepId t)"

record PersistedOptions =
  po_allowStop :: bool
  po_linodeRestartMode :: LinodeRestartMode
  po_linodeIpv4Strategy :: LinodeIpv4Strategy
  po_linodeSwapPlan :: string
  po_allowTemporaryInstance :: bool

definition persistedRotationOptions :: "RotationContext \<Rightarrow> CodeError + PersistedOptions" where
  "persistedRotationOptions c = (case cx_authorization c of
     None \<Rightarrow> Inl ''type_error''
   | Some a \<Rightarrow> Inr \<lparr>po_allowStop = ia_allowStopStart a,
       po_linodeRestartMode = (case cx_policy c of Some p \<Rightarrow> rp_linodeRestartMode p | None \<Rightarrow> Reboot),
       po_linodeIpv4Strategy = (case cx_policy c of Some p \<Rightarrow> rp_linodeIpv4Strategy p | None \<Rightarrow> AdditionalIpv4),
       po_linodeSwapPlan = (case cx_policy c of Some p \<Rightarrow> rp_linodeSwapPlan p | None \<Rightarrow> ''g6-nanode-1''),
       po_allowTemporaryInstance = (case cx_policy c of Some p \<Rightarrow> rp_linodeAllowTemporaryInstance p | None \<Rightarrow> False)\<rparr>)"
section \<open>Retries end\<close>

text \<open>A failure of the run and what it asks for: its code, when it happens and the provider's earliest retry.\<close>

type_synonym failure = "string \<times> int \<times> int option"

definition failed_run :: "RotationContext \<Rightarrow> string \<Rightarrow> failure \<Rightarrow> Database \<Rightarrow> Database" where
  "failed_run c i x d = (case (find_incident d i, x) of
     (Some incident, code, now, notBefore) \<Rightarrow> scheduleRotationRecovery c incident code now notBefore d | _ \<Rightarrow> d)"

text \<open>Each failure of the sequence comes when the retry before it is due.\<close>

fun due :: "RotationContext \<Rightarrow> int option \<Rightarrow> failure list \<Rightarrow> bool" where
  "due c since [] = True"
| "due c since ((code, now, notBefore) # xs) = ((case since of Some t \<Rightarrow> t \<le> now | None \<Rightarrow> True) \<and> due c (Some (retry_time c now notBefore)) xs)"

definition retrying :: "RotationIncidentRow \<Rightarrow> bool" where
  "retrying x = (ri_status x \<noteq> IncComplete \<and> ri_terminatedAt x = None \<and> ri_pausedByUserId x = None)"

definition given_up :: "RotationIncidentRow \<Rightarrow> bool" where
  "given_up x = (ri_status x = IncExhausted \<and> ri_errorCode x = Some ''recovery_retries_exhausted'' \<and> ri_recoveryRetryAt x = None)"

lemma find_set_incident:
  assumes "find_incident d i = Some x" and "\<And>y. ri_incidentId (f y) = ri_incidentId y"
  shows "find_incident (set_incident i f d) i = Some (f x)"
proof -
  have "select_one (\<lambda>x. ri_incidentId x = i) (update_where (\<lambda>x. ri_incidentId x = i) f t) = map_option f (select_one (\<lambda>x. ri_incidentId x = i) t)" for t
    by (induction t) (simp_all add: select_one_def update_where_def assms(2))
  with assms(1) show ?thesis by (simp add: find_incident_def set_incident_def set_cloud_def)
qed

lemma find_incident_simps [simp]:
  "find_incident (rotationAudit x a u s d) i = find_incident d i"
  "find_incident (set_cloud (extend_observation c x r) d) i = find_incident d i"
  by (simp_all add: find_incident_def rotationAudit_def set_cloud_def extend_observation_def)

lemma retry_counts:
  assumes f: "find_incident d i = Some x" and "retrying x" "ri_errorCode x \<noteq> Some ''recovery_retries_exhausted''"
    and "case ri_recoveryRetryAt x of Some t \<Rightarrow> t \<le> now | None \<Rightarrow> True" and "ri_recoveryRetries x < policy_value c rp_maxRecoveryRetries 5"
  shows "\<exists>y. find_incident (failed_run c i (code, now, notBefore) d) i = Some y \<and> retrying y \<and> ri_recoveryRetries y = ri_recoveryRetries x + 1
    \<and> ri_recoveryRetryAt y = Some (retry_time c now notBefore) \<and> ri_errorCode y = Some (retry_code x code)"
proof -
  have i: "ri_incidentId x = i" using f by (auto simp: find_incident_def dest: select_one_Some)
  show ?thesis
    using assms by (auto simp: failed_run_def scheduleRotationRecovery_def retrying_def Let_def i find_set_incident split: option.splits)
qed


lemma retry_gives_up:
  assumes f: "find_incident d i = Some x" and "retrying x" "ri_errorCode x \<noteq> Some ''recovery_retries_exhausted''"
    and "case ri_recoveryRetryAt x of Some t \<Rightarrow> t \<le> now | None \<Rightarrow> True" and "\<not> ri_recoveryRetries x < policy_value c rp_maxRecoveryRetries 5"
  shows "\<exists>y. find_incident (failed_run c i (code, now, notBefore) d) i = Some y \<and> given_up y \<and> ri_recoveryRetries y = ri_recoveryRetries x"
proof -
  have i: "ri_incidentId x = i" using f by (auto simp: find_incident_def dest: select_one_Some)
  show ?thesis
    using assms by (auto simp: failed_run_def scheduleRotationRecovery_def exhaust_recovery_def retrying_def given_up_def i find_set_incident split: option.splits)
qed

lemma given_up_stays:
  assumes "find_incident d i = Some x" and "given_up x"
  shows "failed_run c i z d = d"
  using assms by (cases z) (simp add: failed_run_def scheduleRotationRecovery_def given_up_def)

lemma given_up_end:
  assumes "find_incident d i = Some x" and "given_up x"
  shows "fold (failed_run c i) zs d = d"
  using assms by (induction zs) (simp_all add: given_up_stays)

text \<open>C30: Automatic retries end: failures that each come when the last retry was due, one more of them than the policy still allows retries,
  leave a running rotation exhausted with no further retry scheduled, and its retry count at the policy's bound.\<close>

theorem recovery_gives_up:
  assumes "find_incident d i = Some x" and "retrying x" and "ri_errorCode x \<noteq> Some ''recovery_retries_exhausted''"
    and "due c (ri_recoveryRetryAt x) zs" and "\<forall>z \<in> set zs. fst z \<noteq> ''recovery_retries_exhausted''"
    and "policy_value c rp_maxRecoveryRetries 5 - ri_recoveryRetries x < int (length zs)"
    and "ri_recoveryRetries x \<le> policy_value c rp_maxRecoveryRetries 5"
  shows "\<exists>y. find_incident (fold (failed_run c i) zs d) i = Some y \<and> given_up y \<and> ri_recoveryRetries y = policy_value c rp_maxRecoveryRetries 5"
  using assms
proof (induction zs arbitrary: d x)
  case (Cons z zs)
  obtain code now notBefore where z: "z = (code, now, notBefore)" by (cases z)
  have since: "case ri_recoveryRetryAt x of Some t \<Rightarrow> t \<le> now | None \<Rightarrow> True" using Cons.prems(4) by (simp add: z)
  show ?case
  proof (cases "ri_recoveryRetries x < policy_value c rp_maxRecoveryRetries 5")
    case True
    from retry_counts [OF Cons.prems(1-3) since this, of code notBefore] obtain y where
      y: "find_incident (failed_run c i z d) i = Some y" "retrying y" "ri_recoveryRetries y = ri_recoveryRetries x + 1"
      "ri_recoveryRetryAt y = Some (retry_time c now notBefore)" "ri_errorCode y = Some (retry_code x code)" unfolding z by blast
    have "ri_errorCode y \<noteq> Some ''recovery_retries_exhausted''" using Cons.prems(5) by (simp add: y(5) z retry_code_def)
    from Cons.IH [OF y(1,2) this] Cons.prems(4-6) y(3,4) True show ?thesis by (simp add: z)
  next
    case False
    from retry_gives_up [OF Cons.prems(1-3) since this, of code notBefore] obtain y where
      y: "find_incident (failed_run c i z d) i = Some y" "given_up y" "ri_recoveryRetries y = ri_recoveryRetries x" unfolding z by blast
    from given_up_end [OF y(1,2)] y False Cons.prems(7) show ?thesis by simp
  qed
qed simp


definition demo_failures :: "failure list" where
  "demo_failures = map (\<lambda>k. (''temporary_cloud_error'', 2000 + 60000 * k, None)) [0, 1, 2, 3, 4, 5]"

theorem recovery_gives_up_witness:
  "\<exists>y. find_incident (fold (failed_run demo_context ''inc1'') demo_failures manual_start) ''inc1'' = Some y \<and> given_up y \<and> ri_recoveryRetries y = 5"
proof -
  have five: "policy_value demo_context rp_maxRecoveryRetries 5 = 5" by code_simp
  show ?thesis
    by (rule recovery_gives_up [OF manual_start_incident(1), of demo_context demo_failures, unfolded five]) code_simp+
qed

end
