(* ===== verification/Rotation_Store.thy ===== *)
theory Rotation_Store
  imports Rotation_Leases
begin

text \<open>
  The store of the rotation worker, \<open>apps/worker/src/rotation/rotation-store.ts\<close>: how the rows of an incident become the snapshot of the
  rotation machine, and the transactions that carry out its action. A transaction is a function of the database that may throw, in
  which case nothing is written; it reads the clock once. The planner of a service, \<open>isIP\<close>, the text of a physical key and the
  random identifiers are parameters. Rows are looked up as the primary and unique keys allow.
\<close>

section \<open>Parameters\<close>

record SlotRef =
  sl_accountId :: string
  sl_service :: CloudService
  sl_region :: string
  sl_instanceId :: string
  sl_interfaceId :: string
  sl_slotId :: string
  sl_address :: string
  sl_family :: Family

record StoreEnv =
  ne_physicalKey :: physical_key
  ne_isIP :: "string \<Rightarrow> nat"
  ne_plan :: "SlotRef \<Rightarrow> json \<Rightarrow> PersistedOptions \<Rightarrow> string \<Rightarrow> CodeError + CloudStep list"

record FreshIds =
  fi_attempt :: string
  fi_resource :: string
  fi_address :: string
  fi_publication :: string

record AdapterIdentity =
  ai_credentialCiphertext :: string
  ai_externalAccountId :: "string option"

definition recoveryErrors :: "string list" where
  "recoveryErrors = [''rotation_runtime_failed'', ''rotation_call_timeout'', ''cloud_convergence_timeout'', ''temporary_cloud_error'',
     ''unknown_cloud_error'', ''cloud_operation_failed'', ''cloud_not_applied'', ''rate_limited'']"

definition recoverable :: "string option \<Rightarrow> bool" where
  "recoverable code = (case code of Some e \<Rightarrow> e \<in> set recoveryErrors | None \<Rightarrow> False)"

section \<open>The snapshot\<close>

definition rejection_of :: "string \<Rightarrow> RotationCloudRejection" where
  "rejection_of code = (case map_of [(''permission_denied'', PermissionDenied), (''quota_exceeded'', QuotaExceeded),
     (''credentials_expired'', CredentialsExpired), (''invalid_credentials'', InvalidCredentials), (''rate_limited'', RateLimited),
     (''temporary_cloud_error'', TemporaryCloudError), (''unknown_cloud_error'', UnknownCloudError), (''rotation_unsupported'', RotationUnsupported),
     (''cloud_writes_not_enabled'', CloudWritesNotEnabled), (''remote_identity_changed'', RemoteIdentityChanged),
     (''resource_not_found'', ResourceNotFound)] code of Some r \<Rightarrow> r | None \<Rightarrow> OtherRejection code)"

definition stepSnapshot :: "RotationStepRow \<Rightarrow> CodeError + RotationStepSnapshot" where
  "stepSnapshot s = bindE (case st_status s of
       SsPending \<Rightarrow> (case st_observeDeadline s of Some t \<Rightarrow> Inr (StepPending (num_of_int t)) | None \<Rightarrow> Inl ''type_error'')
     | SsInFlight \<Rightarrow> (case st_observeDeadline s of Some t \<Rightarrow> Inr (StepInFlight (num_of_int t)) | None \<Rightarrow> Inl ''type_error'')
     | SsRejected \<Rightarrow> Inr (StepRejected (rejection_of (case st_errorCode s of Some e \<Rightarrow> e | None \<Rightarrow> [])) (map_option num_of_int (st_retryAt s)))
     | SsPrepared \<Rightarrow> Inr StepPrepared | SsApplied \<Rightarrow> Inr StepApplied | SsNotApplied \<Rightarrow> Inr StepNotApplied
     | SsAmbiguous \<Rightarrow> Inr StepAmbiguous | SsAbandoned \<Rightarrow> Inr StepAbandoned)
   (\<lambda>status. Inr \<lparr>rs_stepId = st_id s, rs_status = status\<rparr>)"

definition cleanup_step :: "RotationStepRow \<Rightarrow> bool" where
  "cleanup_step s = (plan_arg (st_plan s) ''phase'' = JStr ''post_publish_cleanup'')"

definition rotation_step :: "RotationStepRow \<Rightarrow> bool" where
  "rotation_step s = (plan_arg (st_plan s) ''phase'' = JStr ''rotation'')"

definition attemptSnapshot :: "RotationAttemptRow \<Rightarrow> RotationStepRow list \<Rightarrow> CodeError + RotationAttempt" where
  "attemptSnapshot a steps = bindE (mapE stepSnapshot (filter (\<lambda>s. \<not> cleanup_step s) steps)) (\<lambda>ss.
     Inr \<lparr>at_attemptId = ra_id a, at_segmentId = ra_segmentId a, at_charged = ra_charged a, at_steps = ss\<rparr>)"

definition authorizationSnapshot :: "RotationContext \<Rightarrow> RotationIncidentRow \<Rightarrow> RotationAuthorization" where
  "authorizationSnapshot c incident = \<lparr>ra_managed = account_authorized c,
     ra_familyEnabled = ((ri_rotationTrigger incident \<noteq> HealthTrigger \<or> (case cx_policy c of Some p \<Rightarrow> rp_enabled p | None \<Rightarrow> False)) \<and> family_allowed c),
     ra_present = (\<not> resource_missing c), ra_regionAllowed = (\<not> region_excluded c), ra_conflictingManager = cx_conflictingManager c,
     ra_lifecycleBlocked = cx_lifecycleBlocked c\<rparr>"

definition evidenceSnapshot :: "RotationHealth \<Rightarrow> RotationEvidence option" where
  "evidenceSnapshot h = (case rh_state h of None \<Rightarrow> None | Some s \<Rightarrow>
     (case (hs_lastCheckedAt s, hs_evidenceExpiresAt s) of
        (Some checked, Some expires) \<Rightarrow> if rh_matches h then Some \<lparr>ev_addressVersion = num_of_int (hs_addressVersion s),
          ev_probeConfigRevision = num_of_int (hs_configVersion s), ev_decision = hs_latestDecision s,
          ev_consecutiveSuccesses = num_of_int (hs_consecutiveSuccesses s), ev_consecutiveFailures = num_of_int (hs_consecutiveFailures s),
          ev_observedAt = num_of_int checked, ev_expiresAt = num_of_int expires\<rparr> else None
      | _ \<Rightarrow> None))"

definition candidateSnapshot :: "RotationContext \<Rightarrow> RotationIncidentRow \<Rightarrow> RotationHealth \<Rightarrow> RotationCandidate option" where
  "candidateSnapshot c incident h = (case (ms_candidateAddressId (cx_slot c), rh_policy h, rh_config h) of
     (Some _, Some p, Some k) \<Rightarrow> Some \<lparr>rc_addressVersion = num_of_int (ms_candidateVersion (cx_slot c)), rc_probeConfigRevision = num_of_int (hc_revision k),
       rc_successThreshold = num_of_int (hp_successThreshold p), rc_failureThreshold = num_of_int (hp_failureThreshold p),
       rc_probeWindowEndsAt = num_of_int (case ri_candidateDeadline incident of Some t \<Rightarrow> t | None \<Rightarrow> rh_now h),
       rc_nextProbeAt = num_of_int (case Option.bind (rh_state h) hs_nextRoundAt of Some t \<Rightarrow> t | None \<Rightarrow> rh_now h),
       rc_evidence = evidenceSnapshot h\<rparr>
   | _ \<Rightarrow> None)"

definition publicationSnapshot :: "RotationPublicationRow option \<Rightarrow> RotationPublication" where
  "publicationSnapshot publication = (case publication of None \<Rightarrow> PubPending | Some p \<Rightarrow> (case pb_status p of
     PbApplied \<Rightarrow> PubApplied (num_of_int (pb_addressVersion p)) | PbInFlight \<Rightarrow> PubInFlight (num_of_int (pb_addressVersion p))
   | PbFailed \<Rightarrow> PubFailed | PbPending \<Rightarrow> PubPending))"

definition rotationSnapshot ::
  "RotationContext \<Rightarrow> RotationIncidentRow \<Rightarrow> LeaseHandle \<Rightarrow> RotationHealth \<Rightarrow> RotationLeaseRow option \<Rightarrow> RotationBudgetSegmentRow
    \<Rightarrow> RotationAttempt option \<Rightarrow> RotationPublicationRow option \<Rightarrow> RotationSnapshot" where
  "rotationSnapshot c incident lease h physical budget attempt publication = \<lparr>rt_phase = ri_phase incident,
     rt_authorization = authorizationSnapshot c incident,
     rt_revisions = \<lparr>rv_authorization = num_of_int (case cx_authorization c of Some a \<Rightarrow> ia_revision a | None \<Rightarrow> 0),
       rv_policy = num_of_int (case cx_policy c of Some p \<Rightarrow> rp_revision p | None \<Rightarrow> 0), rv_address = num_of_int (cx_addressVersion c)\<rparr>,
     rt_expectedRevisions = \<lparr>rv_authorization = num_of_int (ri_authorizationRevision incident),
       rv_policy = num_of_int (ri_rotationPolicyRevision incident), rv_address = num_of_int (ri_addressVersion incident)\<rparr>,
     rt_lease = \<lparr>rl_held = (physical \<noteq> None), rl_revision = num_of_int (case physical of Some l \<Rightarrow> le_revision l | None \<Rightarrow> 0),
       rl_expectedRevision = num_of_int (lh_revision lease)\<rparr>,
     rt_budget = \<lparr>rb_segmentId = bs_id budget, rb_attemptsUsed = num_of_int (bs_attemptsUsed budget), rb_maxAttempts = num_of_int (bs_maxAttempts budget),
       rb_exhausted = bs_exhausted budget\<rparr>,
     rt_nextAttemptAt = num_of_int (ri_nextAttemptAt incident), rt_attempt = attempt, rt_candidate = candidateSnapshot c incident h,
     rt_publication = publicationSnapshot publication, rt_cleanup = CleanupFailedStatus\<rparr>"

fun is_execute :: "RotationAction \<Rightarrow> bool" where
  "is_execute (ExecutePrepareAttempt _) = True"
| "is_execute (ExecuteCloudStep _ _) = True"
| "is_execute _ = False"

fun is_observe :: "RotationAction \<Rightarrow> bool" where
  "is_observe (Observe _ _ _) = True"
| "is_observe _ = False"

text \<open>What the store makes of the machine's action: the pauses of the incident, recovery without a write, and the waits.\<close>

definition guardedAction :: "RotationContext \<Rightarrow> RotationIncidentRow \<Rightarrow> RotationHealth \<Rightarrow> RotationAction \<Rightarrow> RotationAction" where
  "guardedAction c incident h action = (if is_observe action then action
     else if ri_pausedByUserId incident \<noteq> None then Wait InstanceBusy None
     else if ri_errorCode incident \<in> {Some ''recovery_retries_exhausted'', Some ''cloud_reset_pending'', Some ''cloud_reset_sync_failed''}
       then Wait InstanceBusy None
     else if ri_status incident = IncPaused \<and> ri_phase incident = CloudPhase then Wait InstanceBusy None
     else if ri_rotationTrigger incident \<noteq> ManualTrigger \<and> \<not> healthRevisionMatches (incident_json incident) h then Pause ConfigurationChanged
     else if cx_physicalKey c \<noteq> ri_physicalKey incident then Pause (PauseRejection RemoteIdentityChanged)
     else action)"

definition recoveredAction ::
  "RotationContext \<Rightarrow> RotationIncidentRow \<Rightarrow> RotationHealth \<Rightarrow> RotationLeaseRow option \<Rightarrow> RotationAttemptRow option \<Rightarrow> RotationAction \<Rightarrow> RotationAction" where
  "recoveredAction c incident h physical attempt action =
    (if ri_rotationTrigger incident = HealthTrigger \<and> is_execute action \<and> rh_success h
        \<and> \<not> (case attempt of Some a \<Rightarrow> ra_charged a | None \<Rightarrow> False) \<and> Option.bind physical le_unresolvedStepId = None
     then (case ms_candidateAddressId (cx_slot c) of
         Some _ \<Rightarrow> PublishDispatch (num_of_int (ms_candidateVersion (cx_slot c))) | None \<Rightarrow> Complete)
     else action)"

definition waitingAction :: "RotationIncidentRow \<Rightarrow> int \<Rightarrow> RotationAction \<Rightarrow> RotationAction" where
  "waitingAction incident now action = (let
       limited = (if is_execute action \<and> ri_errorCode incident = Some ''rotation_rate_limited'' \<and> now < ri_nextRunAt incident
         then Wait (WaitRejection RateLimited) (Some (num_of_int (ri_nextRunAt incident))) else action)
     in (case ri_recoveryRetryAt incident of
          Some t \<Rightarrow> if now < t \<and> (is_execute limited \<or> is_observe limited) then Wait Cooldown (Some (num_of_int t)) else limited
        | None \<Rightarrow> limited))"

record RotationRun =
  ru_context :: RotationContext
  ru_incident :: RotationIncidentRow
  ru_health :: RotationHealth
  ru_physical :: "RotationLeaseRow option"
  ru_budget :: RotationBudgetSegmentRow
  ru_attempt :: "RotationAttemptRow option"
  ru_steps :: "RotationStepRow list"
  ru_action :: RotationAction
  ru_publication :: "RotationPublicationRow option"

definition attempt_steps :: "CloudTables \<Rightarrow> string \<Rightarrow> RotationStepRow list" where
  "attempt_steps t attemptId = js_sort (\<lambda>a b. st_sequence a - st_sequence b) (filter (\<lambda>s. st_attemptId s = attemptId) (ct_steps t))"

definition snapshot :: "int \<Rightarrow> Database \<Rightarrow> RotationContext \<Rightarrow> RotationIncidentRow \<Rightarrow> LeaseHandle \<Rightarrow> CodeError + RotationRun" where
  "snapshot now d c incident lease = (let t = tb_cloud d; h = lockRotationHealth now d c; physical = verifyRotationLease now lease t;
       attempt = Option.bind (ri_currentAttemptId incident) (\<lambda>i. select_one (\<lambda>a. ra_id a = i) (ct_attempts t));
       steps = (case attempt of Some a \<Rightarrow> attempt_steps t (ra_id a) | None \<Rightarrow> []);
       publication = select_one (\<lambda>p. pb_slotId p = ms_id (cx_slot c) \<and> pb_addressVersion p = ri_addressVersion incident) (ct_publications t) in
     case select_one (\<lambda>b. bs_id b = ri_currentSegmentId incident) (ct_segments t) of
       None \<Rightarrow> Inl ''rotation_budget_missing''
     | Some budget \<Rightarrow>
         bindE (case attempt of None \<Rightarrow> Inr None | Some a \<Rightarrow> bindE (attemptSnapshot a steps) (\<lambda>x. Inr (Some x))) (\<lambda>snap.
         let action = nextRotationAction (rotationSnapshot c incident lease h physical budget snap publication) (num_of_int now)
         in Inr \<lparr>ru_context = c, ru_incident = incident, ru_health = h, ru_physical = physical, ru_budget = budget, ru_attempt = attempt,
           ru_steps = steps, ru_action = (if ri_terminatedAt incident \<noteq> None then Wait InstanceBusy None
             else waitingAction incident now (recoveredAction c incident h physical attempt (guardedAction c incident h action))),
           ru_publication = publication\<rparr>))"

section \<open>Transactions\<close>

definition storeTransaction ::
  "StoreEnv \<Rightarrow> string \<Rightarrow> (RotationContext \<Rightarrow> RotationIncidentRow \<Rightarrow> CodeError + Database \<times> 'a) \<Rightarrow> Database \<Rightarrow> CodeError + Database \<times> 'a" where
  "storeTransaction env i action d = (case find_incident d i of
     None \<Rightarrow> Inl ''rotation_not_found''
   | Some incident \<Rightarrow> bindE (lockRotationContext (ne_physicalKey env) (tb_cloud d) (ri_slotId incident)) (\<lambda>c. action c incident))"

definition deferFailedClaim :: "int \<Rightarrow> string \<Rightarrow> Database \<Rightarrow> Database" where
  "deferFailedClaim now i = set_incident i (\<lambda>x. x\<lparr>ri_nextRunAt := max (ri_nextRunAt x) (now + 15000)\<rparr>)"

text \<open>A machine that another incident works on is not claimed.\<close>

fun claimed :: "int \<Rightarrow> string \<Rightarrow> string \<Rightarrow> Database \<Rightarrow> CloudTables \<times> LeaseHandle option \<Rightarrow> Database \<times> LeaseHandle option" where
  "claimed now i physicalKey d (t, None) = (deferFailedClaim now i (set_cloud (\<lambda>_. t) d), None)"
| "claimed now i physicalKey d (t, Some lease) = (if Option.bind (find_lease physicalKey t) le_incidentId \<in> {None, Some i}
     then (set_cloud (\<lambda>_. t) d, Some lease)
     else (deferFailedClaim now i (set_cloud (\<lambda>_. releaseRotationLease now lease t) d), None))"

definition claim :: "StoreEnv \<Rightarrow> int \<Rightarrow> string \<Rightarrow> string \<Rightarrow> Database \<Rightarrow> CodeError + Database \<times> LeaseHandle option" where
  "claim env now i holder d = (case find_incident d i of
     None \<Rightarrow> Inr (d, None)
   | Some incident \<Rightarrow>
      if ri_status incident = IncComplete then Inr (d, None)
      else bindE (lockRotationContext (ne_physicalKey env) (tb_cloud d) (ri_slotId incident)) (\<lambda>c.
        Inr (claimed now i (cx_physicalKey c) d (acquireRotationLease now (cx_physicalKey c) holder (tb_cloud d)))))"

definition release :: "int \<Rightarrow> LeaseHandle \<Rightarrow> Database \<Rightarrow> Database" where
  "release now lease = set_cloud (releaseRotationLease now lease)"

definition retried_steps :: "RotationRun \<Rightarrow> RotationStepRow list" where
  "retried_steps run = filter (\<lambda>s. st_status s = SsNotApplied \<or> st_status s = SsRejected \<and> recoverable (st_errorCode s)) (ru_steps run)"

definition reread :: "int \<Rightarrow> string \<Rightarrow> RotationContext \<Rightarrow> LeaseHandle \<Rightarrow> Database \<Rightarrow> CodeError + Database \<times> RotationRun" where
  "reread now i c lease d = (case find_incident d i of
     None \<Rightarrow> Inl ''type_error'' | Some updated \<Rightarrow> bindE (snapshot now d c updated lease) (\<lambda>run. Inr (d, run)))"

definition readRun :: "StoreEnv \<Rightarrow> int \<Rightarrow> string \<Rightarrow> LeaseHandle \<Rightarrow> Database \<Rightarrow> CodeError + Database \<times> RotationRun" where
  "readRun env now i lease d = storeTransaction env i (\<lambda>c incident.
     bindE (snapshot now d c incident lease) (\<lambda>run.
     if ri_terminatedAt incident \<noteq> None \<or> ri_pausedByUserId incident \<noteq> None \<or> ru_physical run = None
        \<or> ri_errorCode incident \<in> {Some ''cloud_reset_pending'', Some ''cloud_reset_sync_failed''} \<or> ri_phase incident \<notin> {CloudPhase, PublishPhase}
     then Inr (d, run)
     else if ri_status incident = IncPaused \<and> recoverable (ri_errorCode incident)
     then reread now i c lease (scheduleRotationRecovery c incident (case ri_errorCode incident of Some e \<Rightarrow> e | None \<Rightarrow> []) now None d)
     else if ri_phase incident = CloudPhase \<and> ri_status incident = IncActive
        \<and> (case ri_recoveryRetryAt incident of Some t \<Rightarrow> t \<le> now | None \<Rightarrow> False)
     then reread now i c lease (set_incident i (\<lambda>x. x\<lparr>ri_recoveryRetryAt := None, ri_errorCode := None, ri_updatedAt := now\<rparr>)
       (set_cloud (\<lambda>t. t\<lparr>ct_steps := update_where (\<lambda>s. st_id s \<in> set (map st_id (retried_steps run))) reprepare (ct_steps t)\<rparr>) d))
     else Inr (d, run))) d"

definition assertIdentity :: "RotationContext \<Rightarrow> AdapterIdentity \<Rightarrow> CodeError + unit" where
  "assertIdentity c identity = guardE (ca_credentialCiphertext (cx_account c) = ai_credentialCiphertext identity
     \<and> ca_externalAccountId (cx_account c) = ai_externalAccountId identity) ''authorization_changed''"
section \<open>Preparation\<close>

definition family_json :: "Family \<Rightarrow> json" where
  "family_json f = JNum (num_of_int (if f = V4 then 4 else 6))"

definition service_text :: "CloudService \<Rightarrow> string" where
  "service_text service = (case service of Ec2 \<Rightarrow> ''ec2'' | Lightsail \<Rightarrow> ''lightsail'' | AzureVm \<Rightarrow> ''azure_vm'' | LinodeCompute \<Rightarrow> ''linode'')"

definition slot_json :: "SlotRef \<Rightarrow> json" where
  "slot_json s = JObj [(''accountId'', JStr (sl_accountId s)), (''service'', JStr (service_text (sl_service s))), (''region'', JStr (sl_region s)),
     (''instanceId'', JStr (sl_instanceId s)), (''interfaceId'', JStr (sl_interfaceId s)), (''slotId'', JStr (sl_slotId s)),
     (''address'', JStr (sl_address s)), (''family'', family_json (sl_family s))]"

definition slot_ref :: "RotationContext \<Rightarrow> CloudInterfaceRow \<Rightarrow> CloudAddressRow \<Rightarrow> SlotRef" where
  "slot_ref c iface address = \<lparr>sl_accountId = ca_id (cx_account c), sl_service = cin_service (cx_instance c), sl_region = cin_region (cx_instance c),
     sl_instanceId = cin_externalId (cx_instance c), sl_interfaceId = cif_externalId iface, sl_slotId = ms_id (cx_slot c),
     sl_address = cd_address address, sl_family = ms_family (cx_slot c)\<rparr>"

definition json_items :: "json \<Rightarrow> json list" where
  "json_items v = (case v of JArr xs \<Rightarrow> xs | _ \<Rightarrow> [])"

definition original_address :: "json \<Rightarrow> SlotRef \<Rightarrow> json option" where
  "original_address inventory slot = Option.bind (find (\<lambda>i. json_get i ''id'' = JStr (sl_interfaceId slot)) (json_items (json_get inventory ''interfaces'')))
     (\<lambda>i. find (\<lambda>a. json_get a ''address'' = JStr (sl_address slot) \<and> json_same (json_get a ''family'') (family_json (sl_family slot)))
       (json_items (json_get i ''addresses'')))"

definition text_option :: "json \<Rightarrow> string option" where
  "text_option v = (case v of JStr s \<Rightarrow> Some s | _ \<Rightarrow> None)"

definition new_attempt :: "string \<Rightarrow> string \<Rightarrow> string \<Rightarrow> int \<Rightarrow> json \<Rightarrow> RotationAttemptRow" where
  "new_attempt attemptId incidentId segmentId sequence inventory = \<lparr>ra_id = attemptId, ra_incidentId = incidentId, ra_segmentId = segmentId,
     ra_charged = False, ra_status = AttPrepared, ra_sequence = sequence, ra_beforeInventory = inventory, ra_candidateAddressId = None,
     ra_candidateVersion = None, ra_candidateRepeated = False, ra_chargedAt = None\<rparr>"

definition new_step :: "string \<Rightarrow> json \<Rightarrow> int \<Rightarrow> CloudStep \<Rightarrow> RotationStepRow" where
  "new_step attemptId failed sequence step = \<lparr>st_id = pl_id step, st_attemptId = attemptId, st_sequence = sequence,
     st_plan = step\<lparr>pl_arguments := put_entry ''failedCandidates'' failed (pl_arguments step)\<rparr>, st_status = SsPrepared, st_fence = None,
     st_dispatchedAt = None, st_observeDeadline = None, st_receipt = None, st_errorCode = None, st_retryAt = None\<rparr>"

fun number_steps :: "string \<Rightarrow> json \<Rightarrow> int \<Rightarrow> CloudStep list \<Rightarrow> RotationStepRow list" where
  "number_steps attemptId failed n [] = []"
| "number_steps attemptId failed n (step # plan) = new_step attemptId failed n step # number_steps attemptId failed (n + 1) plan"

definition new_resource ::
  "string \<Rightarrow> string \<Rightarrow> string \<Rightarrow> string option \<Rightarrow> string \<Rightarrow> string option \<Rightarrow> string option \<Rightarrow> CloudAddressOrigin \<Rightarrow> string option \<Rightarrow> ResourceRole
    \<Rightarrow> json \<Rightarrow> RotationResourceRow" where
  "new_resource resourceRowId incidentId attemptId addressId address allocationId resourceId origin ownershipAttemptId role snap =
    \<lparr>re_id = resourceRowId, re_incidentId = incidentId, re_attemptId = attemptId, re_addressId = addressId, re_address = address,
     re_allocationId = allocationId, re_resourceId = resourceId, re_origin = origin, re_ownershipAttemptId = ownershipAttemptId, re_role = role,
     re_snapshot = snap, re_attached = True, re_referenced = True, re_cleanupStepId = None, re_cleanupStatus = CuRetained,
     re_cleanupError = None, re_cleanupDueAt = None, re_cleanupAddressVersion = None\<rparr>"

text \<open>The primary keys refuse a row that is already there.\<close>

definition fresh_keys :: "CloudTables \<Rightarrow> string \<Rightarrow> RotationStepRow list \<Rightarrow> bool" where
  "fresh_keys t attemptId steps = (\<not> list_ex (\<lambda>a. ra_id a = attemptId) (ct_attempts t) \<and> distinct (map st_id steps)
     \<and> \<not> list_ex (\<lambda>s. st_id s \<in> set (map st_id steps)) (ct_steps t))"

definition prepare_rows ::
  "FreshIds \<Rightarrow> int \<Rightarrow> string \<Rightarrow> LeaseHandle \<Rightarrow> json \<Rightarrow> RotationContext \<Rightarrow> RotationIncidentRow \<Rightarrow> RotationRun \<Rightarrow> SlotRef \<Rightarrow> CloudAddressRow \<Rightarrow> CloudStep list
    \<Rightarrow> CloudTables \<Rightarrow> CloudTables" where
  "prepare_rows ids now i lease inventory c incident run slot address plan t = (let
       attemptId = fi_attempt ids;
       previous = filter (\<lambda>a. ra_incidentId a = i) (ct_attempts t);
       failed = JArr (map (\<lambda>r. JStr (re_address r)) (filter (\<lambda>r. re_incidentId r = i \<and> re_role r = CandidateRole) (ct_resources t)));
       original = original_address inventory slot;
       old = (case ru_attempt run of Some a \<Rightarrow> ri_phase incident = CandidatePhase | None \<Rightarrow> False)
     in t\<lparr>ct_attempts := (if old then update_where (\<lambda>a. Some (ra_id a) = map_option ra_id (ru_attempt run)) (\<lambda>a. a\<lparr>ra_status := AttCandidateFailed\<rparr>)
              (ct_attempts t) else ct_attempts t)
            @ [new_attempt attemptId i (bs_id (ru_budget run)) (int (length previous) + 1) inventory],
          ct_steps := ct_steps t @ number_steps attemptId failed 0 plan,
          ct_resources := ct_resources t @ [new_resource (fi_resource ids) i attemptId (Some (cd_id address)) (cd_address address)
            (Option.bind original (\<lambda>a. text_option (json_get a ''allocationId''))) (Option.bind original (\<lambda>a. text_option (json_get a ''resourceId'')))
            (cd_origin address) (cd_attemptId address) OriginalRole
            (JObj ([(''slot'', slot_json slot), (''inventory'', inventory)] @ (case original of Some a \<Rightarrow> [(''ownership'', a)] | None \<Rightarrow> [])))],
          ct_incidents := update_where (\<lambda>x. ri_incidentId x = i) (\<lambda>x. x\<lparr>ri_phase := CloudPhase, ri_currentAttemptId := Some attemptId,
            ri_errorCode := None, ri_status := IncActive, ri_nextRunAt := now, ri_updatedAt := now\<rparr>) (ct_incidents t),
          ct_leases := update_where (\<lambda>l. le_physicalKey l = lh_physicalKey lease) (\<lambda>l. l\<lparr>le_incidentId := Some i\<rparr>) (ct_leases t)\<rparr>)"

fun is_prepare :: "RotationAction \<Rightarrow> bool" where
  "is_prepare (ExecutePrepareAttempt _) = True"
| "is_prepare _ = False"

definition prepare ::
  "StoreEnv \<Rightarrow> FreshIds \<Rightarrow> int \<Rightarrow> string \<Rightarrow> LeaseHandle \<Rightarrow> json \<Rightarrow> AdapterIdentity \<Rightarrow> Database \<Rightarrow> CodeError + Database \<times> bool" where
  "prepare env ids now i lease inventory identity d = storeTransaction env i (\<lambda>c incident.
     bindE (snapshot now d c incident lease) (\<lambda>run.
     bindE (assertIdentity c identity) (\<lambda>_.
     if \<not> is_prepare (ru_action run) then Inr (d, False)
     else if Option.bind (ru_physical run) le_unresolvedStepId \<noteq> None
        \<or> (case Option.bind (ru_physical run) le_incidentId of Some x \<Rightarrow> x \<noteq> i | None \<Rightarrow> False) then Inr (d, False)
     else (case (cx_address c, cx_iface c) of
         (Some address, Some iface) \<Rightarrow>
           (let slot = slot_ref c iface address in
            bindE (persistedRotationOptions c) (\<lambda>options.
            bindE (ne_plan env slot inventory options (fi_attempt ids)) (\<lambda>plan.
            bindE (guardE (fresh_keys (tb_cloud d) (fi_attempt ids) (number_steps (fi_attempt ids) JNull 0 plan)) ''unique_violation'') (\<lambda>_.
            Inr (rotationAudit incident ''rotation.attempt_prepared'' None
                (JsonSnapshot (JObj [(''attemptId'', JStr (fi_attempt ids)), (''segmentId'', JStr (bs_id (ru_budget run)))]))
                (set_cloud (prepare_rows ids now i lease inventory c incident run slot address plan) d), True)))))
       | _ \<Rightarrow> Inr (d, False))))) d"

section \<open>Dispatch\<close>

definition receipt_json :: "(string \<times> json) list option \<Rightarrow> json" where
  "receipt_json r = (case r of Some es \<Rightarrow> JObj es | None \<Rightarrow> JNull)"

definition last_of :: "'a list \<Rightarrow> 'a option" where
  "last_of xs = (if xs = [] then None else Some (last xs))"

definition dispatched_plan :: "CloudStep \<Rightarrow> RotationStepRow list \<Rightarrow> RotationStepRow option \<Rightarrow> PersistedOptions \<Rightarrow> CloudStep" where
  "dispatched_plan plan prior allocation permissions = plan\<lparr>pl_arguments :=
     (case allocation of Some s \<Rightarrow> put_entry ''candidateReceipt'' (receipt_json (st_receipt s)) | None \<Rightarrow> id)
     (put_entry ''allowTemporaryInstance'' (JBool (po_allowTemporaryInstance permissions))
     (put_entry ''allowStop'' (JBool (po_allowStop permissions))
     (put_entry ''priorReceipts'' (JArr (map (\<lambda>s. JObj [(''action'', JStr (pl_action (st_plan s))), (''receipt'', receipt_json (st_receipt s))]) prior))
     (pl_arguments plan))))\<rparr>"

definition write_input :: "RotationContext \<Rightarrow> RotationRun \<Rightarrow> RotationStepRow \<Rightarrow> CloudRotationWriteInput" where
  "write_input c run step = \<lparr>wi_accountId = ca_id (cx_account c), wi_service = cin_service (cx_instance c), wi_region = cin_region (cx_instance c),
     wi_stepId = st_id step, wi_action = pl_action (st_plan step), wi_idleCleanupId = None,
     wi_remainingSteps = map (\<lambda>s. (st_id s, pl_action (st_plan s))) (filter (\<lambda>s. st_sequence step \<le> st_sequence s \<and> rotation_step s
       \<and> st_status s \<in> {SsPrepared, SsNotApplied, SsRejected}) (ru_steps run))\<rparr>"

definition charge_attempt :: "int \<Rightarrow> string \<Rightarrow> RotationPolicyRow \<Rightarrow> RotationRun \<Rightarrow> RotationAttemptRow \<Rightarrow> CloudTables \<Rightarrow> CloudTables" where
  "charge_attempt now i policy run attempt t = (if ra_charged attempt then t else t\<lparr>
     ct_attempts := update_where (\<lambda>a. ra_id a = ra_id attempt) (\<lambda>a. a\<lparr>ra_charged := True, ra_chargedAt := Some now, ra_status := AttCloud\<rparr>) (ct_attempts t),
     ct_segments := update_where (\<lambda>b. bs_id b = bs_id (ru_budget run)) (\<lambda>b. b\<lparr>bs_attemptsUsed := bs_attemptsUsed (ru_budget run) + 1\<rparr>) (ct_segments t),
     ct_incidents := update_where (\<lambda>x. ri_incidentId x = i) (\<lambda>x. x\<lparr>ri_nextAttemptAt := now + rp_minIntervalSeconds policy * 1000\<rparr>) (ct_incidents t)\<rparr>)"

definition dispatch_rows ::
  "int \<Rightarrow> string \<Rightarrow> LeaseHandle \<Rightarrow> RotationPolicyRow \<Rightarrow> string \<Rightarrow> CloudStep \<Rightarrow> string option \<Rightarrow> CloudTables \<Rightarrow> CloudTables" where
  "dispatch_rows now i lease policy stepId plan companion t = t\<lparr>
     ct_steps := update_where (\<lambda>s. st_id s = stepId) (\<lambda>s. s\<lparr>st_plan := plan, st_status := SsInFlight, st_fence := Some (lh_revision lease),
       st_dispatchedAt := Some now, st_observeDeadline := Some (now + rp_cloudWaitSeconds policy * 1000), st_receipt := None,
       st_errorCode := None, st_retryAt := None\<rparr>) (ct_steps t),
     ct_incidents := update_where (\<lambda>x. ri_incidentId x = i) (\<lambda>x. x\<lparr>ri_errorCode := None, ri_nextRunAt := now, ri_updatedAt := now\<rparr>) (ct_incidents t),
     ct_leases := update_where (\<lambda>l. companion = Some (le_physicalKey l) \<and> le_incidentId l = Some i) (\<lambda>l. l\<lparr>le_unresolvedStepId := Some stepId\<rparr>)
       (update_where (\<lambda>l. le_physicalKey l = lh_physicalKey lease) (\<lambda>l. l\<lparr>le_unresolvedStepId := Some stepId\<rparr>) (ct_leases t))\<rparr>"

definition wait_for_budget :: "int \<Rightarrow> RotationIncidentRow \<Rightarrow> string \<Rightarrow> string \<Rightarrow> int \<Rightarrow> Database \<Rightarrow> Database" where
  "wait_for_budget now incident stepId ruleId retryAt d = (let d1 = set_incident (ri_incidentId incident) (\<lambda>x. x\<lparr>ri_errorCode := Some ''rotation_rate_limited'',
       ri_nextRunAt := retryAt, ri_updatedAt := now\<rparr>) d in
     if ri_errorCode incident = Some ''rotation_rate_limited'' then d1
     else rotationAudit incident ''rotation.rate_limit_wait'' None
       (JsonSnapshot (JObj [(''stepId'', JStr stepId), (''ruleId'', JStr ruleId), (''retryAt'', JNum (num_of_int retryAt))])) d1)"

definition dispatchable :: "string \<Rightarrow> string \<Rightarrow> RotationRun \<Rightarrow> bool" where
  "dispatchable i stepId run = ((case ru_action run of ExecuteCloudStep _ s \<Rightarrow> s = stepId | _ \<Rightarrow> False) \<and> ru_attempt run \<noteq> None
     \<and> (case ru_physical run of Some l \<Rightarrow> le_unresolvedStepId l = None \<and> le_incidentId l = Some i | None \<Rightarrow> False))"

text \<open>What the attempt has done before the step: its applied steps, and the last allocation among them.\<close>

definition prior_steps :: "RotationRun \<Rightarrow> RotationStepRow \<Rightarrow> RotationStepRow list" where
  "prior_steps run step = filter (\<lambda>s. st_status s = SsApplied \<and> rotation_step s \<and> st_sequence s < st_sequence step) (ru_steps run)"

definition allocation_of :: "RotationRun \<Rightarrow> RotationStepRow \<Rightarrow> RotationStepRow option" where
  "allocation_of run step = last_of (filter (\<lambda>s. ends_with (pl_action (st_plan s)) ''.allocate'') (prior_steps run step))"

definition allocation_receipt :: "RotationRun \<Rightarrow> RotationStepRow \<Rightarrow> json" where
  "allocation_receipt run step = (case allocation_of run step of Some s \<Rightarrow> receipt_json (st_receipt s) | None \<Rightarrow> JUndefined)"

definition dispatch_step ::
  "StoreEnv \<Rightarrow> int \<Rightarrow> string \<Rightarrow> LeaseHandle \<Rightarrow> RotationContext \<Rightarrow> RotationIncidentRow \<Rightarrow> RotationRun \<Rightarrow> RotationAttemptRow \<Rightarrow> RotationStepRow \<Rightarrow> Database
    \<Rightarrow> CodeError + Database \<times> CloudStep option" where
  "dispatch_step env now i lease c incident run attempt step d =
     bindE (authorizeStep (ne_physicalKey env) (ne_isIP env) c i (st_plan step) (allocation_receipt run step) now (tb_cloud d)) (\<lambda>companion.
     bindE (persistedRotationOptions c) (\<lambda>permissions.
     bindE (reserveCloudRotationWrite now (write_input c run step) (tb_cloud d)) (\<lambda>(t, admission).
     case admission of
       WriteDenied ruleId retryAt \<Rightarrow> Inr (wait_for_budget now incident (st_id step) ruleId retryAt (set_cloud (\<lambda>_. t) d), None)
     | WriteAllowed \<Rightarrow> (case cx_policy c of
         None \<Rightarrow> Inl ''type_error''
       | Some policy \<Rightarrow>
           (let plan = dispatched_plan (st_plan step) (prior_steps run step) (allocation_of run step) permissions in
            Inr (rotationAudit incident ''rotation.dispatched'' None (JsonSnapshot (JObj [(''attemptId'', JStr (ra_id attempt)), (''stepId'', JStr (st_id step)),
                (''fence'', JNum (num_of_int (lh_revision lease)))]))
              (set_cloud (dispatch_rows now i lease policy (st_id step) plan companion \<circ> charge_attempt now i policy run attempt \<circ> (\<lambda>_. t)) d), Some plan))))))"

definition dispatch ::
  "StoreEnv \<Rightarrow> int \<Rightarrow> string \<Rightarrow> LeaseHandle \<Rightarrow> string \<Rightarrow> AdapterIdentity \<Rightarrow> Database \<Rightarrow> CodeError + Database \<times> CloudStep option" where
  "dispatch env now i lease stepId identity d = storeTransaction env i (\<lambda>c incident.
     bindE (snapshot now d c incident lease) (\<lambda>run.
     bindE (assertIdentity c identity) (\<lambda>_.
     if \<not> dispatchable i stepId run then Inr (d, None)
     else bindE (case rotationAuthorizationError c (ri_rotationTrigger incident) of Some e \<Rightarrow> Inl e | None \<Rightarrow> Inr ()) (\<lambda>_.
     case (ru_attempt run, find (\<lambda>s. st_id s = stepId) (ru_steps run)) of
       (Some attempt, Some step) \<Rightarrow> dispatch_step env now i lease c incident run attempt step d
     | _ \<Rightarrow> Inl ''type_error'')))) d"
section \<open>Pauses\<close>

text \<open>The fresh context of the source reads the same slot again.\<close>

definition pauseIn :: "StoreEnv \<Rightarrow> RotationIncidentRow \<Rightarrow> string \<Rightarrow> int \<Rightarrow> int option \<Rightarrow> Database \<Rightarrow> CodeError + Database" where
  "pauseIn env incident code now notBefore d = (let i = ri_incidentId incident in
     if ri_status incident = IncComplete \<or> ri_terminatedAt incident \<noteq> None then Inr d
     else if ri_errorCode incident = Some ''recovery_retries_exhausted'' then Inr (set_incident i (\<lambda>x. x\<lparr>ri_nextRunAt := now + 30000\<rparr>) d)
     else if (ri_phase incident = CloudPhase \<or> ri_phase incident = PublishPhase) \<and> code \<in> set recoveryErrors
     then bindE (lockRotationContext (ne_physicalKey env) (tb_cloud d) (ri_slotId incident)) (\<lambda>c.
       Inr (scheduleRotationRecovery c incident code now notBefore d))
     else (let
         d1 = (if code = ''attempts_exhausted'' then set_cloud (\<lambda>t. t\<lparr>ct_segments := update_where (\<lambda>b. bs_id b = ri_currentSegmentId incident)
             (\<lambda>b. b\<lparr>bs_exhausted := True\<rparr>) (ct_segments t)\<rparr>) d else d);
         status = (if code = ''attempts_exhausted'' then IncExhausted else IncPaused);
         unchanged = (ri_status incident = status \<and> ri_errorCode incident = Some code);
         d2 = set_incident i (\<lambda>x. x\<lparr>ri_status := status, ri_errorCode := Some code, ri_nextRunAt := now + 15000,
           ri_updatedAt := (if unchanged then ri_updatedAt x else now)\<rparr>) d1
       in Inr (if ri_errorCode incident \<noteq> Some code
         then rotationAudit incident ''rotation.paused'' None (JsonSnapshot (JObj [(''code'', JStr code)])) d2 else d2)))"

definition pause :: "StoreEnv \<Rightarrow> int \<Rightarrow> string \<Rightarrow> string \<Rightarrow> number option \<Rightarrow> Database \<Rightarrow> CodeError + Database \<times> unit" where
  "pause env now i code retryAfterMs d = storeTransaction env i (\<lambda>_ incident.
     bindE (pauseIn env incident code now (case retryAfterMs of Some (Num r) \<Rightarrow> if 0 < r then Some (now + \<lfloor>r\<rfloor>) else None | _ \<Rightarrow> None) d)
     (\<lambda>d'. Inr (d', ()))) d"

definition deferRun :: "int \<Rightarrow> string \<Rightarrow> Database \<Rightarrow> Database" where
  "deferRun now i = set_incident i (\<lambda>x. x\<lparr>ri_nextRunAt := max (ri_nextRunAt x) (now + 30000)\<rparr>)"

section \<open>The candidate\<close>

text \<open>Spreads of an object: later entries win.\<close>

definition put_entries :: "(string \<times> json) list \<Rightarrow> (string \<times> json) list \<Rightarrow> (string \<times> json) list" where
  "put_entries new old = foldl (\<lambda>es (k, v). put_entry k v es) old new"

definition or_null :: "json \<Rightarrow> json" where
  "or_null v = (if v = JUndefined then JNull else v)"

definition or_object :: "json \<Rightarrow> json" where
  "or_object v = (case as_record v of JObj es \<Rightarrow> JObj es | _ \<Rightarrow> JObj [])"

definition candidateAddressMetadata :: "CloudService \<Rightarrow> (string \<times> json) list \<Rightarrow> (string \<times> json) list" where
  "candidateAddressMetadata service receipt = (let get = json_get (JObj receipt); after = get ''after'';
       privateAddress = json_get after ''privateAddress'';
       guid = json_get (or_object (json_get after ''addressMetadata'')) ''resourceGuid'';
       metadata = [(''providerMetadata'', or_object (json_get after ''addressMetadata''))]
         @ (case privateAddress of JStr s \<Rightarrow> [(''privateAddress'', JStr s)] | _ \<Rightarrow> [])
         @ (if falsy (get ''resourceId'') then [] else [(''resourceId'', get ''resourceId'')])
     in metadata @ (if service = AzureVm then [(''allocationIdentity'', JObj [(''allocationId'', or_null (get ''allocationId'')),
         (''resourceId'', or_null (get ''resourceId'')), (''resourceGuid'', (case guid of JStr (ch # s) \<Rightarrow> JStr (ch # s) | _ \<Rightarrow> JNull))])] else []))"

definition family_number :: "Family \<Rightarrow> nat" where
  "family_number f = (if f = V4 then 4 else 6)"

definition upsert_address ::
  "string \<Rightarrow> RotationContext \<Rightarrow> string \<Rightarrow> (string \<times> json) list \<Rightarrow> string \<Rightarrow> (string \<times> json) list \<Rightarrow> CloudTables \<Rightarrow> CloudTables \<times> CloudAddressRow" where
  "upsert_address newId c candidateAddress receipt attemptId metadata t = (let
       same = (\<lambda>a. cd_interfaceId a = ms_interfaceId (cx_slot c) \<and> cd_family a = ms_family (cx_slot c) \<and> cd_address a = candidateAddress);
       refresh = (\<lambda>a. a\<lparr>cd_inventoryPresent := True, cd_scanGeneration := cin_scanGeneration (cx_instance c), cd_metadata := metadata\<rparr>);
       row = \<lparr>cd_id = newId, cd_interfaceId = ms_interfaceId (cx_slot c), cd_family = ms_family (cx_slot c), cd_address = candidateAddress,
         cd_remoteAllocationId = text_option (json_get (JObj receipt) ''allocationId''), cd_metadata = metadata, cd_origin = SystemOrigin,
         cd_attemptId = Some attemptId, cd_inventoryPresent = True, cd_scanGeneration = cin_scanGeneration (cx_instance c)\<rparr>
     in case select_one same (ct_addresses t) of
          Some a \<Rightarrow> (t\<lparr>ct_addresses := update_where same refresh (ct_addresses t)\<rparr>, refresh a)
        | None \<Rightarrow> (t\<lparr>ct_addresses := ct_addresses t @ [row]\<rparr>, row))"

definition upsert_resource :: "RotationResourceRow \<Rightarrow> (RotationResourceRow \<Rightarrow> RotationResourceRow) \<Rightarrow> CloudTables \<Rightarrow> CloudTables" where
  "upsert_resource row f t = (let same = (\<lambda>r. re_attemptId r = re_attemptId row \<and> re_role r = re_role row) in
     if list_ex same (ct_resources t) then t\<lparr>ct_resources := update_where same f (ct_resources t)\<rparr>
     else t\<lparr>ct_resources := ct_resources t @ [row]\<rparr>)"

definition insert_publication :: "string \<Rightarrow> string \<Rightarrow> int \<Rightarrow> string \<Rightarrow> string \<Rightarrow> CloudTables \<Rightarrow> CloudTables" where
  "insert_publication newId slotId addressVersion addressId incidentId t =
    (if list_ex (\<lambda>p. pb_slotId p = slotId \<and> pb_addressVersion p = addressVersion) (ct_publications t) then t
     else t\<lparr>ct_publications := ct_publications t @ [\<lparr>pb_id = newId, pb_slotId = slotId, pb_addressVersion = addressVersion, pb_addressId = addressId,
       pb_incidentId = Some incidentId, pb_status = PbPending, pb_operationId = None, pb_children = [], pb_context = None, pb_promotedAt = None,
       pb_errorCode = None, pb_previousMaxTtl = 0, pb_appliedAt = None\<rparr>]\<rparr>)"

definition resetEvidence :: "AddressHealthStateRow \<Rightarrow> AddressHealthStateRow" where
  "resetEvidence s = s\<lparr>hs_healthState := Unknown, hs_consecutiveSuccesses := 0, hs_consecutiveFailures := 0, hs_latestDecision := RoundUnknown,
     hs_evidenceExpiresAt := None, hs_lastCheckedAt := None, hs_nextRoundAt := None\<rparr>"

definition install_rows ::
  "FreshIds \<Rightarrow> int \<Rightarrow> RotationContext \<Rightarrow> RotationIncidentRow \<Rightarrow> RotationAttemptRow \<Rightarrow> string \<Rightarrow> (string \<times> json) list \<Rightarrow> int \<Rightarrow> CloudTables \<Rightarrow> CloudTables" where
  "install_rows ids now c incident attempt candidateAddress result version t0 = (let
       manual = (ri_rotationTrigger incident = ManualTrigger); i = ri_incidentId incident; get = json_get (JObj result);
       (t, address) = upsert_address (fi_address ids) c candidateAddress result (ra_id attempt) (candidateAddressMetadata (cin_service (cx_instance c)) result) t0;
       t1 = t\<lparr>ct_slots := update_where (\<lambda>s. ms_id s = ms_id (cx_slot c)) (\<lambda>s. s\<lparr>ms_candidateAddressId := Some (cd_id address), ms_candidateVersion := version\<rparr>) (ct_slots t),
         ct_healthStates := update_where (\<lambda>s. hs_slotId s = Some (ms_id (cx_slot c))) resetEvidence (ct_healthStates t),
         ct_attempts := update_where (\<lambda>a. ra_id a = ra_id attempt) (\<lambda>a. a\<lparr>ra_status := AttCandidate, ra_candidateAddressId := Some (cd_id address),
           ra_candidateVersion := Some version, ra_candidateRepeated := (\<not> falsy (get ''candidateRepeated''))\<rparr>) (ct_attempts t)\<rparr>;
       t2 = upsert_resource (new_resource (fi_resource ids) i (ra_id attempt) (Some (cd_id address)) (cd_address address) (text_option (get ''allocationId''))
           (text_option (get ''resourceId'')) (cd_origin address) (cd_attemptId address) CandidateRole
           (JObj [(''receipt'', JObj result), (''inventory'', ra_beforeInventory attempt)]))
         (\<lambda>r. r\<lparr>re_addressId := Some (cd_id address), re_attached := True, re_referenced := True\<rparr>) t1;
       t3 = (if manual then insert_publication (fi_publication ids) (ms_id (cx_slot c)) version (cd_id address) i t2 else t2)
     in t3\<lparr>ct_incidents := update_where (\<lambda>x. ri_incidentId x = i) (\<lambda>x. x\<lparr>ri_phase := (if manual then PublishPhase else CandidatePhase),
           ri_currentSegmentId := (case ri_pendingSegmentId incident of Some s \<Rightarrow> s | None \<Rightarrow> ri_currentSegmentId x),
           ri_pendingSegmentId := (case ri_pendingSegmentId incident of Some _ \<Rightarrow> None | None \<Rightarrow> ri_pendingSegmentId x),
           ri_addressVersion := version,
           ri_candidateDeadline := (if manual then None else Some (now + policy_value c rp_candidateWindowSeconds 180 * 1000)),
           ri_nextRunAt := now, ri_updatedAt := now\<rparr>) (ct_incidents t3),
         ct_leases := update_where (\<lambda>l. le_physicalKey l = ri_physicalKey incident \<and> le_incidentId l = Some i) (\<lambda>l. l\<lparr>le_incidentId := None\<rparr>) (ct_leases t3)\<rparr>)"

definition installCandidate ::
  "StoreEnv \<Rightarrow> FreshIds \<Rightarrow> int \<Rightarrow> RotationContext \<Rightarrow> RotationIncidentRow \<Rightarrow> RotationStepRow list \<Rightarrow> Database \<Rightarrow> CodeError + Database" where
  "installCandidate env ids now c incident steps d = (if ri_phase incident \<noteq> CloudPhase then Inr d
     else (case last_of steps of None \<Rightarrow> Inl ''type_error'' | Some final \<Rightarrow>
       (let result = (case st_receipt final of Some r \<Rightarrow> r | None \<Rightarrow> []); candidateAddress = str_of (json_get (JObj result) ''candidateAddress'') in
        if candidateAddress = [] \<or> ne_isIP env candidateAddress \<noteq> family_number (ms_family (cx_slot c))
        then pauseIn env incident ''candidate_missing'' now None d
        else if cx_addressVersion c \<noteq> ri_addressVersion incident \<or> cx_physicalKey c \<noteq> ri_physicalKey incident
        then pauseIn env incident ''address_version_changed'' now None d
        else (case select_one (\<lambda>a. ra_id a = st_attemptId (hd steps)) (ct_attempts (tb_cloud d)) of
            None \<Rightarrow> Inl ''rotation_attempt_missing''
          | Some attempt \<Rightarrow>
              (let version = max (ms_currentVersion (cx_slot c)) (ms_candidateVersion (cx_slot c)) + 1 in
               Inr (rotationAudit incident ''rotation.candidate'' None
                 (JsonSnapshot (JObj [(''addressVersion'', JNum (num_of_int version)), (''attemptId'', JStr (ra_id attempt))]))
                 (set_cloud (install_rows ids now c incident attempt candidateAddress result version) d)))))))"

section \<open>Receipts\<close>

definition observed_status :: "json \<Rightarrow> CodeError + StoredStepStatus" where
  "observed_status v = (case map_of [(''pending'', SsPending), (''applied'', SsApplied), (''not_applied'', SsNotApplied), (''ambiguous'', SsAmbiguous)]
     (str_of v) of Some s \<Rightarrow> Inr s | None \<Rightarrow> Inl ''check_violation'')"

text \<open>Two receipts of a step that name different resources.\<close>

definition identity_conflict :: "(string \<times> json) list \<Rightarrow> (string \<times> json) list \<Rightarrow> bool" where
  "identity_conflict old result = list_ex (\<lambda>k. \<not> falsy (json_get (JObj old) k) \<and> \<not> falsy (json_get (JObj result) k)
     \<and> \<not> json_same (json_get (JObj old) k) (json_get (JObj result) k)) [''resourceId'', ''allocationId'']"

definition merged_receipt :: "RotationStepRow \<Rightarrow> (string \<times> json) list \<Rightarrow> (string \<times> json) list" where
  "merged_receipt step result = (let old = (case st_receipt step of Some r \<Rightarrow> r | None \<Rightarrow> []);
       keep = (\<lambda>k es. if falsy (json_get (JObj old) k) then es else put_entry k (json_get (JObj old) k) es)
     in keep ''allocationId'' (keep ''resourceId'' (if st_status step = SsApplied then old else put_entries result old)))"

definition receipt_status :: "RotationStepRow \<Rightarrow> bool \<Rightarrow> bool \<Rightarrow> (string \<times> json) list \<Rightarrow> CodeError + StoredStepStatus" where
  "receipt_status step conflict observed result = (if conflict \<or> st_status step = SsAmbiguous then Inr SsAmbiguous
     else if st_status step = SsApplied then Inr SsApplied
     else if observed then observed_status (json_get (JObj result) ''status'') else Inr SsPending)"

definition add_observation :: "string \<Rightarrow> bool \<Rightarrow> (string \<times> json) list \<Rightarrow> CloudTables \<Rightarrow> CloudTables" where
  "add_observation stepId observed result t = t\<lparr>ct_observations := ct_observations t
     @ [\<lparr>so_stepId = stepId, so_observation = observed, so_result = result\<rparr>]\<rparr>"

definition clear_unresolved :: "string \<Rightarrow> string \<Rightarrow> CloudTables \<Rightarrow> CloudTables" where
  "clear_unresolved i stepId t = t\<lparr>ct_leases := update_where (\<lambda>l. le_incidentId l = Some i \<and> le_unresolvedStepId l = Some stepId)
     (\<lambda>l. l\<lparr>le_unresolvedStepId := None\<rparr>) (ct_leases t)\<rparr>"

definition record_candidate ::
  "StoreEnv \<Rightarrow> FreshIds \<Rightarrow> string \<Rightarrow> RotationContext \<Rightarrow> RotationIncidentRow \<Rightarrow> RotationStepRow \<Rightarrow> (string \<times> json) list \<Rightarrow> RotationStepRow list
    \<Rightarrow> CloudTables \<Rightarrow> CloudTables" where
  "record_candidate env ids i c incident step receipt steps t = (case json_get (JObj receipt) ''candidateAddress'' of
     JStr candidateAddress \<Rightarrow>
       if ne_isIP env candidateAddress = family_number (ms_family (cx_slot c)) \<and> (ri_phase incident = CloudPhase \<or> ri_phase incident = CandidatePhase)
       then (let confirmed = last_of (filter (\<lambda>s. st_status s = SsApplied \<and> rotation_step s
                 \<and> json_same (json_get (receipt_json (st_receipt s)) ''candidateAddress'') (JStr candidateAddress)) steps);
               resourceReceipt = (case Option.bind confirmed st_receipt of Some r \<Rightarrow> r | None \<Rightarrow> receipt);
               attached = (case confirmed of Some s \<Rightarrow> \<not> ends_with (pl_action (st_plan s)) ''allocate'' | None \<Rightarrow> False);
               referenced = (map_option cd_address (cx_address c) = Some (str_of (json_get (JObj resourceReceipt) ''candidateAddress'')));
               resourceId = text_option (json_get (JObj resourceReceipt) ''resourceId'');
               snap = JObj [(''receipt'', JObj resourceReceipt), (''slot'', plan_arg (st_plan (case confirmed of Some s \<Rightarrow> s | None \<Rightarrow> step)) ''slot'')]
             in upsert_resource ((new_resource (fi_resource ids) i (st_attemptId step) None candidateAddress
                   (text_option (json_get (JObj resourceReceipt) ''allocationId'')) resourceId SystemOrigin (Some (st_attemptId step)) CandidateRole snap)
                   \<lparr>re_attached := attached, re_referenced := referenced\<rparr>)
                 (\<lambda>r. r\<lparr>re_resourceId := (case re_resourceId r of Some x \<Rightarrow> Some x | None \<Rightarrow> resourceId), re_attached := attached,
                   re_referenced := referenced, re_snapshot := snap\<rparr>) t)
       else t
   | _ \<Rightarrow> t)"

text \<open>The end of a receipt: the candidate resource, the installed candidate, the next run.\<close>

definition acceptCandidate ::
  "StoreEnv \<Rightarrow> FreshIds \<Rightarrow> int \<Rightarrow> string \<Rightarrow> RotationContext \<Rightarrow> RotationIncidentRow \<Rightarrow> RotationStepRow \<Rightarrow> bool \<Rightarrow> (string \<times> json) list \<Rightarrow> StoredStepStatus
    \<Rightarrow> Database \<Rightarrow> CodeError + Database" where
  "acceptCandidate env ids now i c incident step conflict receipt status d = (let steps = attempt_steps (tb_cloud d) (st_attemptId step);
       d1 = (if conflict then d else set_cloud (record_candidate env ids i c incident step receipt steps) d) in
     bindE (if list_all (\<lambda>s. st_status s = SsApplied) steps then installCandidate env ids now c incident steps d1 else Inr d1) (\<lambda>d2.
     Inr (set_incident i (\<lambda>x. x\<lparr>ri_nextRunAt := now + (if status = SsPending then 5000 else 0)\<rparr>) d2)))"

definition resolve_step :: "string \<Rightarrow> RotationIncidentRow \<Rightarrow> string \<Rightarrow> StoredStepStatus \<Rightarrow> Database \<Rightarrow> Database" where
  "resolve_step i incident stepId status d = (let
       d1 = (if status = SsApplied \<or> status = SsNotApplied then set_cloud (clear_unresolved i stepId) d else d)
     in if status = SsApplied \<and> ri_pausedByUserId incident = None \<and> recoverable (ri_errorCode incident)
        then set_incident i (\<lambda>x. x\<lparr>ri_status := IncActive, ri_errorCode := None, ri_recoveryRetryAt := None\<rparr>) d1 else d1)"

definition acceptReceipt ::
  "StoreEnv \<Rightarrow> FreshIds \<Rightarrow> int \<Rightarrow> string \<Rightarrow> RotationContext \<Rightarrow> RotationIncidentRow \<Rightarrow> RotationStepRow \<Rightarrow> bool \<Rightarrow> (string \<times> json) list \<Rightarrow> StoredStepStatus
    \<Rightarrow> Database \<Rightarrow> CodeError + Database" where
  "acceptReceipt env ids now i c incident step conflict receipt status d = (let d1 = resolve_step i incident (st_id step) status d in
     bindE (if status = SsAmbiguous then pauseIn env incident ''resource_ownership_ambiguous'' now None d1 else Inr d1) (\<lambda>d2.
     let reserved = (if \<not> conflict \<and> st_status step \<noteq> SsApplied
           then recordReceipt (ne_physicalKey env) (ne_isIP env) c i (st_attemptId step) receipt (st_plan step) (status = SsApplied) now (st_id step) (tb_cloud d2)
           else (tb_cloud d2, True));
         d3 = set_cloud (\<lambda>_. fst reserved) d2
     in if \<not> snd reserved then pauseIn env incident ''rotation_temporary_instance_busy'' now None d3
        else acceptCandidate env ids now i c incident step conflict receipt status d3))"

text \<open>\<open>fence\<close> is absent for a caller that does not know under which fence the step was dispatched.\<close>

definition stale_receipt :: "RotationIncidentRow \<Rightarrow> RotationStepRow \<Rightarrow> int option option \<Rightarrow> bool" where
  "stale_receipt incident step fence = (st_status step = SsAbandoned \<or> ri_errorCode incident = Some ''cloud_state_reset''
     \<or> (case fence of Some f \<Rightarrow> st_fence step \<noteq> f | None \<Rightarrow> False) \<or> st_status step = SsNotApplied \<or> st_status step = SsRejected)"

definition saveReceipt ::
  "StoreEnv \<Rightarrow> FreshIds \<Rightarrow> int \<Rightarrow> string \<Rightarrow> string \<Rightarrow> (string \<times> json) list \<Rightarrow> bool \<Rightarrow> int option option \<Rightarrow> Database \<Rightarrow> CodeError + Database \<times> bool" where
  "saveReceipt env ids now i stepId result observed fence d = storeTransaction env i (\<lambda>c incident.
     case select_one (\<lambda>s. st_id s = stepId) (ct_steps (tb_cloud d)) of
       None \<Rightarrow> Inl ''rotation_step_changed''
     | Some step \<Rightarrow>
         if Some (st_attemptId step) \<noteq> ri_currentAttemptId incident then Inl ''rotation_step_changed''
         else if stale_receipt incident step fence then Inr (set_cloud (add_observation stepId observed result) d, False)
         else (let old = (case st_receipt step of Some r \<Rightarrow> r | None \<Rightarrow> []);
               conflict = (identity_conflict old result \<or> receiptsConflict (ne_isIP env) c (JObj old) (JObj result));
               receipt = merged_receipt step result in
           bindE (receipt_status step conflict observed result) (\<lambda>status.
           let d1 = set_cloud (add_observation stepId observed result) (set_cloud (\<lambda>t. t\<lparr>ct_steps := update_where (\<lambda>s. st_id s = stepId)
               (\<lambda>s. s\<lparr>st_receipt := Some receipt, st_status := status\<rparr>) (ct_steps t)\<rparr>) d) in
           if ri_terminatedAt incident \<noteq> None then Inr (d1, True)
           else bindE (acceptReceipt env ids now i c incident step conflict receipt status d1) (\<lambda>d2. Inr (d2, True))))) d"
section \<open>Rejections\<close>

definition refund :: "int \<Rightarrow> string \<Rightarrow> RotationStepRow \<Rightarrow> CloudTables \<Rightarrow> CloudTables" where
  "refund now i step t = (case select_one (\<lambda>a. ra_id a = st_attemptId step) (ct_attempts t) of
     None \<Rightarrow> t
   | Some attempt \<Rightarrow> if st_sequence step = 0 \<and> ra_charged attempt then t\<lparr>
         ct_attempts := update_where (\<lambda>a. ra_id a = ra_id attempt) (\<lambda>a. a\<lparr>ra_charged := False, ra_chargedAt := None\<rparr>) (ct_attempts t),
         ct_segments := update_where (\<lambda>b. bs_id b = ra_segmentId attempt) (\<lambda>b. b\<lparr>bs_attemptsUsed := bs_attemptsUsed b - 1\<rparr>) (ct_segments t),
         ct_incidents := update_where (\<lambda>x. ri_incidentId x = i) (\<lambda>x. x\<lparr>ri_nextAttemptAt := now\<rparr>) (ct_incidents t)\<rparr>
       else t)"

definition uncertain_rejection :: "int \<Rightarrow> RotationIncidentRow \<Rightarrow> string \<Rightarrow> string \<Rightarrow> Database \<Rightarrow> Database" where
  "uncertain_rejection now incident stepId code = set_incident (ri_incidentId incident) (\<lambda>x. x\<lparr>ri_nextRunAt := now + 5000,
       ri_errorCode := (if ri_pausedByUserId incident \<noteq> None \<or> ri_errorCode incident = Some ''recovery_retries_exhausted''
         then ri_errorCode incident else Some code)\<rparr>)
     \<circ> set_cloud (\<lambda>t. t\<lparr>ct_steps := update_where (\<lambda>s. st_id s = stepId) (\<lambda>s. s\<lparr>st_errorCode := Some code\<rparr>) (ct_steps t)\<rparr>)"

definition definite_rejection ::
  "StoreEnv \<Rightarrow> int \<Rightarrow> string \<Rightarrow> RotationContext \<Rightarrow> RotationIncidentRow \<Rightarrow> RotationStepRow \<Rightarrow> string \<Rightarrow> number option \<Rightarrow> Database \<Rightarrow> CodeError + Database" where
  "definite_rejection env now i c incident step code retryAfterMs d =
    bindE (if code = ''rate_limited''
        then bindE (recordCloudRotationThrottle now (ca_id (cx_account c)) (cin_service (cx_instance c)) (pl_action (st_plan step)) retryAfterMs (tb_cloud d))
          (\<lambda>(t, until). Inr (t, Some until))
        else Inr (tb_cloud d, None)) (\<lambda>(t, retryAt).
    let d1 = set_cloud (\<lambda>_. refund now i step (clear_unresolved i (st_id step) (t\<lparr>ct_steps := update_where (\<lambda>s. st_id s = st_id step)
          (\<lambda>s. s\<lparr>st_status := SsRejected, st_errorCode := Some code, st_retryAt := retryAt\<rparr>) (ct_steps t)\<rparr>))) d in
    bindE (if code \<noteq> ''rate_limited'' then pauseIn env incident code now None d1
      else Inr (scheduleRotationRecovery c incident code now retryAt d1)) (\<lambda>d2.
    Inr (rotationAudit incident ''rotation.rejected_no_effect'' None (JsonSnapshot (JObj [(''stepId'', JStr (st_id step)), (''code'', JStr code)])) d2)))"

definition reject ::
  "StoreEnv \<Rightarrow> int \<Rightarrow> string \<Rightarrow> string \<Rightarrow> string \<Rightarrow> bool \<Rightarrow> number option \<Rightarrow> int option option \<Rightarrow> Database \<Rightarrow> CodeError + Database \<times> bool" where
  "reject env now i stepId code noEffect retryAfterMs fence d = storeTransaction env i (\<lambda>c incident.
     if ri_terminatedAt incident \<noteq> None then Inr (d, False)
     else (case select_one (\<lambda>s. st_id s = stepId) (ct_steps (tb_cloud d)) of
         None \<Rightarrow> Inr (d, False)
       | Some step \<Rightarrow>
           if Some (st_attemptId step) \<noteq> ri_currentAttemptId incident \<or> st_status step = SsApplied
             \<or> (case fence of Some f \<Rightarrow> st_fence step \<noteq> f | None \<Rightarrow> False) then Inr (d, False)
           else if \<not> noEffect then Inr (uncertain_rejection now incident stepId code d, True)
           else bindE (definite_rejection env now i c incident step code retryAfterMs d) (\<lambda>d'. Inr (d', True)))) d"

section \<open>Settlement\<close>

fun rejection_text :: "RotationCloudRejection \<Rightarrow> string" where
  "rejection_text PermissionDenied = ''permission_denied''" | "rejection_text QuotaExceeded = ''quota_exceeded''"
| "rejection_text CredentialsExpired = ''credentials_expired''" | "rejection_text InvalidCredentials = ''invalid_credentials''"
| "rejection_text RateLimited = ''rate_limited''" | "rejection_text TemporaryCloudError = ''temporary_cloud_error''"
| "rejection_text UnknownCloudError = ''unknown_cloud_error''" | "rejection_text RotationUnsupported = ''rotation_unsupported''"
| "rejection_text CloudWritesNotEnabled = ''cloud_writes_not_enabled''" | "rejection_text RemoteIdentityChanged = ''remote_identity_changed''"
| "rejection_text ResourceNotFound = ''resource_not_found''" | "rejection_text (OtherRejection code) = code"

fun pause_text :: "RotationPauseReason \<Rightarrow> string" where
  "pause_text (PauseRejection r) = rejection_text r"
| "pause_text AuthorizationRevoked = ''authorization_revoked''" | "pause_text FamilyDisabled = ''family_disabled''"
| "pause_text RegionExcluded = ''region_excluded''" | "pause_text ConflictingManager = ''conflicting_manager''"
| "pause_text AuthorizationChanged = ''authorization_changed''" | "pause_text ConfigurationChanged = ''configuration_changed''"
| "pause_text AddressVersionChanged = ''address_version_changed''" | "pause_text StaleFence = ''stale_fence''"
| "pause_text AttemptsExhausted = ''attempts_exhausted''" | "pause_text ResourceOwnershipAmbiguous = ''resource_ownership_ambiguous''"
| "pause_text CloudNotApplied = ''cloud_not_applied''" | "pause_text CandidateFailed = ''candidate_failed''"
| "pause_text DnsPartial = ''dns_partial''" | "pause_text CleanupNotAuthorized = ''cleanup_not_authorized''"
| "pause_text CleanupFailed = ''cleanup_failed''" | "pause_text InvalidSnapshot = ''invalid_snapshot''"
| "pause_text InstanceLifecycleBusy = ''instance_lifecycle_busy''"

definition set_attempt :: "string \<Rightarrow> (RotationAttemptRow \<Rightarrow> RotationAttemptRow) \<Rightarrow> CloudTables \<Rightarrow> CloudTables" where
  "set_attempt attemptId f t = t\<lparr>ct_attempts := update_where (\<lambda>a. ra_id a = attemptId) f (ct_attempts t)\<rparr>"

text \<open>A verified candidate goes to publication.\<close>

definition settle_publish :: "FreshIds \<Rightarrow> int \<Rightarrow> string \<Rightarrow> RotationContext \<Rightarrow> string \<Rightarrow> RotationRun \<Rightarrow> Database \<Rightarrow> Database" where
  "settle_publish ids now i c candidateAddressId run d = set_cloud (\<lambda>t. (case ru_attempt run of
       Some a \<Rightarrow> set_attempt (ra_id a) (\<lambda>x. x\<lparr>ra_status := (if ra_charged a then AttVerified else AttAbandoned)\<rparr>) | None \<Rightarrow> id) t)
     (set_incident i (\<lambda>x. x\<lparr>ri_phase := PublishPhase, ri_status := IncActive, ri_errorCode := None, ri_nextRunAt := now + 30000, ri_updatedAt := now\<rparr>)
     (set_cloud (insert_publication (fi_publication ids) (ms_id (cx_slot c)) (ms_candidateVersion (cx_slot c)) candidateAddressId i) d))"

text \<open>The address works again, and nothing was written yet.\<close>

definition settle_recovered :: "int \<Rightarrow> string \<Rightarrow> RotationContext \<Rightarrow> RotationIncidentRow \<Rightarrow> RotationRun \<Rightarrow> Database \<Rightarrow> Database" where
  "settle_recovered now i c incident run d = (if list_ex (\<lambda>r. re_incidentId r = i \<and> (re_cleanupStatus r = CuPending \<or> re_cleanupStatus r = CuFailed))
       (ct_resources (tb_cloud d))
     then set_incident i (\<lambda>x. x\<lparr>ri_phase := CleanupPhase, ri_errorCode := Some ''cleanup_pending'', ri_nextRunAt := now, ri_updatedAt := now\<rparr>) d
     else rotationAudit incident ''rotation.current_recovered'' None NoSnapshot
       (set_cloud (\<lambda>t. (case ru_attempt run of Some a \<Rightarrow> set_attempt (ra_id a) (\<lambda>x. x\<lparr>ra_status := AttAbandoned\<rparr>) | None \<Rightarrow> id)
         (t\<lparr>ct_leases := update_where (\<lambda>l. le_physicalKey l = ri_physicalKey incident \<and> le_incidentId l = Some i) (\<lambda>l. l\<lparr>le_incidentId := None\<rparr>) (ct_leases t),
            ct_slots := update_where (\<lambda>s. ms_id s = ms_id (cx_slot c)) (\<lambda>s. s\<lparr>ms_resetRecoveryRetries := 0\<rparr>) (ct_slots t)\<rparr>))
       (set_incident i (\<lambda>x. x\<lparr>ri_phase := CompletePhase, ri_status := IncComplete, ri_errorCode := None, ri_finishedAt := Some now, ri_updatedAt := now\<rparr>) d)))"

fun wait_until :: "RotationAction \<Rightarrow> number option" where
  "wait_until (Wait _ until) = until"
| "wait_until _ = None"

fun is_wait :: "RotationAction \<Rightarrow> bool" where
  "is_wait (Wait _ _) = True"
| "is_wait _ = False"

fun is_probe :: "RotationAction \<Rightarrow> bool" where
  "is_probe (Probe _ _) = True"
| "is_probe _ = False"

definition settle_waiting :: "int \<Rightarrow> string \<Rightarrow> RotationIncidentRow \<Rightarrow> RotationAction \<Rightarrow> Database \<Rightarrow> Database" where
  "settle_waiting now i incident action = set_incident i (\<lambda>x. x\<lparr>
     ri_errorCode := (if is_probe action then Some ''probe_insufficient'' else ri_errorCode incident),
     ri_nextRunAt := (case wait_until action of Some (Num r) \<Rightarrow> if r = 0 then now + 15000 else \<lfloor>r\<rfloor> | _ \<Rightarrow> now + 15000),
     ri_updatedAt := (if is_wait action \<and> (ri_status incident = IncPaused \<or> ri_status incident = IncExhausted) then ri_updatedAt x else now)\<rparr>)"

definition settleAction ::
  "StoreEnv \<Rightarrow> FreshIds \<Rightarrow> int \<Rightarrow> string \<Rightarrow> RotationContext \<Rightarrow> RotationIncidentRow \<Rightarrow> RotationRun \<Rightarrow> Database \<Rightarrow> CodeError + Database" where
  "settleAction env ids now i c incident run d = (let action = ru_action run; h = ru_health run;
       charged = (case ru_attempt run of Some a \<Rightarrow> ra_charged a | None \<Rightarrow> False) in
     case (ms_candidateAddressId (cx_slot c), action) of
       (Some candidate, PublishDispatch version) \<Rightarrow> if rh_success h then Inr (settle_publish ids now i c candidate run d)
         else Inr (settle_waiting now i incident action d)
     | (None, Complete) \<Rightarrow> if rh_success h \<and> \<not> charged \<and> 0 < ms_currentVersion (cx_slot c)
         then Inr (settle_recovered now i c incident run d) else Inr (settle_waiting now i incident action d)
     | (_, Pause reason) \<Rightarrow> pauseIn env incident (pause_text reason) now None d
     | _ \<Rightarrow> Inr (settle_waiting now i incident action d))"

definition settle :: "StoreEnv \<Rightarrow> FreshIds \<Rightarrow> int \<Rightarrow> string \<Rightarrow> LeaseHandle \<Rightarrow> Database \<Rightarrow> CodeError + Database \<times> unit" where
  "settle env ids now i lease d = storeTransaction env i (\<lambda>c incident.
     if ri_terminatedAt incident \<noteq> None then Inr (d, ())
     else bindE (snapshot now d c incident lease) (\<lambda>run.
       bindE (settleAction env ids now i c incident run d) (\<lambda>d'. Inr (d', ())))) d"

end
