(* ===== verification/Store_Safety.thy ===== *)
theory Store_Safety
  imports Rotation_Store
begin

text \<open>
  What the transactions of the rotation store keep: an attempt is charged once and within its budget, a write that was sent is not
  forgotten before its outcome is known, and a worker that lost its lease writes nothing.
\<close>

section \<open>The steps of the store\<close>

text \<open>Any transaction of the worker, at any time, with any answer of the cloud.\<close>

inductive store_step :: "StoreEnv \<Rightarrow> Database \<Rightarrow> Database \<Rightarrow> bool" for env where
  Claim: "claim env now i holder d = Inr (d', lease) \<Longrightarrow> store_step env d d'"
| Release: "store_step env d (release now lease d)"
| Read: "readRun env now i lease d = Inr (d', run) \<Longrightarrow> store_step env d d'"
| Prepare: "prepare env ids now i lease inventory identity d = Inr (d', prepared) \<Longrightarrow> store_step env d d'"
| Dispatch: "dispatch env now i lease stepId identity d = Inr (d', plan) \<Longrightarrow> store_step env d d'"
| Save: "saveReceipt env ids now i stepId result observed fence d = Inr (d', saved) \<Longrightarrow> store_step env d d'"
| Reject: "reject env now i stepId code noEffect retryAfterMs fence d = Inr (d', rejected) \<Longrightarrow> store_step env d d'"
| Settle: "settle env ids now i lease d = Inr (d', u) \<Longrightarrow> store_step env d d'"
| Pause: "pause env now i code retryAfterMs d = Inr (d', u) \<Longrightarrow> store_step env d d'"
| Defer: "store_step env d (deferRun now i d)"

section \<open>Parts of the database\<close>

text \<open>The charges of the attempts, the budgets, and the identities of leases and steps.\<close>

definition charges :: "Database \<Rightarrow> (string \<times> string \<times> bool) list" where
  "charges d = map (\<lambda>a. (ra_id a, ra_segmentId a, ra_charged a)) (ct_attempts (tb_cloud d))"

definition budgets :: "Database \<Rightarrow> (string \<times> int \<times> int) list" where
  "budgets d = map (\<lambda>b. (bs_id b, bs_attemptsUsed b, bs_maxAttempts b)) (ct_segments (tb_cloud d))"

definition lease_view :: "Database \<Rightarrow> (string \<times> int \<times> string option) list" where
  "lease_view d = map (\<lambda>l. (le_physicalKey l, le_revision l, le_unresolvedStepId l)) (ct_leases (tb_cloud d))"

definition statuses :: "Database \<Rightarrow> (string \<times> StoredStepStatus) list" where
  "statuses d = map (\<lambda>s. (st_id s, st_status s)) (ct_steps (tb_cloud d))"

named_theorems parts

lemma map_update_rows: "(\<And>x. x \<in> set xs \<Longrightarrow> P x \<Longrightarrow> g (f x) = g x) \<Longrightarrow> map g (update_where P f xs) = map g xs"
  by (simp add: update_where_def)

lemma parts_audit [parts]:
  "charges (rotationAudit x a u s d) = charges d" "budgets (rotationAudit x a u s d) = budgets d"
  "lease_view (rotationAudit x a u s d) = lease_view d" "statuses (rotationAudit x a u s d) = statuses d"
  by (simp_all add: charges_def budgets_def lease_view_def statuses_def)

lemma parts_incident [parts]:
  "charges (set_incident i f d) = charges d" "budgets (set_incident i f d) = budgets d"
  "lease_view (set_incident i f d) = lease_view d" "statuses (set_incident i f d) = statuses d"
  by (simp_all add: set_incident_def charges_def budgets_def lease_view_def statuses_def)

lemma parts_recovery [parts]:
  "charges (scheduleRotationRecovery c incident code now notBefore d) = charges d"
  "budgets (scheduleRotationRecovery c incident code now notBefore d) = budgets d"
  "lease_view (scheduleRotationRecovery c incident code now notBefore d) = lease_view d"
  "statuses (scheduleRotationRecovery c incident code now notBefore d) = statuses d"
proof -
  have extend: "charges (set_cloud (extend_observation c incident t) e) = charges e" "budgets (set_cloud (extend_observation c incident t) e) = budgets e"
    "lease_view (set_cloud (extend_observation c incident t) e) = lease_view e"
    "statuses (set_cloud (extend_observation c incident t) e) = statuses e" for t e
    by (auto simp: extend_observation_def charges_def budgets_def lease_view_def statuses_def intro!: map_update_rows)
  show "charges (scheduleRotationRecovery c incident code now notBefore d) = charges d"
    "budgets (scheduleRotationRecovery c incident code now notBefore d) = budgets d"
    "lease_view (scheduleRotationRecovery c incident code now notBefore d) = lease_view d"
    "statuses (scheduleRotationRecovery c incident code now notBefore d) = statuses d"
    unfolding scheduleRotationRecovery_def exhaust_recovery_def Let_def by (simp_all add: parts extend)
qed

lemma pauseIn_parts:
  assumes "pauseIn env incident code now notBefore d = Inr d'"
  shows "charges d' = charges d" "budgets d' = budgets d" "lease_view d' = lease_view d" "statuses d' = statuses d"
proof -
  have exhaust: "charges (set_cloud (\<lambda>t. t\<lparr>ct_segments := update_where P (\<lambda>b. b\<lparr>bs_exhausted := True\<rparr>) (ct_segments t)\<rparr>) e) = charges e"
    "budgets (set_cloud (\<lambda>t. t\<lparr>ct_segments := update_where P (\<lambda>b. b\<lparr>bs_exhausted := True\<rparr>) (ct_segments t)\<rparr>) e) = budgets e"
    "lease_view (set_cloud (\<lambda>t. t\<lparr>ct_segments := update_where P (\<lambda>b. b\<lparr>bs_exhausted := True\<rparr>) (ct_segments t)\<rparr>) e) = lease_view e"
    "statuses (set_cloud (\<lambda>t. t\<lparr>ct_segments := update_where P (\<lambda>b. b\<lparr>bs_exhausted := True\<rparr>) (ct_segments t)\<rparr>) e) = statuses e" for P e
    by (simp_all add: charges_def budgets_def lease_view_def statuses_def map_update_rows)
  from assms show "charges d' = charges d" "budgets d' = budgets d" "lease_view d' = lease_view d" "statuses d' = statuses d"
    unfolding pauseIn_def Let_def by (auto simp: parts exhaust bindE_eq_Inr split: if_splits)
qed

section \<open>The snapshot behind an action\<close>

lemma storeTransaction_Inr:
  assumes "storeTransaction env i action d = Inr r"
  obtains incident c where "find_incident d i = Some incident" "lockRotationContext (ne_physicalKey env) (tb_cloud d) (ri_slotId incident) = Inr c"
    "action c incident = Inr r"
  using assms by (auto simp: storeTransaction_def bindE_eq_Inr split: option.splits)

lemma is_execute_write: "is_execute a \<Longrightarrow> is_write a"
  by (cases a) auto

lemma waitingAction_execute: "is_execute (waitingAction incident now a) \<Longrightarrow> waitingAction incident now a = a"
  by (auto simp: waitingAction_def Let_def split: option.splits if_splits)

lemma recoveredAction_execute: "is_execute (recoveredAction c incident h physical attempt a) \<Longrightarrow> recoveredAction c incident h physical attempt a = a"
  by (auto simp: recoveredAction_def split: option.splits if_splits)

lemma guardedAction_execute:
  "is_execute (guardedAction c incident h a) \<Longrightarrow> guardedAction c incident h a = a \<and> ri_pausedByUserId incident = None
    \<and> cx_physicalKey c = ri_physicalKey incident \<and> (ri_rotationTrigger incident \<noteq> ManualTrigger \<longrightarrow> healthRevisionMatches (incident_json incident) h)"
  by (cases a) (auto simp: guardedAction_def split: if_splits)

lemma snapshot_InrE:
  assumes "snapshot now d c incident lease = Inr run"
  obtains snap where
    "select_one (\<lambda>b. bs_id b = ri_currentSegmentId incident) (ct_segments (tb_cloud d)) = Some (ru_budget run)"
    "ru_physical run = verifyRotationLease now lease (tb_cloud d)"
    "ru_attempt run = Option.bind (ri_currentAttemptId incident) (\<lambda>i. select_one (\<lambda>a. ra_id a = i) (ct_attempts (tb_cloud d)))"
    "ru_steps run = (case ru_attempt run of Some a \<Rightarrow> attempt_steps (tb_cloud d) (ra_id a) | None \<Rightarrow> [])"
    "(case ru_attempt run of None \<Rightarrow> Inr None | Some a \<Rightarrow> bindE (attemptSnapshot a (ru_steps run)) (\<lambda>x. Inr (Some x))) = Inr snap"
    "ru_action run = (if ri_terminatedAt incident \<noteq> None then Wait InstanceBusy None
       else waitingAction incident now (recoveredAction c incident (ru_health run) (ru_physical run) (ru_attempt run) (guardedAction c incident (ru_health run)
         (nextRotationAction (rotationSnapshot c incident lease (ru_health run) (ru_physical run) (ru_budget run) snap (ru_publication run)) (num_of_int now)))))"
  using assms unfolding snapshot_def Let_def by (auto simp: bindE_eq_Inr split: option.splits)

text \<open>A write comes straight from the machine, for an incident that goes on, on its own machine and evidence, and under the lease.\<close>

lemma executed:
  assumes snap: "snapshot now d c incident lease = Inr run" and "is_execute (ru_action run)"
  obtains s x where "nextRotationAction s (num_of_int now) = ru_action run" "writes_permitted s" "phaseAction s (num_of_int now) = ru_action run"
    "s = rotationSnapshot c incident lease (ru_health run) (ru_physical run) (ru_budget run) x (ru_publication run)"
    "(case ru_attempt run of None \<Rightarrow> Inr None | Some a \<Rightarrow> bindE (attemptSnapshot a (ru_steps run)) (\<lambda>x. Inr (Some x))) = Inr x"
    "observeAction s (num_of_int now) = None"
    "ri_terminatedAt incident = None" "ri_pausedByUserId incident = None" "cx_physicalKey c = ri_physicalKey incident"
proof -
  from snapshot_InrE [OF snap] obtain x where
    x: "(case ru_attempt run of None \<Rightarrow> Inr None | Some a \<Rightarrow> bindE (attemptSnapshot a (ru_steps run)) (\<lambda>x. Inr (Some x))) = Inr x"
    and action: "ru_action run = (if ri_terminatedAt incident \<noteq> None then Wait InstanceBusy None
       else waitingAction incident now (recoveredAction c incident (ru_health run) (ru_physical run) (ru_attempt run) (guardedAction c incident (ru_health run)
         (nextRotationAction (rotationSnapshot c incident lease (ru_health run) (ru_physical run) (ru_budget run) x (ru_publication run)) (num_of_int now)))))"
    by metis
  let ?s = "rotationSnapshot c incident lease (ru_health run) (ru_physical run) (ru_budget run) x (ru_publication run)"
  have alive: "ri_terminatedAt incident = None" using assms(2) action by (auto split: if_splits)
  have chain: "ru_action run = nextRotationAction ?s (num_of_int now)" "ri_pausedByUserId incident = None" "cx_physicalKey c = ri_physicalKey incident"
    using assms(2) action alive waitingAction_execute recoveredAction_execute guardedAction_execute by (metis (no_types, lifting))+
  have writes: "is_write (nextRotationAction ?s (num_of_int now))" using assms(2) chain(1) is_execute_write by simp
  from nextRotationAction_gated [OF refl disjI1 [OF writes]] show thesis
    by (intro that [of ?s x]) (simp_all add: chain alive x)
qed


section \<open>Dispatch\<close>

lemma reserve_Denied: "reserveCloudRotationWrite now input t = Inr (t', WriteDenied r n) \<Longrightarrow> t' = t"
  unfolding reserveCloudRotationWrite_def admitWrite_def Let_def by (auto simp: bindE_eq_Inr split: if_splits option.splits)

lemma reserve_tables:
  assumes "reserveCloudRotationWrite now input t = Inr (t', a)"
  shows "\<exists>x y. t' = t\<lparr>ct_buckets := x, ct_reservations := y\<rparr>"
proof (cases a)
  case WriteAllowed
  with reserve_Allowed assms obtain c where "admitWrite now input c (limitBuckets t (lc_identityKey c)) t = Inr (t', WriteAllowed)" by metis
  then show ?thesis unfolding admitWrite_def Let_def by (clarsimp simp: bindE_eq_Inr split: option.splits) blast
next
  case (WriteDenied r n)
  with reserve_Denied assms have "t' = t" by blast
  then have "t' = t\<lparr>ct_buckets := ct_buckets t, ct_reservations := ct_reservations t\<rparr>" by simp
  then show ?thesis by blast
qed

lemma parts_tables:
  assumes "tb_cloud d' = t" and "t = (tb_cloud d)\<lparr>ct_buckets := x, ct_reservations := y\<rparr>"
  shows "charges d' = charges d" "budgets d' = budgets d" "lease_view d' = lease_view d" "statuses d' = statuses d"
  using assms by (simp_all add: charges_def budgets_def lease_view_def statuses_def)

lemma dispatch_stepE:
  assumes "dispatch_step env now i lease c incident r attempt step d = Inr (d', sent)"
  shows "\<exists>alloc companion t admission. authorizeStep (ne_physicalKey env) (ne_isIP env) c i (st_plan step) alloc now (tb_cloud d) = Inr companion
    \<and> reserveCloudRotationWrite now (write_input c r step) (tb_cloud d) = Inr (t, admission)
    \<and> ((\<exists>ruleId retryAt. admission = WriteDenied ruleId retryAt \<and> sent = None
            \<and> d' = wait_for_budget now incident (st_id step) ruleId retryAt (set_cloud (\<lambda>_. t) d))
          \<or> (\<exists>policy plan. admission = WriteAllowed \<and> cx_policy c = Some policy \<and> sent = Some plan
            \<and> tb_cloud d' = dispatch_rows now i lease policy (st_id step) plan companion (charge_attempt now i policy r attempt t)))"
proof -
  from assms obtain companion permissions x where
    x: "authorizeStep (ne_physicalKey env) (ne_isIP env) c i (st_plan step) (allocation_receipt r step) now (tb_cloud d) = Inr companion"
    "reserveCloudRotationWrite now (write_input c r step) (tb_cloud d) = Inr x"
    and fin_x: "(case x of (t, admission) \<Rightarrow> case admission of WriteDenied ruleId retryAt \<Rightarrow> Inr (wait_for_budget now incident (st_id step) ruleId retryAt (set_cloud (\<lambda>_. t) d), None)
        | WriteAllowed \<Rightarrow> (case cx_policy c of None \<Rightarrow> Inl ''type_error''
          | Some policy \<Rightarrow> (let plan = dispatched_plan (st_plan step) (prior_steps r step) (allocation_of r step) permissions in
              Inr (rotationAudit incident ''rotation.dispatched'' None (JsonSnapshot (JObj [(''attemptId'', JStr (ra_id attempt)),
                (''stepId'', JStr (st_id step)), (''fence'', JNum (num_of_int (lh_revision lease)))]))
                (set_cloud (dispatch_rows now i lease policy (st_id step) plan companion \<circ> charge_attempt now i policy r attempt \<circ> (\<lambda>_. t)) d), Some plan))))
      = Inr (d', sent)"
    unfolding dispatch_step_def bindE_eq_Inr by blast
  obtain t admission where ta: "x = (t, admission)" by (cases x)
  from fin_x ta have "(\<exists>ruleId retryAt. admission = WriteDenied ruleId retryAt \<and> sent = None
            \<and> d' = wait_for_budget now incident (st_id step) ruleId retryAt (set_cloud (\<lambda>_. t) d))
          \<or> (\<exists>policy plan. admission = WriteAllowed \<and> cx_policy c = Some policy \<and> sent = Some plan
            \<and> tb_cloud d' = dispatch_rows now i lease policy (st_id step) plan companion (charge_attempt now i policy r attempt t))"
    by (cases admission; cases "cx_policy c") (auto simp: Let_def)
  with x ta show ?thesis by blast
qed

lemma dispatchE:
  assumes "dispatch env now i lease stepId identity d = Inr (d', sent)"
  obtains (waits) "sent = None" "charges d' = charges d" "budgets d' = budgets d" "lease_view d' = lease_view d" "statuses d' = statuses d"
  | (sends) incident c run attempt step alloc companion t policy plan where "find_incident d i = Some incident"
      "lockRotationContext (ne_physicalKey env) (tb_cloud d) (ri_slotId incident) = Inr c"
      "snapshot now d c incident lease = Inr run" "dispatchable i stepId run" "rotationAuthorizationError c (ri_rotationTrigger incident) = None"
      "ru_attempt run = Some attempt" "find (\<lambda>s. st_id s = stepId) (ru_steps run) = Some step" "cx_policy c = Some policy"
      "authorizeStep (ne_physicalKey env) (ne_isIP env) c i (st_plan step) alloc now (tb_cloud d) = Inr companion"
      "reserveCloudRotationWrite now (write_input c run step) (tb_cloud d) = Inr (t, WriteAllowed)" "sent = Some plan"
      "tb_cloud d' = dispatch_rows now i lease policy stepId plan companion (charge_attempt now i policy run attempt t)"
proof -
  from storeTransaction_Inr [OF assms [unfolded dispatch_def]] obtain incident c where
    inc: "find_incident d i = Some incident" and c: "lockRotationContext (ne_physicalKey env) (tb_cloud d) (ri_slotId incident) = Inr c"
    and run: "bindE (snapshot now d c incident lease) (\<lambda>run. bindE (assertIdentity c identity) (\<lambda>_.
       if \<not> dispatchable i stepId run then Inr (d, None)
       else bindE (case rotationAuthorizationError c (ri_rotationTrigger incident) of Some e \<Rightarrow> Inl e | None \<Rightarrow> Inr ()) (\<lambda>_.
       case (ru_attempt run, find (\<lambda>s. st_id s = stepId) (ru_steps run)) of
         (Some attempt, Some step) \<Rightarrow> dispatch_step env now i lease c incident run attempt step d
       | _ \<Rightarrow> Inl ''type_error''))) = Inr (d', sent)" by blast
  from run obtain r where r: "snapshot now d c incident lease = Inr r"
    and rest: "\<not> dispatchable i stepId r \<and> d' = d \<and> sent = None \<or> dispatchable i stepId r \<and> rotationAuthorizationError c (ri_rotationTrigger incident) = None
      \<and> (\<exists>attempt step. ru_attempt r = Some attempt \<and> find (\<lambda>s. st_id s = stepId) (ru_steps r) = Some step
           \<and> dispatch_step env now i lease c incident r attempt step d = Inr (d', sent))"
    by (auto simp: bindE_eq_Inr split: if_splits option.splits)
  from rest show thesis
  proof (elim disjE conjE exE)
    assume "d' = d" "sent = None"
    then show thesis by (intro waits) simp_all
  next
    fix attempt step
    assume ok: "dispatchable i stepId r" "rotationAuthorizationError c (ri_rotationTrigger incident) = None" "ru_attempt r = Some attempt"
      and step: "find (\<lambda>s. st_id s = stepId) (ru_steps r) = Some step" and sent: "dispatch_step env now i lease c incident r attempt step d = Inr (d', sent)"
    from step have id: "st_id step = stepId" by (auto simp: find_Some_iff)
    from dispatch_stepE [OF sent] obtain alloc companion t admission where
      auth: "authorizeStep (ne_physicalKey env) (ne_isIP env) c i (st_plan step) alloc now (tb_cloud d) = Inr companion"
      and reserve: "reserveCloudRotationWrite now (write_input c r step) (tb_cloud d) = Inr (t, admission)"
      and result: "(\<exists>ruleId retryAt. admission = WriteDenied ruleId retryAt \<and> sent = None
            \<and> d' = wait_for_budget now incident (st_id step) ruleId retryAt (set_cloud (\<lambda>_. t) d))
          \<or> (\<exists>policy plan. admission = WriteAllowed \<and> cx_policy c = Some policy \<and> sent = Some plan
            \<and> tb_cloud d' = dispatch_rows now i lease policy (st_id step) plan companion (charge_attempt now i policy r attempt t))" by blast
    from result show thesis
    proof (elim disjE exE conjE)
      fix ruleId retryAt
      assume denied: "admission = WriteDenied ruleId retryAt" "sent = None"
        and d': "d' = wait_for_budget now incident (st_id step) ruleId retryAt (set_cloud (\<lambda>_. t) d)"
      from reserve denied have "t = tb_cloud d" using reserve_Denied by blast
      then have same: "set_cloud (\<lambda>_. t) d = d" by (simp add: set_cloud_def)
      show thesis by (rule waits) (simp_all add: denied d' same wait_for_budget_def Let_def parts)
    next
      fix policy plan
      assume "admission = WriteAllowed" "cx_policy c = Some policy" "sent = Some plan"
        "tb_cloud d' = dispatch_rows now i lease policy (st_id step) plan companion (charge_attempt now i policy r attempt t)"
      then show thesis using inc c r ok step auth reserve id by (intro sends [of incident c r attempt step policy alloc companion t plan]) simp_all
    qed
  qed
qed


section \<open>Leases\<close>

text \<open>Leases are never removed, their revisions only grow, and an unresolved step stays.\<close>

definition lease_le :: "(string \<times> int \<times> string option) list \<Rightarrow> (string \<times> int \<times> string option) list \<Rightarrow> bool" where
  "lease_le xs ys = (distinct (map fst xs) \<longrightarrow> distinct (map fst ys)
     \<and> (\<forall>(k, n, u) \<in> set xs. \<exists>n' u'. (k, n', u') \<in> set ys \<and> n \<le> n' \<and> (u \<noteq> None \<longrightarrow> u' = u)))"

lemma lease_le_refl [simp]: "lease_le xs xs"
  by (auto simp: lease_le_def)

lemma lease_le_trans: "lease_le xs ys \<Longrightarrow> lease_le ys zs \<Longrightarrow> lease_le xs zs"
  unfolding lease_le_def by (fastforce intro: order_trans)

definition lease_rows :: "CloudTables \<Rightarrow> (string \<times> int \<times> string option) list" where
  "lease_rows t = map (\<lambda>l. (le_physicalKey l, le_revision l, le_unresolvedStepId l)) (ct_leases t)"

lemma lease_view_rows: "lease_view d = lease_rows (tb_cloud d)"
  by (simp add: lease_view_def lease_rows_def)

lemma lease_rows_update:
  "(\<And>l. le_physicalKey (f l) = le_physicalKey l \<and> le_revision (f l) = le_revision l \<and> le_unresolvedStepId (f l) = le_unresolvedStepId l)
    \<Longrightarrow> lease_rows (t\<lparr>ct_leases := update_where P f ls\<rparr>) = lease_rows (t\<lparr>ct_leases := ls\<rparr>)"
  by (simp add: lease_rows_def map_update_rows)

lemma insert_lease_rows: "lease_le (lease_rows t) (lease_rows (insert_lease now k t))"
  by (auto simp: insert_lease_def lease_le_def lease_rows_def list_ex_iff)

lemma set_lease_rows:
  "(\<And>l. le_physicalKey (f l) = le_physicalKey l \<and> le_revision (f l) = le_revision l \<and> le_unresolvedStepId (f l) = le_unresolvedStepId l)
    \<Longrightarrow> lease_rows (set_lease k f t) = lease_rows t"
  by (simp add: set_lease_def lease_rows_def map_update_rows)

lemma find_lease_rows:
  "find_lease k t = Some l \<Longrightarrow> distinct (map fst (lease_rows t)) \<Longrightarrow> l' \<in> set (ct_leases t) \<Longrightarrow> le_physicalKey l' = k \<Longrightarrow> l' = l"
  by (auto simp: find_lease_def lease_rows_def distinct_map inj_on_def comp_def dest!: select_one_Some)

lemma recordLinodeSwapState_tables:
  assumes "recordLinodeSwapState pk isIP c i a receipt applied now stepId t = (t', ok)"
  shows "ct_attempts t' = ct_attempts t \<and> ct_segments t' = ct_segments t \<and> ct_steps t' = ct_steps t \<and> lease_le (lease_rows t) (lease_rows t')"
proof -
  have inserted: "ct_attempts (insert_lease now k t) = ct_attempts t" "ct_segments (insert_lease now k t) = ct_segments t"
    "ct_steps (insert_lease now k t) = ct_steps t" for k
    by (simp_all add: insert_lease_def)
  have owned: "ct_attempts (set_lease k f u) = ct_attempts u" "ct_segments (set_lease k f u) = ct_segments u" "ct_steps (set_lease k f u) = ct_steps u" for k f u
    by (simp_all add: set_lease_def)
  have resources: "lease_rows (u\<lparr>ct_resources := x\<rparr>) = lease_rows u" for u x by (simp add: lease_rows_def)
  have rows: "lease_rows (set_lease k (\<lambda>l. l\<lparr>le_incidentId := x\<rparr>) u) = lease_rows u" for k x u by (rule set_lease_rows) simp
  from assms show ?thesis
    unfolding recordLinodeSwapState_def Let_def
    by (auto simp: inserted owned resources rows insert_lease_rows split: option.splits if_splits)
qed

lemma recordReceipt_tables:
  assumes "recordReceipt pk isIP c i a receipt plan applied now stepId t = (t', ok)"
  shows "ct_attempts t' = ct_attempts t \<and> ct_segments t' = ct_segments t \<and> ct_steps t' = ct_steps t \<and> lease_le (lease_rows t) (lease_rows t')"
  using assms recordLinodeSwapState_tables unfolding recordReceipt_def by (fastforce split: if_splits)


lemma acquire_tables:
  assumes "acquireRotationLease now k holder t = (t', l)"
  shows "ct_attempts t' = ct_attempts t \<and> ct_segments t' = ct_segments t \<and> ct_steps t' = ct_steps t \<and> lease_le (lease_rows t) (lease_rows t')"
proof -
  have inserted: "ct_attempts (insert_lease now k t) = ct_attempts t" "ct_segments (insert_lease now k t) = ct_segments t"
    "ct_steps (insert_lease now k t) = ct_steps t"
    by (simp_all add: insert_lease_def)
  show ?thesis
  proof (cases "\<exists>row. find_lease k (insert_lease now k t) = Some row \<and> \<not> (le_holder row \<noteq> None \<and> now < le_expiresAt row)")
    case False
    with assms have "t' = insert_lease now k t" by (auto simp: acquireRotationLease_def Let_def split: option.splits if_splits)
    then show ?thesis by (simp add: inserted insert_lease_rows)
  next
    case True
    then obtain row where row: "find_lease k (insert_lease now k t) = Some row" "\<not> (le_holder row \<noteq> None \<and> now < le_expiresAt row)" by blast
    let ?f = "\<lambda>l. l\<lparr>le_holder := Some holder, le_revision := le_revision row + 1, le_expiresAt := now + 45000\<rparr>"
    have t': "t' = set_lease k ?f (insert_lease now k t)"
      using assms row by (auto simp: acquireRotationLease_def Let_def split: if_splits)
    have "lease_le (lease_rows (insert_lease now k t)) (lease_rows t')"
      unfolding lease_le_def
    proof (intro impI conjI ballI)
      assume dist: "distinct (map fst (lease_rows (insert_lease now k t)))"
      show "distinct (map fst (lease_rows t'))"
        using dist by (simp add: t' set_lease_def lease_rows_def comp_def map_update_rows)
      fix x assume "x \<in> set (lease_rows (insert_lease now k t))"
      then obtain l where l: "l \<in> set (ct_leases (insert_lease now k t))" "x = (le_physicalKey l, le_revision l, le_unresolvedStepId l)"
        by (auto simp: lease_rows_def)
      let ?l = "if le_physicalKey l = k then ?f l else l"
      have "?l \<in> set (ct_leases t')" using l(1) by (auto simp: t' set_lease_def update_where_def image_iff)
      then have "(le_physicalKey ?l, le_revision ?l, le_unresolvedStepId ?l) \<in> set (lease_rows t')" unfolding lease_rows_def set_map by (rule imageI)
      moreover have "le_physicalKey ?l = le_physicalKey l" "le_unresolvedStepId ?l = le_unresolvedStepId l" by simp_all
      moreover have "le_revision l \<le> le_revision ?l" using find_lease_rows [OF row(1) dist l(1)] by auto
      ultimately have "(le_physicalKey l, le_revision ?l, le_unresolvedStepId l) \<in> set (lease_rows t') \<and> le_revision l \<le> le_revision ?l"
        by (simp only: simp_thms)
      then show "case x of (k, n, u) \<Rightarrow> \<exists>n' u'. (k, n', u') \<in> set (lease_rows t') \<and> n \<le> n' \<and> (u \<noteq> None \<longrightarrow> u' = u)"
        using l(2) by auto
    qed
    moreover have "ct_attempts t' = ct_attempts t" "ct_segments t' = ct_segments t" "ct_steps t' = ct_steps t"
      by (simp_all add: t' set_lease_def inserted)
    ultimately show ?thesis using lease_le_trans [OF insert_lease_rows] by blast
  qed
qed

text \<open>A transaction that leaves budgets and steps alone, and keeps the leases.\<close>

definition quiet :: "Database \<Rightarrow> Database \<Rightarrow> bool" where
  "quiet d d' = (charges d' = charges d \<and> budgets d' = budgets d \<and> lease_le (lease_view d) (lease_view d'))"

lemma quiet_refl [simp]: "quiet d d"
  by (simp add: quiet_def)

lemma quiet_trans: "quiet d d' \<Longrightarrow> quiet d' d'' \<Longrightarrow> quiet d d''"
  by (auto simp: quiet_def intro: lease_le_trans)

lemma quiet_parts: "charges d' = charges d \<Longrightarrow> budgets d' = budgets d \<Longrightarrow> lease_view d' = lease_view d \<Longrightarrow> quiet d d'"
  by (simp add: quiet_def)

lemma quiet_tables:
  "ct_attempts (tb_cloud d') = ct_attempts (tb_cloud d) \<Longrightarrow> ct_segments (tb_cloud d') = ct_segments (tb_cloud d)
    \<Longrightarrow> lease_le (lease_rows (tb_cloud d)) (lease_rows (tb_cloud d')) \<Longrightarrow> quiet d d'"
  by (simp add: quiet_def charges_def budgets_def lease_view_rows)

lemma quiet_incident: "quiet d (set_incident i f d)"
  by (rule quiet_parts) (simp_all add: parts)

lemma quiet_recovery: "quiet d (scheduleRotationRecovery c incident code now notBefore d)"
  by (rule quiet_parts) (simp_all add: parts)

lemma quiet_pauseIn: "pauseIn env incident code now notBefore d = Inr d' \<Longrightarrow> quiet d d'"
  by (rule quiet_parts) (simp_all add: pauseIn_parts)

lemma quiet_release: "quiet d (release now lease d)"
  unfolding release_def releaseRotationLease_def
  by (rule quiet_tables) (simp_all add: lease_rows_update)

lemma quiet_claim: "claim env now i holder d = Inr (d', lease) \<Longrightarrow> quiet d d'"
proof -
  assume claim: "claim env now i holder d = Inr (d', lease)"
  show "quiet d d'"
  proof (cases "d' = d")
    case False
    with claim obtain c :: RotationContext where c: "claimed now i (cx_physicalKey c) d (acquireRotationLease now (cx_physicalKey c) holder (tb_cloud d)) = (d', lease)"
      unfolding claim_def by (auto simp: bindE_eq_Inr split: option.splits if_splits)
    obtain t l where acquire: "acquireRotationLease now (cx_physicalKey c) holder (tb_cloud d) = (t, l)" by (cases "acquireRotationLease now (cx_physicalKey c) holder (tb_cloud d)")
    with c have d': "d' = set_cloud (\<lambda>_. t) d \<or> d' = deferFailedClaim now i (set_cloud (\<lambda>_. t) d)
        \<or> (\<exists>lease. d' = deferFailedClaim now i (set_cloud (\<lambda>_. releaseRotationLease now lease t) d))"
      by (cases l) (auto split: if_splits)
    have t: "quiet d (set_cloud (\<lambda>_. t) d)" using acquire_tables [OF acquire] by (intro quiet_tables) simp_all
    have "quiet (set_cloud (\<lambda>_. t) d) (set_cloud (\<lambda>_. releaseRotationLease now lease t) d)" for lease
      by (rule quiet_tables) (simp_all add: releaseRotationLease_def lease_rows_update)
    with d' t show ?thesis unfolding deferFailedClaim_def by (blast intro: quiet_trans quiet_incident)
  qed simp
qed

lemma quiet_steps: "quiet d (set_incident i f (set_cloud (\<lambda>t. t\<lparr>ct_steps := x t\<rparr>) d))"
  by (rule quiet_trans [OF _ quiet_incident]) (rule quiet_tables, simp_all add: lease_rows_def)

lemma quiet_read: "readRun env now i lease d = Inr (d', run) \<Longrightarrow> quiet d d'"
  unfolding readRun_def reread_def
  by (erule storeTransaction_Inr) (auto simp: bindE_eq_Inr intro: quiet_recovery quiet_steps split: if_splits option.splits)


text \<open>The same for a transaction that also leaves the status of every step.\<close>

definition core :: "CloudTables \<Rightarrow> (string \<times> string \<times> bool) list \<times> (string \<times> int \<times> int) list \<times> (string \<times> StoredStepStatus) list
    \<times> (string \<times> int \<times> string option) list" where
  "core t = (map (\<lambda>a. (ra_id a, ra_segmentId a, ra_charged a)) (ct_attempts t), map (\<lambda>b. (bs_id b, bs_attemptsUsed b, bs_maxAttempts b)) (ct_segments t),
     map (\<lambda>s. (st_id s, st_status s)) (ct_steps t), lease_rows t)"

definition silent :: "Database \<Rightarrow> Database \<Rightarrow> bool" where
  "silent d d' = (quiet d d' \<and> statuses d' = statuses d)"

lemma core_view: "core (tb_cloud d) = (charges d, budgets d, statuses d, lease_view d)"
  by (simp add: core_def charges_def budgets_def statuses_def lease_view_rows)

lemma silent_core: "core (tb_cloud d') = core (tb_cloud d) \<Longrightarrow> silent d d'"
  by (simp add: core_view silent_def quiet_def)

lemma silent_refl [simp]: "silent d d"
  by (simp add: silent_def)

lemma silent_trans: "silent d d' \<Longrightarrow> silent d' d'' \<Longrightarrow> silent d d''"
  by (auto simp: silent_def intro: quiet_trans)

lemma silent_pauseIn: "pauseIn env incident code now notBefore d = Inr d' \<Longrightarrow> silent d d'"
  by (simp add: silent_def quiet_pauseIn pauseIn_parts)

lemma silent_incident: "silent d (set_incident i f d)"
  by (simp add: silent_def quiet_incident parts)

lemma core_updates [simp]:
  "core (t\<lparr>ct_slots := a\<rparr>) = core t" "core (t\<lparr>ct_healthStates := b\<rparr>) = core t" "core (t\<lparr>ct_resources := e\<rparr>) = core t"
  "core (t\<lparr>ct_publications := g\<rparr>) = core t" "core (t\<lparr>ct_incidents := h\<rparr>) = core t" "core (t\<lparr>ct_addresses := j\<rparr>) = core t"
  "core (t\<lparr>ct_observations := k\<rparr>) = core t"
  by (simp_all add: core_def lease_rows_def)

lemma core_leases: "(\<And>l. le_physicalKey (f l) = le_physicalKey l \<and> le_revision (f l) = le_revision l \<and> le_unresolvedStepId (f l) = le_unresolvedStepId l)
    \<Longrightarrow> core (t\<lparr>ct_leases := update_where P f (ct_leases t)\<rparr>) = core t"
  by (simp add: core_def lease_rows_def map_update_rows)

lemma core_attempts: "(\<And>a. ra_id (f a) = ra_id a \<and> ra_segmentId (f a) = ra_segmentId a \<and> ra_charged (f a) = ra_charged a)
    \<Longrightarrow> core (t\<lparr>ct_attempts := update_where P f (ct_attempts t)\<rparr>) = core t"
  by (simp add: core_def lease_rows_def map_update_rows)

lemma core_upserts [simp]:
  "core (fst (upsert_address newId c a receipt attemptId metadata t)) = core t"
  "core (upsert_resource row f t) = core t"
  "core (insert_publication p slotId v addressId i t) = core t"
  by (simp_all add: upsert_address_def upsert_resource_def insert_publication_def Let_def split: option.split)

lemma core_install: "core (install_rows ids now c incident attempt candidateAddress result version t) = core t"
proof -
  obtain t1 address where u: "upsert_address (fi_address ids) c candidateAddress result (ra_id attempt)
      (candidateAddressMetadata (cin_service (cx_instance c)) result) t = (t1, address)" by fastforce
  then have t1: "core t1 = core t" using core_upserts(1) by (metis fst_conv)
  have slots: "core (t1\<lparr>ct_slots := x, ct_healthStates := y, ct_attempts := update_where P (\<lambda>a. a\<lparr>ra_status := AttCandidate, ra_candidateAddressId := b,
      ra_candidateVersion := v, ra_candidateRepeated := r\<rparr>) (ct_attempts t1)\<rparr>) = core t1" for x y P b v r
    using core_attempts [where t = "t1\<lparr>ct_slots := x, ct_healthStates := y\<rparr>" and P = P] by simp
  have final: "core (u\<lparr>ct_incidents := x, ct_leases := update_where P (\<lambda>l. l\<lparr>le_incidentId := None\<rparr>) (ct_leases u)\<rparr>) = core u" for u x P
    using core_leases [where t = "u\<lparr>ct_incidents := x\<rparr>" and P = P] by simp
  show ?thesis unfolding install_rows_def Let_def u prod.case final using t1 by (simp add: slots)
qed

lemma silent_install: "installCandidate env ids now c incident steps d = Inr d' \<Longrightarrow> silent d d'"
  unfolding installCandidate_def Let_def
  by (auto simp: core_install intro: silent_pauseIn silent_core split: if_splits option.splits)

lemma silent_receipt:
  assumes "recordReceipt pk isIP c i a receipt plan applied now stepId (tb_cloud d) = (t, ok)"
  shows "silent d (set_cloud (\<lambda>_. t) d)"
  using recordReceipt_tables [OF assms]
  by (simp add: silent_def quiet_def charges_def budgets_def statuses_def lease_view_rows)

lemma core_record_candidate: "core (record_candidate env ids i c incident step receipt steps t) = core t"
  unfolding record_candidate_def Let_def by (simp split: json.split)

lemma silent_candidate: "acceptCandidate env ids now i c incident step conflict receipt status d = Inr d' \<Longrightarrow> silent d d'"
proof -
  assume accept: "acceptCandidate env ids now i c incident step conflict receipt status d = Inr d'"
  let ?steps = "attempt_steps (tb_cloud d) (st_attemptId step)"
  let ?d1 = "if conflict then d else set_cloud (record_candidate env ids i c incident step receipt ?steps) d"
  have d1: "silent d ?d1" by (auto intro!: silent_core simp: core_record_candidate)
  from accept obtain d2 where "d2 = ?d1 \<or> installCandidate env ids now c incident ?steps ?d1 = Inr d2"
    and d': "d' = set_incident i (\<lambda>x. x\<lparr>ri_nextRunAt := now + (if status = SsPending then 5000 else 0)\<rparr>) d2"
    unfolding acceptCandidate_def Let_def bindE_eq_Inr by (auto split: if_splits)
  then have "silent ?d1 d2" using silent_install [where d = ?d1 and d' = d2] silent_refl [of d2] by (elim disjE) (simp_all only: simp_thms)
  with d1 show ?thesis unfolding d' by (blast intro: silent_trans silent_incident)
qed

lemma acceptReceipt_silent:
  assumes "acceptReceipt env ids now i c incident step conflict receipt status d = Inr d'"
  shows "silent (if status = SsApplied \<or> status = SsNotApplied then set_cloud (clear_unresolved i (st_id step)) d else d) d'"
proof -
  let ?d0 = "if status = SsApplied \<or> status = SsNotApplied then set_cloud (clear_unresolved i (st_id step)) d else d"
  let ?d1 = "resolve_step i incident (st_id step) status d"
  have d1: "silent ?d0 ?d1" by (simp add: resolve_step_def Let_def silent_incident)
  let ?r = "\<lambda>d2. if \<not> conflict \<and> st_status step \<noteq> SsApplied
           then recordReceipt (ne_physicalKey env) (ne_isIP env) c i (st_attemptId step) receipt (st_plan step) (status = SsApplied) now (st_id step) (tb_cloud d2)
           else (tb_cloud d2, True)"
  have r: "silent d2 (set_cloud (\<lambda>_. fst (?r d2)) d2)" for d2 :: Database
  proof (cases "\<not> conflict \<and> st_status step \<noteq> SsApplied")
    case True
    then show ?thesis using silent_receipt [OF prod.collapse [symmetric]] by simp
  next
    case False
    then show ?thesis by (auto intro!: silent_core)
  qed
  from assms obtain d2 where d2: "(if status = SsAmbiguous then pauseIn env incident ''resource_ownership_ambiguous'' now None ?d1 else Inr ?d1) = Inr d2"
    and d': "(if \<not> snd (?r d2) then pauseIn env incident ''rotation_temporary_instance_busy'' now None (set_cloud (\<lambda>_. fst (?r d2)) d2)
        else acceptCandidate env ids now i c incident step conflict receipt status (set_cloud (\<lambda>_. fst (?r d2)) d2)) = Inr d'"
    unfolding acceptReceipt_def Let_def bindE_eq_Inr by (elim exE conjE)
  have "silent ?d1 d2"
  proof (cases "status = SsAmbiguous")
    case True
    with d2 show ?thesis using silent_pauseIn by simp
  next
    case False
    with d2 show ?thesis by simp
  qed
  moreover have "silent (set_cloud (\<lambda>_. fst (?r d2)) d2) d'"
  proof (cases "snd (?r d2)")
    case True
    from d' [unfolded if_not_P [OF not_not [THEN iffD2, OF True]]] show ?thesis by (rule silent_candidate)
  next
    case False
    from d' [unfolded if_P [OF False]] show ?thesis by (rule silent_pauseIn)
  qed
  ultimately show ?thesis using d1 r silent_trans by blast
qed
section \<open>Unresolved writes\<close>

definition settled :: "StoredStepStatus \<Rightarrow> bool" where
  "settled status = (status = SsApplied \<or> status = SsNotApplied \<or> status = SsRejected)"

text \<open>A lease forgets the write it waits for only when the outcome is known.\<close>

definition remembers_writes :: "Database \<Rightarrow> Database \<Rightarrow> bool" where
  "remembers_writes d d' = (distinct (map fst (lease_view d)) \<longrightarrow> distinct (map fst (lease_view d'))
     \<and> (\<forall>(k, n, u) \<in> set (lease_view d). \<exists>n' u'. (k, n', u') \<in> set (lease_view d') \<and> n \<le> n'
          \<and> (\<forall>s. u = Some s \<longrightarrow> u' = u \<or> (\<exists>status. (s, status) \<in> set (statuses d') \<and> settled status))))"

lemma lease_le_remembers: "lease_le (lease_view d) (lease_view d') \<Longrightarrow> remembers_writes d d'"
  unfolding remembers_writes_def lease_le_def by fast

lemma quiet_remembers: "quiet d d' \<Longrightarrow> remembers_writes d d'"
  by (simp add: quiet_def lease_le_remembers)

lemma cleared_remembers:
  assumes "(stepId, status) \<in> set (statuses d')" and "settled status"
    and "lease_le (lease_rows (clear_unresolved i stepId (tb_cloud d))) (lease_view d')"
  shows "remembers_writes d d'"
  unfolding remembers_writes_def
proof (intro impI conjI ballI)
  let ?f = "\<lambda>l. if le_incidentId l = Some i \<and> le_unresolvedStepId l = Some stepId then l\<lparr>le_unresolvedStepId := None\<rparr> else l"
  have rows: "lease_rows (clear_unresolved i stepId (tb_cloud d)) = map (\<lambda>l. (le_physicalKey (?f l), le_revision (?f l), le_unresolvedStepId (?f l))) (ct_leases (tb_cloud d))"
    by (simp add: lease_rows_def clear_unresolved_def update_where_def)
  assume dist: "distinct (map fst (lease_view d))"
  have "map fst (lease_rows (clear_unresolved i stepId (tb_cloud d))) = map fst (lease_view d)"
    unfolding rows lease_view_def by simp
  with dist assms(3) have le: "distinct (map fst (lease_view d'))"
    "\<And>x. x \<in> set (lease_rows (clear_unresolved i stepId (tb_cloud d))) \<Longrightarrow> case x of (k, n, u) \<Rightarrow> \<exists>n' u'. (k, n', u') \<in> set (lease_view d') \<and> n \<le> n' \<and> (u \<noteq> None \<longrightarrow> u' = u)"
    unfolding lease_le_def by auto
  show "distinct (map fst (lease_view d'))" by (rule le)
  fix x assume "x \<in> set (lease_view d)"
  then obtain l where l: "l \<in> set (ct_leases (tb_cloud d))" "x = (le_physicalKey l, le_revision l, le_unresolvedStepId l)" by (auto simp: lease_view_def)
  then have "(le_physicalKey (?f l), le_revision (?f l), le_unresolvedStepId (?f l)) \<in> set (lease_rows (clear_unresolved i stepId (tb_cloud d)))"
    unfolding rows by auto
  from le(2) [OF this] show "case x of (k, n, u) \<Rightarrow> \<exists>n' u'. (k, n', u') \<in> set (lease_view d') \<and> n \<le> n'
          \<and> (\<forall>s. u = Some s \<longrightarrow> u' = u \<or> (\<exists>status. (s, status) \<in> set (statuses d') \<and> settled status))"
    using assms(1,2) l(2) by (cases "le_incidentId l = Some i \<and> le_unresolvedStepId l = Some stepId") auto
qed

lemma stepped_status:
  assumes "select_one (\<lambda>s. st_id s = stepId) (ct_steps t) = Some step" and "\<And>s. st_id (f s) = st_id s \<and> st_status (f s) = status"
  shows "(stepId, status) \<in> set (map (\<lambda>s. (st_id s, st_status s)) (update_where (\<lambda>s. st_id s = stepId) f (ct_steps t)))"
proof -
  from select_one_Some [OF assms(1)] have "step \<in> set (ct_steps t)" "st_id step = stepId" by auto
  then have "f step \<in> set (update_where (\<lambda>s. st_id s = stepId) f (ct_steps t))" by (auto simp: update_where_def)
  then have "(st_id (f step), st_status (f step)) \<in> set (map (\<lambda>s. (st_id s, st_status s)) (update_where (\<lambda>s. st_id s = stepId) f (ct_steps t)))"
    unfolding set_map by (rule imageI)
  with assms(2) [of step] \<open>st_id step = stepId\<close> show ?thesis by simp
qed

lemma save_remembers:
  assumes "saveReceipt env ids now i stepId result observed fence d = Inr (d', saved)"
  shows "charges d' = charges d \<and> budgets d' = budgets d \<and> remembers_writes d d'"
proof -
  from storeTransaction_Inr [OF assms [unfolded saveReceipt_def]] obtain incident c where
    run: "(case select_one (\<lambda>s. st_id s = stepId) (ct_steps (tb_cloud d)) of
       None \<Rightarrow> Inl ''rotation_step_changed''
     | Some step \<Rightarrow>
         if Some (st_attemptId step) \<noteq> ri_currentAttemptId incident then Inl ''rotation_step_changed''
         else if stale_receipt incident step fence then Inr (set_cloud (add_observation stepId observed result) d, False)
         else (let old = (case st_receipt step of Some r \<Rightarrow> r | None \<Rightarrow> []);
               conflict = (identity_conflict old result \<or> receiptsConflict (ne_isIP env) c (JObj old) (JObj result));
               receipt = merged_receipt step result in
           bindE (receipt_status step conflict observed result) (\<lambda>status.
           let d1 = set_cloud (add_observation stepId observed result) (set_cloud (\<lambda>t. t\<lparr>ct_steps := update_where (\<lambda>s. st_id s = stepId)
               (\<lambda>s. s\<lparr>st_receipt := Some receipt, st_status := status\<rparr>) (ct_steps t)\<rparr>) d) in
           if ri_terminatedAt incident \<noteq> None then Inr (d1, True)
           else bindE (acceptReceipt env ids now i c incident step conflict receipt status d1) (\<lambda>d2. Inr (d2, True))))) = Inr (d', saved)" by blast
  from run obtain step where step: "select_one (\<lambda>s. st_id s = stepId) (ct_steps (tb_cloud d)) = Some step" by (auto split: option.splits)
  have id: "st_id step = stepId" using select_one_Some [OF step] by simp
  let ?d1 = "\<lambda>receipt status. set_cloud (add_observation stepId observed result) (set_cloud (\<lambda>t. t\<lparr>ct_steps := update_where (\<lambda>s. st_id s = stepId)
               (\<lambda>s. s\<lparr>st_receipt := Some receipt, st_status := status\<rparr>) (ct_steps t)\<rparr>) d)"
  have d1: "charges (?d1 r u) = charges d" "budgets (?d1 r u) = budgets d" "lease_view (?d1 r u) = lease_view d" "(stepId, u) \<in> set (statuses (?d1 r u))" for r u
    using stepped_status [OF step] by (simp_all add: charges_def budgets_def lease_view_def statuses_def add_observation_def)
  have "d' = set_cloud (add_observation stepId observed result) d
      \<or> (\<exists>receipt status. d' = ?d1 receipt status)
      \<or> (\<exists>conflict receipt status. acceptReceipt env ids now i c incident step conflict receipt status (?d1 receipt status) = Inr d')"
    using run unfolding step Let_def by (fastforce simp: bindE_eq_Inr split: if_splits)
  then show ?thesis
  proof (elim disjE exE)
    assume "d' = set_cloud (add_observation stepId observed result) d"
    then have "silent d d'" by (intro silent_core) (simp add: add_observation_def)
    then show ?thesis by (simp add: silent_def quiet_def lease_le_remembers)
  next
    fix receipt status assume "d' = ?d1 receipt status"
    with d1 show ?thesis by (simp add: lease_le_remembers)
  next
    fix conflict receipt status
    assume accept: "acceptReceipt env ids now i c incident step conflict receipt status (?d1 receipt status) = Inr d'"
    note silent = acceptReceipt_silent [OF accept, unfolded id]
    show ?thesis
    proof (cases "status = SsApplied \<or> status = SsNotApplied")
      case True
      let ?d2 = "set_cloud (clear_unresolved i stepId) (?d1 receipt status)"
      from silent True have s: "silent ?d2 d'" by simp
      have same: "charges ?d2 = charges d" "budgets ?d2 = budgets d" "statuses ?d2 = statuses (?d1 receipt status)"
        using d1(1,2) [where r = receipt and u = status] by (simp_all add: charges_def budgets_def statuses_def clear_unresolved_def)
      have "lease_view ?d2 = lease_rows (clear_unresolved i stepId (tb_cloud d))"
        by (simp add: lease_view_rows lease_rows_def clear_unresolved_def add_observation_def)
      with s same d1(4) [where r = receipt and u = status] True show ?thesis
        by (auto simp: silent_def quiet_def settled_def intro!: cleared_remembers)
    next
      case False
      with silent d1 [where r = receipt and u = status] show ?thesis by (auto simp: silent_def quiet_def intro!: lease_le_remembers)
    qed
  qed
qed
section \<open>Charges\<close>

text \<open>An attempt is charged once for its budget, and the budget counts the charged attempts.\<close>

definition charged_in :: "(string \<times> string \<times> bool) list \<Rightarrow> string \<Rightarrow> nat" where
  "charged_in cs segment = length (filter (\<lambda>(a, g, paid). g = segment \<and> paid) cs)"

definition budgets_ok :: "Database \<Rightarrow> bool" where
  "budgets_ok d = (distinct (map fst (charges d)) \<and> distinct (map fst (budgets d))
     \<and> (\<forall>(g, used, limit) \<in> set (budgets d). used = int (charged_in (charges d) g) \<and> used \<le> limit))"

definition set_paid :: "string \<Rightarrow> bool \<Rightarrow> (string \<times> string \<times> bool) list \<Rightarrow> (string \<times> string \<times> bool) list" where
  "set_paid attemptId paid cs = map (\<lambda>(a, g, p). (a, g, if a = attemptId then paid else p)) cs"

definition add_used :: "string \<Rightarrow> int \<Rightarrow> (string \<times> int \<times> int) list \<Rightarrow> (string \<times> int \<times> int) list" where
  "add_used segment n bs = map (\<lambda>(g, used, limit). (g, if g = segment then used + n else used, limit)) bs"

lemma charged_in_simps [simp]:
  "charged_in [] segment = 0"
  "charged_in ((a, g, paid) # cs) segment = (if g = segment \<and> paid then 1 else 0) + charged_in cs segment"
  "charged_in (cs @ cs') segment = charged_in cs segment + charged_in cs' segment"
  by (simp_all add: charged_in_def)

lemma charged_in_set_paid:
  "distinct (map fst cs) \<Longrightarrow> (a, g, old) \<in> set cs \<Longrightarrow>
    int (charged_in (set_paid a paid cs) segment) = int (charged_in cs segment) + (if g = segment then of_bool paid - of_bool old else 0)"
proof (induction cs)
  case (Cons x cs)
  obtain b h p where x: "x = (b, h, p)" by (cases x)
  show ?case
  proof (cases "b = a")
    case True
    with Cons.prems x have "set_paid a paid cs = cs" unfolding set_paid_def by (intro map_idI) force
    moreover have "h = g \<and> p = old" using Cons.prems True x by force
    ultimately show ?thesis using True x by (simp add: set_paid_def)
  next
    case False
    with Cons x show ?thesis by (simp add: set_paid_def)
  qed
qed simp

lemma fst_set_paid [simp]: "map fst (set_paid a paid cs) = map fst cs"
  by (induction cs) (auto simp: set_paid_def)

lemma fst_add_used [simp]: "map fst (add_used g n bs) = map fst bs"
  by (induction bs) (auto simp: add_used_def)

lemma budgets_ok_change:
  assumes ok: "budgets_ok d" and a: "(a, g, \<not> paid) \<in> set (charges d)" and room: "paid \<Longrightarrow> (g, used, limit) \<in> set (budgets d) \<and> used < limit"
    and d': "charges d' = set_paid a paid (charges d)" "budgets d' = add_used g (if paid then 1 else - 1) (budgets d)"
  shows "budgets_ok d'"
proof -
  have dist: "distinct (map fst (charges d))" "distinct (map fst (budgets d))" using ok by (simp_all add: budgets_ok_def)
  have "u = int (charged_in (charges d') h) \<and> u \<le> m" if h: "(h, u, m) \<in> set (budgets d')" for h u m
  proof -
    from h obtain v where v: "(h, v, m) \<in> set (budgets d)" "u = (if h = g then v + (if paid then 1 else - 1) else v)"
      by (auto simp: d' add_used_def)
    with ok have counted: "v = int (charged_in (charges d) h)" "v \<le> m" by (auto simp: budgets_ok_def)
    have "v < m" if "paid" "h = g"
      using room [OF that(1)] v(1) that(2) eq_key_imp_eq_value [OF dist(2), of g "(used, limit)" "(v, m)"] by auto
    with counted v(2) charged_in_set_paid [OF dist(1) a, of paid h] show ?thesis
      by (cases paid; cases "h = g") (auto simp: d')
  qed
  then show ?thesis using dist by (auto simp: budgets_ok_def d')
qed

lemma budgets_ok_same: "budgets_ok d \<Longrightarrow> charges d' = charges d \<Longrightarrow> budgets d' = budgets d \<Longrightarrow> budgets_ok d'"
  by (simp add: budgets_ok_def)

lemma budgets_ok_prepared:
  "budgets_ok d \<Longrightarrow> charges d' = charges d @ [(a, g, False)] \<Longrightarrow> a \<notin> fst ` set (charges d) \<Longrightarrow> budgets d' = budgets d \<Longrightarrow> budgets_ok d'"
  by (auto simp: budgets_ok_def)

section \<open>Rejections\<close>

lemma reject_effect:
  assumes "reject env now i stepId code noEffect retryAfterMs fence d = Inr (d', rejected)"
  shows "remembers_writes d d'"
    and "(charges d' = charges d \<and> budgets d' = budgets d)
      \<or> (\<exists>a g. (a, g, True) \<in> set (charges d) \<and> charges d' = set_paid a False (charges d) \<and> budgets d' = add_used g (- 1) (budgets d))"
proof -
  from storeTransaction_Inr [OF assms [unfolded reject_def]] obtain incident c where
    run: "(if ri_terminatedAt incident \<noteq> None then Inr (d, False)
     else (case select_one (\<lambda>s. st_id s = stepId) (ct_steps (tb_cloud d)) of
         None \<Rightarrow> Inr (d, False)
       | Some step \<Rightarrow>
           if Some (st_attemptId step) \<noteq> ri_currentAttemptId incident \<or> st_status step = SsApplied
             \<or> (case fence of Some f \<Rightarrow> st_fence step \<noteq> f | None \<Rightarrow> False) then Inr (d, False)
           else if \<not> noEffect then Inr (uncertain_rejection now incident stepId code d, True)
           else bindE (definite_rejection env now i c incident step code retryAfterMs d) (\<lambda>d'. Inr (d', True)))) = Inr (d', rejected)" by blast
  let ?goal = "remembers_writes d d' \<and> ((charges d' = charges d \<and> budgets d' = budgets d)
      \<or> (\<exists>a g. (a, g, True) \<in> set (charges d) \<and> charges d' = set_paid a False (charges d) \<and> budgets d' = add_used g (- 1) (budgets d)))"
  have uncertain: "silent d (uncertain_rejection now incident stepId code d)"
  proof -
    have "core (tb_cloud (uncertain_rejection now incident stepId code d)) = core (tb_cloud d)"
      by (simp add: uncertain_rejection_def set_incident_def core_def lease_rows_def map_update_rows)
    then show ?thesis by (rule silent_core)
  qed
  from run have "d' = d \<or> d' = uncertain_rejection now incident stepId code d
      \<or> (\<exists>step. select_one (\<lambda>s. st_id s = stepId) (ct_steps (tb_cloud d)) = Some step \<and> definite_rejection env now i c incident step code retryAfterMs d = Inr d')"
    by (auto simp: bindE_eq_Inr split: if_splits option.splits)
  then have ?goal
  proof (elim disjE exE conjE)
    assume "d' = d" then show ?goal by (simp add: lease_le_remembers)
  next
    assume "d' = uncertain_rejection now incident stepId code d"
    with uncertain show ?goal by (simp add: silent_def quiet_def lease_le_remembers)
  next
    fix step assume step: "select_one (\<lambda>s. st_id s = stepId) (ct_steps (tb_cloud d)) = Some step"
      and definite: "definite_rejection env now i c incident step code retryAfterMs d = Inr d'"
    have id: "st_id step = stepId" using select_one_Some [OF step] by simp
    from definite obtain x d2 where
      x: "(if code = ''rate_limited''
        then bindE (recordCloudRotationThrottle now (ca_id (cx_account c)) (cin_service (cx_instance c)) (pl_action (st_plan step)) retryAfterMs (tb_cloud d))
          (\<lambda>(t, until). Inr (t, Some until))
        else Inr (tb_cloud d, None)) = Inr x"
      and d2: "(let d1 = set_cloud (\<lambda>_. refund now i step (clear_unresolved i (st_id step) ((fst x)\<lparr>ct_steps := update_where (\<lambda>s. st_id s = st_id step)
          (\<lambda>s. s\<lparr>st_status := SsRejected, st_errorCode := Some code, st_retryAt := snd x\<rparr>) (ct_steps (fst x))\<rparr>))) d in
        if code \<noteq> ''rate_limited'' then pauseIn env incident code now None d1
        else Inr (scheduleRotationRecovery c incident code now (snd x) d1)) = Inr d2"
      and d': "d' = rotationAudit incident ''rotation.rejected_no_effect'' None (JsonSnapshot (JObj [(''stepId'', JStr (st_id step)), (''code'', JStr code)])) d2"
      unfolding definite_rejection_def bindE_eq_Inr [of "if code = ''rate_limited'' then _ else _"]
      by (auto simp: bindE_eq_Inr Let_def split_beta)
    from x obtain b where t: "fst x = (tb_cloud d)\<lparr>ct_buckets := b\<rparr>"
    proof (cases "code = ''rate_limited''")
      case True
      with x that show ?thesis by (auto simp: bindE_eq_Inr recordCloudRotationThrottle_def Let_def)
    next
      case False
      with x that [of "ct_buckets (tb_cloud d)"] show ?thesis by auto
    qed
    let ?t = "(fst x)\<lparr>ct_steps := update_where (\<lambda>s. st_id s = st_id step)
          (\<lambda>s. s\<lparr>st_status := SsRejected, st_errorCode := Some code, st_retryAt := snd x\<rparr>) (ct_steps (fst x))\<rparr>"
    let ?d1 = "set_cloud (\<lambda>_. refund now i step (clear_unresolved i (st_id step) ?t)) d"
    have "silent ?d1 d2"
    proof (cases "code = ''rate_limited''")
      case True
      with d2 show ?thesis by (auto simp: Let_def silent_def quiet_recovery parts)
    next
      case False
      with d2 show ?thesis by (auto simp: Let_def intro: silent_pauseIn)
    qed
    then have s: "silent ?d1 d'" unfolding d' by (rule silent_trans) (rule silent_core, simp)
    have refunded: "ct_leases (refund now i step u) = ct_leases u" "ct_steps (refund now i step u) = ct_steps u" for u
      by (simp_all add: refund_def split: option.split)
    have leases: "lease_view ?d1 = lease_rows (clear_unresolved i stepId (tb_cloud d))"
      by (simp add: lease_view_rows lease_rows_def refunded clear_unresolved_def t id)
    have "(stepId, SsRejected) \<in> set (statuses ?d1)"
      using stepped_status [OF step, of "\<lambda>s. s\<lparr>st_status := SsRejected, st_errorCode := Some code, st_retryAt := snd x\<rparr>" SsRejected]
      by (simp add: statuses_def refunded clear_unresolved_def t id)
    then have "remembers_writes d d'"
      using s leases by (intro cleared_remembers [of stepId SsRejected]) (auto simp: silent_def quiet_def settled_def)
    moreover have "(charges ?d1 = charges d \<and> budgets ?d1 = budgets d)
      \<or> (\<exists>a g. (a, g, True) \<in> set (charges d) \<and> charges ?d1 = set_paid a False (charges d) \<and> budgets ?d1 = add_used g (- 1) (budgets d))"
    proof (cases "\<exists>attempt. select_one (\<lambda>a. ra_id a = st_attemptId step) (ct_attempts (tb_cloud d)) = Some attempt \<and> st_sequence step = 0 \<and> ra_charged attempt")
      case False
      then show ?thesis by (auto simp: charges_def budgets_def refund_def clear_unresolved_def t split: option.splits)
    next
      case True
      then obtain attempt where a: "select_one (\<lambda>a. ra_id a = st_attemptId step) (ct_attempts (tb_cloud d)) = Some attempt" "st_sequence step = 0" "ra_charged attempt" by blast
      have "(ra_id attempt, ra_segmentId attempt, True) \<in> set (charges d)" using select_one_Some [OF a(1)] a(3) by (force simp: charges_def image_iff)
      moreover have "charges ?d1 = set_paid (ra_id attempt) False (charges d)" "budgets ?d1 = add_used (ra_segmentId attempt) (- 1) (budgets d)"
        using a by (auto simp: charges_def budgets_def refund_def clear_unresolved_def t set_paid_def add_used_def update_where_def)
      ultimately show ?thesis by blast
    qed
    ultimately show ?goal using s by (simp add: silent_def quiet_def)
  qed
  then show "remembers_writes d d'"
    and "(charges d' = charges d \<and> budgets d' = budgets d)
      \<or> (\<exists>a g. (a, g, True) \<in> set (charges d) \<and> charges d' = set_paid a False (charges d) \<and> budgets d' = add_used g (- 1) (budgets d))" by blast+
qed
section \<open>The other transactions\<close>

lemma quiet_pause: "pause env now i code retryAfterMs d = Inr (d', u) \<Longrightarrow> quiet d d'"
  unfolding pause_def by (erule storeTransaction_Inr) (auto simp: bindE_eq_Inr intro: quiet_pauseIn)

lemma core_set_attempt: "(\<And>a. ra_id (f a) = ra_id a \<and> ra_segmentId (f a) = ra_segmentId a \<and> ra_charged (f a) = ra_charged a)
    \<Longrightarrow> core (set_attempt attemptId f t) = core t"
  unfolding set_attempt_def by (rule core_attempts)

lemma silent_settle_publish: "silent d (settle_publish ids now i c candidate run d)"
proof -
  let ?d1 = "set_cloud (insert_publication (fi_publication ids) (ms_id (cx_slot c)) (ms_candidateVersion (cx_slot c)) candidate i) d"
  have "silent d ?d1" by (rule silent_core) simp
  moreover have "silent e (set_cloud (\<lambda>t. (case a of Some a \<Rightarrow> set_attempt (ra_id a) (\<lambda>x. x\<lparr>ra_status := (if ra_charged a then AttVerified else AttAbandoned)\<rparr>)
      | None \<Rightarrow> id) t) e)" for e a
    by (rule silent_core) (simp add: core_set_attempt split: option.split)
  ultimately show ?thesis unfolding settle_publish_def by (blast intro: silent_trans silent_incident)
qed

lemma silent_settle_recovered: "silent d (settle_recovered now i c incident run d)"
proof -
  have leases: "core (t\<lparr>ct_leases := update_where P (\<lambda>l. l\<lparr>le_incidentId := None\<rparr>) (ct_leases t), ct_slots := x\<rparr>) = core t" for t P x
    using core_leases [where t = t and P = P and f = "\<lambda>l. l\<lparr>le_incidentId := None\<rparr>"] by simp
  have recovered: "silent e (rotationAudit incident code None NoSnapshot (set_cloud (\<lambda>t. (case a of Some a \<Rightarrow> set_attempt (ra_id a) (\<lambda>x. x\<lparr>ra_status := AttAbandoned\<rparr>)
      | None \<Rightarrow> id) (t\<lparr>ct_leases := update_where P (\<lambda>l. l\<lparr>le_incidentId := None\<rparr>) (ct_leases t), ct_slots := x t\<rparr>)) e))" for e a P x code
    by (rule silent_core) (simp add: core_set_attempt leases core_leases split: option.split)
  show ?thesis unfolding settle_recovered_def
    by (split if_split, intro conjI impI silent_incident) (rule silent_trans [OF silent_incident recovered])
qed

lemma silent_settleAction: "settleAction env ids now i c incident run d = Inr d' \<Longrightarrow> silent d d'"
  unfolding settleAction_def Let_def
  by (auto simp: settle_waiting_def intro: silent_pauseIn silent_incident silent_settle_publish silent_settle_recovered
      split: option.splits RotationAction.splits if_splits)

lemma quiet_settle: "settle env ids now i lease d = Inr (d', u) \<Longrightarrow> quiet d d'"
  unfolding settle_def
  by (erule storeTransaction_Inr) (auto simp: bindE_eq_Inr silent_def dest!: silent_settleAction split: if_splits)

lemma quiet_defer: "quiet d (deferRun now i d)"
  unfolding deferRun_def by (rule quiet_incident)

text \<open>What a transaction that prepared an attempt found and wrote.\<close>

lemma prepareE:
  assumes "prepare env ids now i lease inventory identity d = Inr (d', prepared)"
  obtains (refuses) "\<not> prepared" "d' = d"
  | (prepares) incident c run address slot plan where "prepared" "find_incident d i = Some incident"
      "lockRotationContext (ne_physicalKey env) (tb_cloud d) (ri_slotId incident) = Inr c" "snapshot now d c incident lease = Inr run"
      "is_prepare (ru_action run)" "Option.bind (ru_physical run) le_unresolvedStepId = None"
      "fresh_keys (tb_cloud d) (fi_attempt ids) (number_steps (fi_attempt ids) JNull 0 plan)"
      "tb_cloud d' = prepare_rows ids now i lease inventory c incident run slot address plan (tb_cloud d)"
proof -
  from storeTransaction_Inr [OF assms [unfolded prepare_def]] obtain incident c where
    inc: "find_incident d i = Some incident" "lockRotationContext (ne_physicalKey env) (tb_cloud d) (ri_slotId incident) = Inr c"
    and run: "bindE (snapshot now d c incident lease) (\<lambda>run.
     bindE (assertIdentity c identity) (\<lambda>_.
     if \<not> is_prepare (ru_action run) then Inr (d, False)
     else if Option.bind (ru_physical run) le_unresolvedStepId \<noteq> None
        \<or> (case Option.bind (ru_physical run) le_incidentId of Some x \<Rightarrow> x \<noteq> i | None \<Rightarrow> False) then Inr (d, False)
     else (case (cx_address c, cx_iface c) of
         (Some address, Some iface) \<Rightarrow>
           (let slot = slot_ref c iface address in
            bindE (persistedRotationOptions c) (\<lambda>options.
            bindE (ne_plan env slot inventory options (fi_attempt ids)) (\<lambda>plan.
            bindE (guardE (fresh_keys (tb_cloud d) (fi_attempt ids) (number_steps (fi_attempt ids) JNull 0 plan)) ''unique_violation'') (\<lambda>_.
            Inr (rotationAudit incident ''rotation.attempt_prepared'' None
                (JsonSnapshot (JObj [(''attemptId'', JStr (fi_attempt ids)), (''segmentId'', JStr (bs_id (ru_budget run)))]))
                (set_cloud (prepare_rows ids now i lease inventory c incident run slot address plan) d), True)))))
       | _ \<Rightarrow> Inr (d, False)))) = Inr (d', prepared)" by blast
  from run obtain r where r: "snapshot now d c incident lease = Inr r"
    and rest: "\<not> prepared \<and> d' = d \<or> prepared \<and> is_prepare (ru_action r) \<and> Option.bind (ru_physical r) le_unresolvedStepId = None
      \<and> (\<exists>slot address plan. fresh_keys (tb_cloud d) (fi_attempt ids) (number_steps (fi_attempt ids) JNull 0 plan)
           \<and> tb_cloud d' = prepare_rows ids now i lease inventory c incident r slot address plan (tb_cloud d))"
    by (fastforce simp: bindE_eq_Inr guardE_eq_Inr Let_def split: if_splits option.splits)
  from rest show thesis
  proof (elim disjE conjE exE)
    assume "\<not> prepared" "d' = d" then show thesis by (rule refuses)
  next
    fix slot address plan
    assume "prepared" "is_prepare (ru_action r)" "Option.bind (ru_physical r) le_unresolvedStepId = None"
      "fresh_keys (tb_cloud d) (fi_attempt ids) (number_steps (fi_attempt ids) JNull 0 plan)"
      "tb_cloud d' = prepare_rows ids now i lease inventory c incident r slot address plan (tb_cloud d)"
    then show thesis by (rule prepares [OF _ inc r])
  qed
qed

lemma prepare_effect:
  assumes "prepare env ids now i lease inventory identity d = Inr (d', prepared)"
  shows "remembers_writes d d'" and "(charges d' = charges d \<or> (\<exists>g. charges d' = charges d @ [(fi_attempt ids, g, False)] \<and> fi_attempt ids \<notin> fst ` set (charges d)))
    \<and> budgets d' = budgets d"
proof -
  have "remembers_writes d d' \<and> (charges d' = charges d \<or> (\<exists>g. charges d' = charges d @ [(fi_attempt ids, g, False)] \<and> fi_attempt ids \<notin> fst ` set (charges d)))
    \<and> budgets d' = budgets d"
    using assms
  proof (cases rule: prepareE)
    case refuses
    then show ?thesis by (simp add: lease_le_remembers)
  next
    case (prepares incident c run address slot plan)
    have "lease_view d' = lease_view d" by (simp add: prepares(8) lease_view_def prepare_rows_def Let_def map_update_rows)
    moreover have "fi_attempt ids \<notin> fst ` set (charges d)" using prepares(7) by (auto simp: fresh_keys_def charges_def list_ex_iff)
    moreover have "charges d' = charges d @ [(fi_attempt ids, bs_id (ru_budget run), False)]"
      by (simp add: prepares(8) charges_def prepare_rows_def Let_def map_update_rows new_attempt_def)
    moreover have "budgets d' = budgets d" by (simp add: prepares(8) budgets_def prepare_rows_def Let_def)
    ultimately show ?thesis by (simp add: lease_le_remembers)
  qed
  then show "remembers_writes d d'" and "(charges d' = charges d \<or> (\<exists>g. charges d' = charges d @ [(fi_attempt ids, g, False)] \<and> fi_attempt ids \<notin> fst ` set (charges d)))
    \<and> budgets d' = budgets d" by blast+
qed
section \<open>Sent steps\<close>

lemma phaseAction_executes: "phaseAction s now = ExecuteCloudStep a b \<Longrightarrow> rt_phase s = CloudPhase \<and> cloudAction s now = ExecuteCloudStep a b"
  by (auto simp: phaseAction_def phase_cases split: RotationPhase.splits RotationPublication.splits)

text \<open>A step that is sent belongs to the attempt of the current budget segment, and an attempt that was not charged has room there.\<close>

lemma sent_step:
  assumes snap: "snapshot now d c incident lease = Inr run" and d: "dispatchable i stepId run" "ru_attempt run = Some attempt"
  shows "ra_segmentId attempt = bs_id (ru_budget run) \<and> (ra_charged attempt \<or> bs_attemptsUsed (ru_budget run) < bs_maxAttempts (ru_budget run))"
    and "\<exists>s x y. s = rotationSnapshot c incident lease (ru_health run) (ru_physical run) (ru_budget run) (Some x) (ru_publication run)
      \<and> writes_permitted s \<and> attemptSnapshot attempt (ru_steps run) = Inr x \<and> next_in_order (at_steps x) y \<and> rs_stepId y = stepId
      \<and> may_send (rs_status y) (num_of_int now)"
    and "ri_phase incident = CloudPhase" "ri_terminatedAt incident = None" "ri_pausedByUserId incident = None" "cx_physicalKey c = ri_physicalKey incident"
proof -
  from d(1) obtain a where action: "ru_action run = ExecuteCloudStep a stepId" by (auto simp: dispatchable_def split: RotationAction.splits)
  from executed [OF snap] action obtain s x where s: "nextRotationAction s (num_of_int now) = ExecuteCloudStep a stepId" "writes_permitted s"
    "phaseAction s (num_of_int now) = ExecuteCloudStep a stepId"
    "s = rotationSnapshot c incident lease (ru_health run) (ru_physical run) (ru_budget run) x (ru_publication run)"
    and x: "(case ru_attempt run of None \<Rightarrow> Inr None | Some a \<Rightarrow> bindE (attemptSnapshot a (ru_steps run)) (\<lambda>x. Inr (Some x))) = Inr x"
    and obs: "observeAction s (num_of_int now) = None"
    and inc: "ri_terminatedAt incident = None" "ri_pausedByUserId incident = None" "cx_physicalKey c = ri_physicalKey incident"
    by (metis is_execute.simps(2))
  from x d(2) obtain y where y: "x = Some y" "attemptSnapshot attempt (ru_steps run) = Inr y" by (auto simp: bindE_eq_Inr)
  then have at: "at_segmentId y = ra_segmentId attempt" "at_charged y = ra_charged attempt" by (auto simp: attemptSnapshot_def bindE_eq_Inr)
  from phaseAction_executes [OF s(3)] have cloud: "rt_phase s = CloudPhase" "cloudAction s (num_of_int now) = ExecuteCloudStep a stepId" by auto
  have "rs_status step \<noteq> StepAbandoned" if "currentStep s = Some step" for step
    using nextRotationAction_not_abandoned [OF _ that, of "num_of_int now"] s(1) by simp
  from cloudAction_executes [OF cloud(2,1) obs this] obtain step where step: "at_segmentId y = rb_segmentId (rt_budget s)"
    "next_in_order (at_steps y) step" "rs_stepId step = stepId" "may_send (rs_status step) (num_of_int now)"
    "at_charged y \<or> attemptGate s (num_of_int now) = None"
    using s(4) y(1) by (auto simp: rotationSnapshot_def)
  have "attempt_allowed s (num_of_int now)" if "\<not> ra_charged attempt"
    using step(5) at(2) that attemptGate_None [of s "num_of_int now"] by (simp add: num_of_int_def)
  then show "ra_segmentId attempt = bs_id (ru_budget run) \<and> (ra_charged attempt \<or> bs_attemptsUsed (ru_budget run) < bs_maxAttempts (ru_budget run))"
    using step(1) at(1) by (auto simp: s(4) rotationSnapshot_def attempt_allowed_def num_of_int_def)
  show "\<exists>s x y. s = rotationSnapshot c incident lease (ru_health run) (ru_physical run) (ru_budget run) (Some x) (ru_publication run)
      \<and> writes_permitted s \<and> attemptSnapshot attempt (ru_steps run) = Inr x \<and> next_in_order (at_steps x) y \<and> rs_stepId y = stepId
      \<and> may_send (rs_status y) (num_of_int now)"
    using s(2,4) y step(2-4) by blast
  show "ri_phase incident = CloudPhase" using cloud(1) by (simp add: s(4) rotationSnapshot_def)
  show "ri_terminatedAt incident = None" "ri_pausedByUserId incident = None" "cx_physicalKey c = ri_physicalKey incident" by (rule inc)+
qed

lemma authorizeStep_free:
  "authorizeStep pk isIP c i plan allocation now t = Inr (Some key) \<Longrightarrow> \<exists>peer. find_lease key t = Some peer \<and> le_unresolvedStepId peer = None"
  unfolding authorizeStep_def authorizeLinodeStep_def Let_def
  by (auto simp: bindE_eq_Inr split: if_splits option.splits)

lemma lease_updates_remember:
  assumes "\<And>l. l \<in> set (ct_leases (tb_cloud d)) \<Longrightarrow> le_physicalKey (f l) = le_physicalKey l \<and> le_revision (f l) = le_revision l"
    and "\<And>l. distinct (map fst (lease_view d)) \<Longrightarrow> l \<in> set (ct_leases (tb_cloud d)) \<Longrightarrow> le_unresolvedStepId l \<noteq> None \<Longrightarrow> le_unresolvedStepId (f l) = le_unresolvedStepId l"
    and "ct_leases (tb_cloud d') = map f (ct_leases (tb_cloud d))"
  shows "remembers_writes d d'"
proof (rule lease_le_remembers, unfold lease_le_def, intro impI conjI ballI)
  assume dist: "distinct (map fst (lease_view d))"
  have "map fst (lease_view d') = map fst (lease_view d)" using assms(1) by (simp add: lease_view_def assms(3))
  with dist show "distinct (map fst (lease_view d'))" by simp
  fix x assume "x \<in> set (lease_view d)"
  then obtain l where l: "l \<in> set (ct_leases (tb_cloud d))" "x = (le_physicalKey l, le_revision l, le_unresolvedStepId l)" by (auto simp: lease_view_def)
  then have "(le_physicalKey l, le_revision l, le_unresolvedStepId (f l)) \<in> set (lease_view d')"
    using assms(1) [OF l(1)] by (force simp: lease_view_def assms(3) image_iff)
  with l assms(2) [OF dist l(1)]
  show "case x of (k, n, u) \<Rightarrow> \<exists>n' u'. (k, n', u') \<in> set (lease_view d') \<and> n \<le> n' \<and> (u \<noteq> None \<longrightarrow> u' = u)"
    by (cases "le_unresolvedStepId l") auto
qed

lemma dispatch_effect:
  assumes "dispatch env now i lease stepId identity d = Inr (d', sent)"
  shows "remembers_writes d d' \<and> (budgets_ok d \<longrightarrow> budgets_ok d')"
  using assms
proof (cases rule: dispatchE)
  case waits
  then show ?thesis by (auto simp: lease_le_remembers intro: budgets_ok_same)
next
  case (sends incident c run attempt step alloc companion t policy plan)
  from reserve_tables [OF sends(10)] obtain x y where t: "t = (tb_cloud d)\<lparr>ct_buckets := x, ct_reservations := y\<rparr>" by blast
  have charged: "ct_leases (charge_attempt now i policy run attempt t) = ct_leases (tb_cloud d)" by (simp add: charge_attempt_def t)
  let ?f = "\<lambda>l. (\<lambda>l. if companion = Some (le_physicalKey l) \<and> le_incidentId l = Some i then l\<lparr>le_unresolvedStepId := Some stepId\<rparr> else l)
    (if le_physicalKey l = lh_physicalKey lease then l\<lparr>le_unresolvedStepId := Some stepId\<rparr> else l)"
  have leases: "ct_leases (tb_cloud d') = map ?f (ct_leases (tb_cloud d))"
    unfolding sends(12) dispatch_rows_def by (simp add: charged update_where_def)
  obtain own where own: "verifyRotationLease now lease (tb_cloud d) = Some own" "le_unresolvedStepId own = None"
  proof -
    have "ru_physical run = verifyRotationLease now lease (tb_cloud d)" by (rule snapshot_InrE [OF sends(3)])
    with sends(4) that show thesis by (auto simp: dispatchable_def split: option.splits)
  qed
  have free: "le_unresolvedStepId l = None"
    if dist: "distinct (map fst (lease_view d))" and l: "l \<in> set (ct_leases (tb_cloud d))"
      and key: "le_physicalKey l = lh_physicalKey lease \<or> companion = Some (le_physicalKey l)" for l
    using key
  proof
    have inj: "inj_on le_physicalKey (set (ct_leases (tb_cloud d)))" using dist by (auto simp: lease_view_def comp_def distinct_map)
    assume "le_physicalKey l = lh_physicalKey lease"
    moreover have "own \<in> set (ct_leases (tb_cloud d))" "le_physicalKey own = lh_physicalKey lease"
      using select_one_Some [OF own(1) [unfolded verifyRotationLease_def]] by (auto simp: own_lease_def)
    ultimately have "l = own" using inj_onD [OF inj, of l own] l by simp
    with own(2) show ?thesis by simp
  next
    assume c: "companion = Some (le_physicalKey l)"
    from authorizeStep_free [OF sends(9) [unfolded c]] obtain peer where "find_lease (le_physicalKey l) (tb_cloud d) = Some peer" "le_unresolvedStepId peer = None" by blast
    with find_lease_rows [OF this(1) _ l refl] dist show ?thesis by (simp add: lease_view_rows)
  qed
  have "remembers_writes d d'"
    using free by (intro lease_updates_remember [OF _ _ leases]) auto
  moreover have "budgets_ok d'" if ok: "budgets_ok d"
  proof (cases "ra_charged attempt")
    case True
    then have "charges d' = charges d" "budgets d' = budgets d"
      by (simp_all add: sends(12) charges_def budgets_def dispatch_rows_def charge_attempt_def t)
    then show ?thesis by (rule budgets_ok_same [OF ok])
  next
    case False
    note sent = sent_step(1) [OF sends(3,4,6)]
    obtain snap where budget: "select_one (\<lambda>b. bs_id b = ri_currentSegmentId incident) (ct_segments (tb_cloud d)) = Some (ru_budget run)"
      and found: "ru_attempt run = Option.bind (ri_currentAttemptId incident) (\<lambda>i. select_one (\<lambda>a. ra_id a = i) (ct_attempts (tb_cloud d)))"
      by (rule snapshot_InrE [OF sends(3)])
    from trans [OF found [symmetric] sends(6)] have "attempt \<in> set (ct_attempts (tb_cloud d))" by (auto simp: bind_eq_Some_conv dest: select_one_Some)
    with False sent have a: "(ra_id attempt, bs_id (ru_budget run), False) \<in> set (charges d)" by (force simp: charges_def image_iff)
    have b: "ru_budget run \<in> set (ct_segments (tb_cloud d))" using select_one_Some [OF budget] by simp
    then have room: "(bs_id (ru_budget run), bs_attemptsUsed (ru_budget run), bs_maxAttempts (ru_budget run)) \<in> set (budgets d)
        \<and> bs_attemptsUsed (ru_budget run) < bs_maxAttempts (ru_budget run)"
      using False sent by (force simp: budgets_def image_iff)
    have only: "bs_attemptsUsed x = bs_attemptsUsed (ru_budget run)" if "x \<in> set (ct_segments (tb_cloud d))" "bs_id x = bs_id (ru_budget run)" for x
    proof -
      have "inj_on bs_id (set (ct_segments (tb_cloud d)))" using ok by (auto simp: budgets_ok_def budgets_def comp_def distinct_map)
      from inj_onD [OF this, of x "ru_budget run"] that b have "x = ru_budget run" by simp
      then show ?thesis by simp
    qed
    have "charges d' = set_paid (ra_id attempt) True (charges d)"
      using False by (auto simp: sends(12) charges_def dispatch_rows_def charge_attempt_def t set_paid_def update_where_def)
    moreover have "budgets d' = add_used (bs_id (ru_budget run)) 1 (budgets d)"
      using False only by (auto simp: sends(12) budgets_def dispatch_rows_def charge_attempt_def t add_used_def update_where_def)
    ultimately show ?thesis using budgets_ok_change [OF ok, of "ra_id attempt" "bs_id (ru_budget run)" True] a room by simp
  qed
  ultimately show ?thesis by blast
qed

text \<open>Every transaction keeps the budgets, and remembers the writes.\<close>

lemma quiet_ok: "quiet d d' \<Longrightarrow> remembers_writes d d' \<and> (budgets_ok d \<longrightarrow> budgets_ok d')"
  by (auto simp: quiet_remembers quiet_def intro: budgets_ok_same)

lemma store_step_ok: "store_step env d d' \<Longrightarrow> remembers_writes d d' \<and> (budgets_ok d \<longrightarrow> budgets_ok d')"
proof (induction rule: store_step.induct)
  case (Prepare ids now i lease inventory identity d d' prepared)
  from prepare_effect [OF Prepare] show ?case by (auto intro: budgets_ok_same budgets_ok_prepared)
next
  case (Save ids now i stepId result observed fence d d' saved)
  from save_remembers [OF Save] show ?case by (auto intro: budgets_ok_same)
next
  case (Reject now i stepId code noEffect retryAfterMs fence d d' rejected)
  from reject_effect [OF Reject] show ?case
    by (auto intro: budgets_ok_same budgets_ok_change [where paid = False])
qed (erule dispatch_effect | rule quiet_ok, (erule quiet_claim quiet_read quiet_settle quiet_pause | rule quiet_release quiet_defer))+
section \<open>Properties\<close>

text \<open>C13: Whatever the workers, their retries and the answers of the cloud do, in whatever order: the use of a budget segment is the number
  of attempts charged to it, each charged at most once, and never more than the segment allows.\<close>

theorem attempts_within_budget:
  assumes "(store_step env)\<^sup>*\<^sup>* d d'" and "budgets_ok d" and "b \<in> set (ct_segments (tb_cloud d'))"
  shows "bs_attemptsUsed b = int (length (filter (\<lambda>a. ra_segmentId a = bs_id b \<and> ra_charged a) (ct_attempts (tb_cloud d'))))
    \<and> bs_attemptsUsed b \<le> bs_maxAttempts b"
proof -
  from assms(1,2) have "budgets_ok d'" by (induction rule: rtranclp_induct) (auto dest: store_step_ok)
  with assms(3) have "bs_attemptsUsed b = int (charged_in (charges d') (bs_id b)) \<and> bs_attemptsUsed b \<le> bs_maxAttempts b"
    by (force simp: budgets_ok_def budgets_def)
  then show ?thesis by (simp add: charged_in_def charges_def filter_map comp_def)
qed

text \<open>C11: The lease of a machine waits for a write until its outcome is known: no transaction of the store drops or replaces the step it
  waits for, unless that step is then applied, not applied or rejected without effect.\<close>

theorem unresolved_write_remembered:
  assumes "store_step env d d'" and "distinct (map le_physicalKey (ct_leases (tb_cloud d)))"
    and "l \<in> set (ct_leases (tb_cloud d))" and "le_unresolvedStepId l = Some stepId"
  shows "\<exists>l' \<in> set (ct_leases (tb_cloud d')). le_physicalKey l' = le_physicalKey l \<and> le_revision l \<le> le_revision l'
    \<and> (le_unresolvedStepId l' = Some stepId \<or> (\<exists>s \<in> set (ct_steps (tb_cloud d')). st_id s = stepId \<and> settled (st_status s)))"
proof -
  have "(le_physicalKey l, le_revision l, Some stepId) \<in> set (lease_view d)" using assms(3,4) by (force simp: lease_view_def image_iff)
  with store_step_ok [OF assms(1)] assms(2) obtain n' u' where u: "(le_physicalKey l, n', u') \<in> set (lease_view d')" "le_revision l \<le> n'"
    "u' = Some stepId \<or> (\<exists>status. (stepId, status) \<in> set (statuses d') \<and> settled status)"
    unfolding remembers_writes_def by (fastforce simp: lease_view_def comp_def)
  from u(1) obtain l' where "l' \<in> set (ct_leases (tb_cloud d'))" "le_physicalKey l' = le_physicalKey l" "le_revision l' = n'" "le_unresolvedStepId l' = u'"
    by (auto simp: lease_view_def)
  with u(2,3) show ?thesis by (intro bexI [of _ l']) (auto simp: statuses_def)
qed

section \<open>Lost leases\<close>

definition superseded :: "LeaseHandle \<Rightarrow> Database \<Rightarrow> bool" where
  "superseded lease d = (distinct (map fst (lease_view d)) \<and> (\<exists>n u. (lh_physicalKey lease, n, u) \<in> set (lease_view d) \<and> lh_revision lease < n))"

lemma superseded_step: "store_step env d d' \<Longrightarrow> superseded lease d \<Longrightarrow> superseded lease d'"
  using store_step_ok [of env d d'] unfolding superseded_def remembers_writes_def by fastforce

lemma superseded_verify: "superseded lease d \<Longrightarrow> verifyRotationLease now lease (tb_cloud d) = None"
proof (rule ccontr)
  assume s: "superseded lease d" and "verifyRotationLease now lease (tb_cloud d) \<noteq> None"
  then obtain l where "verifyRotationLease now lease (tb_cloud d) = Some l" by blast
  from select_one_Some [OF this [unfolded verifyRotationLease_def]]
  have "(lh_physicalKey lease, lh_revision lease, le_unresolvedStepId l) \<in> set (lease_view d)"
    by (force simp: own_lease_def lease_view_def image_iff)
  with s show False unfolding superseded_def by (auto dest: eq_key_imp_eq_value)
qed

lemma unheld_refused:
  assumes snap: "snapshot now d c incident lease = Inr run" and none: "verifyRotationLease now lease (tb_cloud d) = None"
  shows "\<not> is_execute (ru_action run)"
proof
  have physical: "ru_physical run = None" by (rule snapshot_InrE [OF snap]) (simp add: none)
  assume "is_execute (ru_action run)"
  from executed [OF snap this] obtain s x where "writes_permitted s"
    "s = rotationSnapshot c incident lease (ru_health run) (ru_physical run) (ru_budget run) x (ru_publication run)" by metis
  then show False by (simp add: writes_permitted_def rotationSnapshot_def physical)
qed


lemma superseded_writes_nothing:
  assumes "superseded lease d"
  shows "dispatch env now i lease stepId identity d = Inr (d', sent) \<Longrightarrow> sent = None \<and> d' = d"
    and "prepare env ids now i lease inventory identity d = Inr (d', prepared) \<Longrightarrow> \<not> prepared \<and> d' = d"
proof -
  note none = superseded_verify [OF assms, of now]
  assume "dispatch env now i lease stepId identity d = Inr (d', sent)"
  from storeTransaction_Inr [OF this [unfolded dispatch_def]] obtain incident c where
    run: "bindE (snapshot now d c incident lease) (\<lambda>run. bindE (assertIdentity c identity) (\<lambda>_.
       if \<not> dispatchable i stepId run then Inr (d, None)
       else bindE (case rotationAuthorizationError c (ri_rotationTrigger incident) of Some e \<Rightarrow> Inl e | None \<Rightarrow> Inr ()) (\<lambda>_.
       case (ru_attempt run, find (\<lambda>s. st_id s = stepId) (ru_steps run)) of
         (Some attempt, Some step) \<Rightarrow> dispatch_step env now i lease c incident run attempt step d
       | _ \<Rightarrow> Inl ''type_error''))) = Inr (d', sent)" by blast
  then obtain r where r: "snapshot now d c incident lease = Inr r" by (auto simp: bindE_eq_Inr)
  from unheld_refused [OF r none] have "\<not> dispatchable i stepId r" by (auto simp: dispatchable_def split: RotationAction.splits)
  with run r show "sent = None \<and> d' = d" by (auto simp: bindE_eq_Inr)
next
  note none = superseded_verify [OF assms, of now]
  assume "prepare env ids now i lease inventory identity d = Inr (d', prepared)"
  then show "\<not> prepared \<and> d' = d"
  proof (cases rule: prepareE)
    case (prepares incident c run address slot plan)
    from unheld_refused [OF prepares(4) none] prepares(5) show ?thesis by (cases "ru_action run") auto
  qed simp
qed

lemma claim_lease:
  assumes "claim env now i holder d = Inr (d', Some lease)" and dist: "distinct (map fst (lease_view d))"
  shows "\<exists>u. (lh_physicalKey lease, lh_revision lease, u) \<in> set (lease_view d')"
    and "(lh_physicalKey lease, n, u) \<in> set (lease_view d) \<Longrightarrow> n < lh_revision lease"
proof -
  from assms(1) obtain c :: RotationContext where c: "claimed now i (cx_physicalKey c) d (acquireRotationLease now (cx_physicalKey c) holder (tb_cloud d)) = (d', Some lease)"
    unfolding claim_def by (auto simp: bindE_eq_Inr split: option.splits if_splits)
  let ?k = "cx_physicalKey c" and ?t = "insert_lease now (cx_physicalKey c) (tb_cloud d)"
  obtain t l where acquire: "acquireRotationLease now ?k holder (tb_cloud d) = (t, l)" by (cases "acquireRotationLease now ?k holder (tb_cloud d)")
  with c have d': "d' = set_cloud (\<lambda>_. t) d" "l = Some lease" by (cases l; auto split: if_splits)+
  from acquire d'(2) obtain row where row: "find_lease ?k ?t = Some row"
    and t: "t = set_lease ?k (\<lambda>l. l\<lparr>le_holder := Some holder, le_revision := le_revision row + 1, le_expiresAt := now + 45000\<rparr>) ?t"
    and lease: "lease = \<lparr>lh_physicalKey = ?k, lh_holder = holder, lh_revision = le_revision row + 1\<rparr>"
    by (auto simp: acquireRotationLease_def Let_def split: option.splits if_splits)
  from select_one_Some [OF row [unfolded find_lease_def]] have member: "row \<in> set (ct_leases ?t)" "le_physicalKey row = ?k" by auto
  have "(le_physicalKey row, le_revision row + 1, le_unresolvedStepId row) \<in> set (lease_rows t)"
    using member by (force simp: t set_lease_def lease_rows_def update_where_def image_iff)
  then show "\<exists>u. (lh_physicalKey lease, lh_revision lease, u) \<in> set (lease_view d')"
    using member(2) by (auto simp: d' lease_view_rows lease)
  assume "(lh_physicalKey lease, n, u) \<in> set (lease_view d)"
  then obtain l where l: "l \<in> set (ct_leases (tb_cloud d))" "le_physicalKey l = ?k" "le_revision l = n" by (auto simp: lease_view_def lease)
  then have "?t = tb_cloud d" by (auto simp: insert_lease_def list_ex_iff)
  with find_lease_rows [OF row, of l] dist l have "l = row" by (simp add: lease_view_rows)
  with l(3) show "n < lh_revision lease" by (simp add: lease)
qed

lemma steps_remember: "(store_step env)\<^sup>*\<^sup>* d d' \<Longrightarrow> distinct (map fst (lease_view d)) \<Longrightarrow> (k, n, u) \<in> set (lease_view d)
    \<Longrightarrow> distinct (map fst (lease_view d')) \<and> (\<exists>n' u'. (k, n', u') \<in> set (lease_view d') \<and> n \<le> n')"
proof (induction rule: rtranclp_induct)
  case (step y z)
  then obtain n' u' where "distinct (map fst (lease_view y))" "(k, n', u') \<in> set (lease_view y)" "n \<le> n'" by blast
  with store_step_ok [OF step.hyps(2)] show ?case unfolding remembers_writes_def by (fastforce intro: order_trans)
qed auto

text \<open>C12: A worker that lost its machine writes nothing any more: once another claim got the lease, whenever and after whatever, the old
  handle neither sends a step nor prepares an attempt, however late its transaction comes.\<close>

theorem lost_lease_writes_nothing:
  assumes "distinct (map le_physicalKey (ct_leases (tb_cloud d0)))"
    and "claim env t1 i1 holder1 d0 = Inr (d1, Some old)" and "(store_step env)\<^sup>*\<^sup>* d1 d2"
    and "claim env t2 i2 holder2 d2 = Inr (d3, Some new)" and "lh_physicalKey new = lh_physicalKey old" and "(store_step env)\<^sup>*\<^sup>* d3 d4"
  shows "(dispatch env now i old stepId identity d4 = Inr (d5, sent) \<longrightarrow> sent = None \<and> d5 = d4)
    \<and> (prepare env ids now i old inventory identity d4 = Inr (d6, prepared) \<longrightarrow> \<not> prepared \<and> d6 = d4)"
proof -
  have dist0: "distinct (map fst (lease_view d0))" using assms(1) by (simp add: lease_view_def comp_def)
  have dist1: "distinct (map fst (lease_view d1))"
    using store_step_ok [OF store_step.Claim [OF assms(2)]] dist0 by (simp add: remembers_writes_def)
  from claim_lease(1) [OF assms(2) dist0] obtain u where "(lh_physicalKey old, lh_revision old, u) \<in> set (lease_view d1)" by blast
  from steps_remember [OF assms(3) dist1 this] obtain n v where dist2: "distinct (map fst (lease_view d2))"
    and v: "(lh_physicalKey old, n, v) \<in> set (lease_view d2)" "lh_revision old \<le> n" by blast
  have dist3: "distinct (map fst (lease_view d3))"
    using store_step_ok [OF store_step.Claim [OF assms(4)]] dist2 by (simp add: remembers_writes_def)
  have "lh_revision old < lh_revision new" using claim_lease(2) [OF assms(4) dist2] v assms(5) by fastforce
  with claim_lease(1) [OF assms(4) dist2] dist3 assms(5) have "superseded old d3" by (auto simp: superseded_def)
  with assms(6) have "superseded old d4" by (induction rule: rtranclp_induct) (auto intro: superseded_step)
  with superseded_writes_nothing show ?thesis by blast
qed
section \<open>What a sent step rests on\<close>

lemma may_send_row:
  "stepSnapshot s = Inr y \<Longrightarrow> may_send (rs_status y) (num_of_int now)
    \<Longrightarrow> st_status s = SsPrepared \<or> st_status s = SsRejected \<and> (\<exists>t. st_retryAt s = Some t \<and> t \<le> now)"
  by (cases "st_retryAt s") (auto simp: stepSnapshot_def bindE_eq_Inr num_of_int_def split: StoredStepStatus.splits option.splits)

lemma snapshot_row:
  assumes "attemptSnapshot attempt steps = Inr x" and "next_in_order (at_steps x) y"
  shows "\<exists>s \<in> set steps. stepSnapshot s = Inr y \<and> st_id s = rs_stepId y"
proof -
  from assms(1) obtain ss where ss: "mapE stepSnapshot (filter (\<lambda>s. \<not> cleanup_step s) steps) = Inr ss" "at_steps x = ss"
    by (auto simp: attemptSnapshot_def bindE_eq_Inr)
  from assms(2) ss(2) have "y \<in> set ss" by (auto simp: next_in_order_def)
  with mapE_member [OF ss(1)] obtain s where "s \<in> set steps" "stepSnapshot s = Inr y" by auto
  then show ?thesis by (auto simp: stepSnapshot_def bindE_eq_Inr)
qed

lemma update_whereE:
  assumes "s \<in> set (update_where P f t)"
  obtains r where "r \<in> set t" "s = (if P r then f r else r)"
  using assms by (auto simp: update_where_def)

lemma dispatched_steps:
  assumes "s \<in> set (ct_steps (dispatch_rows now i lease policy stepId plan companion t))" and "st_id s = stepId"
  shows "st_status s = SsInFlight \<and> st_fence s = Some (lh_revision lease) \<and> st_plan s = plan"
proof -
  let ?f = "\<lambda>s. s\<lparr>st_plan := plan, st_status := SsInFlight, st_fence := Some (lh_revision lease), st_dispatchedAt := Some now,
      st_observeDeadline := Some (now + rp_cloudWaitSeconds policy * 1000), st_receipt := None, st_errorCode := None, st_retryAt := None\<rparr>"
  have "ct_steps (dispatch_rows now i lease policy stepId plan companion t) = update_where (\<lambda>r. st_id r = stepId) ?f (ct_steps t)"
    by (simp add: dispatch_rows_def)
  from assms(1) [unfolded this] obtain r where s: "s = (if st_id r = stepId then ?f r else r)" by (rule update_whereE)
  show ?thesis using assms(2) by (simp add: s split: if_splits)
qed

lemma dispatched_leases:
  assumes "l \<in> set (ct_leases (dispatch_rows now i lease policy stepId plan companion t))" and "le_physicalKey l = lh_physicalKey lease"
  shows "le_unresolvedStepId l = Some stepId"
proof -
  let ?f = "\<lambda>l. l\<lparr>le_unresolvedStepId := Some stepId\<rparr>"
  have "ct_leases (dispatch_rows now i lease policy stepId plan companion t) = update_where (\<lambda>l. companion = Some (le_physicalKey l) \<and> le_incidentId l = Some i) ?f
      (update_where (\<lambda>l. le_physicalKey l = lh_physicalKey lease) ?f (ct_leases t))"
    by (simp add: dispatch_rows_def)
  from assms(1) [unfolded this] obtain q where q: "q \<in> set (update_where (\<lambda>l. le_physicalKey l = lh_physicalKey lease) ?f (ct_leases t))"
      "l = (if companion = Some (le_physicalKey q) \<and> le_incidentId q = Some i then ?f q else q)" by (rule update_whereE)
  from q(1) obtain r where r: "q = (if le_physicalKey r = lh_physicalKey lease then ?f r else r)" by (rule update_whereE)
  have "le_physicalKey q = lh_physicalKey lease" using q(2) assms(2) by (simp split: if_splits)
  with r have "le_unresolvedStepId q = Some stepId" by (simp split: if_splits)
  with q(2) show ?thesis by simp
qed

section \<open>A rotation sends its first write\<close>

definition demo_plan :: CloudStep where
  "demo_plan = \<lparr>pl_id = ''st1'', pl_action = ''ec2.eip.allocate'', pl_resourceKey = ''eip'', pl_arguments = [(''phase'', JStr ''rotation'')],
     pl_destructive = False\<rparr>"

definition demo_store :: StoreEnv where
  "demo_store = \<lparr>ne_physicalKey = plain_key, ne_isIP = (\<lambda>_. 4), ne_plan = (\<lambda>_ _ _ _. Inr [demo_plan])\<rparr>"

definition demo_ids :: FreshIds where
  "demo_ids = \<lparr>fi_attempt = ''att1'', fi_resource = ''res1'', fi_address = ''adr2'', fi_publication = ''pub2''\<rparr>"

definition demo_identity :: AdapterIdentity where
  "demo_identity = \<lparr>ai_credentialCiphertext = ca_credentialCiphertext demo_account, ai_externalAccountId = ca_externalAccountId demo_account\<rparr>"

definition demo_lease :: LeaseHandle where
  "demo_lease = \<lparr>lh_physicalKey = ''1234/us-west-2/i-1'', lh_holder = ''w1'', lh_revision = 1\<rparr>"

definition demo_incident :: RotationIncidentRow where
  "demo_incident = \<lparr>ri_incidentId = ''inc1'', ri_ownerUserId = ''u1'', ri_slotId = ''s1'', ri_family = V4, ri_physicalKey = ''1234/us-west-2/i-1'',
     ri_sourceEventId = ''manual-1'', ri_rotationTrigger = ManualTrigger, ri_releaseOldAddress = True, ri_status = IncActive,
     ri_phase = CloudPhase, ri_currentSegmentId = ''seg1'', ri_currentAttemptId = Some ''att1'', ri_pendingSegmentId = None,
     ri_authorizationRevision = 4, ri_rotationPolicyRevision = 1, ri_addressVersion = 2, ri_healthPolicyId = None,
     ri_healthPolicyRevision = None, ri_configId = None, ri_configRevision = None, ri_groupId = None, ri_groupRevision = None,
     ri_nextAttemptAt = 0, ri_nextRunAt = 3000, ri_candidateDeadline = None, ri_errorCode = None, ri_recoveryRetries = 0,
     ri_recoveryRetryAt = None, ri_lastRecoveryError = None, ri_pausedByUserId = None, ri_createdAt = 1000, ri_updatedAt = 3000,
     ri_finishedAt = None, ri_terminatedAt = None\<rparr>"

definition demo_step :: RotationStepRow where
  "demo_step = \<lparr>st_id = ''st1'', st_attemptId = ''att1'', st_sequence = 0, st_plan = demo_plan, st_status = SsPrepared, st_fence = None,
     st_dispatchedAt = None, st_observeDeadline = None, st_receipt = None, st_errorCode = None, st_retryAt = None\<rparr>"

definition demo_ready :: Database where
  "demo_ready = demo_database\<lparr>tb_cloud := demo_cloud\<lparr>ct_incidents := [demo_incident],
     ct_segments := [\<lparr>bs_id = ''seg1'', bs_incidentId = ''inc1'', bs_maxAttempts = 1, bs_attemptsUsed = 0, bs_exhausted = False,
       bs_actorUserId = Some ''u1''\<rparr>],
     ct_attempts := [\<lparr>ra_id = ''att1'', ra_incidentId = ''inc1'', ra_segmentId = ''seg1'', ra_charged = False, ra_status = AttPrepared,
       ra_sequence = 1, ra_beforeInventory = JObj [], ra_candidateAddressId = None, ra_candidateVersion = None, ra_candidateRepeated = False,
       ra_chargedAt = None\<rparr>],
     ct_steps := [demo_step],
     ct_leases := [\<lparr>le_physicalKey = ''1234/us-west-2/i-1'', le_revision = 1, le_holder = Some ''w1'', le_expiresAt = 47000,
       le_incidentId = Some ''inc1'', le_unresolvedStepId = None\<rparr>]\<rparr>\<rparr>"

definition demo_context_now :: RotationContext where
  "demo_context_now = projr (lockRotationContext plain_key (tb_cloud demo_ready) ''s1'')"

definition demo_run_now :: RotationRun where
  "demo_run_now = projr (snapshot 4000 demo_ready demo_context_now demo_incident demo_lease)"

lemma Inr_projr: "\<not> isl x \<Longrightarrow> x = Inr (projr x)"
  by (cases x) simp_all

lemma demo_find: "find_incident demo_ready ''inc1'' = Some demo_incident"
  by code_simp

lemma demo_lock: "lockRotationContext (ne_physicalKey demo_store) (tb_cloud demo_ready) (ri_slotId demo_incident) = Inr demo_context_now"
proof -
  have "ne_physicalKey demo_store = plain_key" "ri_slotId demo_incident = ''s1''" by (simp_all add: demo_store_def demo_incident_def)
  moreover have "\<not> isl (lockRotationContext plain_key (tb_cloud demo_ready) ''s1'')" by code_simp
  ultimately show ?thesis unfolding demo_context_now_def by (simp add: Inr_projr [symmetric])
qed

lemma demo_snapshot: "snapshot 4000 demo_ready demo_context_now demo_incident demo_lease = Inr demo_run_now"
  unfolding demo_run_now_def by (rule Inr_projr) code_simp

lemma demo_run_parts:
  "assertIdentity demo_context_now demo_identity = Inr ()" "rotationAuthorizationError demo_context_now (ri_rotationTrigger demo_incident) = None"
  "dispatchable ''inc1'' ''st1'' demo_run_now" "find (\<lambda>s. st_id s = ''st1'') (ru_steps demo_run_now) = Some demo_step"
  by code_simp+

lemma demo_admitted: "\<exists>t. reserveCloudRotationWrite 4000 (write_input demo_context_now demo_run_now demo_step) (tb_cloud demo_ready) = Inr (t, WriteAllowed)"
proof -
  have "case reserveCloudRotationWrite 4000 (write_input demo_context_now demo_run_now demo_step) (tb_cloud demo_ready) of
      Inr (_, WriteAllowed) \<Rightarrow> True | _ \<Rightarrow> False" by code_simp
  then show ?thesis by (cases "reserveCloudRotationWrite 4000 (write_input demo_context_now demo_run_now demo_step) (tb_cloud demo_ready)")
      (auto split: prod.splits WriteAdmission.split_asm)
qed

lemma demo_authorized: "authorizeStep (ne_physicalKey demo_store) (ne_isIP demo_store) demo_context_now i plan alloc now t = Inr None"
proof -
  have "cin_service (cx_instance demo_context_now) \<noteq> LinodeCompute" by code_simp
  then show ?thesis by (simp add: authorizeStep_def)
qed

lemma demo_dispatch: "\<exists>d plan. dispatch demo_store 4000 ''inc1'' demo_lease ''st1'' demo_identity demo_ready = Inr (d, Some plan)"
proof -
  obtain t where t: "reserveCloudRotationWrite 4000 (write_input demo_context_now demo_run_now demo_step) (tb_cloud demo_ready) = Inr (t, WriteAllowed)"
    using demo_admitted by blast
  have "cx_policy demo_context_now \<noteq> None" "\<not> isl (persistedRotationOptions demo_context_now)" by code_simp+
  then obtain policy options where p: "cx_policy demo_context_now = Some policy" "persistedRotationOptions demo_context_now = Inr options"
    by (metis Inr_projr option.collapse)
  obtain attempt where a: "ru_attempt demo_run_now = Some attempt" using demo_run_parts(3) by (auto simp: dispatchable_def)
  show ?thesis
    by (simp add: dispatch_def storeTransaction_def demo_find demo_lock demo_snapshot demo_run_parts a dispatch_step_def demo_authorized t p Let_def)
qed


lemma dispatched_lease:
  assumes run: "dispatch env now i lease stepId identity d = Inr (d', Some plan)" and key: "lh_physicalKey lease \<in> le_physicalKey ` set (ct_leases (tb_cloud d))"
    and "distinct (map le_physicalKey (ct_leases (tb_cloud d)))"
  shows "\<exists>l \<in> set (ct_leases (tb_cloud d')). le_unresolvedStepId l = Some stepId"
proof -
  from key obtain n u where "(lh_physicalKey lease, n, u) \<in> set (lease_view d)" by (fastforce simp: lease_view_def)
  moreover have "remembers_writes d d'" by (rule conjunct1 [OF store_step_ok [OF store_step.Dispatch [OF run]]])
  moreover have "distinct (map fst (lease_view d))" using assms(3) by (simp add: lease_view_def comp_def)
  ultimately obtain n' u' where "(lh_physicalKey lease, n', u') \<in> set (lease_view d')" unfolding remembers_writes_def by blast
  then obtain l where l: "l \<in> set (ct_leases (tb_cloud d'))" "le_physicalKey l = lh_physicalKey lease" by (auto simp: lease_view_def)
  from run show ?thesis
  proof (cases rule: dispatchE)
    case (sends incident c r attempt step alloc companion t policy p)
    show ?thesis using l dispatched_leases [OF l(1) [unfolded sends(12)] l(2)] by blast
  qed simp
qed


lemma demo_budget: "budgets_ok demo_ready"
  by code_simp

theorem attempts_within_budget_witness:
  "\<exists>d plan. dispatch demo_store 4000 ''inc1'' demo_lease ''st1'' demo_identity demo_ready = Inr (d, Some plan)
    \<and> list_all (\<lambda>b. bs_attemptsUsed b \<le> bs_maxAttempts b) (ct_segments (tb_cloud d))"
proof -
  obtain d plan where run: "dispatch demo_store 4000 ''inc1'' demo_lease ''st1'' demo_identity demo_ready = Inr (d, Some plan)"
    using demo_dispatch by blast
  from attempts_within_budget [OF r_into_rtranclp [of "store_step demo_store", OF store_step.Dispatch [OF run]] demo_budget] run
  show ?thesis unfolding list_all_iff by blast
qed

lemma demo_leases: "distinct (map le_physicalKey (ct_leases (tb_cloud demo_ready)))"
  by code_simp

theorem unresolved_write_remembered_witness:
  "\<exists>d plan. dispatch demo_store 4000 ''inc1'' demo_lease ''st1'' demo_identity demo_ready = Inr (d, Some plan)
    \<and> (\<exists>l \<in> set (ct_leases (tb_cloud (deferRun 5000 ''inc1'' d))). le_unresolvedStepId l = Some ''st1''
        \<or> (\<exists>s \<in> set (ct_steps (tb_cloud (deferRun 5000 ''inc1'' d))). st_id s = ''st1'' \<and> settled (st_status s)))"
proof -
  obtain d plan where run: "dispatch demo_store 4000 ''inc1'' demo_lease ''st1'' demo_identity demo_ready = Inr (d, Some plan)"
    using demo_dispatch by blast
  have dist: "distinct (map le_physicalKey (ct_leases (tb_cloud d)))"
    using store_step_ok [OF store_step.Dispatch [OF run]] demo_leases by (simp add: remembers_writes_def lease_view_def comp_def)
  have "lh_physicalKey demo_lease \<in> le_physicalKey ` set (ct_leases (tb_cloud demo_ready))" by code_simp
  then obtain l where "l \<in> set (ct_leases (tb_cloud d))" "le_unresolvedStepId l = Some ''st1''"
    using dispatched_lease [OF run _ demo_leases] by blast
  from unresolved_write_remembered [OF store_step.Defer [of demo_store d 5000 "''inc1''"] dist this] run show ?thesis by blast
qed

definition result_db :: "CodeError + Database \<times> 'a \<Rightarrow> Database" where
  "result_db r = (case r of Inr (d, _) \<Rightarrow> d | Inl _ \<Rightarrow> demo_ready)"

definition claim_gives :: "LeaseHandle \<Rightarrow> CodeError + Database \<times> LeaseHandle option \<Rightarrow> bool" where
  "claim_gives lease r = (case r of Inr (_, Some l) \<Rightarrow> l = lease | _ \<Rightarrow> False)"

lemma claim_gives_Inr: "claim_gives lease r \<Longrightarrow> r = Inr (result_db r, Some lease)"
  by (auto simp: claim_gives_def result_db_def split: sum.splits option.splits)

definition lease_of :: "string \<Rightarrow> int \<Rightarrow> LeaseHandle" where
  "lease_of holder revision = \<lparr>lh_physicalKey = ''1234/us-west-2/i-1'', lh_holder = holder, lh_revision = revision\<rparr>"

definition first_claim :: Database where
  "first_claim = result_db (claim demo_store 50000 ''inc1'' ''w2'' demo_ready)"

definition second_claim :: Database where
  "second_claim = result_db (claim demo_store 100000 ''inc1'' ''w3'' first_claim)"

lemma demo_claims:
  "claim demo_store 50000 ''inc1'' ''w2'' demo_ready = Inr (first_claim, Some (lease_of ''w2'' 2))"
  "claim demo_store 100000 ''inc1'' ''w3'' first_claim = Inr (second_claim, Some (lease_of ''w3'' 3))"
  unfolding first_claim_def second_claim_def by (rule claim_gives_Inr, code_simp)+

theorem lost_lease_writes_nothing_witness:
  "claim demo_store 50000 ''inc1'' ''w2'' demo_ready = Inr (first_claim, Some (lease_of ''w2'' 2))
    \<and> (\<forall>d plan. dispatch demo_store 101000 ''inc1'' (lease_of ''w2'' 2) ''st1'' demo_identity second_claim \<noteq> Inr (d, Some plan))"
proof -
  have same: "lh_physicalKey (lease_of ''w3'' 3) = lh_physicalKey (lease_of ''w2'' 2)" by (simp add: lease_of_def)
  have "dispatch demo_store 101000 ''inc1'' (lease_of ''w2'' 2) ''st1'' demo_identity second_claim \<noteq> Inr (d, Some plan)" for d plan
  proof
    assume "dispatch demo_store 101000 ''inc1'' (lease_of ''w2'' 2) ''st1'' demo_identity second_claim = Inr (d, Some plan)"
    from mp [OF conjunct1 [OF lost_lease_writes_nothing [OF demo_leases demo_claims(1) rtranclp.rtrancl_refl demo_claims(2) same
      rtranclp.rtrancl_refl]] this] show False by simp
  qed
  with demo_claims(1) show ?thesis by blast
qed

end
