(* ===== verification/Rotation_Publishing.thy ===== *)
theory Rotation_Publishing
  imports Reconcile Rotation_Store
begin

text \<open>
  The publication service (\<open>apps/worker/src/rotation/rotation-publication.service.ts\<close>): a verified candidate becomes the current address
  of its slot and of the endpoints linked to it, the pools are told to reconcile, and the publication is observed until DNS serves
  nothing else; only then are the addresses of the rotation due for release, after the largest TTL that DNS may still hold.
  The cloud call between the two transactions of a publication is an input. A transaction reads the clock once.
\<close>

section \<open>What a failed call throws\<close>

datatype run_error = CallTimeout | CloudFault string "number option" | OtherError string

definition positive_delay :: "int \<Rightarrow> number option \<Rightarrow> int option" where
  "positive_delay now retryAfterMs = (case retryAfterMs of Some (Num r) \<Rightarrow> if 0 < r then Some (now + \<lfloor>r\<rfloor>) else None | _ \<Rightarrow> None)"

section \<open>Admission\<close>

datatype PublishAdmission = NotAdmitted "RotationPublicationRow option" | Admitted RotationContext LeaseHandle "RotationPublicationRow option"

definition find_publication :: "string \<Rightarrow> int \<Rightarrow> CloudTables \<Rightarrow> RotationPublicationRow option" where
  "find_publication slotId version t = select_one (\<lambda>p. pb_slotId p = slotId \<and> pb_addressVersion p = version) (ct_publications t)"

definition active_incident :: "string \<Rightarrow> CloudTables \<Rightarrow> RotationIncidentRow option" where
  "active_incident slotId t = select_one (\<lambda>x. ri_slotId x = slotId \<and> ri_status x \<noteq> IncComplete) (ct_incidents t)"

definition not_ready :: "string option \<Rightarrow> RotationPublicationRow option \<Rightarrow> RotationIncidentRow option \<Rightarrow> bool" where
  "not_ready incidentId existing active = (case active of None \<Rightarrow> False
     | Some a \<Rightarrow> existing = None \<or> (case incidentId of Some i \<Rightarrow> ri_incidentId a \<noteq> i | None \<Rightarrow> False))"

text \<open>A machine that another rotation plans for, or that has a write open, is left alone.\<close>

definition machine_taken :: "string option \<Rightarrow> RotationLeaseRow option \<Rightarrow> bool" where
  "machine_taken incidentId physical = (case physical of None \<Rightarrow> False
     | Some l \<Rightarrow> le_unresolvedStepId l \<noteq> None \<or> le_incidentId l \<noteq> None \<and> le_incidentId l \<noteq> incidentId)"

definition admitPublication ::
  "physical_key \<Rightarrow> int \<Rightarrow> string \<Rightarrow> string \<Rightarrow> string option \<Rightarrow> Database \<Rightarrow> CodeError + Database \<times> PublishAdmission" where
  "admitPublication pk now holder slotId incidentId d =
    bindE (lockRotationContext pk (tb_cloud d) slotId) (\<lambda>c.
    if list_ex (\<lambda>x. ri_slotId x = slotId \<and> ri_terminatedAt x \<noteq> None \<and> ri_addressVersion x = cx_addressVersion c) (ct_incidents (tb_cloud d))
    then Inr (d, NotAdmitted None)
    else (let existing = find_publication slotId (cx_addressVersion c) (tb_cloud d) in
      if Option.bind existing pb_promotedAt \<noteq> None then Inr (d, NotAdmitted existing)
      else if ms_candidateAddressId (cx_slot c) = None then Inr (d, NotAdmitted None)
      else bindE (guardE (\<not> not_ready incidentId existing (active_incident slotId (tb_cloud d))) ''rotation_publication_not_ready'') (\<lambda>_.
        bindE (assertPublicationContext now d c existing) (\<lambda>_.
        (case acquireRotationLease now (cx_physicalKey c) holder (tb_cloud d) of
           (t, None) \<Rightarrow> Inr (set_cloud (\<lambda>_. t) d, NotAdmitted None)
         | (t, Some lease) \<Rightarrow>
             if machine_taken (Option.bind existing pb_incidentId) (verifyRotationLease now lease t)
             then Inr (set_cloud (\<lambda>_. releaseRotationLease now lease t) d, NotAdmitted None)
             else Inr (set_cloud (\<lambda>_. t) d, Admitted c lease existing))))))"

section \<open>TTLs that DNS may still hold\<close>

definition effectiveOldTtl :: "int \<Rightarrow> ProviderType \<Rightarrow> int" where
  "effectiveOldTtl ttl provider = (if 1 < ttl then ttl else if provider = Cloudflare then 300 else 86400)"

definition zone_provider :: "Database \<Rightarrow> string \<Rightarrow> ProviderType option" where
  "zone_provider d zoneId = Option.bind (select_one (\<lambda>z. zo_id z = zoneId) (tb_zones d)) (\<lambda>z.
     map_option pa_provider (select_one (\<lambda>a. pa_id a = zo_providerAccountId z) (tb_providerAccounts d)))"

definition record_ttls :: "Database \<Rightarrow> string list \<Rightarrow> int list" where
  "record_ttls d poolIds = List.map_filter (\<lambda>r. if dr_deletedAt r = None \<and> (case dr_managedByPoolId r of Some p \<Rightarrow> p \<in> set poolIds | None \<Rightarrow> False)
     then map_option (effectiveOldTtl (dr_ttl r)) (zone_provider d (dr_zoneId r)) else None) (tb_dnsRecords d)"

definition binding_ttls :: "Database \<Rightarrow> string list \<Rightarrow> int list" where
  "binding_ttls d poolIds = List.map_filter (\<lambda>b. if db_poolId b \<in> set poolIds
     then map_option (effectiveOldTtl (db_ttl b)) (zone_provider d (db_zoneId b)) else None) (tb_domainBindings d)"

definition largestTtl :: "Database \<Rightarrow> string list \<Rightarrow> int" where
  "largestTtl d poolIds = foldl max 0 (record_ttls d poolIds @ binding_ttls d poolIds)"

section \<open>Promotion\<close>

record PublishIds =
  pi_publication :: string
  pi_address :: "string \<Rightarrow> string"
  pi_intent :: "string \<Rightarrow> string"
  pi_event :: "string \<Rightarrow> string"

record PublishLink =
  pk_link :: CloudEndpointLinkRow
  pk_endpoint :: EndpointRow
  pk_pool :: EndpointPoolRow

definition publish_links :: "Database \<Rightarrow> string \<Rightarrow> PublishLink list" where
  "publish_links d slotId = List.map_filter (\<lambda>l. if cl_slotId l \<noteq> slotId then None
     else Option.bind (select_one (\<lambda>e. en_id e = cl_endpointId l) (tb_endpoints d)) (\<lambda>e.
       map_option (\<lambda>p. \<lparr>pk_link = l, pk_endpoint = e, pk_pool = p\<rparr>) (select_one (\<lambda>p. ep_id p = en_poolId e) (tb_endpointPools d)))) (ct_links (tb_cloud d))"

text \<open>Nothing that the live inspection depends on may have moved since it.\<close>

definition liveChanged :: "RotationContext \<Rightarrow> RotationContext \<Rightarrow> RotationLeaseRow option \<Rightarrow> LiveInventory \<Rightarrow> bool" where
  "liveChanged c current physical live = (case physical of None \<Rightarrow> True
     | Some l \<Rightarrow> le_unresolvedStepId l \<noteq> None
        \<or> ca_credentialCiphertext (cx_account current) \<noteq> ca_credentialCiphertext (cx_account c)
        \<or> cx_physicalKey current \<noteq> cx_physicalKey c \<or> cx_addressVersion current \<noteq> cx_addressVersion c
        \<or> map_option cd_id (cx_address current) \<noteq> map_option cd_id (cx_address c)
        \<or> map_option cs_generation (cx_scope current) \<noteq> map_option cs_generation (cx_scope c)
        \<or> cin_scanGeneration (cx_instance current) \<noteq> cin_scanGeneration (cx_instance c)
        \<or> map_option cif_scanGeneration (cx_iface current) \<noteq> map_option cif_scanGeneration (cx_iface c)
        \<or> \<not> livePublicationMatches current live)"

definition promoteEndpoint ::
  "PublishIds \<Rightarrow> Family \<Rightarrow> string \<Rightarrow> int \<Rightarrow> HealthState \<Rightarrow> int \<Rightarrow> int option \<Rightarrow> string \<Rightarrow> Database \<Rightarrow> Database" where
  "promoteEndpoint ids family address now health successes checkedAt endpointId d = d\<lparr>
     tb_endpointAddresses := update_where (\<lambda>a. ea_endpointId a = endpointId \<and> ea_family a = family \<and> ea_state a \<in> {CurrentAddress, CandidateAddress})
         (\<lambda>a. a\<lparr>ea_state := PreviousAddress, ea_replacedAt := Some now\<rparr>) (tb_endpointAddresses d)
       @ [\<lparr>ea_id = pi_address ids endpointId, ea_endpointId = endpointId, ea_family = family, ea_address = address, ea_state = CurrentAddress,
           ea_source = CloudMode, ea_healthState = health, ea_consecutiveSuccesses = successes, ea_consecutiveFailures = 0,
           ea_lastCheckedAt = checkedAt, ea_observedAt = now, ea_promotedAt = Some now, ea_replacedAt = None\<rparr>],
     tb_endpoints := update_where (\<lambda>e. en_id e = endpointId) (\<lambda>e. e\<lparr>en_healthState := health, en_consecutiveSuccesses := successes,
         en_consecutiveFailures := 0, en_lastCheckedAt := checkedAt\<rparr>) (tb_endpoints d)\<rparr>"

definition intent :: "PublishIds \<Rightarrow> string \<Rightarrow> int \<Rightarrow> Database \<Rightarrow> CodeError + Database \<times> PublicationChild" where
  "intent ids poolId now d = (let d1 = set_pool poolId (\<lambda>p. p\<lparr>ep_decisionRevision := ep_decisionRevision p + 1\<rparr>) d in
     case select_one (\<lambda>p. ep_id p = poolId) (tb_endpointPools d1) of
       None \<Rightarrow> Inl ''pool_not_found''
     | Some pool \<Rightarrow> Inr (d1\<lparr>tb_reconcileIntents := tb_reconcileIntents d1 @ [\<lparr>ri_id = pi_intent ids poolId, ri_eventId = pi_event ids poolId,
           ri_poolId = poolId, ri_endpointId = None, ri_decisionRevision = ep_decisionRevision pool, ri_policyRevision = ep_policyRevision pool,
           ri_trigger = RepairTrigger, ri_source = FailoverSource, ri_force = False, ri_availableAt = now, ri_completedAt = None\<rparr>]\<rparr>,
         \<lparr>pc_poolId = poolId, pc_eventId = pi_event ids poolId, pc_policyRevision = ep_policyRevision pool,
           pc_decisionRevision = ep_decisionRevision pool, pc_operationId = None\<rparr>))"

fun publishPools :: "PublishIds \<Rightarrow> int \<Rightarrow> string list \<Rightarrow> Database \<Rightarrow> CodeError + Database \<times> PublicationChild list" where
  "publishPools ids now [] d = Inr (d, [])"
| "publishPools ids now (poolId # poolIds) d = bindE (intent ids poolId now (fst (refreshPoolHealth poolId d))) (\<lambda>(d1, child).
     bindE (publishPools ids now poolIds d1) (\<lambda>(d2, children). Inr (d2, child # children)))"
text \<open>What the evidence says of the address that is promoted: a manual publication has none.\<close>

definition promotedHealth :: "PublicationEvidence \<Rightarrow> CodeError + HealthState \<times> int \<times> int option" where
  "promotedHealth e = (if pe_manualIncidentId e \<noteq> None then Inr (Unknown, 0, None)
     else (case rh_state (pe_health e) of None \<Rightarrow> Inl ''type_error'' | Some s \<Rightarrow> Inr (Healthy, hs_consecutiveSuccesses s, hs_lastCheckedAt s)))"

definition promote_rows :: "RotationContext \<Rightarrow> CloudAddressRow \<Rightarrow> string \<Rightarrow> int \<Rightarrow> CloudTables \<Rightarrow> CloudTables" where
  "promote_rows current address slotId version t = t\<lparr>
     ct_addresses := update_where (\<lambda>a. cd_id a = cd_id address) (\<lambda>a. a\<lparr>cd_inventoryPresent := True,
         cd_scanGeneration := cin_scanGeneration (cx_instance current)\<rparr>) (ct_addresses t),
     ct_slots := update_where (\<lambda>s. ms_id s = slotId) (\<lambda>s. s\<lparr>ms_currentAddressId := Some (cd_id address), ms_currentVersion := version,
         ms_candidateAddressId := None\<rparr>) (ct_slots t)\<rparr>"

definition new_publication :: "string \<Rightarrow> string \<Rightarrow> int \<Rightarrow> string \<Rightarrow> RotationPublicationRow" where
  "new_publication newId slotId version addressId = \<lparr>pb_id = newId, pb_slotId = slotId, pb_addressVersion = version, pb_addressId = addressId,
     pb_incidentId = None, pb_status = PbPending, pb_operationId = None, pb_children = [], pb_context = None, pb_promotedAt = None,
     pb_errorCode = None, pb_previousMaxTtl = 0, pb_appliedAt = None\<rparr>"

definition put_publication ::
  "RotationPublicationRow option \<Rightarrow> RotationPublicationRow \<Rightarrow> (RotationPublicationRow \<Rightarrow> RotationPublicationRow) \<Rightarrow> CloudTables
    \<Rightarrow> CloudTables \<times> RotationPublicationRow option" where
  "put_publication existing fresh f t = (case existing of
     Some p \<Rightarrow> (let t1 = t\<lparr>ct_publications := update_where (\<lambda>x. pb_id x = pb_id p) f (ct_publications t)\<rparr> in
        (t1, select_one (\<lambda>x. pb_id x = pb_id p) (ct_publications t1)))
   | None \<Rightarrow> (t\<lparr>ct_publications := ct_publications t @ [f fresh]\<rparr>, Some (f fresh)))"

definition publication_context :: "RotationContext \<Rightarrow> InstanceAuthorizationRow \<Rightarrow> (string \<times> json) list \<Rightarrow> json" where
  "publication_context c authorization evidence = JObj ([(''physicalKey'', JStr (cx_physicalKey c)),
     (''authorizationRevision'', JNum (num_of_int (ia_revision authorization)))] @ evidence)"

definition in_flight :: "int \<Rightarrow> PublicationChild list \<Rightarrow> json \<Rightarrow> int \<Rightarrow> RotationPublicationRow \<Rightarrow> RotationPublicationRow" where
  "in_flight now children ctx maxTtl p = p\<lparr>pb_status := PbInFlight, pb_children := children, pb_context := Some ctx, pb_previousMaxTtl := maxTtl,
     pb_promotedAt := Some now, pb_errorCode := None\<rparr>"

definition promoteAddress ::
  "PublishIds \<Rightarrow> int \<Rightarrow> string \<Rightarrow> RotationContext \<Rightarrow> RotationContext \<Rightarrow> RotationPublicationRow option \<Rightarrow> PublicationEvidence \<Rightarrow> PublishLink list
    \<Rightarrow> Database \<Rightarrow> CodeError + Database \<times> RotationPublicationRow option" where
  "promoteAddress ids now slotId c current existing e links d = (case (cx_address current, cx_authorization c) of
     (Some address, Some authorization) \<Rightarrow>
       (let poolIds = js_sort code_unit_compare (js_set (map (\<lambda>l. ep_id (pk_pool l)) links)); maxTtl = largestTtl d poolIds in
        bindE (promotedHealth e) (\<lambda>(health, successes, checkedAt).
        let d1 = fold (\<lambda>l. promoteEndpoint ids (ms_family (cx_slot c)) (cd_address address) now health successes checkedAt (en_id (pk_endpoint l))) links d;
            d2 = set_cloud (promote_rows current address slotId (cx_addressVersion c)) d1 in
        bindE (publishPools ids now poolIds d2) (\<lambda>(d3, children).
        bindE (publicationEvidence e) (\<lambda>evidence.
        let (t, publication) = put_publication existing (new_publication (pi_publication ids) slotId (cx_addressVersion c) (cd_id address))
              (in_flight now children (publication_context c authorization evidence) maxTtl) (tb_cloud d3)
        in Inr (set_cloud (\<lambda>_. t) d3, publication)))))
   | _ \<Rightarrow> Inl ''type_error'')"

definition clear_retry :: "RotationPublicationRow option \<Rightarrow> Database \<Rightarrow> Database" where
  "clear_retry existing d = (case Option.bind existing pb_incidentId of None \<Rightarrow> d
     | Some i \<Rightarrow> set_incident i (\<lambda>x. x\<lparr>ri_recoveryRetryAt := None, ri_errorCode := None\<rparr>) d)"

definition promote ::
  "physical_key \<Rightarrow> PublishIds \<Rightarrow> int \<Rightarrow> string \<Rightarrow> RotationContext \<Rightarrow> LeaseHandle \<Rightarrow> LiveInventory \<Rightarrow> Database
    \<Rightarrow> CodeError + Database \<times> RotationPublicationRow option" where
  "promote pk ids now slotId c lease live d =
    bindE (lockRotationContext pk (tb_cloud d) slotId) (\<lambda>current.
    bindE (guardE (\<not> liveChanged c current (verifyRotationLease now lease (tb_cloud d)) live) ''live_cloud_address_changed'') (\<lambda>_.
    let existing = find_publication slotId (cx_addressVersion c) (tb_cloud d) in
    if Option.bind existing pb_promotedAt \<noteq> None then Inr (d, existing)
    else bindE (assertPublicationContext now d current existing) (\<lambda>e.
      let d1 = clear_retry existing d; links = publish_links d1 slotId in
      bindE (guardE (links \<noteq> [] \<or> Option.bind existing pb_incidentId \<noteq> None) ''publication_has_no_links'') (\<lambda>_.
      bindE (guardE (list_all (\<lambda>l. en_addressMode (pk_endpoint l) = CloudMode
          \<and> ep_ownerUserId (pk_pool l) = ca_ownerUserId (cx_account c)) links) ''publication_owner_changed'') (\<lambda>_.
      promoteAddress ids now slotId c current existing e links d1)))))"

section \<open>A publication of a slot\<close>

definition transient_code :: "run_error \<Rightarrow> string option" where
  "transient_code e = (case e of CallTimeout \<Rightarrow> Some ''rotation_call_timeout''
     | CloudFault code _ \<Rightarrow> if code \<in> {''temporary_cloud_error'', ''unknown_cloud_error'', ''rate_limited''} then Some code else None
     | OtherError _ \<Rightarrow> None)"

definition retry_delay :: "run_error \<Rightarrow> number option" where
  "retry_delay e = (case e of CloudFault _ r \<Rightarrow> r | _ \<Rightarrow> None)"

definition publishFailed :: "physical_key \<Rightarrow> int \<Rightarrow> string \<Rightarrow> RotationPublicationRow option \<Rightarrow> run_error \<Rightarrow> Database \<Rightarrow> CodeError + Database" where
  "publishFailed pk now slotId publication e d = (case (Option.bind publication pb_incidentId, transient_code e) of
     (Some i, Some code) \<Rightarrow> bindE (lockRotationContext pk (tb_cloud d) slotId) (\<lambda>current. case find_incident d i of
         None \<Rightarrow> Inr d
       | Some incident \<Rightarrow> if ri_status incident = IncComplete then Inr d
           else Inr (scheduleRotationRecovery current incident code now (positive_delay now (retry_delay e)) d))
   | _ \<Rightarrow> Inr d)"

text \<open>The clock of each of the four transactions, what others commit before each of the last three, and the answer of the cloud.\<close>

record PublishEnv =
  pv_physicalKey :: physical_key
  pv_now :: "nat \<Rightarrow> int"
  pv_others :: "nat \<Rightarrow> Database \<Rightarrow> Database"
  pv_holder :: string
  pv_ids :: PublishIds
  pv_live :: "run_error + LiveInventory"

definition promoted :: "PublishEnv \<Rightarrow> string \<Rightarrow> RotationContext \<Rightarrow> LeaseHandle \<Rightarrow> Database \<Rightarrow> run_error + Database \<times> RotationPublicationRow option" where
  "promoted env slotId c lease d = (case pv_live env of
     Inl e \<Rightarrow> Inl e
   | Inr live \<Rightarrow> (case promote (pv_physicalKey env) (pv_ids env) (pv_now env 1) slotId c lease live d of Inl e \<Rightarrow> Inl (OtherError e) | Inr r \<Rightarrow> Inr r))"

definition publishSlot :: "PublishEnv \<Rightarrow> string \<Rightarrow> string option \<Rightarrow> Database \<Rightarrow> Database \<times> (run_error + RotationPublicationRow option)" where
  "publishSlot env slotId incidentId d =
    (case admitPublication (pv_physicalKey env) (pv_now env 0) (pv_holder env) slotId incidentId d of
       Inl e \<Rightarrow> (d, Inl (OtherError e))
     | Inr (d1, NotAdmitted publication) \<Rightarrow> (d1, Inr publication)
     | Inr (d1, Admitted c lease existing) \<Rightarrow>
         (let d2 = pv_others env 1 d1; free = (\<lambda>d. set_cloud (releaseRotationLease (pv_now env 3) lease) (pv_others env 3 d)) in
          case promoted env slotId c lease d2 of
            Inr (d3, publication) \<Rightarrow> (free d3, Inr publication)
          | Inl e \<Rightarrow> (let d3 = pv_others env 2 d2 in
              case publishFailed (pv_physicalKey env) (pv_now env 2) slotId existing e d3 of
                Inl e' \<Rightarrow> (free d3, Inl (OtherError e')) | Inr d4 \<Rightarrow> (free d4, Inl e))))"

section \<open>Observation\<close>

text \<open>What the walk over the pools has found so far.\<close>

record Observed =
  ob_db :: Database
  ob_done :: bool
  ob_failed :: bool
  ob_maxTtl :: int
  ob_children :: "PublicationChild list"
  ob_retry :: "string list"

definition cleanup_ttls :: "Database \<Rightarrow> string \<Rightarrow> int list" where
  "cleanup_ttls d operationId = map (\<lambda>s. case Option.bind (os_input s) si_cleanupOldTtl of Some n \<Rightarrow> n | None \<Rightarrow> 0)
     (filter (\<lambda>s. os_operationId s = operationId) (tb_operationSteps d))"

definition current_intent :: "Database \<Rightarrow> EndpointPoolRow \<Rightarrow> ReconcileIntentRow option" where
  "current_intent d pool = select_one (\<lambda>i. ri_poolId i = ep_id pool \<and> ri_policyRevision i = ep_policyRevision pool
     \<and> ri_decisionRevision i = ep_decisionRevision pool) (tb_reconcileIntents d)"

definition replanChild :: "PublishIds \<Rightarrow> int \<Rightarrow> EndpointPoolRow \<Rightarrow> Observed \<Rightarrow> CodeError + Observed" where
  "replanChild ids now pool o' = (case current_intent (ob_db o') pool of
     Some i \<Rightarrow> Inr (o'\<lparr>ob_children := ob_children o' @ [\<lparr>pc_poolId = ep_id pool, pc_eventId = ri_eventId i, pc_policyRevision = ri_policyRevision i,
       pc_decisionRevision = ri_decisionRevision i, pc_operationId = None\<rparr>], ob_done := False\<rparr>)
   | None \<Rightarrow> bindE (intent ids (ep_id pool) now (ob_db o')) (\<lambda>(d, child).
       Inr (o'\<lparr>ob_db := d, ob_children := ob_children o' @ [child], ob_done := False\<rparr>)))"

definition settledChild :: "PublicationChild \<Rightarrow> EndpointPoolRow \<Rightarrow> OperationRow option \<Rightarrow> Observed \<Rightarrow> Observed" where
  "settledChild child pool op o' =
    (let d = ob_db o'; o1 = o'\<lparr>ob_children := ob_children o' @ [case op of Some x \<Rightarrow> child\<lparr>pc_operationId := Some (op_id x)\<rparr> | None \<Rightarrow> child]\<rparr> in
     if \<not> ep_enabled pool \<or> Option.bind (select_one (\<lambda>i. ri_eventId i = pc_eventId child) (tb_reconcileIntents d)) ri_completedAt = None
     then o1\<lparr>ob_done := False\<rparr>
     else (let o2 = (case op of None \<Rightarrow> o1 | Some x \<Rightarrow> o1\<lparr>ob_maxTtl := foldl max (ob_maxTtl o1) (cleanup_ttls d (op_id x))\<rparr>);
         o3 = (case op of None \<Rightarrow> o2 | Some x \<Rightarrow> if op_status x = OpSucceeded then o2
             else if op_status x \<in> {OpPartial, OpFailed} then o2\<lparr>ob_done := False, ob_failed := True, ob_retry := ob_retry o2 @ [op_id x]\<rparr>
             else o2\<lparr>ob_done := False\<rparr>)
       in if list_ex (\<lambda>b. db_poolId b = ep_id pool \<and> db_state b \<noteq> BindingHealthy) (tb_domainBindings d) then o3\<lparr>ob_done := False\<rparr> else o3))"

definition observeChild :: "PublishIds \<Rightarrow> int \<Rightarrow> PublicationChild \<Rightarrow> Observed \<Rightarrow> CodeError + Observed" where
  "observeChild ids now child o' = (case select_one (\<lambda>p. ep_id p = pc_poolId child) (tb_endpointPools (ob_db o')) of
     None \<Rightarrow> Inr (o'\<lparr>ob_failed := True, ob_done := False, ob_children := ob_children o' @ [child]\<rparr>)
   | Some pool \<Rightarrow>
       if ep_policyRevision pool \<noteq> pc_policyRevision child \<or> ep_decisionRevision pool \<noteq> pc_decisionRevision child
       then replanChild ids now pool o'
       else Inr (settledChild child pool (select_one (\<lambda>x. op_idempotencyKey x = child_key child) (tb_operations (ob_db o'))) o'))"

text \<open>Failed operations run again with their successes kept; a rotation first waits for its retry.\<close>

definition retry_operations :: "int \<Rightarrow> string list \<Rightarrow> Database \<Rightarrow> Database" where
  "retry_operations now ids d = d\<lparr>
     tb_operationSteps := update_where (\<lambda>s. os_operationId s \<in> set ids \<and> os_status s = StFailed)
       (\<lambda>s. s\<lparr>os_status := StPending, os_nextRetryAt := Some now, os_finishedAt := None\<rparr>) (tb_operationSteps d),
     tb_operations := update_where (\<lambda>x. op_id x \<in> set ids) (\<lambda>x. x\<lparr>op_status := OpPending, op_finishedAt := None, op_errorCode := None\<rparr>) (tb_operations d)\<rparr>"

definition retry_due :: "int \<Rightarrow> RotationIncidentRow option \<Rightarrow> bool" where
  "retry_due now incident = (case incident of None \<Rightarrow> False
     | Some i \<Rightarrow> ri_status i = IncActive \<and> ri_pausedByUserId i = None \<and> (case ri_recoveryRetryAt i of Some t \<Rightarrow> t \<le> now | None \<Rightarrow> False))"

definition retryFailed :: "RotationContext \<Rightarrow> int \<Rightarrow> RotationIncidentRow option \<Rightarrow> string list \<Rightarrow> Database \<Rightarrow> Database" where
  "retryFailed c now incident ids d = (if ids = [] then d
     else (let d1 = (case incident of Some i \<Rightarrow> if ri_recoveryRetryAt i = None \<and> ri_status i = IncActive
              then scheduleRotationRecovery c i ''dns_partial'' now None d else d | None \<Rightarrow> d)
       in if incident = None \<or> retry_due now incident
          then (let d2 = retry_operations now ids d1 in
            case incident of Some i \<Rightarrow> set_incident (ri_incidentId i) (\<lambda>x. x\<lparr>ri_recoveryRetryAt := None\<rparr>) d2 | None \<Rightarrow> d2)
          else d1))"

definition observed_row :: "int \<Rightarrow> Observed \<Rightarrow> RotationPublicationRow \<Rightarrow> RotationPublicationRow" where
  "observed_row now o' p = p\<lparr>pb_children := ob_children o', pb_previousMaxTtl := ob_maxTtl o',
     pb_status := (if ob_done o' then PbApplied else if ob_failed o' then PbFailed else PbInFlight),
     pb_operationId := Option.bind (find (\<lambda>ch. pc_operationId ch \<noteq> None) (ob_children o')) pc_operationId,
     pb_errorCode := (if \<not> ob_done o' \<and> ob_failed o' then Some ''dns_partial'' else None),
     pb_appliedAt := (if ob_done o' then Some now else None)\<rparr>"

definition observed_incident :: "int \<Rightarrow> Observed \<Rightarrow> RotationIncidentRow \<Rightarrow> RotationIncidentRow" where
  "observed_incident now o' x = x\<lparr>ri_phase := (if ob_done o' then CleanupPhase else PublishPhase),
     ri_errorCode := (if ri_pausedByUserId x \<noteq> None
         \<or> ri_errorCode x \<in> {Some ''recovery_retries_exhausted'', Some ''cloud_reset_pending'', Some ''cloud_reset_sync_failed''} then ri_errorCode x
       else if \<not> ob_done o' \<and> ob_failed o' then Some ''dns_partial'' else None),
     ri_recoveryRetryAt := (if ob_done o' then None else ri_recoveryRetryAt x),
     ri_nextRunAt := (case ri_recoveryRetryAt x of Some t \<Rightarrow> if now < t then t else now | None \<Rightarrow> now), ri_updatedAt := now\<rparr>"

text \<open>Only EC2 unassigns an IPv6 address that has no allocation.\<close>

definition cleanupCanReleaseWithoutAllocation :: "CloudService \<Rightarrow> Family \<Rightarrow> bool" where
  "cleanupCanReleaseWithoutAllocation service family = (service = Ec2 \<and> family = V6)"

definition releasable :: "RotationContext \<Rightarrow> bool \<Rightarrow> RotationResourceRow \<Rightarrow> bool" where
  "releasable c releaseOldAddress r = (map_option cd_address (cx_address c) \<noteq> Some (re_address r)
     \<and> (re_origin r = SystemOrigin \<or> releaseOldAddress \<or> (case cx_authorization c of Some a \<Rightarrow> ia_allowReleaseAddress a | None \<Rightarrow> False))
     \<and> ((case re_allocationId r of Some a \<Rightarrow> a \<noteq> [] | None \<Rightarrow> False)
        \<or> cleanupCanReleaseWithoutAllocation (cin_service (cx_instance c)) (ms_family (cx_slot c))))"

definition scheduleReleases :: "RotationContext \<Rightarrow> int \<Rightarrow> string \<Rightarrow> bool \<Rightarrow> int \<Rightarrow> int \<Rightarrow> CloudTables \<Rightarrow> CloudTables" where
  "scheduleReleases c now incidentId releaseOldAddress maxTtl version t = t\<lparr>ct_resources :=
     update_where (\<lambda>r. re_incidentId r = incidentId \<and> releasable c releaseOldAddress r \<and> re_cleanupStatus r \<noteq> CuReleased)
       (\<lambda>r. r\<lparr>re_cleanupStatus := CuPending, re_cleanupDueAt := Some (now + (maxTtl + 60) * 1000),
         re_cleanupAddressVersion := Some version, re_referenced := False\<rparr>) (ct_resources t)\<rparr>"

definition reset_retries :: "string \<Rightarrow> CloudTables \<Rightarrow> CloudTables" where
  "reset_retries slotId t = t\<lparr>ct_slots := update_where (\<lambda>s. ms_id s = slotId) (\<lambda>s. s\<lparr>ms_resetRecoveryRetries := 0\<rparr>) (ct_slots t)\<rparr>"

definition concludePublication ::
  "RotationContext \<Rightarrow> int \<Rightarrow> RotationPublicationRow \<Rightarrow> RotationIncidentRow option \<Rightarrow> Observed \<Rightarrow> Database \<Rightarrow> Database" where
  "concludePublication c now p incident o' d =
    (let d1 = set_cloud (\<lambda>t. t\<lparr>ct_publications := update_where (\<lambda>x. pb_id x = pb_id p) (observed_row now o') (ct_publications t)\<rparr>) d in
     case pb_incidentId p of
       None \<Rightarrow> if ob_done o' then set_cloud (reset_retries (ms_id (cx_slot c))) d1 else d1
     | Some i \<Rightarrow> (let d2 = set_incident i (observed_incident now o') d1 in
         if ob_done o' then set_cloud (scheduleReleases c now i (case incident of Some x \<Rightarrow> ri_releaseOldAddress x | None \<Rightarrow> False)
           (ob_maxTtl o') (pb_addressVersion p)) d2 else d2))"

definition observation_blocked :: "RotationIncidentRow option \<Rightarrow> bool" where
  "observation_blocked incident = (case incident of None \<Rightarrow> False
     | Some i \<Rightarrow> ri_terminatedAt i \<noteq> None \<or> ri_errorCode i \<in> {Some ''cloud_reset_pending'', Some ''cloud_reset_sync_failed''})"

definition observePublication :: "physical_key \<Rightarrow> PublishIds \<Rightarrow> int \<Rightarrow> string \<Rightarrow> Database \<Rightarrow> CodeError + Database" where
  "observePublication pk ids now i d = (case select_one (\<lambda>p. pb_id p = i) (ct_publications (tb_cloud d)) of
     None \<Rightarrow> Inr d
   | Some p \<Rightarrow> if pb_status p = PbApplied then Inr d
       else bindE (lockRotationContext pk (tb_cloud d) (pb_slotId p)) (\<lambda>c.
         let incident = Option.bind (pb_incidentId p) (find_incident d) in
         if pb_promotedAt p = None \<or> observation_blocked incident then Inr d
         else bindE (guardE (cx_addressVersion c = pb_addressVersion p \<and> map_option cd_id (cx_address c) = Some (pb_addressId p))
             ''publication_version_changed'') (\<lambda>_.
           bindE (foldE (\<lambda>o' child. observeChild ids now child o') \<lparr>ob_db = d, ob_done = True, ob_failed = (pb_errorCode p = Some ''dns_partial''),
             ob_maxTtl = pb_previousMaxTtl p, ob_children = [], ob_retry = []\<rparr> (pb_children p)) (\<lambda>o'.
           Inr (concludePublication c now p incident o' (retryFailed c now incident (ob_retry o') (ob_db o')))))))"

section \<open>Addresses to verify again\<close>

text \<open>A linked endpoint without a current address, or a publication that was terminated by hand, is verified again under a new version.\<close>

definition missing_links :: "Database \<Rightarrow> string \<Rightarrow> CloudEndpointLinkRow list" where
  "missing_links d slotId = filter (\<lambda>l. cl_slotId l = slotId \<and> \<not> list_ex (\<lambda>a. ea_endpointId a = cl_endpointId l \<and> ea_family a = cl_family l
     \<and> ea_state a = CurrentAddress) (tb_endpointAddresses d)) (ct_links (tb_cloud d))"

definition reverifySlot :: "physical_key \<Rightarrow> string \<Rightarrow> Database \<Rightarrow> CodeError + Database" where
  "reverifySlot pk slotId d = bindE (lockRotationContext pk (tb_cloud d) slotId) (\<lambda>c. let slot = cx_slot c in
     if ms_candidateAddressId slot \<noteq> None \<or> ms_currentAddressId slot = None then Inr d
     else if list_ex (\<lambda>x. ri_slotId x = slotId \<and> ri_status x \<noteq> IncComplete) (ct_incidents (tb_cloud d)) then Inr d
     else if Option.bind (find_publication slotId (ms_currentVersion slot) (tb_cloud d)) pb_errorCode \<noteq> Some ''manual_terminated''
        \<and> missing_links d slotId = [] then Inr d
     else Inr (set_cloud (\<lambda>t. t\<lparr>
         ct_slots := update_where (\<lambda>s. ms_id s = slotId) (\<lambda>s. s\<lparr>ms_candidateAddressId := ms_currentAddressId slot,
           ms_candidateVersion := max (ms_currentVersion slot) (ms_candidateVersion slot) + 1\<rparr>) (ct_slots t),
         ct_healthStates := update_where (\<lambda>s. hs_slotId s = Some slotId) resetEvidence (ct_healthStates t)\<rparr>) d))"

end
