(* ===== verification/Rotation_Cleanup.thy ===== *)
theory Rotation_Cleanup
  imports Rotation_Publishing
begin

text \<open>
  The cleanup of a rotation (\<open>apps/worker/src/rotation/rotation-cleanup.service.ts\<close>): the addresses that a published rotation left behind
  are released one chain of cloud steps at a time, each under the lease of the machine, and the incident completes when nothing is left.
  What a service adds (\<open>linode-swap-state.ts\<close>, \<open>workflow-policy.ts\<close>) is modelled; the planner of the cleanup steps
  (\<open>planCloudRotationCleanup\<close>), PostgreSQL's comparison of addresses, \<open>isIP\<close>, and whether a row of a table that is not
  modelled refers to an instance or one of its slots are fields of the environment. Rows of a table stand in the order of their insertion. A transaction reads the clock once.
\<close>

record CleanupEnv =
  ce_physicalKey :: physical_key
  ce_isIP :: "string \<Rightarrow> nat"
  ce_sameInet :: "string \<Rightarrow> string \<Rightarrow> bool"
  ce_planCleanup :: "json \<Rightarrow> json \<Rightarrow> (string \<times> json) list \<Rightarrow> CodeError + CloudStep list"
  ce_iso :: "int \<Rightarrow> string"
  ce_referenced :: "string \<Rightarrow> string list \<Rightarrow> bool"

definition noEffectCodes :: "string list" where
  "noEffectCodes = [''permission_denied'', ''quota_exceeded'', ''rate_limited'', ''credentials_expired'', ''invalid_credentials'',
     ''cleanup_not_authorized'', ''remote_identity_changed'', ''resource_ownership_ambiguous'', ''rotation_unsupported'']"

definition prerequisiteCodes :: "string list" where
  "prerequisiteCodes = [''cleanup_grace_pending'', ''cleanup_publication_pending'', ''cleanup_replacement_not_live'', ''cleanup_resource_attached'',
     ''cleanup_current_candidate_retained'', ''cleanup_identity_changed'', ''cleanup_incident_changed'', ''cleanup_plan_ambiguous'',
     ''cleanup_attempt_missing'', ''cleanup_observation_unavailable'', ''original_address_release_not_authorized'', ''authorization_revoked'',
     ''family_disabled'', ''region_excluded'', ''resource_not_found'', ''conflicting_manager'', ''rotation_temporary_instance_not_authorized'',
     ''stop_not_authorized'', ''resource_ownership_ambiguous'', ''remote_identity_changed'', ''cleanup_not_authorized'']"

section \<open>Rows\<close>

definition find_resource :: "string \<Rightarrow> CloudTables \<Rightarrow> RotationResourceRow option" where
  "find_resource i t = select_one (\<lambda>r. re_id r = i) (ct_resources t)"

definition set_resource :: "string \<Rightarrow> (RotationResourceRow \<Rightarrow> RotationResourceRow) \<Rightarrow> CloudTables \<Rightarrow> CloudTables" where
  "set_resource i f t = t\<lparr>ct_resources := update_where (\<lambda>r. re_id r = i) f (ct_resources t)\<rparr>"

definition find_cloud_step :: "string \<Rightarrow> CloudTables \<Rightarrow> RotationStepRow option" where
  "find_cloud_step i t = select_one (\<lambda>s. st_id s = i) (ct_steps t)"

definition set_cloud_step :: "string \<Rightarrow> (RotationStepRow \<Rightarrow> RotationStepRow) \<Rightarrow> CloudTables \<Rightarrow> CloudTables" where
  "set_cloud_step i f t = t\<lparr>ct_steps := update_where (\<lambda>s. st_id s = i) f (ct_steps t)\<rparr>"

definition defer_cleanup :: "string \<Rightarrow> int \<Rightarrow> CloudTables \<Rightarrow> CloudTables" where
  "defer_cleanup i t = set_resource i (\<lambda>r. r\<lparr>re_cleanupDueAt := Some t\<rparr>)"

definition resetting :: "RotationIncidentRow \<Rightarrow> bool" where
  "resetting x = (ri_errorCode x \<in> {Some ''cloud_reset_pending'', Some ''cloud_reset_sync_failed''})"

definition uncertain_step :: "StoredStepStatus \<Rightarrow> bool" where
  "uncertain_step s = (s \<in> {SsInFlight, SsPending, SsAmbiguous})"

section \<open>One resource behind two rows\<close>

definition nullish :: "json \<Rightarrow> json \<Rightarrow> json" where
  "nullish a b = (if a = JUndefined \<or> a = JNull then b else a)"

definition present_text :: "string option \<Rightarrow> bool" where
  "present_text s = (s \<noteq> None \<and> s \<noteq> Some [])"

definition option_json :: "string option \<Rightarrow> json" where
  "option_json s = (case s of Some x \<Rightarrow> JStr x | None \<Rightarrow> JNull)"

text \<open>Only Azure and Linode know the identity of an allocation; the JSON text of the source is injective on the list it prints.\<close>

definition cleanupResourceIdentity :: "json \<Rightarrow> RotationResourceRow \<Rightarrow> json option" where
  "cleanupResourceIdentity slot r = (let snap = re_snapshot r; get = json_get slot;
       guid = nullish (json_get (json_get (json_get snap ''ownership'') ''metadata'') ''resourceGuid'')
         (nullish (json_get (or_object (json_get (json_get (json_get snap ''receipt'') ''after'') ''addressMetadata'')) ''resourceGuid'') JNull) in
     if re_origin r \<noteq> SystemOrigin \<or> \<not> present_text (re_ownershipAttemptId r) \<or> \<not> present_text (re_allocationId r)
        \<or> \<not> present_text (re_resourceId r) then None
     else Some (JArr [or_null (get ''accountId''), or_null (get ''service''), or_null (get ''region''), or_null (get ''instanceId''),
       or_null (get ''interfaceId''), JStr (re_address r), option_json (re_allocationId r), option_json (re_resourceId r),
       option_json (re_ownershipAttemptId r), guid]))"

definition cleanupIdentity :: "RotationResourceRow \<Rightarrow> json option" where
  "cleanupIdentity r = (let slot = json_get (re_snapshot r) ''slot'' in
     if falsy slot then None
     else if json_get slot ''service'' \<in> {JStr ''azure_vm'', JStr ''linode''} then cleanupResourceIdentity slot r else None)"

definition hasCleanupProof :: "(string \<Rightarrow> nat) \<Rightarrow> CloudService \<Rightarrow> RotationResourceRow \<Rightarrow> bool" where
  "hasCleanupProof isIP service r = (service = LinodeCompute
     \<and> linodeTemporaryInstanceProof isIP (json_get (re_snapshot r) ''linodeSwapReceipt'') \<noteq> None)"

definition cleanup_aliases :: "CloudTables \<Rightarrow> RotationResourceRow \<Rightarrow> RotationResourceRow list" where
  "cleanup_aliases t r = filter (\<lambda>x. re_incidentId x = re_incidentId r \<and> cleanupIdentity x = cleanupIdentity r) (ct_resources t)"

definition canonicalResource :: "(string \<Rightarrow> nat) \<Rightarrow> CloudService \<Rightarrow> RotationResourceRow list \<Rightarrow> RotationResourceRow option" where
  "canonicalResource isIP service aliases = (case find (\<lambda>x. present_text (re_cleanupStepId x)) aliases of
     Some x \<Rightarrow> Some x
   | None \<Rightarrow> (case find (hasCleanupProof isIP service) aliases of Some x \<Rightarrow> Some x
       | None \<Rightarrow> (case aliases of [] \<Rightarrow> None | x # _ \<Rightarrow> Some x)))"

definition set_snapshot_entry :: "string \<Rightarrow> json \<Rightarrow> RotationResourceRow \<Rightarrow> json" where
  "set_snapshot_entry k v r = JObj (put_entry k v (case re_snapshot r of JObj es \<Rightarrow> es | _ \<Rightarrow> []))"

definition follow_canonical :: "int \<Rightarrow> RotationResourceRow \<Rightarrow> RotationResourceRow \<Rightarrow> RotationResourceRow" where
  "follow_canonical now canonical r = r\<lparr>re_snapshot := set_snapshot_entry ''cleanupCanonicalResourceId'' (JStr (re_id canonical)) r,
     re_cleanupStatus := re_cleanupStatus canonical, re_cleanupError := re_cleanupError canonical,
     re_cleanupDueAt := Some (max (now + 5000) (case re_cleanupDueAt canonical of Some t \<Rightarrow> t | None \<Rightarrow> 0)),
     re_attached := (if re_cleanupStatus canonical = CuReleased then False else re_attached r),
     re_referenced := (if re_cleanupStatus canonical = CuReleased then False else re_referenced r)\<rparr>"

section \<open>Admission\<close>

record CleanupStart =
  cs_context :: RotationContext
  cs_resource :: RotationResourceRow
  cs_incident :: RotationIncidentRow
  cs_lease :: LeaseHandle
  cs_step :: "RotationStepRow option"

definition foreign_lease :: "RotationContext \<Rightarrow> RotationIncidentRow \<Rightarrow> RotationStepRow option \<Rightarrow> RotationLeaseRow option \<Rightarrow> bool" where
  "foreign_lease c incident step physical = (cx_physicalKey c \<noteq> ri_physicalKey incident
     \<or> (case physical of None \<Rightarrow> False | Some l \<Rightarrow> le_incidentId l \<noteq> None \<and> le_incidentId l \<noteq> Some (ri_incidentId incident)
          \<or> le_unresolvedStepId l \<noteq> None \<and> le_unresolvedStepId l \<noteq> map_option st_id step))"

definition takeMachine ::
  "int \<Rightarrow> string \<Rightarrow> RotationContext \<Rightarrow> RotationResourceRow \<Rightarrow> RotationIncidentRow \<Rightarrow> RotationStepRow option \<Rightarrow> Database \<Rightarrow> Database \<times> CleanupStart option" where
  "takeMachine now holder c r incident step d = (case acquireRotationLease now (cx_physicalKey c) holder (tb_cloud d) of
     (t, None) \<Rightarrow> (set_cloud (\<lambda>_. defer_cleanup (re_id r) (now + 15000) t) d, None)
   | (t, Some lease) \<Rightarrow> if foreign_lease c incident step (verifyRotationLease now lease t)
       then (set_cloud (\<lambda>_. defer_cleanup (re_id r) (now + 15000) (releaseRotationLease now lease t)) d, None)
       else (set_cloud (\<lambda>_. t) d, Some \<lparr>cs_context = c, cs_resource = r, cs_incident = incident, cs_lease = lease, cs_step = step\<rparr>))"

definition startCleanup ::
  "CleanupEnv \<Rightarrow> int \<Rightarrow> string \<Rightarrow> RotationContext \<Rightarrow> RotationResourceRow \<Rightarrow> RotationIncidentRow \<Rightarrow> Database \<Rightarrow> Database \<times> CleanupStart option" where
  "startCleanup env now holder c r incident d = (let step = Option.bind (re_cleanupStepId r) (\<lambda>i. find_cloud_step i (tb_cloud d)) in
     if ri_status incident \<noteq> IncActive \<and> \<not> (case step of Some s \<Rightarrow> uncertain_step (st_status s) | None \<Rightarrow> False)
     then (set_cloud (defer_cleanup (re_id r) (now + 30000)) d, None)
     else if cleanupIdentity r \<noteq> None \<and> \<not> present_text (re_cleanupStepId r)
     then (case canonicalResource (ce_isIP env) (cin_service (cx_instance c)) (cleanup_aliases (tb_cloud d) r) of
         Some canonical \<Rightarrow> if re_id canonical \<noteq> re_id r
           then (set_cloud (set_resource (re_id r) (\<lambda>_. follow_canonical now canonical r)) d, None)
           else takeMachine now holder c r incident step d
       | None \<Rightarrow> takeMachine now holder c r incident step d)
     else takeMachine now holder c r incident step d)"

definition admitCleanup :: "CleanupEnv \<Rightarrow> int \<Rightarrow> string \<Rightarrow> string \<Rightarrow> Database \<Rightarrow> CodeError + Database \<times> CleanupStart option" where
  "admitCleanup env now holder resourceId d = (case find_resource resourceId (tb_cloud d) of
     None \<Rightarrow> Inr (d, None)
   | Some r \<Rightarrow> if re_cleanupStatus r \<notin> {CuPending, CuFailed} then Inr (d, None)
     else (case find_incident d (re_incidentId r) of
       None \<Rightarrow> Inr (d, None)
     | Some incident \<Rightarrow> bindE (lockRotationContext (ce_physicalKey env) (tb_cloud d) (ri_slotId incident)) (\<lambda>c.
         if ri_terminatedAt incident \<noteq> None \<or> resetting incident then Inr (d, None)
         else if (case ri_recoveryRetryAt incident of Some t \<Rightarrow> now < t | None \<Rightarrow> False)
         then Inr (set_cloud (set_resource resourceId (\<lambda>x. x\<lparr>re_cleanupDueAt := ri_recoveryRetryAt incident\<rparr>)) d, None)
         else if ri_status incident = IncPaused \<and> ri_pausedByUserId incident = None \<and> ri_errorCode incident = Some ''cleanup_failed''
         then Inr (scheduleRotationRecovery c incident (case re_cleanupError r of Some e \<Rightarrow> e | None \<Rightarrow> ''cleanup_failed'') now None d, None)
         else Inr (startCleanup env now holder c r incident
           (if ri_status incident = IncActive \<and> ri_recoveryRetryAt incident \<noteq> None
            then set_incident (ri_incidentId incident) (\<lambda>x. x\<lparr>ri_recoveryRetryAt := None\<rparr>) d else d)))))"

section \<open>Eligibility\<close>

definition protected_address :: "(string \<Rightarrow> string \<Rightarrow> bool) \<Rightarrow> ManagedAddressSlotRow \<Rightarrow> string \<Rightarrow> CloudTables \<Rightarrow> bool" where
  "protected_address sameInet slot address t = list_ex (\<lambda>a. (ms_currentAddressId slot = Some (cd_id a) \<or> ms_candidateAddressId slot = Some (cd_id a))
     \<and> sameInet (cd_address a) address) (ct_addresses t)"

definition published_version :: "string \<Rightarrow> int option \<Rightarrow> CloudTables \<Rightarrow> bool" where
  "published_version slotId version t = list_ex (\<lambda>p. pb_slotId p = slotId \<and> Some (pb_addressVersion p) = version \<and> pb_status p = PbApplied) (ct_publications t)"

definition release_authorized :: "RotationContext \<Rightarrow> RotationIncidentRow \<Rightarrow> RotationResourceRow \<Rightarrow> bool" where
  "release_authorized c incident r = (re_origin r = SystemOrigin \<or> ri_releaseOldAddress incident
     \<or> (case cx_authorization c of Some a \<Rightarrow> ia_allowReleaseAddress a | None \<Rightarrow> False))"

definition cleanupEligible ::
  "CleanupEnv \<Rightarrow> int \<Rightarrow> RotationContext \<Rightarrow> RotationIncidentRow \<Rightarrow> RotationResourceRow \<Rightarrow> CloudTables \<Rightarrow> CodeError + unit" where
  "cleanupEligible env now c incident r t =
    bindE (case rotationAuthorizationError c (ri_rotationTrigger incident) of Some e \<Rightarrow> Inl e | None \<Rightarrow> Inr ()) (\<lambda>_.
    bindE (guardE (ri_physicalKey incident = cx_physicalKey c \<and> Some (ri_addressVersion incident) = re_cleanupAddressVersion r) ''cleanup_incident_changed'') (\<lambda>_.
    bindE (guardE (case re_cleanupDueAt r of Some dueAt \<Rightarrow> dueAt \<le> now | None \<Rightarrow> False) ''cleanup_grace_pending'') (\<lambda>_.
    bindE (guardE (release_authorized c incident r) ''original_address_release_not_authorized'') (\<lambda>_.
    bindE (guardE (re_origin r = SystemOrigin \<longrightarrow> present_text (re_ownershipAttemptId r)) ''resource_ownership_ambiguous'') (\<lambda>_.
    bindE (guardE (\<not> protected_address (ce_sameInet env) (cx_slot c) (re_address r) t) ''cleanup_current_candidate_retained'') (\<lambda>_.
    guardE (published_version (ms_id (cx_slot c)) (re_cleanupAddressVersion r) t) ''cleanup_publication_pending''))))))"

text \<open>The address may still be attached only where releasing it is detaching it.\<close>

definition attached_at :: "string \<Rightarrow> LiveInventory \<Rightarrow> (LiveInterface \<times> LiveAddress) option" where
  "attached_at address live = find (\<lambda>(i, a). la_address a = address) (concat (map (\<lambda>i. map (Pair i) (lf_addresses i)) (li_interfaces live)))"

definition cleanupAttachedAddressAllowed :: "SlotRef \<Rightarrow> string \<Rightarrow> string \<Rightarrow> LiveInventory \<Rightarrow> bool" where
  "cleanupAttachedAddressAllowed slot address published live = (case attached_at address live of
     None \<Rightarrow> True
   | Some (i, a) \<Rightarrow> (case sl_service slot of
       Ec2 \<Rightarrow> sl_family slot = V6 \<and> lf_id i = sl_interfaceId slot \<and> \<not> la_primary a
     | LinodeCompute \<Rightarrow> sl_family slot = V4 \<and> lf_id i = sl_interfaceId slot
         \<and> list_ex (\<lambda>b. la_family b = V4 \<and> la_address b = published \<and> la_address b \<noteq> address) (lf_addresses i)
     | _ \<Rightarrow> False))"
section \<open>The plan of a release\<close>

definition family_of :: "SlotRef \<Rightarrow> json" where
  "family_of slot = family_json (sl_family slot)"

definition find_interface :: "json \<Rightarrow> json \<Rightarrow> json option" where
  "find_interface inventory interfaceId = find (\<lambda>i. json_same (json_get i ''id'') interfaceId) (json_items (json_get inventory ''interfaces''))"

definition find_address :: "json \<Rightarrow> string \<Rightarrow> json \<Rightarrow> json option" where
  "find_address iface address family = find (\<lambda>a. json_get a ''address'' = JStr address \<and> json_same (json_get a ''family'') family) (json_items (json_get iface ''addresses''))"

fun set_addresses :: "json \<Rightarrow> json list \<Rightarrow> json \<Rightarrow> json" where
  "set_addresses interfaceId addresses (JObj es) = (if json_same (json_get (JObj es) ''id'') interfaceId
     then JObj (put_entry ''addresses'' (JArr addresses) es) else JObj es)"
| "set_addresses interfaceId addresses v = v"

fun first_only :: "('a \<Rightarrow> bool) \<Rightarrow> ('a \<Rightarrow> 'a) \<Rightarrow> 'a list \<Rightarrow> 'a list" where
  "first_only P f [] = []"
| "first_only P f (x # xs) = (if P x then f x # xs else x # first_only P f xs)"

definition with_addresses :: "json \<Rightarrow> json \<Rightarrow> json list \<Rightarrow> json" where
  "with_addresses inventory interfaceId addresses = (case inventory of
     JObj es \<Rightarrow> JObj (put_entry ''interfaces'' (JArr (first_only (\<lambda>i. json_same (json_get i ''id'') interfaceId) (set_addresses interfaceId addresses)
        (json_items (json_get inventory ''interfaces'')))) es)
   | _ \<Rightarrow> inventory)"

definition entries_of :: "json \<Rightarrow> (string \<times> json) list" where
  "entries_of v = (case v of JObj es \<Rightarrow> es | _ \<Rightarrow> [])"

definition is_object :: "json \<Rightarrow> bool" where
  "is_object v = (case v of JObj _ \<Rightarrow> True | JArr _ \<Rightarrow> True | _ \<Rightarrow> False)"

definition optional_entry :: "string \<Rightarrow> string option \<Rightarrow> (string \<times> json) list" where
  "optional_entry k v = (if present_text v then [(k, option_json v)] else [])"

text \<open>The candidate as the inventory before the rotation would have shown it. AWS inherits the fields of the address it replaced,
  Linode keeps the other addresses of the family.\<close>

definition reconstructCleanupCandidate :: "CloudService \<Rightarrow> Family \<Rightarrow> json list \<Rightarrow> RotationResourceRow \<Rightarrow> json \<Rightarrow> json list" where
  "reconstructCleanupCandidate service family addresses r receipt =
    (let same_family = (\<lambda>a. json_same (json_get a ''family'') (family_json family)); after = json_get receipt ''after'';
         previous = (if service \<in> {Ec2, Lightsail} then (case find same_family addresses of Some a \<Rightarrow> entries_of a | None \<Rightarrow> []) else []);
         metadata = json_get after ''addressMetadata'' in
     filter (\<lambda>a. if service = LinodeCompute then json_get a ''address'' \<noteq> JStr (re_address r) else \<not> same_family a) addresses
     @ [JObj (put_entries ((if is_object metadata then [(''metadata'', metadata)] else [])
         @ (case json_get after ''privateAddress'' of JStr p \<Rightarrow> [(''privateAddress'', JStr p)] | _ \<Rightarrow> [])
         @ [(''address'', JStr (re_address r)), (''family'', family_json family), (''primary'', JBool (family = V4))]
         @ optional_entry ''allocationId'' (re_allocationId r) @ optional_entry ''resourceId'' (re_resourceId r)) previous)])"

definition cleanupNeedsOwnershipSnapshot :: "CloudService \<Rightarrow> CloudAddressOrigin \<Rightarrow> bool" where
  "cleanupNeedsOwnershipSnapshot service origin = (service \<in> {AzureVm, LinodeCompute} \<or> origin = UserOrigin)"

definition steps_of_attempt :: "CloudTables \<Rightarrow> string \<Rightarrow> RotationStepRow list" where
  "steps_of_attempt t i = js_sort (\<lambda>a b. st_sequence a - st_sequence b) (filter (\<lambda>s. st_attemptId s = i) (ct_steps t))"

definition allocationReceipt :: "CloudTables \<Rightarrow> string option \<Rightarrow> string \<Rightarrow> (string \<times> json) list option" where
  "allocationReceipt t attemptId address = (if \<not> present_text attemptId then None
     else Option.bind (find (\<lambda>s. st_status s = SsApplied \<and> rotation_step s \<and> ends_with (pl_action (st_plan s)) ''.allocate''
         \<and> json_get (receipt_json (st_receipt s)) ''candidateAddress'' = JStr address) (steps_of_attempt t (the attemptId))) st_receipt)"

definition persistedCleanupOptions :: "RotationContext \<Rightarrow> CloudStep option \<Rightarrow> CodeError + (string \<times> json) list" where
  "persistedCleanupOptions c plan = (case cx_authorization c of
     None \<Rightarrow> Inl ''type_error''
   | Some a \<Rightarrow> (let get = (\<lambda>k. case plan of Some p \<Rightarrow> plan_arg p k | None \<Rightarrow> JUndefined) in
       Inr [(''allowStop'', JBool (ia_allowStopStart a)),
         (''linodeRestartMode'', JStr (if get ''linodeRestartMode'' = JStr ''stop_start'' then ''stop_start'' else ''reboot'')),
         (''linodeSwapPlan'', (case get ''linodeSwapPlan'' of JStr p \<Rightarrow> JStr p | _ \<Rightarrow> JStr ''g6-nanode-1'')),
         (''allowTemporaryInstance'', JBool (case cx_policy c of Some p \<Rightarrow> rp_linodeAllowTemporaryInstance p | None \<Rightarrow> False))]))"

definition slot_matches :: "RotationContext \<Rightarrow> CloudInterfaceRow \<Rightarrow> json \<Rightarrow> bool" where
  "slot_matches c iface slot = (\<not> falsy slot \<and> json_get slot ''accountId'' = JStr (ca_id (cx_account c))
     \<and> json_get slot ''instanceId'' = JStr (cin_externalId (cx_instance c)) \<and> json_get slot ''interfaceId'' = JStr (cif_externalId iface)
     \<and> json_get slot ''region'' = JStr (cin_region (cx_instance c)) \<and> json_get slot ''service'' = JStr (service_text (cin_service (cx_instance c)))
     \<and> json_get slot ''slotId'' = JStr (ms_id (cx_slot c)))"

definition slot_at :: "json \<Rightarrow> string \<Rightarrow> json" where
  "slot_at slot address = JObj (put_entry ''address'' (JStr address) (entries_of slot))"

definition ownership_entry :: "json \<Rightarrow> RotationResourceRow \<Rightarrow> string \<times> json" where
  "ownership_entry slot r = (''ownershipSnapshot'', JObj ([(''accountId'', json_get slot ''accountId''), (''instanceId'', json_get slot ''instanceId''),
     (''interfaceId'', json_get slot ''interfaceId''), (''allocationId'', option_json (re_allocationId r)), (''address'', JStr (re_address r))]
     @ optional_entry ''resourceId'' (re_resourceId r)))"

text \<open>A swapped Linode address is released by deleting the temporary instance that now holds it.\<close>

definition swapCleanupPlan ::
  "CleanupEnv \<Rightarrow> RotationResourceRow \<Rightarrow> json \<Rightarrow> json \<Rightarrow> (string \<times> json) list \<Rightarrow> (CodeError + CloudStep list) option" where
  "swapCleanupPlan env r slot before options = (let swapReceipt = json_get (re_snapshot r) ''linodeSwapReceipt'' in
     if falsy swapReceipt then None
     else Some (case linodeTemporaryInstanceProof (ce_isIP env) swapReceipt of
       None \<Rightarrow> Inl ''cleanup_identity_changed''
     | Some proof \<Rightarrow>
        bindE (guardE (re_role r = OriginalRole \<and> tp_originalAddress proof = re_address r \<and> tp_attemptId proof = re_attemptId r
          \<and> json_get (json_get swapReceipt ''after'') ''swapVerified'' = JBool True) ''cleanup_identity_changed'') (\<lambda>_.
        case Option.bind (find_interface before (json_get slot ''interfaceId'')) (\<lambda>i. find_address i (re_address r) (json_get slot ''family'')) of
          None \<Rightarrow> Inl ''resource_ownership_ambiguous''
        | Some original \<Rightarrow>
            bindE (guardE (present_text (re_allocationId r) \<and> json_get original ''allocationId'' = option_json (re_allocationId r)
              \<and> (case re_resourceId r of Some x \<Rightarrow> json_get original ''resourceId'' = JStr x | None \<Rightarrow> json_get original ''resourceId'' = JNull))
              ''resource_ownership_ambiguous'') (\<lambda>_.
            ce_planCleanup env (slot_at slot (re_address r)) before (put_entries [(''linodeIpv4Strategy'', JStr ''instance_swap''),
              (''linodeSwapReceipt'', swapReceipt), ownership_entry slot r] options)))))"

definition receipt_entry :: "string \<Rightarrow> (string \<times> json) list option \<Rightarrow> (string \<times> json) list" where
  "receipt_entry k receipt = (case receipt of Some es \<Rightarrow> [(k, JObj es)] | None \<Rightarrow> [])"

text \<open>The address as the saved inventory knows it: a candidate is put back into it from its receipt.\<close>

definition cleanupTarget ::
  "CloudService \<Rightarrow> Family \<Rightarrow> RotationResourceRow \<Rightarrow> json \<Rightarrow> json \<Rightarrow> (string \<times> json) list option \<Rightarrow> CodeError + json" where
  "cleanupTarget service family r slot before cleanupReceipt = (case find_interface before (json_get slot ''interfaceId'') of
     None \<Rightarrow> Inl ''cleanup_identity_changed''
   | Some iface \<Rightarrow>
      bindE (if re_role r \<noteq> CandidateRole then Inr (json_items (json_get iface ''addresses''))
        else (let receipt = (case cleanupReceipt of Some es \<Rightarrow> JObj es | None \<Rightarrow> json_get (re_snapshot r) ''receipt'') in
          bindE (guardE (json_get receipt ''candidateAddress'' = JStr (re_address r)
            \<and> (present_text (re_allocationId r) \<longrightarrow> json_get receipt ''allocationId'' = option_json (re_allocationId r))
            \<and> (present_text (re_resourceId r) \<longrightarrow> json_get receipt ''resourceId'' = option_json (re_resourceId r))) ''resource_ownership_ambiguous'') (\<lambda>_.
          Inr (reconstructCleanupCandidate service family (json_items (json_get iface ''addresses'')) r receipt)))) (\<lambda>addresses.
      case find_address (JObj [(''addresses'', JArr addresses)]) (re_address r) (json_get slot ''family'') of
        None \<Rightarrow> Inl ''resource_ownership_ambiguous''
      | Some original \<Rightarrow>
          bindE (guardE ((case re_allocationId r of Some a \<Rightarrow> json_get original ''allocationId'' = JStr a | None \<Rightarrow> json_get original ''allocationId'' = JUndefined)
            \<and> (present_text (re_resourceId r) \<longrightarrow> json_get original ''resourceId'' = option_json (re_resourceId r))) ''resource_ownership_ambiguous'') (\<lambda>_.
          Inr (with_addresses before (json_get slot ''interfaceId'') addresses))))"

definition planCleanup :: "CleanupEnv \<Rightarrow> RotationContext \<Rightarrow> RotationResourceRow \<Rightarrow> json \<Rightarrow> CloudTables \<Rightarrow> CodeError + CloudStep list" where
  "planCleanup env c r live t = (case select_one (\<lambda>a. ra_id a = re_attemptId r) (ct_attempts t) of
     None \<Rightarrow> Inl ''cleanup_attempt_missing''
   | Some attempt \<Rightarrow>
      bindE (persistedCleanupOptions c (case steps_of_attempt t (re_attemptId r) of [] \<Rightarrow> None | s # _ \<Rightarrow> Some (st_plan s))) (\<lambda>options.
      (case (cx_iface c, cx_address c) of
        (Some iface, Some address) \<Rightarrow>
          (let slot = json_get (re_snapshot r) ''slot''; before = nullish (json_get (re_snapshot r) ''inventory'') (ra_beforeInventory attempt);
               service = cin_service (cx_instance c); family = ms_family (cx_slot c);
               base = put_entries [(''attemptId'', JStr (re_attemptId r)), (''releaseAuthorized'', JBool True), (''publishedAddress'', JStr (cd_address address)),
                 (''publishedInventory'', live)] options in
           bindE (guardE (slot_matches c iface slot) ''cleanup_identity_changed'') (\<lambda>_.
           (case (if service = LinodeCompute then swapCleanupPlan env r slot before base else None) of
             Some plan \<Rightarrow> plan
           | None \<Rightarrow> (let cleanupReceipt = allocationReceipt t (re_ownershipAttemptId r) (re_address r);
                 publishedReceipt = allocationReceipt t (cd_attemptId address) (cd_address address) in
               bindE (cleanupTarget service family r slot before cleanupReceipt) (\<lambda>before'.
               ce_planCleanup env (slot_at slot (re_address r)) before'
                 ([(''attemptId'', JStr (re_attemptId r)), (''releaseAuthorized'', JBool True), (''publishedAddress'', JStr (cd_address address))]
                  @ filter (\<lambda>(k, _). k = ''allowStop'' \<or> k = ''linodeRestartMode'') options @ [(''publishedInventory'', live)]
                  @ (case publishedReceipt of Some es \<Rightarrow> [(''publishedReceipt'', JObj es), (''publishedAttemptId'', option_json (cd_attemptId address))] | None \<Rightarrow> [])
                  @ receipt_entry ''cleanupReceipt'' cleanupReceipt @ optional_entry ''ownershipAttemptId'' (re_ownershipAttemptId r)
                  @ (if cleanupNeedsOwnershipSnapshot service (re_origin r) \<and> present_text (re_allocationId r) then [ownership_entry slot r] else [])))))))
      | _ \<Rightarrow> Inl ''type_error'')))"

section \<open>The chain of a resource\<close>

definition json_text :: "json \<Rightarrow> string option" where
  "json_text v = (case v of JStr s \<Rightarrow> Some s | _ \<Rightarrow> None)"

definition chain_ids :: "RotationResourceRow \<Rightarrow> CodeError + string list" where
  "chain_ids r = (let saved = json_get (re_snapshot r) ''cleanupStepIds'';
       items = (if saved = JUndefined \<or> saved = JNull then (case re_cleanupStepId r of Some i \<Rightarrow> if i = [] then [] else [JStr i] | None \<Rightarrow> [])
         else json_items saved);
       ids = List.map_filter json_text items in
     bindE (guardE (items \<noteq> [] \<and> length ids = length items \<and> distinct ids \<and> (case re_cleanupStepId r of Some i \<Rightarrow> i \<in> set ids | None \<Rightarrow> False))
       ''cleanup_plan_ambiguous'') (\<lambda>_. Inr ids))"

definition chain_step_ok :: "RotationResourceRow \<Rightarrow> string \<times> RotationStepRow \<Rightarrow> bool" where
  "chain_step_ok r = (\<lambda>(i, s). let owner = plan_arg (st_plan s) ''cleanupResourceId''; saved = json_get (re_snapshot r) ''cleanupStepIds'' in
     st_id s = i \<and> st_attemptId s = re_attemptId r \<and> plan_arg (st_plan s) ''phase'' = JStr ''post_publish_cleanup''
     \<and> (owner = JStr (re_id r) \<or> saved = JUndefined \<and> owner = JUndefined) \<and> pl_id (st_plan s) = st_id s)"

definition cleanupChain :: "CloudTables \<Rightarrow> RotationResourceRow \<Rightarrow> bool \<Rightarrow> CodeError + RotationStepRow list" where
  "cleanupChain t r recordingReceipt = bindE (chain_ids r) (\<lambda>ids.
     let steps = js_sort (\<lambda>a b. st_sequence a - st_sequence b) (filter (\<lambda>s. st_id s \<in> set ids) (ct_steps t));
         pointer = length (takeWhile (\<lambda>i. Some i \<noteq> re_cleanupStepId r) ids) in
     bindE (guardE (length steps = length ids \<and> list_all (chain_step_ok r) (zip ids steps)
       \<and> list_all (\<lambda>s. st_status s = SsApplied \<or> recordingReceipt \<and> st_status s = SsAmbiguous) (take pointer steps)
       \<and> list_all (\<lambda>s. st_status s = SsPrepared) (drop (pointer + 1) steps)) ''cleanup_plan_ambiguous'') (\<lambda>_. Inr steps))"
section \<open>Dispatch\<close>

definition chain_started :: "RotationResourceRow \<Rightarrow> bool" where
  "chain_started r = (present_text (re_cleanupStepId r) \<and> 1 < length (json_items (json_get (re_snapshot r) ''cleanupStepIds'')))"

definition other_chain_open :: "RotationResourceRow \<Rightarrow> CloudTables \<Rightarrow> bool" where
  "other_chain_open r t = list_ex (\<lambda>x. re_incidentId x = re_incidentId r \<and> re_id x \<noteq> re_id r \<and> re_cleanupStatus x \<in> {CuPending, CuFailed}
     \<and> chain_started x) (ct_resources t)"

definition cleanup_step_id :: "string \<Rightarrow> nat \<Rightarrow> string" where
  "cleanup_step_id resourceId n = ''cleanup:'' @ resourceId @ (if n = 0 then [] else '':'' @ int_text (int n))"

definition cleanup_step_row :: "RotationResourceRow \<Rightarrow> int \<Rightarrow> nat \<times> CloudStep \<Rightarrow> RotationStepRow" where
  "cleanup_step_row r lastSequence = (\<lambda>(n, plan). \<lparr>st_id = cleanup_step_id (re_id r) n, st_attemptId = re_attemptId r,
     st_sequence = lastSequence + int n + 1,
     st_plan = plan\<lparr>pl_id := cleanup_step_id (re_id r) n, pl_arguments := put_entry ''cleanupResourceId'' (JStr (re_id r)) (pl_arguments plan)\<rparr>,
     st_status = SsPrepared, st_fence = None, st_dispatchedAt = None, st_observeDeadline = None, st_receipt = None, st_errorCode = None,
     st_retryAt = None\<rparr>)"

text \<open>The plan of a resource is stored once; a resource that has one goes on with the step it points at.\<close>

definition storeChain :: "RotationResourceRow \<Rightarrow> CloudStep list \<Rightarrow> CloudTables \<Rightarrow> CodeError + CloudTables \<times> RotationResourceRow" where
  "storeChain r plans t = (let ids = map (cleanup_step_id (re_id r)) [0..<length plans];
       lastSequence = foldl max 0 (map st_sequence (filter (\<lambda>s. st_attemptId s = re_attemptId r) (ct_steps t)));
       snap = set_snapshot_entry ''cleanupStepIds'' (JArr (map JStr ids)) r;
       store = (\<lambda>x. x\<lparr>re_snapshot := snap, re_cleanupStepId := Some (hd ids)\<rparr>) in
     bindE (guardE (plans \<noteq> []) ''cleanup_plan_ambiguous'') (\<lambda>_.
     bindE (guardE (list_all (\<lambda>i. find_cloud_step i t = None) ids) ''unique_violation'') (\<lambda>_.
     Inr (set_resource (re_id r) store (t\<lparr>ct_steps := ct_steps t @ map (cleanup_step_row r lastSequence) (List.enumerate 0 plans)\<rparr>), store r))))"

definition cleanup_prior :: "RotationStepRow list \<Rightarrow> RotationStepRow list \<Rightarrow> RotationStepRow list" where
  "cleanup_prior chain steps = filter (\<lambda>s. st_status s = SsApplied \<and> (rotation_step s \<or> list_ex (\<lambda>m. st_id m = st_id s) chain)) steps"

definition cleanup_allocation :: "RotationStepRow list \<Rightarrow> RotationStepRow option" where
  "cleanup_allocation prior = last_of (filter (\<lambda>s. rotation_step s \<and> ends_with (pl_action (st_plan s)) ''.allocate'') prior)"

definition cleanup_input :: "RotationContext \<Rightarrow> RotationStepRow \<Rightarrow> CloudRotationWriteInput" where
  "cleanup_input c step = \<lparr>wi_accountId = ca_id (cx_account c), wi_service = cin_service (cx_instance c), wi_region = cin_region (cx_instance c),
     wi_stepId = st_id step, wi_action = pl_action (st_plan step), wi_idleCleanupId = None, wi_remainingSteps = []\<rparr>"

definition refuse_cleanup :: "int \<Rightarrow> string \<Rightarrow> string \<Rightarrow> int \<Rightarrow> CloudTables \<Rightarrow> CloudTables" where
  "refuse_cleanup now incidentId resourceId retryAt t =
    (set_resource resourceId (\<lambda>r. r\<lparr>re_cleanupStatus := CuPending, re_cleanupError := Some ''rotation_rate_limited'', re_cleanupDueAt := Some retryAt\<rparr>) t)
      \<lparr>ct_incidents := update_where (\<lambda>x. ri_incidentId x = incidentId \<and> ri_phase x = CleanupPhase)
         (\<lambda>x. x\<lparr>ri_errorCode := Some ''rotation_rate_limited'', ri_nextRunAt := retryAt, ri_updatedAt := now\<rparr>) (ct_incidents t)\<rparr>"

definition cleanup_rows ::
  "int \<Rightarrow> RotationContext \<Rightarrow> string \<Rightarrow> RotationResourceRow \<Rightarrow> LeaseHandle \<Rightarrow> string \<Rightarrow> CloudStep \<Rightarrow> string option \<Rightarrow> CloudTables \<Rightarrow> CloudTables" where
  "cleanup_rows now c incidentId r lease stepId plan companion t = t\<lparr>
     ct_steps := update_where (\<lambda>s. st_id s = stepId) (\<lambda>s. s\<lparr>st_plan := plan, st_status := SsInFlight, st_fence := Some (lh_revision lease),
       st_dispatchedAt := Some now, st_observeDeadline := Some (now + policy_value c rp_cloudWaitSeconds 120 * 1000), st_receipt := None,
       st_errorCode := None\<rparr>) (ct_steps t),
     ct_resources := update_where (\<lambda>x. re_id x = re_id r) (\<lambda>x. x\<lparr>re_cleanupStepId := Some stepId, re_cleanupStatus := CuPending,
       re_cleanupError := None\<rparr>) (ct_resources t),
     ct_leases := update_where (\<lambda>l. companion = Some (le_physicalKey l) \<and> le_incidentId l = Some incidentId) (\<lambda>l. l\<lparr>le_unresolvedStepId := Some stepId\<rparr>)
       (update_where (\<lambda>l. le_physicalKey l = lh_physicalKey lease) (\<lambda>l. l\<lparr>le_incidentId := Some (re_incidentId r), le_unresolvedStepId := Some stepId\<rparr>)
         (ct_leases t)),
     ct_incidents := update_where (\<lambda>x. ri_incidentId x = incidentId \<and> ri_errorCode x = Some ''rotation_rate_limited'' \<and> ri_phase x = CleanupPhase)
       (\<lambda>x. x\<lparr>ri_errorCode := None, ri_updatedAt := now\<rparr>) (ct_incidents t)\<rparr>"

definition send_cleanup ::
  "CleanupEnv \<Rightarrow> int \<Rightarrow> RotationContext \<Rightarrow> RotationIncidentRow \<Rightarrow> LeaseHandle \<Rightarrow> RotationResourceRow \<Rightarrow> CloudTables \<Rightarrow> CodeError + CloudTables \<times> CloudStep option" where
  "send_cleanup env now c incident lease r t = bindE (cleanupChain t r False) (\<lambda>chain.
     case find (\<lambda>s. Some (st_id s) = re_cleanupStepId r) chain of
       None \<Rightarrow> Inr (t, None)
     | Some persisted \<Rightarrow> if st_status persisted \<notin> {SsPrepared, SsNotApplied, SsRejected} then Inr (t, None)
       else bindE (authorizeStep (ce_physicalKey env) (ce_isIP env) c (ri_incidentId incident) (st_plan persisted) JUndefined now t) (\<lambda>companion.
         let prior = cleanup_prior chain (steps_of_attempt t (re_attemptId r)) in
         bindE (persistedRotationOptions c) (\<lambda>permissions.
         let plan = dispatched_plan (st_plan persisted) prior (cleanup_allocation prior) permissions in
         bindE (reserveCloudRotationWrite now (cleanup_input c persisted) t) (\<lambda>(t1, admission). case admission of
           WriteDenied ruleId retryAt \<Rightarrow> Inr (refuse_cleanup now (ri_incidentId incident) (re_id r) retryAt t1, None)
         | WriteAllowed \<Rightarrow> Inr (cleanup_rows now c (ri_incidentId incident) r lease (st_id persisted) plan companion t1,
             Some (plan\<lparr>pl_id := st_id persisted\<rparr>))))))"

text \<open>An inventory as the adapters return it.\<close>

definition defined_entries :: "(string \<times> json) list \<Rightarrow> (string \<times> json) list" where
  "defined_entries es = filter (\<lambda>(_, v). v \<noteq> JUndefined) es"

definition inventory_json :: "LiveInventory \<Rightarrow> json" where
  "inventory_json live = JObj ([(''ref'', JObj [(''accountId'', JStr (li_accountId live)), (''service'', JStr (service_text (li_service live))),
       (''region'', JStr (li_region live)), (''instanceId'', JStr (li_instanceId live))])]
     @ defined_entries [(''nativeName'', li_nativeName live), (''name'', JStr (li_name live)), (''state'', JStr (li_state live)),
         (''ipv6Only'', li_ipv6Only live), (''metadata'', li_metadata live)]
     @ [(''interfaces'', JArr (map (\<lambda>i. JObj (defined_entries [(''id'', JStr (lf_id i)), (''deviceIndex'', lf_deviceIndex i), (''metadata'', lf_metadata i),
         (''addresses'', JArr (map (\<lambda>a. JObj (defined_entries [(''address'', JStr (la_address a)), (''family'', family_json (la_family a)),
            (''primary'', JBool (la_primary a)), (''allocationId'', la_allocationId a), (''privateAddress'', la_privateAddress a),
            (''resourceId'', la_resourceId a), (''prefixLength'', la_prefixLength a), (''metadata'', la_metadata a)])) (lf_addresses i)))])) (li_interfaces live)))])"

definition lease_refused :: "string \<Rightarrow> RotationLeaseRow option \<Rightarrow> bool" where
  "lease_refused incidentId physical = (case physical of None \<Rightarrow> True
     | Some l \<Rightarrow> le_unresolvedStepId l \<noteq> None \<or> le_incidentId l \<noteq> None \<and> le_incidentId l \<noteq> Some incidentId)"

definition released_where_published :: "RotationContext \<Rightarrow> RotationResourceRow \<Rightarrow> LiveInventory \<Rightarrow> CodeError + unit" where
  "released_where_published c r live = (case (cx_iface c, cx_address c) of
     (Some iface, Some address) \<Rightarrow>
       guardE (cleanupAttachedAddressAllowed (slot_ref c iface address) (re_address r) (cd_address address) live) ''cleanup_resource_attached''
   | _ \<Rightarrow> Inl ''type_error'')"

definition dispatch_allowed ::
  "CleanupEnv \<Rightarrow> int \<Rightarrow> RotationContext \<Rightarrow> RotationContext \<Rightarrow> RotationIncidentRow \<Rightarrow> RotationResourceRow \<Rightarrow> LiveInventory \<Rightarrow> CloudTables \<Rightarrow> CodeError + unit" where
  "dispatch_allowed env now c current incident r live t =
    bindE (guardE (ca_credentialCiphertext (cx_account current) = ca_credentialCiphertext (cx_account c) \<and> cx_physicalKey current = cx_physicalKey c)
      ''cleanup_identity_changed'') (\<lambda>_.
    bindE (cleanupEligible env now current incident r t) (\<lambda>_.
    bindE (guardE (livePublicationMatches current live) ''cleanup_replacement_not_live'') (\<lambda>_.
    released_where_published current r live)))"

definition dispatchCleanup ::
  "CleanupEnv \<Rightarrow> int \<Rightarrow> CleanupStart \<Rightarrow> LiveInventory \<Rightarrow> Database \<Rightarrow> CodeError + Database \<times> CloudStep option" where
  "dispatchCleanup env now start live d = (let c = cs_context start; lease = cs_lease start; t = tb_cloud d in
     bindE (lockRotationContext (ce_physicalKey env) t (ms_id (cx_slot c))) (\<lambda>current.
     case find_incident d (re_incidentId (cs_resource start)) of
       None \<Rightarrow> Inr (d, None)
     | Some incident \<Rightarrow>
        if ri_pausedByUserId incident \<noteq> None \<or> ri_status incident \<noteq> IncActive then Inr (d, None)
        else if lease_refused (ri_incidentId incident) (verifyRotationLease now lease t) then Inr (d, None)
        else (case find_resource (re_id (cs_resource start)) t of
          None \<Rightarrow> Inr (d, None)
        | Some r \<Rightarrow> bindE (dispatch_allowed env now c current incident r live t) (\<lambda>_.
            if other_chain_open r t then Inr (d, None)
            else bindE (if present_text (re_cleanupStepId r) then Inr (t, r)
                else bindE (planCleanup env current r (inventory_json live) t) (\<lambda>plans. storeChain r plans t)) (\<lambda>(t1, r1).
              bindE (send_cleanup env now current incident lease r1 t1) (\<lambda>(t2, sent). Inr (set_cloud (\<lambda>_. t2) d, sent)))))))"

section \<open>Retries\<close>

definition retryCleanup ::
  "RotationContext \<Rightarrow> RotationIncidentRow \<Rightarrow> string \<Rightarrow> string \<Rightarrow> int \<Rightarrow> number option \<Rightarrow> Database \<Rightarrow> Database" where
  "retryCleanup c incident resourceId code now retryAfterMs d =
    (let d1 = scheduleRotationRecovery c incident code now (positive_delay now retryAfterMs) d;
         retryAt = Option.bind (find_incident d1 (ri_incidentId incident)) ri_recoveryRetryAt;
         dueAt = (case retryAt of Some t \<Rightarrow> t | None \<Rightarrow> now + 30000);
         pending = Option.bind (find_resource resourceId (tb_cloud d1)) (\<lambda>r. if re_cleanupStatus r = CuReleased then None else re_cleanupStepId r);
         d2 = set_cloud (\<lambda>t. t\<lparr>ct_resources := update_where (\<lambda>r. re_id r = resourceId \<and> re_cleanupStatus r \<noteq> CuReleased)
           (\<lambda>r. r\<lparr>re_cleanupStatus := CuFailed, re_cleanupError := Some code, re_cleanupDueAt := Some dueAt\<rparr>) (ct_resources t)\<rparr>) d1
     in if present_text pending \<and> retryAt \<noteq> None
        then set_cloud (\<lambda>t. t\<lparr>ct_steps := update_where (\<lambda>s. Some (st_id s) = pending \<and> (st_status s = SsInFlight \<or> st_status s = SsPending))
          (\<lambda>s. s\<lparr>st_observeDeadline := Some (dueAt + policy_value c rp_cloudWaitSeconds 120 * 1000)\<rparr>) (ct_steps t)\<rparr>) d2
        else d2)"

definition waitForLifecycle :: "CleanupEnv \<Rightarrow> int \<Rightarrow> RotationResourceRow \<Rightarrow> string \<Rightarrow> Database \<Rightarrow> CodeError + Database" where
  "waitForLifecycle env now r slotId d = bindE (lockRotationContext (ce_physicalKey env) (tb_cloud d) slotId) (\<lambda>c.
     case find_incident d (re_incidentId r) of
       None \<Rightarrow> Inr d
     | Some incident \<Rightarrow> if \<not> cx_lifecycleBlocked c \<or> ri_terminatedAt incident \<noteq> None \<or> ri_status incident = IncComplete then Inr d
         else Inr (set_cloud (\<lambda>t. t\<lparr>ct_resources := update_where (\<lambda>x. re_id x = re_id r \<and> re_cleanupStatus x \<in> {CuPending, CuFailed})
           (\<lambda>x. x\<lparr>re_cleanupStatus := CuPending, re_cleanupError := Some ''instance_lifecycle_busy'',
             re_cleanupDueAt := Some (max (case re_cleanupDueAt x of Some t \<Rightarrow> t | None \<Rightarrow> now) (now + 30000))\<rparr>) (ct_resources t)\<rparr>) d))"

definition rejectNoEffect ::
  "CleanupEnv \<Rightarrow> int \<Rightarrow> RotationResourceRow \<Rightarrow> string \<Rightarrow> string \<Rightarrow> number option \<Rightarrow> int option option \<Rightarrow> Database \<Rightarrow> CodeError + Database" where
  "rejectNoEffect env now r stepId code retryAfterMs fence d = (case find_incident d (re_incidentId r) of
     None \<Rightarrow> Inr d
   | Some i \<Rightarrow> bindE (lockRotationContext (ce_physicalKey env) (tb_cloud d) (ri_slotId i)) (\<lambda>c.
       if ri_terminatedAt i \<noteq> None \<or> resetting i then Inr d
       else (case find_cloud_step stepId (tb_cloud d) of
         None \<Rightarrow> Inr d
       | Some step \<Rightarrow> if st_status step \<noteq> SsInFlight \<or> (case fence of Some f \<Rightarrow> st_fence step \<noteq> f | None \<Rightarrow> False) then Inr d
         else bindE (if code \<noteq> ''rate_limited'' then Inr d
             else bindE (recordCloudRotationThrottle now (ca_id (cx_account c)) (cin_service (cx_instance c)) (pl_action (st_plan step)) retryAfterMs
                 (tb_cloud d)) (\<lambda>(t, retryAt).
               let d1 = scheduleRotationRecovery c i code now (Some retryAt) (set_cloud (\<lambda>_. t) d); updated = find_incident d1 (ri_incidentId i) in
               Inr (set_cloud (set_resource (re_id r) (\<lambda>x. x\<lparr>
                 re_cleanupStatus := (if map_option ri_status updated = Some IncExhausted then CuFailed else CuPending),
                 re_cleanupError := Some ''rotation_rate_limited'',
                 re_cleanupDueAt := Some (case Option.bind updated ri_recoveryRetryAt of Some t \<Rightarrow> t | None \<Rightarrow> retryAt)\<rparr>)) d1))) (\<lambda>d1.
           Inr (set_cloud (clear_unresolved (ri_incidentId i) stepId \<circ>
             (\<lambda>t. t\<lparr>ct_steps := update_where (\<lambda>s. st_id s = stepId \<and> st_status s = SsInFlight)
               (\<lambda>s. s\<lparr>st_status := SsRejected, st_errorCode := Some code\<rparr>) (ct_steps t)\<rparr>)) d1)))))"

definition failure_code :: "run_error \<Rightarrow> string" where
  "failure_code e = (case e of CallTimeout \<Rightarrow> ''rotation_call_timeout'' | CloudFault code _ \<Rightarrow> code | OtherError message \<Rightarrow> take 80 message)"

text \<open>What the handler of a failed run records; \<open>execution\<close> is the step that was sent, if any, and its fence.\<close>

definition stale_failure :: "(string \<times> int option option) option \<Rightarrow> CloudTables \<Rightarrow> bool" where
  "stale_failure execution t = (case execution of None \<Rightarrow> False
     | Some (stepId, fence) \<Rightarrow> (case find_cloud_step stepId t of None \<Rightarrow> True
         | Some s \<Rightarrow> st_status s = SsApplied \<or> (case fence of Some f \<Rightarrow> st_fence s \<noteq> f | None \<Rightarrow> False)))"

definition cleanupFailed ::
  "CleanupEnv \<Rightarrow> int \<Rightarrow> CleanupStart \<Rightarrow> (string \<times> int option option) option \<Rightarrow> run_error \<Rightarrow> Database \<Rightarrow> CodeError + Database" where
  "cleanupFailed env now start execution e d = (let r = cs_resource start; slotId = ms_id (cx_slot (cs_context start)); code = failure_code e in
     if code = ''cleanup_grace_pending'' then Inr d
     else if code = ''instance_lifecycle_busy'' then waitForLifecycle env now r slotId d
     else bindE (lockRotationContext (ce_physicalKey env) (tb_cloud d) slotId) (\<lambda>current.
       case find_incident d (re_incidentId r) of
         None \<Rightarrow> Inr d
       | Some incident \<Rightarrow>
          if ri_terminatedAt incident \<noteq> None \<or> stale_failure execution (tb_cloud d) then Inr d
          else (let failing = (\<lambda>x. re_id x = re_id r \<and> re_cleanupStatus x \<noteq> CuReleased);
              dueAt = max (case re_cleanupDueAt r of Some t \<Rightarrow> t | None \<Rightarrow> 0) (now + 30000);
              d1 = set_cloud (\<lambda>t. t\<lparr>ct_resources := update_where failing
                (\<lambda>x. x\<lparr>re_cleanupStatus := CuFailed, re_cleanupError := Some code, re_cleanupDueAt := Some dueAt\<rparr>) (ct_resources t)\<rparr>) d in
            if \<not> list_ex failing (ct_resources (tb_cloud d)) then Inr d1
            else if code \<in> set prerequisiteCodes
            then Inr (if ri_pausedByUserId incident = None \<and> ri_errorCode incident \<noteq> Some ''recovery_retries_exhausted''
              then set_incident (ri_incidentId incident) (\<lambda>x. x\<lparr>ri_errorCode := Some ''cleanup_failed'', ri_updatedAt := now\<rparr>) d1 else d1)
            else Inr (retryCleanup current incident (re_id r) code now (retry_delay e) d1))))"
section \<open>Receipts of a release\<close>

text \<open>The receipt may not name another resource than the row or an earlier receipt.\<close>

definition cleanup_conflict :: "RotationResourceRow \<Rightarrow> (string \<times> json) list \<Rightarrow> (string \<times> json) list \<Rightarrow> bool" where
  "cleanup_conflict r old result = list_ex (\<lambda>(k, known). let expected = nullish (json_get (JObj old) k) (option_json known); v = json_get (JObj result) k in
     \<not> falsy expected \<and> \<not> falsy v \<and> \<not> json_same expected v) [(''allocationId'', re_allocationId r), (''resourceId'', re_resourceId r)]"

definition invalidatesHealth :: "CloudService \<Rightarrow> CloudStep \<Rightarrow> bool" where
  "invalidatesHealth service plan = (service = LinodeCompute \<and> pl_action plan \<in> {''linode.instance.reboot'', ''linode.instance.start''})"

text \<open>The inventory forgets a temporary instance that is deleted (\<open>linode-temporary-inventory.ts\<close>), unless something of the user refers to it.
  \<open>referenced\<close> answers for lifecycle operations, traffic policies, health checks and probe rounds.\<close>

definition matchesLinodeTemporaryInstance :: "CloudInstanceRow \<Rightarrow> LinodeTemporaryInstanceProof \<Rightarrow> bool" where
  "matchesLinodeTemporaryInstance i proof = (cin_externalId i = tp_id proof \<and> cin_name i = Some (tp_label proof)
     \<and> json_get (json_get (JObj (cin_metadata i)) ''providerMetadata'') ''instanceCreated'' = JStr (tp_created proof))"

definition slots_of_instance :: "string \<Rightarrow> CloudTables \<Rightarrow> string list" where
  "slots_of_instance i t = map ms_id (filter (\<lambda>s. list_ex (\<lambda>f. cif_id f = ms_interfaceId s \<and> cif_instanceId f = i) (ct_interfaces t)) (ct_slots t))"

definition instance_protected :: "(string \<Rightarrow> string list \<Rightarrow> bool) \<Rightarrow> string \<Rightarrow> CloudTables \<Rightarrow> bool" where
  "instance_protected referenced i t = (let slots = slots_of_instance i t in
     list_ex (\<lambda>a. ia_instanceId a = i \<and> ia_managed a) (ct_authorizations t) \<or> referenced i slots
     \<or> list_ex (\<lambda>l. cl_slotId l \<in> set slots) (ct_links t)
     \<or> list_ex (\<lambda>p. case hp_slotId p of Some s \<Rightarrow> s \<in> set slots | None \<Rightarrow> False) (ct_healthPolicies t)
     \<or> list_ex (\<lambda>h. case hs_slotId h of Some s \<Rightarrow> s \<in> set slots | None \<Rightarrow> False) (ct_healthStates t)
     \<or> list_ex (\<lambda>p. rp_slotId p \<in> set slots) (ct_policies t) \<or> list_ex (\<lambda>r. rs_slotId r \<in> set slots) (ct_schedules t)
     \<or> list_ex (\<lambda>x. ri_slotId x \<in> set slots) (ct_incidents t) \<or> list_ex (\<lambda>p. pb_slotId p \<in> set slots) (ct_publications t))"

text \<open>Deleting the instance cascades to its interfaces, their addresses and its authorization.\<close>

definition delete_instance :: "string \<Rightarrow> CloudTables \<Rightarrow> CloudTables" where
  "delete_instance i t = (let slots = slots_of_instance i t; ifaces = map cif_id (filter (\<lambda>f. cif_instanceId f = i) (ct_interfaces t)) in
     t\<lparr>ct_slots := filter (\<lambda>s. ms_id s \<notin> set slots) (ct_slots t), ct_instances := filter (\<lambda>x. cin_id x \<noteq> i) (ct_instances t),
       ct_interfaces := filter (\<lambda>f. cif_instanceId f \<noteq> i) (ct_interfaces t),
       ct_addresses := filter (\<lambda>a. cd_interfaceId a \<notin> set ifaces) (ct_addresses t),
       ct_authorizations := filter (\<lambda>a. ia_instanceId a \<noteq> i) (ct_authorizations t)\<rparr>)"

definition forgetDeletedLinodeTemporaryInstance ::
  "(string \<Rightarrow> string list \<Rightarrow> bool) \<Rightarrow> LinodeTemporaryInstanceProof \<Rightarrow> CloudTables \<Rightarrow> CloudTables \<times> bool" where
  "forgetDeletedLinodeTemporaryInstance referenced proof t = (case select_one (\<lambda>a. ca_id a = tp_accountId proof) (ct_accounts t) of
     None \<Rightarrow> (t, False)
   | Some a \<Rightarrow> if ca_provider a \<noteq> Linode \<or> ca_externalAccountId a \<noteq> Some (tp_externalAccountId proof) then (t, False)
     else (case select_one (\<lambda>i. cin_accountId i = ca_id a \<and> cin_service i = LinodeCompute \<and> cin_region i = tp_region proof
         \<and> cin_externalId i = tp_id proof) (ct_instances t) of
       None \<Rightarrow> (t, False)
     | Some i \<Rightarrow> if \<not> matchesLinodeTemporaryInstance i proof \<or> instance_protected referenced (cin_id i) t then (t, False)
         else (delete_instance (cin_id i) t, True)))"

definition deletedLinodeTemporaryInstances :: "(string \<Rightarrow> nat) \<Rightarrow> string \<Rightarrow> string \<Rightarrow> CloudTables \<Rightarrow> LinodeTemporaryInstanceProof list" where
  "deletedLinodeTemporaryInstances isIP accountId region t = (case select_one (\<lambda>a. ca_id a = accountId) (ct_accounts t) of
     None \<Rightarrow> []
   | Some a \<Rightarrow> if ca_provider a \<noteq> Linode \<or> ca_externalAccountId a = None \<or> ca_externalAccountId a = Some [] then []
     else List.map_filter (\<lambda>s. let receipt = plan_arg (st_plan s) ''linodeSwapReceipt''; helper = json_get (json_get receipt ''after'') ''temporaryInstance'' in
         if st_status s = SsApplied \<and> pl_action (st_plan s) = ''linode.swap.delete'' \<and> json_get helper ''accountId'' = JStr accountId
            \<and> json_get helper ''region'' = JStr region
         then Option.bind (linodeTemporaryInstanceProof isIP receipt) (\<lambda>proof.
           if tp_attemptId proof = st_attemptId s \<and> Some (tp_externalAccountId proof) = ca_externalAccountId a then Some proof else None)
         else None) (ct_steps t))"

definition completeStepCleanup :: "CleanupEnv \<Rightarrow> CloudService \<Rightarrow> string \<Rightarrow> CloudStep \<Rightarrow> CloudTables \<Rightarrow> CloudTables" where
  "completeStepCleanup env service incidentId plan t = (if service \<noteq> LinodeCompute \<or> pl_action plan \<noteq> ''linode.swap.delete'' then t
     else (case linodeTemporaryInstanceProof (ce_isIP env) (plan_arg plan ''linodeSwapReceipt'') of
       None \<Rightarrow> t
     | Some proof \<Rightarrow> fst (forgetDeletedLinodeTemporaryInstance (ce_referenced env) proof (t\<lparr>ct_leases := update_where (\<lambda>l. le_physicalKey l = ce_physicalKey env Linode (Some (tp_externalAccountId proof)) LinodeCompute
           (tp_region proof) (tp_id proof) \<and> le_incidentId l = Some incidentId \<and> le_unresolvedStepId l = None) (\<lambda>l. l\<lparr>le_incidentId := None\<rparr>) (ct_leases t)\<rparr>))))"

text \<open>A restart of the machine makes its evidence stale: the round that counts is a later one.\<close>

definition health_cutoff :: "string \<Rightarrow> CloudTables \<Rightarrow> int" where
  "health_cutoff slotId t = max
     (case select_one (\<lambda>q. rq_slotId q = Some slotId) (ct_roundSequences t) of Some q \<Rightarrow> rq_lastSequence q | None \<Rightarrow> 0)
     (case select_one (\<lambda>s. hs_slotId s = Some slotId) (ct_healthStates t) of Some s \<Rightarrow> hs_lastAppliedSequence s | None \<Rightarrow> 0)"

definition restart_evidence :: "string \<Rightarrow> int \<Rightarrow> CloudTables \<Rightarrow> CloudTables" where
  "restart_evidence slotId cutoff t = t\<lparr>ct_healthStates := update_where (\<lambda>s. hs_slotId s = Some slotId)
     (\<lambda>s. (resetEvidence s)\<lparr>hs_lastAppliedSequence := cutoff\<rparr>) (ct_healthStates t)\<rparr>"

definition restarted_snapshot :: "(int \<Rightarrow> string) \<Rightarrow> int \<Rightarrow> int \<Rightarrow> json \<Rightarrow> json" where
  "restarted_snapshot render now cutoff snap = JObj (put_entries [(''cleanupHealthCutoff'', JNum (num_of_int cutoff)),
     (''cleanupHealthAfter'', JStr (render now))] (entries_of snap))"

text \<open>Two rows of one allocation are released together.\<close>

definition release_aliases :: "RotationResourceRow \<Rightarrow> CloudTables \<Rightarrow> CloudTables" where
  "release_aliases r t = (if cleanupIdentity r = None then t
     else t\<lparr>ct_resources := update_where (\<lambda>x. re_incidentId x = re_incidentId r \<and> re_id x \<noteq> re_id r \<and> re_cleanupStepId x = None
         \<and> cleanupIdentity x = cleanupIdentity r)
       (\<lambda>x. x\<lparr>re_cleanupStatus := CuReleased, re_cleanupError := None, re_attached := False, re_referenced := False,
         re_snapshot := set_snapshot_entry ''cleanupCanonicalResourceId'' (JStr (re_id r)) x\<rparr>) (ct_resources t)\<rparr>)"

definition remaining_failure :: "int \<Rightarrow> string \<Rightarrow> CloudTables \<Rightarrow> CloudTables" where
  "remaining_failure now i t = (if list_ex (\<lambda>r. re_incidentId r = i \<and> re_cleanupStatus r = CuFailed) (ct_resources t)
     then t\<lparr>ct_incidents := update_where (\<lambda>x. ri_incidentId x = i \<and> ri_phase x = CleanupPhase \<and> ri_errorCode x \<noteq> Some ''recovery_retries_exhausted'')
       (\<lambda>x. x\<lparr>ri_errorCode := Some ''cleanup_failed'', ri_updatedAt := now\<rparr>) (ct_incidents t)\<rparr>
     else t\<lparr>ct_incidents := update_where (\<lambda>x. ri_incidentId x = i \<and> ri_phase x = CleanupPhase \<and> ri_errorCode x = Some ''cleanup_failed'')
       (\<lambda>x. x\<lparr>ri_errorCode := None, ri_recoveryRetryAt := None, ri_updatedAt := now\<rparr>) (ct_incidents t)\<rparr>)"

definition next_in_chain :: "string \<Rightarrow> RotationStepRow list \<Rightarrow> string option" where
  "next_in_chain stepId chain = (case drop 1 (dropWhile (\<lambda>s. st_id s \<noteq> stepId) chain) of [] \<Rightarrow> None | s # _ \<Rightarrow> Some (st_id s))"

definition advance_row ::
  "int \<Rightarrow> RotationIncidentRow \<Rightarrow> string \<Rightarrow> StoredStepStatus \<Rightarrow> bool \<Rightarrow> string option \<Rightarrow> json \<Rightarrow> RotationResourceRow \<Rightarrow> RotationResourceRow" where
  "advance_row now incident stepId status historyAmbiguous following snap r = r\<lparr>re_snapshot := snap,
     re_cleanupStepId := Some (case following of Some i \<Rightarrow> i | None \<Rightarrow> stepId),
     re_cleanupStatus := (if status = SsAmbiguous \<or> historyAmbiguous \<or> status = SsPending \<and> re_cleanupStatus r = CuFailed then CuFailed
       else if status = SsApplied \<and> following = None then CuReleased else CuPending),
     re_cleanupError := (if status = SsAmbiguous \<or> historyAmbiguous then Some ''cleanup_ownership_ambiguous''
       else if status = SsPending then re_cleanupError r else None),
     re_cleanupDueAt := (if following \<noteq> None then Some now
       else if status \<noteq> SsApplied then Some (now + (if status = SsAmbiguous \<or> ri_status incident = IncExhausted then 30000 else 5000))
       else re_cleanupDueAt r),
     re_attached := (if status = SsApplied then False else re_attached r),
     re_referenced := (if status = SsApplied then False else re_referenced r)\<rparr>"

definition advanceChain ::
  "CleanupEnv \<Rightarrow> int \<Rightarrow> RotationContext \<Rightarrow> RotationIncidentRow \<Rightarrow> RotationResourceRow \<Rightarrow> RotationStepRow list \<Rightarrow> RotationStepRow \<Rightarrow> StoredStepStatus
    \<Rightarrow> CloudTables \<Rightarrow> CloudTables" where
  "advanceChain env now c incident r chain step status t = (let
       stepId = st_id step; slotId = ms_id (cx_slot c); service = cin_service (cx_instance c);
       historyAmbiguous = list_ex (\<lambda>m. st_id m \<noteq> stepId \<and> st_status m = SsAmbiguous) chain;
       following = (if status = SsApplied \<and> \<not> historyAmbiguous then next_in_chain stepId chain else None);
       restarted = (status = SsApplied \<and> st_status step \<noteq> SsApplied \<and> invalidatesHealth service (st_plan step));
       cutoff = health_cutoff slotId t;
       snap = (if restarted then restarted_snapshot (ce_iso env) now cutoff (re_snapshot r) else re_snapshot r);
       t1 = (if restarted then restart_evidence slotId cutoff t else t);
       t2 = set_resource (re_id r) (advance_row now incident stepId status historyAmbiguous following snap) t1
     in remaining_failure now (re_incidentId r)
       (if status = SsApplied \<and> following = None \<and> \<not> historyAmbiguous
        then release_aliases r (completeStepCleanup env service (re_incidentId r) (st_plan step) t2) else t2))"
text \<open>\<open>updatedAt\<close> is the time of the last write of the step's row, which the rows of the model do not carry; it matters only for
  a step that was never dispatched.\<close>

definition cleanup_deadline :: "RotationContext \<Rightarrow> int \<Rightarrow> RotationStepRow \<Rightarrow> int" where
  "cleanup_deadline c updatedAt step = (case st_observeDeadline step of Some t \<Rightarrow> t
     | None \<Rightarrow> (case st_dispatchedAt step of Some t \<Rightarrow> t | None \<Rightarrow> updatedAt) + policy_value c rp_cloudWaitSeconds 120 * 1000)"

definition ambiguous_late :: "RotationResourceRow \<Rightarrow> CloudTables \<Rightarrow> CloudTables" where
  "ambiguous_late r t = (set_resource (re_id r) (\<lambda>x. x\<lparr>re_cleanupStatus := CuFailed, re_cleanupError := Some ''cleanup_ownership_ambiguous''\<rparr>) t)
     \<lparr>ct_incidents := update_where (\<lambda>x. ri_incidentId x = re_incidentId r) (\<lambda>x. x\<lparr>ri_errorCode := Some ''cleanup_failed''\<rparr>) (ct_incidents t)\<rparr>"

definition settleReceipt ::
  "CleanupEnv \<Rightarrow> int \<Rightarrow> int \<Rightarrow> RotationContext \<Rightarrow> RotationIncidentRow \<Rightarrow> RotationResourceRow \<Rightarrow> RotationStepRow list \<Rightarrow> RotationStepRow
    \<Rightarrow> StoredStepStatus \<Rightarrow> Database \<Rightarrow> Database" where
  "settleReceipt env now updatedAt c incident resource chain step status d = (let
       expired = (status = SsPending \<and> cleanup_deadline c updatedAt step \<le> now) in
     if re_cleanupStepId resource \<noteq> Some (st_id step)
     then (if status = SsAmbiguous then set_cloud (ambiguous_late resource) d else d)
     else if status = SsNotApplied \<or> expired
     then retryCleanup c incident (re_id resource) (if expired then ''cleanup_convergence_timeout'' else ''cleanup_not_applied'') now None d
     else set_cloud (advanceChain env now c incident resource chain step status) d)"

definition receipt_rows :: "RotationStepRow \<Rightarrow> (string \<times> json) list \<Rightarrow> bool \<Rightarrow> string \<Rightarrow> StoredStepStatus \<Rightarrow> CloudTables \<Rightarrow> CloudTables" where
  "receipt_rows step result observed incidentId status t =
    (let t1 = set_cloud_step (st_id step) (\<lambda>s. s\<lparr>st_status := status, st_receipt := Some (merged_receipt step result)\<rparr>)
           (add_observation (st_id step) observed result t)
     in if status = SsApplied \<or> status = SsNotApplied then clear_unresolved incidentId (st_id step) t1 else t1)"

definition recordReceiptOf ::
  "CleanupEnv \<Rightarrow> int \<Rightarrow> int \<Rightarrow> RotationContext \<Rightarrow> RotationIncidentRow \<Rightarrow> RotationResourceRow \<Rightarrow> RotationResourceRow \<Rightarrow> string \<Rightarrow> (string \<times> json) list
    \<Rightarrow> bool \<Rightarrow> int option option \<Rightarrow> Database \<Rightarrow> CodeError + Database" where
  "recordReceiptOf env now updatedAt c incident r resource stepId result observed fence d =
    bindE (cleanupChain (tb_cloud d) resource True) (\<lambda>chain. case find_cloud_step stepId (tb_cloud d) of
       None \<Rightarrow> Inl ''cleanup_step_changed''
     | Some step \<Rightarrow>
        bindE (guardE (list_ex (\<lambda>m. st_id m = stepId) chain \<and> st_attemptId step = re_attemptId r
          \<and> plan_arg (st_plan step) ''phase'' = JStr ''post_publish_cleanup'') ''cleanup_step_changed'') (\<lambda>_.
        if (case fence of Some f \<Rightarrow> st_fence step \<noteq> f | None \<Rightarrow> False) \<or> st_status step = SsNotApplied \<or> st_status step = SsRejected
        then Inr (set_cloud (add_observation stepId observed result) d)
        else bindE (receipt_status step (cleanup_conflict r (case st_receipt step of Some es \<Rightarrow> es | None \<Rightarrow> []) result) observed result) (\<lambda>status.
          Inr (settleReceipt env now updatedAt c incident resource chain step status
            (set_cloud (receipt_rows step result observed (ri_incidentId incident) status) d)))))"

text \<open>\<open>r\<close> is the row as the run that asked for the receipt read it.\<close>

definition receiptCleanup ::
  "CleanupEnv \<Rightarrow> int \<Rightarrow> int \<Rightarrow> RotationResourceRow \<Rightarrow> string \<Rightarrow> (string \<times> json) list \<Rightarrow> bool \<Rightarrow> int option option \<Rightarrow> Database \<Rightarrow> CodeError + Database" where
  "receiptCleanup env now updatedAt r stepId result observed fence d = (case find_incident d (re_incidentId r) of
     None \<Rightarrow> Inr d
   | Some incident \<Rightarrow> bindE (lockRotationContext (ce_physicalKey env) (tb_cloud d) (ri_slotId incident)) (\<lambda>c.
       if ri_terminatedAt incident \<noteq> None then Inr (set_cloud (add_observation stepId observed result) d)
       else (case find_resource (re_id r) (tb_cloud d) of
         None \<Rightarrow> Inr d
       | Some resource \<Rightarrow> recordReceiptOf env now updatedAt c incident r resource stepId result observed fence d)))"

section \<open>Completion\<close>

definition left_over :: "string \<Rightarrow> CloudTables \<Rightarrow> bool" where
  "left_over i t = list_ex (\<lambda>r. re_incidentId r = i \<and> re_cleanupStatus r \<in> {CuPending, CuFailed}) (ct_resources t)"

definition was_published :: "string \<Rightarrow> CloudTables \<Rightarrow> bool" where
  "was_published i t = list_ex (\<lambda>p. pb_incidentId p = Some i \<and> pb_status p = PbApplied) (ct_publications t)"

definition write_open :: "RotationContext \<Rightarrow> CloudTables \<Rightarrow> bool" where
  "write_open c t = (case find_lease (cx_physicalKey c) t of Some l \<Rightarrow> le_unresolvedStepId l \<noteq> None | None \<Rightarrow> False)"

definition restart_cutoffs :: "string \<Rightarrow> CloudTables \<Rightarrow> int list" where
  "restart_cutoffs i t = List.map_filter (\<lambda>r. if re_incidentId r = i then (case json_get (re_snapshot r) ''cleanupHealthCutoff'' of
     JNum (Num x) \<Rightarrow> Some \<lfloor>x\<rfloor> | _ \<Rightarrow> None) else None) (ct_resources t)"

definition unproven :: "RotationIncidentRow \<Rightarrow> RotationHealth \<Rightarrow> int \<Rightarrow> bool" where
  "unproven incident h cutoff = (\<not> rh_success h \<or> \<not> healthRevisionMatches (incident_json incident) h
     \<or> (case rh_state h of None \<Rightarrow> True | Some s \<Rightarrow> hs_lastAppliedSequence s \<le> cutoff))"

definition finish_incident :: "int \<Rightarrow> RotationContext \<Rightarrow> string \<Rightarrow> Database \<Rightarrow> Database" where
  "finish_incident now c i d = set_cloud (\<lambda>t. t\<lparr>ct_leases := update_where (\<lambda>l. le_physicalKey l = cx_physicalKey c \<and> le_incidentId l = Some i)
       (\<lambda>l. l\<lparr>le_incidentId := None\<rparr>) (ct_leases t)\<rparr>)
     (set_incident i (\<lambda>x. x\<lparr>ri_status := IncComplete, ri_phase := CompletePhase, ri_finishedAt := Some now, ri_updatedAt := now, ri_errorCode := None\<rparr>)
       (set_cloud (reset_retries (ms_id (cx_slot c))) d))"

definition completeCleanup :: "CleanupEnv \<Rightarrow> int \<Rightarrow> string \<Rightarrow> Database \<Rightarrow> CodeError + Database" where
  "completeCleanup env now i d = (case find_incident d i of
     None \<Rightarrow> Inr d
   | Some incident \<Rightarrow> if ri_phase incident \<noteq> CleanupPhase \<or> ri_status incident = IncComplete then Inr d
     else bindE (lockRotationContext (ce_physicalKey env) (tb_cloud d) (ri_slotId incident)) (\<lambda>c. let t = tb_cloud d in
       if ri_terminatedAt incident \<noteq> None \<or> write_open c t \<or> left_over i t \<or> \<not> was_published i t then Inr d
       else (let cutoffs = restart_cutoffs i t; h = lockRotationHealth now d c in
         if cutoffs \<noteq> [] \<and> ri_rotationTrigger incident \<noteq> ManualTrigger \<and> unproven incident h (foldl max (hd cutoffs) cutoffs)
         then Inr (set_incident i (\<lambda>x. x\<lparr>ri_errorCode := Some (if rh_failure h then ''cleanup_health_failed'' else ''probe_insufficient''), ri_updatedAt := now\<rparr>) d)
         else Inr (finish_incident now c i d))))"
section \<open>A run\<close>

text \<open>What a run meets: the clock of each of its transactions, what others commit before each of them, the answers of the cloud, whether the
  adapter can observe, and the recovery of a reset rotation. The late answer of a call that timed out is another receipt, later.\<close>

record CleanupWorld =
  cw_now :: "nat \<Rightarrow> int"
  cw_updatedAt :: int
  cw_others :: "nat \<Rightarrow> Database \<Rightarrow> Database"
  cw_holder :: string
  cw_reset :: "string \<Rightarrow> Database \<Rightarrow> Database \<times> bool"
  cw_adapter :: "bool \<Rightarrow> run_error + bool"
  cw_observe :: "CloudStep \<Rightarrow> run_error + (string \<times> json) list"
  cw_live :: "run_error + LiveInventory"
  cw_execute :: "CloudStep \<Rightarrow> run_error + (string \<times> json) list"

record CleanupRun =
  cr_db :: Database
  cr_sent :: "CloudStep option"
  cr_execution :: "(string \<times> int option option) option"
  cr_error :: "run_error option"

text \<open>A transaction that fails leaves the database as the others have it.\<close>

definition transact :: "(Database \<Rightarrow> CodeError + Database) \<Rightarrow> CleanupRun \<Rightarrow> CleanupRun" where
  "transact f s = (case f (cr_db s) of Inl e \<Rightarrow> s\<lparr>cr_error := Some (OtherError e)\<rparr> | Inr d \<Rightarrow> s\<lparr>cr_db := d\<rparr>)"

definition observed_again :: "RotationStepRow \<Rightarrow> CloudStep" where
  "observed_again step = (st_plan step)\<lparr>pl_arguments := put_entries [(''receipt'', JObj (case st_receipt step of Some es \<Rightarrow> es | None \<Rightarrow> [])),
     (''previousExecution'', JBool True)] (pl_arguments (st_plan step))\<rparr>"

definition observing_step :: "CleanupStart \<Rightarrow> RotationStepRow option" where
  "observing_step start = (case cs_step start of Some s \<Rightarrow> if uncertain_step (st_status s) then Some s else None | None \<Rightarrow> None)"

definition executeCleanup :: "CleanupEnv \<Rightarrow> CleanupWorld \<Rightarrow> CleanupStart \<Rightarrow> CloudStep \<Rightarrow> CleanupRun \<Rightarrow> CleanupRun" where
  "executeCleanup env w start sent s = (let r = cs_resource start; fence = Some (Some (lh_revision (cs_lease start)));
       s1 = s\<lparr>cr_sent := Some sent, cr_execution := Some (pl_id sent, fence)\<rparr> in
     case cw_execute w sent of
       Inr result \<Rightarrow> transact (receiptCleanup env (cw_now w 2) (cw_updatedAt w) r (pl_id sent) result False fence) s1
     | Inl e \<Rightarrow> (case e of
         CloudFault code retryAfterMs \<Rightarrow> if code \<notin> set noEffectCodes then s1\<lparr>cr_error := Some e\<rparr>
           else (let s2 = transact (rejectNoEffect env (cw_now w 2) r (pl_id sent) code retryAfterMs fence) s1 in
             if cr_error s2 \<noteq> None \<or> code = ''rate_limited'' then s2 else s2\<lparr>cr_error := Some e\<rparr>)
       | _ \<Rightarrow> s1\<lparr>cr_error := Some e\<rparr>))"

definition writeCleanup :: "CleanupEnv \<Rightarrow> CleanupWorld \<Rightarrow> CleanupStart \<Rightarrow> CleanupRun \<Rightarrow> CleanupRun" where
  "writeCleanup env w start s = (if ri_status (cs_incident start) \<noteq> IncActive \<or> ri_pausedByUserId (cs_incident start) \<noteq> None then s
     else (case cw_live w of
       Inl e \<Rightarrow> s\<lparr>cr_error := Some e\<rparr>
     | Inr live \<Rightarrow> (case dispatchCleanup env (cw_now w 1) start live (cw_others w 1 (cr_db s)) of
         Inl e \<Rightarrow> s\<lparr>cr_db := cw_others w 1 (cr_db s), cr_error := Some (OtherError e)\<rparr>
       | Inr (d, None) \<Rightarrow> s\<lparr>cr_db := d\<rparr>
       | Inr (d, Some sent) \<Rightarrow> executeCleanup env w start sent (s\<lparr>cr_db := cw_others w 2 d\<rparr>))))"

definition attemptCleanup :: "CleanupEnv \<Rightarrow> CleanupWorld \<Rightarrow> CleanupStart \<Rightarrow> CleanupRun \<Rightarrow> CleanupRun" where
  "attemptCleanup env w start s = (case observing_step start of
     None \<Rightarrow> if cx_lifecycleBlocked (cs_context start)
       then transact (waitForLifecycle env (cw_now w 1) (cs_resource start) (ms_id (cx_slot (cs_context start)))) (s\<lparr>cr_db := cw_others w 1 (cr_db s)\<rparr>)
       else (case cw_adapter w False of
           Inl e \<Rightarrow> s\<lparr>cr_error := Some e\<rparr>
         | Inr False \<Rightarrow> s\<lparr>cr_error := Some (OtherError ''cleanup_observation_unavailable'')\<rparr>
         | Inr True \<Rightarrow> writeCleanup env w start s)
   | Some step \<Rightarrow> (case cw_adapter w True of
       Inl e \<Rightarrow> s\<lparr>cr_error := Some e\<rparr>
     | Inr False \<Rightarrow> s\<lparr>cr_error := Some (OtherError ''cleanup_observation_unavailable'')\<rparr>
     | Inr True \<Rightarrow> (case cw_observe w (observed_again step) of
         Inl e \<Rightarrow> s\<lparr>cr_error := Some e\<rparr>
       | Inr result \<Rightarrow> transact (receiptCleanup env (cw_now w 1) (cw_updatedAt w) (cs_resource start) (st_id step) result True (Some (st_fence step)))
           (s\<lparr>cr_db := cw_others w 1 (cr_db s)\<rparr>))))"

text \<open>Only an error of the admission or of the handler itself leaves the run.\<close>

definition handleCleanup :: "CleanupEnv \<Rightarrow> CleanupWorld \<Rightarrow> CleanupStart \<Rightarrow> CleanupRun \<Rightarrow> Database \<times> CodeError option" where
  "handleCleanup env w start s = (let d = cw_others w 3 (cr_db s) in case cr_error s of
     None \<Rightarrow> (d, None)
   | Some e \<Rightarrow> (case cleanupFailed env (cw_now w 3) start (cr_execution s) e d of Inl e' \<Rightarrow> (d, Some e') | Inr d' \<Rightarrow> (d', None)))"

definition runCleanup :: "CleanupEnv \<Rightarrow> CleanupWorld \<Rightarrow> string \<Rightarrow> Database \<Rightarrow> Database \<times> CloudStep option \<times> CodeError option" where
  "runCleanup env w resourceId d0 = (let (d, recovered) = (case find_resource resourceId (tb_cloud d0) of
         Some r \<Rightarrow> cw_reset w (re_incidentId r) d0 | None \<Rightarrow> (d0, False)) in
     if recovered then (d, None, None)
     else (case admitCleanup env (cw_now w 0) (cw_holder w) resourceId d of
       Inl e \<Rightarrow> (d, None, Some e)
     | Inr (d1, None) \<Rightarrow> (d1, None, None)
     | Inr (d1, Some start) \<Rightarrow>
        (let s = attemptCleanup env w start \<lparr>cr_db = d1, cr_sent = None,
               cr_execution = map_option (\<lambda>x. (st_id x, Some (st_fence x))) (cs_step start), cr_error = None\<rparr>;
             (d2, e) = handleCleanup env w start s
         in (set_cloud (releaseRotationLease (cw_now w 4) (cs_lease start)) (cw_others w 4 d2), cr_sent s, e))))"

section \<open>The scan\<close>

definition due_resources :: "int \<Rightarrow> CloudTables \<Rightarrow> string list" where
  "due_resources now t = map re_id (take 200 (js_sort (\<lambda>a b. case (re_cleanupDueAt a, re_cleanupDueAt b) of
       (Some x, Some y) \<Rightarrow> if x = y then code_unit_compare (re_id a) (re_id b) else x - y | _ \<Rightarrow> 0)
     (filter (\<lambda>r. re_cleanupStatus r \<in> {CuPending, CuFailed} \<and> (case re_cleanupDueAt r of Some t \<Rightarrow> t \<le> now | None \<Rightarrow> False)) (ct_resources t))))"

definition cleaning_incidents :: "CloudTables \<Rightarrow> string list" where
  "cleaning_incidents t = map ri_incidentId (take 200 (filter (\<lambda>x. ri_phase x = CleanupPhase \<and> ri_status x \<noteq> IncComplete) (ct_incidents t)))"

fun runCleanups :: "CleanupEnv \<Rightarrow> (string \<Rightarrow> CleanupWorld) \<Rightarrow> string list \<Rightarrow> Database \<Rightarrow> Database \<times> CodeError option" where
  "runCleanups env w [] d = (d, None)"
| "runCleanups env w (i # is) d = (case runCleanup env (w i) i d of (d1, _, Some e) \<Rightarrow> (d1, Some e) | (d1, _, None) \<Rightarrow> runCleanups env w is d1)"

fun completeCleanups :: "CleanupEnv \<Rightarrow> (string \<Rightarrow> int) \<Rightarrow> string list \<Rightarrow> Database \<Rightarrow> Database \<times> CodeError option" where
  "completeCleanups env now [] d = (d, None)"
| "completeCleanups env now (i # is) d = (case completeCleanup env (now i) i d of Inl e \<Rightarrow> (d, Some e) | Inr d1 \<Rightarrow> completeCleanups env now is d1)"

definition recoverCleanups :: "CleanupEnv \<Rightarrow> int \<Rightarrow> (string \<Rightarrow> CleanupWorld) \<Rightarrow> (string \<Rightarrow> int) \<Rightarrow> Database \<Rightarrow> Database \<times> CodeError option" where
  "recoverCleanups env now w nows d = (case runCleanups env w (due_resources now (tb_cloud d)) d of
     (d1, Some e) \<Rightarrow> (d1, Some e)
   | (d1, None) \<Rightarrow> completeCleanups env nows (cleaning_incidents (tb_cloud d1)) d1)"

end
