(* ===== verification/Cleanup_Safety.thy ===== *)
theory Cleanup_Safety
  imports Rotation_Cleanup Store_Safety
begin

text \<open>
  What publication and cleanup guarantee together: an address is released only after the publication that replaced it is applied, after every
  TTL that DNS may still hold, under the lease of the machine, and one step at a time; a released resource had all its steps applied, and an
  incident completes with nothing left over.
\<close>

section \<open>A release that is sent\<close>

lemma cleanupEligible_Inr:
  assumes "cleanupEligible env now c incident r t = Inr u"
  shows "rotationAuthorizationError c (ri_rotationTrigger incident) = None" "ri_physicalKey incident = cx_physicalKey c"
    "Some (ri_addressVersion incident) = re_cleanupAddressVersion r" "\<exists>dueAt. re_cleanupDueAt r = Some dueAt \<and> dueAt \<le> now"
    "release_authorized c incident r" "\<not> protected_address (ce_sameInet env) (cx_slot c) (re_address r) t"
    "published_version (ms_id (cx_slot c)) (re_cleanupAddressVersion r) t"
  using assms unfolding cleanupEligible_def bindE_eq_Inr guardE_eq_Inr by (auto split: option.splits)

lemma send_cleanupE:
  assumes "send_cleanup env now c incident lease r t = Inr (t', Some sent)"
  obtains chain s companion plan t1 where "cleanupChain t r False = Inr chain" "find (\<lambda>s. Some (st_id s) = re_cleanupStepId r) chain = Some s"
    "st_status s \<in> {SsPrepared, SsNotApplied, SsRejected}"
    "authorizeStep (ce_physicalKey env) (ce_isIP env) c (ri_incidentId incident) (st_plan s) JUndefined now t = Inr companion"
    "reserveCloudRotationWrite now (cleanup_input c s) t = Inr (t1, WriteAllowed)"
    "t' = cleanup_rows now c (ri_incidentId incident) r lease (st_id s) plan companion t1" "sent = plan\<lparr>pl_id := st_id s\<rparr>"
proof -
  from assms obtain chain where chain: "cleanupChain t r False = Inr chain"
    and rest: "(case find (\<lambda>s. Some (st_id s) = re_cleanupStepId r) chain of None \<Rightarrow> Inr (t, None)
      | Some persisted \<Rightarrow> if st_status persisted \<notin> {SsPrepared, SsNotApplied, SsRejected} then Inr (t, None)
        else bindE (authorizeStep (ce_physicalKey env) (ce_isIP env) c (ri_incidentId incident) (st_plan persisted) JUndefined now t) (\<lambda>companion.
          let prior = cleanup_prior chain (steps_of_attempt t (re_attemptId r)) in
          bindE (persistedRotationOptions c) (\<lambda>permissions.
          let plan = dispatched_plan (st_plan persisted) prior (cleanup_allocation prior) permissions in
          bindE (reserveCloudRotationWrite now (cleanup_input c persisted) t) (\<lambda>(t1, admission). case admission of
            WriteDenied ruleId retryAt \<Rightarrow> Inr (refuse_cleanup now (ri_incidentId incident) (re_id r) retryAt t1, None)
          | WriteAllowed \<Rightarrow> Inr (cleanup_rows now c (ri_incidentId incident) r lease (st_id persisted) plan companion t1,
              Some (plan\<lparr>pl_id := st_id persisted\<rparr>)))))) = Inr (t', Some sent)"
    unfolding send_cleanup_def bindE_eq_Inr by blast
  from rest obtain s where s: "find (\<lambda>s. Some (st_id s) = re_cleanupStepId r) chain = Some s" by (auto split: option.splits)
  with rest have status: "st_status s \<in> {SsPrepared, SsNotApplied, SsRejected}" by (auto split: if_splits)
  have nb: "\<not> st_status s \<notin> {SsPrepared, SsNotApplied, SsRejected}" using status by blast
  note rest = rest [unfolded s option.case if_not_P [OF nb] Let_def]
  from rest obtain companion where companion: "authorizeStep (ce_physicalKey env) (ce_isIP env) c (ri_incidentId incident) (st_plan s) JUndefined now t = Inr companion"
    by (cases "authorizeStep (ce_physicalKey env) (ce_isIP env) c (ri_incidentId incident) (st_plan s) JUndefined now t") auto
  note rest = rest [unfolded companion bindE_Inr]
  from rest obtain permissions where permissions: "persistedRotationOptions c = Inr permissions" by (cases "persistedRotationOptions c") auto
  note rest = rest [unfolded permissions bindE_Inr]
  from rest obtain x where x: "reserveCloudRotationWrite now (cleanup_input c s) t = Inr x" by (cases "reserveCloudRotationWrite now (cleanup_input c s) t") auto
  obtain t1 admission where ta: "x = (t1, admission)" by (cases x)
  note rest = rest [unfolded x ta bindE_Inr prod.case]
  from rest have allowed: "admission = WriteAllowed" by (cases admission) auto
  from rest that [OF chain s status companion x [unfolded ta allowed]] show thesis by (auto simp: allowed)
qed

lemma send_cleanup_rows:
  assumes "send_cleanup env now c incident lease r t = Inr (t', Some sent)"
  shows "\<exists>plan companion t1. t' = cleanup_rows now c (ri_incidentId incident) r lease (pl_id sent) plan companion t1"
  using assms
proof (rule send_cleanupE)
  fix s companion plan t1
  assume "t' = cleanup_rows now c (ri_incidentId incident) r lease (st_id s) plan companion t1" and "sent = plan\<lparr>pl_id := st_id s\<rparr>"
  then have "t' = cleanup_rows now c (ri_incidentId incident) r lease (pl_id sent) plan companion t1" by simp
  then show ?thesis by blast
qed

lemma cleanup_rows_leases:
  assumes "l \<in> set (ct_leases (cleanup_rows now c i r lease stepId plan companion t))" and "le_physicalKey l = lh_physicalKey lease"
  shows "le_unresolvedStepId l = Some stepId"
proof -
  let ?f = "\<lambda>l. l\<lparr>le_incidentId := Some (re_incidentId r), le_unresolvedStepId := Some stepId\<rparr>" and ?g = "\<lambda>l. l\<lparr>le_unresolvedStepId := Some stepId\<rparr>"
  have "ct_leases (cleanup_rows now c i r lease stepId plan companion t) = update_where (\<lambda>l. companion = Some (le_physicalKey l) \<and> le_incidentId l = Some i) ?g
      (update_where (\<lambda>l. le_physicalKey l = lh_physicalKey lease) ?f (ct_leases t))" by (simp add: cleanup_rows_def)
  from assms(1) [unfolded this] obtain q where q: "q \<in> set (update_where (\<lambda>l. le_physicalKey l = lh_physicalKey lease) ?f (ct_leases t))"
      "l = (if companion = Some (le_physicalKey q) \<and> le_incidentId q = Some i then ?g q else q)" by (rule update_whereE)
  from q(1) obtain p where p: "q = (if le_physicalKey p = lh_physicalKey lease then ?f p else p)" by (rule update_whereE)
  have "le_physicalKey q = lh_physicalKey lease" using q(2) assms(2) by (simp split: if_splits)
  with p have "le_unresolvedStepId q = Some stepId" by (simp split: if_splits)
  with q(2) show ?thesis by simp
qed

lemma cleanup_rows_steps:
  assumes "s \<in> set (ct_steps (cleanup_rows now c i r lease stepId plan companion t))" and "st_id s = stepId"
  shows "st_status s = SsInFlight \<and> st_fence s = Some (lh_revision lease)"
proof -
  let ?f = "\<lambda>s. s\<lparr>st_plan := plan, st_status := SsInFlight, st_fence := Some (lh_revision lease), st_dispatchedAt := Some now,
      st_observeDeadline := Some (now + policy_value c rp_cloudWaitSeconds 120 * 1000), st_receipt := None, st_errorCode := None\<rparr>"
  have "ct_steps (cleanup_rows now c i r lease stepId plan companion t) = update_where (\<lambda>r. st_id r = stepId) ?f (ct_steps t)"
    by (simp add: cleanup_rows_def)
  from assms(1) [unfolded this] obtain q where s: "s = (if st_id q = stepId then ?f q else q)" by (rule update_whereE)
  show ?thesis using assms(2) by (simp add: s split: if_splits)
qed

text \<open>The branches that lead to a sent write.\<close>

lemma dispatchCleanupE:
  assumes "dispatchCleanup env now start live d = Inr (d', Some sent)"
  obtains c incident r r1 t1 t2 where "lockRotationContext (ce_physicalKey env) (tb_cloud d) (ms_id (cx_slot (cs_context start))) = Inr c"
    "find_incident d (re_incidentId (cs_resource start)) = Some incident" "ri_pausedByUserId incident = None" "ri_status incident = IncActive"
    "\<not> lease_refused (ri_incidentId incident) (verifyRotationLease now (cs_lease start) (tb_cloud d))"
    "find_resource (re_id (cs_resource start)) (tb_cloud d) = Some r"
    "dispatch_allowed env now (cs_context start) c incident r live (tb_cloud d) = Inr ()" "\<not> other_chain_open r (tb_cloud d)"
    "(if present_text (re_cleanupStepId r) then t1 = tb_cloud d \<and> r1 = r
      else (\<exists>plans. planCleanup env c r (inventory_json live) (tb_cloud d) = Inr plans \<and> storeChain r plans (tb_cloud d) = Inr (t1, r1)))"
    "send_cleanup env now c incident (cs_lease start) r1 t1 = Inr (t2, Some sent)" "d' = set_cloud (\<lambda>_. t2) d"
proof -
  from assms obtain c where c: "lockRotationContext (ce_physicalKey env) (tb_cloud d) (ms_id (cx_slot (cs_context start))) = Inr c"
    unfolding dispatchCleanup_def Let_def bindE_eq_Inr by blast
  note run = assms [unfolded dispatchCleanup_def Let_def c bindE_Inr]
  from run obtain incident where i: "find_incident d (re_incidentId (cs_resource start)) = Some incident" by (auto split: option.splits)
  note run = run [unfolded i option.case]
  from run have open': "ri_pausedByUserId incident = None" "ri_status incident = IncActive"
    "\<not> lease_refused (ri_incidentId incident) (verifyRotationLease now (cs_lease start) (tb_cloud d))" by (auto split: if_splits)
  with run obtain r where r: "find_resource (re_id (cs_resource start)) (tb_cloud d) = Some r" by (auto split: option.splits)
  with run open' have allowed: "dispatch_allowed env now (cs_context start) c incident r live (tb_cloud d) = Inr ()"
    and closed: "\<not> other_chain_open r (tb_cloud d)" by (auto simp: bindE_eq_Inr split: if_splits)
  with run open' r obtain t1 r1 x where chain: "(if present_text (re_cleanupStepId r) then Inr (tb_cloud d, r)
        else bindE (planCleanup env c r (inventory_json live) (tb_cloud d)) (\<lambda>plans. storeChain r plans (tb_cloud d))) = Inr (t1, r1)"
    and x: "send_cleanup env now c incident (cs_lease start) r1 t1 = Inr x" "(case x of (t2, sent) \<Rightarrow> Inr (set_cloud (\<lambda>_. t2) d, sent)) = Inr (d', Some sent)"
    by (auto simp: bindE_eq_Inr)
  obtain t2 where t2: "x = (t2, Some sent)" "d' = set_cloud (\<lambda>_. t2) d" using x(2) by (cases x) auto
  show thesis
    by (rule that [OF c i open' r allowed closed _ x(1) [unfolded t2(1)] t2(2)]) (use chain in \<open>auto simp: bindE_eq_Inr split: if_splits\<close>)
qed
lemma dispatch_allowed_Inr:
  assumes "dispatch_allowed env now c current incident r live t = Inr u"
  shows "cleanupEligible env now current incident r t = Inr ()" "livePublicationMatches current live"
    "released_where_published current r live = Inr ()" "cx_physicalKey current = cx_physicalKey c"
  using assms unfolding dispatch_allowed_def bindE_eq_Inr guardE_eq_Inr by auto

text \<open>C5: A release leaves the cleanup only for an address that a rotation left behind: its grace is over, the publication of its version is
  applied and seen live, it is neither the current address nor the candidate of its slot, its release is authorized, the incident is active and
  nobody paused it; the worker holds the machine's lease while no other write is open there, and afterwards the lease waits for this step, which
  is in flight under that worker's fence.\<close>

theorem cleanup_release_justified:
  assumes "dispatchCleanup env now start live d = Inr (d', Some sent)"
  shows "\<exists>c incident r l. lockRotationContext (ce_physicalKey env) (tb_cloud d) (ms_id (cx_slot (cs_context start))) = Inr c
    \<and> find_incident d (re_incidentId (cs_resource start)) = Some incident \<and> ri_status incident = IncActive \<and> ri_pausedByUserId incident = None
    \<and> find_resource (re_id (cs_resource start)) (tb_cloud d) = Some r
    \<and> (\<exists>dueAt. re_cleanupDueAt r = Some dueAt \<and> dueAt \<le> now) \<and> Some (ri_addressVersion incident) = re_cleanupAddressVersion r
    \<and> (\<exists>p \<in> set (ct_publications (tb_cloud d)). pb_slotId p = ms_id (cx_slot c) \<and> Some (pb_addressVersion p) = re_cleanupAddressVersion r
        \<and> pb_status p = PbApplied)
    \<and> livePublicationMatches c live
    \<and> (\<forall>a \<in> set (ct_addresses (tb_cloud d)). Some (cd_id a) \<in> {ms_currentAddressId (cx_slot c), ms_candidateAddressId (cx_slot c)}
        \<longrightarrow> \<not> ce_sameInet env (cd_address a) (re_address r))
    \<and> release_authorized c incident r
    \<and> verifyRotationLease now (cs_lease start) (tb_cloud d) = Some l \<and> le_unresolvedStepId l = None
    \<and> le_incidentId l \<in> {None, Some (ri_incidentId incident)}
    \<and> (\<forall>l' \<in> set (ct_leases (tb_cloud d')). le_physicalKey l' = lh_physicalKey (cs_lease start) \<longrightarrow> le_unresolvedStepId l' = Some (pl_id sent))
    \<and> (\<forall>s \<in> set (ct_steps (tb_cloud d')). st_id s = pl_id sent \<longrightarrow> st_status s = SsInFlight \<and> st_fence s = Some (lh_revision (cs_lease start)))"
  using assms
proof (rule dispatchCleanupE)
  fix c incident r r1 t1 t2
  assume c: "lockRotationContext (ce_physicalKey env) (tb_cloud d) (ms_id (cx_slot (cs_context start))) = Inr c"
    and i: "find_incident d (re_incidentId (cs_resource start)) = Some incident" "ri_pausedByUserId incident = None" "ri_status incident = IncActive"
    and lease: "\<not> lease_refused (ri_incidentId incident) (verifyRotationLease now (cs_lease start) (tb_cloud d))"
    and r: "find_resource (re_id (cs_resource start)) (tb_cloud d) = Some r"
    and allowed: "dispatch_allowed env now (cs_context start) c incident r live (tb_cloud d) = Inr ()"
    and send: "send_cleanup env now c incident (cs_lease start) r1 t1 = Inr (t2, Some sent)" and d': "d' = set_cloud (\<lambda>_. t2) d"
  note eligible = cleanupEligible_Inr [OF dispatch_allowed_Inr(1) [OF allowed]] and live = dispatch_allowed_Inr(2) [OF allowed]
  from eligible(7) have published: "\<exists>p \<in> set (ct_publications (tb_cloud d)). pb_slotId p = ms_id (cx_slot c)
      \<and> Some (pb_addressVersion p) = re_cleanupAddressVersion r \<and> pb_status p = PbApplied"
    unfolding published_version_def list_ex_iff by blast
  have kept: "\<not> ce_sameInet env (cd_address a) (re_address r)" if "a \<in> set (ct_addresses (tb_cloud d))"
    "Some (cd_id a) \<in> {ms_currentAddressId (cx_slot c), ms_candidateAddressId (cx_slot c)}" for a
    using eligible(6) that by (auto simp: protected_address_def list_ex_iff)
  from lease obtain l where l: "verifyRotationLease now (cs_lease start) (tb_cloud d) = Some l" "le_unresolvedStepId l = None"
    "le_incidentId l \<in> {None, Some (ri_incidentId incident)}" by (auto simp: lease_refused_def split: option.splits)
  from send_cleanup_rows [OF send] obtain plan companion t where
    rows: "t2 = cleanup_rows now c (ri_incidentId incident) r1 (cs_lease start) (pl_id sent) plan companion t" by blast
  have cloud: "tb_cloud d' = t2" by (simp add: d' set_cloud_def)
  have "le_unresolvedStepId l' = Some (pl_id sent)" if "l' \<in> set (ct_leases (tb_cloud d'))" "le_physicalKey l' = lh_physicalKey (cs_lease start)" for l'
    by (rule cleanup_rows_leases [OF that(1) [unfolded cloud rows] that(2)])
  moreover have "st_status x = SsInFlight \<and> st_fence x = Some (lh_revision (cs_lease start))"
    if "x \<in> set (ct_steps (tb_cloud d'))" "st_id x = pl_id sent" for x
    by (rule cleanup_rows_steps [OF that(1) [unfolded cloud rows] that(2)])
  ultimately show ?thesis using c i r eligible(3,4,5) published live kept l by blast
qed

section \<open>The grace of a release\<close>

lemma cloud_set_incident: "ct_resources (tb_cloud (set_incident i f d)) = ct_resources (tb_cloud d)"
    "ct_publications (tb_cloud (set_incident i f d)) = ct_publications (tb_cloud d)"
  by (simp_all add: set_incident_def set_cloud_def)

lemma cloud_audit [simp]: "tb_cloud (rotationAudit x a u s d) = tb_cloud d"
  by (simp add: rotationAudit_def)

lemma cloud_recovery: "ct_resources (tb_cloud (scheduleRotationRecovery c incident code now notBefore d)) = ct_resources (tb_cloud d)"
    "ct_publications (tb_cloud (scheduleRotationRecovery c incident code now notBefore d)) = ct_publications (tb_cloud d)"
  by (simp_all add: scheduleRotationRecovery_def Let_def cloud_set_incident exhaust_recovery_def extend_observation_def set_cloud_def split: option.splits)

lemma retryFailed_cloud: "ct_resources (tb_cloud (retryFailed c now incident ids d)) = ct_resources (tb_cloud d)"
    "ct_publications (tb_cloud (retryFailed c now incident ids d)) = ct_publications (tb_cloud d)"
  by (simp_all add: retryFailed_def Let_def retry_operations_def cloud_set_incident cloud_recovery split: option.splits)

lemma intent_keeps:
  assumes "intent ids poolId now d = Inr (d', child)"
  shows "tb_cloud d' = tb_cloud d" "tb_operations d' = tb_operations d" "tb_operationSteps d' = tb_operationSteps d"
  using assms by (auto simp: intent_def Let_def set_pool_def split: option.splits)

lemma foldl_max_le: "(m::int) \<le> foldl max m xs \<and> (\<forall>x \<in> set xs. x \<le> foldl max m xs)"
proof (induction xs arbitrary: m)
  case (Cons x xs)
  from Cons.IH [of "max m x"] show ?case by auto
qed simp

definition settled_operation :: "int \<Rightarrow> Database \<Rightarrow> PublicationChild \<Rightarrow> bool" where
  "settled_operation ttl d child = (case select_one (\<lambda>x. op_idempotencyKey x = child_key child) (tb_operations d) of None \<Rightarrow> True
     | Some x \<Rightarrow> op_status x = OpSucceeded \<and> (\<forall>n \<in> set (cleanup_ttls d (op_id x)). n \<le> ttl))"

lemma settledChild_step:
  "ob_db (settledChild child pool op o') = ob_db o'" "ob_maxTtl o' \<le> ob_maxTtl (settledChild child pool op o')"
  "ob_done (settledChild child pool op o') \<Longrightarrow> ob_done o'"
  "ob_done (settledChild child pool (Some x) o') \<Longrightarrow> op_status x = OpSucceeded
    \<and> (\<forall>n \<in> set (cleanup_ttls (ob_db o') (op_id x)). n \<le> ob_maxTtl (settledChild child pool (Some x) o'))"
proof -
  have ttl: "ob_maxTtl (settledChild child pool op o') = (if \<not> ep_enabled pool
      \<or> Option.bind (select_one (\<lambda>i. ri_eventId i = pc_eventId child) (tb_reconcileIntents (ob_db o'))) ri_completedAt = None then ob_maxTtl o'
    else case op of None \<Rightarrow> ob_maxTtl o' | Some x \<Rightarrow> foldl max (ob_maxTtl o') (cleanup_ttls (ob_db o') (op_id x)))" for op
    by (cases op) (simp_all add: settledChild_def Let_def)
  show "ob_db (settledChild child pool op o') = ob_db o'" by (cases op) (simp_all add: settledChild_def Let_def)
  show "ob_maxTtl o' \<le> ob_maxTtl (settledChild child pool op o')"
    unfolding ttl using foldl_max_le by (auto split: option.splits)
  show "ob_done (settledChild child pool op o') \<Longrightarrow> ob_done o'"
    by (cases op) (auto simp: settledChild_def Let_def split: if_splits)
  assume fin: "ob_done (settledChild child pool (Some x) o')"
  then have on: "\<not> (\<not> ep_enabled pool \<or> Option.bind (select_one (\<lambda>i. ri_eventId i = pc_eventId child) (tb_reconcileIntents (ob_db o'))) ri_completedAt = None)"
    by (auto simp: settledChild_def Let_def split: if_splits)
  with fin have "op_status x = OpSucceeded" by (auto simp: settledChild_def Let_def split: if_splits)
  then show "op_status x = OpSucceeded \<and> (\<forall>n \<in> set (cleanup_ttls (ob_db o') (op_id x)). n \<le> ob_maxTtl (settledChild child pool (Some x) o'))"
    unfolding ttl if_not_P [OF on] option.case using foldl_max_le by blast
qed

text \<open>One child: the tables stay, the TTL only grows, and a walk that is still done has found the child's operation settled.\<close>

lemma observeChild_step:
  assumes "observeChild ids now child o' = Inr o''"
  shows "tb_cloud (ob_db o'') = tb_cloud (ob_db o') \<and> tb_operations (ob_db o'') = tb_operations (ob_db o')
    \<and> tb_operationSteps (ob_db o'') = tb_operationSteps (ob_db o') \<and> ob_maxTtl o' \<le> ob_maxTtl o''
    \<and> (ob_done o'' \<longrightarrow> ob_done o' \<and> settled_operation (ob_maxTtl o'') (ob_db o') child)"
proof -
  have child: "?thesis" if "o'' = settledChild child pool (select_one (\<lambda>x. op_idempotencyKey x = child_key child) (tb_operations (ob_db o'))) o'" for pool
    unfolding that settled_operation_def using settledChild_step [where child = child and pool = pool and o' = o'] by (auto split: option.splits)
  show ?thesis
  proof (cases "select_one (\<lambda>p. ep_id p = pc_poolId child) (tb_endpointPools (ob_db o'))")
    case None
    with assms show ?thesis by (auto simp: observeChild_def)
  next
    case (Some pool)
    show ?thesis
    proof (cases "ep_policyRevision pool \<noteq> pc_policyRevision child \<or> ep_decisionRevision pool \<noteq> pc_decisionRevision child")
      case True
      with assms Some have replan: "replanChild ids now pool o' = Inr o''" by (simp add: observeChild_def)
      show ?thesis
      proof (cases "current_intent (ob_db o') pool")
        case None
        with replan obtain d c where "intent ids (ep_id pool) now (ob_db o') = Inr (d, c)"
          "o'' = o'\<lparr>ob_db := d, ob_children := ob_children o' @ [c], ob_done := False\<rparr>" by (auto simp: replanChild_def bindE_eq_Inr)
        with intent_keeps [OF this(1)] show ?thesis by simp
      next
        case (Some i)
        with replan show ?thesis by (auto simp: replanChild_def)
      qed
    next
      case False
      with assms Some show ?thesis by (intro child [of pool]) (simp add: observeChild_def)
    qed
  qed
qed

lemma observe_walk:
  assumes "foldE (\<lambda>o' child. observeChild ids now child o') o' children = Inr o''"
  shows "tb_cloud (ob_db o'') = tb_cloud (ob_db o') \<and> tb_operations (ob_db o'') = tb_operations (ob_db o')
    \<and> tb_operationSteps (ob_db o'') = tb_operationSteps (ob_db o') \<and> ob_maxTtl o' \<le> ob_maxTtl o''
    \<and> (ob_done o'' \<longrightarrow> ob_done o' \<and> (\<forall>child \<in> set children. settled_operation (ob_maxTtl o'') (ob_db o') child))"
  using assms
proof (induction children arbitrary: o')
  case (Cons child children)
  then obtain o1 where one: "observeChild ids now child o' = Inr o1" and rest: "foldE (\<lambda>o' child. observeChild ids now child o') o1 children = Inr o''"
    by (auto simp: bindE_eq_Inr)
  note one = observeChild_step [OF one] and IH = Cons.IH [OF rest]
  have "cleanup_ttls (ob_db o1) = cleanup_ttls (ob_db o')" using one by (simp add: cleanup_ttls_def fun_eq_iff)
  then have same: "settled_operation ttl (ob_db o1) = settled_operation ttl (ob_db o')" for ttl
    using one by (intro ext) (simp add: settled_operation_def cong: option.case_cong)
  have grow: "settled_operation ttl d child \<Longrightarrow> ttl \<le> ttl' \<Longrightarrow> settled_operation ttl' d child" for ttl ttl' d child
    by (fastforce simp: settled_operation_def split: option.splits)
  show ?case using one IH grow [of "ob_maxTtl o1" "ob_db o'" child "ob_maxTtl o''"] by (auto simp: same)
qed simp
text \<open>C6: When the observation of a publication makes a resource due for release, the publication is applied, every DNS operation that it waited
  for has succeeded, and the release waits for the publication's largest recorded TTL, which is at least what was recorded at the promotion and
  the TTL of every record that those operations removed, plus a minute.\<close>

theorem release_after_ttl:
  assumes "observePublication pk ids now i d = Inr d'" and "r' \<in> set (ct_resources (tb_cloud d'))" and "r' \<notin> set (ct_resources (tb_cloud d))"
  shows "\<exists>p ttl. p \<in> set (ct_publications (tb_cloud d)) \<and> pb_id p = i \<and> pb_promotedAt p \<noteq> None \<and> pb_incidentId p = Some (re_incidentId r')
    \<and> pb_previousMaxTtl p \<le> ttl \<and> (\<forall>child \<in> set (pb_children p). settled_operation ttl d child)
    \<and> re_cleanupStatus r' = CuPending \<and> re_cleanupDueAt r' = Some (now + (ttl + 60) * 1000)
    \<and> re_cleanupAddressVersion r' = Some (pb_addressVersion p)
    \<and> (\<forall>p' \<in> set (ct_publications (tb_cloud d')). pb_id p' = i \<longrightarrow> pb_status p' = PbApplied)"
proof -
  obtain p where p: "select_one (\<lambda>p. pb_id p = i) (ct_publications (tb_cloud d)) = Some p"
    using assms by (cases "select_one (\<lambda>p. pb_id p = i) (ct_publications (tb_cloud d))") (auto simp: observePublication_def)
  have open': "pb_status p \<noteq> PbApplied" using assms p by (auto simp: observePublication_def)
  let ?incident = "Option.bind (pb_incidentId p) (find_incident d)"
  let ?start = "\<lparr>ob_db = d, ob_done = True, ob_failed = (pb_errorCode p = Some ''dns_partial''), ob_maxTtl = pb_previousMaxTtl p,
      ob_children = [], ob_retry = []\<rparr>"
  from assms(1) p open' obtain c where c: "(if pb_promotedAt p = None \<or> observation_blocked ?incident then Inr d
      else bindE (guardE (cx_addressVersion c = pb_addressVersion p \<and> map_option cd_id (cx_address c) = Some (pb_addressId p)) ''publication_version_changed'') (\<lambda>_.
        bindE (foldE (\<lambda>o' child. observeChild ids now child o') ?start (pb_children p)) (\<lambda>o'.
        Inr (concludePublication c now p ?incident o' (retryFailed c now ?incident (ob_retry o') (ob_db o')))))) = Inr d'"
    by (auto simp: observePublication_def Let_def bindE_eq_Inr)
  have promoted: "\<not> (pb_promotedAt p = None \<or> observation_blocked ?incident)"
  proof
    assume "pb_promotedAt p = None \<or> observation_blocked ?incident"
    then have "d' = d" using c by simp
    with assms(2,3) show False by simp
  qed
  with c obtain w where w: "foldE (\<lambda>o' child. observeChild ids now child o') ?start (pb_children p) = Inr w"
    and d': "d' = concludePublication c now p ?incident w (retryFailed c now ?incident (ob_retry w) (ob_db w))"
    by (auto simp: bindE_eq_Inr)
  note walk = observe_walk [OF w]
  let ?d1 = "retryFailed c now ?incident (ob_retry w) (ob_db w)"
  have res: "ct_resources (tb_cloud ?d1) = ct_resources (tb_cloud d)" using walk by (simp add: retryFailed_cloud)
  have pubs: "ct_publications (tb_cloud ?d1) = ct_publications (tb_cloud d)" using walk by (simp add: retryFailed_cloud)
  obtain k where k: "pb_incidentId p = Some k" and fin: "ob_done w"
  proof (cases "pb_incidentId p")
    case None
    then have "ct_resources (tb_cloud d') = ct_resources (tb_cloud d)"
      using walk by (simp add: d' concludePublication_def Let_def set_cloud_def reset_retries_def retryFailed_cloud)
    with assms(2,3) show thesis by simp
  next
    case (Some k)
    have "ob_done w"
    proof (rule ccontr)
      assume "\<not> ob_done w"
      then have "ct_resources (tb_cloud d') = ct_resources (tb_cloud d)"
        using walk by (simp add: d' concludePublication_def Let_def Some set_cloud_def cloud_set_incident retryFailed_cloud)
      with assms(2,3) show False by simp
    qed
    with Some that show thesis by blast
  qed
  let ?release = "\<lambda>r. r\<lparr>re_cleanupStatus := CuPending, re_cleanupDueAt := Some (now + (ob_maxTtl w + 60) * 1000),
         re_cleanupAddressVersion := Some (pb_addressVersion p), re_referenced := False\<rparr>"
  have "ct_resources (tb_cloud d') = update_where (\<lambda>r. re_incidentId r = k \<and> releasable c (case ?incident of Some x \<Rightarrow> ri_releaseOldAddress x | None \<Rightarrow> False) r
      \<and> re_cleanupStatus r \<noteq> CuReleased) ?release (ct_resources (tb_cloud d))"
    using walk by (simp add: d' concludePublication_def Let_def k fin set_cloud_def scheduleReleases_def cloud_set_incident retryFailed_cloud)
  from assms(2) [unfolded this] obtain r where r: "r \<in> set (ct_resources (tb_cloud d))" "r' = (if re_incidentId r = k \<and> releasable c (case ?incident of Some x \<Rightarrow> ri_releaseOldAddress x
      | None \<Rightarrow> False) r \<and> re_cleanupStatus r \<noteq> CuReleased then ?release r else r)" by (rule update_whereE)
  with assms(3) have hit: "re_incidentId r = k" "r' = ?release r" by (auto split: if_splits)
  have status: "pb_status p' = PbApplied" if "p' \<in> set (ct_publications (tb_cloud d'))" "pb_id p' = i" for p'
  proof -
    have "ct_publications (tb_cloud d') = update_where (\<lambda>x. pb_id x = pb_id p) (observed_row now w) (ct_publications (tb_cloud d))"
      using walk by (simp add: d' concludePublication_def Let_def k fin set_cloud_def scheduleReleases_def cloud_set_incident retryFailed_cloud)
    from that(1) [unfolded this] obtain q where q: "p' = (if pb_id q = pb_id p then observed_row now w q else q)" by (rule update_whereE)
    have id: "pb_id p = i" using select_one_Some [OF p] by simp
    from q that(2) have "pb_id q = i" by (simp add: observed_row_def split: if_splits)
    with q id show ?thesis by (simp add: observed_row_def fin)
  qed
  have "pb_previousMaxTtl p \<le> ob_maxTtl w" "\<forall>child \<in> set (pb_children p). settled_operation (ob_maxTtl w) d child"
    using walk fin by auto
  with select_one_Some [OF p] promoted k hit status show ?thesis by (intro exI [of _ p] exI [of _ "ob_maxTtl w"]) auto
qed

section \<open>The TTL of a promotion\<close>

lemma in_map_filterI: "x \<in> set xs \<Longrightarrow> f x = Some y \<Longrightarrow> y \<in> set (List.map_filter f xs)"
  by (force simp: List.map_filter_def)

lemma effective_ttl_le:
  assumes "r \<in> set (tb_dnsRecords d)" and "dr_deletedAt r = None" and "dr_managedByPoolId r = Some poolId" and "poolId \<in> set poolIds"
    and "zone_provider d (dr_zoneId r) = Some provider"
  shows "effectiveOldTtl (dr_ttl r) provider \<le> largestTtl d poolIds"
proof -
  have "effectiveOldTtl (dr_ttl r) provider \<in> set (record_ttls d poolIds @ binding_ttls d poolIds)"
    unfolding record_ttls_def set_append by (intro UnI1 in_map_filterI [OF assms(1)]) (use assms in simp)
  with foldl_max_le [of 0 "record_ttls d poolIds @ binding_ttls d poolIds"] show ?thesis unfolding largestTtl_def by blast
qed

lemma binding_ttl_le:
  assumes "b \<in> set (tb_domainBindings d)" and "db_poolId b \<in> set poolIds" and "zone_provider d (db_zoneId b) = Some provider"
  shows "effectiveOldTtl (db_ttl b) provider \<le> largestTtl d poolIds"
proof -
  have "effectiveOldTtl (db_ttl b) provider \<in> set (record_ttls d poolIds @ binding_ttls d poolIds)"
    unfolding binding_ttls_def set_append by (intro UnI2 in_map_filterI [OF assms(1)]) (use assms in simp)
  with foldl_max_le [of 0 "record_ttls d poolIds @ binding_ttls d poolIds"] show ?thesis unfolding largestTtl_def by blast
qed

lemma clear_retry_keeps:
  "tb_dnsRecords (clear_retry existing d) = tb_dnsRecords d" "tb_domainBindings (clear_retry existing d) = tb_domainBindings d"
  "tb_zones (clear_retry existing d) = tb_zones d" "tb_providerAccounts (clear_retry existing d) = tb_providerAccounts d"
  "publish_links (clear_retry existing d) slotId = publish_links d slotId"
  by (simp_all add: clear_retry_def set_incident_def set_cloud_def publish_links_def cong: if_cong split: option.splits)

lemma largestTtl_clear: "largestTtl (clear_retry existing d) poolIds = largestTtl d poolIds"
  by (simp add: largestTtl_def record_ttls_def binding_ttls_def zone_provider_def clear_retry_keeps cong: if_cong)

lemma put_publication_row:
  assumes "put_publication existing fresh f t = (t', Some p)" and "\<And>x. pb_id (f x) = pb_id x"
  shows "\<exists>x. p = f x"
proof (cases existing)
  case None
  with assms(1) show ?thesis by (auto simp: put_publication_def)
next
  case (Some q)
  with assms(1) have "select_one (\<lambda>x. pb_id x = pb_id q) (update_where (\<lambda>x. pb_id x = pb_id q) f (ct_publications t)) = Some p"
    by (auto simp: put_publication_def Let_def)
  with assms(2) show ?thesis by (auto simp: select_one_update)
qed

section \<open>Completion\<close>

lemma foldl_max_hd: "x \<in> set xs \<Longrightarrow> x \<le> foldl max (hd xs) (xs :: int list)"
  using foldl_max_le [of "hd xs" xs] by blast

section \<open>Released resources\<close>

lemma find_resource_update:
  assumes "\<And>x. re_id (f x) = re_id x"
  shows "select_one (\<lambda>r. re_id r = i) (update_where P f rows) = map_option (\<lambda>r. if P r then f r else r) (select_one (\<lambda>r. re_id r = i) rows)"
  by (rule select_one_updated) (simp add: assms)

definition status_of :: "string \<Rightarrow> CloudTables \<Rightarrow> CleanupStatus option" where
  "status_of i t = map_option re_cleanupStatus (find_resource i t)"

lemma status_of_resources: "ct_resources t' = ct_resources t \<Longrightarrow> status_of i t' = status_of i t"
  by (simp add: status_of_def find_resource_def)

lemma forget_keeps: "ct_resources (fst (forgetDeletedLinodeTemporaryInstance referenced proof t)) = ct_resources t"
    "ct_steps (fst (forgetDeletedLinodeTemporaryInstance referenced proof t)) = ct_steps t"
  by (simp_all add: forgetDeletedLinodeTemporaryInstance_def delete_instance_def Let_def split: option.splits)

lemma completeStepCleanup_keeps: "ct_resources (completeStepCleanup env service i plan t) = ct_resources t"
    "ct_steps (completeStepCleanup env service i plan t) = ct_steps t"
  by (simp_all add: completeStepCleanup_def forget_keeps split: option.splits)

lemma remaining_failure_keeps: "ct_resources (remaining_failure now i t) = ct_resources t" "ct_steps (remaining_failure now i t) = ct_steps t"
  by (simp_all add: remaining_failure_def)

lemma release_aliases_status: "status_of (re_id r) (release_aliases r t) = status_of (re_id r) t"
proof (cases "cleanupIdentity r")
  case (Some known)
  let ?P = "\<lambda>x. re_incidentId x = re_incidentId r \<and> re_id x \<noteq> re_id r \<and> re_cleanupStepId x = None \<and> cleanupIdentity x = cleanupIdentity r"
  let ?f = "\<lambda>x. x\<lparr>re_cleanupStatus := CuReleased, re_cleanupError := None, re_attached := False, re_referenced := False,
         re_snapshot := set_snapshot_entry ''cleanupCanonicalResourceId'' (JStr (re_id r)) x\<rparr>"
  have "ct_resources (release_aliases r t) = update_where ?P ?f (ct_resources t)" by (simp add: release_aliases_def Some)
  then have "find_resource (re_id r) (release_aliases r t) = map_option (\<lambda>x. if ?P x then ?f x else x) (find_resource (re_id r) t)"
    unfolding find_resource_def by (simp only:) (rule find_resource_update, simp)
  then show ?thesis
    by (cases "find_resource (re_id r) t") (auto simp: status_of_def find_resource_def dest: select_one_Some)
qed (simp add: release_aliases_def)

lemma advanceChain_steps: "ct_steps (advanceChain env now c incident r chain step status t) = ct_steps t"
  by (simp add: advanceChain_def Let_def remaining_failure_keeps release_aliases_def completeStepCleanup_keeps set_resource_def restart_evidence_def)

text \<open>A chain is advanced to released only by the applied receipt of its last step, with no ambiguous step before it.\<close>

lemma advanceChain_released:
  assumes "status_of (re_id r) (advanceChain env now c incident r chain step status t) = Some CuReleased" and "find_resource (re_id r) t = Some r"
  shows "status = SsApplied \<and> next_in_chain (st_id step) chain = None \<and> \<not> list_ex (\<lambda>m. st_id m \<noteq> st_id step \<and> st_status m = SsAmbiguous) chain"
proof -
  let ?hist = "list_ex (\<lambda>m. st_id m \<noteq> st_id step \<and> st_status m = SsAmbiguous) chain"
  let ?next = "if status = SsApplied \<and> \<not> ?hist then next_in_chain (st_id step) chain else None"
  have last: "status_of (re_id r) (if B then release_aliases r (completeStepCleanup env service k plan x) else x) = status_of (re_id r) x"
    for B service k plan x
    by (simp add: release_aliases_status status_of_resources [OF completeStepCleanup_keeps(1)])
  let ?restarted = "status = SsApplied \<and> st_status step \<noteq> SsApplied \<and> invalidatesHealth (cin_service (cx_instance c)) (st_plan step)"
  define snap where "snap = (if ?restarted then restarted_snapshot (ce_iso env) now (health_cutoff (ms_id (cx_slot c)) t) (re_snapshot r) else re_snapshot r)"
  define t1 where "t1 = (if ?restarted then restart_evidence (ms_id (cx_slot c)) (health_cutoff (ms_id (cx_slot c)) t) t else t)"
  have t1: "ct_resources t1 = ct_resources t" by (simp add: t1_def restart_evidence_def)
  have res: "status_of (re_id r) (advanceChain env now c incident r chain step status t)
      = status_of (re_id r) (set_resource (re_id r) (advance_row now incident (st_id step) status ?hist ?next snap) t1)"
    unfolding advanceChain_def Let_def status_of_resources [OF remaining_failure_keeps(1)] last snap_def t1_def by (rule refl)
  have "find_resource (re_id r) (set_resource (re_id r) f t1) = map_option f (find_resource (re_id r) t)" if "\<And>x. re_id (f x) = re_id x" for f
    using select_one_update [of re_id f "re_id r" "ct_resources t"] that by (simp add: find_resource_def set_resource_def t1)
  from this [of "advance_row now incident (st_id step) status ?hist ?next snap"] assms(2)
  have "find_resource (re_id r) (set_resource (re_id r) (advance_row now incident (st_id step) status ?hist ?next snap) t1)
      = Some (advance_row now incident (st_id step) status ?hist ?next snap r)" by (simp add: advance_row_def)
  note found = this
  have "status_of (re_id r) (set_resource (re_id r) (advance_row now incident (st_id step) status ?hist ?next snap) t1) = Some CuReleased"
    using assms(1) by (simp only: res)
  from this [unfolded status_of_def found option.map option.inject]
  have "re_cleanupStatus (advance_row now incident (st_id step) status ?hist ?next snap r) = CuReleased" .
  then show ?thesis by (auto simp: advance_row_def split: if_splits)
qed

lemma retryCleanup_status: "status_of i (tb_cloud (retryCleanup c incident i code now delay d)) = Some CuReleased \<Longrightarrow> status_of i (tb_cloud d) = Some CuReleased"
proof -
  let ?d1 = "scheduleRotationRecovery c incident code now (positive_delay now delay) d"
  obtain f where f: "ct_resources (tb_cloud (retryCleanup c incident i code now delay d))
      = update_where (\<lambda>r. re_id r = i \<and> re_cleanupStatus r \<noteq> CuReleased) (\<lambda>r. r\<lparr>re_cleanupStatus := CuFailed, re_cleanupError := Some code, re_cleanupDueAt := Some f\<rparr>)
        (ct_resources (tb_cloud d))"
    by (rule that [of "case Option.bind (find_incident ?d1 (ri_incidentId incident)) ri_recoveryRetryAt of Some t \<Rightarrow> t | None \<Rightarrow> now + 30000"])
      (simp add: retryCleanup_def Let_def set_cloud_def cloud_recovery)
  assume "status_of i (tb_cloud (retryCleanup c incident i code now delay d)) = Some CuReleased"
  then show ?thesis
    unfolding status_of_def find_resource_def f by (subst (asm) find_resource_update) (auto split: if_splits)
qed
lemma settleReceipt_released:
  assumes "status_of (re_id r) (tb_cloud (settleReceipt env now updatedAt c incident r chain step status d)) = Some CuReleased"
    and "find_resource (re_id r) (tb_cloud d) = Some r" and "re_cleanupStatus r \<noteq> CuReleased"
  shows "re_cleanupStepId r = Some (st_id step) \<and> status = SsApplied \<and> next_in_chain (st_id step) chain = None
    \<and> \<not> list_ex (\<lambda>m. st_id m \<noteq> st_id step \<and> st_status m = SsAmbiguous) chain"
proof -
  let ?expired = "status = SsPending \<and> cleanup_deadline c updatedAt step \<le> now"
  have open': "status_of (re_id r) (tb_cloud d) \<noteq> Some CuReleased" using assms(2,3) by (simp add: status_of_def)
  have late: "status_of (re_id r) (ambiguous_late r t) \<noteq> Some CuReleased" for t
  proof -
    have "find_resource (re_id r) (ambiguous_late r t) = map_option (\<lambda>x. x\<lparr>re_cleanupStatus := CuFailed, re_cleanupError := Some ''cleanup_ownership_ambiguous''\<rparr>)
        (find_resource (re_id r) t)"
      using select_one_update [of re_id "\<lambda>x. x\<lparr>re_cleanupStatus := CuFailed, re_cleanupError := Some ''cleanup_ownership_ambiguous''\<rparr>" "re_id r" "ct_resources t"]
      by (simp add: find_resource_def ambiguous_late_def set_resource_def)
    then show ?thesis by (cases "find_resource (re_id r) t") (simp_all add: status_of_def)
  qed
  show ?thesis
  proof (cases "re_cleanupStepId r = Some (st_id step)")
    case False
    with assms(1) open' late show ?thesis by (auto simp: settleReceipt_def Let_def set_cloud_def split: if_splits)
  next
    case pointer: True
    show ?thesis
    proof (cases "status = SsNotApplied \<or> ?expired")
      case True
      with assms(1) pointer have "status_of (re_id r) (tb_cloud (retryCleanup c incident (re_id r)
          (if ?expired then ''cleanup_convergence_timeout'' else ''cleanup_not_applied'') now None d)) = Some CuReleased"
        by (simp add: settleReceipt_def Let_def)
      from retryCleanup_status [OF this] open' show ?thesis by simp
    next
      case False
      with assms(1) pointer have "status_of (re_id r) (advanceChain env now c incident r chain step status (tb_cloud d)) = Some CuReleased"
        by (simp add: settleReceipt_def Let_def set_cloud_def)
      from advanceChain_released [OF this assms(2)] pointer show ?thesis by simp
    qed
  qed
qed

lemma settleReceipt_steps:
  assumes "status = SsApplied"
  shows "ct_steps (tb_cloud (settleReceipt env now updatedAt c incident r chain step status d)) = ct_steps (tb_cloud d)"
  using assms by (simp add: settleReceipt_def Let_def set_cloud_def advanceChain_steps)

lemma receipt_rows_state:
  "ct_resources (receipt_rows step result observed i status t) = ct_resources t"
  "ct_steps (receipt_rows step result observed i status t) = update_where (\<lambda>s. st_id s = st_id step)
     (\<lambda>s. s\<lparr>st_status := status, st_receipt := Some (merged_receipt step result)\<rparr>) (ct_steps t)"
  by (simp_all add: receipt_rows_def Let_def set_cloud_step_def add_observation_def clear_unresolved_def)

text \<open>A chain lists the steps of the resource in order, applied before the pointer.\<close>

lemma cleanupChain_Inr:
  assumes "cleanupChain t r recording = Inr chain"
  obtains ids where "chain_ids r = Inr ids" "map st_id chain = ids" "set chain \<subseteq> set (ct_steps t)" "distinct ids"
    "\<forall>s \<in> set (takeWhile (\<lambda>s. Some (st_id s) \<noteq> re_cleanupStepId r) chain). st_status s = SsApplied \<or> recording \<and> st_status s = SsAmbiguous"
    "\<exists>s \<in> set chain. Some (st_id s) = re_cleanupStepId r"
proof -
  from assms obtain ids where ids: "chain_ids r = Inr ids" by (auto simp: cleanupChain_def bindE_eq_Inr)
  let ?steps = "js_sort (\<lambda>a b. st_sequence a - st_sequence b) (filter (\<lambda>s. st_id s \<in> set ids) (ct_steps t))"
  let ?pointer = "length (takeWhile (\<lambda>i. Some i \<noteq> re_cleanupStepId r) ids)"
  from assms ids have chain: "chain = ?steps" "length ?steps = length ids" "list_all (chain_step_ok r) (zip ids ?steps)"
    "list_all (\<lambda>s. st_status s = SsApplied \<or> recording \<and> st_status s = SsAmbiguous) (take ?pointer ?steps)"
    by (auto simp: cleanupChain_def Let_def bindE_eq_Inr guardE_eq_Inr)
  have map_ids: "map st_id chain = ids"
  proof (rule nth_equalityI)
    fix k assume "k < length (map st_id chain)"
    then have k: "k < length chain" "k < length ids" using chain(1,2) by simp_all
    then have "(ids ! k, chain ! k) \<in> set (zip ids chain)" by (auto simp: set_zip)
    with chain(1,3) show "map st_id chain ! k = ids ! k" using k by (auto simp: list_all_iff chain_step_ok_def Let_def)
  qed (use chain in simp)
  have dist: "distinct ids" and pointer: "\<exists>i \<in> set ids. Some i = re_cleanupStepId r"
    using ids by (auto simp: chain_ids_def Let_def bindE_eq_Inr guardE_eq_Inr split: option.splits)
  have "takeWhile (\<lambda>s. Some (st_id s) \<noteq> re_cleanupStepId r) chain = take (length (takeWhile (\<lambda>s. Some (st_id s) \<noteq> re_cleanupStepId r) chain)) chain"
    by (rule takeWhile_eq_take)
  also have "length (takeWhile (\<lambda>s. Some (st_id s) \<noteq> re_cleanupStepId r) chain) = ?pointer"
    by (simp add: map_ids [symmetric] takeWhile_map comp_def)
  finally have before: "takeWhile (\<lambda>s. Some (st_id s) \<noteq> re_cleanupStepId r) chain = take ?pointer chain" .
  show thesis
  proof (rule that [OF ids map_ids _ dist])
    show "set chain \<subseteq> set (ct_steps t)" using chain(1) by auto
    show "\<forall>s \<in> set (takeWhile (\<lambda>s. Some (st_id s) \<noteq> re_cleanupStepId r) chain). st_status s = SsApplied \<or> recording \<and> st_status s = SsAmbiguous"
      using chain(1,4) unfolding before list_all_iff by simp
    show "\<exists>s \<in> set chain. Some (st_id s) = re_cleanupStepId r" using pointer map_ids by auto
  qed
qed

lemma last_in_chain: "next_in_chain i chain = None \<Longrightarrow> s \<in> set chain \<Longrightarrow> distinct (map st_id chain) \<Longrightarrow>
    st_id s = i \<or> s \<in> set (takeWhile (\<lambda>s. st_id s \<noteq> i) chain)"
  by (induction chain) (auto simp: next_in_chain_def split: list.splits if_splits)

section \<open>The release of one address\<close>

text \<open>A rotation of slot \<open>s1\<close> replaced the address 192.0.2.9 and published 192.0.2.1 as version 2; the old address waits for its release.\<close>

definition demo_cleaning :: RotationIncidentRow where
  "demo_cleaning = demo_incident\<lparr>ri_phase := CleanupPhase\<rparr>"

definition demo_snapshot_json :: json where
  "demo_snapshot_json = JObj [(''cleanupStepIds'', JArr [JStr ''cleanup:res1'', JStr ''cleanup:res1:1''])]"

definition demo_resource :: RotationResourceRow where
  "demo_resource = \<lparr>re_id = ''res1'', re_incidentId = ''inc1'', re_attemptId = ''att1'', re_addressId = None, re_address = ''192.0.2.9'',
     re_allocationId = Some ''eipalloc-1'', re_resourceId = None, re_origin = SystemOrigin, re_ownershipAttemptId = Some ''att0'',
     re_role = OriginalRole, re_snapshot = demo_snapshot_json, re_attached = False, re_referenced = False,
     re_cleanupStepId = Some ''cleanup:res1'', re_cleanupStatus = CuPending, re_cleanupError = None, re_cleanupDueAt = Some 3000,
     re_cleanupAddressVersion = Some 2\<rparr>"

definition demo_cleanup_step :: "string \<Rightarrow> int \<Rightarrow> string \<Rightarrow> StoredStepStatus \<Rightarrow> RotationStepRow" where
  "demo_cleanup_step i sequence action status = demo_step\<lparr>st_id := i, st_sequence := sequence,
     st_plan := \<lparr>pl_id = i, pl_action = action, pl_resourceKey = ''eip'', pl_arguments = [(''phase'', JStr ''post_publish_cleanup''),
       (''cleanupResourceId'', JStr ''res1'')], pl_destructive = True\<rparr>, st_status := status\<rparr>"

definition demo_release :: "RotationResourceRow \<Rightarrow> RotationStepRow list \<Rightarrow> Database" where
  "demo_release r steps = demo_ready\<lparr>tb_cloud := (tb_cloud demo_ready)\<lparr>ct_incidents := [demo_cleaning],
     ct_publications := [demo_publication\<lparr>pb_incidentId := Some ''inc1''\<rparr>], ct_steps := steps, ct_resources := [r]\<rparr>\<rparr>"

definition demo_due :: Database where
  "demo_due = demo_release demo_resource [demo_cleanup_step ''cleanup:res1'' 1 ''ec2.auto-ipv4.disable'' SsPrepared,
     demo_cleanup_step ''cleanup:res1:1'' 2 ''ec2.eip.release'' SsPrepared]"

definition demo_cleanup_env :: CleanupEnv where
  "demo_cleanup_env = \<lparr>ce_physicalKey = plain_key, ce_isIP = (\<lambda>_. 4), ce_sameInet = (=), ce_planCleanup = (\<lambda>_ _ _. Inl ''unused''),
     ce_iso = (\<lambda>_. ''1970-01-01T00:00:00.000Z''), ce_referenced = (\<lambda>_ _. False)\<rparr>"

definition demo_start :: CleanupStart where
  "demo_start = \<lparr>cs_context = demo_context_now, cs_resource = demo_resource, cs_incident = demo_cleaning, cs_lease = demo_lease, cs_step = None\<rparr>"

definition sent_step :: "CodeError + Database \<times> CloudStep option \<Rightarrow> CloudStep option" where
  "sent_step x = (case x of Inr (_, sent) \<Rightarrow> sent | Inl _ \<Rightarrow> None)"

lemma demo_sent: "map_option pl_id (sent_step (dispatchCleanup demo_cleanup_env 4000 demo_start demo_live demo_due)) = Some ''cleanup:res1''"
  by code_simp

lemma Inr_sent: "sent_step x = Some s \<Longrightarrow> \<exists>d'. x = Inr (d', Some s)"
  by (auto simp: sent_step_def split: sum.splits)

theorem cleanup_release_justified_witness:
  "\<exists>d' sent c. dispatchCleanup demo_cleanup_env 4000 demo_start demo_live demo_due = Inr (d', Some sent)
    \<and> lockRotationContext plain_key (tb_cloud demo_due) ''s1'' = Inr c \<and> livePublicationMatches c demo_live"
proof -
  obtain s where "sent_step (dispatchCleanup demo_cleanup_env 4000 demo_start demo_live demo_due) = Some s" using demo_sent by blast
  then obtain d' where run: "dispatchCleanup demo_cleanup_env 4000 demo_start demo_live demo_due = Inr (d', Some s)" using Inr_sent by blast
  have "ms_id (cx_slot (cs_context demo_start)) = ''s1''" by code_simp
  moreover have "ce_physicalKey demo_cleanup_env = plain_key" by (simp add: demo_cleanup_env_def)
  ultimately show ?thesis using cleanup_release_justified [OF run] run by auto
qed

definition demo_publishing :: Database where
  "demo_publishing = (demo_release (demo_resource\<lparr>re_cleanupStatus := CuRetained, re_cleanupStepId := None, re_cleanupDueAt := None,
       re_cleanupAddressVersion := None\<rparr>) [])\<lparr>tb_reconcileIntents := [\<lparr>ri_id = ''in1'', ri_eventId = ''ev1'', ri_poolId = ''p1'',
         ri_endpointId = None, ri_decisionRevision = 1, ri_policyRevision = 1, ri_trigger = RepairTrigger, ri_source = FailoverSource,
         ri_force = False, ri_availableAt = 0, ri_completedAt = Some 2000\<rparr>],
     tb_cloud := (tb_cloud (demo_release (demo_resource\<lparr>re_cleanupStatus := CuRetained, re_cleanupStepId := None, re_cleanupDueAt := None,
       re_cleanupAddressVersion := None\<rparr>) []))\<lparr>ct_incidents := [demo_cleaning\<lparr>ri_phase := PublishPhase\<rparr>],
       ct_publications := [demo_publication\<lparr>pb_incidentId := Some ''inc1'', pb_status := PbInFlight, pb_appliedAt := None,
         pb_previousMaxTtl := 300, pb_children := [\<lparr>pc_poolId = ''p1'', pc_eventId = ''ev1'', pc_policyRevision = 1, pc_decisionRevision = 1,
           pc_operationId = None\<rparr>]\<rparr>]\<rparr>\<rparr>"

definition demo_publish_ids :: PublishIds where
  "demo_publish_ids = \<lparr>pi_publication = ''pub3'', pi_address = (\<lambda>e. ''addr:'' @ e), pi_intent = (\<lambda>p. ''intent:'' @ p), pi_event = (\<lambda>p. ''event:'' @ p)\<rparr>"

definition database_of :: "CodeError + Database \<Rightarrow> Database option" where
  "database_of x = (case x of Inr d \<Rightarrow> Some d | Inl _ \<Rightarrow> None)"

definition resource_due :: "Database \<Rightarrow> (CleanupStatus \<times> int option) list" where
  "resource_due d = map (\<lambda>r. (re_cleanupStatus r, re_cleanupDueAt r)) (ct_resources (tb_cloud d))"

lemma demo_observed:
  "map_option resource_due (database_of (observePublication plain_key demo_publish_ids 4000 ''pub1'' demo_publishing)) = Some [(CuPending, Some 364000)]"
  "resource_due demo_publishing = [(CuRetained, None)]"
  by code_simp+

lemma database_of_Some: "database_of x = Some d \<Longrightarrow> x = Inr d"
  by (simp add: database_of_def split: sum.splits)

theorem release_after_ttl_witness:
  "\<exists>d' r. observePublication plain_key demo_publish_ids 4000 ''pub1'' demo_publishing = Inr d' \<and> r \<in> set (ct_resources (tb_cloud d'))
    \<and> (\<exists>ttl. (300::int) \<le> ttl \<and> re_cleanupDueAt r = Some (4000 + (ttl + 60) * 1000))"
proof -
  obtain d' where "database_of (observePublication plain_key demo_publish_ids 4000 ''pub1'' demo_publishing) = Some d'" and due': "resource_due d' = [(CuPending, Some 364000)]"
    using demo_observed(1) by auto
  then have run: "observePublication plain_key demo_publish_ids 4000 ''pub1'' demo_publishing = Inr d'" using database_of_Some by blast
  from due' obtain r where r: "r \<in> set (ct_resources (tb_cloud d'))" "re_cleanupDueAt r = Some 364000" by (auto simp: resource_due_def)
  have "r \<notin> set (ct_resources (tb_cloud demo_publishing))"
    using demo_observed(2) r(2) by (auto simp: resource_due_def)
  from release_after_ttl [OF run r(1) this] obtain p ttl where p: "p \<in> set (ct_publications (tb_cloud demo_publishing))" "pb_previousMaxTtl p \<le> ttl"
    "re_cleanupDueAt r = Some (4000 + (ttl + 60) * 1000)" by blast
  have "map pb_previousMaxTtl (ct_publications (tb_cloud demo_publishing)) = [300]" by code_simp
  with p(1,2) have "300 \<le> ttl" by auto
  with run r(1) p(3) show ?thesis by blast
qed

text \<open>The same slot with a verified candidate, and a pool with one binding in a zone at Cloudflare.\<close>

definition demo_promotable :: Database where
  "demo_promotable = demo_pool_database\<lparr>tb_zones := tb_zones demo_reconcile_database, tb_providerAccounts := tb_providerAccounts demo_reconcile_database,
     tb_cloud := demo_cloud\<lparr>ct_slots := [demo_slot\<lparr>ms_candidateAddressId := Some ''d1'', ms_candidateVersion := 3\<rparr>],
       ct_healthStates := [demo_health_state\<lparr>hs_addressVersion := 3\<rparr>], ct_publications := [],
       ct_leases := [\<lparr>le_physicalKey = ''1234/us-west-2/i-1'', le_revision = 1, le_holder = Some ''w1'', le_expiresAt = 47000,
         le_incidentId = None, le_unresolvedStepId = None\<rparr>]\<rparr>\<rparr>"

definition demo_candidate :: RotationContext where
  "demo_candidate = projr (lockRotationContext plain_key (tb_cloud demo_promotable) ''s1'')"

definition published_of :: "CodeError + Database \<times> RotationPublicationRow option \<Rightarrow> RotationPublicationRow option" where
  "published_of x = (case x of Inr (_, p) \<Rightarrow> p | Inl _ \<Rightarrow> None)"

lemma demo_promoted:
  "map_option pb_previousMaxTtl (published_of (promote plain_key demo_publish_ids 1000 ''s1'' demo_candidate demo_lease demo_live demo_promotable)) = Some 60"
  "\<not> isl (lockRotationContext plain_key (tb_cloud demo_promotable) ''s1'')"
  "Option.bind (find_publication ''s1'' (cx_addressVersion demo_candidate) (tb_cloud demo_promotable)) pb_promotedAt = None"
  by code_simp+


definition demo_finished :: Database where
  "demo_finished = demo_release (demo_resource\<lparr>re_cleanupStatus := CuReleased\<rparr>) []"

lemma demo_completed:
  "map_option (\<lambda>d. map_option ri_status (find_incident d ''inc1'')) (database_of (completeCleanup demo_cleanup_env 5000 ''inc1'' demo_finished)) = Some (Some IncComplete)"
  "find_incident demo_finished ''inc1'' = Some demo_cleaning" "ri_status demo_cleaning = IncActive"
  by code_simp+


definition demo_last_step :: Database where
  "demo_last_step = demo_release (demo_resource\<lparr>re_cleanupStepId := Some ''cleanup:res1:1''\<rparr>)
     [demo_cleanup_step ''cleanup:res1'' 1 ''ec2.auto-ipv4.disable'' SsApplied, demo_cleanup_step ''cleanup:res1:1'' 2 ''ec2.eip.release'' SsInFlight]"

definition demo_receipt :: "CodeError + Database" where
  "demo_receipt = receiptCleanup demo_cleanup_env 5000 4000 demo_resource ''cleanup:res1:1'' [(''status'', JStr ''applied'')] True None demo_last_step"

lemma demo_released:
  "map_option (\<lambda>d. map_option re_cleanupStatus (find_resource ''res1'' (tb_cloud d))) (database_of demo_receipt) = Some (Some CuReleased)"
  "map_option re_cleanupStatus (find_resource ''res1'' (tb_cloud demo_last_step)) = Some CuPending" "re_id demo_resource = ''res1''"
  by code_simp+


end
