(* ===== verification/Ddns_Agents.thy ===== *)
theory Ddns_Agents
  imports Cloud_Publication
begin

text \<open>
  Dynamic DNS (\<open>apps/api/src/modules/ddns\<close>): an agent on a machine trades a one-time install token for a runtime token and reports the
  addresses of its endpoint. A report only proposes candidates; publishing them is left to the health checks that it queues. The
  hash of a token (\<open>hashToken\<close>), \<open>isIP\<close>, PostgreSQL's comparison of addresses and the URL parser are parameters, fresh tokens and row
  identifiers are inputs, and a Chinese message of the source is a constructor.
\<close>

section \<open>Errors and rows\<close>

datatype DdnsError = AgentMissing | EndpointMissing | NotDdns | BadApiUrl string | InstallTokenInvalid | RuntimeTokenInvalid
  | BearerMissing | NoAddress | AddressDeleting | NoHealthCheck | UpdateReturnedNoRow

record DdnsAgentRow =
  dg_id :: string
  dg_endpointId :: string
  dg_installTokenHash :: "string option"
  dg_installTokenExpiresAt :: "int option"
  dg_installTokenUsedAt :: "int option"
  dg_runtimeTokenHash :: "string option"
  dg_previousRuntimeTokenHash :: "string option"
  dg_previousRuntimeTokenExpiresAt :: "int option"
  dg_agentVersion :: "string option"
  dg_hostname :: "string option"
  dg_status :: ResourceStatus
  dg_lastSeenAt :: "int option"
  dg_lastIpChangedAt :: "int option"
  dg_revokedAt :: "int option"

record HealthCheckJob =
  hj_endpointId :: string
  hj_configId :: string
  hj_addressId :: string
  hj_manual :: bool

text \<open>The tables of the service: its own, the others, and the queue of health checks.\<close>

record DdnsState =
  dd_agents :: "DdnsAgentRow list"
  dd_db :: Database
  dd_queue :: "HealthCheckJob list"

record AuthUser =
  au_id :: string
  au_admin :: bool

section \<open>Policy (\<open>ddns-policy.ts\<close>, \<open>ddns-auth.ts\<close>)\<close>

definition RUNTIME_TOKEN_GRACE_MS :: int where
  "RUNTIME_TOKEN_GRACE_MS = 10 * 60 * 1000"

definition currentRuntimeTokenMatches :: "DdnsAgentRow \<Rightarrow> string \<Rightarrow> bool" where
  "currentRuntimeTokenMatches a tokenHash = (dg_runtimeTokenHash a = Some tokenHash)"

definition runtimeTokenMatches :: "DdnsAgentRow \<Rightarrow> string \<Rightarrow> int \<Rightarrow> bool" where
  "runtimeTokenMatches a tokenHash now = (dg_runtimeTokenHash a = Some tokenHash
     \<or> dg_previousRuntimeTokenHash a = Some tokenHash \<and> (case dg_previousRuntimeTokenExpiresAt a of Some t \<Rightarrow> now < t | None \<Rightarrow> False))"

definition rotateRuntimeToken :: "string \<Rightarrow> int \<Rightarrow> DdnsAgentRow \<Rightarrow> DdnsAgentRow" where
  "rotateRuntimeToken nextTokenHash now a = a\<lparr>dg_runtimeTokenHash := Some nextTokenHash, dg_previousRuntimeTokenHash := dg_runtimeTokenHash a,
     dg_previousRuntimeTokenExpiresAt := (case dg_runtimeTokenHash a of
        Some h \<Rightarrow> if h = [] then None else Some (now + RUNTIME_TOKEN_GRACE_MS) | None \<Rightarrow> None)\<rparr>"

record HeartbeatInput =
  hb_ipv4 :: "string option option"
  hb_ipv6 :: "string option option"
  hb_hostname :: "string option"
  hb_agentVersion :: "string option"

record DdnsAddressUpdate =
  du_family :: Family
  du_address :: "string option"

text \<open>An absent key reports nothing, \<open>null\<close> withdraws; the address the request came from replaces a \<open>null\<close> of its family.\<close>

definition explicit_updates :: "HeartbeatInput \<Rightarrow> DdnsAddressUpdate list" where
  "explicit_updates i = (case hb_ipv4 i of Some a \<Rightarrow> [\<lparr>du_family = V4, du_address = a\<rparr>] | None \<Rightarrow> [])
     @ (case hb_ipv6 i of Some a \<Rightarrow> [\<lparr>du_family = V6, du_address = a\<rparr>] | None \<Rightarrow> [])"

definition resolveDdnsAddressUpdates :: "HeartbeatInput \<Rightarrow> string option \<Rightarrow> DdnsAddressUpdate list" where
  "resolveDdnsAddressUpdates i inferred = (let updates = explicit_updates i in case inferred of
     None \<Rightarrow> updates
   | Some address \<Rightarrow> if address = [] then updates
     else (let family = (if CHR '':'' \<in> set address then V6 else V4) in
       case find (\<lambda>u. du_family u = family) updates of
         None \<Rightarrow> updates @ [\<lparr>du_family = family, du_address = Some address\<rparr>]
       | Some u \<Rightarrow> if du_address u = None
           then map (\<lambda>x. if du_family x = family then x\<lparr>du_address := Some address\<rparr> else x) updates else updates))"

definition lower :: "char \<Rightarrow> char" where
  "lower c = (let n = (of_char c :: nat) in if 65 \<le> n \<and> n \<le> 90 then char_of (n + 32) else c)"

definition blank :: "char \<Rightarrow> bool" where
  "blank c = (c = CHR '' '' \<or> c = CHR 0x09)"

definition token_char :: "char \<Rightarrow> bool" where
  "token_char c = (let n = (of_char c :: nat) in 65 \<le> n \<and> n \<le> 90 \<or> 97 \<le> n \<and> n \<le> 122 \<or> 48 \<le> n \<and> n \<le> 57 \<or> c = CHR ''_'' \<or> c = CHR ''-'')"

definition parseDdnsBearerToken :: "string option \<Rightarrow> DdnsError + string" where
  "parseDdnsBearerToken authorization = (case authorization of
     None \<Rightarrow> Inl BearerMissing
   | Some v \<Rightarrow> (let rest = drop 6 v; token = dropWhile blank rest in
       if map lower (take 6 v) \<noteq> ''bearer'' \<or> rest = token \<or> token = [] \<or> list_ex blank token then Inl BearerMissing
       else if 32 \<le> length token \<and> length token \<le> 256 \<and> list_all token_char token then Inr token else Inl BearerMissing))"

definition normalizeDdnsSourceIp :: "(string \<Rightarrow> nat) \<Rightarrow> string \<Rightarrow> string option" where
  "normalizeDdnsSourceIp isIP v = (let unwrapped = (if take 7 (map lower v) = ''::ffff:'' then drop 7 v else v) in
     if isIP unwrapped \<noteq> 0 then Some unwrapped else None)"

section \<open>The install command\<close>

record UrlParts =
  ul_href :: string
  ul_protocol :: string
  ul_hostname :: string
  ul_username :: string
  ul_password :: string
  ul_search :: string
  ul_hash :: string

fun quote_char :: "char \<Rightarrow> string" where
  "quote_char c = (if c = CHR 0x27 then [CHR 0x27, CHR 0x22, CHR 0x27, CHR 0x22, CHR 0x27] else [c])"

definition shellQuote :: "string \<Rightarrow> string" where
  "shellQuote v = [CHR 0x27] @ concat (map quote_char v) @ [CHR 0x27]"

definition drop_slashes :: "string \<Rightarrow> string" where
  "drop_slashes v = rev (dropWhile (\<lambda>c. c = CHR ''/'') (rev v))"

record InstallCommand =
  ic_apiUrl :: string
  ic_allowInsecureLoopback :: bool
  ic_command :: string

definition control_or_blank :: "char \<Rightarrow> bool" where
  "control_or_blank c = (let n = (of_char c :: nat) in n \<le> 32 \<or> n = 127)"

definition install_command :: "string \<Rightarrow> bool \<Rightarrow> string" where
  "install_command apiUrl insecure = (let protocol = shellQuote (if insecure then ''=http'' else ''=https'') in
     ''curl -q -fsS'' @ (if insecure then '' --noproxy '' @ [CHR 0x27] @ ''*'' @ [CHR 0x27] else []) @ '' --proto '' @ protocol @ '' --proto-redir '' @ protocol
     @ '' '' @ shellQuote (apiUrl @ ''/api/v1/ddns/install.sh'') @ '' | sudo sh -s -- install --url '' @ shellQuote apiUrl
     @ (if insecure then '' --allow-insecure-loopback'' else []))"

definition buildDdnsInstallCommand :: "(string \<Rightarrow> UrlParts option) \<Rightarrow> string \<Rightarrow> DdnsError + InstallCommand" where
  "buildDdnsInstallCommand parse v = (if v = [] \<or> list_ex control_or_blank v then Inl (BadApiUrl ''blank'')
   else (case parse v of
     None \<Rightarrow> Inl (BadApiUrl ''invalid'')
   | Some u \<Rightarrow> if ul_username u \<noteq> [] \<or> ul_password u \<noteq> [] \<or> ul_search u \<noteq> [] \<or> ul_hash u \<noteq> [] \<or> CHR ''?'' \<in> set v \<or> CHR ''#'' \<in> set v
       then Inl (BadApiUrl ''credentials'')
       else (let apiUrl = drop_slashes (ul_href u); insecure = (ul_protocol u = ''http:'');
           loopback = (ul_hostname u \<in> {''localhost'', ''127.0.0.1'', ''[::1]'', ''::1''}) in
         if ul_protocol u \<noteq> ''https:'' \<and> \<not> (insecure \<and> loopback) then Inl (BadApiUrl ''insecure'')
         else Inr \<lparr>ic_apiUrl = apiUrl, ic_allowInsecureLoopback = insecure, ic_command = install_command apiUrl insecure\<rparr>)))"

section \<open>Lookups\<close>

record OwnedEndpoint =
  oe_endpoint :: EndpointRow
  oe_pool :: EndpointPoolRow

definition findOwnedEndpoint :: "AuthUser \<Rightarrow> string \<Rightarrow> string \<Rightarrow> Database \<Rightarrow> DdnsError + OwnedEndpoint" where
  "findOwnedEndpoint actor poolId endpointId d =
    (case (select_one (\<lambda>e. en_id e = endpointId \<and> en_poolId e = poolId) (tb_endpoints d),
           select_one (\<lambda>p. ep_id p = poolId \<and> (au_admin actor \<or> ep_ownerUserId p = au_id actor)) (tb_endpointPools d)) of
       (Some e, Some p) \<Rightarrow> Inr \<lparr>oe_endpoint = e, oe_pool = p\<rparr>
     | _ \<Rightarrow> Inl EndpointMissing)"

definition agent_of :: "string \<Rightarrow> DdnsState \<Rightarrow> DdnsAgentRow option" where
  "agent_of endpointId s = select_one (\<lambda>a. dg_endpointId a = endpointId) (dd_agents s)"

definition endpoint_of :: "string \<Rightarrow> DdnsState \<Rightarrow> EndpointRow option" where
  "endpoint_of endpointId s = select_one (\<lambda>e. en_id e = endpointId) (tb_endpoints (dd_db s))"

definition pool_of :: "EndpointRow \<Rightarrow> DdnsState \<Rightarrow> EndpointPoolRow option" where
  "pool_of e s = select_one (\<lambda>p. ep_id p = en_poolId e) (tb_endpointPools (dd_db s))"

definition set_agent :: "string \<Rightarrow> (DdnsAgentRow \<Rightarrow> DdnsAgentRow) \<Rightarrow> DdnsState \<Rightarrow> DdnsState" where
  "set_agent i f s = s\<lparr>dd_agents := update_where (\<lambda>a. dg_id a = i) f (dd_agents s)\<rparr>"

definition add_audit :: "AuditLogRow \<Rightarrow> DdnsState \<Rightarrow> DdnsState" where
  "add_audit l s = s\<lparr>dd_db := (dd_db s)\<lparr>tb_auditLogs := tb_auditLogs (dd_db s) @ [l]\<rparr>\<rparr>"

definition agent_audit :: "EndpointPoolRow \<Rightarrow> string option \<Rightarrow> OperationSource \<Rightarrow> string \<Rightarrow> string \<Rightarrow> json \<Rightarrow> AuditLogRow" where
  "agent_audit pool actor source action agentId after = \<lparr>al_ownerUserId = ep_ownerUserId pool, al_actorUserId = actor, al_source = source,
     al_action = action, al_resourceType = ''ddns_agent'', al_resourceId = Some agentId, al_beforeSnapshot = JNull,
     al_afterSnapshot = JsonSnapshot after, al_operationId = None\<rparr>"
section \<open>Tokens\<close>

record DdnsEnv =
  de_hash :: "string \<Rightarrow> string"
  de_isIP :: "string \<Rightarrow> nat"
  de_sameInet :: "string \<Rightarrow> string \<Rightarrow> bool"
  de_parseUrl :: "string \<Rightarrow> UrlParts option"
  de_apiUrl :: string
  de_iso :: "int \<Rightarrow> string"

definition getAgent :: "AuthUser \<Rightarrow> string \<Rightarrow> string \<Rightarrow> DdnsState \<Rightarrow> DdnsError + DdnsAgentRow" where
  "getAgent actor poolId endpointId s = bindE (findOwnedEndpoint actor poolId endpointId (dd_db s)) (\<lambda>_.
     case agent_of endpointId s of None \<Rightarrow> Inl AgentMissing | Some a \<Rightarrow> Inr a)"

text \<open>\<open>publicAgent\<close>: no hash of a token leaves the service.\<close>

definition opt_date :: "(int \<Rightarrow> string) \<Rightarrow> int option \<Rightarrow> json" where
  "opt_date render t = (case t of Some x \<Rightarrow> JStr (render x) | None \<Rightarrow> JNull)"

definition status_text :: "ResourceStatus \<Rightarrow> string" where
  "status_text s = (case s of StatusActive \<Rightarrow> ''active'' | StatusDisabled \<Rightarrow> ''disabled'' | StatusError \<Rightarrow> ''error'')"

definition publicAgent :: "(int \<Rightarrow> string) \<Rightarrow> int \<Rightarrow> DdnsAgentRow \<Rightarrow> json" where
  "publicAgent render createdAt a = JObj [(''id'', JStr (dg_id a)), (''endpointId'', JStr (dg_endpointId a)), (''status'', JStr (status_text (dg_status a))),
     (''agentVersion'', opt_str (dg_agentVersion a)), (''hostname'', opt_str (dg_hostname a)),
     (''hasRuntimeToken'', JBool (case dg_runtimeTokenHash a of Some h \<Rightarrow> h \<noteq> [] | None \<Rightarrow> False)),
     (''installTokenExpiresAt'', opt_date render (dg_installTokenExpiresAt a)), (''installTokenUsedAt'', opt_date render (dg_installTokenUsedAt a)),
     (''lastSeenAt'', opt_date render (dg_lastSeenAt a)), (''lastIpChangedAt'', opt_date render (dg_lastIpChangedAt a)),
     (''revokedAt'', opt_date render (dg_revokedAt a)), (''createdAt'', JStr (render createdAt))]"

definition renewed_agent :: "string \<Rightarrow> int \<Rightarrow> DdnsAgentRow \<Rightarrow> DdnsAgentRow" where
  "renewed_agent h expiresAt a = a\<lparr>dg_installTokenHash := Some h, dg_installTokenExpiresAt := Some expiresAt, dg_installTokenUsedAt := None,
     dg_status := StatusActive, dg_revokedAt := None\<rparr>"

definition new_agent :: "string \<Rightarrow> string \<Rightarrow> string \<Rightarrow> int \<Rightarrow> DdnsAgentRow" where
  "new_agent i endpointId h expiresAt = \<lparr>dg_id = i, dg_endpointId = endpointId, dg_installTokenHash = Some h, dg_installTokenExpiresAt = Some expiresAt,
     dg_installTokenUsedAt = None, dg_runtimeTokenHash = None, dg_previousRuntimeTokenHash = None, dg_previousRuntimeTokenExpiresAt = None,
     dg_agentVersion = None, dg_hostname = None, dg_status = StatusActive, dg_lastSeenAt = None, dg_lastIpChangedAt = None, dg_revokedAt = None\<rparr>"

definition upsert_agent :: "string \<Rightarrow> string \<Rightarrow> string \<Rightarrow> int \<Rightarrow> DdnsState \<Rightarrow> DdnsState \<times> string" where
  "upsert_agent fresh endpointId h expiresAt s = (case agent_of endpointId s of
     Some a \<Rightarrow> (s\<lparr>dd_agents := update_where (\<lambda>x. dg_endpointId x = endpointId) (renewed_agent h expiresAt) (dd_agents s)\<rparr>, dg_id a)
   | None \<Rightarrow> (s\<lparr>dd_agents := dd_agents s @ [new_agent fresh endpointId h expiresAt]\<rparr>, fresh))"

text \<open>\<open>others\<close> is what other requests commit between the first look and the transaction.\<close>

definition createInstallToken ::
  "DdnsEnv \<Rightarrow> AuthUser \<Rightarrow> string \<Rightarrow> string \<Rightarrow> int \<Rightarrow> int \<Rightarrow> string \<Rightarrow> string \<Rightarrow> (DdnsState \<Rightarrow> DdnsState) \<Rightarrow> DdnsState
    \<Rightarrow> DdnsError + DdnsState \<times> int \<times> string" where
  "createInstallToken env actor poolId endpointId expiresInSeconds now token fresh others s =
    bindE (findOwnedEndpoint actor poolId endpointId (dd_db s)) (\<lambda>owned.
    if en_addressMode (oe_endpoint owned) \<noteq> DdnsMode then Inl NotDdns
    else bindE (buildDdnsInstallCommand (de_parseUrl env) (de_apiUrl env)) (\<lambda>installer. let s1 = others s in
      case select_one (\<lambda>e. en_id e = endpointId \<and> en_poolId e = poolId) (tb_endpoints (dd_db s1)) of
        None \<Rightarrow> Inl EndpointMissing
      | Some locked \<Rightarrow> if en_addressMode locked \<noteq> DdnsMode then Inl NotDdns
          else (let expiresAt = now + expiresInSeconds * 1000; (s2, agentId) = upsert_agent fresh endpointId (de_hash env token) expiresAt s1 in
            Inr (add_audit (agent_audit (oe_pool owned) (Some (au_id actor)) UserSource ''ddns.install_token.create'' agentId
              (JObj [(''endpointId'', JStr endpointId), (''expiresAt'', JStr (de_iso env expiresAt))])) s2, expiresAt, ic_command installer))))"

definition disabled_agent :: "int \<Rightarrow> DdnsAgentRow \<Rightarrow> DdnsAgentRow" where
  "disabled_agent now a = a\<lparr>dg_status := StatusDisabled, dg_installTokenHash := None, dg_installTokenExpiresAt := None, dg_runtimeTokenHash := None,
     dg_previousRuntimeTokenHash := None, dg_previousRuntimeTokenExpiresAt := None, dg_revokedAt := Some now\<rparr>"

definition revoke :: "DdnsEnv \<Rightarrow> AuthUser \<Rightarrow> string \<Rightarrow> string \<Rightarrow> int \<Rightarrow> DdnsState \<Rightarrow> DdnsError + DdnsState" where
  "revoke env actor poolId endpointId now s = bindE (findOwnedEndpoint actor poolId endpointId (dd_db s)) (\<lambda>owned.
     case agent_of endpointId s of
       None \<Rightarrow> Inl AgentMissing
     | Some a \<Rightarrow> Inr (add_audit (agent_audit (oe_pool owned) (Some (au_id actor)) UserSource ''ddns.agent.revoke'' (dg_id a)
         (JObj [(''endpointId'', JStr endpointId), (''revokedAt'', JStr (de_iso env now))]))
         (s\<lparr>dd_agents := update_where (\<lambda>x. dg_endpointId x = endpointId) (disabled_agent now) (dd_agents s)\<rparr>)))"

definition install_valid :: "string \<Rightarrow> int \<Rightarrow> EndpointRow \<Rightarrow> DdnsAgentRow \<Rightarrow> bool" where
  "install_valid h now e a = (en_addressMode e = DdnsMode \<and> dg_installTokenHash a = Some h \<and> dg_status a = StatusActive
     \<and> dg_installTokenUsedAt a = None \<and> (case dg_installTokenExpiresAt a of Some t \<Rightarrow> now < t | None \<Rightarrow> False))"

definition exchanged_agent :: "string \<Rightarrow> int \<Rightarrow> DdnsAgentRow \<Rightarrow> DdnsAgentRow" where
  "exchanged_agent h now a = (rotateRuntimeToken h now a)\<lparr>dg_installTokenUsedAt := Some now, dg_installTokenHash := None, dg_lastSeenAt := Some now\<rparr>"

definition exchange :: "DdnsEnv \<Rightarrow> string \<Rightarrow> string \<Rightarrow> int \<Rightarrow> (DdnsState \<Rightarrow> DdnsState) \<Rightarrow> DdnsState \<Rightarrow> DdnsError + DdnsState \<times> string" where
  "exchange env installToken runtimeToken now others s0 = (let h = de_hash env installToken; s = others s0 in
     case select_one (\<lambda>a. dg_installTokenHash a = Some h \<and> endpoint_of (dg_endpointId a) s0 \<noteq> None) (dd_agents s0) of
       None \<Rightarrow> Inl InstallTokenInvalid
     | Some candidate \<Rightarrow> (case select_one (\<lambda>a. dg_id a = dg_id candidate) (dd_agents s) of
         None \<Rightarrow> Inl InstallTokenInvalid
       | Some a \<Rightarrow> (case endpoint_of (dg_endpointId a) s of
           None \<Rightarrow> Inl InstallTokenInvalid
         | Some e \<Rightarrow> (case pool_of e s of
             None \<Rightarrow> Inl InstallTokenInvalid
           | Some p \<Rightarrow> if \<not> install_valid h now e a then Inl InstallTokenInvalid
               else Inr (add_audit (agent_audit p None DdnsSource ''ddns.install_token.exchange'' (dg_id a)
                   (JObj [(''endpointId'', JStr (en_id e)), (''exchangedAt'', JStr (de_iso env now))]))
                 (set_agent (dg_id a) (exchanged_agent (de_hash env runtimeToken) now) s), dg_endpointId a)))))"

section \<open>Authentication\<close>

record Authenticated =
  at_agent :: DdnsAgentRow
  at_endpoint :: EndpointRow
  at_pool :: EndpointPoolRow
  at_tokenHash :: string

definition may_authenticate :: "string \<Rightarrow> int \<Rightarrow> DdnsState \<Rightarrow> DdnsAgentRow \<Rightarrow> bool" where
  "may_authenticate h now s a = (runtimeTokenMatches a h now \<and> dg_status a = StatusActive \<and> dg_revokedAt a = None
     \<and> (case endpoint_of (dg_endpointId a) s of Some e \<Rightarrow> en_addressMode e = DdnsMode \<and> pool_of e s \<noteq> None | None \<Rightarrow> False))"

definition authenticateRuntimeToken :: "DdnsEnv \<Rightarrow> string option \<Rightarrow> int \<Rightarrow> DdnsState \<Rightarrow> DdnsError + Authenticated" where
  "authenticateRuntimeToken env authorization now s = bindE (parseDdnsBearerToken authorization) (\<lambda>token. let h = de_hash env token in
     case select_one (may_authenticate h now s) (dd_agents s) of
       None \<Rightarrow> Inl RuntimeTokenInvalid
     | Some a \<Rightarrow> (case endpoint_of (dg_endpointId a) s of
         None \<Rightarrow> Inl RuntimeTokenInvalid
       | Some e \<Rightarrow> (case pool_of e s of None \<Rightarrow> Inl RuntimeTokenInvalid
           | Some p \<Rightarrow> Inr \<lparr>at_agent = a, at_endpoint = e, at_pool = p, at_tokenHash = h\<rparr>)))"

text \<open>The locked rows again: what the transaction finds may no longer be what was authenticated.\<close>

definition still_valid :: "(DdnsAgentRow \<Rightarrow> bool) \<Rightarrow> Authenticated \<Rightarrow> DdnsState \<Rightarrow> DdnsAgentRow option" where
  "still_valid matches who s = (case (endpoint_of (en_id (at_endpoint who)) s, select_one (\<lambda>a. dg_id a = dg_id (at_agent who)) (dd_agents s)) of
     (Some e, Some a) \<Rightarrow> if en_addressMode e = DdnsMode \<and> dg_status a = StatusActive \<and> dg_revokedAt a = None \<and> matches a then Some a else None
   | _ \<Rightarrow> None)"

definition revokeRuntime :: "DdnsEnv \<Rightarrow> string option \<Rightarrow> int \<Rightarrow> (DdnsState \<Rightarrow> DdnsState) \<Rightarrow> DdnsState \<Rightarrow> DdnsError + DdnsState" where
  "revokeRuntime env authorization now others s = bindE (authenticateRuntimeToken env authorization now s) (\<lambda>who. let s1 = others s in
     case still_valid (\<lambda>a. currentRuntimeTokenMatches a (at_tokenHash who)) who s1 of
       None \<Rightarrow> Inl RuntimeTokenInvalid
     | Some a \<Rightarrow> Inr (add_audit (agent_audit (at_pool who) None DdnsSource ''ddns.agent.self_revoke'' (dg_id a)
         (JObj [(''endpointId'', JStr (en_id (at_endpoint who))), (''revokedAt'', JStr (de_iso env now))]))
         (set_agent (dg_id a) (disabled_agent now) s1)))"
section \<open>The heartbeat\<close>

text \<open>What the walk over the reported addresses has found; \<open>hr_changed\<close> says whether a row changed.\<close>

record Reported =
  hr_rows :: "EndpointAddressRow list"
  hr_candidates :: "EndpointAddressRow list"
  hr_created :: "EndpointAddressRow list"
  hr_withdrawn :: "Family list"
  hr_published :: "Family list"
  hr_changed :: bool

definition address_in :: "string \<Rightarrow> Family \<Rightarrow> AddressState \<Rightarrow> EndpointAddressRow list \<Rightarrow> EndpointAddressRow option" where
  "address_in endpointId family state rows = select_one (\<lambda>a. ea_endpointId a = endpointId \<and> ea_family a = family \<and> ea_state a = state) rows"

definition replace_address :: "int \<Rightarrow> EndpointAddressRow option \<Rightarrow> Reported \<Rightarrow> Reported" where
  "replace_address now old r = (case old of None \<Rightarrow> r
     | Some a \<Rightarrow> r\<lparr>hr_rows := update_where (\<lambda>x. ea_id x = ea_id a) (\<lambda>x. x\<lparr>ea_state := PreviousAddress, ea_replacedAt := Some now\<rparr>) (hr_rows r),
         hr_changed := True\<rparr>)"

definition new_candidate :: "string \<Rightarrow> string \<Rightarrow> Family \<Rightarrow> string \<Rightarrow> int \<Rightarrow> EndpointAddressRow" where
  "new_candidate i endpointId family address now = \<lparr>ea_id = i, ea_endpointId = endpointId, ea_family = family, ea_address = address,
     ea_state = CandidateAddress, ea_source = DdnsMode, ea_healthState = Unknown, ea_consecutiveSuccesses = 0, ea_consecutiveFailures = 0,
     ea_lastCheckedAt = None, ea_observedAt = now, ea_promotedAt = None, ea_replacedAt = None\<rparr>"

definition withdraw :: "int \<Rightarrow> Family \<Rightarrow> EndpointAddressRow option \<Rightarrow> EndpointAddressRow option \<Rightarrow> Reported \<Rightarrow> Reported" where
  "withdraw now family current candidate r = (let r1 = replace_address now current (replace_address now candidate r) in
     r1\<lparr>hr_published := hr_published r1 @ (if current \<noteq> None then [family] else []),
        hr_withdrawn := hr_withdrawn r1 @ (if candidate \<noteq> None \<or> current \<noteq> None then [family] else [])\<rparr>)"

definition propose :: "int \<Rightarrow> EndpointAddressRow \<Rightarrow> EndpointAddressRow option \<Rightarrow> Reported \<Rightarrow> Reported" where
  "propose now fresh candidate r = (let r1 = replace_address now candidate r in
     r1\<lparr>hr_rows := hr_rows r1 @ [fresh], hr_candidates := hr_candidates r1 @ [fresh], hr_created := hr_created r1 @ [fresh], hr_changed := True\<rparr>)"

definition reportAddress :: "int \<Rightarrow> string \<Rightarrow> (Family \<Rightarrow> string) \<Rightarrow> DdnsAddressUpdate \<Rightarrow> Reported \<Rightarrow> Reported" where
  "reportAddress now endpointId ids u r = (let family = du_family u;
       current = address_in endpointId family CurrentAddress (hr_rows r); candidate = address_in endpointId family CandidateAddress (hr_rows r) in
     case du_address u of
       None \<Rightarrow> withdraw now family current candidate r
     | Some address \<Rightarrow>
         if map_option ea_address current = Some address then replace_address now candidate r
         else if map_option ea_address candidate = Some address then r\<lparr>hr_candidates := hr_candidates r @ [the candidate]\<rparr>
         else propose now (new_candidate (ids family) endpointId family address now) candidate r)"

record HeartbeatIds =
  hi_address :: "Family \<Rightarrow> string"
  hi_intent :: string
  hi_event :: string

definition seen_agent :: "HeartbeatInput \<Rightarrow> int \<Rightarrow> DdnsAgentRow \<Rightarrow> DdnsAgentRow" where
  "seen_agent i now a = (let expired = (case dg_previousRuntimeTokenExpiresAt a of Some t \<Rightarrow> t \<le> now | None \<Rightarrow> False) in
     a\<lparr>dg_hostname := (case hb_hostname i of Some h \<Rightarrow> Some h | None \<Rightarrow> dg_hostname a),
       dg_agentVersion := (case hb_agentVersion i of Some v \<Rightarrow> Some v | None \<Rightarrow> dg_agentVersion a),
       dg_previousRuntimeTokenHash := (if expired then None else dg_previousRuntimeTokenHash a),
       dg_previousRuntimeTokenExpiresAt := (if expired then None else dg_previousRuntimeTokenExpiresAt a),
       dg_lastSeenAt := Some now\<rparr>)"

definition endpoint_audit :: "EndpointPoolRow \<Rightarrow> string \<Rightarrow> string \<Rightarrow> json \<Rightarrow> AuditLogRow" where
  "endpoint_audit pool endpointId action after = \<lparr>al_ownerUserId = ep_ownerUserId pool, al_actorUserId = None, al_source = DdnsSource,
     al_action = action, al_resourceType = ''endpoint'', al_resourceId = Some endpointId, al_beforeSnapshot = JNull,
     al_afterSnapshot = JsonSnapshot after, al_operationId = None\<rparr>"

definition family_text :: "Family \<Rightarrow> json" where
  "family_text f = JStr (case f of V4 \<Rightarrow> ''4'' | V6 \<Rightarrow> ''6'')"

definition report_audits :: "DdnsEnv \<Rightarrow> int \<Rightarrow> Authenticated \<Rightarrow> Reported \<Rightarrow> AuditLogRow list" where
  "report_audits env now who r =
    (if hr_created r = [] then [] else [endpoint_audit (at_pool who) (en_id (at_endpoint who)) ''ddns.address.candidate''
       (JArr (map (\<lambda>a. JObj [(''family'', family_text (ea_family a)), (''address'', JStr (ea_address a)), (''observedAt'', JStr (de_iso env (ea_observedAt a)))])
         (hr_created r)))])
     @ (if hr_withdrawn r = [] then [] else [endpoint_audit (at_pool who) (en_id (at_endpoint who)) ''ddns.address.withdraw''
       (JObj [(''families'', JArr (map family_text (hr_withdrawn r))), (''withdrawnAt'', JStr (de_iso env now))])])"

text \<open>Only the withdrawal of a published address asks for a reconciliation.\<close>

definition withdrawal_intent :: "HeartbeatIds \<Rightarrow> int \<Rightarrow> Authenticated \<Rightarrow> Reported \<Rightarrow> Database \<Rightarrow> DdnsError + Database" where
  "withdrawal_intent ids now who r d = (if hr_published r = [] then Inr d
     else (let poolId = ep_id (at_pool who);
         d1 = d\<lparr>tb_endpointPools := update_where (\<lambda>p. ep_id p = poolId) (\<lambda>p. p\<lparr>ep_decisionRevision := ep_decisionRevision p + 1\<rparr>) (tb_endpointPools d)\<rparr> in
       case select_one (\<lambda>p. ep_id p = poolId) (tb_endpointPools d1) of
         None \<Rightarrow> Inl UpdateReturnedNoRow
       | Some p \<Rightarrow> Inr (d1\<lparr>tb_reconcileIntents := tb_reconcileIntents d1 @ [\<lparr>ri_id = hi_intent ids, ri_eventId = hi_event ids, ri_poolId = poolId,
           ri_endpointId = Some (en_id (at_endpoint who)), ri_decisionRevision = ep_decisionRevision p, ri_policyRevision = ep_policyRevision p,
           ri_trigger = RepairTrigger, ri_source = DdnsSource, ri_force = False, ri_availableAt = now, ri_completedAt = None\<rparr>]\<rparr>)))"

definition reportAddresses ::
  "DdnsEnv \<Rightarrow> HeartbeatIds \<Rightarrow> int \<Rightarrow> HeartbeatInput \<Rightarrow> Authenticated \<Rightarrow> DdnsAgentRow \<Rightarrow> DdnsAddressUpdate list \<Rightarrow> DdnsState
    \<Rightarrow> DdnsError + DdnsState \<times> Reported" where
  "reportAddresses env ids now i who a updates s = (let d = dd_db s in
     if list_ex (\<lambda>u. case du_address u of Some x \<Rightarrow> instanceLifecycleAddressDeleting (de_sameInet env) (tb_cloud d) x | None \<Rightarrow> False) updates
     then Inl AddressDeleting
     else (let r = fold (reportAddress now (en_id (at_endpoint who)) (hi_address ids)) updates
             \<lparr>hr_rows = tb_endpointAddresses d, hr_candidates = [], hr_created = [], hr_withdrawn = [], hr_published = [], hr_changed = False\<rparr>;
           d1 = d\<lparr>tb_endpointAddresses := hr_rows r, tb_auditLogs := tb_auditLogs d @ report_audits env now who r\<rparr> in
       bindE (withdrawal_intent ids now who r d1) (\<lambda>d2.
       Inr ((set_agent (dg_id a) (\<lambda>x. (seen_agent i now x)\<lparr>dg_lastIpChangedAt := (if hr_changed r then Some now else dg_lastIpChangedAt x)\<rparr>) s)\<lparr>dd_db := d2\<rparr>, r))))"

section \<open>Health checks of candidates\<close>

definition selectLocalHealthCheckConfigs :: "HealthCheckConfigRow list \<Rightarrow> string \<Rightarrow> string \<Rightarrow> AddressHealthPolicyRow option \<Rightarrow> HealthCheckConfigRow list" where
  "selectLocalHealthCheckConfigs configs endpointId poolId policy = (case policy of
     Some p \<Rightarrow> if hp_mode p \<noteq> LocalMode then []
       else if hp_configId p \<noteq> [] then filter (\<lambda>c. hc_id c = hp_configId p \<and> (hc_endpointId c = Some endpointId \<or> hc_poolId c = Some poolId)) configs
       else (let own = filter (\<lambda>c. hc_endpointId c = Some endpointId) configs in if own \<noteq> [] then own else filter (\<lambda>c. hc_poolId c = Some poolId) configs)
   | None \<Rightarrow> (let own = filter (\<lambda>c. hc_endpointId c = Some endpointId) configs in if own \<noteq> [] then own else filter (\<lambda>c. hc_poolId c = Some poolId) configs))"

definition enqueueCandidateChecks :: "string \<Rightarrow> string \<Rightarrow> EndpointAddressRow \<Rightarrow> DdnsState \<Rightarrow> DdnsError + DdnsState \<times> nat" where
  "enqueueCandidateChecks poolId endpointId a s = (let d = dd_db s;
       policy = select_one (\<lambda>p. hp_endpointId p = Some endpointId \<and> hp_family p = ea_family a) (ct_healthPolicies (tb_cloud d)) in
     if (case policy of Some p \<Rightarrow> hp_mode p \<noteq> LocalMode | None \<Rightarrow> False) then Inr (s, 0)
     else (let configs = filter (\<lambda>c. hc_enabled c \<and> (hc_endpointId c = Some endpointId \<or> hc_poolId c = Some poolId)) (tb_healthCheckConfigs d);
           chosen = selectLocalHealthCheckConfigs configs endpointId poolId policy in
       if chosen = [] then Inl NoHealthCheck
       else Inr (s\<lparr>dd_queue := dd_queue s @ map (\<lambda>c. \<lparr>hj_endpointId = endpointId, hj_configId = hc_id c, hj_addressId = ea_id a, hj_manual = True\<rparr>) chosen\<rparr>,
         length chosen)))"

fun enqueueAll :: "string \<Rightarrow> string \<Rightarrow> EndpointAddressRow list \<Rightarrow> DdnsState \<Rightarrow> DdnsState \<times> (DdnsError + nat)" where
  "enqueueAll poolId endpointId [] s = (s, Inr 0)"
| "enqueueAll poolId endpointId (a # as) s = (case enqueueCandidateChecks poolId endpointId a s of
     Inl e \<Rightarrow> (s, Inl e)
   | Inr (s1, n) \<Rightarrow> (case enqueueAll poolId endpointId as s1 of (s2, Inl e) \<Rightarrow> (s2, Inl e) | (s2, Inr m) \<Rightarrow> (s2, Inr (n + m))))"

record HeartbeatReply =
  hy_changed :: bool
  hy_candidates :: "(Family \<times> string) list"
  hy_withdrawn :: "Family list"
  hy_queued :: nat
  hy_lastSeenAt :: int

text \<open>The transaction is committed before the checks are queued: an error of the queue leaves the candidates behind.
  \<open>now'\<close> is the clock at which the locked agent is matched again.\<close>

definition heartbeat ::
  "DdnsEnv \<Rightarrow> HeartbeatIds \<Rightarrow> string option \<Rightarrow> HeartbeatInput \<Rightarrow> string \<Rightarrow> int \<Rightarrow> int \<Rightarrow> (DdnsState \<Rightarrow> DdnsState) \<Rightarrow> DdnsState
    \<Rightarrow> DdnsState \<times> (DdnsError + HeartbeatReply)" where
  "heartbeat env ids authorization i sourceIp now now' others s = (case authenticateRuntimeToken env authorization now s of
     Inl e \<Rightarrow> (s, Inl e)
   | Inr who \<Rightarrow> (let updates = resolveDdnsAddressUpdates i (normalizeDdnsSourceIp (de_isIP env) sourceIp); s1 = others s in
       if updates = [] then (s, Inl NoAddress)
       else (case still_valid (\<lambda>a. runtimeTokenMatches a (at_tokenHash who) now') who s1 of
         None \<Rightarrow> (s1, Inl RuntimeTokenInvalid)
       | Some a \<Rightarrow> (case reportAddresses env ids now i who a updates s1 of
           Inl e \<Rightarrow> (s1, Inl e)
         | Inr (s2, r) \<Rightarrow> (case enqueueAll (ep_id (at_pool who)) (en_id (at_endpoint who)) (hr_candidates r) s2 of
             (s3, Inl e) \<Rightarrow> (s3, Inl e)
           | (s3, Inr n) \<Rightarrow> (s3, Inr \<lparr>hy_changed = hr_changed r, hy_candidates = map (\<lambda>a. (ea_family a, ea_address a)) (hr_candidates r),
               hy_withdrawn = hr_withdrawn r, hy_queued = n, hy_lastSeenAt = now\<rparr>))))))"

end
