(* ===== verification/Ddns_Safety.thy ===== *)
theory Ddns_Safety
  imports Ddns_Agents
begin

text \<open>
  What the DDNS service keeps: the rows of an endpoint have one candidate and one current address per family, a report publishes nothing,
  an install token is spent once, a revoked agent is shut out, and a quoted word reads back as one shell word.
\<close>

section \<open>Rows of addresses\<close>

definition active :: "EndpointAddressRow \<Rightarrow> bool" where
  "active a = (ea_state a = CandidateAddress \<or> ea_state a = CurrentAddress)"

definition address_key :: "EndpointAddressRow \<Rightarrow> string \<times> Family \<times> AddressState" where
  "address_key a = (ea_endpointId a, ea_family a, ea_state a)"

text \<open>The index \<open>endpoint_addresses_active_family_unique\<close>.\<close>

definition one_active :: "EndpointAddressRow list \<Rightarrow> bool" where
  "one_active rows = distinct (map address_key (filter active rows))"

definition retire :: "int \<Rightarrow> string \<Rightarrow> EndpointAddressRow list \<Rightarrow> EndpointAddressRow list" where
  "retire now i = update_where (\<lambda>x. ea_id x = i) (\<lambda>x. x\<lparr>ea_state := PreviousAddress, ea_replacedAt := Some now\<rparr>)"

definition retired :: "int \<Rightarrow> EndpointAddressRow option \<Rightarrow> EndpointAddressRow list \<Rightarrow> EndpointAddressRow list" where
  "retired now old rows = (case old of None \<Rightarrow> rows | Some a \<Rightarrow> retire now (ea_id a) rows)"

lemma replace_address_rows [simp]: "hr_rows (replace_address now old r) = retired now old (hr_rows r)"
  by (simp add: replace_address_def retired_def retire_def split: option.splits)

lemma retire_active: "filter active (retire now i rows) = filter (\<lambda>x. ea_id x \<noteq> i) (filter active rows)"
  by (induction rows) (auto simp: retire_def update_where_def active_def)

lemma retired_active: "filter active (retired now old rows) = filter (\<lambda>x. old \<noteq> None \<longrightarrow> ea_id x \<noteq> ea_id (the old)) (filter active rows)"
  by (cases old) (simp_all add: retired_def retire_active del: filter_filter)

lemma retired_one_active: "one_active rows \<Longrightarrow> one_active (retired now old rows)"
  unfolding one_active_def retired_active by (rule distinct_map_filter)

lemma retired_ids [simp]: "map ea_id (retired now old rows) = map ea_id rows"
  by (simp add: retired_def retire_def map_update_where split: option.splits)

lemma retired_currents: "a \<in> set (retired now old rows) \<Longrightarrow> active a \<Longrightarrow> a \<in> set rows"
proof -
  assume "a \<in> set (retired now old rows)" and "active a"
  then have "a \<in> set (filter active (retired now old rows))" by simp
  then show ?thesis unfolding retired_active by simp
qed

lemma retired_others:
  assumes "distinct (map ea_id rows)" and "\<And>a. old = Some a \<Longrightarrow> a \<in> set rows \<and> \<not> P a"
    and "\<And>a s t. P (a\<lparr>ea_state := s, ea_replacedAt := t\<rparr>) = P a"
  shows "filter P (retired now old rows) = filter P rows"
proof (cases old)
  case (Some a)
  with assms(2) have a: "a \<in> set rows" "\<not> P a" by auto
  have same: "x = a" if "x \<in> set rows" "ea_id x = ea_id a" for x
    using assms(1) a(1) that by (auto simp: distinct_map inj_on_def)
  have "filter P (map (\<lambda>x. if ea_id x = ea_id a then x\<lparr>ea_state := PreviousAddress, ea_replacedAt := Some now\<rparr> else x) xs) = filter P xs"
    if "set xs \<subseteq> set rows" for xs
    using that by (induction xs) (use same a(2) assms(3) in auto)
  then show ?thesis by (simp add: Some retired_def retire_def update_where_def)
qed (simp add: retired_def)

lemma address_in_Some: "address_in e f st rows = Some a \<Longrightarrow> a \<in> set rows \<and> ea_endpointId a = e \<and> ea_family a = f \<and> ea_state a = st"
  unfolding address_in_def by (drule select_one_Some) simp

lemma address_in_None: "address_in e f st rows = None \<Longrightarrow> a \<in> set rows \<Longrightarrow> \<not> (ea_endpointId a = e \<and> ea_family a = f \<and> ea_state a = st)"
  unfolding address_in_def select_one_None by blast

text \<open>With the index, the row that the lookup finds is the only one, and it is gone once it is retired.\<close>

lemma one_active_same:
  assumes "one_active rows" and "a \<in> set rows" and "b \<in> set rows" and "active a" and "address_key a = address_key b"
  shows "a = b"
proof -
  have "active b" using assms(4,5) by (simp add: active_def address_key_def)
  then show ?thesis using assms unfolding one_active_def distinct_map inj_on_def by simp
qed

lemma address_in_retired:
  assumes "one_active rows" and "st = CandidateAddress \<or> st = CurrentAddress"
  shows "address_in e f st (retired now (address_in e f st rows) rows) = None"
proof (rule ccontr)
  assume "address_in e f st (retired now (address_in e f st rows) rows) \<noteq> None"
  then obtain a where found: "address_in e f st (retired now (address_in e f st rows) rows) = Some a" by blast
  from address_in_Some [OF this] assms(2) have a: "a \<in> set (retired now (address_in e f st rows) rows)" "active a"
    "ea_endpointId a = e" "ea_family a = f" "ea_state a = st" by (auto simp: active_def)
  have mem: "a \<in> set rows" by (rule retired_currents [OF a(1,2)])
  then obtain b where b: "address_in e f st rows = Some b" using address_in_None a(3-5) by (cases "address_in e f st rows") blast+
  have "a = b" by (rule one_active_same [OF assms(1) mem _ a(2)]) (use address_in_Some [OF b] a in \<open>auto simp: address_key_def\<close>)
  have "a \<in> set (filter active (retired now (address_in e f st rows) rows))" using a(1,2) by simp
  then show False unfolding retired_active b using \<open>a = b\<close> by simp
qed

lemma address_in_kept:
  assumes "address_in e f st rows = Some a" and "old \<noteq> None \<Longrightarrow> ea_id (the old) \<noteq> ea_id a"
  shows "a \<in> set (retired now old rows)"
  using assms address_in_Some [OF assms(1)] by (cases old) (auto simp: retired_def retire_def set_update_where intro!: bexI [of _ a])
section \<open>One reported address\<close>

abbreviation current_of :: "string \<Rightarrow> Family \<Rightarrow> EndpointAddressRow list \<Rightarrow> EndpointAddressRow option" where
  "current_of e f \<equiv> address_in e f CurrentAddress"

abbreviation candidate_of :: "string \<Rightarrow> Family \<Rightarrow> EndpointAddressRow list \<Rightarrow> EndpointAddressRow option" where
  "candidate_of e f \<equiv> address_in e f CandidateAddress"

lemma reportAddress_rows:
  "hr_rows (reportAddress now e ids u r) = (let f = du_family u; rows = hr_rows r in case du_address u of
     None \<Rightarrow> retired now (current_of e f rows) (retired now (candidate_of e f rows) rows)
   | Some x \<Rightarrow> if map_option ea_address (current_of e f rows) = Some x then retired now (candidate_of e f rows) rows
       else if map_option ea_address (candidate_of e f rows) = Some x then rows
       else retired now (candidate_of e f rows) rows @ [new_candidate (ids f) e f x now])"
  by (auto simp: reportAddress_def Let_def withdraw_def propose_def split: option.splits)

definition elsewhere :: "string \<Rightarrow> Family \<Rightarrow> EndpointAddressRow \<Rightarrow> bool" where
  "elsewhere e f a = (\<not> (ea_endpointId a = e \<and> ea_family a = f))"

lemma retired_elsewhere:
  assumes "distinct (map ea_id rows)" and "address_in e f st rows0 = old" and "\<And>a. old = Some a \<Longrightarrow> a \<in> set rows"
  shows "filter (elsewhere e f) (retired now old rows) = filter (elsewhere e f) rows"
proof (rule retired_others [OF assms(1)])
  show "a \<in> set rows \<and> \<not> elsewhere e f a" if "old = Some a" for a
    using assms(3) [OF that] address_in_Some [of e f st rows0 a] assms(2) that by (simp add: elsewhere_def)
qed (simp add: elsewhere_def)

text \<open>A report is confined to the rows of its endpoint and its family.\<close>

lemma report_confined:
  assumes "distinct (map ea_id (hr_rows r))"
  shows "filter (elsewhere e (du_family u)) (hr_rows (reportAddress now e ids u r)) = filter (elsewhere e (du_family u)) (hr_rows r)"
proof -
  let ?f = "du_family u" and ?rows = "hr_rows r"
  let ?cand = "candidate_of e ?f ?rows" and ?cur = "current_of e ?f ?rows"
  have one: "filter (elsewhere e ?f) (retired now ?cand ?rows) = filter (elsewhere e ?f) ?rows"
    by (rule retired_elsewhere [OF assms refl]) (simp add: address_in_Some)
  have ids': "distinct (map ea_id (retired now ?cand ?rows))" using assms by simp
  have kept: "a \<in> set (retired now ?cand ?rows)" if cur: "?cur = Some a" for a
  proof (rule address_in_kept [OF cur])
    assume "?cand \<noteq> None"
    then obtain b where b: "?cand = Some b" by blast
    from address_in_Some [OF cur] address_in_Some [OF b] have "a \<noteq> b" "a \<in> set ?rows" "b \<in> set ?rows" by auto
    with assms have "ea_id b \<noteq> ea_id a" by (auto simp: distinct_map inj_on_def)
    then show "ea_id (the ?cand) \<noteq> ea_id a" by (simp add: b)
  qed
  have two: "filter (elsewhere e ?f) (retired now ?cur (retired now ?cand ?rows)) = filter (elsewhere e ?f) ?rows"
    using retired_elsewhere [OF ids' refl kept] one by simp
  show ?thesis unfolding reportAddress_rows Let_def
    using one two by (auto simp: elsewhere_def new_candidate_def split: option.splits)
qed

lemma new_candidate_key: "address_key (new_candidate i e f x now) = (e, f, CandidateAddress)" "active (new_candidate i e f x now)"
  by (simp_all add: new_candidate_def address_key_def active_def)

lemma one_active_snoc:
  assumes "one_active rows" and "candidate_of e f rows = None"
  shows "one_active (rows @ [new_candidate i e f x now])"
proof -
  have "(e, f, CandidateAddress) \<notin> address_key ` set (filter active rows)"
    using address_in_None [OF assms(2)] by (fastforce simp: address_key_def)
  then show ?thesis using assms(1) by (simp add: one_active_def new_candidate_key)
qed

lemma report_one_active:
  assumes "one_active (hr_rows r)"
  shows "one_active (hr_rows (reportAddress now e ids u r))"
proof -
  have cand: "one_active (retired now (candidate_of e (du_family u) (hr_rows r)) (hr_rows r))" by (rule retired_one_active [OF assms])
  have gone: "candidate_of e (du_family u) (retired now (candidate_of e (du_family u) (hr_rows r)) (hr_rows r)) = None"
    by (rule address_in_retired [OF assms]) simp
  show ?thesis unfolding reportAddress_rows Let_def
    by (auto split: option.splits intro: cand retired_one_active one_active_snoc [OF cand gone] assms)
qed

text \<open>What is published afterwards was published before.\<close>

lemma report_currents:
  assumes "a \<in> set (hr_rows (reportAddress now e ids u r))" and "ea_state a = CurrentAddress"
  shows "a \<in> set (hr_rows r)"
proof -
  have "active a" using assms(2) by (simp add: active_def)
  with assms show ?thesis unfolding reportAddress_rows Let_def
    by (auto simp: new_candidate_def split: option.splits if_splits dest: retired_currents)
qed
section \<open>A whole report\<close>

definition reported_ok :: "string \<Rightarrow> EndpointAddressRow list \<Rightarrow> DdnsAddressUpdate \<Rightarrow> bool" where
  "reported_ok e rows u = (case du_address u of
     None \<Rightarrow> current_of e (du_family u) rows = None \<and> candidate_of e (du_family u) rows = None
   | Some x \<Rightarrow> map_option ea_address (candidate_of e (du_family u) rows) = Some x
       \<or> map_option ea_address (current_of e (du_family u) rows) = Some x \<and> candidate_of e (du_family u) rows = None)"

lemma address_in_filter: "address_in e f st rows = address_in e f st (filter (\<lambda>a. ea_endpointId a = e \<and> ea_family a = f) rows)"
  by (induction rows) (auto simp: address_in_def select_one_def)

definition here :: "string \<Rightarrow> Family \<Rightarrow> EndpointAddressRow \<Rightarrow> bool" where
  "here e f a = (ea_endpointId a = e \<and> ea_family a = f)"

lemma here_elsewhere: "g \<noteq> f \<Longrightarrow> filter (here e g) rows = filter (here e g) (filter (elsewhere e f) rows)"
  by (induction rows) (auto simp: here_def elsewhere_def)

lemma address_in_elsewhere:
  assumes "filter (elsewhere e f) rows' = filter (elsewhere e f) rows" and "g \<noteq> f"
  shows "address_in e g st rows' = address_in e g st rows"
proof -
  have "address_in e g st rows' = address_in e g st (filter (here e g) rows')" unfolding here_def by (rule address_in_filter)
  also have "filter (here e g) rows' = filter (here e g) (filter (elsewhere e f) rows')" by (rule here_elsewhere [OF assms(2)])
  also have "\<dots> = filter (here e g) (filter (elsewhere e f) rows)" by (simp only: assms(1))
  also have "\<dots> = filter (here e g) rows" by (rule here_elsewhere [OF assms(2), symmetric])
  also have "address_in e g st (filter (here e g) rows) = address_in e g st rows" unfolding here_def by (rule address_in_filter [symmetric])
  finally show ?thesis .
qed

lemma reported_ok_elsewhere:
  assumes "filter (elsewhere e f) rows' = filter (elsewhere e f) rows" and "du_family u \<noteq> f"
  shows "reported_ok e rows' u = reported_ok e rows u"
  unfolding reported_ok_def address_in_elsewhere [OF assms] by (rule refl)

lemma address_in_snoc: "address_in e f st (rows @ [a]) = (case address_in e f st rows of Some x \<Rightarrow> Some x
    | None \<Rightarrow> if ea_endpointId a = e \<and> ea_family a = f \<and> ea_state a = st then Some a else None)"
  by (simp add: address_in_def select_one_snoc)

lemma retired_none: "address_in e f st rows = None \<Longrightarrow> st = CandidateAddress \<or> st = CurrentAddress
    \<Longrightarrow> address_in e f st (retired now old rows) = None"
proof (rule ccontr)
  assume none: "address_in e f st rows = None" and st: "st = CandidateAddress \<or> st = CurrentAddress"
    and "address_in e f st (retired now old rows) \<noteq> None"
  then obtain a where "address_in e f st (retired now old rows) = Some a" by blast
  from address_in_Some [OF this] have a: "a \<in> set (retired now old rows)" "ea_endpointId a = e \<and> ea_family a = f \<and> ea_state a = st" by simp_all
  have "active a" using a(2) st by (auto simp: active_def)
  from address_in_None [OF none retired_currents [OF a(1) this]] a(2) show False by simp
qed

lemma retired_candidate_keeps_current:
  assumes "distinct (map ea_id rows)" and "one_active rows"
  shows "current_of e f (retired now (candidate_of e f rows) rows) = current_of e f rows"
proof (cases "current_of e f rows")
  case None
  then show ?thesis by (simp add: retired_none)
next
  case (Some a)
  have "a \<in> set (retired now (candidate_of e f rows) rows)"
  proof (rule address_in_kept [OF Some])
    assume "candidate_of e f rows \<noteq> None"
    then obtain b where b: "candidate_of e f rows = Some b" by blast
    from address_in_Some [OF Some] address_in_Some [OF b] have "a \<noteq> b" "a \<in> set rows" "b \<in> set rows" by auto
    with assms(1) show "ea_id (the (candidate_of e f rows)) \<noteq> ea_id a" by (auto simp: b distinct_map inj_on_def)
  qed
  moreover have key: "ea_endpointId a = e \<and> ea_family a = f \<and> ea_state a = CurrentAddress" using address_in_Some [OF Some] by simp
  ultimately obtain c where c: "current_of e f (retired now (candidate_of e f rows) rows) = Some c"
    using address_in_None by (cases "current_of e f (retired now (candidate_of e f rows) rows)") blast+
  have "c = a"
  proof (rule one_active_same [OF assms(2)])
    show "c \<in> set rows" "active c" using address_in_Some [OF c] by (auto simp: active_def intro: retired_currents)
    show "a \<in> set rows" using address_in_Some [OF Some] by simp
    show "address_key c = address_key a" using address_in_Some [OF c] key by (simp add: address_key_def)
  qed
  with c Some show ?thesis by simp
qed

text \<open>After a report of a family, that family holds what was reported.\<close>

lemma report_done:
  assumes ids: "distinct (map ea_id (hr_rows r))" and one: "one_active (hr_rows r)"
  shows "reported_ok e (hr_rows (reportAddress now e ids u r)) u"
proof -
  let ?f = "du_family u" and ?rows = "hr_rows r"
  let ?rs = "retired now (candidate_of e ?f ?rows) ?rows"
  have gone: "candidate_of e ?f ?rs = None" by (rule address_in_retired [OF one]) simp
  have cur: "current_of e ?f ?rs = current_of e ?f ?rows" by (rule retired_candidate_keeps_current [OF ids one])
  have both: "current_of e ?f (retired now (current_of e ?f ?rows) ?rs) = None"
    using address_in_retired [OF retired_one_active [OF one, of now "candidate_of e ?f ?rows"], of CurrentAddress e ?f now] by (simp add: cur)
  show ?thesis
  proof (cases "du_address u")
    case None
    then show ?thesis using both retired_none [OF gone] by (simp add: reported_ok_def reportAddress_rows Let_def)
  next
    case (Some x)
    then show ?thesis using gone cur
      by (auto simp: reported_ok_def reportAddress_rows Let_def address_in_snoc new_candidate_def)
  qed
qed

definition fresh_ids :: "(Family \<Rightarrow> string) \<Rightarrow> EndpointAddressRow list \<Rightarrow> bool" where
  "fresh_ids ids rows = (ids V4 \<noteq> ids V6 \<and> ids V4 \<notin> ea_id ` set rows \<and> ids V6 \<notin> ea_id ` set rows)"

text \<open>Identifiers stay unique while the families of the report differ.\<close>

lemma report_ids:
  assumes "distinct (map ea_id (hr_rows r))" and "ids (du_family u) \<notin> ea_id ` set (hr_rows r)"
  shows "distinct (map ea_id (hr_rows (reportAddress now e ids u r)))
    \<and> ea_id ` set (hr_rows (reportAddress now e ids u r)) \<subseteq> insert (ids (du_family u)) (ea_id ` set (hr_rows r))"
proof -
  have same: "ea_id ` set (retired now old rows) = ea_id ` set rows" for old rows
    using retired_ids [of now old rows] by (metis list.set_map)
  have "map ea_id (hr_rows (reportAddress now e ids u r)) = map ea_id (hr_rows r)
      \<or> map ea_id (hr_rows (reportAddress now e ids u r)) = map ea_id (hr_rows r) @ [ids (du_family u)]"
    unfolding reportAddress_rows Let_def by (auto simp: new_candidate_def split: option.splits)
  then show ?thesis
  proof
    assume same: "map ea_id (hr_rows (reportAddress now e ids u r)) = map ea_id (hr_rows r)"
    from arg_cong [OF this, of set] have "ea_id ` set (hr_rows (reportAddress now e ids u r)) = ea_id ` set (hr_rows r)" by (simp only: set_map)
    with same show ?thesis using assms(1) by auto
  next
    assume more: "map ea_id (hr_rows (reportAddress now e ids u r)) = map ea_id (hr_rows r) @ [ids (du_family u)]"
    from arg_cong [OF this, of set] have "ea_id ` set (hr_rows (reportAddress now e ids u r)) = ea_id ` set (hr_rows r) \<union> {ids (du_family u)}"
      by (simp only: set_map set_append list.set image_insert)
    with more show ?thesis using assms by simp
  qed
qed
definition untouched :: "string \<Rightarrow> Family set \<Rightarrow> EndpointAddressRow list \<Rightarrow> EndpointAddressRow list \<Rightarrow> bool" where
  "untouched e F rows rows' = (filter (\<lambda>a. ea_endpointId a \<noteq> e \<or> ea_family a \<notin> F) rows' = filter (\<lambda>a. ea_endpointId a \<noteq> e \<or> ea_family a \<notin> F) rows)"

lemma filter_sub: "filter P rows' = filter P rows \<Longrightarrow> (\<And>a. Q a \<Longrightarrow> P a) \<Longrightarrow> filter Q rows' = filter Q rows"
proof -
  assume same: "filter P rows' = filter P rows" and sub: "\<And>a. Q a \<Longrightarrow> P a"
  have "filter Q xs = filter Q (filter P xs)" for xs using sub by (induction xs) auto
  with same show ?thesis by metis
qed

lemma untouched_chain:
  assumes "untouched e F r1 r2" and "untouched e G r2 r3"
  shows "untouched e (F \<union> G) r1 r3"
proof -
  have "filter (\<lambda>a. ea_endpointId a \<noteq> e \<or> ea_family a \<notin> F \<union> G) r3 = filter (\<lambda>a. ea_endpointId a \<noteq> e \<or> ea_family a \<notin> F \<union> G) r2"
    by (rule filter_sub [OF assms(2) [unfolded untouched_def]]) auto
  also have "\<dots> = filter (\<lambda>a. ea_endpointId a \<noteq> e \<or> ea_family a \<notin> F \<union> G) r1"
    by (rule filter_sub [OF assms(1) [unfolded untouched_def]]) auto
  finally show ?thesis by (simp only: untouched_def)
qed

lemma untouched_elsewhere: "filter (elsewhere e f) rows' = filter (elsewhere e f) rows \<Longrightarrow> untouched e {f} rows rows'"
  unfolding untouched_def by (erule filter_sub) (simp add: elsewhere_def)

lemma reported_ok_untouched:
  assumes "untouched e F rows rows'" and "du_family u \<notin> F"
  shows "reported_ok e rows' u = reported_ok e rows u"
proof -
  have "filter (here e (du_family u)) rows' = filter (here e (du_family u)) rows"
    by (rule filter_sub [OF assms(1) [unfolded untouched_def]]) (use assms(2) in \<open>auto simp: here_def\<close>)
  then have "address_in e (du_family u) st rows' = address_in e (du_family u) st rows" for st
    using address_in_filter [of e "du_family u" st rows'] address_in_filter [of e "du_family u" st rows] unfolding here_def by argo
  then show ?thesis unfolding reported_ok_def by (simp only:)
qed

lemma fold_report:
  fixes e :: string and now :: int
  assumes "distinct (map du_family us)" and "distinct (map ea_id (hr_rows r))" and "one_active (hr_rows r)"
    and "\<And>u. u \<in> set us \<Longrightarrow> ids (du_family u) \<notin> ea_id ` set (hr_rows r)" and "ids V4 \<noteq> ids V6"
  defines "r' \<equiv> fold (reportAddress now e ids) us r"
  shows "distinct (map ea_id (hr_rows r')) \<and> one_active (hr_rows r') \<and> untouched e (du_family ` set us) (hr_rows r) (hr_rows r')
    \<and> (\<forall>u \<in> set us. reported_ok e (hr_rows r') u) \<and> (\<forall>a \<in> set (hr_rows r'). ea_state a = CurrentAddress \<longrightarrow> a \<in> set (hr_rows r))"
  using assms(1-4) unfolding r'_def
proof (induction us arbitrary: r)
  case Nil
  then show ?case by (simp add: untouched_def)
next
  case (Cons u us)
  let ?r = "reportAddress now e ids u r" and ?F = "du_family ` set us"
  let ?r' = "fold (reportAddress now e ids) us ?r"
  have step: "distinct (map ea_id (hr_rows ?r))" "ea_id ` set (hr_rows ?r) \<subseteq> insert (ids (du_family u)) (ea_id ` set (hr_rows r))"
    using report_ids [of r ids u now e] Cons.prems(2,4) by auto
  have inj: "ids f = ids g \<Longrightarrow> f = g" for f g using assms(5) by (cases f; cases g) auto
  have fresh: "ids (du_family v) \<notin> ea_id ` set (hr_rows ?r)" if "v \<in> set us" for v
  proof -
    have "du_family v \<noteq> du_family u" using Cons.prems(1) that by (auto simp: image_iff)
    then have "ids (du_family v) \<noteq> ids (du_family u)" using inj by blast
    moreover have "ids (du_family v) \<notin> ea_id ` set (hr_rows r)" using Cons.prems(4) that by simp
    ultimately show ?thesis using step(2) by blast
  qed
  have IH: "distinct (map ea_id (hr_rows ?r')) \<and> one_active (hr_rows ?r') \<and> untouched e ?F (hr_rows ?r) (hr_rows ?r')
    \<and> (\<forall>u \<in> set us. reported_ok e (hr_rows ?r') u) \<and> (\<forall>a \<in> set (hr_rows ?r'). ea_state a = CurrentAddress \<longrightarrow> a \<in> set (hr_rows ?r))"
    by (rule Cons.IH) (use Cons.prems(1) step(1) fresh report_one_active [OF Cons.prems(3)] in auto)
  have "untouched e ({du_family u} \<union> ?F) (hr_rows r) (hr_rows ?r')"
    by (rule untouched_chain [OF untouched_elsewhere [OF report_confined [OF Cons.prems(2)]]]) (use IH in blast)
  moreover have "reported_ok e (hr_rows ?r') u"
    using reported_ok_untouched [of e ?F "hr_rows ?r" "hr_rows ?r'" u] report_done [OF Cons.prems(2,3)] IH Cons.prems(1) by auto
  moreover have "a \<in> set (hr_rows r)" if "a \<in> set (hr_rows ?r')" "ea_state a = CurrentAddress" for a
    using that IH report_currents [of a now e ids u r] by blast
  ultimately show ?case using IH by simp
qed

lemma kept_families: "map du_family (map (\<lambda>x. if du_family x = f then x\<lparr>du_address := a\<rparr> else x) us) = map du_family us"
  by (induction us) auto

lemma resolved_families: "distinct (map du_family (resolveDdnsAddressUpdates i inferred))"
proof -
  have "distinct (map du_family (explicit_updates i))" by (simp add: explicit_updates_def split: option.splits)
  then show ?thesis unfolding resolveDdnsAddressUpdates_def Let_def
    by (auto simp: find_None_iff image_iff kept_families simp del: map_map split: option.splits)
qed

section \<open>A heartbeat\<close>

text \<open>What a request may change of the rows of addresses.\<close>

abbreviation rows_of :: "DdnsState \<Rightarrow> EndpointAddressRow list" where
  "rows_of s \<equiv> tb_endpointAddresses (dd_db s)"

definition rows_ok :: "DdnsState \<Rightarrow> bool" where
  "rows_ok s = (distinct (map ea_id (rows_of s)) \<and> one_active (rows_of s))"

definition families_of :: "HeartbeatInput \<Rightarrow> string option \<Rightarrow> Family set" where
  "families_of i inferred = du_family ` set (resolveDdnsAddressUpdates i inferred)"

lemma withdrawal_rows: "withdrawal_intent ids now who r d = Inr d' \<Longrightarrow> tb_endpointAddresses d' = tb_endpointAddresses d"
  by (auto simp: withdrawal_intent_def Let_def split: if_splits option.splits)

lemma add_audit_state [simp]: "rows_of (add_audit l s) = rows_of s" "dd_agents (add_audit l s) = dd_agents s"
    "tb_endpoints (dd_db (add_audit l s)) = tb_endpoints (dd_db s)" "tb_endpointPools (dd_db (add_audit l s)) = tb_endpointPools (dd_db s)"
  by (simp_all add: add_audit_def)

lemma set_agent_state [simp]: "dd_db (set_agent i f s) = dd_db s" "dd_queue (set_agent i f s) = dd_queue s"
  by (simp_all add: set_agent_def)

lemma reportAddresses_rows:
  assumes "reportAddresses env ids now i who a us s = Inr (s', r)"
  shows "rows_of s' = hr_rows (fold (reportAddress now (en_id (at_endpoint who)) (hi_address ids)) us
    \<lparr>hr_rows = rows_of s, hr_candidates = [], hr_created = [], hr_withdrawn = [], hr_published = [], hr_changed = False\<rparr>)"
  using assms by (auto simp: reportAddresses_def Let_def bindE_eq_Inr dest: withdrawal_rows split: if_splits)

lemma reportAddresses_ok:
  assumes run: "reportAddresses env ids now i who a us s = Inr (s', r)" and "rows_ok s" and "fresh_ids (hi_address ids) (rows_of s)"
    and "distinct (map du_family us)"
  defines "e \<equiv> en_id (at_endpoint who)"
  shows "rows_ok s' \<and> untouched e (du_family ` set us) (rows_of s) (rows_of s') \<and> (\<forall>u \<in> set us. reported_ok e (rows_of s') u)
    \<and> (\<forall>a \<in> set (rows_of s'). ea_state a = CurrentAddress \<longrightarrow> a \<in> set (rows_of s))"
proof -
  have fresh: "hi_address ids f \<notin> ea_id ` set (rows_of s)" for f using assms(3) by (cases f) (auto simp: fresh_ids_def)
  have "hi_address ids V4 \<noteq> hi_address ids V6" using assms(3) by (simp add: fresh_ids_def)
  from fold_report [OF assms(4) _ _ _ this, of "\<lparr>hr_rows = rows_of s, hr_candidates = [], hr_created = [], hr_withdrawn = [],
    hr_published = [], hr_changed = False\<rparr>" now e] fresh assms(2)
  show ?thesis unfolding reportAddresses_rows [OF run] rows_ok_def e_def by simp
qed

lemma enqueueCandidateChecks_db: "enqueueCandidateChecks p e a s = Inr (s', n) \<Longrightarrow> dd_db s' = dd_db s \<and> dd_agents s' = dd_agents s"
  by (auto simp: enqueueCandidateChecks_def Let_def split: if_splits option.splits)

lemma enqueueAll_db: "enqueueAll p e as s = (s', x) \<Longrightarrow> dd_db s' = dd_db s \<and> dd_agents s' = dd_agents s"
proof (induction as arbitrary: s s' x)
  case (Cons a as)
  show ?case
  proof (cases "enqueueCandidateChecks p e a s")
    case (Inr y)
    obtain s1 n where y: "y = (s1, n)" by (cases y)
    obtain s2 z where rest: "enqueueAll p e as s1 = (s2, z)" by (cases "enqueueAll p e as s1")
    from Cons.prems have "s' = s2" by (auto simp: Inr y rest split: sum.splits)
    with Cons.IH [OF rest] enqueueCandidateChecks_db [OF Inr [unfolded y]] show ?thesis by simp
  qed (use Cons.prems in auto)
qed simp

text \<open>A heartbeat either leaves the tables as the others have them, or is the report of an authenticated agent.\<close>

lemma heartbeat_cases:
  assumes "heartbeat env ids authorization i ip now now' others s = (s', x)"
  obtains (refused) "s' = s \<or> s' = others s" and "\<And>y. x = Inr y \<Longrightarrow> False"
  | (reports) who a s2 r where "authenticateRuntimeToken env authorization now s = Inr who"
      "still_valid (\<lambda>a. runtimeTokenMatches a (at_tokenHash who) now') who (others s) = Some a"
      "reportAddresses env ids now i who a (resolveDdnsAddressUpdates i (normalizeDdnsSourceIp (de_isIP env) ip)) (others s) = Inr (s2, r)"
      "dd_db s' = dd_db s2" "dd_agents s' = dd_agents s2"
      "enqueueAll (ep_id (at_pool who)) (en_id (at_endpoint who)) (hr_candidates r) s2 = (s', case x of Inl e \<Rightarrow> Inl e | Inr y \<Rightarrow> Inr (hy_queued y))"
      "\<And>y. x = Inr y \<Longrightarrow> hy_candidates y = map (\<lambda>a. (ea_family a, ea_address a)) (hr_candidates r) \<and> hy_withdrawn y = hr_withdrawn r
        \<and> hy_changed y = hr_changed r"
proof (cases "authenticateRuntimeToken env authorization now s")
  case (Inl e)
  with assms show ?thesis by (intro refused) (auto simp: heartbeat_def)
next
  case (Inr who)
  let ?us = "resolveDdnsAddressUpdates i (normalizeDdnsSourceIp (de_isIP env) ip)"
  let ?lock = "still_valid (\<lambda>a. runtimeTokenMatches a (at_tokenHash who) now') who (others s)"
  show ?thesis
  proof (cases "?us = [] \<or> ?lock = None \<or> (\<exists>a e. ?lock = Some a \<and> reportAddresses env ids now i who a ?us (others s) = Inl e)")
    case True
    with assms Inr show ?thesis by (intro refused) (auto simp: heartbeat_def Let_def split: if_splits)
  next
    case False
    then obtain a where a: "?us \<noteq> []" "?lock = Some a" by (cases ?lock) simp_all
    with False obtain s2 r where run: "reportAddresses env ids now i who a ?us (others s) = Inr (s2, r)"
      by (cases "reportAddresses env ids now i who a ?us (others s)") auto
    obtain s3 y where queue: "enqueueAll (ep_id (at_pool who)) (en_id (at_endpoint who)) (hr_candidates r) s2 = (s3, y)" by fastforce
    from assms Inr a run queue have s': "s' = s3" and x: "x = (case y of Inl e \<Rightarrow> Inl e | Inr n \<Rightarrow> Inr \<lparr>hy_changed = hr_changed r,
        hy_candidates = map (\<lambda>a. (ea_family a, ea_address a)) (hr_candidates r), hy_withdrawn = hr_withdrawn r, hy_queued = n, hy_lastSeenAt = now\<rparr>)"
      by (auto simp: heartbeat_def Let_def split: sum.splits)
    show ?thesis
      by (rule reports [OF Inr a(2) run]) (use enqueueAll_db [OF queue] queue in \<open>auto simp: s' x split: sum.splits\<close>)
  qed
qed
lemma authenticated:
  assumes "authenticateRuntimeToken env authorization now s = Inr who"
  shows "at_agent who \<in> set (dd_agents s)" "dg_status (at_agent who) = StatusActive" "dg_revokedAt (at_agent who) = None"
    "runtimeTokenMatches (at_agent who) (at_tokenHash who) now" "en_id (at_endpoint who) = dg_endpointId (at_agent who)"
    "at_endpoint who \<in> set (tb_endpoints (dd_db s))" "en_addressMode (at_endpoint who) = DdnsMode"
proof -
  from assms obtain token where "(case select_one (may_authenticate (de_hash env token) now s) (dd_agents s) of None \<Rightarrow> Inl RuntimeTokenInvalid
      | Some a \<Rightarrow> (case endpoint_of (dg_endpointId a) s of None \<Rightarrow> Inl RuntimeTokenInvalid
        | Some e \<Rightarrow> (case pool_of e s of None \<Rightarrow> Inl RuntimeTokenInvalid
          | Some p \<Rightarrow> Inr \<lparr>at_agent = a, at_endpoint = e, at_pool = p, at_tokenHash = de_hash env token\<rparr>))) = Inr who"
    unfolding authenticateRuntimeToken_def Let_def bindE_eq_Inr by blast
  then obtain a e p where a: "select_one (may_authenticate (de_hash env token) now s) (dd_agents s) = Some a" and e: "endpoint_of (dg_endpointId a) s = Some e"
    and who: "who = \<lparr>at_agent = a, at_endpoint = e, at_pool = p, at_tokenHash = de_hash env token\<rparr>" by (auto split: option.splits)
  from select_one_Some [OF a] e select_one_Some [OF e [unfolded endpoint_of_def]]
  show "at_agent who \<in> set (dd_agents s)" "dg_status (at_agent who) = StatusActive" "dg_revokedAt (at_agent who) = None"
    "runtimeTokenMatches (at_agent who) (at_tokenHash who) now" "en_id (at_endpoint who) = dg_endpointId (at_agent who)"
    "at_endpoint who \<in> set (tb_endpoints (dd_db s))" "en_addressMode (at_endpoint who) = DdnsMode"
    by (simp_all add: who may_authenticate_def)
qed

text \<open>C10: A heartbeat publishes nothing: whatever it answers, an address that is current afterwards was current before with the same row, and
  the rows still have unique identifiers and at most one current and one candidate address per endpoint and family.\<close>

theorem heartbeat_publishes_nothing:
  assumes "heartbeat env ids authorization i ip now now' others s = (s', x)"
    and "rows_ok s" and "rows_ok (others s)" and "fresh_ids (hi_address ids) (rows_of (others s))"
  shows "rows_ok s' \<and> (\<forall>a \<in> set (rows_of s'). ea_state a = CurrentAddress \<longrightarrow> a \<in> set (rows_of s) \<union> set (rows_of (others s)))"
  using assms(1)
proof (cases rule: heartbeat_cases)
  case refused
  then show ?thesis using assms(2,3) by auto
next
  case (reports who a s2 r)
  from reportAddresses_ok [OF reports(3) assms(3,4) resolved_families] reports(4) show ?thesis by (auto simp: rows_ok_def)
qed

text \<open>An accepted heartbeat takes the whole report of an agent that holds a valid runtime token: a family reported as withdrawn has neither
  a current nor a candidate address left, a reported address is the candidate of its family or already current without a rival candidate, and
  no row of another endpoint or of a family that was not reported changes.\<close>

theorem heartbeat_takes_report:
  assumes "heartbeat env ids authorization i ip now now' others s = (s', Inr y)"
    and "rows_ok (others s)" and "fresh_ids (hi_address ids) (rows_of (others s))"
  defines "us \<equiv> resolveDdnsAddressUpdates i (normalizeDdnsSourceIp (de_isIP env) ip)"
  shows "\<exists>who. authenticateRuntimeToken env authorization now s = Inr who
    \<and> (\<forall>u \<in> set us. reported_ok (en_id (at_endpoint who)) (rows_of s') u)
    \<and> untouched (en_id (at_endpoint who)) (du_family ` set us) (rows_of (others s)) (rows_of s')"
  using assms(1)
proof (cases rule: heartbeat_cases)
  case (reports who a s2 r)
  from reportAddresses_ok [OF reports(3) assms(2,3) resolved_families] reports(1,4) show ?thesis unfolding us_def by auto
qed simp

section \<open>Candidates are checked\<close>

definition external_policy :: "string \<Rightarrow> Family \<Rightarrow> DdnsState \<Rightarrow> bool" where
  "external_policy e f s = (case select_one (\<lambda>p. hp_endpointId p = Some e \<and> hp_family p = f) (ct_healthPolicies (tb_cloud (dd_db s))) of
     Some p \<Rightarrow> hp_mode p \<noteq> LocalMode | None \<Rightarrow> False)"

definition check_queued :: "string \<Rightarrow> DdnsState \<Rightarrow> EndpointAddressRow \<Rightarrow> bool" where
  "check_queued e s a = (\<exists>j \<in> set (dd_queue s). hj_endpointId j = e \<and> hj_addressId j = ea_id a)"

lemma enqueueCandidateChecks_queue:
  assumes "enqueueCandidateChecks p e a s = Inr (s', n)"
  shows "set (dd_queue s) \<subseteq> set (dd_queue s') \<and> (external_policy e (ea_family a) s \<or> check_queued e s' a)"
proof (cases "external_policy e (ea_family a) s")
  case True
  with assms show ?thesis by (simp add: enqueueCandidateChecks_def external_policy_def Let_def)
next
  case False
  let ?policy = "select_one (\<lambda>p. hp_endpointId p = Some e \<and> hp_family p = ea_family a) (ct_healthPolicies (tb_cloud (dd_db s)))"
  let ?chosen = "selectLocalHealthCheckConfigs (filter (\<lambda>c. hc_enabled c \<and> (hc_endpointId c = Some e \<or> hc_poolId c = Some p))
    (tb_healthCheckConfigs (dd_db s))) e p ?policy"
  from assms False have ch: "?chosen \<noteq> []" and s': "s' = s\<lparr>dd_queue := dd_queue s @ map (\<lambda>c. \<lparr>hj_endpointId = e, hj_configId = hc_id c,
      hj_addressId = ea_id a, hj_manual = True\<rparr>) ?chosen\<rparr>"
    by (auto simp: enqueueCandidateChecks_def external_policy_def Let_def split: if_splits)
  from ch obtain c where "c \<in> set ?chosen" by (cases ?chosen) auto
  then show ?thesis unfolding s' check_queued_def by force
qed

lemma enqueueAll_queue:
  assumes "enqueueAll p e as s = (s', Inr n)"
  shows "set (dd_queue s) \<subseteq> set (dd_queue s') \<and> (\<forall>a \<in> set as. external_policy e (ea_family a) s \<or> check_queued e s' a)"
  using assms
proof (induction as arbitrary: s n)
  case (Cons a as)
  then obtain s1 k m where one: "enqueueCandidateChecks p e a s = Inr (s1, k)" and rest: "enqueueAll p e as s1 = (s', Inr m)"
    by (auto split: sum.splits prod.splits)
  have "external_policy e f s1 = external_policy e f s" for f using enqueueCandidateChecks_db [OF one] by (simp add: external_policy_def)
  with Cons.IH [OF rest] enqueueCandidateChecks_queue [OF one] show ?case by (auto simp: check_queued_def)
qed simp

text \<open>The candidates of a walk are rows that it leaves behind.\<close>

definition known_candidates :: "Reported \<Rightarrow> bool" where
  "known_candidates r = (\<forall>c \<in> set (hr_candidates r). \<exists>a \<in> set (hr_rows r). ea_id a = ea_id c \<and> ea_family a = ea_family c \<and> ea_address a = ea_address c)"

lemma retired_known: "a \<in> set rows \<Longrightarrow> \<exists>b \<in> set (retired now old rows). ea_id b = ea_id a \<and> ea_family b = ea_family a \<and> ea_address b = ea_address a"
proof (cases old)
  case (Some o')
  assume "a \<in> set rows"
  then have "(if ea_id a = ea_id o' then a\<lparr>ea_state := PreviousAddress, ea_replacedAt := Some now\<rparr> else a) \<in> set (retired now old rows)"
    unfolding Some retired_def retire_def option.case set_update_where by blast
  then show ?thesis by (rule rev_bexI) simp
qed (auto simp: retired_def)

lemma replace_address_candidates [simp]: "hr_candidates (replace_address now old r) = hr_candidates r"
  by (simp add: replace_address_def split: option.splits)

lemma known_replace: "known_candidates r \<Longrightarrow> known_candidates (replace_address now old r)"
  unfolding known_candidates_def replace_address_rows replace_address_candidates by (metis retired_known)

lemma known_report:
  assumes "known_candidates r"
  shows "known_candidates (reportAddress now e ids u r)"
proof -
  note known = known_replace [OF assms, unfolded known_candidates_def]
    known_replace [OF known_replace [OF assms], unfolded known_candidates_def]
  show ?thesis
  proof (cases "du_address u")
    case None
    then show ?thesis using known(2) by (simp add: reportAddress_def Let_def withdraw_def known_candidates_def)
  next
    case (Some x)
    show ?thesis
    proof (cases "map_option ea_address (address_in e (du_family u) CurrentAddress (hr_rows r)) = Some x")
      case True
      then show ?thesis using Some known_replace [OF assms] by (simp add: reportAddress_def Let_def)
    next
      case cur: False
      show ?thesis
      proof (cases "map_option ea_address (address_in e (du_family u) CandidateAddress (hr_rows r)) = Some x")
        case True
        then obtain c where c: "address_in e (du_family u) CandidateAddress (hr_rows r) = Some c" by blast
        show ?thesis using Some cur True c address_in_Some [OF c] assms by (auto simp: reportAddress_def Let_def known_candidates_def)
      next
        case False
        with Some cur known(1) show ?thesis by (auto simp: reportAddress_def Let_def propose_def known_candidates_def)
      qed
    qed
  qed
qed

lemma known_fold: "known_candidates r \<Longrightarrow> known_candidates (fold (reportAddress now e ids) us r)"
  by (induction us arbitrary: r) (simp_all add: known_report)

section \<open>Requests one after another\<close>

text \<open>Each request may see, between its first look and its transaction, the effect of other requests. \<open>allowed\<close> restricts the install
  tokens that are created, by endpoint and hash.\<close>

inductive ddns_step :: "DdnsEnv \<Rightarrow> (string \<Rightarrow> string \<Rightarrow> bool) \<Rightarrow> DdnsState \<Rightarrow> DdnsState \<Rightarrow> bool"
  for env :: DdnsEnv and allowed :: "string \<Rightarrow> string \<Rightarrow> bool" where
  Create: "createInstallToken env actor poolId e seconds now token fresh others s = Inr (s', reply) \<Longrightarrow> (ddns_step env allowed)\<^sup>*\<^sup>* s (others s)
    \<Longrightarrow> allowed e (de_hash env token) \<Longrightarrow> ddns_step env allowed s s'"
| Revoke: "revoke env actor poolId e now s = Inr s' \<Longrightarrow> ddns_step env allowed s s'"
| Exchange: "exchange env token runtime now others s = Inr (s', e) \<Longrightarrow> (ddns_step env allowed)\<^sup>*\<^sup>* s (others s) \<Longrightarrow> ddns_step env allowed s s'"
| Heartbeat: "heartbeat env ids authorization i ip now now' others s = (s', x) \<Longrightarrow> (ddns_step env allowed)\<^sup>*\<^sup>* s (others s)
    \<Longrightarrow> fresh_ids (hi_address ids) (rows_of (others s)) \<Longrightarrow> ddns_step env allowed s s'"
| RevokeSelf: "revokeRuntime env authorization now others s = Inr s' \<Longrightarrow> (ddns_step env allowed)\<^sup>*\<^sup>* s (others s) \<Longrightarrow> ddns_step env allowed s s'"

text \<open>What a step may do to an agent.\<close>

definition agents_evolve :: "(string \<Rightarrow> string \<Rightarrow> bool) \<Rightarrow> DdnsState \<Rightarrow> DdnsState \<Rightarrow> bool" where
  "agents_evolve allowed s s' = (\<forall>a' \<in> set (dd_agents s').
     (\<exists>h. dg_installTokenHash a' = Some h \<and> allowed (dg_endpointId a') h)
     \<or> (\<exists>a \<in> set (dd_agents s). dg_endpointId a' = dg_endpointId a \<and> dg_installTokenHash a' \<in> {None, dg_installTokenHash a}
         \<and> (dg_status a' = dg_status a \<or> dg_status a' = StatusDisabled)))"

lemma evolve_refl: "agents_evolve allowed s s"
  by (auto simp: agents_evolve_def)

lemma evolve_update:
  assumes "\<And>a. a \<in> set (dd_agents s) \<Longrightarrow> P a \<Longrightarrow> dg_endpointId (f a) = dg_endpointId a \<and> ((\<exists>h. dg_installTokenHash (f a) = Some h \<and> allowed (dg_endpointId a) h)
      \<or> dg_installTokenHash (f a) \<in> {None, dg_installTokenHash a} \<and> (dg_status (f a) = dg_status a \<or> dg_status (f a) = StatusDisabled))"
    and "dd_agents s' = update_where P f (dd_agents s)"
  shows "agents_evolve allowed s s'"
  unfolding agents_evolve_def assms(2)
proof
  fix a' assume "a' \<in> set (update_where P f (dd_agents s))"
  then obtain a where a: "a \<in> set (dd_agents s)" "a' = (if P a then f a else a)" by (auto simp: set_update_where)
  show "(\<exists>h. dg_installTokenHash a' = Some h \<and> allowed (dg_endpointId a') h) \<or> (\<exists>a \<in> set (dd_agents s). dg_endpointId a' = dg_endpointId a
      \<and> dg_installTokenHash a' \<in> {None, dg_installTokenHash a} \<and> (dg_status a' = dg_status a \<or> dg_status a' = StatusDisabled))"
  proof (cases "P a")
    case True
    with assms(1) [OF a(1)] a show ?thesis by auto
  next
    case False
    with a show ?thesis by auto
  qed
qed

lemma upsert_evolves:
  assumes "upsert_agent fresh e h t s = (s', i)" and "allowed e h"
  shows "agents_evolve allowed s s'"
proof (cases "agent_of e s")
  case None
  with assms(1) have "dd_agents s' = dd_agents s @ [new_agent fresh e h t]" by (auto simp: upsert_agent_def)
  with assms(2) show ?thesis by (auto simp: agents_evolve_def new_agent_def)
next
  case (Some a)
  with assms(1) have "dd_agents s' = update_where (\<lambda>x. dg_endpointId x = e) (renewed_agent h t) (dd_agents s)" by (auto simp: upsert_agent_def)
  then show ?thesis by (rule evolve_update [rotated]) (use assms(2) in \<open>auto simp: renewed_agent_def\<close>)
qed
lemma exchange_state:
  assumes "exchange env token runtime now others s = Inr (s', e)"
  obtains a where "a \<in> set (dd_agents (others s))" "dg_endpointId a = e" "dg_installTokenHash a = Some (de_hash env token)"
    "dd_agents s' = update_where (\<lambda>x. dg_id x = dg_id a) (exchanged_agent (de_hash env runtime) now) (dd_agents (others s))"
    "rows_of s' = rows_of (others s)"
proof -
  from assms obtain c where c: "select_one (\<lambda>a. dg_installTokenHash a = Some (de_hash env token) \<and> endpoint_of (dg_endpointId a) s \<noteq> None) (dd_agents s) = Some c"
    by (auto simp: exchange_def Let_def split: option.splits)
  with assms obtain a where a: "select_one (\<lambda>a. dg_id a = dg_id c) (dd_agents (others s)) = Some a"
    by (auto simp: exchange_def Let_def split: option.splits)
  with assms c obtain x where x: "endpoint_of (dg_endpointId a) (others s) = Some x"
    by (auto simp: exchange_def Let_def split: option.splits)
  with assms c a obtain p where p: "pool_of x (others s) = Some p" by (auto simp: exchange_def Let_def split: option.splits)
  from assms c a x p have valid: "install_valid (de_hash env token) now x a"
    and s': "rows_of s' = rows_of (others s)" "e = dg_endpointId a"
      "dd_agents s' = update_where (\<lambda>x. dg_id x = dg_id a) (exchanged_agent (de_hash env runtime) now) (dd_agents (others s))"
    by (auto simp: exchange_def Let_def set_agent_def split: if_splits)
  show thesis by (rule that [of a]) (use select_one_Some [OF a] valid s' in \<open>simp_all add: install_valid_def\<close>)
qed

lemma exchange_evolves:
  assumes "exchange env token runtime now others s = Inr (s', e)"
  shows "agents_evolve allowed (others s) s' \<and> rows_of s' = rows_of (others s)"
  using assms
proof (rule exchange_state)
  fix a assume "dd_agents s' = update_where (\<lambda>x. dg_id x = dg_id a) (exchanged_agent (de_hash env runtime) now) (dd_agents (others s))"
    and "rows_of s' = rows_of (others s)"
  moreover from this(1) have "agents_evolve allowed (others s) s'"
    by (rule evolve_update [rotated]) (simp add: exchanged_agent_def rotateRuntimeToken_def)
  ultimately show ?thesis by simp
qed

lemma revoke_state:
  assumes "revoke env actor poolId e now s = Inr s'"
  shows "dd_agents s' = update_where (\<lambda>x. dg_endpointId x = e) (disabled_agent now) (dd_agents s)" "rows_of s' = rows_of s"
  using assms by (auto simp: revoke_def bindE_eq_Inr split: option.splits)

lemma disabled_evolves: "dd_agents s' = update_where P (disabled_agent now) (dd_agents s) \<Longrightarrow> agents_evolve allowed s s'"
  by (rule evolve_update [where P = P]) (auto simp: disabled_agent_def)

lemma revokeRuntime_evolves:
  assumes "revokeRuntime env authorization now others s = Inr s'"
  shows "agents_evolve allowed (others s) s' \<and> rows_of s' = rows_of (others s)"
proof -
  from assms obtain who where "(case still_valid (\<lambda>a. currentRuntimeTokenMatches a (at_tokenHash who)) who (others s) of None \<Rightarrow> Inl RuntimeTokenInvalid
      | Some a \<Rightarrow> Inr (add_audit (agent_audit (at_pool who) None DdnsSource ''ddns.agent.self_revoke'' (dg_id a)
          (JObj [(''endpointId'', JStr (en_id (at_endpoint who))), (''revokedAt'', JStr (de_iso env now))]))
          (set_agent (dg_id a) (disabled_agent now) (others s)))) = Inr s'"
    unfolding revokeRuntime_def Let_def bindE_eq_Inr by blast
  moreover from this obtain a where a: "still_valid (\<lambda>a. currentRuntimeTokenMatches a (at_tokenHash who)) who (others s) = Some a"
    by (cases "still_valid (\<lambda>a. currentRuntimeTokenMatches a (at_tokenHash who)) who (others s)") auto
  ultimately have "s' = add_audit (agent_audit (at_pool who) None DdnsSource ''ddns.agent.self_revoke'' (dg_id a)
      (JObj [(''endpointId'', JStr (en_id (at_endpoint who))), (''revokedAt'', JStr (de_iso env now))]))
      (set_agent (dg_id a) (disabled_agent now) (others s))" by simp
  then have s': "dd_agents s' = update_where (\<lambda>x. dg_id x = dg_id a) (disabled_agent now) (dd_agents (others s))"
    "rows_of s' = rows_of (others s)" by (simp_all add: set_agent_def)
  then show ?thesis using disabled_evolves by blast
qed

lemma createInstallToken_evolves:
  assumes "createInstallToken env actor poolId e seconds now token fresh others s = Inr (s', reply)" and "allowed e (de_hash env token)"
  shows "agents_evolve allowed (others s) s' \<and> rows_of s' = rows_of (others s)"
proof -
  obtain s2 i where up: "upsert_agent fresh e (de_hash env token) (now + seconds * 1000) (others s) = (s2, i)" by fastforce
  with assms(1) have "dd_agents s' = dd_agents s2" "rows_of s' = rows_of s2"
    by (auto simp: createInstallToken_def Let_def bindE_eq_Inr split: if_splits option.splits)
  moreover have "rows_of s2 = rows_of (others s)" using up by (auto simp: upsert_agent_def split: option.splits)
  moreover have "agents_evolve allowed (others s) s2" by (rule upsert_evolves [where allowed = allowed, OF up assms(2)])
  ultimately show ?thesis by (simp add: agents_evolve_def)
qed

lemma reportAddresses_evolves:
  assumes "reportAddresses env ids now i who a us s = Inr (s2, r)" and "dd_agents s' = dd_agents s2"
  shows "agents_evolve allowed s s'"
proof -
  from assms(1) have "dd_agents s2 = update_where (\<lambda>x. dg_id x = dg_id a) (\<lambda>x. (seen_agent i now x)\<lparr>dg_lastIpChangedAt :=
      (if hr_changed r then Some now else dg_lastIpChangedAt x)\<rparr>) (dd_agents s)"
    by (auto simp: reportAddresses_def Let_def bindE_eq_Inr set_agent_def split: if_splits)
  then show ?thesis unfolding assms(2) [symmetric] by (rule evolve_update [rotated]) (simp add: seen_agent_def Let_def)
qed

lemma heartbeat_evolves:
  assumes "heartbeat env ids authorization i ip now now' others s = (s', x)"
  shows "s' = s \<or> agents_evolve allowed (others s) s'"
  using assms
proof (cases rule: heartbeat_cases)
  case refused
  then show ?thesis by (auto simp: evolve_refl)
next
  case (reports who a s2 r)
  from reportAddresses_evolves [OF reports(3,5)] show ?thesis by simp
qed

lemma rtranclp_preserves: "(\<lambda>x y. R x y \<and> (I x \<longrightarrow> I y))\<^sup>*\<^sup>* s t \<Longrightarrow> I s \<Longrightarrow> I t"
  by (induction rule: rtranclp_induct) auto

text \<open>A predicate that every evolution of the agents keeps holds along all requests.\<close>

lemma ddns_step_keeps:
  assumes "ddns_step env allowed s s'" and "\<And>x y. I x \<Longrightarrow> agents_evolve allowed x y \<Longrightarrow> I y"
  shows "I s \<longrightarrow> I s'"
  using assms(1)
proof (induction rule: ddns_step.induct)
  case (Create actor poolId e seconds now token fresh others s s' reply)
  with createInstallToken_evolves [OF Create.hyps(1), of allowed] rtranclp_preserves [OF Create.IH] assms(2) show ?case by blast
next
  case (Revoke actor poolId e now s s')
  with disabled_evolves [OF revoke_state(1) [OF Revoke.hyps(1)], of allowed] assms(2) show ?case by blast
next
  case (Exchange token runtime now others s s' e)
  with exchange_evolves [OF Exchange.hyps(1), of allowed] rtranclp_preserves [OF Exchange.IH] assms(2) show ?case by blast
next
  case (Heartbeat ids authorization i ip now now' others s s' x)
  with heartbeat_evolves [OF Heartbeat.hyps(1), of allowed] rtranclp_preserves [OF Heartbeat.IH] assms(2) show ?case by blast
next
  case (RevokeSelf authorization now others s s')
  with revokeRuntime_evolves [OF RevokeSelf.hyps(1), of allowed] rtranclp_preserves [OF RevokeSelf.IH] assms(2) show ?case by blast
qed

lemma ddns_steps_keep:
  assumes "(ddns_step env allowed)\<^sup>*\<^sup>* s s'" and "\<And>x y. I x \<Longrightarrow> agents_evolve allowed x y \<Longrightarrow> I y" and "I s"
  shows "I s'"
  using assms(1,3) by (induction rule: rtranclp_induct) (use ddns_step_keeps assms(2) in blast)+

section \<open>Install tokens\<close>

definition spent :: "string \<Rightarrow> DdnsState \<Rightarrow> bool" where
  "spent h s = (\<forall>a \<in> set (dd_agents s). dg_installTokenHash a \<noteq> Some h)"

lemma spent_evolves: "spent h x \<Longrightarrow> agents_evolve (\<lambda>_ g. g \<noteq> h) x y \<Longrightarrow> spent h y"
  by (fastforce simp: spent_def agents_evolve_def)

text \<open>An install token is spent by its exchange: however other requests follow and interleave, and unless a token with the same hash is
  created again, no later exchange of it succeeds.\<close>

theorem install_token_single_use:
  assumes "exchange env token runtime now others s = Inr (s1, e)"
    and "length (filter (\<lambda>a. dg_installTokenHash a = Some (de_hash env token)) (dd_agents (others s))) \<le> 1"
    and "(ddns_step env (\<lambda>_ g. g \<noteq> de_hash env token))\<^sup>*\<^sup>* s1 s2"
  shows "exchange env token runtime' now' others' s2 = Inl InstallTokenInvalid"
proof -
  let ?h = "de_hash env token"
  have "spent ?h s1"
    using assms(1)
  proof (rule exchange_state)
    fix a assume a: "a \<in> set (dd_agents (others s))" "dg_installTokenHash a = Some ?h"
      and s1: "dd_agents s1 = update_where (\<lambda>x. dg_id x = dg_id a) (exchanged_agent (de_hash env runtime) now) (dd_agents (others s))"
    have only: "b = a" if "b \<in> set (dd_agents (others s))" "dg_installTokenHash b = Some ?h" for b
    proof -
      from a that have "a \<in> set (filter (\<lambda>a. dg_installTokenHash a = Some ?h) (dd_agents (others s)))"
        "b \<in> set (filter (\<lambda>a. dg_installTokenHash a = Some ?h) (dd_agents (others s)))" by simp_all
      with assms(2) show ?thesis by (cases "filter (\<lambda>a. dg_installTokenHash a = Some ?h) (dd_agents (others s))") auto
    qed
    show "spent ?h s1" unfolding spent_def s1
    proof
      fix b assume "b \<in> set (update_where (\<lambda>x. dg_id x = dg_id a) (exchanged_agent (de_hash env runtime) now) (dd_agents (others s)))"
      then obtain c where c: "c \<in> set (dd_agents (others s))" "b = (if dg_id c = dg_id a then exchanged_agent (de_hash env runtime) now c else c)"
        by (auto simp: set_update_where)
      show "dg_installTokenHash b \<noteq> Some ?h"
        using c only [OF c(1)] by (cases "dg_id c = dg_id a") (auto simp: exchanged_agent_def)
    qed
  qed
  from ddns_steps_keep [of env "\<lambda>_ g. g \<noteq> ?h" s1 s2 "spent ?h", OF assms(3) spent_evolves this] have "spent ?h s2" .
  then have "select_one (\<lambda>a. dg_installTokenHash a = Some ?h \<and> endpoint_of (dg_endpointId a) s2 \<noteq> None) (dd_agents s2) = None"
    by (auto simp: select_one_None spent_def)
  then show ?thesis by (simp add: exchange_def Let_def)
qed
section \<open>Revoked agents\<close>

definition shut_out :: "string \<Rightarrow> DdnsState \<Rightarrow> bool" where
  "shut_out e s = (\<forall>a \<in> set (dd_agents s). dg_endpointId a = e \<longrightarrow> dg_status a = StatusDisabled)"

definition rows_at :: "string \<Rightarrow> DdnsState \<Rightarrow> EndpointAddressRow list" where
  "rows_at e s = filter (\<lambda>a. ea_endpointId a = e) (rows_of s)"

text \<open>What holds along the requests while no token is created for the endpoint.\<close>

definition frozen :: "string \<Rightarrow> DdnsState \<Rightarrow> DdnsState \<Rightarrow> bool" where
  "frozen e s s' = (shut_out e s \<and> rows_ok s \<longrightarrow> shut_out e s' \<and> rows_ok s' \<and> rows_at e s' = rows_at e s)"

lemma frozen_trans: "frozen e s s' \<Longrightarrow> frozen e s' s'' \<Longrightarrow> frozen e s s''"
  by (auto simp: frozen_def)

lemma frozen_steps: "(\<lambda>x y. R x y \<and> frozen e x y)\<^sup>*\<^sup>* s t \<Longrightarrow> frozen e s t"
  by (induction rule: rtranclp_induct) (auto simp: frozen_def)

lemma shut_out_evolves: "shut_out e x \<Longrightarrow> agents_evolve (\<lambda>e' _. e' \<noteq> e) x y \<Longrightarrow> shut_out e y"
  by (fastforce simp: shut_out_def agents_evolve_def)

lemma frozen_same_rows: "agents_evolve (\<lambda>e' _. e' \<noteq> e) s s' \<and> rows_of s' = rows_of s \<Longrightarrow> frozen e s s'"
  by (auto simp: frozen_def rows_ok_def rows_at_def intro: shut_out_evolves)

lemma heartbeat_frozen:
  assumes run: "heartbeat env ids authorization i ip now now' others s = (s', x)" and others: "frozen e s (others s)"
    and fresh: "fresh_ids (hi_address ids) (rows_of (others s))"
  shows "frozen e s s'"
  using run
proof (cases rule: heartbeat_cases)
  case refused
  then show ?thesis using others by (auto simp: frozen_def)
next
  case (reports who a s2 r)
  show ?thesis
    unfolding frozen_def
  proof (intro impI)
    assume start: "shut_out e s \<and> rows_ok s"
    with others have mid: "shut_out e (others s)" "rows_ok (others s)" "rows_at e (others s) = rows_at e s" by (auto simp: frozen_def)
    have "dg_endpointId (at_agent who) \<noteq> e" using start authenticated(1,2) [OF reports(1)] by (auto simp: shut_out_def)
    then have other: "en_id (at_endpoint who) \<noteq> e" using authenticated(5) [OF reports(1)] by simp
    from reportAddresses_ok [OF reports(3) mid(2) fresh resolved_families] reports(4)
    have rows: "rows_ok s'" and kept: "untouched (en_id (at_endpoint who)) (du_family ` set (resolveDdnsAddressUpdates i
        (normalizeDdnsSourceIp (de_isIP env) ip))) (rows_of (others s)) (rows_of s')" by (auto simp: rows_ok_def)
    have "rows_at e s' = rows_at e (others s)"
      unfolding rows_at_def by (rule filter_sub [OF kept [unfolded untouched_def]]) (use other in auto)
    with rows mid(3) shut_out_evolves [OF mid(1) reportAddresses_evolves [OF reports(3,5)]]
    show "shut_out e s' \<and> rows_ok s' \<and> rows_at e s' = rows_at e s" by simp
  qed
qed

lemma ddns_step_frozen: "ddns_step env (\<lambda>e' _. e' \<noteq> e) s s' \<Longrightarrow> frozen e s s'"
proof (induction rule: ddns_step.induct)
  case (Create actor poolId f seconds now token fresh others s s' reply)
  from frozen_trans [OF frozen_steps [OF Create.IH]
    frozen_same_rows [OF createInstallToken_evolves [where allowed = "\<lambda>e' _. e' \<noteq> e", OF Create.hyps(1,2)]]]
  show ?case .
next
  case (Revoke actor poolId f now s s')
  show ?case by (rule frozen_same_rows) (use disabled_evolves [OF revoke_state(1) [OF Revoke]] revoke_state(2) [OF Revoke] in blast)
next
  case (Exchange token runtime now others s s' f)
  from frozen_trans [OF frozen_steps [OF Exchange.IH] frozen_same_rows [OF exchange_evolves [OF Exchange.hyps(1)]]] show ?case .
next
  case (Heartbeat ids authorization i ip now now' others s s' x)
  from heartbeat_frozen [OF Heartbeat.hyps(1) frozen_steps [OF Heartbeat.IH] Heartbeat.hyps(2)] show ?case .
next
  case (RevokeSelf authorization now others s s')
  from frozen_trans [OF frozen_steps [OF RevokeSelf.IH] frozen_same_rows [OF revokeRuntime_evolves [OF RevokeSelf.hyps(1)]]] show ?case .
qed


section \<open>Runtime tokens\<close>

text \<open>The exchange gives the agent the new runtime token and keeps the one it replaces for exactly ten minutes: after it the token of hash
  \<open>g\<close> is accepted at time \<open>t\<close> just when it is the new one, or it is the replaced one and \<open>t\<close> is before the end of the grace.\<close>

theorem runtime_token_grace:
  assumes "exchange env token runtime now others s = Inr (s', e)"
  shows "\<exists>a a'. a \<in> set (dd_agents (others s)) \<and> a' \<in> set (dd_agents s') \<and> dg_endpointId a = e \<and> dg_endpointId a' = e
    \<and> (\<forall>g t. runtimeTokenMatches a' g t \<longleftrightarrow> g = de_hash env runtime \<or> dg_runtimeTokenHash a = Some g \<and> g \<noteq> [] \<and> t < now + 600000)"
  using assms
proof (rule exchange_state)
  fix a assume a: "a \<in> set (dd_agents (others s))" "dg_endpointId a = e"
    and s': "dd_agents s' = update_where (\<lambda>x. dg_id x = dg_id a) (exchanged_agent (de_hash env runtime) now) (dd_agents (others s))"
  let ?a = "exchanged_agent (de_hash env runtime) now a"
  have "?a \<in> set (dd_agents s')" unfolding s' using a(1) by (auto simp: set_update_where)
  moreover have "dg_endpointId ?a = e" using a(2) by (simp add: exchanged_agent_def rotateRuntimeToken_def)
  moreover have "runtimeTokenMatches ?a g t \<longleftrightarrow> g = de_hash env runtime \<or> dg_runtimeTokenHash a = Some g \<and> g \<noteq> [] \<and> t < now + 600000" for g t
    by (auto simp: runtimeTokenMatches_def exchanged_agent_def rotateRuntimeToken_def RUNTIME_TOKEN_GRACE_MS_def split: option.splits)
  ultimately show ?thesis using a by blast
qed

section \<open>Words of the shell\<close>

text \<open>How a POSIX shell reads one word: bare, between single quotes, between double quotes. \<open>None\<close> is a word that does not end, or a
  character outside of quotes that the shell would interpret.\<close>

datatype word_mode = Bare | SingleQuoted | DoubleQuoted

fun read_word :: "word_mode \<Rightarrow> string \<Rightarrow> string option" where
  "read_word Bare [] = Some []"
| "read_word SingleQuoted [] = None"
| "read_word DoubleQuoted [] = None"
| "read_word Bare (c # s) = (if c = CHR 0x27 then read_word SingleQuoted s else if c = CHR 0x22 then read_word DoubleQuoted s
     else if token_char c then map_option (Cons c) (read_word Bare s) else None)"
| "read_word SingleQuoted (c # s) = (if c = CHR 0x27 then read_word Bare s else map_option (Cons c) (read_word SingleQuoted s))"
| "read_word DoubleQuoted (c # s) = (if c = CHR 0x22 then read_word Bare s
     else if c = CHR 0x24 \<or> c = CHR 0x60 \<or> c = CHR 0x5C then None else map_option (Cons c) (read_word DoubleQuoted s))"

lemma read_quoted: "read_word SingleQuoted (concat (map quote_char v) @ [CHR 0x27]) = Some v"
  by (induction v) simp_all

text \<open>A quoted value is read back by the shell as one word, whatever characters it holds: nothing in the public URL can leave its quotes in
  the install command.\<close>

theorem shellQuote_roundtrip: "read_word Bare (shellQuote v) = Some v"
  by (simp add: shellQuote_def read_quoted)
section \<open>Examples\<close>

definition home_token :: string where
  "home_token = replicate 32 CHR ''a''"

definition home_env :: DdnsEnv where
  "home_env = \<lparr>de_hash = id, de_isIP = (\<lambda>s. if CHR ''.'' \<in> set s then 4 else if CHR '':'' \<in> set s then 6 else 0), de_sameInet = (=),
     de_parseUrl = (\<lambda>_. None), de_apiUrl = ''https://dns.example.org'', de_iso = (\<lambda>_. [])\<rparr>"

definition home_endpoint :: EndpointRow where
  "home_endpoint = \<lparr>en_id = ''e1'', en_poolId = ''p1'', en_name = ''home'', en_addressMode = DdnsMode, en_priority = 1, en_lifecycle = Enabled,
     en_healthState = Healthy, en_consecutiveSuccesses = 3, en_consecutiveFailures = 0, en_lastCheckedAt = None, en_stateChangedAt = 0\<rparr>"

definition home_check :: HealthCheckConfigRow where
  "home_check = \<lparr>hc_slotId = None, hc_id = ''k2'', hc_poolId = Some ''p1'', hc_endpointId = None, hc_domainBindingId = None,
     hc_checkerType = ''tcp'', hc_config = JObj [], hc_enabled = True, hc_revision = 1, hc_updatedAt = 0\<rparr>"

definition home_agent :: DdnsAgentRow where
  "home_agent = (new_agent ''g1'' ''e1'' home_token 5000)\<lparr>dg_runtimeTokenHash := Some ''old''\<rparr>"

definition home0 :: DdnsState where
  "home0 = \<lparr>dd_agents = [home_agent], dd_db = demo_database\<lparr>tb_endpoints := [home_endpoint], tb_endpointPools := [demo_pool],
     tb_endpointAddresses := [(new_candidate ''a1'' ''e1'' V4 ''192.0.2.9'' 0)\<lparr>ea_state := CurrentAddress\<rparr>],
     tb_healthCheckConfigs := [home_check]\<rparr>, dd_queue = []\<rparr>"

definition home_exchange :: "DdnsError + DdnsState \<times> string" where
  "home_exchange = exchange home_env home_token (rev (CHR ''b'' # home_token)) 1000 id home0"

definition home1 :: DdnsState where
  "home1 = (case home_exchange of Inr (s, _) \<Rightarrow> s | Inl _ \<Rightarrow> home0)"

lemma home_exchanged: "exchange home_env home_token (rev (CHR ''b'' # home_token)) 1000 id home0 = Inr (home1, ''e1'')"
proof -
  have "(case home_exchange of Inr (_, e) \<Rightarrow> e = ''e1'' | Inl _ \<Rightarrow> False)" by code_simp
  then show ?thesis unfolding home1_def by (auto simp: home_exchange_def split: sum.splits)
qed

definition home_report :: HeartbeatInput where
  "home_report = \<lparr>hb_ipv4 = None, hb_ipv6 = Some None, hb_hostname = None, hb_agentVersion = None\<rparr>"

definition home_ids :: HeartbeatIds where
  "home_ids = \<lparr>hi_address = (\<lambda>f. case f of V4 \<Rightarrow> ''a2'' | V6 \<Rightarrow> ''a3''), hi_intent = ''i1'', hi_event = ''v1''\<rparr>"

definition home_heartbeat :: "DdnsState \<times> (DdnsError + HeartbeatReply)" where
  "home_heartbeat = heartbeat home_env home_ids (Some (''Bearer '' @ rev (CHR ''b'' # home_token))) home_report ''198.51.100.7'' 2000 2001 id home1"

definition home2 :: DdnsState where
  "home2 = fst home_heartbeat"

definition home_reply :: HeartbeatReply where
  "home_reply = \<lparr>hy_changed = True, hy_candidates = [(V4, ''198.51.100.7'')], hy_withdrawn = [], hy_queued = 1, hy_lastSeenAt = 2000\<rparr>"

lemma home_heard: "heartbeat home_env home_ids (Some (''Bearer '' @ rev (CHR ''b'' # home_token))) home_report ''198.51.100.7'' 2000 2001 id home1
    = (home2, Inr home_reply)"
proof -
  have "(case snd home_heartbeat of Inr y \<Rightarrow> y = home_reply | Inl _ \<Rightarrow> False)" by code_simp
  then have "snd home_heartbeat = Inr home_reply" by (auto split: sum.splits)
  then show ?thesis unfolding home2_def by (metis home_heartbeat_def prod.collapse)
qed

lemma home_rows: "rows_ok home1" "fresh_ids (hi_address home_ids) (rows_of home1)"
  by code_simp+

lemma home_started: "length (filter (\<lambda>a. dg_installTokenHash a = Some (de_hash home_env home_token)) (dd_agents home0)) \<le> 1"
  by code_simp

theorem heartbeat_publishes_nothing_witness: "fst home_heartbeat = home2 \<and> rows_ok home2"
  using heartbeat_publishes_nothing [OF home_heard] home_rows by (simp add: home2_def)

theorem heartbeat_takes_report_witness:
  "\<exists>who. authenticateRuntimeToken home_env (Some (''Bearer '' @ rev (CHR ''b'' # home_token))) 2000 home1 = Inr who
    \<and> list_all (reported_ok (en_id (at_endpoint who)) (rows_of home2)) (resolveDdnsAddressUpdates home_report (Some ''198.51.100.7''))"
proof -
  have "normalizeDdnsSourceIp (de_isIP home_env) ''198.51.100.7'' = Some ''198.51.100.7''" by code_simp
  with heartbeat_takes_report [OF home_heard] home_rows show ?thesis by (auto simp: list_all_iff)
qed


theorem install_token_single_use_witness:
  "exchange home_env home_token (rev (CHR ''b'' # home_token)) 1000 id home0 = Inr (home1, ''e1'')
    \<and> exchange home_env home_token ''other'' 3000 id home2 = Inl InstallTokenInvalid"
proof -
  have "ddns_step home_env (\<lambda>_ g. g \<noteq> de_hash home_env home_token) home1 home2"
    by (rule ddns_step.Heartbeat [OF home_heard]) (simp_all add: home_rows)
  then have "(ddns_step home_env (\<lambda>_ g. g \<noteq> de_hash home_env home_token))\<^sup>*\<^sup>* home1 home2" by (rule r_into_rtranclp)
  from install_token_single_use [OF home_exchanged _ this] home_started home_exchanged show ?thesis by simp
qed

definition home_revoke :: "DdnsError + DdnsState" where
  "home_revoke = revoke home_env \<lparr>au_id = ''u1'', au_admin = False\<rparr> ''p1'' ''e1'' 1500 home1"

definition home_revoked :: DdnsState where
  "home_revoked = (case home_revoke of Inr s \<Rightarrow> s | Inl _ \<Rightarrow> home0)"

lemma home_revoke: "revoke home_env \<lparr>au_id = ''u1'', au_admin = False\<rparr> ''p1'' ''e1'' 1500 home1 = Inr home_revoked"
proof -
  have "\<not> isl home_revoke" by code_simp
  then show ?thesis unfolding home_revoked_def by (auto simp: home_revoke_def split: sum.splits)
qed


theorem runtime_token_grace_witness:
  "\<exists>a' \<in> set (dd_agents home1). runtimeTokenMatches a' (rev (CHR ''b'' # home_token)) 700000"
proof -
  from runtime_token_grace [OF home_exchanged] obtain a' where "a' \<in> set (dd_agents home1)"
    "runtimeTokenMatches a' (de_hash home_env (rev (CHR ''b'' # home_token))) 700000" by blast
  then show ?thesis by (auto simp: home_env_def)
qed

end
