(* ===== verification/Rotation_Worker.thy ===== *)
theory Rotation_Worker
  imports Rotation_Cleanup Store_Safety
begin

text \<open>
  The rotation worker (\<open>apps/worker/src/rotation/rotation.processor.ts\<close>): one job drives one incident by one decision, with the transactions
  of the store around at most one call of the cloud. With it the scan of the publication service that gives every pending
  publication its turn. What the cloud answers, what others commit before each transaction, the clock of each transaction and the
  recovery of a reset machine (\<open>rotation-reset-recovery.service.ts\<close>) are inputs. The order of the scan, by a column that the rows of the
  model do not carry, is a parameter.
\<close>

section \<open>The publication service\<close>

record PublishWorld =
  pw_env :: PublishEnv
  pw_observeNow :: int
  pw_observeOthers :: "Database \<Rightarrow> Database"
  pw_reset :: "string \<Rightarrow> Database \<Rightarrow> Database \<times> bool"

definition observePublicationOf :: "PublishWorld \<Rightarrow> string \<Rightarrow> Database \<Rightarrow> Database \<times> CodeError option" where
  "observePublicationOf w i d0 = (let
       incidentId = Option.bind (select_one (\<lambda>p. pb_id p = i) (ct_publications (tb_cloud d0))) pb_incidentId;
       (d1, handled) = (case incidentId of Some x \<Rightarrow> pw_reset w x d0 | None \<Rightarrow> (d0, False)) in
     if handled then (d1, None)
     else (let d2 = pw_observeOthers w d1 in
       case observePublication (pv_physicalKey (pw_env w)) (pv_ids (pw_env w)) (pw_observeNow w) i d2 of Inl e \<Rightarrow> (d2, Some e) | Inr d3 \<Rightarrow> (d3, None)))"

definition publish :: "PublishWorld \<Rightarrow> string \<Rightarrow> Database \<Rightarrow> Database \<times> run_error option" where
  "publish w incidentId d = (case find_incident d incidentId of
     None \<Rightarrow> (d, Some (OtherError ''rotation_not_found''))
   | Some incident \<Rightarrow> (case publishSlot (pw_env w) (ri_slotId incident) (Some incidentId) d of
       (d1, Inl e) \<Rightarrow> (d1, Some e)
     | (d1, Inr p) \<Rightarrow> (case p of
         Some x \<Rightarrow> if pb_promotedAt x = None then (d1, None) else map_prod id (map_option OtherError) (observePublicationOf w (pb_id x) d1)
       | None \<Rightarrow> (d1, None))))"

definition unserved_slots :: "Database \<Rightarrow> string list" where
  "unserved_slots d = js_set (take 200 (map cl_slotId (filter (\<lambda>l. case select_one (\<lambda>s. ms_id s = cl_slotId l) (ct_slots (tb_cloud d)) of
       None \<Rightarrow> False
     | Some slot \<Rightarrow> 0 < ms_currentVersion slot \<and> ms_candidateAddressId slot = None
         \<and> (\<not> list_ex (\<lambda>a. ea_endpointId a = cl_endpointId l \<and> ea_family a = cl_family l \<and> ea_state a = CurrentAddress) (tb_endpointAddresses d)
           \<or> list_ex (\<lambda>p. pb_slotId p = ms_id slot \<and> pb_addressVersion p = ms_currentVersion slot \<and> pb_errorCode p = Some ''manual_terminated'')
               (ct_publications (tb_cloud d)))) (ct_links (tb_cloud d)))))"

definition candidate_slots :: "(string list \<Rightarrow> string list) \<Rightarrow> Database \<Rightarrow> string list" where
  "candidate_slots order d = take 200 (order (map ms_id (filter (\<lambda>s. ms_candidateAddressId s \<noteq> None) (ct_slots (tb_cloud d)))))"

definition pending_publications :: "(string list \<Rightarrow> string list) \<Rightarrow> Database \<Rightarrow> string list" where
  "pending_publications order d = take 200 (order (map pb_id (filter (\<lambda>p. pb_status p \<noteq> PbApplied \<and> pb_promotedAt p \<noteq> None
     \<and> pb_errorCode p \<noteq> Some ''manual_terminated'') (ct_publications (tb_cloud d)))))"

definition observe_or_record :: "PublishWorld \<Rightarrow> string \<Rightarrow> Database \<Rightarrow> Database" where
  "observe_or_record w i d = (case observePublicationOf w i d of
     (d1, None) \<Rightarrow> d1
   | (d1, Some e) \<Rightarrow> set_cloud (\<lambda>t. t\<lparr>ct_publications := update_where (\<lambda>p. pb_id p = i \<and> pb_errorCode p \<noteq> Some ''manual_terminated'')
       (\<lambda>p. p\<lparr>pb_errorCode := Some (take 80 e)\<rparr>) (ct_publications t)\<rparr>) d1)"

fun reverified :: "physical_key \<Rightarrow> string list \<Rightarrow> Database \<Rightarrow> Database \<times> CodeError option" where
  "reverified pk [] d = (d, None)"
| "reverified pk (s # ss) d = (case reverifySlot pk s d of Inl e \<Rightarrow> (d, Some e) | Inr d1 \<Rightarrow> reverified pk ss d1)"

text \<open>A slot that cannot be verified again ends the scan; the failure of one publication does not.\<close>

definition recoverPublications ::
  "(string list \<Rightarrow> string list) \<Rightarrow> physical_key \<Rightarrow> (string \<Rightarrow> PublishWorld) \<Rightarrow> Database \<Rightarrow> Database \<times> CodeError option" where
  "recoverPublications order pk w d = (case reverified pk (unserved_slots d) d of
     (d1, Some e) \<Rightarrow> (d1, Some e)
   | (d1, None) \<Rightarrow>
       (let d2 = fold (\<lambda>s d. fst (publishSlot (pw_env (w s)) s None d)) (candidate_slots order d1) d1
        in (fold (\<lambda>i. observe_or_record (w i) i) (pending_publications order d2) d2, None)))"

section \<open>A job\<close>

record RotationWorld =
  rw_now :: "nat \<Rightarrow> int"
  rw_others :: "nat \<Rightarrow> Database \<Rightarrow> Database"
  rw_holder :: string
  rw_ids :: FreshIds
  rw_reset :: "string \<Rightarrow> Database \<Rightarrow> Database \<times> bool"
  rw_supported :: "CloudService \<Rightarrow> bool"
  rw_planFault :: "CodeError \<Rightarrow> bool"
  rw_adapter :: "bool \<Rightarrow> run_error + bool"
  rw_observe :: "CloudStep \<Rightarrow> run_error + (string \<times> json) list"
  rw_inspect :: "run_error + json"
  rw_execute :: "CloudStep \<Rightarrow> run_error + (string \<times> json) list"
  rw_publish :: PublishWorld
  rw_cleanup :: CleanupEnv

definition noEffectErrors :: "string list" where
  "noEffectErrors = [''permission_denied'', ''quota_exceeded'', ''rate_limited'', ''credentials_expired'', ''invalid_credentials'',
     ''rotation_unsupported'', ''invalid_rotation_step'', ''cloud_writes_not_enabled'', ''remote_identity_changed'', ''cleanup_not_authorized'']"

definition safeError :: "run_error \<Rightarrow> string" where
  "safeError e = (case e of CallTimeout \<Rightarrow> ''rotation_call_timeout'' | CloudFault code _ \<Rightarrow> code
     | OtherError message \<Rightarrow> if message \<in> {''authorization_changed'', ''authorization_revoked'', ''family_disabled'', ''region_excluded'',
         ''resource_not_found'', ''conflicting_manager'', ''rotation_limit_too_low'', ''instance_lifecycle_busy'',
         ''rotation_temporary_instance_not_authorized'', ''rotation_temporary_instance_busy''} then message else ''rotation_runtime_failed'')"

text \<open>The planner that \<open>prepare\<close> calls throws errors of the cloud; every other error of a transaction is plain.\<close>

definition thrown :: "RotationWorld \<Rightarrow> CodeError \<Rightarrow> run_error" where
  "thrown w e = (if rw_planFault w e then CloudFault e None else OtherError e)"

definition in_tx :: "RotationWorld \<Rightarrow> nat \<Rightarrow> (int \<Rightarrow> Database \<Rightarrow> CodeError + Database \<times> 'a) \<Rightarrow> Database \<Rightarrow> Database \<times> (run_error + 'a)" where
  "in_tx w n f d = (let d0 = rw_others w n d in case f (rw_now w n) d0 of Inl e \<Rightarrow> (d0, Inl (thrown w e)) | Inr (d1, x) \<Rightarrow> (d1, Inr x))"

definition in_update :: "RotationWorld \<Rightarrow> nat \<Rightarrow> (int \<Rightarrow> Database \<Rightarrow> Database) \<Rightarrow> Database \<Rightarrow> Database" where
  "in_update w n f d = f (rw_now w n) (rw_others w n d)"

definition observation_plan :: "RotationStepRow \<Rightarrow> CloudStep" where
  "observation_plan step = (st_plan step)\<lparr>pl_arguments := put_entries ((case st_receipt step of Some es \<Rightarrow> [(''receipt'', JObj es)] | None \<Rightarrow> [])
     @ [(''previousExecution'', JBool True)]) (pl_arguments (st_plan step))\<rparr>"

definition observe_failed :: "StoreEnv \<Rightarrow> RotationWorld \<Rightarrow> string \<Rightarrow> RotationStepRow \<Rightarrow> run_error \<Rightarrow> Database \<Rightarrow> Database \<times> run_error option" where
  "observe_failed env w i step e d =
    (case in_tx w 5 (\<lambda>now. reject env now i (st_id step) (safeError e) False None (Some (st_fence step))) d of
       (d1, Inl e') \<Rightarrow> (d1, Some e')
     | (d1, Inr saved) \<Rightarrow> if \<not> saved then (d1, None)
         else (case in_tx w 6 (\<lambda>now. pause env now i (safeError e) (retry_delay e)) d1 of (d2, Inl e') \<Rightarrow> (d2, Some e') | (d2, Inr _) \<Rightarrow> (d2, None)))"

definition observeStep :: "StoreEnv \<Rightarrow> RotationWorld \<Rightarrow> string \<Rightarrow> bool \<Rightarrow> RotationStepRow \<Rightarrow> Database \<Rightarrow> Database \<times> run_error option" where
  "observeStep env w i convergenceExpired step d = (case rw_observe w (observation_plan step) of
     Inl e \<Rightarrow> observe_failed env w i step e d
   | Inr result \<Rightarrow> (case in_tx w 3 (\<lambda>now. saveReceipt env (rw_ids w) now i (st_id step) result True (Some (st_fence step))) d of
       (d1, Inl e) \<Rightarrow> observe_failed env w i step e d1
     | (d1, Inr saved) \<Rightarrow> if \<not> (saved \<and> convergenceExpired \<and> json_get (JObj result) ''status'' = JStr ''pending'') then (d1, None)
         else (case in_tx w 4 (\<lambda>now. pause env now i ''cloud_convergence_timeout'' None) d1 of
             (d2, Inl e) \<Rightarrow> observe_failed env w i step e d2 | (d2, Inr _) \<Rightarrow> (d2, None))))"

definition no_effect :: "run_error \<Rightarrow> bool" where
  "no_effect e = (case e of CloudFault code _ \<Rightarrow> code \<in> set noEffectErrors | _ \<Rightarrow> False)"

definition executeStep ::
  "StoreEnv \<Rightarrow> RotationWorld \<Rightarrow> string \<Rightarrow> LeaseHandle \<Rightarrow> string \<Rightarrow> AdapterIdentity \<Rightarrow> Database \<Rightarrow> Database \<times> CloudStep option \<times> run_error option" where
  "executeStep env w i lease stepId identity d = (case in_tx w 3 (\<lambda>now. dispatch env now i lease stepId identity) d of
     (d1, Inl e) \<Rightarrow> (d1, None, Some e)
   | (d1, Inr None) \<Rightarrow> (d1, None, None)
   | (d1, Inr (Some plan)) \<Rightarrow> (let fence = Some (Some (lh_revision lease)) in
       case rw_execute w plan of
         Inl e \<Rightarrow> (case in_tx w 4 (\<lambda>now. reject env now i stepId (safeError e) (no_effect e) (retry_delay e) fence) d1 of
             (d2, Inl e') \<Rightarrow> (d2, Some plan, Some e') | (d2, Inr _) \<Rightarrow> (d2, Some plan, None))
       | Inr receipt \<Rightarrow> (case in_tx w 4 (\<lambda>now. saveReceipt env (rw_ids w) now i stepId receipt False fence) d1 of
             (d2, Inl e') \<Rightarrow> (d2, Some plan, Some e') | (d2, Inr _) \<Rightarrow> (d2, Some plan, None))))"

definition prepareRun :: "StoreEnv \<Rightarrow> RotationWorld \<Rightarrow> string \<Rightarrow> LeaseHandle \<Rightarrow> AdapterIdentity \<Rightarrow> Database \<Rightarrow> Database \<times> run_error option" where
  "prepareRun env w i lease identity d = (case rw_inspect w of
     Inl e \<Rightarrow> (d, Some e)
   | Inr inventory \<Rightarrow> (case in_tx w 3 (\<lambda>now. prepare env (rw_ids w) now i lease inventory identity) d of
       (d1, Inl e) \<Rightarrow> (d1, Some e) | (d1, Inr _) \<Rightarrow> (d1, None)))"

definition identity_of :: "RotationRun \<Rightarrow> AdapterIdentity" where
  "identity_of run = \<lparr>ai_credentialCiphertext = ca_credentialCiphertext (cx_account (ru_context run)),
     ai_externalAccountId = ca_externalAccountId (cx_account (ru_context run))\<rparr>"

definition adapter_ready :: "RotationWorld \<Rightarrow> bool \<Rightarrow> run_error option" where
  "adapter_ready w observing = (case rw_adapter w observing of
     Inl e \<Rightarrow> Some e | Inr details \<Rightarrow> if details then None else Some (CloudFault ''rotation_unsupported'' None))"

definition settleRun :: "StoreEnv \<Rightarrow> RotationWorld \<Rightarrow> string \<Rightarrow> LeaseHandle \<Rightarrow> Database \<Rightarrow> Database \<times> run_error option" where
  "settleRun env w i lease d = (case in_tx w 2 (\<lambda>now. settle env (rw_ids w) now i lease) d of (d1, Inl e) \<Rightarrow> (d1, Some e) | (d1, Inr _) \<Rightarrow> (d1, None))"

text \<open>An execution of a service that is not registered for rotation fails before anything is called.\<close>

definition cloudPhase ::
  "StoreEnv \<Rightarrow> RotationWorld \<Rightarrow> string \<Rightarrow> LeaseHandle \<Rightarrow> RotationRun \<Rightarrow> Database \<Rightarrow> Database \<times> CloudStep option \<times> run_error option" where
  "cloudPhase env w i lease run d = (let quiet = (\<lambda>(d, e). (d, None, e)); identity = identity_of run;
       unsupported = (\<not> rw_supported w (cin_service (cx_instance (ru_context run)))) in
     case ru_action run of
       Observe attemptId stepId convergenceExpired \<Rightarrow> (case adapter_ready w True of
           Some e \<Rightarrow> (d, None, Some e)
         | None \<Rightarrow> (case find (\<lambda>s. st_id s = stepId) (ru_steps run) of
             None \<Rightarrow> (d, None, Some (OtherError ''type_error''))
           | Some step \<Rightarrow> quiet (observeStep env w i convergenceExpired step d)))
     | ExecutePrepareAttempt budget \<Rightarrow> if unsupported then (d, None, Some (CloudFault ''rotation_unsupported'' None))
         else (case adapter_ready w False of Some e \<Rightarrow> (d, None, Some e) | None \<Rightarrow> quiet (prepareRun env w i lease identity d))
     | ExecuteCloudStep attemptId stepId \<Rightarrow> if unsupported then (d, None, Some (CloudFault ''rotation_unsupported'' None))
         else (case adapter_ready w False of Some e \<Rightarrow> (d, None, Some e) | None \<Rightarrow> executeStep env w i lease stepId identity d)
     | _ \<Rightarrow> quiet (settleRun env w i lease d))"

definition publish_action :: "RotationAction \<Rightarrow> bool" where
  "publish_action a = (case a of PublishDispatch _ \<Rightarrow> True | PublishObserve _ \<Rightarrow> True | _ \<Rightarrow> False)"

definition must_wait :: "RotationRun \<Rightarrow> bool" where
  "must_wait run = (let x = ru_incident run in ri_errorCode x = Some ''recovery_retries_exhausted''
     \<or> (case ri_recoveryRetryAt x of Some t \<Rightarrow> rh_now (ru_health run) < t | None \<Rightarrow> False)
     \<or> ri_phase x = PublishPhase \<and> Option.bind (ru_publication run) pb_promotedAt = None \<and> (ri_status x = IncPaused \<or> ri_pausedByUserId x \<noteq> None))"

text \<open>The physical machine is released before the publication or the cleanup takes it.\<close>

definition publishPhase :: "StoreEnv \<Rightarrow> RotationWorld \<Rightarrow> string \<Rightarrow> LeaseHandle \<Rightarrow> RotationRun \<Rightarrow> Database \<Rightarrow> Database \<times> run_error option" where
  "publishPhase env w i lease run d = (let x = ru_incident run; later = in_update w 3 (\<lambda>now. deferRun now i) in
     if must_wait run then (later d, None)
     else if ri_phase x = PublishPhase \<and> Option.bind (ru_publication run) pb_promotedAt = None \<and> ri_rotationTrigger x \<noteq> ManualTrigger
        \<and> \<not> publish_action (ru_action run) then settleRun env w i lease d
     else (let d1 = in_update w 2 (\<lambda>now. release now lease) d in
       if ri_phase x = PublishPhase
       then (case publish (rw_publish w) i (rw_others w 10 d1) of
           (d2, None) \<Rightarrow> (later d2, None)
         | (d2, Some e) \<Rightarrow> if e = OtherError ''fresh_external_success_required'' then (later d2, None) else (d2, Some e))
       else (case in_tx w 10 (\<lambda>now d. bindE (completeCleanup (rw_cleanup w) now i d) (\<lambda>d'. Inr (d', ()))) d1 of
           (d2, Inl e) \<Rightarrow> (d2, Some e) | (d2, Inr _) \<Rightarrow> (later d2, None))))"

definition drive ::
  "StoreEnv \<Rightarrow> RotationWorld \<Rightarrow> string \<Rightarrow> LeaseHandle \<Rightarrow> Database \<Rightarrow> Database \<times> CloudStep option \<times> run_error option" where
  "drive env w i lease d = (case in_tx w 1 (\<lambda>now. readRun env now i lease) d of
     (d1, Inl e) \<Rightarrow> (d1, None, Some e)
   | (d1, Inr run) \<Rightarrow> if ri_terminatedAt (ru_incident run) \<noteq> None then (d1, None, None)
       else if ri_phase (ru_incident run) \<in> {PublishPhase, CleanupPhase} then (case publishPhase env w i lease run d1 of (d2, e) \<Rightarrow> (d2, None, e))
       else cloudPhase env w i lease run d1)"

text \<open>A run: the database it leaves, the step it sent to the cloud, if any, and the error it throws itself.\<close>

definition runRotation :: "StoreEnv \<Rightarrow> RotationWorld \<Rightarrow> string \<Rightarrow> Database \<Rightarrow> Database \<times> CloudStep option \<times> run_error option" where
  "runRotation env w i d = (case rw_reset w i d of
     (d0, True) \<Rightarrow> (d0, None, None)
   | (d0, False) \<Rightarrow> (case in_tx w 0 (\<lambda>now. claim env now i (rw_holder w)) d0 of
       (d1, Inl e) \<Rightarrow> (d1, None, Some e)
     | (d1, Inr None) \<Rightarrow> (d1, None, None)
     | (d1, Inr (Some lease)) \<Rightarrow> (case drive env w i lease d1 of (d2, sent, e) \<Rightarrow>
         (let (d3, e') = (case e of None \<Rightarrow> (d2, None)
              | Some x \<Rightarrow> (case in_tx w 8 (\<lambda>now. pause env now i (safeError x) (retry_delay x)) d2 of (d3, Inl y) \<Rightarrow> (d3, Some y) | (d3, Inr _) \<Rightarrow> (d3, None)))
          in (in_update w 9 (\<lambda>now. release now lease) d3, sent, e')))))"

section \<open>What a run adds up to\<close>

text \<open>A step of the store, what others commit, the recovery of a reset machine, a publication, or a completed cleanup.\<close>

inductive worker_step :: "StoreEnv \<Rightarrow> RotationWorld \<Rightarrow> Database \<Rightarrow> Database \<Rightarrow> bool" for env w where
  Store: "store_step env d d' \<Longrightarrow> worker_step env w d d'"
| Others: "worker_step env w d (rw_others w n d)"
| Reset: "worker_step env w d (fst (rw_reset w i d))"
| Publish: "worker_step env w d (fst (publish (rw_publish w) i d))"
| Clean: "completeCleanup (rw_cleanup w) now i d = Inr d' \<Longrightarrow> worker_step env w d d'"

abbreviation reach :: "StoreEnv \<Rightarrow> RotationWorld \<Rightarrow> Database \<Rightarrow> Database \<Rightarrow> bool" where
  "reach env w \<equiv> (worker_step env w)\<^sup>*\<^sup>*"

lemma reach_others: "reach env w d (rw_others w n d)"
  by (rule r_into_rtranclp) (rule Others)

lemma reach_store: "store_step env d d' \<Longrightarrow> reach env w d d'"
  by (rule r_into_rtranclp) (rule Store)

lemma reach_trans: "reach env w d d1 \<Longrightarrow> reach env w d1 d2 \<Longrightarrow> reach env w d d2"
  by (rule rtranclp_trans)

lemma others_reach: "reach env w (rw_others w n d) d' \<Longrightarrow> reach env w d d'"
  by (rule reach_trans [OF reach_others])

lemma in_tx_reach:
  assumes "in_tx w n f d = (d', r)" and step: "\<And>now d0 d1 x. f now d0 = Inr (d1, x) \<Longrightarrow> store_step env d0 d1"
  shows "reach env w d d'"
proof (rule others_reach [where n = n])
  show "reach env w (rw_others w n d) d'"
    using assms(1) reach_store [OF step] by (auto simp: in_tx_def Let_def split: sum.splits prod.splits)
qed

lemma in_tx_moves:
  "in_tx w n (\<lambda>now. claim env now i holder) d = (d', r1) \<Longrightarrow> reach env w d d'"
  "in_tx w n (\<lambda>now. readRun env now i lease) d = (d', r2) \<Longrightarrow> reach env w d d'"
  "in_tx w n (\<lambda>now. prepare env ids now i lease inventory identity) d = (d', r3) \<Longrightarrow> reach env w d d'"
  "in_tx w n (\<lambda>now. dispatch env now i lease stepId identity) d = (d', r4) \<Longrightarrow> reach env w d d'"
  "in_tx w n (\<lambda>now. saveReceipt env ids now i stepId result observed fence) d = (d', r5) \<Longrightarrow> reach env w d d'"
  "in_tx w n (\<lambda>now. reject env now i stepId code noEffect retryAfter fence) d = (d', r6) \<Longrightarrow> reach env w d d'"
  "in_tx w n (\<lambda>now. settle env ids now i lease) d = (d', r7) \<Longrightarrow> reach env w d d'"
  "in_tx w n (\<lambda>now. pause env now i code retryAfter) d = (d', r8) \<Longrightarrow> reach env w d d'"
  by (rule in_tx_reach, assumption, rule store_step.intros, assumption)+

lemma in_update_reach: "(\<And>now d0. store_step env d0 (f now d0)) \<Longrightarrow> reach env w d (in_update w n f d)"
  unfolding in_update_def by (rule others_reach) (rule reach_store)

lemma in_update_moves: "reach env w d (in_update w n (\<lambda>now. deferRun now i) d)" "reach env w d (in_update w n (\<lambda>now. release now lease) d)"
  by (rule in_update_reach, rule store_step.intros)+

lemma observe_failed_reach: "observe_failed env w i step e d = (d', x) \<Longrightarrow> reach env w d d'"
  by (auto simp: observe_failed_def split: prod.splits sum.splits if_splits dest!: in_tx_moves elim: reach_trans)

lemma observeStep_reach: "observeStep env w i expired step d = (d', x) \<Longrightarrow> reach env w d d'"
  by (auto simp: observeStep_def split: prod.splits sum.splits if_splits dest!: in_tx_moves observe_failed_reach elim: reach_trans)

lemma executeStep_reach: "executeStep env w i lease stepId identity d = (d', x) \<Longrightarrow> reach env w d d'"
  by (auto simp: executeStep_def Let_def split: prod.splits sum.splits option.splits dest!: in_tx_moves elim: reach_trans)

lemma prepareRun_reach: "prepareRun env w i lease identity d = (d', x) \<Longrightarrow> reach env w d d'"
  by (auto simp: prepareRun_def split: prod.splits sum.splits dest!: in_tx_moves)

lemma settleRun_reach: "settleRun env w i lease d = (d', x) \<Longrightarrow> reach env w d d'"
  by (auto simp: settleRun_def split: prod.splits sum.splits dest!: in_tx_moves)

lemma cloudPhase_reach: "cloudPhase env w i lease run d = (d', x) \<Longrightarrow> reach env w d d'"
  by (auto simp: cloudPhase_def Let_def split: RotationAction.splits prod.splits option.splits if_splits
    dest: observeStep_reach executeStep_reach prepareRun_reach settleRun_reach)

lemma publish_reach: "publish (rw_publish w) i d = (d', x) \<Longrightarrow> reach env w d d'"
  using Publish [of env w d i] by (metis fst_conv r_into_rtranclp)

lemma complete_reach:
  "in_tx w n (\<lambda>now d. bindE (completeCleanup (rw_cleanup w) now i d) (\<lambda>d'. Inr (d', ()))) d = (d', r) \<Longrightarrow> reach env w d d'"
  by (rule others_reach [where n = n]) (auto simp: in_tx_def Let_def bindE_eq_Inr split: sum.splits prod.splits intro: Clean)

lemma publishPhase_reach: "publishPhase env w i lease run d = (d', x) \<Longrightarrow> reach env w d d'"
  by (auto simp: publishPhase_def Let_def split: prod.splits sum.splits option.splits if_splits
    dest!: settleRun_reach complete_reach publish_reach [where env = env] others_reach
    intro: in_update_moves reach_trans [OF in_update_moves(2)] elim!: reach_trans [OF _ in_update_moves(1)])

lemma drive_reach: "drive env w i lease d = (d', x) \<Longrightarrow> reach env w d d'"
  by (auto simp: drive_def split: prod.splits sum.splits if_splits dest!: in_tx_moves publishPhase_reach cloudPhase_reach elim: reach_trans)

text \<open>C0: A run of the rotation worker is a sequence of transactions of the store, recoveries, publications and completed cleanups, with commits
  of others between them: it changes the database in no other way, so what these keep every job keeps.\<close>

theorem worker_run_composed:
  assumes "runRotation env w i d = (d', sent, e)"
  shows "reach env w d d'"
proof -
  obtain d0 handled where reset: "rw_reset w i d = (d0, handled)" by (rule prod.exhaust)
  have start: "reach env w d d0" using Reset [of env w d i] by (simp add: reset r_into_rtranclp)
  have "reach env w d0 d'"
    using assms reset by (auto simp: runRotation_def Let_def split: bool.splits prod.splits sum.splits option.splits
      dest!: in_tx_moves drive_reach intro: in_update_moves elim!: reach_trans [OF _ in_update_moves(2)] elim: reach_trans)
  with start show ?thesis by (rule reach_trans)
qed

section \<open>The step that is sent\<close>

text \<open>The run from the dispatch to the call: where the step came from, and what is stored after the call.\<close>

definition closing :: "StoreEnv \<Rightarrow> RotationWorld \<Rightarrow> string \<Rightarrow> LeaseHandle \<Rightarrow> run_error option \<Rightarrow> Database \<Rightarrow> Database" where
  "closing env w i lease e d = in_update w 9 (\<lambda>now. release now lease) (case e of None \<Rightarrow> d
     | Some x \<Rightarrow> fst (in_tx w 8 (\<lambda>now. pause env now i (safeError x) (retry_delay x)) d))"

definition after_call :: "StoreEnv \<Rightarrow> RotationWorld \<Rightarrow> string \<Rightarrow> LeaseHandle \<Rightarrow> string \<Rightarrow> CloudStep \<Rightarrow> Database \<Rightarrow> Database \<times> run_error option" where
  "after_call env w i lease stepId plan d = (let fence = Some (Some (lh_revision lease)) in case rw_execute w plan of
     Inl e \<Rightarrow> (case in_tx w 4 (\<lambda>now. reject env now i stepId (safeError e) (no_effect e) (retry_delay e) fence) d of
         (d2, Inl e') \<Rightarrow> (d2, Some e') | (d2, Inr _) \<Rightarrow> (d2, None))
   | Inr receipt \<Rightarrow> (case in_tx w 4 (\<lambda>now. saveReceipt env (rw_ids w) now i stepId receipt False fence) d of
         (d2, Inl e') \<Rightarrow> (d2, Some e') | (d2, Inr _) \<Rightarrow> (d2, None)))"

lemma executeStep_sent:
  assumes "executeStep env w i lease stepId identity d = (d', Some plan, e)"
  obtains d1 where "dispatch env (rw_now w 3) i lease stepId identity (rw_others w 3 d) = Inr (d1, Some plan)"
    "after_call env w i lease stepId plan d1 = (d', e)"
  using assms by (auto simp: executeStep_def after_call_def in_tx_def Let_def split: sum.splits prod.splits option.splits)

lemma cloudPhase_sent:
  assumes "cloudPhase env w i lease run d = (d', Some plan, e)"
  obtains attemptId stepId where "ru_action run = ExecuteCloudStep attemptId stepId"
    "executeStep env w i lease stepId (identity_of run) d = (d', Some plan, e)"
  using assms by (auto simp: cloudPhase_def Let_def split: RotationAction.splits option.splits if_splits prod.splits)

lemma drive_sent:
  assumes "drive env w i lease d = (d', Some plan, e)"
  obtains run d1 attemptId stepId where "in_tx w 1 (\<lambda>now. readRun env now i lease) d = (d1, Inr run)" "ru_action run = ExecuteCloudStep attemptId stepId"
    "executeStep env w i lease stepId (identity_of run) d1 = (d', Some plan, e)"
  using assms by (auto simp: drive_def split: sum.splits prod.splits if_splits elim!: cloudPhase_sent)

lemma runRotation_sent:
  assumes "runRotation env w i d = (d', Some plan, e)"
  obtains lease run stepId d0 d1 d2 d3 e' where "reach env w d d0" "in_tx w 0 (\<lambda>now. claim env now i (rw_holder w)) d0 = (d1, Inr (Some lease))"
    "dispatch env (rw_now w 3) i lease stepId (identity_of run) (rw_others w 3 d2) = Inr (d3, Some plan)" "reach env w d d2"
    "d' = closing env w i lease e' (fst (after_call env w i lease stepId plan d3))" "e' = snd (after_call env w i lease stepId plan d3)"
proof -
  obtain d0 where reset: "rw_reset w i d = (d0, False)" using assms by (auto simp: runRotation_def split: prod.splits bool.splits)
  have r0: "reach env w d d0" using Reset [of env w d i] by (simp add: reset r_into_rtranclp)
  from assms reset obtain d1 lease where claim: "in_tx w 0 (\<lambda>now. claim env now i (rw_holder w)) d0 = (d1, Inr (Some lease))"
    by (auto simp: runRotation_def split: prod.splits sum.splits option.splits)
  note r1 = reach_trans [OF r0 in_tx_moves(1) [OF claim]]
  obtain d4 sent e' where drive: "drive env w i lease d1 = (d4, sent, e')" by (metis prod_cases3)
  from assms reset claim drive have "sent = Some plan" and d': "d' = closing env w i lease e' d4"
    by (auto simp: runRotation_def closing_def Let_def split: prod.splits sum.splits option.splits)
  with drive have "drive env w i lease d1 = (d4, Some plan, e')" by simp
  then obtain run d2 attemptId stepId where read: "in_tx w 1 (\<lambda>now. readRun env now i lease) d1 = (d2, Inr run)"
    and exec: "executeStep env w i lease stepId (identity_of run) d2 = (d4, Some plan, e')" by (rule drive_sent)
  note r2 = reach_trans [OF r1 in_tx_moves(2) [OF read]]
  from exec obtain d3 where disp: "dispatch env (rw_now w 3) i lease stepId (identity_of run) (rw_others w 3 d2) = Inr (d3, Some plan)"
    and call: "after_call env w i lease stepId plan d3 = (d4, e')" by (rule executeStep_sent)
  show thesis by (rule that [OF r0 claim disp r2]) (simp_all add: call d')
qed

lemma dispatched_status:
  assumes "dispatch env now i lease stepId identity d = Inr (d', Some plan)"
  shows "(stepId, SsInFlight) \<in> set (statuses d')" and "(stepId, x) \<in> set (statuses d') \<Longrightarrow> x = SsInFlight"
    and "l \<in> set (ct_leases (tb_cloud d')) \<Longrightarrow> le_physicalKey l = lh_physicalKey lease \<Longrightarrow> le_unresolvedStepId l = Some stepId"
proof -
  from assms show "(stepId, SsInFlight) \<in> set (statuses d')"
  proof (cases rule: dispatchE)
    case (sends incident c run attempt step alloc companion t policy p)
    have "ru_steps run = (case ru_attempt run of Some a \<Rightarrow> attempt_steps (tb_cloud d) (ra_id a) | None \<Rightarrow> [])" by (rule snapshot_InrE [OF sends(3)])
    then have "set (ru_steps run) \<subseteq> set (ct_steps (tb_cloud d))" by (auto simp: sends(6) attempt_steps_def)
    moreover have "st_id step = stepId" "step \<in> set (ru_steps run)"
      using sends(7) by (auto simp: find_Some_iff)
    ultimately have step: "st_id step = stepId" "step \<in> set (ct_steps (tb_cloud d))" by auto
    obtain bs rs where t: "t = (tb_cloud d)\<lparr>ct_buckets := bs, ct_reservations := rs\<rparr>" using reserve_tables [OF sends(10)] by blast
    have "map st_id (ct_steps (tb_cloud d')) = map st_id (ct_steps (tb_cloud d))"
      by (simp add: sends(12) dispatch_rows_def charge_attempt_def t map_update_rows)
    then have "set (map st_id (ct_steps (tb_cloud d'))) = set (map st_id (ct_steps (tb_cloud d)))" by simp
    with step have "stepId \<in> set (map st_id (ct_steps (tb_cloud d')))" by force
    then obtain s where s: "s \<in> set (ct_steps (tb_cloud d'))" "st_id s = stepId" by auto
    with dispatched_steps [OF s(1) [unfolded sends(12)] s(2)] show ?thesis by (force simp: statuses_def)
  qed simp
  from assms show "x = SsInFlight" if "(stepId, x) \<in> set (statuses d')"
  proof (cases rule: dispatchE)
    case (sends incident c run attempt step alloc companion t policy p)
    from that obtain s where s: "s \<in> set (ct_steps (tb_cloud d'))" "st_id s = stepId" "st_status s = x" by (auto simp: statuses_def)
    with dispatched_steps [OF s(1) [unfolded sends(12)] s(2)] show ?thesis by simp
  qed simp
  from assms show "le_unresolvedStepId l = Some stepId" if "l \<in> set (ct_leases (tb_cloud d'))" "le_physicalKey l = lh_physicalKey lease"
  proof (cases rule: dispatchE)
    case (sends incident c run attempt step alloc companion t policy p)
    show ?thesis by (rule dispatched_leases [OF that(1) [unfolded sends(12)] that(2)])
  qed simp
qed

text \<open>What an unanswered call leaves of the steps and of the open writes.\<close>

definition same_writes :: "Database \<Rightarrow> Database \<Rightarrow> bool" where
  "same_writes d d' = (statuses d' = statuses d \<and> lease_view d' = lease_view d)"

lemma same_writes_refl [simp]: "same_writes d d"
  by (simp add: same_writes_def)

lemma same_writes_trans: "same_writes d d1 \<Longrightarrow> same_writes d1 d2 \<Longrightarrow> same_writes d d2"
  by (simp add: same_writes_def)

lemma pause_same_writes: "pause env now i code retryAfterMs d = Inr (d', u) \<Longrightarrow> same_writes d d'"
  unfolding pause_def by (erule storeTransaction_Inr) (auto simp: bindE_eq_Inr same_writes_def pauseIn_parts)

lemma release_same_writes: "same_writes d (release now lease d)"
  by (simp add: same_writes_def release_def releaseRotationLease_def statuses_def lease_view_def map_update_rows)

lemma uncertain_same_writes: "same_writes d (uncertain_rejection now incident stepId code d)"
  by (simp add: same_writes_def uncertain_rejection_def parts) (simp add: statuses_def lease_view_def map_update_rows)

lemma reject_same_writes: "reject env now i stepId code False retryAfterMs fence d = Inr (d', u) \<Longrightarrow> same_writes d d'"
  unfolding reject_def by (erule storeTransaction_Inr) (auto simp: uncertain_same_writes split: if_splits option.splits)

lemma in_tx_same_writes:
  assumes "\<And>now d0 d1 x. f now d0 = Inr (d1, x) \<Longrightarrow> same_writes d0 d1" and "rw_others w = (\<lambda>_ x. x)"
  shows "same_writes d (fst (in_tx w n f d))"
  using assms by (auto simp: in_tx_def Let_def split: sum.splits prod.splits)

lemma closing_same_writes:
  assumes "rw_others w = (\<lambda>_ x. x)"
  shows "same_writes d (closing env w i lease e d)"
proof -
  have "same_writes d (case e of None \<Rightarrow> d | Some x \<Rightarrow> fst (in_tx w 8 (\<lambda>now. pause env now i (safeError x) (retry_delay x)) d))"
    by (cases e) (auto intro: in_tx_same_writes assms pause_same_writes)
  then show ?thesis unfolding closing_def in_update_def assms by (rule same_writes_trans) (rule release_same_writes)
qed

lemma uncertain_call_same_writes:
  assumes "rw_others w = (\<lambda>_ x. x)" and "rw_execute w plan = Inl err" and "\<not> no_effect err"
  shows "same_writes d (fst (after_call env w i lease stepId plan d))"
proof -
  have "fst (after_call env w i lease stepId plan d)
      = fst (in_tx w 4 (\<lambda>now. reject env now i stepId (safeError err) False (retry_delay err) (Some (Some (lh_revision lease)))) d)"
    using assms(2,3) by (auto simp: after_call_def Let_def split: sum.splits prod.splits)
  then show ?thesis using in_tx_same_writes [OF reject_same_writes assms(1)] by simp
qed

text \<open>C0: When a call of the cloud fails in a way that does not prove that it had no effect (it timed out, or the error is not one of the
  known refusals), the run that made it leaves the step in flight and every row of the machine's lease waiting for it: the step is
  observed later, not sent again.\<close>

theorem uncertain_call_stays_open:
  assumes run: "runRotation env w i d = (d', Some plan, e)" and quiet: "rw_others w = (\<lambda>_ x. x)"
    and call: "rw_execute w plan = Inl err" "\<not> no_effect err"
  shows "\<exists>lease stepId. (\<exists>s \<in> set (ct_steps (tb_cloud d')). st_id s = stepId \<and> st_status s = SsInFlight)
    \<and> (\<forall>s \<in> set (ct_steps (tb_cloud d')). st_id s = stepId \<longrightarrow> st_status s = SsInFlight)
    \<and> (\<forall>l \<in> set (ct_leases (tb_cloud d')). le_physicalKey l = lh_physicalKey lease \<longrightarrow> le_unresolvedStepId l = Some stepId)
    \<and> (\<exists>now d1 d2. reach env w d d1 \<and> claim env now i (rw_holder w) d1 = Inr (d2, Some lease))"
  using run
proof (cases rule: runRotation_sent)
  case (1 lease run stepId d0 d1 d2 d3 e')
  have same: "same_writes d3 d'" unfolding 1
    by (rule same_writes_trans [OF uncertain_call_same_writes [OF quiet call] closing_same_writes [OF quiet]])
  note status = dispatched_status [OF 1(3)]
  have "(stepId, SsInFlight) \<in> set (statuses d')" "\<forall>x. (stepId, x) \<in> set (statuses d') \<longrightarrow> x = SsInFlight"
    using same status(1,2) by (auto simp: same_writes_def)
  then have "\<exists>s \<in> set (ct_steps (tb_cloud d')). st_id s = stepId \<and> st_status s = SsInFlight"
    "\<forall>s \<in> set (ct_steps (tb_cloud d')). st_id s = stepId \<longrightarrow> st_status s = SsInFlight"
    by (auto simp: statuses_def image_iff) metis
  moreover have "\<forall>l \<in> set (ct_leases (tb_cloud d')). le_physicalKey l = lh_physicalKey lease \<longrightarrow> le_unresolvedStepId l = Some stepId"
  proof (intro ballI impI)
    fix l assume l: "l \<in> set (ct_leases (tb_cloud d'))" "le_physicalKey l = lh_physicalKey lease"
    then have "(lh_physicalKey lease, le_revision l, le_unresolvedStepId l) \<in> set (lease_view d')" unfolding lease_view_def by force
    then have "(lh_physicalKey lease, le_revision l, le_unresolvedStepId l) \<in> set (lease_view d3)"
      using same by (simp add: same_writes_def)
    with status(3) show "le_unresolvedStepId l = Some stepId" by (auto simp: lease_view_def)
  qed
  moreover have "claim env (rw_now w 0) i (rw_holder w) d0 = Inr (d1, Some lease)"
    using 1(2) quiet by (auto simp: in_tx_def split: sum.splits prod.splits)
  ultimately show ?thesis using 1 by blast
qed

section \<open>A run that times out\<close>

definition idle_machine :: Database where
  "idle_machine = demo_ready\<lparr>tb_cloud := (tb_cloud demo_ready)\<lparr>ct_leases := [\<lparr>le_physicalKey = ''1234/us-west-2/i-1'', le_revision = 0,
     le_holder = None, le_expiresAt = 0, le_incidentId = Some ''inc1'', le_unresolvedStepId = None\<rparr>]\<rparr>\<rparr>"

definition timeout_publish :: PublishWorld where
  "timeout_publish = \<lparr>pw_env = \<lparr>pv_physicalKey = plain_key, pv_now = (\<lambda>_. 4000), pv_others = (\<lambda>_ d. d), pv_holder = ''w2'',
       pv_ids = \<lparr>pi_publication = ''pub9'', pi_address = id, pi_intent = id, pi_event = id\<rparr>, pv_live = Inl CallTimeout\<rparr>,
     pw_observeNow = 4000, pw_observeOthers = id, pw_reset = (\<lambda>_ d. (d, False))\<rparr>"

definition timeout_world :: RotationWorld where
  "timeout_world = \<lparr>rw_now = (\<lambda>n. if n = 0 then 2000 else 4000), rw_others = (\<lambda>_ d. d), rw_holder = ''w1'', rw_ids = demo_ids,
     rw_reset = (\<lambda>_ d. (d, False)), rw_supported = (\<lambda>_. True), rw_planFault = (\<lambda>_. False), rw_adapter = (\<lambda>_. Inr True),
     rw_observe = (\<lambda>_. Inl CallTimeout), rw_inspect = Inl CallTimeout, rw_execute = (\<lambda>_. Inl CallTimeout), rw_publish = timeout_publish,
     rw_cleanup = \<lparr>ce_physicalKey = plain_key, ce_isIP = (\<lambda>_. 4), ce_sameInet = (=), ce_planCleanup = (\<lambda>_ _ _. Inr []), ce_iso = (\<lambda>_. []),
       ce_referenced = (\<lambda>_ _. False)\<rparr>\<rparr>"

definition timed_out :: "Database \<times> CloudStep option \<times> run_error option" where
  "timed_out = runRotation demo_store timeout_world ''inc1'' idle_machine"

lemma timeout_claimed: "claim demo_store 2000 ''inc1'' ''w1'' idle_machine = Inr (demo_ready, Some demo_lease)"
proof -
  have "find_incident idle_machine ''inc1'' = Some demo_incident" by code_simp
  moreover have "case lockRotationContext (ne_physicalKey demo_store) (tb_cloud idle_machine) (ri_slotId demo_incident) of
      Inr c \<Rightarrow> cx_physicalKey c = ''1234/us-west-2/i-1'' | Inl _ \<Rightarrow> False" by code_simp
  then obtain c where "lockRotationContext (ne_physicalKey demo_store) (tb_cloud idle_machine) (ri_slotId demo_incident) = Inr c"
      "cx_physicalKey c = ''1234/us-west-2/i-1''" by (auto split: sum.splits)
  moreover have "acquireRotationLease 2000 ''1234/us-west-2/i-1'' ''w1'' (tb_cloud idle_machine) = (tb_cloud demo_ready, Some demo_lease)"
    by (simp add: acquireRotationLease_def insert_lease_def set_lease_def find_lease_def select_one_def update_where_def Let_def
      idle_machine_def demo_lease_def demo_ready_def)
  moreover have "find_lease ''1234/us-west-2/i-1'' (tb_cloud demo_ready)
      = Some \<lparr>le_physicalKey = ''1234/us-west-2/i-1'', le_revision = 1, le_holder = Some ''w1'', le_expiresAt = 47000,
          le_incidentId = Some ''inc1'', le_unresolvedStepId = None\<rparr>"
    by (simp add: find_lease_def select_one_def demo_ready_def)
  moreover have "ri_status demo_incident \<noteq> IncComplete" by (simp add: demo_incident_def)
  moreover have "set_cloud (\<lambda>_. tb_cloud demo_ready) idle_machine = demo_ready"
    by (simp add: set_cloud_def idle_machine_def demo_ready_def)
  ultimately show ?thesis by (simp add: claim_def)
qed

lemma timeout_readRun: "readRun demo_store 4000 ''inc1'' demo_lease demo_ready = Inr (demo_ready, demo_run_now)"
  using demo_find demo_lock demo_snapshot by (simp add: readRun_def storeTransaction_def) (simp add: demo_incident_def)

lemma timeout_action:
  "ri_terminatedAt (ru_incident demo_run_now) = None" "ri_phase (ru_incident demo_run_now) = CloudPhase"
  "ru_action demo_run_now = ExecuteCloudStep ''att1'' ''st1''" "identity_of demo_run_now = demo_identity"
  by code_simp+

lemma run_sends:
  assumes "rw_reset w i d = (d0, False)" "in_tx w 0 (\<lambda>now. claim env now i (rw_holder w)) d0 = (d1, Inr (Some lease))"
  shows "fst (snd (runRotation env w i d)) = fst (snd (drive env w i lease d1))"
  using assms by (simp add: runRotation_def Let_def split: prod.split)

lemma timed_out_sends: "fst (snd timed_out) \<noteq> None"
proof -
  obtain d plan where sent: "dispatch demo_store 4000 ''inc1'' demo_lease ''st1'' demo_identity demo_ready = Inr (d, Some plan)"
    using demo_dispatch by blast
  note w = timeout_world_def in_tx_def in_update_def Let_def adapter_ready_def
  have "fst (snd (executeStep demo_store timeout_world ''inc1'' demo_lease ''st1'' demo_identity demo_ready)) = Some plan"
    using sent by (simp add: executeStep_def w split: sum.split prod.split)
  then have driven: "fst (snd (drive demo_store timeout_world ''inc1'' demo_lease demo_ready)) = Some plan"
    using timeout_readRun timeout_action by (simp add: drive_def cloudPhase_def w)
  have "fst (snd timed_out) = fst (snd (drive demo_store timeout_world ''inc1'' demo_lease demo_ready))"
    unfolding timed_out_def
    by (rule run_sends [of _ _ _ idle_machine]) (use timeout_claimed in \<open>simp_all add: timeout_world_def in_tx_def\<close>)
  with driven show ?thesis by simp
qed

theorem worker_run_composed_witness:
  "reach demo_store timeout_world idle_machine (fst timed_out)"
  by (rule worker_run_composed [of _ _ "''inc1''" _ _ "fst (snd timed_out)" "snd (snd timed_out)"]) (simp add: timed_out_def)

theorem uncertain_call_stays_open_witness:
  "\<exists>s \<in> set (ct_steps (tb_cloud (fst timed_out))). st_status s = SsInFlight"
proof -
  obtain plan where "fst (snd timed_out) = Some plan" using timed_out_sends by auto
  then have "runRotation demo_store timeout_world ''inc1'' idle_machine = (fst timed_out, Some plan, snd (snd timed_out))"
    by (simp add: timed_out_def prod_eq_iff)
  from uncertain_call_stays_open [OF this, of CallTimeout] show ?thesis by (auto simp: timeout_world_def no_effect_def)
qed

end
