(* ===== verification/Spec2Isabelle.thy ===== *)
theory Spec2Isabelle
  imports Strategy Rotation_Machine Zone_Lock Aliyun_Dns Rotation_Api Reconcile Store_Safety Cleanup_Safety Ddns_Safety Rotation_Worker
begin

text \<open>
  MasterDNS: a verification library.
\<close>

end
